(* ===== verification/Prelude.thy ===== *)
theory Prelude
  imports Main
begin

text \<open>
  Shared vocabulary of the development: the Go error values of the service as one datatype, the
  result type \<open>'a result\<close> that models a Go pair \<open>(value, error)\<close>, table scans over
  lists of rows, and the two locales every stateful component uses:
  \<^item> \<open>guarded_update\<close>: a transactional operation that either fails and leaves the state as it
    was, or succeeds and keeps an invariant;
  \<^item> \<open>invariant_system\<close>: a step relation with an initial predicate and an inductive
    invariant, giving the invariant in every reachable state.
\<close>

section \<open>Collections\<close>

named_theorems result_simps
named_theorems go_string_simps
named_theorems row_simps

section \<open>Errors and results\<close>

text \<open>
  One constructor per sentinel error the modelled code returns. A Go error built with
  \<^verbatim>\<open>fmt.Errorf("%w: ...", Sentinel)\<close> satisfies \<^verbatim>\<open>errors.Is\<close> for that sentinel, so it is
  modelled by the sentinel; the human readable text is dropped.
\<close>

datatype app_error =
    ErrNotFound
  | ErrVersionConflict
  | ErrStateConflict
  | ErrForbidden
  | ErrValidation
  | ErrInvalidStatus
  | ErrInvalidTransition
  | ErrInvalidExpression
  | ErrInvalidNumberRule
  | ErrNumberExhausted
  | ErrNumberConflict
  | ErrPaymentTermsInvalid
  | ErrImportPolicy
  | ErrImportManifest
  | ErrImportMixedLifecycle
  | ErrImportUnsupported
  | ErrContractSourceConflict
  | ErrFinancialChangeApprovalRequired
  | ErrFinancialChangeCurrencyLocked
  | ErrFinancialChangeEventNotQueued
  | ErrFinancialChangeDisabled
  | ErrApprovalTargetForbidden
  | ErrApprovalAssigneeUnavailable
  | ErrPersonnelDirectoryUnavailable
  | ErrLicenseRestricted
  | ErrApprovalWorkflowUnavailable
  | ErrDetectionCategoryDirectoryUnavailable
  | ErrOpportunityLinkRejected
  | ErrImportCorrectionRequired
  | ErrLocalCatalogUnavailable
  | ErrLocalReferenceInvalid
  | ErrCRMReferenceDirectoryUnavailable
  | ErrCRMActorContextRequired
  | ErrHandoverValidation
  | ErrHandoverConflict
  | ErrHandoverNotFound
  | ErrHandoverFrozen
  | ErrWorkflowInput string
  | ErrCommand string
  | ErrStorage string

type_synonym 'a result = "app_error + 'a"

abbreviation ok :: "'a \<Rightarrow> 'a result" where
  "ok \<equiv> Inr"

abbreviation fail :: "app_error \<Rightarrow> 'a result" where
  "fail \<equiv> Inl"

text \<open>Sequencing of Go's \<^verbatim>\<open>if err != nil { return err }\<close>.\<close>

definition res_bind :: "'a result \<Rightarrow> ('a \<Rightarrow> 'b result) \<Rightarrow> 'b result" where
  "res_bind r f = (case r of Inl e \<Rightarrow> Inl e | Inr x \<Rightarrow> f x)"

definition is_ok :: "'a result \<Rightarrow> bool" where
  "is_ok r = (case r of Inl e \<Rightarrow> False | Inr x \<Rightarrow> True)"

lemma res_bind_simps [simp, result_simps]:
  "res_bind (Inl e) f = Inl e"
  "res_bind (Inr x) f = f x"
  by (simp_all add: res_bind_def)

lemma res_bind_eq_ok [result_simps]:
  "res_bind r f = Inr y \<longleftrightarrow> (\<exists>x. r = Inr x \<and> f x = Inr y)"
  by (auto simp: res_bind_def split: sum.splits)

lemma res_bind_eq_fail [result_simps]:
  "res_bind r f = Inl e \<longleftrightarrow> r = Inl e \<or> (\<exists>x. r = Inr x \<and> f x = Inl e)"
  by (auto simp: res_bind_def split: sum.splits)

lemma is_ok_simps [simp]: "is_ok (Inl e) = False" "is_ok (Inr x) = True"
  by (simp_all add: is_ok_def)

lemma if_fail_eq_ok [result_simps]:
  "(if b then Inl e else r) = Inr y \<longleftrightarrow> \<not> b \<and> r = Inr y"
  by simp

lemma if_fail_eq_fail [result_simps]:
  "(if b then Inl e else r) = Inl e' \<longleftrightarrow> (b \<and> e' = e) \<or> (\<not> b \<and> r = Inl e')"
  by auto

section \<open>Lists and tables\<close>

text \<open>
  A table is a list of rows. \<open>first_row\<close> is a query with \<^verbatim>\<open>Take\<close>, \<open>update_rows\<close> an
  \<^verbatim>\<open>UPDATE ... WHERE\<close> and \<open>rows_affected\<close> its row count.
\<close>

definition first_row :: "('r \<Rightarrow> bool) \<Rightarrow> 'r list \<Rightarrow> 'r option" where
  "first_row p rows = List.find p rows"

definition update_rows :: "('r \<Rightarrow> bool) \<Rightarrow> ('r \<Rightarrow> 'r) \<Rightarrow> 'r list \<Rightarrow> 'r list" where
  "update_rows p f rows = map (\<lambda>r. if p r then f r else r) rows"

definition rows_affected :: "('r \<Rightarrow> bool) \<Rightarrow> 'r list \<Rightarrow> nat" where
  "rows_affected p rows = length (filter p rows)"

definition value_or_empty :: "string option \<Rightarrow> string" where
  "value_or_empty v = (case v of None \<Rightarrow> [] | Some s \<Rightarrow> s)"

definition uint_value_or_zero :: "nat option \<Rightarrow> nat" where
  "uint_value_or_zero v = (case v of None \<Rightarrow> 0 | Some n \<Rightarrow> n)"

definition string_ptr :: "string \<Rightarrow> string option" where
  "string_ptr s = (if s = [] then None else Some s)"

definition uint_ptr :: "nat \<Rightarrow> nat option" where
  "uint_ptr n = (if n = 0 then None else Some n)"

text \<open>Order-preserving removal of empty and repeated strings, as the code does with a seen set.\<close>

fun unique_from :: "string list \<Rightarrow> string list \<Rightarrow> string list" where
  "unique_from seen [] = []"
| "unique_from seen (v # vs) =
     (if v = [] \<or> v \<in> set seen then unique_from seen vs
      else v # unique_from (v # seen) vs)"

definition unique_strings :: "string list \<Rightarrow> string list" where
  "unique_strings vs = unique_from [] vs"

lemma value_or_empty_simps [simp]:
  "value_or_empty None = []" "value_or_empty (Some s) = s"
  by (simp_all add: value_or_empty_def)

lemma value_or_empty_string_ptr [simp]: "value_or_empty (string_ptr s) = s"
  by (simp add: string_ptr_def)

lemma uint_value_or_zero_uint_ptr [simp]: "uint_value_or_zero (uint_ptr n) = n"
  by (simp add: uint_ptr_def uint_value_or_zero_def)

lemma first_row_SomeD:
  assumes "first_row p rows = Some r"
  shows "r \<in> set rows" and "p r"
  using assms by (auto simp: first_row_def find_Some_iff in_set_conv_nth)

lemma first_row_None: "first_row p rows = None \<longleftrightarrow> (\<forall>r \<in> set rows. \<not> p r)"
  by (auto simp: first_row_def find_None_iff)

lemma first_row_simps [simp]:
  "first_row p [] = None"
  "first_row p (r # rows) = (if p r then Some r else first_row p rows)"
  by (simp_all add: first_row_def)

lemma update_rows_simps [simp]:
  "update_rows p f [] = []"
  "update_rows p f (r # rows) = (if p r then f r else r) # update_rows p f rows"
  by (simp_all add: update_rows_def)

lemma length_update_rows [simp]: "length (update_rows p f rows) = length rows"
  by (simp add: update_rows_def)

lemma set_update_rows:
  "set (update_rows p f rows) = {f r |r. r \<in> set rows \<and> p r} \<union> {r \<in> set rows. \<not> p r}"
  by (auto simp: update_rows_def)

lemma map_update_rows [row_simps]:
  "(\<And>r. p r \<Longrightarrow> g (f r) = g r) \<Longrightarrow> map g (update_rows p f rows) = map g rows"
  by (simp add: update_rows_def)

lemma first_row_update_rows:
  assumes "\<And>r. p r \<Longrightarrow> q (f r) = q r"
  shows "first_row q (update_rows p f rows) =
    map_option (\<lambda>r. if p r then f r else r) (first_row q rows)"
  using assms by (induction rows) auto

lemma first_row_append:
  "first_row p (xs @ ys) = (case first_row p xs of None \<Rightarrow> first_row p ys | Some r \<Rightarrow> Some r)"
  by (induction xs) auto

lemma rows_affected_0: "rows_affected p rows = 0 \<longleftrightarrow> first_row p rows = None"
  by (induction rows) (auto simp: rows_affected_def)

lemma rows_affected_pos: "r \<in> set rows \<Longrightarrow> p r \<Longrightarrow> 0 < rows_affected p rows"
  by (auto simp: rows_affected_def filter_empty_conv)

lemma set_unique_from: "set (unique_from seen vs) = set vs - ({[]} \<union> set seen)"
  by (induction seen vs rule: unique_from.induct) auto

lemma distinct_unique_from: "distinct (unique_from seen vs)"
  by (induction seen vs rule: unique_from.induct) (auto simp: set_unique_from)

lemma set_unique_strings [simp]: "set (unique_strings vs) = set vs - {[]}"
  by (simp add: unique_strings_def set_unique_from)

lemma distinct_unique_strings [simp]: "distinct (unique_strings vs)"
  by (simp add: unique_strings_def distinct_unique_from)

lemma unique_from_id: "distinct vs \<Longrightarrow> [] \<notin> set vs \<Longrightarrow> set vs \<inter> set seen = {} \<Longrightarrow>
    unique_from seen vs = vs"
  by (induction seen vs rule: unique_from.induct) auto

lemma unique_strings_idem [simp]: "unique_strings (unique_strings vs) = unique_strings vs"
  using unique_from_id [of "unique_strings vs" "[]"]
  by (simp add: unique_strings_def [of "unique_strings vs"])

section \<open>Integers\<close>

definition min_int64 :: int where "min_int64 = - (2 ^ 63)"

definition max_int64 :: int where "max_int64 = 2 ^ 63 - 1"

text \<open>Go's integer division and remainder by a positive divisor round towards zero.\<close>

definition go_quot :: "int \<Rightarrow> int \<Rightarrow> int" where
  "go_quot m d = (if m < 0 then - ((- m) div d) else m div d)"

definition go_rem :: "int \<Rightarrow> int \<Rightarrow> int" where
  "go_rem m d = (if m < 0 then - ((- m) mod d) else m mod d)"

lemma go_div_nonneg [simp]:
  "0 \<le> m \<Longrightarrow> go_quot m d = m div d" "0 \<le> m \<Longrightarrow> go_rem m d = m mod d"
  by (simp_all add: go_quot_def go_rem_def)

section \<open>Interfaces shared by the stateful components\<close>

text \<open>
  A transactional operation: \<open>run\<close> takes an input and a state; on failure the caller keeps the
  old state (the transaction is rolled back), so only successes have to keep \<open>inv\<close>.
\<close>

definition commit :: "('i \<Rightarrow> 's \<Rightarrow> 's result) \<Rightarrow> 'i \<Rightarrow> 's \<Rightarrow> 's" where
  "commit run i s = (case run i s of Inl e \<Rightarrow> s | Inr t \<Rightarrow> t)"

fun commits :: "('i \<Rightarrow> 's \<Rightarrow> 's result) \<Rightarrow> 'i list \<Rightarrow> 's \<Rightarrow> 's" where
  "commits run [] s = s"
| "commits run (i # is) s = commits run is (commit run i s)"

locale guarded_update =
  fixes run :: "'i \<Rightarrow> 's \<Rightarrow> 's result"
    and inv :: "'s \<Rightarrow> bool"
  assumes run_inv: "inv s \<Longrightarrow> run i s = Inr t \<Longrightarrow> inv t"
begin

lemma commit_inv: "inv s \<Longrightarrow> inv (commit run i s)"
  by (auto simp: commit_def split: sum.splits intro: run_inv)

lemma commits_inv: "inv s \<Longrightarrow> inv (commits run is s)"
  by (induction "is" arbitrary: s) (auto intro: commit_inv)

end

text \<open>A step relation with an inductive invariant.\<close>

inductive reach :: "('s \<Rightarrow> bool) \<Rightarrow> ('s \<Rightarrow> 's \<Rightarrow> bool) \<Rightarrow> 's \<Rightarrow> bool" for init step where
  reach_init: "init s \<Longrightarrow> reach init step s"
| reach_step: "reach init step s \<Longrightarrow> step s t \<Longrightarrow> reach init step t"

locale invariant_system =
  fixes init :: "'s \<Rightarrow> bool"
    and step :: "'s \<Rightarrow> 's \<Rightarrow> bool"
    and inv :: "'s \<Rightarrow> bool"
  assumes init_inv: "init s \<Longrightarrow> inv s"
    and step_inv: "inv s \<Longrightarrow> step s t \<Longrightarrow> inv t"
begin

lemma reach_inv: "reach init step s \<Longrightarrow> inv s"
  by (induction rule: reach.induct) (auto intro: init_inv step_inv)

end

end
