(* ===== verification/Contract_Status.thy ===== *)
theory Contract_Status
  imports Prelude
begin

text \<open>
  The contract life cycle of \<^verbatim>\<open>internal/domain/contract/status.go\<close>: the nine named states of the
  string type \<^verbatim>\<open>Status\<close> (any other string is \<open>StatusOther\<close>), the transition table and the
  predicates the rest of the program derives from it.
\<close>

datatype status =
    StatusDraft | StatusPending | StatusApproved | StatusActive | StatusInProgress
  | StatusPendingPay | StatusCompleted | StatusTerminated | StatusArchived
  | StatusOther string

definition named_statuses :: "status list" where
  "named_statuses =
     [StatusDraft, StatusPending, StatusApproved, StatusActive, StatusInProgress,
      StatusPendingPay, StatusCompleted, StatusTerminated, StatusArchived]"

fun status_string :: "status \<Rightarrow> string" where
  "status_string StatusDraft = ''draft''"
| "status_string StatusPending = ''pending''"
| "status_string StatusApproved = ''approved''"
| "status_string StatusActive = ''active''"
| "status_string StatusInProgress = ''in_progress''"
| "status_string StatusPendingPay = ''pending_pay''"
| "status_string StatusCompleted = ''completed''"
| "status_string StatusTerminated = ''terminated''"
| "status_string StatusArchived = ''archived''"
| "status_string (StatusOther s) = s"

definition status_of_string :: "string \<Rightarrow> status" where
  "status_of_string s =
     (case List.find (\<lambda>st. status_string st = s) named_statuses of
        Some st \<Rightarrow> st | None \<Rightarrow> StatusOther s)"

text \<open>The map of maps \<^verbatim>\<open>transitions\<close>: \<open>None\<close> is a missing key.\<close>

fun transitions :: "status \<Rightarrow> status list option" where
  "transitions StatusDraft = Some [StatusPending]"
| "transitions StatusPending = Some [StatusDraft, StatusApproved]"
| "transitions StatusApproved = Some [StatusActive]"
| "transitions StatusActive = Some [StatusInProgress, StatusTerminated, StatusArchived]"
| "transitions StatusInProgress =
     Some [StatusPendingPay, StatusCompleted, StatusTerminated, StatusArchived]"
| "transitions StatusPendingPay = Some [StatusCompleted, StatusTerminated, StatusArchived]"
| "transitions StatusCompleted = Some [StatusArchived]"
| "transitions StatusTerminated = Some [StatusArchived]"
| "transitions StatusArchived = Some []"
| "transitions (StatusOther s) = None"

definition valid_status :: "status \<Rightarrow> bool" where
  "valid_status s = (transitions s \<noteq> None)"

definition terminal :: "status \<Rightarrow> bool" where
  "terminal s = (s = StatusArchived)"

fun approval_passed :: "status \<Rightarrow> bool" where
  "approval_passed StatusApproved = True"
| "approval_passed StatusActive = True"
| "approval_passed StatusInProgress = True"
| "approval_passed StatusPendingPay = True"
| "approval_passed StatusCompleted = True"
| "approval_passed StatusTerminated = True"
| "approval_passed StatusArchived = True"
| "approval_passed _ = False"

definition approval_passed_statuses :: "status list" where
  "approval_passed_statuses =
     [StatusApproved, StatusActive, StatusInProgress, StatusPendingPay, StatusCompleted,
      StatusTerminated, StatusArchived]"

definition expiry_statuses :: "status list" where
  "expiry_statuses = [StatusActive, StatusInProgress, StatusPendingPay]"

fun expiry_scan :: "status \<Rightarrow> status list \<Rightarrow> bool" where
  "expiry_scan s [] = False"
| "expiry_scan s (c # cs) = (if s = c then True else expiry_scan s cs)"

definition expiry_tracked :: "status \<Rightarrow> bool" where
  "expiry_tracked s = expiry_scan s expiry_statuses"

fun requires_approval :: "status \<Rightarrow> bool" where
  "requires_approval StatusInProgress = True"
| "requires_approval StatusPendingPay = True"
| "requires_approval StatusTerminated = True"
| "requires_approval StatusArchived = True"
| "requires_approval _ = False"

definition can_transition :: "status \<Rightarrow> status \<Rightarrow> bool" where
  "can_transition from to =
     (case transitions from of None \<Rightarrow> False | Some allowed \<Rightarrow> to \<in> set allowed)"

definition validate_transition :: "status \<Rightarrow> status \<Rightarrow> unit result" where
  "validate_transition from to =
     (if \<not> valid_status from \<or> \<not> valid_status to then fail ErrInvalidStatus
      else if \<not> can_transition from to then fail ErrInvalidTransition
      else ok ())"

section \<open>Basic facts\<close>

lemma status_of_string_named: "s \<in> set named_statuses \<Longrightarrow> status_of_string (status_string s) = s"
  by (cases s) (simp_all add: status_of_string_def named_statuses_def)

lemma status_string_of_string: "status_string (status_of_string s) = s"
  by (auto simp: status_of_string_def find_Some_iff split: option.splits)

lemma valid_status_named: "valid_status s \<longleftrightarrow> s \<in> set named_statuses"
  by (cases s) (auto simp: valid_status_def named_statuses_def)

lemma can_transition_valid: "can_transition a b \<Longrightarrow> valid_status a \<and> valid_status b"
  by (cases a) (auto simp: can_transition_def valid_status_def)

lemma validate_transition_ok [simp]:
  "validate_transition a b = Inr u \<longleftrightarrow> can_transition a b"
  by (auto simp: validate_transition_def dest: can_transition_valid)

lemma expiry_tracked_iff: "expiry_tracked s \<longleftrightarrow> s \<in> set expiry_statuses"
  by (simp add: expiry_tracked_def expiry_statuses_def)

lemma approval_passed_iff: "approval_passed s \<longleftrightarrow> s \<in> set approval_passed_statuses"
  by (cases s) (auto simp: approval_passed_statuses_def)

text \<open>How far a contract has come. The only step of the table that goes back is the return of a
  rejected or withdrawn submission from \<open>pending\<close> to \<open>draft\<close>.\<close>

fun stage :: "status \<Rightarrow> nat" where
  "stage StatusDraft = 0"
| "stage StatusPending = 1"
| "stage StatusApproved = 2"
| "stage StatusActive = 3"
| "stage StatusInProgress = 4"
| "stage StatusPendingPay = 5"
| "stage StatusCompleted = 6"
| "stage StatusTerminated = 6"
| "stage StatusArchived = 7"
| "stage (StatusOther s) = 0"

lemma can_transition_stage:
  "can_transition a b \<Longrightarrow> stage a < stage b \<or> (a = StatusPending \<and> b = StatusDraft)"
  by (cases a) (auto simp: can_transition_def)

lemma can_transition_passed:
  "can_transition a b \<Longrightarrow> approval_passed a \<Longrightarrow> approval_passed b \<and> stage a < stage b"
  by (cases a) (auto simp: can_transition_def)

lemma can_transition_into_passed:
  "can_transition a b \<Longrightarrow> approval_passed b \<Longrightarrow> \<not> approval_passed a \<Longrightarrow>
     a = StatusPending \<and> b = StatusApproved"
  by (cases a) (auto simp: can_transition_def)

lemma can_transition_archived [simp]: "\<not> can_transition StatusArchived b"
  by (simp add: can_transition_def)

section \<open>The life cycle as a step relation\<close>

inductive lifecycle_step :: "status \<Rightarrow> status \<Rightarrow> bool" where
  "validate_transition from to = Inr () \<Longrightarrow> lifecycle_step from to"

inductive_simps lifecycle_step_iff: "lifecycle_step a b"

fun lifecycle_path :: "status list \<Rightarrow> bool" where
  "lifecycle_path [] = True"
| "lifecycle_path [s] = True"
| "lifecycle_path (s # t # ss) = (lifecycle_step s t \<and> lifecycle_path (t # ss))"

definition lifecycle_init :: "status \<Rightarrow> bool" where
  "lifecycle_init s = (s = StatusDraft)"

interpretation lifecycle: invariant_system lifecycle_init lifecycle_step valid_status
  by unfold_locales
    (auto simp: lifecycle_init_def lifecycle_step_iff valid_status_def dest: can_transition_valid)

lemma lifecycle_path_passed_sorted:
  "lifecycle_path (s # ss) \<Longrightarrow> approval_passed s \<Longrightarrow>
     (\<forall>t \<in> set ss. approval_passed t \<and> stage s < stage t) \<and> length ss + stage s \<le> 7"
proof (induction ss arbitrary: s)
  case Nil
  then show ?case by (cases s) auto
next
  case (Cons t ts)
  from Cons.prems have st: "can_transition s t" by (simp add: lifecycle_step_iff)
  with Cons.prems(2) have t: "approval_passed t" "stage s < stage t"
    using can_transition_passed by blast+
  from Cons.prems(1) have "lifecycle_path (t # ts)" by simp
  from Cons.IH [OF this t(1)] t show ?case by auto
qed

lemma lifecycle_path_via_approved:
  "lifecycle_path (s # ss) \<Longrightarrow> \<not> approval_passed s \<Longrightarrow> approval_passed (last (s # ss)) \<Longrightarrow>
     StatusApproved \<in> set ss"
proof (induction ss arbitrary: s)
  case Nil
  then show ?case by simp
next
  case (Cons t ts)
  then have st: "can_transition s t" "lifecycle_path (t # ts)" "approval_passed (last (t # ts))"
    by (simp_all add: lifecycle_step_iff)
  show ?case
  proof (cases "approval_passed t")
    case True
    with can_transition_into_passed [OF st(1)] Cons.prems(2) show ?thesis by simp
  next
    case False
    with Cons.IH [OF st(2)] st(3) show ?thesis by simp
  qed
qed

section \<open>Properties\<close>



text \<open>validation of a transition returns one of exactly three outcomes: an unknown status is
  reported first, then a pair that is not in the table; otherwise it succeeds. Archived is the only
  valid state without successors, and every valid state that is not archived can move on.\<close>

theorem validate_transition_cases:
  "(validate_transition a b = Inl ErrInvalidStatus \<longleftrightarrow>
      \<not> (a \<in> set named_statuses \<and> b \<in> set named_statuses)) \<and>
   (validate_transition a b = Inl ErrInvalidTransition \<longleftrightarrow>
      a \<in> set named_statuses \<and> b \<in> set named_statuses \<and> \<not> can_transition a b) \<and>
   (validate_transition a b = Inr () \<longleftrightarrow> can_transition a b) \<and>
   (a \<in> set named_statuses \<and> (\<forall>c. validate_transition a c \<noteq> Inr ()) \<longleftrightarrow> terminal a)"
proof -
  have succ: "\<exists>c. can_transition a c" if "valid_status a" "a \<noteq> StatusArchived"
    using that by (cases a) (auto simp: can_transition_def valid_status_def)
  have arch: "valid_status StatusArchived" by (simp add: valid_status_def)
  have "valid_status a \<and> (\<forall>c. validate_transition a c \<noteq> Inr ()) \<longleftrightarrow> terminal a"
    using succ arch by (auto simp: terminal_def)
  moreover have "validate_transition a b = Inl ErrInvalidStatus \<longleftrightarrow>
      \<not> (valid_status a \<and> valid_status b)"
    by (simp add: validate_transition_def)
  moreover have "validate_transition a b = Inl ErrInvalidTransition \<longleftrightarrow>
      valid_status a \<and> valid_status b \<and> \<not> can_transition a b"
    by (auto simp: validate_transition_def)
  ultimately show ?thesis
    unfolding valid_status_named [symmetric] by (intro conjI) (assumption | simp)+
qed

end
