(* ===== verification/Go_Strings.thy ===== *)
theory Go_Strings
  imports Prelude
begin

text \<open>
  The parts of Go's string library that the program uses. A Go string is a byte sequence, so it is
  modelled by \<^typ>\<open>string\<close> with every \<^typ>\<open>char\<close> a byte: \<^verbatim>\<open>len(s)\<close> is \<open>length s\<close>,
  \<^verbatim>\<open>[]rune(s)\<close> is \<open>go_runes s\<close> (UTF-8 decoding, an invalid byte gives U+FFFD),
  \<^verbatim>\<open>strings.TrimSpace\<close> strips the UTF-8 encodings of the Unicode white space runes.
  Case mapping is exact on ASCII and on the non-ASCII runes that Go maps into ASCII; other
  non-ASCII bytes are kept, which is enough because the program compares every upper- or
  lower-cased string with ASCII constants only.
\<close>

section \<open>White space\<close>

definition go_spaces :: "string list" where
  "go_spaces =
     [[CHR 0x09], [CHR 0x0A], [CHR 0x0B], [CHR 0x0C], [CHR 0x0D], [CHR 0x20],
      [CHR 0xC2, CHR 0x85], [CHR 0xC2, CHR 0xA0], [CHR 0xE1, CHR 0x9A, CHR 0x80],
      [CHR 0xE2, CHR 0x80, CHR 0x80], [CHR 0xE2, CHR 0x80, CHR 0x81],
      [CHR 0xE2, CHR 0x80, CHR 0x82], [CHR 0xE2, CHR 0x80, CHR 0x83],
      [CHR 0xE2, CHR 0x80, CHR 0x84], [CHR 0xE2, CHR 0x80, CHR 0x85],
      [CHR 0xE2, CHR 0x80, CHR 0x86], [CHR 0xE2, CHR 0x80, CHR 0x87],
      [CHR 0xE2, CHR 0x80, CHR 0x88], [CHR 0xE2, CHR 0x80, CHR 0x89],
      [CHR 0xE2, CHR 0x80, CHR 0x8A], [CHR 0xE2, CHR 0x80, CHR 0xA8],
      [CHR 0xE2, CHR 0x80, CHR 0xA9], [CHR 0xE2, CHR 0x80, CHR 0xAF],
      [CHR 0xE2, CHR 0x81, CHR 0x9F], [CHR 0xE3, CHR 0x80, CHR 0x80]]"

fun is_prefix :: "string \<Rightarrow> string \<Rightarrow> bool" where
  "is_prefix [] s = True"
| "is_prefix (w # ws) [] = False"
| "is_prefix (w # ws) (c # s) = (w = c \<and> is_prefix ws s)"

definition lead_width :: "string list \<Rightarrow> string \<Rightarrow> nat" where
  "lead_width ws s = (case List.find (\<lambda>w. is_prefix w s) ws of None \<Rightarrow> 0 | Some w \<Rightarrow> length w)"

lemma is_prefix_append: "is_prefix w s \<longleftrightarrow> (\<exists>t. s = w @ t)"
  by (induction w s rule: is_prefix.induct) auto

lemma lead_width_Nil: "[] \<notin> set ws \<Longrightarrow> lead_width ws [] = 0"
  by (auto simp: lead_width_def find_Some_iff is_prefix_append split: option.splits)

function strip_lead :: "string list \<Rightarrow> string \<Rightarrow> string" where
  "strip_lead ws s =
     (if s = [] \<or> lead_width ws s = 0 then s else strip_lead ws (drop (lead_width ws s) s))"
  by pat_completeness auto
termination
  by (relation "measure (\<lambda>(ws, s). length s)") auto

declare strip_lead.simps [simp del]

definition trim_left :: "string \<Rightarrow> string" where
  "trim_left s = strip_lead go_spaces s"

definition trim_right :: "string \<Rightarrow> string" where
  "trim_right s = rev (strip_lead (map rev go_spaces) (rev s))"

definition trim_space :: "string \<Rightarrow> string" where
  "trim_space s = trim_right (trim_left s)"

section \<open>Runes\<close>

definition byte_of :: "char \<Rightarrow> nat" where
  "byte_of c = of_char c"

definition cont_byte :: "nat \<Rightarrow> bool" where
  "cont_byte b \<longleftrightarrow> 128 \<le> b \<and> b \<le> 191"

fun decode_rune :: "nat list \<Rightarrow> nat \<times> nat" where
  "decode_rune [] = (65533, 0)"
| "decode_rune (b0 # bs) =
     (if b0 < 128 then (b0, 1)
      else if 194 \<le> b0 \<and> b0 \<le> 223 then
        (case bs of
           b1 # _ \<Rightarrow> if cont_byte b1 then ((b0 - 192) * 64 + (b1 - 128), 2) else (65533, 1)
         | _ \<Rightarrow> (65533, 1))
      else if 224 \<le> b0 \<and> b0 \<le> 239 then
        (case bs of
           b1 # b2 # _ \<Rightarrow>
             if (if b0 = 224 then 160 \<le> b1 \<and> b1 \<le> 191
                 else if b0 = 237 then 128 \<le> b1 \<and> b1 \<le> 159 else cont_byte b1) \<and> cont_byte b2
             then ((b0 - 224) * 4096 + (b1 - 128) * 64 + (b2 - 128), 3) else (65533, 1)
         | _ \<Rightarrow> (65533, 1))
      else if 240 \<le> b0 \<and> b0 \<le> 244 then
        (case bs of
           b1 # b2 # b3 # _ \<Rightarrow>
             if (if b0 = 240 then 144 \<le> b1 \<and> b1 \<le> 191
                 else if b0 = 244 then 128 \<le> b1 \<and> b1 \<le> 143 else cont_byte b1) \<and>
                cont_byte b2 \<and> cont_byte b3
             then ((b0 - 240) * 262144 + (b1 - 128) * 4096 + (b2 - 128) * 64 + (b3 - 128), 4)
             else (65533, 1)
         | _ \<Rightarrow> (65533, 1))
      else (65533, 1))"

lemma decode_rune_width:
  "bs \<noteq> [] \<Longrightarrow> 1 \<le> snd (decode_rune bs) \<and> snd (decode_rune bs) \<le> length bs"
  by (cases bs) (auto split: list.splits)

function runes_of :: "nat list \<Rightarrow> nat list" where
  "runes_of [] = []"
| "runes_of (b # bs) =
     fst (decode_rune (b # bs)) # runes_of (drop (snd (decode_rune (b # bs))) (b # bs))"
  by pat_completeness auto
termination
proof (relation "measure length", goal_cases)
  case 1 show ?case by simp
next
  case (2 b bs)
  have "1 \<le> snd (decode_rune (b # bs))"
    using decode_rune_width [of "b # bs"] by blast
  then have "length (drop (snd (decode_rune (b # bs))) (b # bs)) < length (b # bs)"
    unfolding length_drop by (metis diff_less length_greater_0_conv less_eq_Suc_le list.distinct(1) One_nat_def)
  then show ?case by (simp only: in_measure)
qed

declare runes_of.simps(2) [simp del]

definition go_runes :: "string \<Rightarrow> nat list" where
  "go_runes s = runes_of (map byte_of s)"

definition rune_count :: "string \<Rightarrow> nat" where
  "rune_count s = length (go_runes s)"

definition ascii_string :: "string \<Rightarrow> bool" where
  "ascii_string s = list_all (\<lambda>c. byte_of c < 128) s"

section \<open>Case mapping\<close>

definition upper_char :: "char \<Rightarrow> char" where
  "upper_char c = (if 97 \<le> byte_of c \<and> byte_of c \<le> 122 then char_of (byte_of c - 32) else c)"

definition lower_char :: "char \<Rightarrow> char" where
  "lower_char c = (if 65 \<le> byte_of c \<and> byte_of c \<le> 90 then char_of (byte_of c + 32) else c)"

text \<open>U+0131 (dotless i) and U+017F (long s) are the non-ASCII runes with an ASCII upper case.\<close>

fun to_upper :: "string \<Rightarrow> string" where
  "to_upper [] = []"
| "to_upper [c] = [upper_char c]"
| "to_upper (c # d # s) =
     (if c = CHR 0xC4 \<and> d = CHR 0xB1 then CHR ''I'' # to_upper s
      else if c = CHR 0xC5 \<and> d = CHR 0xBF then CHR ''S'' # to_upper s
      else upper_char c # to_upper (d # s))"

text \<open>U+0130 (dotted I) and U+212A (Kelvin sign) are the non-ASCII runes with an ASCII lower case.\<close>

fun to_lower :: "string \<Rightarrow> string" where
  "to_lower [] = []"
| "to_lower (c # s) =
     (case s of
        d # s' \<Rightarrow>
          if c = CHR 0xC4 \<and> d = CHR 0xB0 then CHR ''i'' # to_lower s'
          else (case s' of
                  e # s'' \<Rightarrow>
                    if c = CHR 0xE2 \<and> d = CHR 0x84 \<and> e = CHR 0xAA
                    then CHR ''k'' # to_lower s'' else lower_char c # to_lower s
                | [] \<Rightarrow> lower_char c # to_lower s)
      | [] \<Rightarrow> [lower_char c])"

definition equal_fold :: "string \<Rightarrow> string \<Rightarrow> bool" where
  "equal_fold a b = (to_lower (to_upper a) = to_lower (to_upper b))"

section \<open>Decimal numbers\<close>

fun nat_str :: "nat \<Rightarrow> string" where
  "nat_str n = (if n < 10 then [char_of (48 + n)] else nat_str (n div 10) @ [char_of (48 + n mod 10)])"

declare nat_str.simps [simp del]

definition is_digit :: "char \<Rightarrow> bool" where
  "is_digit c \<longleftrightarrow> 48 \<le> byte_of c \<and> byte_of c \<le> 57"

definition digit_val :: "char \<Rightarrow> nat" where
  "digit_val c = byte_of c - 48"

definition digits_val :: "string \<Rightarrow> nat" where
  "digits_val s = foldl (\<lambda>acc c. 10 * acc + digit_val c) 0 s"

definition pad_zero :: "nat \<Rightarrow> string \<Rightarrow> string" where
  "pad_zero w s = replicate (w - length s) CHR ''0'' @ s"

text \<open>\<^verbatim>\<open>fmt.Sprintf("%0*d", w, n)\<close> for unsigned and signed arguments.\<close>

definition fmt_pad :: "nat \<Rightarrow> nat \<Rightarrow> string" where
  "fmt_pad w n = pad_zero w (nat_str n)"

definition fmt_pad_int :: "nat \<Rightarrow> int \<Rightarrow> string" where
  "fmt_pad_int w i = (if i < 0 then CHR ''-'' # pad_zero (w - 1) (nat_str (nat (- i)))
                      else fmt_pad w (nat i))"

definition int_str :: "int \<Rightarrow> string" where
  "int_str i = fmt_pad_int 0 i"

fun split_on :: "char \<Rightarrow> string \<Rightarrow> string list" where
  "split_on d [] = [[]]"
| "split_on d (c # s) =
     (if c = d then [] # split_on d s
      else (case split_on d s of [] \<Rightarrow> [[c]] | p # ps \<Rightarrow> (c # p) # ps))"

section \<open>Lemmas\<close>

lemma byte_of_less [simp]: "byte_of c < 256"
  using range_nat_of_char by (force simp: byte_of_def)

lemma byte_of_char_of [simp]: "n < 256 \<Longrightarrow> byte_of (char_of n) = n"
  by (simp add: byte_of_def)

lemma byte_of_inject: "byte_of c = byte_of d \<longleftrightarrow> c = d"
  by (simp add: byte_of_def)

lemma lead_width_0: "[] \<notin> set ws \<Longrightarrow> lead_width ws s = 0 \<longleftrightarrow> (\<forall>w \<in> set ws. \<not> is_prefix w s)"
proof
  assume ne: "[] \<notin> set ws" and z: "lead_width ws s = 0"
  show "\<forall>w \<in> set ws. \<not> is_prefix w s"
  proof (cases "List.find (\<lambda>w. is_prefix w s) ws")
    case None
    then show ?thesis by (simp add: find_None_iff)
  next
    case (Some w)
    then have "w \<in> set ws" by (auto simp: find_Some_iff)
    with ne have "w \<noteq> []" by auto
    with Some z show ?thesis by (simp add: lead_width_def)
  qed
next
  assume "\<forall>w \<in> set ws. \<not> is_prefix w s"
  then have "List.find (\<lambda>w. is_prefix w s) ws = None" by (simp add: find_None_iff)
  then show "lead_width ws s = 0" by (simp add: lead_width_def)
qed

lemma strip_lead_fixed:
  "[] \<notin> set ws \<Longrightarrow> (\<forall>w \<in> set ws. \<not> is_prefix w s) \<Longrightarrow> strip_lead ws s = s"
  by (subst strip_lead.simps) (simp add: lead_width_0)

lemma strip_lead_clean:
  "[] \<notin> set ws \<Longrightarrow> w \<in> set ws \<Longrightarrow> \<not> is_prefix w (strip_lead ws s)"
proof (induction ws s rule: strip_lead.induct)
  case (1 ws s)
  show ?case
  proof (cases "s = [] \<or> lead_width ws s = 0")
    case True
    have "\<not> is_prefix w s"
    proof (cases "s = []")
      case True
      with 1 show ?thesis by (cases w) auto
    next
      case False
      with True 1 show ?thesis by (auto simp: lead_width_0)
    qed
    with True show ?thesis by (subst strip_lead.simps) auto
  next
    case False
    with 1 show ?thesis by (subst strip_lead.simps) auto
  qed
qed

lemma strip_lead_suffix: "\<exists>p. s = p @ strip_lead ws s"
proof (induction ws s rule: strip_lead.induct)
  case (1 ws s)
  show ?case
  proof (cases "s = [] \<or> lead_width ws s = 0")
    case True
    then show ?thesis by (subst strip_lead.simps) auto
  next
    case False
    with 1 obtain p where p: "drop (lead_width ws s) s = p @ strip_lead ws (drop (lead_width ws s) s)"
      by blast
    have "s = (take (lead_width ws s) s @ p) @ strip_lead ws (drop (lead_width ws s) s)"
      using p by (metis append.assoc append_take_drop_id)
    then have "\<exists>p. s = p @ strip_lead ws (drop (lead_width ws s) s)" by blast
    with False show ?thesis by (subst strip_lead.simps) simp
  qed
qed

lemma go_spaces_nonempty [simp]: "[] \<notin> set go_spaces" "[] \<notin> rev ` set go_spaces"
  by (auto simp: go_spaces_def)

lemma trim_right_prefix: "\<exists>q. s = trim_right s @ q"
proof -
  obtain p where "rev s = p @ strip_lead (map rev go_spaces) (rev s)"
    using strip_lead_suffix by blast
  then have "s = rev (strip_lead (map rev go_spaces) (rev s)) @ rev p"
    by (metis rev_append rev_rev_ident)
  then show ?thesis by (auto simp: trim_right_def)
qed

lemma trim_space_clean:
  assumes "w \<in> set go_spaces"
  shows "\<not> is_prefix w (trim_space s)" and "\<not> is_prefix (rev w) (rev (trim_space s))"
proof -
  obtain q where q: "trim_left s = trim_space s @ q"
    using trim_right_prefix by (auto simp: trim_space_def)
  have "\<not> is_prefix w (trim_left s)"
    using assms by (simp add: trim_left_def strip_lead_clean)
  then show "\<not> is_prefix w (trim_space s)"
    unfolding q by (auto simp: is_prefix_append)
  show "\<not> is_prefix (rev w) (rev (trim_space s))"
    using assms by (simp add: trim_space_def trim_right_def strip_lead_clean)
qed

lemma trim_space_fixed:
  assumes "\<And>w. w \<in> set go_spaces \<Longrightarrow> \<not> is_prefix w s"
    and "\<And>w. w \<in> set go_spaces \<Longrightarrow> \<not> is_prefix (rev w) (rev s)"
  shows "trim_space s = s"
proof -
  have "trim_left s = s"
    using assms(1) by (simp add: trim_left_def strip_lead_fixed)
  moreover have "strip_lead (map rev go_spaces) (rev s) = rev s"
    using assms(2) by (intro strip_lead_fixed) auto
  ultimately show ?thesis
    by (simp add: trim_space_def trim_right_def)
qed

lemma trim_space_idem [simp]: "trim_space (trim_space s) = trim_space s"
  by (rule trim_space_fixed) (auto dest: trim_space_clean)

lemma trim_space_Nil [simp]: "trim_space [] = []"
  by (rule trim_space_fixed) (auto simp: go_spaces_def)

lemma trim_space_infix: "\<exists>p q. s = p @ trim_space s @ q"
proof -
  obtain p where p: "s = p @ trim_left s"
    using strip_lead_suffix by (auto simp: trim_left_def)
  obtain q where q: "trim_left s = trim_space s @ q"
    using trim_right_prefix by (auto simp: trim_space_def)
  from p q show ?thesis by metis
qed

lemma trim_space_length: "length (trim_space s) \<le> length s"
  using trim_space_infix [of s] by (metis length_append le_add2 le_add1 order_trans)

lemma set_trim_space: "set (trim_space s) \<subseteq> set s"
  using trim_space_infix [of s] by (metis Un_upper1 Un_upper2 order_trans set_append)

text \<open>A string that begins and ends with bytes that occur in no white space rune is untouched.\<close>

definition space_bytes :: "nat list" where
  "space_bytes = [9, 10, 11, 12, 13, 32] @ [128..<192] @ [194, 225, 226, 227]"

lemma printable_not_space: "33 \<le> b \<Longrightarrow> b < 128 \<Longrightarrow> b \<notin> set space_bytes"
  unfolding space_bytes_def set_append set_upt by auto

lemma go_spaces_bytes:
  "list_all (\<lambda>w. w \<noteq> [] \<and> list_all (\<lambda>c. byte_of c \<in> set space_bytes) w) go_spaces"
  by (simp add: go_spaces_def space_bytes_def byte_of_def)

lemma trim_space_id:
  assumes "list_all (\<lambda>c. byte_of c \<notin> set space_bytes) s"
  shows "trim_space s = s"
proof (cases "s = []")
  case True
  then show ?thesis by simp
next
  case False
  show ?thesis
  proof (rule trim_space_fixed)
    fix w assume "w \<in> set go_spaces"
    then have w: "w \<noteq> []" "\<forall>c \<in> set w. byte_of c \<in> set space_bytes"
      using go_spaces_bytes by (auto simp: list_all_iff)
    show "\<not> is_prefix w s"
    proof
      assume "is_prefix w s"
      then have "set w \<subseteq> set s" by (auto simp: is_prefix_append)
      with w assms show False by (cases w) (auto simp: list_all_iff)
    qed
    show "\<not> is_prefix (rev w) (rev s)"
    proof
      assume "is_prefix (rev w) (rev s)"
      then obtain t where "rev s = rev w @ t" by (auto simp: is_prefix_append)
      then have "set w \<subseteq> set s" by (metis Un_upper1 set_append set_rev)
      with w assms show False by (cases w) (auto simp: list_all_iff)
    qed
  qed
qed

lemma runes_of_ascii: "list_all (\<lambda>b. b < 128) bs \<Longrightarrow> runes_of bs = bs"
  by (induction bs) (auto simp: runes_of.simps)

lemma go_runes_ascii: "ascii_string s \<Longrightarrow> go_runes s = map byte_of s"
  by (simp add: go_runes_def ascii_string_def runes_of_ascii list_all_iff)

lemma rune_count_ascii: "ascii_string s \<Longrightarrow> rune_count s = length s"
  by (simp add: rune_count_def go_runes_ascii)

lemma rune_count_le: "rune_count s \<le> length s"
proof -
  have "length (runes_of bs) \<le> length bs" for bs
  proof (induction bs rule: runes_of.induct)
    case 1
    then show ?case by simp
  next
    case (2 b bs)
    have "1 \<le> snd (decode_rune (b # bs))" using decode_rune_width [of "b # bs"] by blast
    moreover from 2 have "length (runes_of (b # bs)) \<le>
        Suc (length (b # bs) - snd (decode_rune (b # bs)))"
      by (simp only: runes_of.simps length_Cons length_drop Suc_le_mono)
    ultimately show ?case by simp
  qed
  from this [of "map byte_of s"] show ?thesis by (simp add: rune_count_def go_runes_def)
qed

lemma rune_count_within: "length s \<le> n \<Longrightarrow> \<not> n < rune_count s"
  using rune_count_le [of s] by linarith

text \<open>A string all of whose runes are ASCII has only ASCII bytes.\<close>

lemma decode_rune_ascii:
  "fst (decode_rune (b # bs)) < 128 \<Longrightarrow> b < 128 \<and> snd (decode_rune (b # bs)) = 1"
  by (auto simp: cont_byte_def split: if_splits list.splits)

lemma runes_ascii: "list_all (\<lambda>r. r < 128) (runes_of bs) \<Longrightarrow> list_all (\<lambda>b. b < 128) bs"
proof (induction bs rule: runes_of.induct)
  case 1
  then show ?case by simp
next
  case (2 b bs)
  then have "fst (decode_rune (b # bs)) < 128" by (simp add: runes_of.simps)
  from decode_rune_ascii [OF this] 2 show ?case by (simp add: runes_of.simps)
qed

lemma go_runes_all_ascii: "list_all (\<lambda>r. r < 128) (go_runes s) \<Longrightarrow> ascii_string s"
  using runes_ascii [of "map byte_of s"]
  by (simp add: go_runes_def ascii_string_def list.pred_map comp_def)

lemma ascii_append [simp]: "ascii_string (s @ t) \<longleftrightarrow> ascii_string s \<and> ascii_string t"
  by (simp add: ascii_string_def)

lemma ascii_Nil [simp]: "ascii_string []"
  by (simp add: ascii_string_def)

lemma ascii_Cons [simp]: "ascii_string (c # s) \<longleftrightarrow> byte_of c < 128 \<and> ascii_string s"
  by (simp add: ascii_string_def)

lemma ascii_replicate [simp]: "byte_of c < 128 \<Longrightarrow> ascii_string (replicate n c)"
  by (simp add: ascii_string_def list_all_iff)

lemma nat_str_digits: "list_all is_digit (nat_str n)"
proof (induction n rule: nat_str.induct)
  case (1 n)
  show ?case
  proof (cases "n < 10")
    case True
    then show ?thesis by (subst nat_str.simps) (simp add: is_digit_def)
  next
    case False
    moreover have "is_digit (char_of (48 + n mod 10))"
      using mod_less_divisor [of 10 n] by (simp add: is_digit_def)
    ultimately show ?thesis using 1 by (subst nat_str.simps) simp
  qed
qed

lemma digits_val_append: "digits_val (s @ [c]) = 10 * digits_val s + digit_val c"
  by (simp add: digits_val_def)

lemma digits_val_nat_str [simp]: "digits_val (nat_str n) = n"
proof (induction n rule: nat_str.induct)
  case (1 n)
  show ?case
  proof (cases "n < 10")
    case True
    then show ?thesis by (subst nat_str.simps) (simp add: digits_val_def digit_val_def)
  next
    case False
    have "n mod 10 < 10" by simp
    with False 1 show ?thesis
      by (subst nat_str.simps) (simp add: digits_val_append digit_val_def)
  qed
qed

lemma digits_val_replicate0: "digits_val (replicate k CHR ''0'' @ s) = digits_val s"
  by (induction k) (simp_all add: digits_val_def digit_val_def byte_of_def)

lemma digits_val_fmt_pad [simp]: "digits_val (fmt_pad w n) = n"
  by (simp add: fmt_pad_def pad_zero_def digits_val_replicate0)

lemma fmt_pad_inj: "fmt_pad w m = fmt_pad w n \<Longrightarrow> m = n"
  by (metis digits_val_fmt_pad)

lemma nat_str_nonempty [simp]: "nat_str n \<noteq> []"
  by (subst nat_str.simps) simp

lemma length_nat_str_le: "n < 10 ^ Suc k \<Longrightarrow> length (nat_str n) \<le> Suc k"
proof (induction k arbitrary: n)
  case 0
  then show ?case by (subst nat_str.simps) simp
next
  case (Suc k)
  show ?case
  proof (cases "n < 10")
    case True
    then show ?thesis by (subst nat_str.simps) simp
  next
    case False
    from Suc.prems have "n div 10 < 10 ^ Suc k" by (simp add: less_mult_imp_div_less mult.commute)
    then have "length (nat_str (n div 10)) \<le> Suc k" by (rule Suc.IH)
    with False show ?thesis by (subst nat_str.simps) simp
  qed
qed

lemma length_fmt_pad: "0 < w \<Longrightarrow> n < 10 ^ w \<Longrightarrow> length (fmt_pad w n) = w"
  using length_nat_str_le [of n "w - 1"] by (simp add: fmt_pad_def pad_zero_def)

lemma digit_ascii: "is_digit c \<Longrightarrow> byte_of c < 128"
  by (simp add: is_digit_def)

lemma digit_0 [simp]: "is_digit CHR ''0''"
  by (simp add: is_digit_def byte_of_def)

lemma fmt_pad_digits: "list_all is_digit (fmt_pad w n)"
  using nat_str_digits [of n] by (auto simp: fmt_pad_def pad_zero_def list_all_iff)

lemma fmt_pad_ascii [simp]: "ascii_string (fmt_pad w n)"
  using fmt_pad_digits by (auto simp: ascii_string_def list_all_iff dest: digit_ascii)

lemma split_on_nonempty [simp]: "split_on d s \<noteq> []"
  by (cases s) (auto split: list.splits)

lemma split_on_fresh: "d \<notin> set s \<Longrightarrow> split_on d s = [s]"
  by (induction s) auto

lemma split_on_append: "d \<notin> set s \<Longrightarrow> split_on d (s @ d # t) = s # split_on d t"
  by (induction s) auto

lemma to_upper_idem_ascii:
  "ascii_string s \<Longrightarrow> to_upper s = map upper_char s"
  by (induction s rule: to_upper.induct) (auto simp: byte_of_def)

end
