(* ===== verification/Approval_Rule.thy ===== *)
theory Approval_Rule
  imports Go_Strings
begin

text \<open>
  Approval rules: the data of \<^verbatim>\<open>internal/domain/approval/model.go\<close>, the expression language and
  rule selection of \<^verbatim>\<open>internal/domain/approval/rule.go\<close>, and the admission check
  \<^verbatim>\<open>validateRule\<close> of \<^verbatim>\<open>internal/application/service.go\<close>. The Go string types are datatypes
  with one constructor per named constant, and an \<open>...Other\<close> constructor for every other string.
\<close>

section \<open>Data\<close>

datatype approval_kind = KindContract | KindStatusChange | KindOther string

datatype approval_status =
    AStatusRunning | AStatusApproved | AStatusRejected | AStatusWithdrawn | AStatusExpired
  | AStatusFailed | AStatusOther string

datatype node_status =
    NodePending | NodeActive | NodeApproved | NodeRejected | NodeSkipped | NodeOther string

datatype countersign_mode = CountersignEmpty | CountersignAll | CountersignAny | CountersignOther string

definition hour_ns :: int where "hour_ns = 3600000000000"

definition min_node_timeout :: int where "min_node_timeout = hour_ns"

definition max_node_timeout :: int where "max_node_timeout = 30 * 24 * hour_ns"

record node =
  node_id :: string
  node_name :: string
  node_role_code :: string
  node_assignees :: "string list"
  node_countersign :: countersign_mode
  node_timeout :: int

datatype logical_operator = LogicalEmpty | LogicalAnd | LogicalOr | LogicalOther string

datatype rule_field =
    FieldAmountMinor | FieldServiceType | FieldCustomerCredit | FieldContractType
  | FieldTermsIdentical | FieldOther string

datatype rule_operator =
    OperatorEQ | OperatorNE | OperatorGT | OperatorGTE | OperatorLT | OperatorLTE | OperatorIn
  | OperatorOther string

text \<open>
  A finite \<^verbatim>\<open>float64\<close> is \<open>m * 2 ^ e\<close>. \<open>go_value\<close> are the dynamic values of the Go
  interface type \<^verbatim>\<open>any\<close> that the code distinguishes; \<open>VOther\<close> is a value of any other type.
\<close>

datatype go_float = FloatFinite int int | FloatNaN | FloatPosInf | FloatNegInf

datatype go_value =
    VNil | VBool bool | VInt int | VInt64 int | VFloat go_float | VString string
  | VStrings "string list" | VList "go_value list" | VOther

record condition =
  cond_field :: rule_field
  cond_operator :: rule_operator
  cond_value :: go_value

datatype expression =
  Expression (expr_logical: logical_operator) (expr_conditions: "condition list")
    (expr_groups: "expression list")

record facts =
  fact_amount_minor :: int
  fact_service_type :: string
  fact_customer_credit_level :: string
  fact_contract_type :: string
  fact_terms_identical :: bool

record rule =
  rule_id :: string
  rule_tenant_id :: string
  rule_name :: string
  rule_priority :: int
  rule_enabled :: bool
  rule_expression :: expression
  rule_nodes :: "node list"
  rule_version :: nat

definition zero_facts :: facts where
  "zero_facts = \<lparr>fact_amount_minor = 0, fact_service_type = [], fact_customer_credit_level = [],
     fact_contract_type = [], fact_terms_identical = False\<rparr>"

definition max_rule_nodes :: nat where "max_rule_nodes = 20"
definition max_expression_groups :: nat where "max_expression_groups = 50"
definition max_expression_conditions :: nat where "max_expression_conditions = 50"
definition max_expression_depth :: nat where "max_expression_depth = 8"

section \<open>Conditions\<close>

text \<open>
  \<^verbatim>\<open>int64(n)\<close> of a float truncates towards zero. Outside the range (and for NaN) the result is
  implementation specific; the model takes the value the amd64 instruction delivers, the least
  \<^verbatim>\<open>int64\<close>.
\<close>

fun float_trunc :: "go_float \<Rightarrow> int option" where
  "float_trunc (FloatFinite m e) =
     Some (if e \<ge> 0 then m * 2 ^ nat e else go_quot m (2 ^ nat (- e)))"
| "float_trunc _ = None"

definition float_to_int64 :: "go_float \<Rightarrow> int" where
  "float_to_int64 f =
     (case float_trunc f of
        Some v \<Rightarrow> (if min_int64 \<le> v \<and> v \<le> max_int64 then v else min_int64)
      | None \<Rightarrow> min_int64)"

fun float_equals_int :: "int \<Rightarrow> go_float \<Rightarrow> bool" where
  "float_equals_int v (FloatFinite m e) =
     (if e \<ge> 0 then v = m * 2 ^ nat e else v * 2 ^ nat (- e) = m)"
| "float_equals_int v _ = False"

fun number_to_int64 :: "go_value \<Rightarrow> int \<times> bool" where
  "number_to_int64 (VInt n) = (n, True)"
| "number_to_int64 (VInt64 n) = (n, True)"
| "number_to_int64 (VFloat f) = (float_to_int64 f, float_equals_int (float_to_int64 f) f)"
| "number_to_int64 _ = (0, False)"

fun compare_int :: "int \<Rightarrow> int \<Rightarrow> rule_operator \<Rightarrow> bool result" where
  "compare_int actual expected OperatorEQ = ok (actual = expected)"
| "compare_int actual expected OperatorNE = ok (actual \<noteq> expected)"
| "compare_int actual expected OperatorGT = ok (actual > expected)"
| "compare_int actual expected OperatorGTE = ok (actual \<ge> expected)"
| "compare_int actual expected OperatorLT = ok (actual < expected)"
| "compare_int actual expected OperatorLTE = ok (actual \<le> expected)"
| "compare_int actual expected _ = fail ErrInvalidExpression"

fun cast_strings :: "go_value list \<Rightarrow> string list option" where
  "cast_strings [] = Some []"
| "cast_strings (VString s # rest) = map_option (Cons s) (cast_strings rest)"
| "cast_strings (_ # rest) = None"

fun in_values :: "go_value \<Rightarrow> string list option" where
  "in_values (VStrings values) = Some values"
| "in_values (VList raw) = cast_strings raw"
| "in_values _ = None"

definition compare_string :: "string \<Rightarrow> go_value \<Rightarrow> rule_operator \<Rightarrow> bool result" where
  "compare_string actual0 expected op =
     (let actual = trim_space actual0 in
      case op of
        OperatorIn \<Rightarrow>
          (case in_values expected of
             None \<Rightarrow> fail ErrInvalidExpression
           | Some values \<Rightarrow> ok (\<exists>value \<in> set values. actual = trim_space value))
      | _ \<Rightarrow>
          if op = OperatorEQ \<or> op = OperatorNE then
            (case expected of
               VString value \<Rightarrow> ok ((actual = trim_space value) = (op = OperatorEQ))
             | _ \<Rightarrow> fail ErrInvalidExpression)
          else fail ErrInvalidExpression)"

definition condition_match :: "condition \<Rightarrow> facts \<Rightarrow> bool result" where
  "condition_match c f =
     (case cond_field c of
        FieldAmountMinor \<Rightarrow>
          (let (value, valid) = number_to_int64 (cond_value c) in
           if \<not> valid then fail ErrInvalidExpression
           else compare_int (fact_amount_minor f) value (cond_operator c))
      | FieldTermsIdentical \<Rightarrow>
          (case cond_value c of
             VBool value \<Rightarrow>
               if cond_operator c \<noteq> OperatorEQ \<and> cond_operator c \<noteq> OperatorNE
               then fail ErrInvalidExpression
               else ok ((fact_terms_identical f = value) = (cond_operator c = OperatorEQ))
           | _ \<Rightarrow> fail ErrInvalidExpression)
      | FieldServiceType \<Rightarrow> compare_string (fact_service_type f) (cond_value c) (cond_operator c)
      | FieldCustomerCredit \<Rightarrow>
          compare_string (fact_customer_credit_level f) (cond_value c) (cond_operator c)
      | FieldContractType \<Rightarrow> compare_string (fact_contract_type f) (cond_value c) (cond_operator c)
      | FieldOther _ \<Rightarrow> fail ErrInvalidExpression)"

section \<open>Expressions\<close>

fun conditions_match :: "condition list \<Rightarrow> facts \<Rightarrow> bool list result" where
  "conditions_match [] f = ok []"
| "conditions_match (c # cs) f =
     res_bind (condition_match c f) (\<lambda>matched.
     res_bind (conditions_match cs f) (\<lambda>rest. ok (matched # rest)))"

definition combine_results :: "logical_operator \<Rightarrow> bool list \<Rightarrow> bool result" where
  "combine_results logical results =
     (if results = [] then fail ErrInvalidExpression
      else if logical = LogicalAnd then ok (\<forall>matched \<in> set results. matched)
      else ok (\<exists>matched \<in> set results. matched))"

fun expression_match :: "expression \<Rightarrow> facts \<Rightarrow> bool result"
  and groups_match :: "expression list \<Rightarrow> facts \<Rightarrow> bool list result" where
  "expression_match (Expression logical0 conditions groups) f =
     (let logical = (if logical0 = LogicalEmpty then LogicalAnd else logical0) in
      if logical \<noteq> LogicalAnd \<and> logical \<noteq> LogicalOr then fail ErrInvalidExpression
      else res_bind (conditions_match conditions f) (\<lambda>rs.
           res_bind (groups_match groups f) (\<lambda>gs. combine_results logical (rs @ gs))))"
| "groups_match [] f = ok []"
| "groups_match (g # gs) f =
     res_bind (expression_match g f) (\<lambda>matched.
     res_bind (groups_match gs f) (\<lambda>rest. ok (matched # rest)))"

fun walk_limits :: "nat \<Rightarrow> expression \<Rightarrow> nat \<times> nat \<Rightarrow> (nat \<times> nat) result"
  and walk_groups :: "nat \<Rightarrow> expression list \<Rightarrow> nat \<times> nat \<Rightarrow> (nat \<times> nat) result" where
  "walk_limits depth (Expression logical conditions groups) (g, c) =
     (if depth > max_expression_depth then fail ErrInvalidExpression
      else if g + 1 > max_expression_groups
              \<or> c + length conditions > max_expression_conditions
      then fail ErrInvalidExpression
      else walk_groups (depth + 1) groups (g + 1, c + length conditions))"
| "walk_groups depth [] counts = ok counts"
| "walk_groups depth (e # es) counts =
     res_bind (walk_limits depth e counts) (walk_groups depth es)"

definition validate_limits :: "expression \<Rightarrow> unit result" where
  "validate_limits e = res_bind (walk_limits 1 e (0, 0)) (\<lambda>_. ok ())"

section \<open>Rule selection and admission\<close>

fun match_first :: "rule list \<Rightarrow> facts \<Rightarrow> rule option result" where
  "match_first [] f = ok None"
| "match_first (r # rs) f =
     (if \<not> rule_enabled r then match_first rs f
      else res_bind (expression_match (rule_expression r) f) (\<lambda>matched.
           if matched then ok (Some r) else match_first rs f))"

definition match_highest :: "rule list \<Rightarrow> facts \<Rightarrow> rule option result" where
  "match_highest rules f = match_first (sort_key (\<lambda>r. - rule_priority r) rules) f"

fun validate_nodes :: "string list \<Rightarrow> node list \<Rightarrow> unit result" where
  "validate_nodes seen [] = ok ()"
| "validate_nodes seen (n # ns) =
     (if node_id n = [] \<or> node_name n = [] \<or> node_role_code n = [] \<or> node_id n \<in> set seen
      then fail ErrValidation
      else if rune_count (node_id n) > 64 \<or> rune_count (node_name n) > 128
              \<or> rune_count (node_role_code n) > 128
      then fail ErrValidation
      else if node_countersign n \<noteq> CountersignEmpty \<and> node_countersign n \<noteq> CountersignAll
              \<and> node_countersign n \<noteq> CountersignAny
      then fail ErrValidation
      else if node_timeout n \<noteq> 0
              \<and> (node_timeout n < min_node_timeout \<or> node_timeout n > max_node_timeout)
      then fail ErrValidation
      else validate_nodes (node_id n # seen) ns)"

definition validate_rule :: "rule \<Rightarrow> unit result" where
  "validate_rule r =
     (if rule_name r = [] \<or> rule_nodes r = [] then fail ErrValidation
      else if rune_count (rule_name r) > 128 then fail ErrValidation
      else if length (rule_nodes r) > max_rule_nodes then fail ErrValidation
      else case validate_limits (rule_expression r) of
             Inl e \<Rightarrow> fail ErrValidation
           | Inr u \<Rightarrow>
               (case expression_match (rule_expression r) zero_facts of
                  Inl e \<Rightarrow> fail ErrValidation
                | Inr m \<Rightarrow> validate_nodes [] (rule_nodes r)))"


section \<open>Evaluation does not fail on the facts\<close>

text \<open>Reference semantics of an expression: a conjunction or disjunction of what it contains.\<close>

definition condition_holds :: "condition \<Rightarrow> facts \<Rightarrow> bool" where
  "condition_holds c f = (condition_match c f = Inr True)"

fun expression_holds :: "expression \<Rightarrow> facts \<Rightarrow> bool" where
  "expression_holds (Expression logical conditions groups) f =
     (if logical = LogicalOr
      then (\<exists>c \<in> set conditions. condition_holds c f) \<or> (\<exists>g \<in> set groups. expression_holds g f)
      else (\<forall>c \<in> set conditions. condition_holds c f) \<and> (\<forall>g \<in> set groups. expression_holds g f))"

lemma compare_int_ok_indep: "is_ok (compare_int a v op) = is_ok (compare_int b v op)"
  by (cases op) simp_all

lemma compare_string_ok_indep: "is_ok (compare_string a v op) = is_ok (compare_string b v op)"
  by (auto simp: compare_string_def Let_def split: rule_operator.splits option.splits go_value.splits)

lemma condition_match_ok_indep: "is_ok (condition_match c f) = is_ok (condition_match c g)"
  unfolding condition_match_def
  by (auto simp: Let_def compare_int_ok_indep [of "fact_amount_minor f" _ _ "fact_amount_minor g"]
      compare_string_ok_indep [of "fact_service_type f" _ _ "fact_service_type g"]
      compare_string_ok_indep [of "fact_customer_credit_level f" _ _ "fact_customer_credit_level g"]
      compare_string_ok_indep [of "fact_contract_type f" _ _ "fact_contract_type g"]
      split: rule_field.splits go_value.splits prod.splits)

lemma is_ok_res_bind:
  "is_ok (res_bind r k) \<longleftrightarrow> (case r of Inl e \<Rightarrow> False | Inr x \<Rightarrow> is_ok (k x))"
  by (cases r) simp_all

lemma is_ok_combine [simp]: "is_ok (combine_results l rs) \<longleftrightarrow> rs \<noteq> []"
  by (simp add: combine_results_def)

lemma conditions_match_ok:
  "is_ok (conditions_match cs f) \<longleftrightarrow> (\<forall>c \<in> set cs. is_ok (condition_match c f))"
  by (induction cs) (auto simp: is_ok_res_bind is_ok_def split: sum.splits)

lemma conditions_match_value:
  "conditions_match cs f = Inr rs \<Longrightarrow> rs = map (\<lambda>c. condition_holds c f) cs"
  by (induction cs arbitrary: rs) (auto simp: result_simps condition_holds_def)

text \<open>Whether evaluation succeeds is a property of the expression alone.\<close>

fun expression_wf :: "expression \<Rightarrow> bool" where
  "expression_wf (Expression logical conditions groups) =
     ((logical = LogicalEmpty \<or> logical = LogicalAnd \<or> logical = LogicalOr)
      \<and> (conditions \<noteq> [] \<or> groups \<noteq> [])
      \<and> (\<forall>c \<in> set conditions. is_ok (condition_match c zero_facts))
      \<and> (\<forall>g \<in> set groups. expression_wf g))"

definition match_agrees :: "expression \<Rightarrow> facts \<Rightarrow> bool" where
  "match_agrees e f \<longleftrightarrow>
     (if expression_wf e then expression_match e f = Inr (expression_holds e f)
      else \<not> is_ok (expression_match e f))"

definition groups_agree :: "expression list \<Rightarrow> facts \<Rightarrow> bool" where
  "groups_agree es f \<longleftrightarrow>
     (if \<forall>e \<in> set es. expression_wf e
      then groups_match es f = Inr (map (\<lambda>e. expression_holds e f) es)
      else \<not> is_ok (groups_match es f))"

lemma match_agrees_step:
  assumes "groups_agree groups f"
  shows "match_agrees (Expression logical conditions groups) f"
proof (cases "conditions_match conditions f")
  case (Inl e)
  then have "\<not> (\<forall>c \<in> set conditions. is_ok (condition_match c zero_facts))"
    using conditions_match_ok [of conditions f] condition_match_ok_indep [of _ f zero_facts] by simp
  with Inl show ?thesis by (auto simp: match_agrees_def)
next
  case (Inr rs)
  then have conds: "\<forall>c \<in> set conditions. is_ok (condition_match c zero_facts)"
    using conditions_match_ok [of conditions f] condition_match_ok_indep [of _ f zero_facts] by simp
  have rs: "rs = map (\<lambda>c. condition_holds c f) conditions"
    using Inr by (rule conditions_match_value)
  show ?thesis
  proof (cases "\<forall>e \<in> set groups. expression_wf e")
    case True
    with assms have "groups_match groups f = Inr (map (\<lambda>e. expression_holds e f) groups)"
      by (simp add: groups_agree_def)
    with True Inr rs conds show ?thesis
      by (cases logical) (auto simp: match_agrees_def combine_results_def)
  next
    case False
    with assms obtain e where "groups_match groups f = Inl e"
      by (cases "groups_match groups f") (auto simp: groups_agree_def)
    with False Inr show ?thesis by (auto simp: match_agrees_def)
  qed
qed

lemma groups_agree_step:
  assumes "match_agrees g f" and "groups_agree gs f"
  shows "groups_agree (g # gs) f"
  using assms
  by (cases "expression_match g f"; cases "groups_match gs f")
    (auto simp: match_agrees_def groups_agree_def split: if_splits)

lemma expression_match_agrees: "match_agrees e f" "groups_agree es f"
proof (induction e f and es f rule: expression_match_groups_match.induct)
  case (1 logical0 conditions groups f)
  show ?case
  proof (cases "logical0 = LogicalEmpty \<or> logical0 = LogicalAnd \<or> logical0 = LogicalOr")
    case True
    then show ?thesis using "1.IH" [OF refl] by (intro match_agrees_step) auto
  next
    case False
    then show ?thesis by (simp add: match_agrees_def)
  qed
next
  case (2 f)
  then show ?case by (simp add: groups_agree_def)
next
  case (3 g gs f)
  then show ?case by (intro groups_agree_step)
qed

lemma expression_match_wf: "expression_wf e \<Longrightarrow> expression_match e f = Inr (expression_holds e f)"
  using expression_match_agrees(1) [of e f] by (simp add: match_agrees_def)

lemma expression_match_is_ok: "is_ok (expression_match e f) = expression_wf e"
  using expression_match_agrees(1) [of e f] by (auto simp: match_agrees_def split: if_splits)

section \<open>Size limits\<close>

fun expr_group_count :: "expression \<Rightarrow> nat" where
  "expr_group_count (Expression l cs gs) = Suc (sum_list (map expr_group_count gs))"

fun expr_condition_count :: "expression \<Rightarrow> nat" where
  "expr_condition_count (Expression l cs gs) =
     length cs + sum_list (map expr_condition_count gs)"

fun expr_depth_le :: "nat \<Rightarrow> expression \<Rightarrow> bool" where
  "expr_depth_le n (Expression l cs gs) =
     (case n of 0 \<Rightarrow> False | Suc m \<Rightarrow> \<forall>g \<in> set gs. expr_depth_le m g)"

lemma walk_limits_iff:
  "d \<le> Suc max_expression_depth \<Longrightarrow> walk_limits d e p = Inr q \<longleftrightarrow>
     expr_depth_le (Suc max_expression_depth - d) e
     \<and> fst p + expr_group_count e \<le> max_expression_groups
     \<and> snd p + expr_condition_count e \<le> max_expression_conditions
     \<and> q = (fst p + expr_group_count e, snd p + expr_condition_count e)"
  "d \<le> Suc max_expression_depth \<Longrightarrow>
     fst p \<le> max_expression_groups \<Longrightarrow> snd p \<le> max_expression_conditions \<Longrightarrow>
     walk_groups d es p = Inr q \<longleftrightarrow>
     (\<forall>e \<in> set es. expr_depth_le (Suc max_expression_depth - d) e)
     \<and> fst p + sum_list (map expr_group_count es) \<le> max_expression_groups
     \<and> snd p + sum_list (map expr_condition_count es) \<le> max_expression_conditions
     \<and> q = (fst p + sum_list (map expr_group_count es),
            snd p + sum_list (map expr_condition_count es))"
proof (induction d e p and d es p arbitrary: q and q rule: walk_limits_walk_groups.induct)
  case (1 depth logical conditions groups g c)
  show ?case
  proof (cases "depth > max_expression_depth \<or> g + 1 > max_expression_groups
      \<or> c + length conditions > max_expression_conditions")
    case True
    with "1.prems" show ?thesis by (auto split: nat.splits)
  next
    case False
    then have "Suc max_expression_depth - depth = Suc (Suc max_expression_depth - (depth + 1))"
      by linarith
    with False "1.IH" [of q] show ?thesis by (auto simp: add.assoc)
  qed
next
  case (2 depth counts)
  then show ?case by auto
next
  case (3 depth e es p)
  have "walk_groups depth (e # es) p = Inr q \<longleftrightarrow>
    (\<exists>p1. walk_limits depth e p = Inr p1 \<and> walk_groups depth es p1 = Inr q)"
    by (auto simp: result_simps)
  also have "\<dots> \<longleftrightarrow> expr_depth_le (Suc max_expression_depth - depth) e
     \<and> fst p + expr_group_count e \<le> max_expression_groups
     \<and> snd p + expr_condition_count e \<le> max_expression_conditions
     \<and> walk_groups depth es (fst p + expr_group_count e, snd p + expr_condition_count e) = Inr q"
    using "3.IH"(1) "3.prems"(1) by auto
  finally show ?case
    using "3.IH"(2) [of "(fst p + expr_group_count e, snd p + expr_condition_count e)" q]
      "3.prems"(1)
    by (simp only: fst_conv snd_conv) (auto simp: add.assoc)
qed

section \<open>Selection\<close>

definition rule_applies :: "facts \<Rightarrow> rule \<Rightarrow> bool" where
  "rule_applies f r \<longleftrightarrow> rule_enabled r \<and> expression_holds (rule_expression r) f"

lemma match_first_find:
  "(\<And>r. r \<in> set rs \<Longrightarrow> rule_enabled r \<Longrightarrow> expression_wf (rule_expression r)) \<Longrightarrow>
     match_first rs f = Inr (List.find (rule_applies f) rs)"
  by (induction rs) (auto simp: expression_match_wf rule_applies_def)

lemma find_filter: "List.find P xs = (case filter P xs of [] \<Rightarrow> None | y # ys \<Rightarrow> Some y)"
  by (induction xs) auto

lemma first_of_filter_split:
  "filter P xs = y # ys \<Longrightarrow> \<exists>pre post. xs = pre @ y # post \<and> (\<forall>x \<in> set pre. \<not> P x) \<and> P y"
  by (auto simp: filter_eq_Cons_iff)

text \<open>The head of a stable sort is the first of the elements with the least key.\<close>

lemma hd_sort_key:
  assumes "sort_key k ys = h # t"
  shows "h \<in> set ys" and "\<And>y. y \<in> set ys \<Longrightarrow> k h \<le> k y"
    and "\<exists>t'. filter (\<lambda>y. k y = k h) ys = h # t'"
proof -
  have set_eq: "set ys = insert h (set t)" using assms by (metis list.simps(15) set_sort)
  show "h \<in> set ys" using set_eq by simp
  have "sorted (map k (h # t))" using assms by (metis sorted_sort_key)
  then show "k h \<le> k y" if "y \<in> set ys" for y using that set_eq by auto
  have "filter (\<lambda>y. k y = k h) ys = filter (\<lambda>y. k y = k h) (sort_key k ys)"
    by (simp add: sort_key_stable)
  with assms show "\<exists>t'. filter (\<lambda>y. k y = k h) ys = h # t'" by simp
qed

lemma match_highest_Some:
  assumes "List.find P (sort_key k rules) = Some r"
  shows "\<exists>pre post. rules = pre @ r # post \<and> P r \<and> (\<forall>r' \<in> set pre. P r' \<longrightarrow> k r < k r')
    \<and> (\<forall>r' \<in> set post. P r' \<longrightarrow> k r \<le> k r')"
proof -
  from assms obtain t where t: "sort_key k (filter P rules) = r # t"
    by (auto simp: find_filter filter_sort split: list.splits)
  note hd = hd_sort_key [OF t]
  from hd(3) obtain t' where "filter (\<lambda>y. P y \<and> k y = k r) rules = r # t'" by auto
  from first_of_filter_split [OF this] obtain pre post
    where split: "rules = pre @ r # post" "\<forall>x \<in> set pre. \<not> (P x \<and> k x = k r)" "P r" by blast
  have le: "P y \<Longrightarrow> y \<in> set rules \<Longrightarrow> k r \<le> k y" for y using hd(2) by simp
  have "k r < k r'" if "r' \<in> set pre" "P r'" for r'
    using that split(1,2) le [of r'] by (auto simp: order_less_le)
  then show ?thesis using split le by (intro exI [of _ pre] exI [of _ post]) auto
qed

lemma validate_nodes_ok:
  "validate_nodes seen ns = Inr () \<longleftrightarrow>
     distinct (map node_id ns) \<and> set (map node_id ns) \<inter> set seen = {} \<and>
     (\<forall>n \<in> set ns. node_id n \<noteq> [] \<and> node_name n \<noteq> [] \<and> node_role_code n \<noteq> []
        \<and> rune_count (node_id n) \<le> 64 \<and> rune_count (node_name n) \<le> 128
        \<and> rune_count (node_role_code n) \<le> 128
        \<and> node_countersign n \<in> {CountersignEmpty, CountersignAll, CountersignAny}
        \<and> (node_timeout n = 0 \<or>
           min_node_timeout \<le> node_timeout n \<and> node_timeout n \<le> max_node_timeout))"
  by (induction seen ns rule: validate_nodes.induct) (auto simp: not_less)

lemma validate_limits_ok:
  "validate_limits e = Inr () \<longleftrightarrow>
     expr_depth_le max_expression_depth e \<and> expr_group_count e \<le> max_expression_groups
     \<and> expr_condition_count e \<le> max_expression_conditions"
  using walk_limits_iff(1) [of 1 e "(0, 0)"]
  by (auto simp: validate_limits_def result_simps)

lemma validate_rule_ok:
  "validate_rule r = Inr () \<longleftrightarrow>
     rule_name r \<noteq> [] \<and> rule_nodes r \<noteq> [] \<and> rune_count (rule_name r) \<le> 128
     \<and> length (rule_nodes r) \<le> max_rule_nodes \<and> validate_limits (rule_expression r) = Inr ()
     \<and> expression_wf (rule_expression r) \<and> validate_nodes [] (rule_nodes r) = Inr ()"
  using expression_match_is_ok [of "rule_expression r" zero_facts]
  by (auto simp: validate_rule_def is_ok_def split: sum.splits)

section \<open>Properties\<close>

text \<open>a rule whose expression passed the admission check against the empty facts never fails
  to evaluate, whatever the facts of a contract are, and its value is the conjunction or disjunction
  the expression tree denotes.\<close>

theorem admitted_rule_evaluates:
  assumes "validate_rule r = Inr ()"
  shows "expression_match (rule_expression r) f = Inr (expression_holds (rule_expression r) f)"
  using assms by (simp add: validate_rule_ok expression_match_wf)

text \<open>C8: rule selection over admitted rules always returns. It returns no rule exactly when no
  enabled rule holds; otherwise it returns an enabled rule that holds, of the highest priority among
  those, and the first such rule in the given order when priorities are equal.\<close>

theorem match_highest_correct:
  assumes "\<forall>r \<in> set rules. rule_enabled r \<longrightarrow> validate_rule r = Inr ()"
  shows "(match_highest rules f = Inr None \<and> (\<forall>r \<in> set rules. \<not> rule_applies f r)) \<or>
    (\<exists>r pre post. match_highest rules f = Inr (Some r) \<and> rules = pre @ r # post \<and> rule_applies f r
       \<and> (\<forall>r' \<in> set pre. rule_applies f r' \<longrightarrow> rule_priority r' < rule_priority r)
       \<and> (\<forall>r' \<in> set post. rule_applies f r' \<longrightarrow> rule_priority r' \<le> rule_priority r))"
proof -
  let ?k = "\<lambda>r. - rule_priority r"
  have eq: "match_highest rules f = Inr (List.find (rule_applies f) (sort_key ?k rules))"
    unfolding match_highest_def
    by (rule match_first_find) (use assms in \<open>simp add: validate_rule_ok\<close>)
  show ?thesis
  proof (cases "List.find (rule_applies f) (sort_key ?k rules)")
    case None
    with eq show ?thesis by (simp add: find_None_iff)
  next
    case (Some r)
    from match_highest_Some [OF this] eq Some show ?thesis by auto
  qed
qed

text \<open>the one-pass limit check, which counts while it descends and stops at the first excess,
  accepts exactly the expressions of at most 8 levels, 50 groups and 50 conditions.\<close>

theorem validate_limits_exact:
  "validate_limits e = Inr () \<longleftrightarrow>
     expr_depth_le 8 e \<and> expr_group_count e \<le> 50 \<and> expr_condition_count e \<le> 50"
  by (simp add: validate_limits_ok max_expression_depth_def max_expression_groups_def
      max_expression_conditions_def)

definition sample_node :: node where
  "sample_node = \<lparr>node_id = ''n1'', node_name = ''Legal'', node_role_code = ''legal'',
     node_assignees = [], node_countersign = CountersignEmpty, node_timeout = 0\<rparr>"

definition sample_rule :: "string \<Rightarrow> int \<Rightarrow> int \<Rightarrow> rule" where
  "sample_rule i p limit = \<lparr>rule_id = i, rule_tenant_id = ''t'', rule_name = ''rule'',
     rule_priority = p, rule_enabled = True,
     rule_expression = Expression LogicalEmpty
       [\<lparr>cond_field = FieldAmountMinor, cond_operator = OperatorLTE,
         cond_value = VInt64 limit\<rparr>] [],
     rule_nodes = [sample_node], rule_version = 1\<rparr>"

lemma sample_rule_valid: "validate_rule (sample_rule i p limit) = Inr ()"
  by (simp add: validate_rule_def sample_rule_def sample_node_def validate_limits_def
      max_expression_depth_def max_expression_groups_def max_expression_conditions_def
      max_rule_nodes_def condition_match_def combine_results_def rune_count_within)

theorem admitted_rule_evaluates_witness:
  "expression_match (rule_expression (sample_rule ''r'' 1 500)) (zero_facts\<lparr>fact_amount_minor := 900\<rparr>)
     = Inr False"
  using admitted_rule_evaluates [OF sample_rule_valid, of "''r''" 1 500 "zero_facts\<lparr>fact_amount_minor := 900\<rparr>"]
  by (simp add: sample_rule_def condition_holds_def condition_match_def)

lemma sample_rule_simps:
  "rule_enabled (sample_rule i p l) = True" "rule_priority (sample_rule i p l) = p"
  "rule_id (sample_rule i p l) = i"
  "rule_applies f (sample_rule i p l) = (fact_amount_minor f \<le> l)"
  by (simp_all add: sample_rule_def rule_applies_def condition_holds_def condition_match_def)

lemma sample_rule_eq: "sample_rule i p l = sample_rule i' p' l' \<longleftrightarrow> i = i' \<and> p = p' \<and> l = l'"
  by (auto simp: sample_rule_def)

theorem match_highest_correct_witness:
  "match_highest [sample_rule ''low'' 10 5000, sample_rule ''high'' 100 700] zero_facts
     = Inr (Some (sample_rule ''high'' 100 700))"
proof -
  let ?rules = "[sample_rule ''low'' 10 5000, sample_rule ''high'' 100 700]"
  have zero: "fact_amount_minor zero_facts = 0" by (simp add: zero_facts_def)
  obtain r pre post where m: "match_highest ?rules zero_facts = Inr (Some r)"
    "?rules = pre @ r # post"
    "\<forall>r' \<in> set post. rule_applies zero_facts r' \<longrightarrow> rule_priority r' \<le> rule_priority r"
    using match_highest_correct [of ?rules zero_facts]
    by (auto simp: sample_rule_valid sample_rule_simps zero)
  then have "pre = [] \<or> pre = [sample_rule ''low'' 10 5000] \<and> r = sample_rule ''high'' 100 700"
    by (cases pre) (auto simp: Cons_eq_append_conv append_eq_Cons_conv)
  with m show ?thesis by (auto simp: sample_rule_simps zero)
qed

end
