(* ===== verification/Number_Rule.thy ===== *)
theory Number_Rule
  imports Go_Strings
begin

text \<open>
  The contract number rule of \<^verbatim>\<open>internal/domain/contract/number_rule.go\<close>: normalisation, the
  character white list, the fingerprint that selects a sequence bucket, and the assembly of a
  number. The SHA-256 hex digest is the parameter \<open>digest\<close> of the fingerprint.
\<close>

record number_rule =
  nr_prefix :: string
  nr_year_segment :: string
  nr_seq_width :: int
  nr_suffix :: string
  nr_updated_by :: string
  nr_updated_at :: int

definition number_year_none :: string where "number_year_none = ''NONE''"
definition number_year_yy :: string where "number_year_yy = ''YY''"
definition number_year_yyyy :: string where "number_year_yyyy = ''YYYY''"
definition contract_number_max_length :: nat where "contract_number_max_length = 64"
definition contract_number_affix_max_length :: nat where "contract_number_affix_max_length = 32"
definition seq_width_min :: int where "seq_width_min = 1"
definition seq_width_max :: int where "seq_width_max = 9"

lemmas number_consts = number_year_none_def number_year_yy_def number_year_yyyy_def
  contract_number_max_length_def contract_number_affix_max_length_def
  seq_width_min_def seq_width_max_def

definition default_number_rule :: number_rule where
  "default_number_rule = \<lparr>nr_prefix = ''HT-'', nr_year_segment = number_year_yyyy, nr_seq_width = 4,
     nr_suffix = [], nr_updated_by = [], nr_updated_at = 0\<rparr>"

definition affix_allowed :: "nat \<Rightarrow> bool" where
  "affix_allowed ch =
     ((65 \<le> ch \<and> ch \<le> 90) \<or> (97 \<le> ch \<and> ch \<le> 122) \<or> (48 \<le> ch \<and> ch \<le> 57)
      \<or> ch = 45 \<or> ch = 95 \<or> ch = 46 \<or> ch = 47)"

definition validate_affix :: "string \<Rightarrow> unit result" where
  "validate_affix value =
     (if rune_count value > contract_number_affix_max_length then fail ErrInvalidNumberRule
      else if \<not> list_all affix_allowed (go_runes value) then fail ErrInvalidNumberRule
      else ok ())"

definition year_segment_length :: "string \<Rightarrow> nat" where
  "year_segment_length segment =
     (if segment = number_year_yy then 2 else if segment = number_year_yyyy then 4 else 0)"

definition normalize_number_rule :: "number_rule \<Rightarrow> number_rule result" where
  "normalize_number_rule rule0 =
     (let rule1 = rule0\<lparr>nr_prefix := trim_space (nr_prefix rule0),
                        nr_suffix := trim_space (nr_suffix rule0),
                        nr_year_segment := to_upper (trim_space (nr_year_segment rule0))\<rparr>;
          rule = (if nr_year_segment rule1 = [] then rule1\<lparr>nr_year_segment := number_year_yyyy\<rparr>
                  else rule1)
      in res_bind (validate_affix (nr_prefix rule)) (\<lambda>_.
         res_bind (validate_affix (nr_suffix rule)) (\<lambda>_.
         if nr_year_segment rule \<noteq> number_year_none \<and> nr_year_segment rule \<noteq> number_year_yy
            \<and> nr_year_segment rule \<noteq> number_year_yyyy
         then fail ErrInvalidNumberRule
         else if nr_seq_width rule < seq_width_min \<or> nr_seq_width rule > seq_width_max
         then fail ErrInvalidNumberRule
         else if rune_count (nr_prefix rule) + year_segment_length (nr_year_segment rule)
                 + nat (nr_seq_width rule) + rune_count (nr_suffix rule) > contract_number_max_length
         then fail ErrInvalidNumberRule
         else ok rule)))"

definition rule_key_material :: "number_rule \<Rightarrow> string" where
  "rule_key_material rule =
     nr_prefix rule @ CHR 0x00 # nr_year_segment rule @ CHR 0x00 #
     nat_str (nat (nr_seq_width rule)) @ CHR 0x00 # nr_suffix rule"

definition contract_number_rule_key :: "(string \<Rightarrow> string) \<Rightarrow> number_rule \<Rightarrow> string result" where
  "contract_number_rule_key digest rule =
     res_bind (normalize_number_rule rule) (\<lambda>n. ok (digest (rule_key_material n)))"

text \<open>The loop that multiplies by ten, at 64 bits.\<close>

fun seq_limit_loop :: "nat \<Rightarrow> nat \<Rightarrow> nat" where
  "seq_limit_loop 0 limit = limit"
| "seq_limit_loop (Suc k) limit = seq_limit_loop k (limit * 10 mod 2 ^ 64)"

definition seq_limit :: "int \<Rightarrow> nat" where
  "seq_limit width =
     (if width < seq_width_min \<or> width > seq_width_max then 0
      else seq_limit_loop (nat width) 1 - 1)"

definition year_part :: "string \<Rightarrow> int \<Rightarrow> string" where
  "year_part segment year =
     (if segment = number_year_yy then fmt_pad_int 2 (go_rem (go_rem year 100 + 100) 100)
      else if segment = number_year_yyyy then fmt_pad_int 4 year
      else [])"

definition build_contract_number :: "number_rule \<Rightarrow> int \<Rightarrow> nat \<Rightarrow> string result" where
  "build_contract_number rule year sequence =
     res_bind (normalize_number_rule rule) (\<lambda>n.
       if sequence = 0 then fail ErrInvalidNumberRule
       else if sequence > seq_limit (nr_seq_width n) then fail ErrNumberExhausted
       else let number = nr_prefix n @ year_part (nr_year_segment n) year
                           @ fmt_pad (nat (nr_seq_width n)) sequence @ nr_suffix n
            in if rune_count number > contract_number_max_length then fail ErrInvalidNumberRule
               else ok number)"

section \<open>Normal forms\<close>

text \<open>The rules that normalisation returns.\<close>

definition normal_rule :: "number_rule \<Rightarrow> bool" where
  "normal_rule r \<longleftrightarrow>
     trim_space (nr_prefix r) = nr_prefix r \<and> trim_space (nr_suffix r) = nr_suffix r \<and>
     validate_affix (nr_prefix r) = Inr () \<and> validate_affix (nr_suffix r) = Inr () \<and>
     nr_year_segment r \<in> {number_year_none, number_year_yy, number_year_yyyy} \<and>
     1 \<le> nr_seq_width r \<and> nr_seq_width r \<le> 9 \<and>
     rune_count (nr_prefix r) + year_segment_length (nr_year_segment r)
       + nat (nr_seq_width r) + rune_count (nr_suffix r) \<le> 64"

lemma normalize_number_rule_normal: "normalize_number_rule r = Inr n \<Longrightarrow> normal_rule n"
  by (auto simp: normalize_number_rule_def normal_rule_def Let_def result_simps number_consts
      split: if_splits)

lemma year_segment_fixed:
  "s \<in> {number_year_none, number_year_yy, number_year_yyyy} \<Longrightarrow> to_upper (trim_space s) = s \<and> s \<noteq> []"
proof -
  assume "s \<in> {number_year_none, number_year_yy, number_year_yyyy}"
  moreover have "trim_space ''NONE'' = ''NONE''" "trim_space ''YY'' = ''YY''"
    "trim_space ''YYYY'' = ''YYYY''"
    by (rule trim_space_id; simp add: space_bytes_def byte_of_def)+
  ultimately show ?thesis
    by (auto simp: number_consts upper_char_def byte_of_def)
qed

lemma normalize_normal: "normal_rule r \<Longrightarrow> normalize_number_rule r = Inr r"
  using year_segment_fixed [of "nr_year_segment r"]
  by (auto simp: normal_rule_def normalize_number_rule_def Let_def number_consts)

lemma validate_affix_allowed:
  assumes "validate_affix s = Inr ()"
  shows "ascii_string s" and "list_all (\<lambda>c. affix_allowed (byte_of c)) s" and "length s \<le> 32"
proof -
  have all: "list_all affix_allowed (go_runes s)" and cnt: "rune_count s \<le> 32"
    using assms by (auto simp: validate_affix_def number_consts split: if_splits)
  have "list_all (\<lambda>r. r < 128) (go_runes s)"
    using all by (auto simp: list_all_iff affix_allowed_def)
  then show a: "ascii_string s" by (rule go_runes_all_ascii)
  show "list_all (\<lambda>c. affix_allowed (byte_of c)) s"
    using all by (simp add: go_runes_ascii [OF a] list.pred_map comp_def)
  show "length s \<le> 32" using cnt by (simp add: rune_count_ascii [OF a])
qed

lemma seq_limit_loop_eq: "l * 10 ^ k < 2 ^ 64 \<Longrightarrow> seq_limit_loop k l = l * 10 ^ k"
proof (induction k arbitrary: l)
  case 0
  show ?case by simp
next
  case (Suc k)
  have "l * 10 \<le> l * 10 ^ Suc k" by simp
  from this Suc.prems have "l * 10 < 2 ^ 64" by (rule le_less_trans)
  with Suc.IH [of "l * 10"] Suc.prems show ?case by (simp add: mult.assoc)
qed

lemma seq_limit_eq: "1 \<le> w \<Longrightarrow> w \<le> 9 \<Longrightarrow> seq_limit w = 10 ^ nat w - 1"
proof -
  assume w: "1 \<le> w" "w \<le> 9"
  then have "(10::nat) ^ nat w \<le> 10 ^ 9" by (intro power_increasing) auto
  then have "(1::nat) * 10 ^ nat w < 2 ^ 64" by simp
  from seq_limit_loop_eq [OF this] w show ?thesis by (simp add: seq_limit_def number_consts)
qed

lemma go_rem_100: "0 \<le> year \<Longrightarrow> go_rem (go_rem year 100 + 100) 100 = year mod 100"
  by (simp add: go_rem_def)

lemma year_part_ok:
  assumes "0 \<le> year" and "year \<le> 9999" and "s \<in> {number_year_none, number_year_yy, number_year_yyyy}"
  shows "length (year_part s year) = year_segment_length s" and "list_all is_digit (year_part s year)"
proof -
  have "\<not> year mod 100 < 0" by (simp add: not_less)
  then have yy: "year_part number_year_yy year = fmt_pad 2 (nat (year mod 100))"
    using assms(1) by (simp add: year_part_def go_rem_100 fmt_pad_int_def)
  have yyyy: "year_part number_year_yyyy year = fmt_pad 4 (nat year)"
    using assms(1) by (simp add: year_part_def fmt_pad_int_def number_consts)
  have none: "year_part number_year_none year = []"
    by (simp add: year_part_def number_consts)
  have "length (fmt_pad 2 (nat (year mod 100))) = 2" by (rule length_fmt_pad) auto
  moreover have "length (fmt_pad 4 (nat year)) = 4" using assms(1,2) by (intro length_fmt_pad) auto
  ultimately show "length (year_part s year) = year_segment_length s"
    using assms(3) yy yyyy none
    by (elim insertE emptyE) (simp_all add: year_segment_length_def number_consts)
  show "list_all is_digit (year_part s year)"
    using assms(3) yy yyyy none fmt_pad_digits by (elim insertE emptyE) simp_all
qed

lemma digit_affix_allowed: "is_digit c \<Longrightarrow> affix_allowed (byte_of c)"
  by (simp add: is_digit_def affix_allowed_def)

lemma allowed_ascii: "list_all (\<lambda>c. affix_allowed (byte_of c)) s \<Longrightarrow> ascii_string s"
  by (auto simp: ascii_string_def affix_allowed_def list_all_iff)

lemma seq_digits:
  assumes "normal_rule n" and "0 < seq" and "seq \<le> seq_limit (nr_seq_width n)"
  shows "length (fmt_pad (nat (nr_seq_width n)) seq) = nat (nr_seq_width n)"
proof -
  have "seq < 10 ^ nat (nr_seq_width n)"
    using assms seq_limit_eq [of "nr_seq_width n"] by (auto simp: normal_rule_def)
  with assms(1) show ?thesis by (intro length_fmt_pad) (auto simp: normal_rule_def)
qed

text \<open>For a year of at most four digits the length check on the assembled number never fires.\<close>

lemma build_number_normal:
  assumes n: "normal_rule n" and y: "0 \<le> year" "year \<le> 9999"
    and s: "0 < seq" "seq \<le> seq_limit (nr_seq_width n)"
  defines "number \<equiv> nr_prefix n @ year_part (nr_year_segment n) year
      @ fmt_pad (nat (nr_seq_width n)) seq @ nr_suffix n"
  shows "build_contract_number n year seq = Inr number" and "length number \<le> 64"
    and "list_all (\<lambda>c. affix_allowed (byte_of c)) number"
proof -
  have seg: "nr_year_segment n \<in> {number_year_none, number_year_yy, number_year_yyyy}"
    using n by (simp add: normal_rule_def)
  have "validate_affix (nr_prefix n) = Inr ()" "validate_affix (nr_suffix n) = Inr ()"
    using n by (simp_all add: normal_rule_def)
  note p = validate_affix_allowed [OF this(1)] and x = validate_affix_allowed [OF this(2)]
  show all: "list_all (\<lambda>c. affix_allowed (byte_of c)) number"
    using p(2) x(2) year_part_ok(2) [OF y seg] fmt_pad_digits digit_affix_allowed
    by (auto simp: number_def list_all_iff)
  have "length number = length (nr_prefix n) + year_segment_length (nr_year_segment n)
      + nat (nr_seq_width n) + length (nr_suffix n)"
    using year_part_ok(1) [OF y seg] seq_digits [OF n s] by (simp add: number_def)
  then show len: "length number \<le> 64"
    using n p(1) x(1) by (simp add: normal_rule_def rune_count_ascii)
  have "rune_count number \<le> 64"
    using allowed_ascii [OF all] len by (simp add: rune_count_ascii)
  then show "build_contract_number n year seq = Inr number"
    using s by (simp add: build_contract_number_def normalize_normal [OF n] number_def
        contract_number_max_length_def not_less)
qed

lemma build_number_via_normal:
  "normalize_number_rule r = Inr n \<Longrightarrow> build_contract_number r y s = build_contract_number n y s"
  using normalize_normal [OF normalize_number_rule_normal] by (simp add: build_contract_number_def)

lemma material_fields:
  assumes "normal_rule n"
  shows "split_on (CHR 0x00) (rule_key_material n) =
    [nr_prefix n, nr_year_segment n, nat_str (nat (nr_seq_width n)), nr_suffix n]"
proof -
  have affix: "CHR 0x00 \<notin> set s" if "validate_affix s = Inr ()" for s
    using validate_affix_allowed(2) [OF that]
    by (auto simp: list_all_iff affix_allowed_def byte_of_def)
  have "CHR 0x00 \<notin> set (nr_prefix n)" "CHR 0x00 \<notin> set (nr_suffix n)"
    using assms affix by (auto simp: normal_rule_def)
  moreover have "CHR 0x00 \<notin> set (nr_year_segment n)"
    using assms by (auto simp: normal_rule_def number_consts)
  moreover have "CHR 0x00 \<notin> set (nat_str k)" for k
    using nat_str_digits [of k] by (auto simp: list_all_iff is_digit_def byte_of_def)
  ultimately show ?thesis
    by (simp add: rule_key_material_def split_on_append split_on_fresh)
qed

lemma default_rule_normalizes: "normalize_number_rule default_number_rule = Inr default_number_rule"
proof (rule normalize_normal)
  have "trim_space ''HT-'' = ''HT-''" by (rule trim_space_id) (simp add: space_bytes_def byte_of_def)
  then show "normal_rule default_number_rule"
    by (simp add: normal_rule_def default_number_rule_def number_consts validate_affix_def
        rune_count_ascii go_runes_ascii byte_of_def affix_allowed_def year_segment_length_def)
qed

section \<open>Properties\<close>

text \<open>C10: normalisation is idempotent, and for a rule it accepts every sequence value from 1 to the
  limit of its width yields a number in every year from 0 to 9999: the number has at most 64
  characters, all from the white list that downstream systems accept; beyond the limit the answer is
  the exhaustion error, and 0 is refused.\<close>

theorem build_contract_number_total:
  assumes "normalize_number_rule r = Inr n" and "0 \<le> year" and "year \<le> 9999"
  shows "normalize_number_rule n = Inr n \<and>
    (\<forall>seq. 0 < seq \<and> seq \<le> 10 ^ nat (nr_seq_width n) - 1 \<longrightarrow>
      (\<exists>number. build_contract_number r year seq = Inr number \<and> length number \<le> 64
        \<and> list_all (\<lambda>c. affix_allowed (byte_of c)) number)) \<and>
    (\<forall>seq > 10 ^ nat (nr_seq_width n) - 1.
      build_contract_number r year seq = Inl ErrNumberExhausted) \<and>
    build_contract_number r year 0 = Inl ErrInvalidNumberRule"
proof -
  have n: "normal_rule n" using assms(1) by (rule normalize_number_rule_normal)
  have lim: "seq_limit (nr_seq_width n) = 10 ^ nat (nr_seq_width n) - 1"
    using n by (intro seq_limit_eq) (auto simp: normal_rule_def)
  have "\<exists>number. build_contract_number r year seq = Inr number \<and> length number \<le> 64
        \<and> list_all (\<lambda>c. affix_allowed (byte_of c)) number"
    if "0 < seq \<and> seq \<le> 10 ^ nat (nr_seq_width n) - 1" for seq
    using build_number_normal [OF n assms(2,3), of seq] that lim
      build_number_via_normal [OF assms(1)] by auto
  moreover have "build_contract_number r year seq = Inl ErrNumberExhausted"
    if "seq > 10 ^ nat (nr_seq_width n) - 1" for seq
    using that assms(1) lim by (auto simp: build_contract_number_def)
  ultimately show ?thesis
    using assms(1) normalize_normal [OF n] by (simp add: build_contract_number_def)
qed

theorem build_contract_number_total_witness:
  "\<exists>number. build_contract_number default_number_rule 2026 17 = Inr number \<and> length number \<le> 64
     \<and> list_all (\<lambda>c. affix_allowed (byte_of c)) number"
  using build_contract_number_total [OF default_rule_normalizes, of 2026]
  by (simp add: default_number_rule_def)

text \<open>within one rule and year different sequence values give different numbers: the sequence
  can be read back from the number.\<close>

theorem build_contract_number_injective:
  assumes "build_contract_number r year s1 = Inr number"
    and "build_contract_number r year s2 = Inr number"
  shows "s1 = s2"
proof -
  from assms(1) obtain n where n: "normalize_number_rule r = Inr n"
    by (auto simp: build_contract_number_def result_simps)
  with assms have "fmt_pad (nat (nr_seq_width n)) s1 = fmt_pad (nat (nr_seq_width n)) s2"
    by (auto simp: build_contract_number_def Let_def split: if_splits)
  then show ?thesis by (rule fmt_pad_inj)
qed

lemma default_rule_number_17:
  "\<exists>number. build_contract_number default_number_rule 2026 17 = Inr number"
  using build_number_normal(1) [OF normalize_number_rule_normal [OF default_rule_normalizes], of 2026 17]
    seq_limit_eq [of 4]
  by (simp add: default_number_rule_def)

theorem build_contract_number_injective_witness:
  "build_contract_number default_number_rule 2026 17 \<noteq> build_contract_number default_number_rule 2026 18"
  using build_contract_number_injective [of default_number_rule 2026 17 _ 18] default_rule_number_17
  by force

text \<open>the text that is hashed into the bucket key determines every field that takes part in the
  number: two accepted rules have the same key material exactly when they normalise to the same
  prefix, year segment, width and suffix; the audit fields do not take part.\<close>

theorem rule_key_material_injective:
  assumes "normalize_number_rule r1 = Inr n1" and "normalize_number_rule r2 = Inr n2"
  shows "rule_key_material n1 = rule_key_material n2 \<longleftrightarrow>
    nr_prefix n1 = nr_prefix n2 \<and> nr_year_segment n1 = nr_year_segment n2
    \<and> nr_seq_width n1 = nr_seq_width n2 \<and> nr_suffix n1 = nr_suffix n2"
proof
  have n: "normal_rule n1" "normal_rule n2"
    using assms by (simp_all add: normalize_number_rule_normal)
  assume "rule_key_material n1 = rule_key_material n2"
  with material_fields [OF n(1)] material_fields [OF n(2)]
  have f: "nr_prefix n1 = nr_prefix n2" "nr_year_segment n1 = nr_year_segment n2"
    "nat_str (nat (nr_seq_width n1)) = nat_str (nat (nr_seq_width n2))"
    "nr_suffix n1 = nr_suffix n2" by auto
  from f(3) have "nat (nr_seq_width n1) = nat (nr_seq_width n2)"
    by (metis digits_val_nat_str)
  with n have "nr_seq_width n1 = nr_seq_width n2" by (auto simp: normal_rule_def)
  with f show "nr_prefix n1 = nr_prefix n2 \<and> nr_year_segment n1 = nr_year_segment n2
    \<and> nr_seq_width n1 = nr_seq_width n2 \<and> nr_suffix n1 = nr_suffix n2" by simp
qed (simp add: rule_key_material_def)

theorem rule_key_material_injective_witness:
  "rule_key_material default_number_rule \<noteq> rule_key_material (default_number_rule\<lparr>nr_seq_width := 5\<rparr>)"
proof -
  have "normal_rule (default_number_rule\<lparr>nr_seq_width := 5\<rparr>)"
    using normalize_number_rule_normal [OF default_rule_normalizes]
    by (simp add: normal_rule_def default_number_rule_def year_segment_length_def number_consts
        rune_count_ascii byte_of_def)
  from rule_key_material_injective [OF default_rule_normalizes normalize_normal [OF this]]
  show ?thesis by (simp add: default_number_rule_def)
qed

end
