(* ===== verification/Business_Clock.thy ===== *)
theory Business_Clock
  imports Go_Strings
begin

text \<open>
  The business calendar of \<^verbatim>\<open>internal/businessclock\<close>. An instant is the number of nanoseconds
  since the Unix epoch. A zone is the function from Unix seconds to the offset in force, which is
  what Go's zone lookup returns; the IANA zone that the process loads is the parameter
  \<open>loaded :: zone option\<close>, and \<open>None\<close> is a failed load. Civil dates are ordered
  lexicographically.
\<close>

type_synonym instant = int
type_synonym zone = "int \<Rightarrow> int"

definition second_ns :: int where "second_ns = 1000000000"
definition day_seconds :: int where "day_seconds = 86400"
definition day_ns :: int where "day_ns = day_seconds * second_ns"

definition fixed_zone_offset :: int where "fixed_zone_offset = 8 * 60 * 60"

definition utc :: zone where "utc = (\<lambda>_. 0)"

definition fixed_zone :: zone where "fixed_zone = (\<lambda>_. fixed_zone_offset)"

definition location :: "zone option \<Rightarrow> zone" where
  "location loaded = (case loaded of Some z \<Rightarrow> z | None \<Rightarrow> fixed_zone)"

section \<open>Civil dates\<close>

datatype civil = Civil (civil_year: int) (civil_month: nat) (civil_day: nat)

fun civil_key :: "civil \<Rightarrow> int \<times> nat \<times> nat" where
  "civil_key (Civil y m d) = (y, m, d)"

instantiation civil :: linorder
begin

fun less_eq_civil :: "civil \<Rightarrow> civil \<Rightarrow> bool" where
  "less_eq_civil (Civil y m d) (Civil y' m' d') \<longleftrightarrow>
     y < y' \<or> (y = y' \<and> (m < m' \<or> (m = m' \<and> d \<le> d')))"

fun less_civil :: "civil \<Rightarrow> civil \<Rightarrow> bool" where
  "less_civil (Civil y m d) (Civil y' m' d') \<longleftrightarrow>
     y < y' \<or> (y = y' \<and> (m < m' \<or> (m = m' \<and> d < d')))"

instance
proof
  fix a b c :: civil
  show "(a < b) = (a \<le> b \<and> \<not> b \<le> a)" by (cases a; cases b) auto
  show "a \<le> a" by (cases a) simp
  show "a \<le> b \<Longrightarrow> b \<le> c \<Longrightarrow> a \<le> c" by (cases a; cases b; cases c) auto
  show "a \<le> b \<Longrightarrow> b \<le> a \<Longrightarrow> a = b" by (cases a; cases b) auto
  show "a \<le> b \<or> b \<le> a" by (cases a; cases b) auto
qed

end

definition is_leap :: "int \<Rightarrow> bool" where
  "is_leap y \<longleftrightarrow> y mod 4 = 0 \<and> (y mod 100 \<noteq> 0 \<or> y mod 400 = 0)"

definition month_lengths :: "int \<Rightarrow> nat list" where
  "month_lengths y = [31, if is_leap y then 29 else 28, 31, 30, 31, 30, 31, 31, 30, 31, 30, 31]"

definition days_in :: "nat \<Rightarrow> int \<Rightarrow> nat" where
  "days_in m y = (if 1 \<le> m \<and> m \<le> 12 then month_lengths y ! (m - 1) else 0)"

definition valid_civil :: "civil \<Rightarrow> bool" where
  "valid_civil c \<longleftrightarrow> 1 \<le> civil_month c \<and> civil_month c \<le> 12 \<and> 1 \<le> civil_day c
     \<and> civil_day c \<le> days_in (civil_month c) (civil_year c)"

text \<open>Days from 0001-01-01 to the first day of a year; the epoch is day 719162 of that count.\<close>

definition days_before_year :: "int \<Rightarrow> int" where
  "days_before_year y = 365 * (y - 1) + (y - 1) div 4 - (y - 1) div 100 + (y - 1) div 400"

definition epoch_day :: int where "epoch_day = 719162"

definition year_of_abs :: "int \<Rightarrow> int" where
  "year_of_abs n =
     (let y = (400 * n) div 146097 + 1
      in if days_before_year (y + 1) \<le> n then y + 1 else y)"

fun month_walk :: "nat list \<Rightarrow> nat \<Rightarrow> nat \<Rightarrow> nat \<times> nat" where
  "month_walk [] m d = (m, d + 1)"
| "month_walk (l # ls) m d = (if d < l then (m, d + 1) else month_walk ls (m + 1) (d - l))"

definition civil_of_day :: "int \<Rightarrow> civil" where
  "civil_of_day n =
     (let abs = n + epoch_day; y = year_of_abs abs;
          (m, d) = month_walk (month_lengths y) 1 (nat (abs - days_before_year y))
      in Civil y m d)"

definition day_of_civil :: "civil \<Rightarrow> int" where
  "day_of_civil c =
     days_before_year (civil_year c)
     + int (sum_list (take (civil_month c - 1) (month_lengths (civil_year c))))
     + int (civil_day c) - 1 - epoch_day"

section \<open>Operations of the clock\<close>

definition unix_sec :: "instant \<Rightarrow> int" where
  "unix_sec t = t div second_ns"

definition local_civil :: "zone \<Rightarrow> instant \<Rightarrow> civil" where
  "local_civil z t = civil_of_day ((unix_sec t + z (unix_sec t)) div day_seconds)"

text \<open>\<^verbatim>\<open>time.Date\<close> at midnight: the offset is looked up once for the wall clock read as UTC and once
  more for the instant that offset gives.\<close>

definition go_date :: "civil \<Rightarrow> zone \<Rightarrow> instant" where
  "go_date c z = (let unix = day_of_civil c * day_seconds in (unix - z (unix - z unix)) * second_ns)"

definition day_start_of :: "zone option \<Rightarrow> instant \<Rightarrow> instant" where
  "day_start_of loaded t = go_date (local_civil (location loaded) t) (location loaded)"

definition month_start_of :: "zone option \<Rightarrow> instant \<Rightarrow> instant" where
  "month_start_of loaded t =
     (let local = local_civil (location loaded) t
      in go_date (Civil (civil_year local) (civil_month local) 1) (location loaded))"

definition clock_year_of :: "zone option \<Rightarrow> instant \<Rightarrow> int" where
  "clock_year_of loaded t = civil_year (local_civil (location loaded) t)"

definition calendar_day :: "zone option \<Rightarrow> instant \<Rightarrow> instant" where
  "calendar_day loaded t = go_date (local_civil (location loaded) t) utc"

definition calendar_day_before :: "zone option \<Rightarrow> instant \<Rightarrow> instant \<Rightarrow> bool" where
  "calendar_day_before loaded a b \<longleftrightarrow> calendar_day loaded a < calendar_day loaded b"

text \<open>\<^verbatim>\<open>time.Parse("2006-01-02", s)\<close> and \<^verbatim>\<open>Format("2006-01-02")\<close>.\<close>

definition parse_date :: "string \<Rightarrow> civil option" where
  "parse_date s =
     (if length s = 10 \<and> list_all is_digit (take 4 s) \<and> s ! 4 = CHR ''-''
         \<and> list_all is_digit (take 2 (drop 5 s)) \<and> s ! 7 = CHR ''-''
         \<and> list_all is_digit (drop 8 s)
      then let c = Civil (int (digits_val (take 4 s))) (digits_val (take 2 (drop 5 s)))
                     (digits_val (drop 8 s))
           in if valid_civil c then Some c else None
      else None)"

definition format_date :: "civil \<Rightarrow> string" where
  "format_date c = fmt_pad_int 4 (civil_year c) @ CHR ''-'' # fmt_pad 2 (civil_month c)
     @ CHR ''-'' # fmt_pad 2 (civil_day c)"

section \<open>The calendar is exact\<close>

lemma div_bounds: "(0::int) < k \<Longrightarrow> k * (x div k) \<le> x \<and> x < k * (x div k) + k"
  using pos_mod_bound [of k x] pos_mod_sign [of k x] mult_div_mod_eq [of k x] by linarith

lemma year_of_abs_bounds:
  "days_before_year (year_of_abs n) \<le> n \<and> n < days_before_year (year_of_abs n + 1)"
proof -
  define p where "p = (400 * n) div 146097"
  have q: "146097 * p \<le> 400 * n" "400 * n < 146097 * p + 146097"
    using div_bounds [of 146097 "400 * n"] by (auto simp: p_def)
  have D: "400 * days_before_year (q + 1) < 146097 * q + 400"
    "146097 * q - 800 < 400 * days_before_year (q + 1)" for q
    using div_bounds [of 4 q] div_bounds [of 100 q] div_bounds [of 400 q]
    by (auto simp: days_before_year_def)
  have lo: "days_before_year (p + 1) \<le> n" using D(1) [of p] q by linarith
  define Z where "Z = days_before_year (p + 1 + 1 + 1)"
  have "146097 * (p + 1 + 1) - 800 < 400 * Z" unfolding Z_def by (rule D(2))
  then have "146097 * p + 291394 < 400 * Z" by (simp add: algebra_simps)
  with q(2) have "400 * n < 400 * Z" by linarith
  then have "n < Z" by simp
  then have "n < days_before_year (p + 1 + 1 + 1)" by (simp only: Z_def)
  with lo show ?thesis by (auto simp: year_of_abs_def Let_def p_def [symmetric])
qed

lemma days_before_year_Suc:
  "days_before_year (y + 1) = days_before_year y + int (sum_list (month_lengths y))"
proof -
  have step: "y div k = (y - 1) div k + (if y mod k = 0 then 1 else 0)" if "0 < k" for k :: int
  proof -
    have "y = k * (y div k) + y mod k" by simp
    then have e: "y - 1 = (y mod k - 1) + k * (y div k)" by linarith
    have "(y - 1) div k = (y mod k - 1) div k + y div k"
      using that by (subst e) (simp add: div_mult_self2)
    moreover have "(y mod k - 1) div k = (if y mod k = 0 then - 1 else 0)"
    proof (cases "y mod k = 0")
      case True
      with that show ?thesis by (simp add: div_eq_minus1)
    next
      case False
      then have "0 \<le> y mod k - 1" "y mod k - 1 < k"
        using pos_mod_sign [OF that, of y] pos_mod_bound [OF that, of y] by linarith+
      with False show ?thesis by (simp add: div_pos_pos_trivial)
    qed
    ultimately show ?thesis by simp
  qed
  have dvds: "y mod 4 = 0" if "y mod 100 = 0" using that by presburger
  have dvds': "y mod 100 = 0" if "y mod 400 = 0" using that by presburger
  have sum: "int (sum_list (month_lengths y)) = (if is_leap y then 366 else 365)"
    by (simp add: month_lengths_def)
  have "days_before_year (y + 1) = 365 * y + y div 4 - y div 100 + y div 400"
    by (simp add: days_before_year_def)
  also have "\<dots> = 365 * y + ((y - 1) div 4 + (if y mod 4 = 0 then 1 else 0))
      - ((y - 1) div 100 + (if y mod 100 = 0 then 1 else 0))
      + ((y - 1) div 400 + (if y mod 400 = 0 then 1 else 0))"
    using step [of 4] step [of 100] step [of 400] by (simp only: zero_less_numeral)
  also have "\<dots> = days_before_year y + (if is_leap y then 366 else 365)"
    unfolding days_before_year_def is_leap_def
    by (cases "y mod 4 = 0"; cases "y mod 100 = 0"; cases "y mod 400 = 0")
      (simp_all only: dvds dvds' simp_thms if_True if_False, simp_all)
  finally show ?thesis by (simp only: sum)
qed

lemma month_walk_sum:
  "d < sum_list ls \<Longrightarrow> month_walk ls m d = (m', d') \<Longrightarrow>
     m \<le> m' \<and> m' < m + length ls \<and> 1 \<le> d' \<and> d' \<le> ls ! (m' - m)
     \<and> d + 1 = sum_list (take (m' - m) ls) + d'"
proof (induction ls m d arbitrary: m' d' rule: month_walk.induct)
  case (1 m d)
  then show ?case by simp
next
  case (2 l ls m d)
  show ?case
  proof (cases "d < l")
    case True
    with 2 show ?thesis by auto
  next
    case False
    with 2 have ih: "m + 1 \<le> m' \<and> m' < m + 1 + length ls \<and> 1 \<le> d' \<and> d' \<le> ls ! (m' - (m + 1))
     \<and> d - l + 1 = sum_list (take (m' - (m + 1)) ls) + d'" by auto
    then obtain k where k: "m' = m + 1 + k" by (metis le_Suc_ex)
    with ih False show ?thesis by auto
  qed
qed

lemma civil_of_day_correct: "valid_civil (civil_of_day n) \<and> day_of_civil (civil_of_day n) = n"
proof -
  let ?y = "year_of_abs (n + epoch_day)"
  let ?d = "nat (n + epoch_day - days_before_year ?y)"
  obtain m d where md: "month_walk (month_lengths ?y) 1 ?d = (m, d)" by force
  have b: "days_before_year ?y \<le> n + epoch_day"
    "n + epoch_day < days_before_year ?y + int (sum_list (month_lengths ?y))"
    using year_of_abs_bounds [of "n + epoch_day"] by (auto simp: days_before_year_Suc)
  then have "?d < sum_list (month_lengths ?y)" by linarith
  from month_walk_sum [OF this md] have w: "1 \<le> m" "m < 1 + length (month_lengths ?y)" "1 \<le> d"
    "d \<le> month_lengths ?y ! (m - 1)" "?d + 1 = sum_list (take (m - 1) (month_lengths ?y)) + d" by auto
  have c: "civil_of_day n = Civil ?y m d" unfolding civil_of_day_def Let_def md by simp
  have "length (month_lengths ?y) = 12" by (simp add: month_lengths_def)
  with w have "valid_civil (Civil ?y m d)" by (simp add: valid_civil_def days_in_def)
  moreover have "day_of_civil (Civil ?y m d) = n" using w(5) b(1) by (simp add: day_of_civil_def)
  ultimately show ?thesis by (simp add: c)
qed

lemma take_month_le:
  assumes "k < j" and "j \<le> length ls"
  shows "sum_list (take k ls) + ls ! k \<le> sum_list (take j (ls :: nat list))"
proof -
  obtain i where i: "j = Suc k + i" using assms(1) by (metis less_eq_Suc_le le_Suc_ex)
  have "take j ls = take k ls @ ls ! k # take i (drop (Suc k) ls)"
    using assms by (simp only: i take_add) (simp add: take_Suc_conv_app_nth)
  then show ?thesis by simp
qed

lemma civil_year_bounds_day:
  assumes "valid_civil c"
  shows "days_before_year (civil_year c) \<le> day_of_civil c + epoch_day"
    and "day_of_civil c + epoch_day < days_before_year (civil_year c + 1)"
proof -
  let ?ls = "month_lengths (civil_year c)"
  have l: "length ?ls = 12" by (simp add: month_lengths_def)
  have v: "1 \<le> civil_month c" "civil_month c \<le> 12" "1 \<le> civil_day c"
    "civil_day c \<le> ?ls ! (civil_month c - 1)"
    using assms by (auto simp: valid_civil_def days_in_def)
  have "sum_list (take (civil_month c - 1) ?ls) + ?ls ! (civil_month c - 1) \<le> sum_list (take 12 ?ls)"
    using v(1,2) l by (intro take_month_le) auto
  then have "sum_list (take (civil_month c - 1) ?ls) + ?ls ! (civil_month c - 1) \<le> sum_list ?ls"
    using l by simp
  with v(3,4) show "day_of_civil c + epoch_day < days_before_year (civil_year c + 1)"
    by (simp add: day_of_civil_def days_before_year_Suc)
  from v(3) show "days_before_year (civil_year c) \<le> day_of_civil c + epoch_day"
    by (simp add: day_of_civil_def)
qed

lemma days_before_year_mono: "y \<le> y' \<Longrightarrow> days_before_year y \<le> days_before_year y'"
proof (induction y' rule: int_ge_induct)
  case base
  show ?case by simp
next
  case (step i)
  then show ?case by (simp add: days_before_year_Suc)
qed

text \<open>The day count orders valid dates as the lexicographic order does.\<close>

lemma day_of_civil_less:
  assumes "valid_civil a" and "valid_civil b" and "a < b"
  shows "day_of_civil a < day_of_civil b"
proof (cases "civil_year a < civil_year b")
  case True
  have "day_of_civil a + epoch_day < days_before_year (civil_year a + 1)"
    by (rule civil_year_bounds_day [OF assms(1)])
  also have "\<dots> \<le> days_before_year (civil_year b)" using True by (intro days_before_year_mono) simp
  also have "\<dots> \<le> day_of_civil b + epoch_day" by (rule civil_year_bounds_day [OF assms(2)])
  finally show ?thesis by simp
next
  case False
  let ?ls = "month_lengths (civil_year a)"
  have y: "civil_year a = civil_year b" using False assms(3) by (cases a; cases b) auto
  have va: "1 \<le> civil_month a" "civil_day a \<le> ?ls ! (civil_month a - 1)"
    and vb: "civil_month b \<le> 12" "1 \<le> civil_day b"
    using assms(1,2) by (auto simp: valid_civil_def days_in_def)
  show ?thesis
  proof (cases "civil_month a < civil_month b")
    case True
    have "sum_list (take (civil_month a - 1) ?ls) + ?ls ! (civil_month a - 1)
        \<le> sum_list (take (civil_month b - 1) ?ls)"
      using True va(1) vb(1) by (intro take_month_le) (auto simp: month_lengths_def)
    with va(2) vb(2) y show ?thesis by (simp add: day_of_civil_def)
  next
    case False
    with y assms(3) have "civil_month a = civil_month b" "civil_day a < civil_day b"
      by (cases a; cases b; auto)+
    with y show ?thesis by (simp add: day_of_civil_def)
  qed
qed

lemma day_of_civil_less_iff:
  "valid_civil a \<Longrightarrow> valid_civil b \<Longrightarrow> day_of_civil a < day_of_civil b \<longleftrightarrow> a < b"
  using day_of_civil_less by (metis linorder_neqE not_less_iff_gr_or_eq)

lemma civil_of_day_of_civil:
  assumes "valid_civil c"
  shows "civil_of_day (day_of_civil c) = c"
  using civil_of_day_correct [of "day_of_civil c"] day_of_civil_less [OF assms]
    day_of_civil_less [OF _ assms] by (metis less_irrefl linorder_neqE)

section \<open>Days of instants\<close>

definition local_day :: "zone \<Rightarrow> instant \<Rightarrow> int" where
  "local_day z t = (unix_sec t + z (unix_sec t)) div day_seconds"

lemma local_civil_day: "local_civil z t = civil_of_day (local_day z t)"
  by (simp add: local_civil_def local_day_def)

lemma civil_of_day_less_iff: "civil_of_day m < civil_of_day n \<longleftrightarrow> m < n"
  using day_of_civil_less_iff [of "civil_of_day m" "civil_of_day n"] civil_of_day_correct by simp

lemma calendar_day_eq: "calendar_day loaded t = local_day (location loaded) t * day_ns"
  using civil_of_day_correct
  by (simp add: calendar_day_def go_date_def local_civil_day utc_def Let_def day_ns_def)

lemma day_ns_pos [simp]: "0 < day_ns"
  by (simp add: day_ns_def day_seconds_def second_ns_def)

lemma local_day_fixed:
  assumes "\<And>s. z s = off"
  shows "local_day z t = (t + off * second_ns) div day_ns"
proof -
  have "t div second_ns + off = (t + off * second_ns) div second_ns"
    by (simp add: second_ns_def)
  then show ?thesis
    by (simp add: local_day_def unix_sec_def assms day_ns_def mult.commute [of day_seconds]
        zdiv_zmult2_eq) (simp add: day_seconds_def zdiv_zmult2_eq)?
qed

lemma day_start_fixed:
  assumes "\<And>s. location loaded s = off"
  shows "day_start_of loaded t = local_day (location loaded) t * day_ns - off * second_ns"
  using civil_of_day_correct
  by (simp add: day_start_of_def go_date_def local_civil_day assms Let_def day_ns_def algebra_simps)

lemma div_window: "0 < k \<Longrightarrow> x div k = q \<longleftrightarrow> q * k \<le> x \<and> x < q * k + (k::int)"
proof
  assume "0 < k" "x div k = q"
  then show "q * k \<le> x \<and> x < q * k + k" using div_bounds [of k x] by (auto simp: mult.commute)
next
  assume "0 < k" "q * k \<le> x \<and> x < q * k + k"
  then have "0 \<le> x - q * k" "x - q * k < k" by auto
  then have "(x - q * k) div k = 0" by (rule div_pos_pos_trivial)
  moreover have "x div k = (x - q * k + q * k) div k" by simp
  ultimately show "x div k = q" using \<open>0 < k\<close> by (subst (asm) div_mult_self1) auto
qed

section \<open>Dates as text\<close>

lemma digits_val_inj:
  "length s = length t \<Longrightarrow> list_all is_digit s \<Longrightarrow> list_all is_digit t \<Longrightarrow>
     digits_val s = digits_val t \<Longrightarrow> s = t"
proof (induction s arbitrary: t rule: rev_induct)
  case Nil
  then show ?case by simp
next
  case (snoc c s)
  then obtain d u where t: "t = u @ [d]" by (metis append_butlast_last_id length_append_singleton
        length_0_conv nat.distinct(1))
  have dig: "digit_val c < 10" "digit_val d < 10"
    using snoc.prems t by (auto simp: digit_val_def is_digit_def)
  have "10 * digits_val s + digit_val c = 10 * digits_val u + digit_val d"
    using snoc.prems(4) t by (simp add: digits_val_append)
  with dig have "digits_val s = digits_val u" "digit_val c = digit_val d" by presburger+
  moreover from this(2) snoc.prems t have "c = d"
    by (auto simp: digit_val_def is_digit_def byte_of_inject [symmetric])
  ultimately show ?case using snoc t by auto
qed

lemma digits_val_less: "list_all is_digit s \<Longrightarrow> digits_val s < 10 ^ length s"
proof (induction s rule: rev_induct)
  case Nil
  show ?case by (simp add: digits_val_def)
next
  case (snoc c s)
  then have "digit_val c < 10" by (auto simp: digit_val_def is_digit_def)
  with snoc show ?case by (simp add: digits_val_append)
qed

lemma fmt_pad_digits_val:
  "list_all is_digit s \<Longrightarrow> length s = w \<Longrightarrow> 0 < w \<Longrightarrow> fmt_pad w (digits_val s) = s"
  using digits_val_less [of s] fmt_pad_digits
  by (intro digits_val_inj) (auto simp: length_fmt_pad)

lemma format_parse_date:
  assumes "parse_date s = Some c"
  shows "format_date c = s" and "valid_civil c" and "0 \<le> civil_year c" and "civil_year c \<le> 9999"
proof -
  from assms have l: "length s = 10" and d: "list_all is_digit (take 4 s)"
    "list_all is_digit (take 2 (drop 5 s))" "list_all is_digit (drop 8 s)"
    and h: "s ! 4 = CHR ''-''" "s ! 7 = CHR ''-''"
    and c: "c = Civil (int (digits_val (take 4 s))) (digits_val (take 2 (drop 5 s)))
      (digits_val (drop 8 s))" and v: "valid_civil c"
    by (auto simp: parse_date_def Let_def split: if_splits)
  show "valid_civil c" by (rule v)
  have "digits_val (take 4 s) < 10 ^ 4" using digits_val_less [OF d(1)] l by simp
  then show "0 \<le> civil_year c" "civil_year c \<le> 9999" by (auto simp: c)
  have "s = take 4 s @ s ! 4 # take 2 (drop 5 s) @ s ! 7 # drop 8 s"
    by (rule nth_equalityI)
      (use l in \<open>auto simp: nth_append nth_Cons numeral_eq_Suc less_Suc_eq split: nat.splits\<close>)
  then show "format_date c = s"
    using l d h by (simp add: format_date_def c fmt_pad_int_def fmt_pad_digits_val)
qed

lemma parse_format_date:
  assumes "valid_civil c" and "0 \<le> civil_year c" and "civil_year c \<le> 9999"
  shows "parse_date (format_date c) = Some c"
proof -
  have m: "civil_month c < 10 ^ 2" "civil_day c < 10 ^ 2"
    using assms(1) by (auto simp: valid_civil_def days_in_def month_lengths_def nth_Cons
        split: if_splits nat.splits)
  have y: "nat (civil_year c) < 10 ^ 4" using assms(2,3) by auto
  define a b d where "a = fmt_pad 4 (nat (civil_year c))" and "b = fmt_pad 2 (civil_month c)"
    and "d = fmt_pad 2 (civil_day c)"
  have len: "length a = 4" "length b = 2" "length d = 2"
    using length_fmt_pad [OF _ y] length_fmt_pad [OF _ m(1)] length_fmt_pad [OF _ m(2)]
    by (simp_all add: a_def b_def d_def)
  have dig: "list_all is_digit a" "list_all is_digit b" "list_all is_digit d"
    by (simp_all add: a_def b_def d_def fmt_pad_digits)
  have val: "int (digits_val a) = civil_year c" "digits_val b = civil_month c"
    "digits_val d = civil_day c" using assms(2) by (simp_all add: a_def b_def d_def)
  have f: "format_date c = a @ CHR ''-'' # b @ CHR ''-'' # d"
    using assms(2) by (simp add: format_date_def fmt_pad_int_def a_def b_def d_def)
  have "Civil (int (digits_val a)) (digits_val b) (digits_val d) = c"
    using val by (cases c) simp
  then show ?thesis
    using len dig assms(1) unfolding f by (simp add: parse_date_def nth_append Let_def)
qed

section \<open>Properties\<close>

text \<open>the date comparison used for expiry compares the business calendar dates (year, month,
  day) of the two instants, whatever zone was loaded: it holds exactly when the first instant's
  local date is lexicographically before the second's, so a contract is still in force on its last
  day and expired on the next.\<close>

theorem calendar_day_before_exact:
  "calendar_day_before loaded a b \<longleftrightarrow>
     local_civil (location loaded) a < local_civil (location loaded) b"
  by (simp add: calendar_day_before_def calendar_day_eq local_civil_day civil_of_day_less_iff)

text \<open>in Beijing time (the fixed fallback zone, or a loaded zone that is eight hours ahead) the
  start of the business day is the midnight at or before the instant, and the instants that share
  its business day are exactly those of the 24 hours from that midnight.\<close>

theorem day_start_window:
  assumes "\<forall>s. location loaded s = fixed_zone_offset"
  shows "day_start_of loaded t \<le> t \<and> t < day_start_of loaded t + day_ns \<and>
    (\<forall>u. calendar_day loaded u = calendar_day loaded t \<longleftrightarrow>
      day_start_of loaded t \<le> u \<and> u < day_start_of loaded t + day_ns)"
proof -
  have off: "location loaded s = fixed_zone_offset" for s using assms by simp
  let ?d = "local_day (location loaded)" and ?o = "fixed_zone_offset * second_ns"
  have w: "?d u = ?d t \<longleftrightarrow> day_start_of loaded t \<le> u \<and> u < day_start_of loaded t + day_ns" for u
    using div_window [of day_ns "u + ?o" "?d t"]
    by (auto simp: local_day_fixed [OF off, where t = u] day_start_fixed [OF off])
  from w [of t] w show ?thesis by (simp add: calendar_day_eq)
qed

theorem day_start_window_witness:
  "day_start_of None (1767196800 * second_ns) \<le> 1767196800 * second_ns \<and>
     clock_year_of None (1767196800 * second_ns) = 2026"
  using day_start_window [of None "1767196800 * second_ns"]
  by (simp add: location_def fixed_zone_def fixed_zone_offset_def clock_year_of_def local_civil_def
      unix_sec_def second_ns_def day_seconds_def civil_of_day_def year_of_abs_def epoch_day_def
      days_before_year_def Let_def split: prod.splits)

end
