(* ===== verification/Payment_Term.thy ===== *)
theory Payment_Term
  imports Business_Clock "HOL-Library.Multiset"
begin

text \<open>
  Payment plans: \<^verbatim>\<open>internal/domain/contract/payment_term.go\<close> and the second, independent check
  that the repository makes before it stores a plan (\<^verbatim>\<open>parseAmountMinor\<close>,
  \<^verbatim>\<open>formatAmountMinor\<close> and \<^verbatim>\<open>normalizePaymentTerms\<close> of
  \<^verbatim>\<open>internal/infrastructure/mysql/payment_terms.go\<close>). Amounts are decimal strings in the interface
  and \<^verbatim>\<open>int64\<close> minor units inside.
\<close>

definition max_payment_terms :: nat where "max_payment_terms = 100"

record payment_term =
  pt_installment_no :: int
  pt_due_date :: string
  pt_amount :: string

section \<open>Amounts\<close>

definition digit_rune :: "nat \<Rightarrow> bool" where
  "digit_rune r \<longleftrightarrow> 48 \<le> r \<and> r \<le> 57"

definition parse_int64 :: "string \<Rightarrow> int option" where
  "parse_int64 s = (if s \<noteq> [] \<and> list_all is_digit s \<and> int (digits_val s) \<le> max_int64
     then Some (int (digits_val s)) else None)"

fun pad_fraction :: "string \<Rightarrow> string" where
  "pad_fraction [] = ''00''"
| "pad_fraction [c] = [c, CHR ''0'']"
| "pad_fraction s = s"

definition payment_amount_minor :: "string \<Rightarrow> int result" where
  "payment_amount_minor value0 =
     (let value = trim_space value0; parts = split_on (CHR ''.'') value;
          whole = parts ! 0; fraction = (if length parts = 2 then parts ! 1 else [])
      in if length parts > 2 \<or> whole = [] then fail ErrPaymentTermsInvalid
         else if length parts = 2 \<and> (length fraction = 0 \<or> length fraction > 2)
         then fail ErrPaymentTermsInvalid
         else if \<not> list_all digit_rune (go_runes (whole @ fraction)) then fail ErrPaymentTermsInvalid
         else let digits = dropWhile (\<lambda>c. c = CHR ''0'') (whole @ pad_fraction fraction)
              in if digits = [] then ok 0
                 else case parse_int64 digits of
                        None \<Rightarrow> fail ErrPaymentTermsInvalid
                      | Some minor \<Rightarrow> ok minor)"

definition format_amount_minor :: "int \<Rightarrow> string" where
  "format_amount_minor minor =
     int_str (go_quot minor 100) @ CHR ''.'' # fmt_pad_int 2 (go_rem minor 100)"

definition parse_amount_minor :: "string \<Rightarrow> int result" where
  "parse_amount_minor value0 =
     (let trimmed = trim_space value0;
          whole = takeWhile (\<lambda>c. c \<noteq> CHR ''.'') trimmed;
          frac = drop 1 (dropWhile (\<lambda>c. c \<noteq> CHR ''.'') trimmed)
      in if trimmed = [] then fail ErrPaymentTermsInvalid
         else if whole = [] \<or> length frac > 2 then fail ErrPaymentTermsInvalid
         else if \<not> list_all digit_rune (go_runes (whole @ frac)) then fail ErrPaymentTermsInvalid
         else case parse_int64 (whole @ pad_fraction frac) of
                None \<Rightarrow> fail ErrPaymentTermsInvalid
              | Some minor \<Rightarrow> if minor \<le> 0 then fail ErrPaymentTermsInvalid else ok minor)"

section \<open>Plans\<close>

definition upper_rune :: "nat \<Rightarrow> bool" where
  "upper_rune r \<longleftrightarrow> 65 \<le> r \<and> r \<le> 90"

definition currency_ok :: "string \<Rightarrow> bool" where
  "currency_ok currency0 =
     (let currency = to_upper (trim_space currency0)
      in length currency = 3 \<and> list_all upper_rune (go_runes currency))"

definition due_date_ok :: "string \<Rightarrow> bool" where
  "due_date_ok date =
     (case parse_date date of
        None \<Rightarrow> False
      | Some due \<Rightarrow> \<not> civil_year due < 1000 \<and> format_date due = date)"

fun normalize_terms_loop ::
  "int list \<Rightarrow> int \<Rightarrow> payment_term list \<Rightarrow> (payment_term list \<times> int) result" where
  "normalize_terms_loop seen tot [] = ok ([], tot)"
| "normalize_terms_loop seen tot (t # ts) =
     (if pt_installment_no t < 1 \<or> pt_installment_no t > int max_payment_terms
         \<or> pt_installment_no t \<in> set seen
      then fail ErrPaymentTermsInvalid
      else let date = trim_space (pt_due_date t) in
        if \<not> due_date_ok date then fail ErrPaymentTermsInvalid
        else case payment_amount_minor (pt_amount t) of
          Inl e \<Rightarrow> fail ErrPaymentTermsInvalid
        | Inr minor \<Rightarrow>
            if minor \<le> 0 \<or> minor > max_int64 - tot then fail ErrPaymentTermsInvalid
            else res_bind
                   (normalize_terms_loop (pt_installment_no t # seen) (tot + minor) ts)
                   (\<lambda>(rest, final). ok (\<lparr>pt_installment_no = pt_installment_no t, pt_due_date = date,
                      pt_amount = format_amount_minor minor\<rparr> # rest, final)))"

text \<open>The result is sorted by installment number, which is distinct, so \<^verbatim>\<open>sort.Slice\<close> has one
  possible outcome.\<close>

definition normalize_payment_terms ::
  "payment_term list \<Rightarrow> int \<Rightarrow> string \<Rightarrow> payment_term list result" where
  "normalize_payment_terms terms amount_minor currency =
     (if terms = [] then ok terms
      else if length terms > max_payment_terms \<or> amount_minor \<le> 0 then fail ErrPaymentTermsInvalid
      else if \<not> currency_ok currency then fail ErrPaymentTermsInvalid
      else res_bind (normalize_terms_loop [] 0 terms) (\<lambda>(result, tot).
        if tot \<noteq> amount_minor then fail ErrPaymentTermsInvalid
        else ok (sort_key pt_installment_no result)))"

record payment_term_record =
  ptr_id :: string
  ptr_tenant_id :: string
  ptr_contract_id :: string
  ptr_installment_no :: nat
  ptr_due_date :: civil
  ptr_amount_minor :: int
  ptr_created_at :: int
  ptr_updated_at :: int

definition term_record :: "nat \<Rightarrow> civil \<Rightarrow> int \<Rightarrow> payment_term_record" where
  "term_record no due minor = \<lparr>ptr_id = [], ptr_tenant_id = [], ptr_contract_id = [],
     ptr_installment_no = no, ptr_due_date = due, ptr_amount_minor = minor,
     ptr_created_at = 0, ptr_updated_at = 0\<rparr>"

fun record_terms_loop ::
  "int \<Rightarrow> int list \<Rightarrow> int \<Rightarrow> payment_term list \<Rightarrow> (payment_term_record list \<times> int) result" where
  "record_terms_loop amount seen tot [] = ok ([], tot)"
| "record_terms_loop amount seen tot (t # ts) =
     (if pt_installment_no t < 1 then fail ErrPaymentTermsInvalid
      else if pt_installment_no t \<in> set seen then fail ErrPaymentTermsInvalid
      else case parse_date (trim_space (pt_due_date t)) of
        None \<Rightarrow> fail ErrPaymentTermsInvalid
      | Some due \<Rightarrow>
          res_bind (parse_amount_minor (pt_amount t)) (\<lambda>minor.
          if minor > amount - tot then fail ErrPaymentTermsInvalid
          else res_bind
                 (record_terms_loop amount (pt_installment_no t # seen) (tot + minor) ts)
                 (\<lambda>(rest, final).
                    ok (term_record (nat (pt_installment_no t)) due minor # rest, final))))"

definition record_payment_terms ::
  "payment_term list \<Rightarrow> int \<Rightarrow> (payment_term_record list \<times> int) result" where
  "record_payment_terms terms amount_minor =
     (if terms = [] then fail ErrPaymentTermsInvalid
      else res_bind (record_terms_loop amount_minor [] 0 terms) (\<lambda>(records, tot).
        if tot \<noteq> amount_minor then fail ErrPaymentTermsInvalid else ok (records, tot)))"

section \<open>Amounts round trip\<close>

lemma digit_runes [simp]: "list_all digit_rune (go_runes s) \<longleftrightarrow> list_all is_digit s"
proof
  assume a: "list_all digit_rune (go_runes s)"
  then have "list_all (\<lambda>r. r < 128) (go_runes s)" by (auto simp: list_all_iff digit_rune_def)
  then have "ascii_string s" by (rule go_runes_all_ascii)
  with a show "list_all is_digit s"
    by (simp add: go_runes_ascii list.pred_map comp_def digit_rune_def is_digit_def [abs_def])
next
  assume a: "list_all is_digit s"
  then have "ascii_string s" by (auto simp: ascii_string_def list_all_iff dest: digit_ascii)
  with a show "list_all digit_rune (go_runes s)"
    by (simp add: go_runes_ascii list.pred_map comp_def digit_rune_def is_digit_def [abs_def])
qed

lemma digits_val_app: "digits_val (s @ t) = digits_val s * 10 ^ length t + digits_val t"
proof (induction t rule: rev_induct)
  case Nil
  show ?case by (simp add: digits_val_def)
next
  case (snoc c t)
  then show ?case
    using digits_val_append [of "s @ t" c] digits_val_append [of t c] by (simp add: algebra_simps)
qed

lemma digits_val_zero_Cons: "digits_val (CHR ''0'' # s) = digits_val s"
  using digits_val_replicate0 [of 1 s] by simp

lemma digits_val_dropWhile: "digits_val (dropWhile (\<lambda>c. c = CHR ''0'') s) = digits_val s"
  by (induction s) (simp_all add: digits_val_zero_Cons)

lemma list_all_dropWhile: "list_all P s \<Longrightarrow> list_all P (dropWhile Q s)"
  by (auto simp: list_all_iff dest: set_dropWhileD)

lemma parse_int64_stripped:
  assumes "list_all is_digit s" and "int (digits_val s) \<le> max_int64"
  shows "(let digits = dropWhile (\<lambda>c. c = CHR ''0'') s
      in if digits = [] then ok 0
         else case parse_int64 digits of None \<Rightarrow> fail ErrPaymentTermsInvalid | Some minor \<Rightarrow> ok minor)
    = (ok (int (digits_val s)) :: int result)"
proof (cases "dropWhile (\<lambda>c. c = CHR ''0'') s = []")
  case True
  then have "digits_val s = digits_val []" using digits_val_dropWhile [of s] by metis
  with True show ?thesis by (simp add: digits_val_def)
next
  case False
  with assms list_all_dropWhile [OF assms(1)] show ?thesis
    by (auto simp: parse_int64_def Let_def digits_val_dropWhile)
qed

lemma format_amount_nonneg:
  "0 \<le> m \<Longrightarrow> format_amount_minor m = nat_str (nat (m div 100)) @ CHR ''.'' # fmt_pad 2 (nat (m mod 100))"
proof -
  assume m: "0 \<le> m"
  have "\<not> m mod 100 < 0" "\<not> m div 100 < 0"
    using m pos_imp_zdiv_nonneg_iff [of 100 m] by (simp_all add: not_less)
  with m show ?thesis
    by (simp add: format_amount_minor_def int_str_def fmt_pad_int_def fmt_pad_def [of 0] pad_zero_def)
qed

lemma amount_parts:
  assumes "0 \<le> m"
  defines "w \<equiv> nat_str (nat (m div 100))" and "f \<equiv> fmt_pad 2 (nat (m mod 100))"
  shows "list_all is_digit (w @ f)" and "length f = 2" and "int (digits_val (w @ f)) = m"
    and "trim_space (format_amount_minor m) = w @ CHR ''.'' # f" and "pad_fraction f = f"
    and "CHR ''.'' \<notin> set w" and "CHR ''.'' \<notin> set f"
proof -
  show dig: "list_all is_digit (w @ f)" by (simp add: w_def f_def nat_str_digits fmt_pad_digits)
  show len: "length f = 2"
    unfolding f_def using pos_mod_bound [of 100 m] by (intro length_fmt_pad) auto
  show "int (digits_val (w @ f)) = m"
    unfolding digits_val_app len using assms(1) pos_imp_zdiv_nonneg_iff [of 100 m]
    by (simp add: w_def f_def)
  have "\<forall>c \<in> set (w @ CHR ''.'' # f). byte_of c \<notin> set space_bytes"
  proof
    fix c assume "c \<in> set (w @ CHR ''.'' # f)"
    then have "is_digit c \<or> c = CHR ''.''" using dig by (auto simp: list_all_iff)
    then show "byte_of c \<notin> set space_bytes"
      by (intro printable_not_space) (auto simp: is_digit_def byte_of_def)
  qed
  then show "trim_space (format_amount_minor m) = w @ CHR ''.'' # f"
    using assms(1) by (simp add: format_amount_nonneg w_def f_def trim_space_id list_all_iff)
  show "pad_fraction f = f" using len by (cases f rule: pad_fraction.cases) auto
  have "\<not> is_digit (CHR ''.'')" by (simp add: is_digit_def byte_of_def)
  then show "CHR ''.'' \<notin> set w" "CHR ''.'' \<notin> set f"
    using dig by (auto simp: list_all_iff)
qed

lemma payment_amount_format:
  assumes "0 \<le> m" and "m \<le> max_int64"
  shows "payment_amount_minor (format_amount_minor m) = Inr m"
  using amount_parts [OF assms(1)] assms(2)
    parse_int64_stripped [OF amount_parts(1) [OF assms(1)]]
  by (simp add: payment_amount_minor_def split_on_append split_on_fresh Let_def)

lemma parse_amount_format:
  assumes "0 < m" and "m \<le> max_int64"
  shows "parse_amount_minor (format_amount_minor m) = Inr m"
proof -
  let ?w = "nat_str (nat (m div 100))" and ?f = "fmt_pad 2 (nat (m mod 100))"
  note a = amount_parts [of m]
  have ne: "\<And>c. c \<in> set ?w \<Longrightarrow> c \<noteq> CHR ''.''" using a(6) assms(1) by auto
  then have "takeWhile (\<lambda>c. c \<noteq> CHR ''.'') (?w @ CHR ''.'' # ?f) = ?w"
    "dropWhile (\<lambda>c. c \<noteq> CHR ''.'') (?w @ CHR ''.'' # ?f) = CHR ''.'' # ?f"
    by (subst takeWhile_append2 dropWhile_append2; simp)+
  with a assms show ?thesis
    by (simp add: parse_amount_minor_def parse_int64_def Let_def)
qed

section \<open>Normal plans\<close>

lemma payment_amount_range: "payment_amount_minor s = Inr m \<Longrightarrow> 0 \<le> m \<and> m \<le> max_int64"
  by (auto simp: payment_amount_minor_def parse_int64_def Let_def max_int64_def
      split: if_splits option.splits)

definition term_minor :: "payment_term \<Rightarrow> int" where
  "term_minor t = (case payment_amount_minor (pt_amount t) of Inl e \<Rightarrow> 0 | Inr m \<Rightarrow> m)"

definition normal_term :: "payment_term \<Rightarrow> bool" where
  "normal_term t \<longleftrightarrow> 1 \<le> pt_installment_no t \<and> pt_installment_no t \<le> 100
     \<and> trim_space (pt_due_date t) = pt_due_date t \<and> due_date_ok (pt_due_date t)
     \<and> pt_amount t = format_amount_minor (term_minor t)
     \<and> 0 < term_minor t \<and> term_minor t \<le> max_int64"

lemma normalize_terms_loop_ok:
  "normalize_terms_loop seen tot ts = Inr (res, final) \<Longrightarrow> tot \<le> max_int64 \<Longrightarrow>
     map pt_installment_no res = map pt_installment_no ts \<and> distinct (map pt_installment_no ts)
     \<and> set (map pt_installment_no ts) \<inter> set seen = {} \<and> (\<forall>t \<in> set res. normal_term t)
     \<and> map pt_due_date res = map (trim_space \<circ> pt_due_date) ts \<and> map term_minor res = map term_minor ts
     \<and> final = tot + sum_list (map term_minor res) \<and> final \<le> max_int64"
proof (induction seen tot ts arbitrary: res final rule: normalize_terms_loop.induct)
  case (1 seen tot)
  then show ?case by simp
next
  case (2 seen tot t ts)
  from "2.prems"(1) obtain minor rest where g:
    "\<not> (pt_installment_no t < 1 \<or> pt_installment_no t > int max_payment_terms
         \<or> pt_installment_no t \<in> set seen)"
    "due_date_ok (trim_space (pt_due_date t))" "payment_amount_minor (pt_amount t) = Inr minor"
    "\<not> (minor \<le> 0 \<or> minor > max_int64 - tot)"
    "normalize_terms_loop (pt_installment_no t # seen) (tot + minor) ts = Inr (rest, final)"
    "res = \<lparr>pt_installment_no = pt_installment_no t, pt_due_date = trim_space (pt_due_date t),
        pt_amount = format_amount_minor minor\<rparr> # rest"
    by (auto simp: Let_def result_simps split: if_splits sum.splits)
  let ?t = "\<lparr>pt_installment_no = pt_installment_no t, pt_due_date = trim_space (pt_due_date t),
        pt_amount = format_amount_minor minor\<rparr>"
  have m: "0 \<le> minor" "minor \<le> max_int64" using payment_amount_range [OF g(3)] by auto
  then have tm: "term_minor ?t = minor" by (simp add: term_minor_def payment_amount_format)
  have tm': "term_minor t = minor" using g(3) by (simp add: term_minor_def)
  have "normal_term ?t"
    using g(1,2,4) m tm by (simp add: normal_term_def max_payment_terms_def)
  moreover have le: "tot + minor \<le> max_int64" using g(4) by simp
  moreover note "2.IH" [OF g(1) refl _ g(3) g(4) g(5) le]
  ultimately show ?case using g(1,2,6) tm tm' by auto
qed

lemma normalize_terms_loop_normal:
  "\<forall>t \<in> set ts. normal_term t \<Longrightarrow> distinct (map pt_installment_no ts) \<Longrightarrow>
     set (map pt_installment_no ts) \<inter> set seen = {} \<Longrightarrow>
     tot + sum_list (map term_minor ts) \<le> max_int64 \<Longrightarrow>
     normalize_terms_loop seen tot ts = Inr (ts, tot + sum_list (map term_minor ts))"
proof (induction ts arbitrary: seen tot)
  case Nil
  then show ?case by simp
next
  case (Cons t ts)
  have n: "normal_term t" using Cons.prems(1) by simp
  then have a: "payment_amount_minor (pt_amount t) = Inr (term_minor t)"
    using payment_amount_format [of "term_minor t"] by (simp add: normal_term_def)
  have pos: "0 \<le> sum_list (map term_minor ts)"
    using Cons.prems(1) by (intro sum_list_nonneg) (auto simp: normal_term_def)
  have ih: "normalize_terms_loop (pt_installment_no t # seen) (tot + term_minor t) ts
      = Inr (ts, tot + term_minor t + sum_list (map term_minor ts))"
    using Cons.prems by (intro Cons.IH) auto
  have "\<lparr>pt_installment_no = pt_installment_no t, pt_due_date = pt_due_date t,
      pt_amount = format_amount_minor (term_minor t)\<rparr> = t"
    using n by (simp add: normal_term_def)
  with n a ih pos Cons.prems show ?case
    by (simp add: normal_term_def max_payment_terms_def Let_def add.assoc)
qed

definition term_date :: "payment_term \<Rightarrow> civil" where
  "term_date t = the (parse_date (pt_due_date t))"

lemma record_terms_loop_normal:
  "\<forall>t \<in> set ts. normal_term t \<Longrightarrow> distinct (map pt_installment_no ts) \<Longrightarrow>
     set (map pt_installment_no ts) \<inter> set seen = {} \<Longrightarrow>
     tot + sum_list (map term_minor ts) \<le> amount \<Longrightarrow>
     record_terms_loop amount seen tot ts =
       Inr (map (\<lambda>t. term_record (nat (pt_installment_no t)) (term_date t) (term_minor t)) ts,
            tot + sum_list (map term_minor ts))"
proof (induction ts arbitrary: seen tot)
  case Nil
  then show ?case by simp
next
  case (Cons t ts)
  have n: "normal_term t" using Cons.prems(1) by simp
  then have a: "parse_amount_minor (pt_amount t) = Inr (term_minor t)"
    using parse_amount_format [of "term_minor t"] by (simp add: normal_term_def)
  have d: "parse_date (trim_space (pt_due_date t)) = Some (term_date t)"
    using n by (auto simp: normal_term_def due_date_ok_def term_date_def split: option.splits)
  have pos: "0 \<le> sum_list (map term_minor ts)"
    using Cons.prems(1) by (intro sum_list_nonneg) (auto simp: normal_term_def)
  have ih: "record_terms_loop amount (pt_installment_no t # seen) (tot + term_minor t) ts =
      Inr (map (\<lambda>t. term_record (nat (pt_installment_no t)) (term_date t) (term_minor t)) ts,
        tot + term_minor t + sum_list (map term_minor ts))"
    using Cons.prems by (intro Cons.IH) auto
  with n a d pos Cons.prems show ?case by (simp add: normal_term_def add.assoc)
qed

lemma normalize_payment_terms_ok:
  assumes "normalize_payment_terms terms amount currency = Inr res" and "terms \<noteq> []"
  shows "0 < amount \<and> amount \<le> max_int64 \<and> currency_ok currency \<and> res \<noteq> [] \<and> length res \<le> 100
    \<and> sorted (map pt_installment_no res) \<and> distinct (map pt_installment_no res)
    \<and> mset (map pt_installment_no res) = mset (map pt_installment_no terms)
    \<and> (\<forall>t \<in> set res. normal_term t) \<and> sum_list (map term_minor res) = amount
    \<and> sum_list (map term_minor terms) = amount"
proof -
  from assms obtain r where r: "normalize_terms_loop [] 0 terms = Inr (r, amount)"
    "res = sort_key pt_installment_no r" "length terms \<le> 100" "0 < amount" "currency_ok currency"
    by (auto simp: normalize_payment_terms_def result_simps max_payment_terms_def split: if_splits)
  have "(0::int) \<le> max_int64" by (simp add: max_int64_def)
  note loop = normalize_terms_loop_ok [OF r(1) this]
  have len: "length r = length terms" using loop by (metis length_map)
  have ms: "mset (map f res) = mset (map f r)" for f :: "payment_term \<Rightarrow> int"
    by (simp add: r(2))
  have d: "distinct (map pt_installment_no res)"
    using loop ms [of pt_installment_no] by (metis mset_eq_imp_distinct_iff)
  have "sum_list (map term_minor res) = sum_list (map term_minor r)"
    by (metis ms sum_mset_sum_list)
  with loop len r d ms [of pt_installment_no] assms(2) show ?thesis
    by (auto simp: sorted_sort_key)
qed

lemma normalize_payment_terms_normal:
  assumes "ts \<noteq> []" and "length ts \<le> 100" and "sorted (map pt_installment_no ts)"
    and "distinct (map pt_installment_no ts)" and "\<forall>t \<in> set ts. normal_term t"
    and "sum_list (map term_minor ts) = amount" and "0 < amount" and "amount \<le> max_int64"
    and "currency_ok currency"
  shows "normalize_payment_terms ts amount currency = Inr ts"
  using assms normalize_terms_loop_normal [of ts "[]" 0]
  by (simp add: normalize_payment_terms_def max_payment_terms_def sort_key_id_if_sorted)

section \<open>Properties\<close>

text \<open>C9: a payment plan that is accepted balances the contract exactly: the installments are
  distinct, between 1 and 100, in ascending order and the ones that were submitted; every amount is
  positive; and both the submitted and the stored amounts add up, without overflow, to the contract
  amount. Accepting is stable: a stored plan is accepted again unchanged.\<close>

theorem payment_plan_balanced:
  assumes "normalize_payment_terms terms amount currency = Inr res" and "terms \<noteq> []"
  shows "sorted (map pt_installment_no res) \<and> distinct (map pt_installment_no res)
    \<and> mset (map pt_installment_no res) = mset (map pt_installment_no terms)
    \<and> (\<forall>t \<in> set res. 1 \<le> pt_installment_no t \<and> pt_installment_no t \<le> 100 \<and> 0 < term_minor t)
    \<and> sum_list (map term_minor res) = amount \<and> sum_list (map term_minor terms) = amount
    \<and> amount \<le> max_int64 \<and> normalize_payment_terms res amount currency = Inr res"
proof -
  note ok = normalize_payment_terms_ok [OF assms]
  then have "normalize_payment_terms res amount currency = Inr res"
    by (intro normalize_payment_terms_normal) auto
  with ok show ?thesis by (auto simp: normal_term_def)
qed

text \<open>the repository's own, differently written check never rejects a plan the domain check
  accepted: it yields one record per installment, with the same number, date and minor amount, and
  the same sum.\<close>

theorem record_payment_terms_agrees:
  assumes "normalize_payment_terms terms amount currency = Inr res" and "terms \<noteq> []"
  shows "record_payment_terms res amount =
    Inr (map (\<lambda>t. term_record (nat (pt_installment_no t)) (term_date t) (term_minor t)) res, amount)"
  using normalize_payment_terms_ok [OF assms] record_terms_loop_normal [of res "[]" 0 amount]
  by (simp add: record_payment_terms_def)

text \<open>printing an amount of minor units and reading it back gives the same amount with both
  parsers, for every amount a signed 64-bit integer can hold.\<close>

theorem amount_text_round_trip:
  assumes "0 < m" and "m \<le> max_int64"
  shows "payment_amount_minor (format_amount_minor m) = Inr m
    \<and> parse_amount_minor (format_amount_minor m) = Inr m"
  using assms payment_amount_format parse_amount_format by simp

theorem amount_text_round_trip_witness:
  "payment_amount_minor (format_amount_minor 9223372036854775807) = Inr 9223372036854775807"
  using amount_text_round_trip [of 9223372036854775807] by (simp add: max_int64_def)

definition sample_term :: "int \<Rightarrow> int \<Rightarrow> payment_term" where
  "sample_term no minor = \<lparr>pt_installment_no = no, pt_due_date = format_date (Civil 2026 3 31),
     pt_amount = format_amount_minor minor\<rparr>"

lemma format_date_trim: "0 \<le> civil_year c \<Longrightarrow> trim_space (format_date c) = format_date c"
proof (rule trim_space_id)
  assume "0 \<le> civil_year c"
  then have chars: "\<forall>x \<in> set (format_date c). is_digit x \<or> x = CHR ''-''"
    using fmt_pad_digits by (auto simp: format_date_def fmt_pad_int_def list_all_iff)
  have "byte_of x \<notin> set space_bytes" if "x \<in> set (format_date c)" for x
    using chars that by (intro printable_not_space) (auto simp: is_digit_def byte_of_def)
  then show "list_all (\<lambda>c. byte_of c \<notin> set space_bytes) (format_date c)"
    by (simp add: list_all_iff)
qed

lemma sample_term_normal:
  "1 \<le> no \<Longrightarrow> no \<le> 100 \<Longrightarrow> 0 < m \<Longrightarrow> m \<le> max_int64 \<Longrightarrow>
     normal_term (sample_term no m) \<and> term_minor (sample_term no m) = m"
proof -
  assume a: "1 \<le> no" "no \<le> 100" "0 < m" "m \<le> max_int64"
  have "valid_civil (Civil 2026 3 31)"
    by (simp add: valid_civil_def days_in_def month_lengths_def is_leap_def)
  then have "due_date_ok (format_date (Civil 2026 3 31))"
    by (simp add: due_date_ok_def parse_format_date)
  with a payment_amount_format [of m] show ?thesis
    by (simp add: normal_term_def sample_term_def term_minor_def format_date_trim)
qed

lemma sample_plan_accepted:
  "normalize_payment_terms [sample_term 1 300, sample_term 2 700] 1000 ''CNY'' =
     Inr [sample_term 1 300, sample_term 2 700]"
proof (rule normalize_payment_terms_normal)
  have "trim_space ''CNY'' = ''CNY''"
    by (rule trim_space_id) (simp add: printable_not_space byte_of_def)
  then show "currency_ok ''CNY''"
    by (simp add: currency_ok_def upper_char_def byte_of_def go_runes_ascii upper_rune_def)
  have m: "max_int64 = 9223372036854775807" by (simp add: max_int64_def)
  show "\<forall>t \<in> set [sample_term 1 300, sample_term 2 700]. normal_term t"
    "sum_list (map term_minor [sample_term 1 300, sample_term 2 700]) = 1000"
    using sample_term_normal [of 1 300] sample_term_normal [of 2 700] by (simp_all add: m)
qed (simp_all add: sample_term_def max_int64_def)

theorem payment_plan_balanced_witness:
  "sum_list (map term_minor [sample_term 1 300, sample_term 2 700]) = 1000"
  using payment_plan_balanced [OF sample_plan_accepted] by simp

theorem record_payment_terms_agrees_witness:
  "is_ok (record_payment_terms [sample_term 1 300, sample_term 2 700] 1000)"
  using record_payment_terms_agrees [OF sample_plan_accepted] by simp

end
