(* ===== verification/Approval_Workflow.thy ===== *)
theory Approval_Workflow
  imports Approval_Rule Contract_Status Business_Clock
begin

text \<open>
  The contract approval workflow: the data of \<^verbatim>\<open>internal/workflows/types.go\<close>, the helpers of
  \<^verbatim>\<open>helpers.go\<close>, and \<^verbatim>\<open>ContractApprovalWorkflow\<close> with \<^verbatim>\<open>applyContractCommand\<close> and
  \<^verbatim>\<open>approvalNodePassed\<close> of \<^verbatim>\<open>contract_approval.go\<close>.

  A workflow is a function of its history, so it is modelled as a machine that is driven by events:
  a received command or a fired timer. The activities it calls are the functions of the record
  \<open>approval_store\<close>, the Go interface \<^verbatim>\<open>ApprovalStore\<close>. The workflow clock is an argument of
  every step. A Go map from user to \<^verbatim>\<open>bool\<close> whose entries are only ever set to true or deleted
  is the set of its keys.
\<close>

section \<open>Data\<close>

datatype command_action =
    ActionApprove | ActionReject | ActionAddSign | ActionTransfer | ActionReturn | ActionWithdraw
  | ActionUrge | ActionComment | ActionOther string

record audit_meta =
  am_login_ip :: string
  am_client_ip :: string
  am_ip_source :: string
  am_request_id :: string

record contract_approval_input =
  cai_approval_id :: string
  cai_audit :: audit_meta
  cai_tenant_id :: string
  cai_contract_id :: string
  cai_contract_version :: nat
  cai_applicant :: string
  cai_applicant_name :: string
  cai_content_hash :: string
  cai_rule_id :: string
  cai_rule_version :: nat
  cai_nodes :: "node list"
  cai_default_timeout :: int
  cai_reminder_interval :: int

record approval_command =
  cmd_id :: string
  cmd_action :: command_action
  cmd_actor :: string
  cmd_actor_name :: string
  cmd_role_or_sign :: bool
  cmd_comment :: string
  cmd_targets :: "string list"
  cmd_countersign :: countersign_mode
  cmd_target_node :: string
  cmd_occurred_at :: instant

record runtime_node =
  rn_node :: node
  rn_status :: node_status
  rn_approved_by :: "string set"
  rn_added_signers :: "string list"
  rn_started_at :: instant
  rn_completed_at :: instant

record approval_state =
  st_approval_id :: string
  st_kind :: approval_kind
  st_status :: approval_status
  st_contract_id :: string
  st_applicant :: string
  st_applicant_name :: string
  st_index :: nat
  st_nodes :: "runtime_node list"
  st_started_at :: instant
  st_updated_at :: instant
  st_completed_at :: instant
  st_failure_reason :: string
  st_processed :: "string list"

record start_approval_input =
  sai_approval_id :: string
  sai_tenant_id :: string
  sai_contract_id :: string
  sai_applicant :: string
  sai_applicant_name :: string
  sai_expected_version :: nat
  sai_kind :: approval_kind
  sai_from_status :: status
  sai_target_status :: status
  sai_reason :: string
  sai_rule_id :: string
  sai_rule_version :: nat
  sai_content_hash :: string
  sai_workflow_id :: string
  sai_run_id :: string
  sai_nodes :: "node list"
  sai_audit :: audit_meta

record record_command_input =
  rci_approval_id :: string
  rci_tenant_id :: string
  rci_contract_id :: string
  rci_node_id :: string
  rci_command :: approval_command
  rci_state :: approval_state

record complete_approval_input =
  coi_approval_id :: string
  coi_tenant_id :: string
  coi_contract_id :: string
  coi_actor :: string
  coi_status :: approval_status
  coi_reason :: string
  coi_workflow_id :: string
  coi_target_status :: status
  coi_audit :: audit_meta

record notify_input =
  ni_tenant_id :: string
  ni_approval_id :: string
  ni_contract_id :: string
  ni_type :: string
  ni_recipients :: "string list"
  ni_role_recipients :: "string list"
  ni_title :: string
  ni_content :: string
  ni_dedupe_key :: string

text \<open>Go's zero time, 1 January of year 1.\<close>

definition zero_time :: instant where
  "zero_time = - 62135596800 * second_ns"

section \<open>Commands on the approval state\<close>

definition initialize_node :: "node \<Rightarrow> runtime_node" where
  "initialize_node n = \<lparr>
     rn_node = (if node_countersign n = CountersignEmpty then n\<lparr>node_countersign := CountersignAll\<rparr> else n),
     rn_status = NodePending, rn_approved_by = {}, rn_added_signers = [],
     rn_started_at = zero_time, rn_completed_at = zero_time\<rparr>"

definition initialize_nodes :: "node list \<Rightarrow> runtime_node list" where
  "initialize_nodes nodes = map initialize_node nodes"

definition needs_comment :: "command_action \<Rightarrow> bool" where
  "needs_comment a \<longleftrightarrow>
     a \<in> {ActionReject, ActionAddSign, ActionTransfer, ActionReturn, ActionWithdraw}"

definition validate_common_command :: "approval_command \<Rightarrow> unit result" where
  "validate_common_command c =
     (if cmd_id c = [] \<or> cmd_actor c = [] then fail (ErrCommand ''command_id and actor_user_id are required'')
      else if needs_comment (cmd_action c) \<and> cmd_comment c = []
      then fail (ErrCommand ''comment is required'')
      else ok ())"

definition approval_node_passed :: "runtime_node \<Rightarrow> bool \<Rightarrow> bool" where
  "approval_node_passed n role_or_sign =
     (let assignees = node_assignees (rn_node n); approved = rn_approved_by n;
          added = rn_added_signers n in
      if added = [] then
        (if node_countersign (rn_node n) = CountersignAny \<or> role_or_sign then True
         else \<forall>u \<in> set assignees. u \<in> approved)
      else if \<not> (\<exists>u \<in> set assignees. u \<notin> set added \<and> u \<in> approved) then False
      else if node_countersign (rn_node n) = CountersignAny then \<exists>u \<in> set added. u \<in> approved
      else \<forall>u \<in> set added. u \<in> approved)"

definition append_missing :: "string list \<Rightarrow> string list \<Rightarrow> string list" where
  "append_missing values targets =
     foldl (\<lambda>acc t. if t \<in> set acc then acc else acc @ [t]) values targets"

fun replace_first :: "string \<Rightarrow> string \<Rightarrow> string list \<Rightarrow> string list" where
  "replace_first old new [] = []"
| "replace_first old new (v # vs) = (if v = old then new # vs else v # replace_first old new vs)"

definition set_node :: "approval_state \<Rightarrow> runtime_node \<Rightarrow> approval_state" where
  "set_node st n = st\<lparr>st_nodes := (st_nodes st)[st_index st := n]\<rparr>"

definition cmd_approve :: "approval_state \<Rightarrow> runtime_node \<Rightarrow> approval_command \<Rightarrow> approval_state result" where
  "cmd_approve st n c =
     (if cmd_actor c = st_applicant st then fail (ErrCommand ''applicant cannot approve own contract approval'')
      else let n1 = n\<lparr>rn_approved_by := insert (cmd_actor c) (rn_approved_by n)\<rparr>
           in if approval_node_passed n1 (cmd_role_or_sign c)
              then ok ((set_node st (n1\<lparr>rn_status := NodeApproved, rn_completed_at := cmd_occurred_at c\<rparr>))
                         \<lparr>st_index := st_index st + 1\<rparr>)
              else ok (set_node st n1))"

definition cmd_add_sign :: "approval_state \<Rightarrow> runtime_node \<Rightarrow> approval_command \<Rightarrow> approval_state result" where
  "cmd_add_sign st n c =
     (let targets = unique_strings (cmd_targets c) in
      if targets = [] then fail (ErrCommand ''target users required'')
      else if cmd_countersign c \<noteq> CountersignAll \<and> cmd_countersign c \<noteq> CountersignAny
      then fail (ErrCommand ''invalid countersign mode'')
      else ok (set_node st (n\<lparr>
        rn_node := (rn_node n)\<lparr>
          node_assignees := append_missing (node_assignees (rn_node n)) targets,
          node_countersign := cmd_countersign c\<rparr>,
        rn_added_signers := append_missing (rn_added_signers n) targets,
        rn_approved_by := insert (cmd_actor c) (rn_approved_by n)\<rparr>)))"

definition cmd_transfer :: "approval_state \<Rightarrow> runtime_node \<Rightarrow> approval_command \<Rightarrow> approval_state result" where
  "cmd_transfer st n c =
     (let targets = unique_strings (cmd_targets c) in
      if cmd_target_node c \<noteq> [] \<and> node_id (rn_node n) \<noteq> cmd_target_node c
      then fail (ErrCommand ''transfer target node is not the active node'')
      else if length targets \<noteq> 1 then fail (ErrCommand ''one transfer target required'')
      else ok (set_node st (n\<lparr>
        rn_node := (rn_node n)\<lparr>
          node_assignees := replace_first (cmd_actor c) (hd targets) (node_assignees (rn_node n))\<rparr>,
        rn_added_signers := replace_first (cmd_actor c) (hd targets) (rn_added_signers n),
        rn_approved_by := rn_approved_by n - {cmd_actor c}\<rparr>)))"

definition reset_node :: "runtime_node \<Rightarrow> runtime_node" where
  "reset_node n = n\<lparr>rn_status := NodePending, rn_approved_by := {}, rn_started_at := zero_time,
     rn_completed_at := zero_time\<rparr>"

definition return_target :: "approval_state \<Rightarrow> string \<Rightarrow> nat option" where
  "return_target st target =
     List.find (\<lambda>i. node_id (rn_node (st_nodes st ! i)) = target
       \<and> rn_status (st_nodes st ! i) = NodeApproved) [0..<st_index st]"

fun reset_range :: "nat \<Rightarrow> nat \<Rightarrow> runtime_node list \<Rightarrow> runtime_node list" where
  "reset_range from to nodes =
     map (\<lambda>i. if from \<le> i \<and> i \<le> to then reset_node (nodes ! i) else nodes ! i) [0..<length nodes]"

definition cmd_return :: "approval_state \<Rightarrow> approval_command \<Rightarrow> approval_state result" where
  "cmd_return st c =
     (case return_target st (cmd_target_node c) of
        None \<Rightarrow> fail (ErrCommand ''target must be an approved historical node'')
      | Some i \<Rightarrow> ok (st\<lparr>st_nodes := reset_range i (st_index st) (st_nodes st), st_index := i\<rparr>))"

text \<open>
  The result of a command: the new state, whether it changed, and whether it is terminal. Indexing
  beyond the last node would panic in Go; the branch is an error of the model, and the workflow only
  calls the function while a node is active.
\<close>

definition apply_contract_command ::
  "approval_state \<Rightarrow> approval_command \<Rightarrow> (approval_state \<times> bool \<times> bool) result" where
  "apply_contract_command st c =
     (if cmd_action c = ActionWithdraw then
        (if cmd_actor c \<noteq> st_applicant st then fail (ErrCommand ''only applicant may withdraw'')
         else ok (st\<lparr>st_status := AStatusWithdrawn, st_failure_reason := cmd_comment c\<rparr>, True, True))
      else if cmd_action c = ActionUrge \<or> cmd_action c = ActionComment then ok (st, True, False)
      else if st_index st \<ge> length (st_nodes st) then fail (ErrCommand ''index out of range'')
      else let n = st_nodes st ! st_index st in
        if cmd_actor c \<notin> set (node_assignees (rn_node n))
        then fail (ErrCommand ''actor is not a current assignee'')
        else case cmd_action c of
          ActionApprove \<Rightarrow> res_bind (cmd_approve st n c) (\<lambda>st'. ok (st', True, False))
        | ActionReject \<Rightarrow>
            ok ((set_node st (n\<lparr>rn_status := NodeRejected\<rparr>))
                  \<lparr>st_status := AStatusRejected, st_failure_reason := cmd_comment c\<rparr>, True, True)
        | ActionAddSign \<Rightarrow> res_bind (cmd_add_sign st n c) (\<lambda>st'. ok (st', True, False))
        | ActionTransfer \<Rightarrow> res_bind (cmd_transfer st n c) (\<lambda>st'. ok (st', True, False))
        | ActionReturn \<Rightarrow> res_bind (cmd_return st c) (\<lambda>st'. ok (st', True, False))
        | _ \<Rightarrow> fail (ErrCommand ''unsupported action''))"

section \<open>Invariant of the approval state\<close>

text \<open>
  Nodes before the current one are approved, each by someone other than the applicant; nodes after
  it are untouched; and only assignees have approved a node.
\<close>

definition passed_node :: "string \<Rightarrow> runtime_node \<Rightarrow> bool" where
  "passed_node applicant n \<longleftrightarrow> rn_status n = NodeApproved \<and> (\<exists>u \<in> rn_approved_by n. u \<noteq> applicant)"

definition state_inv :: "approval_state \<Rightarrow> bool" where
  "state_inv st \<longleftrightarrow> st_index st \<le> length (st_nodes st)
     \<and> (\<forall>i < st_index st. passed_node (st_applicant st) (st_nodes st ! i))
     \<and> (\<forall>i. st_index st < i \<and> i < length (st_nodes st) \<longrightarrow>
          rn_status (st_nodes st ! i) = NodePending \<and> rn_approved_by (st_nodes st ! i) = {})
     \<and> (\<forall>n \<in> set (st_nodes st). rn_approved_by n \<subseteq> set (node_assignees (rn_node n)))"

definition same_frame :: "approval_state \<Rightarrow> approval_state \<Rightarrow> bool" where
  "same_frame st st' \<longleftrightarrow>
     st_approval_id st' = st_approval_id st \<and> st_kind st' = st_kind st
     \<and> st_contract_id st' = st_contract_id st \<and> st_applicant st' = st_applicant st
     \<and> st_processed st' = st_processed st
     \<and> map (node_id \<circ> rn_node) (st_nodes st') = map (node_id \<circ> rn_node) (st_nodes st)"

lemma set_node_simps [simp]:
  "st_nodes (set_node st n) = (st_nodes st)[st_index st := n]"
  "st_index (set_node st n) = st_index st" "st_status (set_node st n) = st_status st"
  "st_applicant (set_node st n) = st_applicant st" "st_kind (set_node st n) = st_kind st"
  "st_approval_id (set_node st n) = st_approval_id st"
  "st_contract_id (set_node st n) = st_contract_id st"
  "st_processed (set_node st n) = st_processed st"
  by (simp_all add: set_node_def)

lemma set_append_missing [simp]: "set (append_missing vs ts) = set vs \<union> set ts"
  unfolding append_missing_def by (induction ts arbitrary: vs) auto

lemma set_replace_first: "set vs - {old} \<subseteq> set (replace_first old new vs)"
  by (induction vs) auto

lemma replace_first_fresh: "old \<notin> set vs \<Longrightarrow> replace_first old new vs = vs"
  by (induction vs) auto

lemma set_node_inv:
  assumes "state_inv st" and "st_index st < length (st_nodes st)"
    and "rn_approved_by n \<subseteq> set (node_assignees (rn_node n))"
  shows "state_inv (set_node st n)"
proof -
  have "\<forall>m \<in> set ((st_nodes st)[st_index st := n]). rn_approved_by m \<subseteq> set (node_assignees (rn_node m))"
    using assms(1,3) by (auto simp: state_inv_def dest!: set_update_subset_insert [THEN subsetD])
  with assms show ?thesis by (auto simp: state_inv_def nth_list_update)
qed

lemma set_node_frame:
  assumes "st_index st < length (st_nodes st)"
    and "node_id (rn_node n) = node_id (rn_node (st_nodes st ! st_index st))"
  shows "same_frame st (set_node st n)"
proof -
  have "map (node_id \<circ> rn_node) ((st_nodes st)[st_index st := n]) = map (node_id \<circ> rn_node) (st_nodes st)"
    using assms by (simp add: map_update) (metis comp_apply list_update_id nth_map)
  then show ?thesis by (simp add: same_frame_def)
qed

lemma cmd_approve_inv:
  assumes "state_inv st" and "st_index st < length (st_nodes st)"
    and "cmd_actor c \<in> set (node_assignees (rn_node n))" and n: "n = st_nodes st ! st_index st"
    and "cmd_approve st n c = Inr st'"
  shows "state_inv st' \<and> same_frame st st'
    \<and> (st_index st' = st_index st \<or> st_index st' = Suc (st_index st))
    \<and> cmd_actor c \<noteq> st_applicant st \<and> st_status st' = st_status st"
proof -
  have a: "cmd_actor c \<noteq> st_applicant st" using assms(5) by (auto simp: cmd_approve_def split: if_splits)
  let ?n1 = "n\<lparr>rn_approved_by := insert (cmd_actor c) (rn_approved_by n)\<rparr>"
  let ?n2 = "?n1\<lparr>rn_status := NodeApproved, rn_completed_at := cmd_occurred_at c\<rparr>"
  have sub: "rn_approved_by n \<subseteq> set (node_assignees (rn_node n))"
    using assms(1,2) n by (auto simp: state_inv_def)
  have inv: "state_inv (set_node st ?n1)" "state_inv (set_node st ?n2)"
    using assms sub by (auto intro!: set_node_inv)
  have fr: "same_frame st (set_node st ?n1)" "same_frame st (set_node st ?n2)"
    using assms(2) n by (auto intro!: set_node_frame)
  have up: "state_inv ((set_node st ?n2)\<lparr>st_index := st_index st + 1\<rparr>)"
    using inv(2) assms(2) a
    by (auto simp: state_inv_def passed_node_def nth_list_update less_Suc_eq)
  have "st' = set_node st ?n1 \<or> st' = (set_node st ?n2)\<lparr>st_index := st_index st + 1\<rparr>"
    using assms(5) a by (auto simp: cmd_approve_def Let_def split: if_splits)
  then show ?thesis using inv(1) up fr a by (auto simp: same_frame_def)
qed

lemma cmd_add_sign_inv:
  assumes "state_inv st" and "st_index st < length (st_nodes st)"
    and "cmd_actor c \<in> set (node_assignees (rn_node n))" and n: "n = st_nodes st ! st_index st"
    and "cmd_add_sign st n c = Inr st'"
  shows "state_inv st' \<and> same_frame st st' \<and> st_index st' = st_index st \<and> st_status st' = st_status st"
proof -
  have sub: "rn_approved_by n \<subseteq> set (node_assignees (rn_node n))"
    using assms(1,2) n by (auto simp: state_inv_def)
  define m where "m = n\<lparr>
    rn_node := (rn_node n)\<lparr>
      node_assignees := append_missing (node_assignees (rn_node n)) (unique_strings (cmd_targets c)),
      node_countersign := cmd_countersign c\<rparr>,
    rn_added_signers := append_missing (rn_added_signers n) (unique_strings (cmd_targets c)),
    rn_approved_by := insert (cmd_actor c) (rn_approved_by n)\<rparr>"
  have st': "st' = set_node st m"
    using assms(5) by (simp add: cmd_add_sign_def Let_def m_def split: if_splits)
  have "rn_approved_by m \<subseteq> set (node_assignees (rn_node m))" "node_id (rn_node m) = node_id (rn_node n)"
    using sub assms(3) by (auto simp: m_def)
  then show ?thesis using assms(1,2) n unfolding st' by (auto intro!: set_node_inv set_node_frame)
qed

lemma cmd_transfer_inv:
  assumes "state_inv st" and "st_index st < length (st_nodes st)" and n: "n = st_nodes st ! st_index st"
    and "cmd_transfer st n c = Inr st'"
  shows "state_inv st' \<and> same_frame st st' \<and> st_index st' = st_index st \<and> st_status st' = st_status st"
proof -
  have sub: "rn_approved_by n \<subseteq> set (node_assignees (rn_node n))"
    using assms(1,2) n by (auto simp: state_inv_def)
  define t where "t = hd (unique_strings (cmd_targets c))"
  define m where "m = n\<lparr>
    rn_node := (rn_node n)\<lparr>
      node_assignees := replace_first (cmd_actor c) t (node_assignees (rn_node n))\<rparr>,
    rn_added_signers := replace_first (cmd_actor c) t (rn_added_signers n),
    rn_approved_by := rn_approved_by n - {cmd_actor c}\<rparr>"
  have st': "st' = set_node st m"
    using assms(4) by (simp add: cmd_transfer_def Let_def m_def t_def split: if_splits)
  have "rn_approved_by m \<subseteq> set (node_assignees (rn_node m))" "node_id (rn_node m) = node_id (rn_node n)"
    using sub set_replace_first [of "node_assignees (rn_node n)" "cmd_actor c" t]
    by (auto simp: m_def)
  then show ?thesis using assms(1,2) n unfolding st' by (auto intro!: set_node_inv set_node_frame)
qed

lemma return_target_Some:
  "return_target st t = Some i \<Longrightarrow> i < st_index st \<and> node_id (rn_node (st_nodes st ! i)) = t
     \<and> rn_status (st_nodes st ! i) = NodeApproved"
  by (auto simp: return_target_def find_Some_iff)

lemma nth_reset_range:
  "i < length ns \<Longrightarrow> reset_range a b ns ! i = (if a \<le> i \<and> i \<le> b then reset_node (ns ! i) else ns ! i)"
  by simp

lemma reset_range_approved:
  "\<forall>n \<in> set ns. rn_approved_by n \<subseteq> set (node_assignees (rn_node n)) \<Longrightarrow>
   n \<in> set (reset_range a b ns) \<Longrightarrow> rn_approved_by n \<subseteq> set (node_assignees (rn_node n))"
  by (auto simp: reset_node_def split: if_splits)

declare reset_range.simps [simp del]

lemma length_reset_range [simp]: "length (reset_range a b ns) = length ns"
  by (simp add: reset_range.simps)

lemma cmd_return_inv:
  assumes "state_inv st" and "st_index st < length (st_nodes st)" and "cmd_return st c = Inr st'"
  shows "state_inv st' \<and> same_frame st st' \<and> st_index st' < st_index st \<and> st_status st' = st_status st"
proof -
  obtain i where i: "return_target st (cmd_target_node c) = Some i"
    "st' = st\<lparr>st_nodes := reset_range i (st_index st) (st_nodes st), st_index := i\<rparr>"
    using assms(3) by (auto simp: cmd_return_def split: option.splits)
  have lt: "i < st_index st" using return_target_Some [OF i(1)] by simp
  have "map (node_id \<circ> rn_node) (reset_range i (st_index st) (st_nodes st))
      = map (node_id \<circ> rn_node) (st_nodes st)"
    by (rule nth_equalityI) (auto simp: nth_reset_range reset_node_def)
  moreover have "state_inv st'"
    using assms(1,2) lt reset_range_approved [of "st_nodes st"]
    by (auto simp: state_inv_def i(2) nth_reset_range) (auto simp: reset_node_def)
  ultimately show ?thesis using lt by (simp add: i(2) same_frame_def)
qed

lemma same_frame_refl [simp]: "same_frame st st"
  by (simp add: same_frame_def)

lemma same_frame_trans: "same_frame a b \<Longrightarrow> same_frame b c \<Longrightarrow> same_frame a c"
  by (simp add: same_frame_def)

text \<open>What a command that is accepted guarantees: the invariant and the frame; a terminal command
  leaves the running status, any other keeps it and moves the index by an approval at most.\<close>

lemma apply_contract_command_inv:
  assumes "state_inv st" and "apply_contract_command st c = Inr (st', changed, ends)"
  shows "state_inv st' \<and> same_frame st st' \<and> changed
    \<and> (ends \<longrightarrow> st_index st' = st_index st \<and>
         (st_status st' = AStatusWithdrawn \<and> cmd_actor c = st_applicant st
          \<or> st_status st' = AStatusRejected \<and> st_index st < length (st_nodes st)
            \<and> cmd_actor c \<in> set (node_assignees (rn_node (st_nodes st ! st_index st)))))
    \<and> (\<not> ends \<longrightarrow> st_status st' = st_status st \<and>
         (st_index st' \<le> st_index st
          \<or> st_index st' = Suc (st_index st) \<and> cmd_action c = ActionApprove
            \<and> st_index st < length (st_nodes st) \<and> cmd_actor c \<noteq> st_applicant st
            \<and> cmd_actor c \<in> set (node_assignees (rn_node (st_nodes st ! st_index st)))))"
proof -
  let ?n = "st_nodes st ! st_index st"
  consider (w) "cmd_action c = ActionWithdraw" | (u) "cmd_action c = ActionUrge \<or> cmd_action c = ActionComment"
    | (o) "cmd_action c \<noteq> ActionWithdraw" "\<not> (cmd_action c = ActionUrge \<or> cmd_action c = ActionComment)"
    by blast
  then show ?thesis
  proof cases
    case w
    with assms show ?thesis
      by (auto simp: apply_contract_command_def state_inv_def same_frame_def split: if_splits)
  next
    case u
    with assms show ?thesis by (auto simp: apply_contract_command_def)
  next
    case o
    then have lt: "st_index st < length (st_nodes st)"
      and act: "cmd_actor c \<in> set (node_assignees (rn_node ?n))"
      using assms(2) by (auto simp: apply_contract_command_def Let_def split: if_splits)
    note app = assms(2) [unfolded apply_contract_command_def Let_def]
    have sub: "rn_approved_by ?n \<subseteq> set (node_assignees (rn_node ?n))"
      using assms(1) lt by (auto simp: state_inv_def)
    show ?thesis
    proof (cases "cmd_action c")
      case ActionReject
      have "state_inv (set_node st (?n\<lparr>rn_status := NodeRejected\<rparr>))"
        using assms(1) lt sub by (intro set_node_inv) auto
      moreover have "same_frame st (set_node st (?n\<lparr>rn_status := NodeRejected\<rparr>))"
        using lt by (intro set_node_frame) auto
      ultimately show ?thesis using app ActionReject lt act
        by (auto simp: state_inv_def same_frame_def)
    next
      case ActionApprove
      with app cmd_approve_inv [OF assms(1) lt act refl] lt act show ?thesis
        by (auto simp: result_simps)
    next
      case ActionAddSign
      with app lt act cmd_add_sign_inv [OF assms(1) lt act refl] show ?thesis by (auto simp: result_simps)
    next
      case ActionTransfer
      with app lt act cmd_transfer_inv [OF assms(1) lt refl] show ?thesis by (auto simp: result_simps)
    next
      case ActionReturn
      with app lt act cmd_return_inv [OF assms(1) lt] show ?thesis
        by (auto simp: result_simps intro: less_imp_le)
    qed (use app o lt act in auto)
  qed
qed

text \<open>A command that is not terminal keeps the current node's status, or moves the index and leaves a
  node that is no longer active behind.\<close>

lemma apply_contract_command_status:
  assumes "st_index st < length (st_nodes st)"
    and "apply_contract_command st c = Inr (st', changed, ends)" and "\<not> ends"
  shows "if st_index st' = st_index st
    then rn_status (st_nodes st' ! st_index st) = rn_status (st_nodes st ! st_index st)
    else rn_status (st_nodes st' ! st_index st) \<noteq> NodeActive"
proof -
  have ret: "i < st_index st" if "return_target st t = Some i" for i t
    using return_target_Some [OF that] by simp
  from assms show ?thesis
    by (auto simp: apply_contract_command_def cmd_approve_def cmd_add_sign_def cmd_transfer_def
        cmd_return_def Let_def nth_reset_range reset_node_def
        split: if_splits command_action.splits option.splits dest!: ret)
qed

end
