(* ===== verification/Workflow_Run.thy ===== *)
theory Workflow_Run
  imports Approval_Workflow
begin

text \<open>
  The two approval workflows as event-driven machines: \<^verbatim>\<open>ContractApprovalWorkflow\<close>
  (\<^verbatim>\<open>contract_approval.go\<close>) here and \<^verbatim>\<open>StatusChangeWorkflow\<close> (\<^verbatim>\<open>status_change.go\<close>) in
  \<open>Status_Change\<close>, with the activity layer of \<^verbatim>\<open>activities.go\<close> and \<^verbatim>\<open>helpers.go\<close>. The
  state of the persistent store is a type variable, and the activities are the functions of
  \<open>approval_store\<close>. Each step is given the values the workflow clock shows at the points
  where the code reads it. Message texts that are Chinese literals in the code are represented by an
  English gloss; no branch depends on them.
\<close>

section \<open>Activities\<close>

record 's approval_store =
  as_start :: "start_approval_input \<Rightarrow> 's \<Rightarrow> 's result"
  as_record :: "record_command_input \<Rightarrow> 's \<Rightarrow> 's result"
  as_complete :: "complete_approval_input \<Rightarrow> 's \<Rightarrow> 's result"
  as_notify :: "notify_input \<Rightarrow> 's \<Rightarrow> 's result"

datatype activity_error = NonRetryable app_error | Retryable app_error

definition critical_activity_error :: "app_error \<Rightarrow> activity_error" where
  "critical_activity_error e =
     (if e \<in> {ErrNotFound, ErrVersionConflict, ErrStateConflict, ErrInvalidTransition,
              ErrInvalidStatus, ErrNumberExhausted, ErrInvalidNumberRule, ErrNumberConflict}
      then NonRetryable e else Retryable e)"

text \<open>
  \<^verbatim>\<open>executeLicensedActivity\<close>: while the commercial licence check refuses the activity, the
  workflow sleeps and tries again. \<open>gates\<close> are the outcomes of successive checks; \<open>None\<close>
  means that the workflow is still waiting when they are used up.
\<close>

fun execute_licensed :: "bool list \<Rightarrow> ('i \<Rightarrow> 's \<Rightarrow> 's result) \<Rightarrow> 'i \<Rightarrow> 's \<Rightarrow> 's result option" where
  "execute_licensed [] op i s = None"
| "execute_licensed (gate # gates) op i s =
     (if gate then Some (op i s) else execute_licensed gates op i s)"

datatype wf_phase = WfRunning | WfReturned | WfFailed app_error | WfRetrying app_error

record 's wf =
  wf_state :: approval_state
  wf_phase :: wf_phase
  wf_node :: nat
  wf_deadline :: instant
  wf_next_reminder :: instant
  wf_store :: 's

text \<open>
  A critical activity runs until it succeeds or fails for a reason that is not retryable, which
  fails the workflow. An activity whose error is retryable is tried again without limit: the machine
  stays in that call.
\<close>

definition critical ::
  "('i \<Rightarrow> 's \<Rightarrow> 's result) \<Rightarrow> 'i \<Rightarrow> 's wf \<Rightarrow> ('s wf \<Rightarrow> 's wf) \<Rightarrow> 's wf" where
  "critical op i w k =
     (case op i (wf_store w) of
        Inr s \<Rightarrow> k (w\<lparr>wf_store := s\<rparr>)
      | Inl e \<Rightarrow>
          (case critical_activity_error e of
             NonRetryable e' \<Rightarrow> w\<lparr>wf_phase := WfFailed e'\<rparr>
           | Retryable e' \<Rightarrow> w\<lparr>wf_phase := WfRetrying e'\<rparr>))"

definition notify_best_effort :: "'s approval_store \<Rightarrow> notify_input \<Rightarrow> 's wf \<Rightarrow> 's wf" where
  "notify_best_effort ops i w =
     (case as_notify ops i (wf_store w) of Inr s \<Rightarrow> w\<lparr>wf_store := s\<rparr> | Inl e \<Rightarrow> w)"

definition notify_current_node ::
  "'s approval_store \<Rightarrow> string \<Rightarrow> instant \<Rightarrow> string \<Rightarrow> string \<Rightarrow> string \<Rightarrow> 's wf \<Rightarrow> 's wf" where
  "notify_current_node ops tenant now typ title content w =
     (let st = wf_state w in
      if st_index st \<ge> length (st_nodes st) then w
      else let n = rn_node (st_nodes st ! st_index st) in
        notify_best_effort ops
          \<lparr>ni_tenant_id = tenant, ni_approval_id = st_approval_id st, ni_contract_id = st_contract_id st,
           ni_type = typ, ni_recipients = node_assignees n, ni_role_recipients = [],
           ni_title = title, ni_content = content,
           ni_dedupe_key = st_approval_id st @ '':'' @ node_id n @ '':'' @ typ @ '':''
             @ int_str (go_quot (unix_sec now) 3600)\<rparr> w)"

definition notify_recipients ::
  "'s approval_store \<Rightarrow> string \<Rightarrow> string \<Rightarrow> string \<Rightarrow> string \<Rightarrow> string \<Rightarrow> string list \<Rightarrow> 's wf \<Rightarrow> 's wf" where
  "notify_recipients ops tenant typ title content suffix recipients w =
     notify_best_effort ops
       \<lparr>ni_tenant_id = tenant, ni_approval_id = st_approval_id (wf_state w),
        ni_contract_id = st_contract_id (wf_state w), ni_type = typ,
        ni_recipients = unique_strings recipients, ni_role_recipients = [], ni_title = title,
        ni_content = content, ni_dedupe_key = st_approval_id (wf_state w) @ '':'' @ suffix\<rparr> w"

definition notify_assigned_users ::
  "'s approval_store \<Rightarrow> string \<Rightarrow> approval_command \<Rightarrow> string list \<Rightarrow> 's wf \<Rightarrow> 's wf" where
  "notify_assigned_users ops tenant c recipients w =
     (if unique_strings recipients = [] then w
      else notify_recipients ops tenant ''approval_assigned'' ''You have been assigned an approval''
             ''You have been assigned to the current contract approval'' (''assigned:'' @ cmd_id c)
             recipients w)"

definition notify_roles ::
  "'s approval_store \<Rightarrow> string \<Rightarrow> string \<Rightarrow> string \<Rightarrow> string \<Rightarrow> string \<Rightarrow> string list \<Rightarrow> 's wf \<Rightarrow> 's wf" where
  "notify_roles ops tenant typ title content suffix roles w =
     notify_best_effort ops
       \<lparr>ni_tenant_id = tenant, ni_approval_id = st_approval_id (wf_state w),
        ni_contract_id = st_contract_id (wf_state w), ni_type = typ, ni_recipients = [],
        ni_role_recipients = unique_strings roles, ni_title = title,
        ni_content = content, ni_dedupe_key = st_approval_id (wf_state w) @ '':'' @ suffix\<rparr> w"

section \<open>The contract approval workflow\<close>

definition wf_complete_input ::
  "contract_approval_input \<Rightarrow> string \<Rightarrow> string \<Rightarrow> approval_status \<Rightarrow> string \<Rightarrow> status \<Rightarrow> complete_approval_input" where
  "wf_complete_input inp wfid actor st reason target =
     \<lparr>coi_approval_id = cai_approval_id inp, coi_tenant_id = cai_tenant_id inp,
      coi_contract_id = cai_contract_id inp, coi_actor = actor, coi_status = st, coi_reason = reason,
      coi_workflow_id = wfid, coi_target_status = target, coi_audit = cai_audit inp\<rparr>"

definition activate_current :: "instant \<Rightarrow> approval_state \<Rightarrow> approval_state" where
  "activate_current now st =
     set_node st ((st_nodes st ! st_index st)\<lparr>rn_status := NodeActive, rn_started_at := now\<rparr>)"

text \<open>The head of the outer loop: return, complete the approval, or wait on the current node.\<close>

definition wf_top ::
  "'s approval_store \<Rightarrow> contract_approval_input \<Rightarrow> string \<Rightarrow> instant \<Rightarrow> instant \<Rightarrow> 's wf \<Rightarrow> 's wf" where
  "wf_top ops inp wfid now now' w =
     (let st = wf_state w in
      if st_status st \<noteq> AStatusRunning then w\<lparr>wf_phase := WfReturned\<rparr>
      else if st_index st \<ge> length (st_nodes st) then
        critical (as_complete ops)
          (wf_complete_input inp wfid [] AStatusApproved ''all approval nodes passed'' StatusActive)
          (w\<lparr>wf_state := st\<lparr>st_status := AStatusApproved, st_completed_at := now, st_updated_at := now\<rparr>\<rparr>)
          (\<lambda>w1. (notify_roles ops (cai_tenant_id inp) ''signing_pending'' ''Approved, signing pending''
                   ''A contract in force awaits dispatch and return'' ''contract-specialist-signing''
                   [''contract_specialist'']
                   (notify_recipients ops (cai_tenant_id inp) ''approved'' ''Contract approved''
                      ''The contract is approved and in force'' ''approved'' [cai_applicant inp] w1))
                \<lparr>wf_phase := WfReturned\<rparr>)
      else
        let w1 = (if rn_status (st_nodes st ! st_index st) \<noteq> NodeActive
                  then notify_current_node ops (cai_tenant_id inp) now ''pending_approval''
                         ''Approval pending'' ''You have a new contract approval''
                         (w\<lparr>wf_state := (activate_current now st)\<lparr>st_updated_at := now\<rparr>\<rparr>)
                  else w);
            n = st_nodes (wf_state w1) ! st_index st;
            timeout = (if node_timeout (rn_node n) \<le> 0 then cai_default_timeout inp
                       else node_timeout (rn_node n))
        in w1\<lparr>wf_node := st_index st, wf_deadline := rn_started_at n + timeout,
              wf_next_reminder := now' + cai_reminder_interval inp\<rparr>)"

definition default_input :: "contract_approval_input \<Rightarrow> contract_approval_input" where
  "default_input inp = inp\<lparr>
     cai_default_timeout := (if cai_default_timeout inp \<le> 0 then 72 * hour_ns else cai_default_timeout inp),
     cai_reminder_interval := (if cai_reminder_interval inp \<le> 0 then 24 * hour_ns
                               else cai_reminder_interval inp)\<rparr>"

definition initial_state :: "contract_approval_input \<Rightarrow> instant \<Rightarrow> approval_state" where
  "initial_state inp now = \<lparr>st_approval_id = cai_approval_id inp, st_kind = KindContract,
     st_status = AStatusRunning, st_contract_id = cai_contract_id inp,
     st_applicant = cai_applicant inp, st_applicant_name = cai_applicant_name inp, st_index = 0,
     st_nodes = initialize_nodes (cai_nodes inp), st_started_at = now, st_updated_at = now,
     st_completed_at = zero_time, st_failure_reason = [], st_processed = []\<rparr>"

definition wf_start_input ::
  "contract_approval_input \<Rightarrow> string \<Rightarrow> string \<Rightarrow> start_approval_input" where
  "wf_start_input inp wfid runid = \<lparr>sai_approval_id = cai_approval_id inp,
     sai_tenant_id = cai_tenant_id inp, sai_contract_id = cai_contract_id inp,
     sai_applicant = cai_applicant inp, sai_applicant_name = cai_applicant_name inp,
     sai_expected_version = cai_contract_version inp, sai_kind = KindContract,
     sai_from_status = StatusDraft, sai_target_status = StatusPending, sai_reason = [],
     sai_rule_id = cai_rule_id inp, sai_rule_version = cai_rule_version inp,
     sai_content_hash = cai_content_hash inp, sai_workflow_id = wfid, sai_run_id = runid,
     sai_nodes = cai_nodes inp, sai_audit = cai_audit inp\<rparr>"

text \<open>\<^verbatim>\<open>t0\<close> is the clock at the start, \<^verbatim>\<open>t1\<close> and \<^verbatim>\<open>t2\<close> at the first loop head.\<close>

definition contract_wf_start ::
  "'s approval_store \<Rightarrow> contract_approval_input \<Rightarrow> string \<Rightarrow> string \<Rightarrow> instant \<Rightarrow> instant \<Rightarrow> instant \<Rightarrow> 's \<Rightarrow> 's wf" where
  "contract_wf_start ops inp0 wfid runid t0 t1 t2 s =
     (let inp = default_input inp0;
          w = \<lparr>wf_state = initial_state inp t0, wf_phase = WfRunning, wf_node = 0,
               wf_deadline = zero_time, wf_next_reminder = zero_time, wf_store = s\<rparr>
      in if cai_approval_id inp = [] \<or> cai_contract_id inp = [] \<or> cai_applicant inp = []
            \<or> cai_nodes inp = []
         then w\<lparr>wf_phase := WfFailed (ErrWorkflowInput ''invalid contract approval input'')\<rparr>
         else critical (as_start ops) (wf_start_input inp wfid runid) w (wf_top ops inp wfid t1 t2))"

datatype wf_event = EvCommand approval_command instant instant instant instant | EvTimer instant

definition wf_timer ::
  "'s approval_store \<Rightarrow> contract_approval_input \<Rightarrow> string \<Rightarrow> instant \<Rightarrow> 's wf \<Rightarrow> 's wf" where
  "wf_timer ops inp wfid now w =
     (if \<not> now < wf_deadline w then
        let reason = ''current approval node timed out'' in
        critical (as_complete ops)
          (wf_complete_input inp wfid [] AStatusExpired reason StatusDraft)
          (w\<lparr>wf_state := (wf_state w)\<lparr>st_status := AStatusExpired, st_failure_reason := reason,
                st_completed_at := now, st_updated_at := now\<rparr>\<rparr>)
          (\<lambda>w1. (notify_recipients ops (cai_tenant_id inp) ''rejected'' ''Approval timed out'' reason
                   ''expired'' [cai_applicant inp] w1)\<lparr>wf_phase := WfReturned\<rparr>)
      else (notify_current_node ops (cai_tenant_id inp) now ''approval_reminder'' ''Approval is about to time out''
              ''Please handle the approval'' w)\<lparr>wf_next_reminder := now + cai_reminder_interval inp\<rparr>)"

fun terminal_notice :: "approval_status \<Rightarrow> string \<times> string" where
  "terminal_notice AStatusWithdrawn = (''status_change'', ''Approval withdrawn'')"
| "terminal_notice _ = (''rejected'', ''Approval rejected'')"

fun approval_status_string :: "approval_status \<Rightarrow> string" where
  "approval_status_string AStatusRunning = ''running''"
| "approval_status_string AStatusApproved = ''approved''"
| "approval_status_string AStatusRejected = ''rejected''"
| "approval_status_string AStatusWithdrawn = ''withdrawn''"
| "approval_status_string AStatusExpired = ''expired''"
| "approval_status_string AStatusFailed = ''failed''"
| "approval_status_string (AStatusOther s) = s"

text \<open>What follows a recorded command: notifications and, for a terminal command, completion.\<close>

definition wf_notices ::
  "'s approval_store \<Rightarrow> contract_approval_input \<Rightarrow> approval_command \<Rightarrow> bool \<Rightarrow> instant \<Rightarrow> 's wf \<Rightarrow> 's wf" where
  "wf_notices ops inp c advanced now w =
     (let tenant = cai_tenant_id inp;
          w1 = (if cmd_action c = ActionAddSign \<or> cmd_action c = ActionTransfer
                then notify_assigned_users ops tenant c (cmd_targets c) w else w);
          w2 = (if advanced
                then notify_current_node ops tenant now ''pending_approval'' ''Approval pending''
                       ''You have a new contract approval'' w1 else w1)
      in if cmd_action c = ActionUrge
         then notify_current_node ops tenant now ''approval_reminder'' ''Approval urged'' (cmd_comment c) w2
         else w2)"

definition wf_after_record ::
  "'s approval_store \<Rightarrow> contract_approval_input \<Rightarrow> string \<Rightarrow> approval_command \<Rightarrow> bool \<Rightarrow> bool
     \<Rightarrow> instant \<Rightarrow> instant \<Rightarrow> instant \<Rightarrow> 's wf \<Rightarrow> 's wf" where
  "wf_after_record ops inp wfid c advanced ends t2 t3 t4 w =
     (let w3 = wf_notices ops inp c advanced t2 w; st = wf_state w3
      in if ends then
           critical (as_complete ops)
             (wf_complete_input inp wfid (cmd_actor c) (st_status st) (cmd_comment c) StatusDraft)
             (w3\<lparr>wf_state := st\<lparr>st_completed_at := t2\<rparr>\<rparr>)
             (\<lambda>w4. wf_top ops inp wfid t3 t4
                (notify_recipients ops (cai_tenant_id inp) (fst (terminal_notice (st_status st)))
                   (snd (terminal_notice (st_status st))) (cmd_comment c)
                   (approval_status_string (st_status st)) [cai_applicant inp] w4))
         else if st_status st = AStatusRunning
                 \<and> rn_status (st_nodes st ! wf_node w3) = NodeActive then w3
         else wf_top ops inp wfid t3 t4 w3)"

definition wf_command ::
  "'s approval_store \<Rightarrow> contract_approval_input \<Rightarrow> string \<Rightarrow> approval_command
     \<Rightarrow> instant \<Rightarrow> instant \<Rightarrow> instant \<Rightarrow> instant \<Rightarrow> 's wf \<Rightarrow> 's wf" where
  "wf_command ops inp wfid c t1 t2 t3 t4 w =
     (case validate_common_command c of
        Inl e \<Rightarrow> w
      | Inr _ \<Rightarrow>
          if cmd_id c \<in> set (st_processed (wf_state w)) then w
          else (case apply_contract_command (wf_state w) c of
                  Inl e \<Rightarrow> w
                | Inr (st1, changed, ends) \<Rightarrow>
                    let st2 = st1\<lparr>st_updated_at := t1\<rparr>;
                        advanced = (changed \<and> \<not> ends \<and> st_index st2 \<noteq> st_index (wf_state w)
                                    \<and> st_index st2 < length (st_nodes st2));
                        st3 = (if advanced then activate_current t1 st2 else st2)
                    in if changed then
                         let st4 = st3\<lparr>st_processed := st_processed st3 @ [cmd_id c]\<rparr> in
                         critical (as_record ops)
                           \<lparr>rci_approval_id = cai_approval_id inp, rci_tenant_id = cai_tenant_id inp,
                            rci_contract_id = cai_contract_id inp,
                            rci_node_id = node_id (rn_node (st_nodes st4 ! wf_node w)),
                            rci_command = c, rci_state = st4\<rparr>
                           (w\<lparr>wf_state := st4\<rparr>)
                           (wf_after_record ops inp wfid c advanced ends t2 t3 t4)
                       else wf_after_record ops inp wfid c advanced ends t2 t3 t4 (w\<lparr>wf_state := st3\<rparr>)))"

definition wf_step ::
  "'s approval_store \<Rightarrow> contract_approval_input \<Rightarrow> string \<Rightarrow> wf_event \<Rightarrow> 's wf \<Rightarrow> 's wf" where
  "wf_step ops inp wfid ev w =
     (if wf_phase w \<noteq> WfRunning then w
      else case ev of
             EvTimer now \<Rightarrow> wf_timer ops inp wfid now w
           | EvCommand c t1 t2 t3 t4 \<Rightarrow> wf_command ops inp wfid c t1 t2 t3 t4 w)"

definition wf_run ::
  "'s approval_store \<Rightarrow> contract_approval_input \<Rightarrow> string \<Rightarrow> string \<Rightarrow> instant \<Rightarrow> instant \<Rightarrow> instant
     \<Rightarrow> wf_event list \<Rightarrow> 's \<Rightarrow> 's wf" where
  "wf_run ops inp wfid runid t0 t1 t2 evs s =
     fold (wf_step ops (default_input inp) wfid) evs
       (contract_wf_start ops inp wfid runid t0 t1 t2 s)"

section \<open>Invariant of the machine\<close>

lemma notify_best_effort_simps [simp]:
  "wf_state (notify_best_effort ops i w) = wf_state w"
  "wf_phase (notify_best_effort ops i w) = wf_phase w"
  "wf_node (notify_best_effort ops i w) = wf_node w"
  "wf_deadline (notify_best_effort ops i w) = wf_deadline w"
  "wf_next_reminder (notify_best_effort ops i w) = wf_next_reminder w"
  by (simp_all add: notify_best_effort_def split: sum.splits)

lemma notify_current_node_simps [simp]:
  "wf_state (notify_current_node ops t n a b c w) = wf_state w"
  "wf_phase (notify_current_node ops t n a b c w) = wf_phase w"
  "wf_node (notify_current_node ops t n a b c w) = wf_node w"
  "wf_deadline (notify_current_node ops t n a b c w) = wf_deadline w"
  by (simp_all add: notify_current_node_def Let_def)

lemma notify_group_simps [simp]:
  "wf_state (notify_recipients ops t a b c d rs w) = wf_state w"
  "wf_phase (notify_recipients ops t a b c d rs w) = wf_phase w"
  "wf_node (notify_recipients ops t a b c d rs w) = wf_node w"
  "wf_deadline (notify_recipients ops t a b c d rs w) = wf_deadline w"
  "wf_state (notify_roles ops t a b c d rs w) = wf_state w"
  "wf_phase (notify_roles ops t a b c d rs w) = wf_phase w"
  "wf_state (notify_assigned_users ops t cmd us w) = wf_state w"
  "wf_phase (notify_assigned_users ops t cmd us w) = wf_phase w"
  "wf_node (notify_assigned_users ops t cmd us w) = wf_node w"
  "wf_deadline (notify_assigned_users ops t cmd us w) = wf_deadline w"
  by (simp_all add: notify_recipients_def notify_roles_def notify_assigned_users_def)

lemma critical_cases:
  assumes "\<And>s. op i (wf_store w) = Inr s \<Longrightarrow> P (k (w\<lparr>wf_store := s\<rparr>))"
    and "\<And>e. P (w\<lparr>wf_phase := WfFailed e\<rparr>)" and "\<And>e. P (w\<lparr>wf_phase := WfRetrying e\<rparr>)"
  shows "P (critical op i w k)"
  using assms by (auto simp: critical_def split: sum.splits activity_error.splits)

definition ended :: "approval_status \<Rightarrow> bool" where
  "ended s \<longleftrightarrow> s \<in> {AStatusRejected, AStatusWithdrawn, AStatusExpired}"

text \<open>The state belongs to the input: it has the applicant, the identifiers and the nodes of it.\<close>

definition good_state :: "contract_approval_input \<Rightarrow> approval_state \<Rightarrow> bool" where
  "good_state inp st \<longleftrightarrow> state_inv st \<and> st_applicant st = cai_applicant inp
     \<and> st_approval_id st = cai_approval_id inp \<and> st_contract_id st = cai_contract_id inp
     \<and> map (node_id \<circ> rn_node) (st_nodes st) = map node_id (cai_nodes inp)"

definition wf_inv :: "contract_approval_input \<Rightarrow> 's wf \<Rightarrow> bool" where
  "wf_inv inp w \<longleftrightarrow> good_state inp (wf_state w)
     \<and> (wf_phase w = WfRunning \<longrightarrow> st_status (wf_state w) = AStatusRunning
          \<and> wf_node w = st_index (wf_state w) \<and> wf_node w < length (st_nodes (wf_state w))
          \<and> rn_status (st_nodes (wf_state w) ! wf_node w) = NodeActive)
     \<and> (wf_phase w = WfReturned \<longrightarrow> ended (st_status (wf_state w))
          \<or> st_status (wf_state w) = AStatusApproved
            \<and> st_index (wf_state w) = length (st_nodes (wf_state w)))"

lemma good_state_cong:
  "st_index st' = st_index st \<Longrightarrow> st_nodes st' = st_nodes st \<Longrightarrow> st_applicant st' = st_applicant st \<Longrightarrow>
   st_approval_id st' = st_approval_id st \<Longrightarrow> st_contract_id st' = st_contract_id st \<Longrightarrow>
     good_state inp st' = good_state inp st"
  by (simp add: good_state_def state_inv_def)

lemma good_state_updates [simp]:
  "good_state inp (st\<lparr>st_status := a\<rparr>) = good_state inp st"
  "good_state inp (st\<lparr>st_updated_at := t\<rparr>) = good_state inp st"
  "good_state inp (st\<lparr>st_completed_at := t\<rparr>) = good_state inp st"
  "good_state inp (st\<lparr>st_failure_reason := r\<rparr>) = good_state inp st"
  "good_state inp (st\<lparr>st_processed := ps\<rparr>) = good_state inp st"
  by (rule good_state_cong; simp)+

lemma good_state_frame: "good_state inp st \<Longrightarrow> state_inv st' \<Longrightarrow> same_frame st st' \<Longrightarrow> good_state inp st'"
  by (simp add: good_state_def same_frame_def)

lemma good_state_inv: "good_state inp st \<Longrightarrow> state_inv st"
  by (simp add: good_state_def)

lemma activate_current_inv:
  assumes "good_state inp st" and "st_index st < length (st_nodes st)"
  shows "good_state inp (activate_current now st)"
proof (rule good_state_frame [OF assms(1)])
  show "state_inv (activate_current now st)"
    using assms unfolding activate_current_def
    by (intro set_node_inv) (auto simp: good_state_def state_inv_def)
  show "same_frame st (activate_current now st)"
    using assms unfolding activate_current_def by (intro set_node_frame) auto
qed

lemma activate_current_simps [simp]:
  "st_index (activate_current now st) = st_index st"
  "st_status (activate_current now st) = st_status st"
  "st_applicant (activate_current now st) = st_applicant st"
  "st_processed (activate_current now st) = st_processed st"
  "st_approval_id (activate_current now st) = st_approval_id st"
  "length (st_nodes (activate_current now st)) = length (st_nodes st)"
  by (simp_all add: activate_current_def)

lemma activate_current_node [simp]:
  "st_index st < length (st_nodes st) \<Longrightarrow>
     st_nodes (activate_current now st) ! st_index st =
       (st_nodes st ! st_index st)\<lparr>rn_status := NodeActive, rn_started_at := now\<rparr>"
  by (simp add: activate_current_def)

lemma wf_top_inv:
  assumes "good_state inp (wf_state w)" and "wf_phase w = WfRunning"
    and "st_status (wf_state w) = AStatusRunning \<or> ended (st_status (wf_state w))"
  shows "wf_inv inp (wf_top ops inp wfid t t' w)"
proof -
  let ?st = "wf_state w"
  consider (e) "ended (st_status ?st)" "st_status ?st \<noteq> AStatusRunning"
    | (c) "st_status ?st = AStatusRunning" "st_index ?st \<ge> length (st_nodes ?st)"
    | (n) "st_status ?st = AStatusRunning" "st_index ?st < length (st_nodes ?st)"
    using assms(3) by (cases "st_index ?st < length (st_nodes ?st)") (auto simp: ended_def)
  then show ?thesis
  proof cases
    case e
    with assms(1) show ?thesis by (simp add: wf_top_def wf_inv_def)
  next
    case c
    with assms(1) have "st_index ?st = length (st_nodes ?st)" by (simp add: good_state_def state_inv_def)
    with assms(1) have inv: "wf_inv inp (w1\<lparr>wf_phase := ph\<rparr>)"
      if "wf_state w1 = ?st\<lparr>st_status := AStatusApproved, st_completed_at := t, st_updated_at := t\<rparr>"
        "ph \<noteq> WfRunning" for ph and w1 :: "'a wf"
      using that by (simp add: wf_inv_def)
    have "wf_top ops inp wfid t t' w = critical (as_complete ops)
          (wf_complete_input inp wfid [] AStatusApproved ''all approval nodes passed'' StatusActive)
          (w\<lparr>wf_state := ?st\<lparr>st_status := AStatusApproved, st_completed_at := t, st_updated_at := t\<rparr>\<rparr>)
          (\<lambda>w1. (notify_roles ops (cai_tenant_id inp) ''signing_pending'' ''Approved, signing pending''
                   ''A contract in force awaits dispatch and return'' ''contract-specialist-signing''
                   [''contract_specialist'']
                   (notify_recipients ops (cai_tenant_id inp) ''approved'' ''Contract approved''
                      ''The contract is approved and in force'' ''approved'' [cai_applicant inp] w1))
                \<lparr>wf_phase := WfReturned\<rparr>)"
      using c by (simp add: wf_top_def)
    then show ?thesis
      by (simp only:) (rule critical_cases [where P = "wf_inv inp"]; rule inv; simp)
  next
    case n
    with assms(1,2) activate_current_inv [OF assms(1) n(2), of t] show ?thesis
      by (auto simp: wf_top_def Let_def wf_inv_def)
  qed
qed

lemma wf_inv_stopped:
  "good_state inp (wf_state w) \<Longrightarrow> ended (st_status (wf_state w)) \<Longrightarrow> ph \<noteq> WfRunning \<Longrightarrow>
     wf_inv inp (w\<lparr>wf_phase := ph\<rparr>)"
  by (simp add: wf_inv_def)

lemma wf_notices_simps [simp]:
  "wf_state (wf_notices ops inp c a t w) = wf_state w"
  "wf_phase (wf_notices ops inp c a t w) = wf_phase w"
  "wf_node (wf_notices ops inp c a t w) = wf_node w"
  "wf_deadline (wf_notices ops inp c a t w) = wf_deadline w"
  by (simp_all add: wf_notices_def Let_def)

lemma wf_timer_inv:
  assumes "wf_inv inp w" and "wf_phase w = WfRunning"
  shows "wf_inv inp (wf_timer ops inp wfid t w)"
proof (cases "t < wf_deadline w")
  case True
  with assms show ?thesis by (auto simp: wf_timer_def wf_inv_def)
next
  case False
  have "good_state inp (wf_state w)" using assms(1) by (simp add: wf_inv_def)
  with False show ?thesis
    by (simp only: wf_timer_def Let_def if_True not_False_eq_True)
      (rule critical_cases [where P = "wf_inv inp"]; rule wf_inv_stopped; simp add: ended_def)
qed

lemma wf_after_record_inv:
  assumes "good_state inp (wf_state w)" and "wf_phase w = WfRunning"
    and "ends \<longrightarrow> ended (st_status (wf_state w))"
    and "\<not> ends \<longrightarrow> st_status (wf_state w) = AStatusRunning
      \<and> (rn_status (st_nodes (wf_state w) ! wf_node w) = NodeActive \<longrightarrow>
           wf_node w = st_index (wf_state w) \<and> wf_node w < length (st_nodes (wf_state w)))"
  shows "wf_inv inp (wf_after_record ops inp wfid c advanced ends t2 t3 t4 w)"
proof (cases ends)
  case True
  show ?thesis
    unfolding wf_after_record_def Let_def if_P [OF True]
    by (rule critical_cases [where P = "wf_inv inp"])
      (use True assms in \<open>auto intro!: wf_top_inv wf_inv_stopped\<close>)
next
  case False
  let ?w = "wf_notices ops inp c advanced t2 w"
  have run: "st_status (wf_state ?w) = AStatusRunning" using assms(4) False by simp
  show ?thesis
  proof (cases "rn_status (st_nodes (wf_state ?w) ! wf_node ?w) = NodeActive")
    case True
    with run False have "wf_after_record ops inp wfid c advanced ends t2 t3 t4 w = ?w"
      by (simp add: wf_after_record_def)
    with True assms False show ?thesis by (simp add: wf_inv_def)
  next
    case nact: False
    with False have "wf_after_record ops inp wfid c advanced ends t2 t3 t4 w = wf_top ops inp wfid t3 t4 ?w"
      by (simp add: wf_after_record_def)
    moreover have "wf_inv inp (wf_top ops inp wfid t3 t4 ?w)"
      using assms(1,2) run by (intro wf_top_inv) auto
    ultimately show ?thesis by simp
  qed
qed

lemma apply_contract_command_changed:
  "apply_contract_command st c = Inr (st', changed, ends) \<Longrightarrow> changed"
  by (auto simp: apply_contract_command_def Let_def result_simps
      split: if_splits command_action.splits)

text \<open>A command is ignored, or applied, recorded and followed up.\<close>

lemma wf_command_cases:
  obtains (ignored) "wf_command ops inp wfid c t1 t2 t3 t4 w = w"
  | (accepted) st1 ends adv st3 rec where
    "apply_contract_command (wf_state w) c = Inr (st1, True, ends)"
    "cmd_id c \<notin> set (st_processed (wf_state w))"
    "adv = (\<not> ends \<and> st_index st1 \<noteq> st_index (wf_state w) \<and> st_index st1 < length (st_nodes st1))"
    "st3 = (if adv then activate_current t1 (st1\<lparr>st_updated_at := t1\<rparr>) else st1\<lparr>st_updated_at := t1\<rparr>)"
    "rci_command rec = c" "rci_approval_id rec = cai_approval_id inp"
    "wf_command ops inp wfid c t1 t2 t3 t4 w = critical (as_record ops) rec
       (w\<lparr>wf_state := st3\<lparr>st_processed := st_processed st3 @ [cmd_id c]\<rparr>\<rparr>)
       (wf_after_record ops inp wfid c adv ends t2 t3 t4)"
    "rci_tenant_id rec = cai_tenant_id inp" "rci_contract_id rec = cai_contract_id inp"
proof (cases "validate_common_command c = Inr () \<and> cmd_id c \<notin> set (st_processed (wf_state w))
    \<and> is_ok (apply_contract_command (wf_state w) c)")
  case False
  then have "wf_command ops inp wfid c t1 t2 t3 t4 w = w"
    by (auto simp: wf_command_def is_ok_def split: sum.splits)
  then show ?thesis by (rule ignored)
next
  case True
  then obtain st1 ch ends where app0: "apply_contract_command (wf_state w) c = Inr (st1, ch, ends)"
    by (auto simp: is_ok_def split: sum.splits)
  then have app: "apply_contract_command (wf_state w) c = Inr (st1, True, ends)"
    using apply_contract_command_changed by simp
  define adv where "adv = (\<not> ends \<and> st_index st1 \<noteq> st_index (wf_state w) \<and> st_index st1 < length (st_nodes st1))"
  define st3 where "st3 = (if adv then activate_current t1 (st1\<lparr>st_updated_at := t1\<rparr>) else st1\<lparr>st_updated_at := t1\<rparr>)"
  define w' where "w' = w\<lparr>wf_state := st3\<lparr>st_processed := st_processed st3 @ [cmd_id c]\<rparr>\<rparr>"
  define rec where "rec = \<lparr>rci_approval_id = cai_approval_id inp, rci_tenant_id = cai_tenant_id inp,
       rci_contract_id = cai_contract_id inp,
       rci_node_id = node_id (rn_node (st_nodes (wf_state w') ! wf_node w)),
       rci_command = c, rci_state = wf_state w'\<rparr>"
  have "wf_command ops inp wfid c t1 t2 t3 t4 w =
      critical (as_record ops) rec w' (wf_after_record ops inp wfid c adv ends t2 t3 t4)"
    using True app by (simp add: wf_command_def Let_def adv_def st3_def w'_def rec_def)
  with app True show ?thesis
    by (intro accepted [OF app _ adv_def st3_def, of rec]) (simp_all add: rec_def w'_def)
qed

lemma wf_command_inv:
  assumes "wf_inv inp w" and run: "wf_phase w = WfRunning"
  shows "wf_inv inp (wf_command ops inp wfid c t1 t2 t3 t4 w)"
proof (cases ops inp wfid c t1 t2 t3 t4 w rule: wf_command_cases)
  case ignored
  with assms show ?thesis by simp
next
  case (accepted st1 ends adv st3 rec)
  let ?st = "wf_state w"
  let ?w' = "w\<lparr>wf_state := st3\<lparr>st_processed := st_processed st3 @ [cmd_id c]\<rparr>\<rparr>"
  have inv: "good_state inp ?st" "st_status ?st = AStatusRunning" "wf_node w = st_index ?st"
    "st_index ?st < length (st_nodes ?st)"
    using assms by (auto simp: wf_inv_def)
  note post = apply_contract_command_inv [OF good_state_inv [OF inv(1)] accepted(1)]
    and stat = apply_contract_command_status [OF inv(4) accepted(1)]
  have g1: "good_state inp st1" using post good_state_frame [OF inv(1)] by blast
  then have i3: "good_state inp st3" "st_status st3 = st_status st1" "st_index st3 = st_index st1"
    by (auto simp: accepted(3,4) intro!: activate_current_inv)
  have len: "length (st_nodes st3) = length (st_nodes ?st)"
    using i3(1) inv(1) unfolding good_state_def by (metis length_map)
  have "rn_status (st_nodes st3 ! st_index ?st) = rn_status (st_nodes st1 ! st_index ?st)"
    by (auto simp: accepted(3,4) activate_current_def nth_list_update)
  then have act: "rn_status (st_nodes st3 ! st_index ?st) = NodeActive \<Longrightarrow> \<not> ends \<Longrightarrow>
      st_index st3 = st_index ?st"
    using stat i3(3) by (auto split: if_splits)
  have ok: "wf_inv inp (wf_after_record ops inp wfid c adv ends t2 t3 t4 (?w'\<lparr>wf_store := s\<rparr>))" for s
    by (rule wf_after_record_inv)
      (use post i3 run inv len act in \<open>auto simp: ended_def\<close>)
  have bad: "wf_inv inp (?w'\<lparr>wf_phase := ph\<rparr>)" if "ph \<noteq> WfRunning" "ph \<noteq> WfReturned" for ph
    using that i3 by (simp add: wf_inv_def)
  show ?thesis unfolding accepted(7)
    by (rule critical_cases [where P = "wf_inv inp"]) (use ok bad in auto)
qed

lemma initial_state_status [simp]:
  "st_status (initial_state inp t) = AStatusRunning" "st_index (initial_state inp t) = 0"
  "st_applicant (initial_state inp t) = cai_applicant inp" "st_processed (initial_state inp t) = []"
  "st_approval_id (initial_state inp t) = cai_approval_id inp"
  "st_nodes (initial_state inp t) = initialize_nodes (cai_nodes inp)"
  by (simp_all add: initial_state_def)

lemma contract_wf_start_inv:
  "wf_inv (default_input inp) (contract_wf_start ops inp wfid runid t0 t1 t2 s)"
proof -
  let ?inp = "default_input inp"
  have init: "good_state i (initial_state i t)" for i t
    by (auto simp: good_state_def state_inv_def initial_state_def initialize_nodes_def
        initialize_node_def)
  show ?thesis
    unfolding contract_wf_start_def Let_def
  proof (split if_split, intro conjI impI)
    show "wf_inv ?inp (critical (as_start ops) (wf_start_input ?inp wfid runid)
       \<lparr>wf_state = initial_state ?inp t0, wf_phase = WfRunning, wf_node = 0,
          wf_deadline = zero_time, wf_next_reminder = zero_time, wf_store = s\<rparr>
       (wf_top ops ?inp wfid t1 t2))"
    proof (rule critical_cases [where P = "wf_inv ?inp"], goal_cases)
      case 1
      show ?case by (rule wf_top_inv) (simp_all add: init)
    qed (simp_all add: wf_inv_def init)
  qed (simp add: wf_inv_def init)
qed

text \<open>The machine as a transition system.\<close>

inductive wf_trans :: "'s approval_store \<Rightarrow> contract_approval_input \<Rightarrow> string \<Rightarrow> 's wf \<Rightarrow> 's wf \<Rightarrow> bool"
  for ops inp wfid where
  "w' = wf_step ops (default_input inp) wfid ev w \<Longrightarrow> wf_trans ops inp wfid w w'"

inductive_cases wf_transE: "wf_trans ops inp wfid w w'"

definition wf_initial :: "'s approval_store \<Rightarrow> contract_approval_input \<Rightarrow> string \<Rightarrow> 's wf \<Rightarrow> bool" where
  "wf_initial ops inp wfid w \<longleftrightarrow>
     (\<exists>runid t0 t1 t2 s. w = contract_wf_start ops inp wfid runid t0 t1 t2 s)"

lemma wf_step_inv: "wf_inv inp w \<Longrightarrow> wf_inv inp (wf_step ops inp wfid ev w)"
  by (auto simp: wf_step_def wf_timer_inv wf_command_inv split: wf_event.splits)

interpretation contract_wf:
  invariant_system "wf_initial ops inp wfid" "wf_trans ops inp wfid" "wf_inv (default_input inp)"
  for ops :: "'s approval_store" and inp wfid
  by unfold_locales (auto simp: wf_initial_def contract_wf_start_inv wf_step_inv elim!: wf_transE)

lemma wf_run_reach:
  "reach (wf_initial ops inp wfid) (wf_trans ops inp wfid) (wf_run ops inp wfid runid t0 t1 t2 evs s)"
proof (induction evs rule: rev_induct)
  case Nil
  show ?case by (rule reach_init) (simp add: wf_initial_def wf_run_def, blast)
next
  case (snoc ev evs)
  show ?case
    by (rule reach_step [OF snoc]) (auto simp: wf_run_def intro: wf_trans.intros)
qed

section \<open>Commands are recorded once\<close>

lemma wf_top_processed [simp]:
  "st_processed (wf_state (wf_top ops inp wfid t t' w)) = st_processed (wf_state w)"
  unfolding wf_top_def Let_def critical_def
  by (auto split: sum.splits activity_error.splits)

lemma wf_after_record_processed [simp]:
  "st_processed (wf_state (wf_after_record ops inp wfid c adv ends t2 t3 t4 w)) = st_processed (wf_state w)"
  unfolding wf_after_record_def Let_def critical_def
  by (auto split: sum.splits activity_error.splits)

lemma wf_timer_processed [simp]:
  "st_processed (wf_state (wf_timer ops inp wfid t w)) = st_processed (wf_state w)"
  unfolding wf_timer_def Let_def critical_def
  by (auto split: sum.splits activity_error.splits)

lemma wf_command_processed:
  assumes "state_inv (wf_state w)"
  shows "wf_command ops inp wfid c t1 t2 t3 t4 w = w \<or>
    cmd_id c \<notin> set (st_processed (wf_state w)) \<and>
    st_processed (wf_state (wf_command ops inp wfid c t1 t2 t3 t4 w)) = st_processed (wf_state w) @ [cmd_id c]"
proof (cases ops inp wfid c t1 t2 t3 t4 w rule: wf_command_cases)
  case (accepted st1 ends adv st3 rec)
  have "st_processed st1 = st_processed (wf_state w)"
    using apply_contract_command_inv [OF assms accepted(1)] by (simp add: same_frame_def)
  with accepted(2-4) show ?thesis unfolding accepted(7)
    by (auto simp: critical_def split: sum.splits activity_error.splits)
qed simp

lemma wf_step_processed_mono:
  assumes "wf_inv inp w"
  shows "set (st_processed (wf_state w)) \<subseteq> set (st_processed (wf_state (wf_step ops inp wfid ev w)))"
proof (cases ev)
  case (EvCommand c t1 t2 t3 t4)
  have "state_inv (wf_state w)" using assms by (simp add: wf_inv_def good_state_def)
  from wf_command_processed [OF this, of ops inp wfid c t1 t2 t3 t4] EvCommand show ?thesis
    by (auto simp: wf_step_def)
qed (simp add: wf_step_def)

lemma wf_steps_inv: "wf_inv inp w \<Longrightarrow> wf_inv inp (fold (wf_step ops inp wfid) evs w)"
  by (induction evs arbitrary: w) (auto intro: wf_step_inv)

lemma wf_steps_processed_mono:
  "wf_inv inp w \<Longrightarrow>
     set (st_processed (wf_state w)) \<subseteq> set (st_processed (wf_state (fold (wf_step ops inp wfid) evs w)))"
proof (induction evs arbitrary: w)
  case (Cons ev evs)
  from Cons.IH [OF wf_step_inv [OF Cons.prems]] wf_step_processed_mono [OF Cons.prems] show ?case
    by (metis fold_simps(2) subset_trans)
qed simp

lemma processed_command_ignored:
  "cmd_id c \<in> set (st_processed (wf_state w)) \<Longrightarrow> wf_step ops inp wfid (EvCommand c t1 t2 t3 t4) w = w"
  by (auto simp: wf_step_def wf_command_def split: sum.splits)

section \<open>The critical activities of a run\<close>

text \<open>
  A store that logs the calls it accepts; \<open>fails\<close> decides which calls fail, and with which
  error.
\<close>

datatype call =
    CallStart start_approval_input | CallRecord record_command_input
  | CallComplete complete_approval_input | CallNotify notify_input

definition log_call :: "(call \<Rightarrow> call list \<Rightarrow> app_error option) \<Rightarrow> call \<Rightarrow> call list \<Rightarrow> call list result" where
  "log_call fails x calls = (case fails x calls of Some e \<Rightarrow> fail e | None \<Rightarrow> ok (calls @ [x]))"

definition log_store :: "(call \<Rightarrow> call list \<Rightarrow> app_error option) \<Rightarrow> call list approval_store" where
  "log_store fails = \<lparr>as_start = (\<lambda>i. log_call fails (CallStart i)),
     as_record = (\<lambda>i. log_call fails (CallRecord i)),
     as_complete = (\<lambda>i. log_call fails (CallComplete i)),
     as_notify = (\<lambda>i. log_call fails (CallNotify i))\<rparr>"

fun is_notify :: "call \<Rightarrow> bool" where
  "is_notify (CallNotify i) = True"
| "is_notify _ = False"

definition crit :: "call list \<Rightarrow> call list" where
  "crit calls = filter (\<lambda>x. \<not> is_notify x) calls"

lemma log_call_ok: "log_call fails x calls = Inr calls' \<Longrightarrow> calls' = calls @ [x]"
  by (auto simp: log_call_def split: option.splits)

lemma crit_append [simp]: "crit (a @ b) = crit a @ crit b" by (simp add: crit_def)

lemma crit_simps [simp]:
  "crit [] = []" "crit [CallStart i] = [CallStart i]" "crit [CallRecord r] = [CallRecord r]"
  "crit [CallComplete co] = [CallComplete co]" "crit [CallNotify n] = []"
  by (simp_all add: crit_def)

lemma crit_notify [simp]:
  "crit (wf_store (notify_best_effort (log_store fails) i w)) = crit (wf_store w)"
  by (auto simp: notify_best_effort_def log_store_def dest: log_call_ok split: sum.splits)

lemma crit_notify_group [simp]:
  "crit (wf_store (notify_current_node (log_store fails) t n a b c w)) = crit (wf_store w)"
  "crit (wf_store (notify_recipients (log_store fails) t a b c d rs w)) = crit (wf_store w)"
  "crit (wf_store (notify_roles (log_store fails) t a b c d rs w)) = crit (wf_store w)"
  "crit (wf_store (notify_assigned_users (log_store fails) t cmd us w)) = crit (wf_store w)"
  "crit (wf_store (wf_notices (log_store fails) inp cmd adv now w)) = crit (wf_store w)"
  by (simp_all add: notify_current_node_def notify_recipients_def notify_roles_def
      notify_assigned_users_def wf_notices_def Let_def)

definition recorded :: "string list \<Rightarrow> call list \<Rightarrow> bool" where
  "recorded ids calls \<longleftrightarrow> (\<exists>si rs. crit calls = CallStart si # map CallRecord rs
     \<and> map (cmd_id \<circ> rci_command) rs = ids \<and> distinct ids)"

definition finished :: "approval_state \<Rightarrow> call list \<Rightarrow> bool" where
  "finished st calls \<longleftrightarrow> (\<exists>si rs co. crit calls = CallStart si # map CallRecord rs @ [CallComplete co]
     \<and> map (cmd_id \<circ> rci_command) rs = st_processed st \<and> distinct (st_processed st)
     \<and> coi_status co = st_status st
     \<and> coi_target_status co = (if st_status st = AStatusApproved then StatusActive else StatusDraft))"

definition trace_inv :: "call list wf \<Rightarrow> bool" where
  "trace_inv w \<longleftrightarrow>
     (wf_phase w = WfRunning \<longrightarrow> recorded (st_processed (wf_state w)) (wf_store w))
     \<and> (wf_phase w = WfReturned \<longrightarrow> finished (wf_state w) (wf_store w))"

lemma recorded_finish:
  "recorded (st_processed st) calls \<Longrightarrow> crit calls' = crit calls @ [CallComplete co] \<Longrightarrow>
   coi_status co = st_status st \<Longrightarrow>
   coi_target_status co = (if st_status st = AStatusApproved then StatusActive else StatusDraft) \<Longrightarrow>
     finished st calls'"
  by (auto simp: recorded_def finished_def)

lemma log_store_sel [simp]:
  "as_start (log_store fails) si = log_call fails (CallStart si)"
  "as_record (log_store fails) r = log_call fails (CallRecord r)"
  "as_complete (log_store fails) co = log_call fails (CallComplete co)"
  by (simp_all add: log_store_def)

lemma complete_trace:
  assumes "recorded (st_processed (wf_state w)) (wf_store w)"
    and "coi_status co = st_status (wf_state w)"
    and "coi_target_status co = (if st_status (wf_state w) = AStatusApproved then StatusActive else StatusDraft)"
    and "\<And>w1. wf_state w1 = wf_state w \<Longrightarrow> finished (wf_state w1) (wf_store w1) \<Longrightarrow> trace_inv (k w1)"
  shows "trace_inv (critical (as_complete (log_store fails)) co w k)"
proof (rule critical_cases [where P = trace_inv])
  fix calls assume "as_complete (log_store fails) co (wf_store w) = Inr calls"
  then have "calls = wf_store w @ [CallComplete co]" by (simp add: log_call_ok)
  then have "finished (wf_state w) calls" using assms(1-3) by (auto intro!: recorded_finish)
  then show "trace_inv (k (w\<lparr>wf_store := calls\<rparr>))" by (intro assms(4)) simp_all
qed (simp_all add: trace_inv_def)

lemma trace_returned:
  "finished (wf_state w) (wf_store w) \<Longrightarrow> crit (wf_store w') = crit (wf_store w) \<Longrightarrow>
   wf_state w' = wf_state w \<Longrightarrow> trace_inv (w'\<lparr>wf_phase := WfReturned\<rparr>)"
  by (simp add: trace_inv_def finished_def)

lemma wf_top_trace:
  assumes "recorded (st_processed (wf_state w)) (wf_store w)" and "st_status (wf_state w) = AStatusRunning"
    and "wf_phase w = WfRunning"
  shows "trace_inv (wf_top (log_store fails) inp wfid t t' w)"
proof (cases "st_index (wf_state w) \<ge> length (st_nodes (wf_state w))")
  case True
  then show ?thesis
    using assms unfolding wf_top_def Let_def
    by (simp only: if_True if_False simp_thms)
      (rule complete_trace; (rule trace_returned, assumption | simp add: wf_complete_input_def); simp)
next
  case False
  with assms show ?thesis
    by (auto simp: wf_top_def Let_def trace_inv_def recorded_def)
qed

lemma wf_timer_trace:
  assumes "recorded (st_processed (wf_state w)) (wf_store w)" and "wf_phase w = WfRunning"
  shows "trace_inv (wf_timer (log_store fails) inp wfid t w)"
proof (cases "t < wf_deadline w")
  case True
  with assms show ?thesis by (simp add: wf_timer_def trace_inv_def recorded_def)
next
  case False
  then show ?thesis
    using assms unfolding wf_timer_def Let_def
    by (simp only: if_True simp_thms)
      (rule complete_trace; (rule trace_returned, assumption | simp add: wf_complete_input_def); simp)
qed

lemma wf_after_record_trace:
  assumes "recorded (st_processed (wf_state w)) (wf_store w)" and "wf_phase w = WfRunning"
    and "ends \<longrightarrow> ended (st_status (wf_state w))" and "\<not> ends \<longrightarrow> st_status (wf_state w) = AStatusRunning"
  shows "trace_inv (wf_after_record (log_store fails) inp wfid c adv ends t2 t3 t4 w)"
proof (cases ends)
  case True
  let ?w = "wf_notices (log_store fails) inp c adv t2 w"
  have rec: "recorded (st_processed (wf_state ?w)) (wf_store ?w)" using assms(1) by (simp add: recorded_def)
  have "trace_inv (wf_top (log_store fails) inp wfid t3 t4 w1)"
    if "st_status (wf_state w1) = st_status (wf_state w)" "finished (wf_state w1) (wf_store w1)" for w1
    using that True assms(3) by (auto simp: wf_top_def ended_def trace_inv_def)
  with True assms(3) rec show ?thesis
    unfolding wf_after_record_def Let_def if_P [OF True]
    by (intro complete_trace) (auto simp: wf_complete_input_def ended_def finished_def)
next
  case False
  let ?w = "wf_notices (log_store fails) inp c adv t2 w"
  have rec: "recorded (st_processed (wf_state ?w)) (wf_store ?w)" using assms(1) by (simp add: recorded_def)
  have "trace_inv (wf_top (log_store fails) inp wfid t3 t4 ?w)"
    using rec assms(2,4) False by (intro wf_top_trace) auto
  moreover have "trace_inv ?w" using rec assms(2) by (simp add: trace_inv_def)
  ultimately show ?thesis using False by (simp add: wf_after_record_def Let_def)
qed

lemma wf_command_trace:
  assumes "wf_inv inp w" and "trace_inv w" and run: "wf_phase w = WfRunning"
  shows "trace_inv (wf_command (log_store fails) inp wfid c t1 t2 t3 t4 w)"
proof (cases "log_store fails" inp wfid c t1 t2 t3 t4 w rule: wf_command_cases)
  case ignored
  with assms show ?thesis by simp
next
  case (accepted st1 ends adv st3 rec)
  let ?st = "wf_state w"
  let ?w' = "w\<lparr>wf_state := st3\<lparr>st_processed := st_processed st3 @ [cmd_id c]\<rparr>\<rparr>"
  have inv: "state_inv ?st" "st_status ?st = AStatusRunning"
    using assms by (auto simp: wf_inv_def good_state_def)
  note post = apply_contract_command_inv [OF inv(1) accepted(1)]
  have st3: "st_processed st3 = st_processed ?st" "st_status st3 = st_status st1"
    using post by (auto simp: accepted(4) same_frame_def)
  obtain si rs where rs: "crit (wf_store w) = CallStart si # map CallRecord rs"
    "map (cmd_id \<circ> rci_command) rs = st_processed ?st" "distinct (st_processed ?st)"
    using assms(2) run by (auto simp: trace_inv_def recorded_def)
  show ?thesis unfolding accepted(7)
  proof (rule critical_cases [where P = trace_inv])
    fix calls assume "as_record (log_store fails) rec (wf_store ?w') = Inr calls"
    then have "calls = wf_store w @ [CallRecord rec]" by (simp add: log_call_ok)
    then have "crit calls = CallStart si # map CallRecord (rs @ [rec])" by (simp add: rs(1))
    then have "recorded (st_processed ?st @ [cmd_id c]) calls"
      using rs(2,3) accepted(2,5) unfolding recorded_def by (intro exI [of _ si] exI [of _ "rs @ [rec]"]) auto
    then show "trace_inv (wf_after_record (log_store fails) inp wfid c adv ends t2 t3 t4 (?w'\<lparr>wf_store := calls\<rparr>))"
      using st3 post inv(2) run by (intro wf_after_record_trace) (auto simp: ended_def)
  qed (simp_all add: trace_inv_def)
qed

lemma wf_start_trace:
  "trace_inv (contract_wf_start (log_store fails) inp wfid runid t0 t1 t2 [])"
proof -
  have "trace_inv (wf_top (log_store fails) (default_input inp) wfid t1 t2 w1)"
    if "wf_state w1 = initial_state (default_input inp) t0" "wf_phase w1 = WfRunning"
      "wf_store w1 = [CallStart i]" for w1 i
    using that by (intro wf_top_trace) (simp_all add: recorded_def)
  then have "trace_inv (critical (as_start (log_store fails)) (wf_start_input (default_input inp) wfid runid)
      \<lparr>wf_state = initial_state (default_input inp) t0, wf_phase = WfRunning, wf_node = 0,
       wf_deadline = zero_time, wf_next_reminder = zero_time, wf_store = []\<rparr>
      (wf_top (log_store fails) (default_input inp) wfid t1 t2))"
    by (intro critical_cases [where P = trace_inv]) (auto simp: trace_inv_def dest!: log_call_ok)
  then show ?thesis
    by (auto simp: contract_wf_start_def Let_def trace_inv_def)
qed

lemma wf_run_trace: "trace_inv (wf_run (log_store fails) inp wfid runid t0 t1 t2 evs [])"
proof (induction evs rule: rev_induct)
  case Nil
  show ?case by (simp add: wf_run_def wf_start_trace)
next
  case (snoc ev evs)
  let ?w = "wf_run (log_store fails) inp wfid runid t0 t1 t2 evs []"
  have "wf_inv (default_input inp) ?w" by (rule contract_wf.reach_inv [OF wf_run_reach])
  with snoc have "trace_inv (wf_step (log_store fails) (default_input inp) wfid ev ?w)"
    by (auto simp: wf_step_def wf_command_trace split: wf_event.splits
        intro!: wf_timer_trace) (auto simp: trace_inv_def)
  then show ?case by (simp add: wf_run_def)
qed

section \<open>A chain of approvals completes\<close>

text \<open>The nodes from position \<open>k\<close> on are as the input has them and nobody was added.\<close>

definition fresh_from :: "contract_approval_input \<Rightarrow> nat \<Rightarrow> approval_state \<Rightarrow> bool" where
  "fresh_from inp k st \<longleftrightarrow> (\<forall>j. k \<le> j \<and> j < length (st_nodes st) \<longrightarrow>
     node_assignees (rn_node (st_nodes st ! j)) = node_assignees (cai_nodes inp ! j)
     \<and> rn_added_signers (st_nodes st ! j) = [])"

definition store_accepts :: "'s approval_store \<Rightarrow> bool" where
  "store_accepts ops \<longleftrightarrow> (\<forall>i s. is_ok (as_start ops i s)) \<and> (\<forall>i s. is_ok (as_record ops i s))
     \<and> (\<forall>i s. is_ok (as_complete ops i s))"

definition approve_command :: "string \<Rightarrow> string \<Rightarrow> instant \<Rightarrow> approval_command" where
  "approve_command i user now = \<lparr>cmd_id = i, cmd_action = ActionApprove, cmd_actor = user,
     cmd_actor_name = [], cmd_role_or_sign = True, cmd_comment = [], cmd_targets = [],
     cmd_countersign = CountersignEmpty, cmd_target_node = [], cmd_occurred_at = now\<rparr>"

lemma critical_accepts:
  "is_ok (op i (wf_store w)) \<Longrightarrow> \<exists>s. critical op i w k = k (w\<lparr>wf_store := s\<rparr>)"
  by (auto simp: critical_def is_ok_def split: sum.splits)

lemma fresh_from_cong: "st_nodes st' = st_nodes st \<Longrightarrow> fresh_from inp k st' = fresh_from inp k st"
  by (simp add: fresh_from_def)

lemma fresh_from_activate:
  "st_index st < length (st_nodes st) \<Longrightarrow> fresh_from inp k st \<Longrightarrow> fresh_from inp k (activate_current t st)"
  by (auto simp: fresh_from_def activate_current_def nth_list_update)

lemma apply_approve_passes:
  assumes "st_index st < length (st_nodes st)" and "rn_added_signers (st_nodes st ! st_index st) = []"
    and "u \<in> set (node_assignees (rn_node (st_nodes st ! st_index st)))" and "u \<noteq> st_applicant st"
  shows "\<exists>st'. apply_contract_command st (approve_command i u now) = Inr (st', True, False)
    \<and> st_index st' = Suc (st_index st) \<and> st_status st' = st_status st
    \<and> (\<forall>inp. fresh_from inp (st_index st) st \<longrightarrow> fresh_from inp (Suc (st_index st)) st')"
  using assms
  by (auto simp: apply_contract_command_def approve_command_def Let_def cmd_approve_def
      approval_node_passed_def fresh_from_def nth_list_update)

lemma wf_approve_step:
  assumes inv: "wf_inv inp w" and run: "wf_phase w = WfRunning" and ops: "store_accepts ops"
    and fresh: "fresh_from inp (st_index (wf_state w)) (wf_state w)"
    and id: "i \<noteq> []" "i \<notin> set (st_processed (wf_state w))"
    and u: "u \<in> set (node_assignees (cai_nodes inp ! st_index (wf_state w)))" "u \<noteq> cai_applicant inp" "u \<noteq> []"
  shows "let w' = wf_step ops inp wfid (EvCommand (approve_command i u now) t1 t2 t3 t4) w in
    st_processed (wf_state w') = st_processed (wf_state w) @ [i]
    \<and> st_index (wf_state w') = Suc (st_index (wf_state w))
    \<and> fresh_from inp (Suc (st_index (wf_state w))) (wf_state w')
    \<and> (if Suc (st_index (wf_state w)) < length (cai_nodes inp) then wf_phase w' = WfRunning
       else wf_phase w' = WfReturned \<and> st_status (wf_state w') = AStatusApproved)"
proof -
  let ?st = "wf_state w" and ?c = "approve_command i u now"
  have st: "st_index ?st < length (st_nodes ?st)" "st_applicant ?st = cai_applicant inp"
    "length (st_nodes ?st) = length (cai_nodes inp)" "st_status ?st = AStatusRunning"
    "wf_node w = st_index ?st" "state_inv ?st"
    using inv run by (auto simp: wf_inv_def good_state_def dest: map_eq_imp_length_eq)
  have cur: "rn_added_signers (st_nodes ?st ! st_index ?st) = []"
    "u \<in> set (node_assignees (rn_node (st_nodes ?st ! st_index ?st)))"
    using fresh st(1) u(1) by (auto simp: fresh_from_def)
  obtain st1 where app: "apply_contract_command ?st ?c = Inr (st1, True, False)"
    "st_index st1 = Suc (st_index ?st)" "st_status st1 = AStatusRunning"
    "fresh_from inp (Suc (st_index ?st)) st1"
    using apply_approve_passes [OF st(1) cur, of i now] u(2) st(2,4) fresh by force
  have fr: "same_frame ?st st1"
    using apply_contract_command_inv [OF st(6) app(1)] by blast
  then have len: "length (st_nodes st1) = length (cai_nodes inp)"
    using st(3) by (metis length_map same_frame_def)
  have pr: "st_processed st1 = st_processed ?st" using fr by (simp add: same_frame_def)
  have val: "validate_common_command ?c = Inr ()"
    using id(1) u(3) by (simp add: validate_common_command_def approve_command_def needs_comment_def)
  have stat: "rn_status (st_nodes st1 ! st_index ?st) \<noteq> NodeActive"
    using apply_contract_command_status [OF st(1) app(1)] app(2) by simp
  define adv where "adv = (Suc (st_index ?st) < length (cai_nodes inp))"
  define st3 where "st3 = (if adv then activate_current t1 (st1\<lparr>st_updated_at := t1\<rparr>) else st1\<lparr>st_updated_at := t1\<rparr>)"
  define w' where "w' = w\<lparr>wf_state := st3\<lparr>st_processed := st_processed st3 @ [i]\<rparr>\<rparr>"
  have st3: "st_index st3 = Suc (st_index ?st)" "st_status st3 = AStatusRunning"
    "st_processed st3 = st_processed ?st" "length (st_nodes st3) = length (cai_nodes inp)"
    using app len pr by (simp_all add: st3_def)
  have nodes: "st_nodes st3 = (if adv then (st_nodes st1)[Suc (st_index ?st) :=
      (st_nodes st1 ! Suc (st_index ?st))\<lparr>rn_status := NodeActive, rn_started_at := t1\<rparr>] else st_nodes st1)"
    using app(2) by (simp add: st3_def activate_current_def)
  have st3': "fresh_from inp (Suc (st_index ?st)) st3"
    "rn_status (st_nodes st3 ! st_index ?st) \<noteq> NodeActive"
    "adv \<Longrightarrow> rn_status (st_nodes st3 ! Suc (st_index ?st)) = NodeActive"
    using app(4) stat len by (auto simp: nodes fresh_from_def nth_list_update adv_def)
  have "\<exists>s. wf_step ops inp wfid (EvCommand ?c t1 t2 t3 t4) w =
      wf_after_record ops inp wfid ?c adv False t2 t3 t4 (w'\<lparr>wf_store := s\<rparr>)"
    using ops run val id(2) app(1,2) len
    by (auto simp: wf_step_def wf_command_def Let_def approve_command_def adv_def [symmetric]
        store_accepts_def st3_def [symmetric] w'_def [symmetric] intro!: critical_accepts)
  then obtain s1 where s1: "wf_step ops inp wfid (EvCommand ?c t1 t2 t3 t4) w =
      wf_after_record ops inp wfid ?c adv False t2 t3 t4 (w'\<lparr>wf_store := s1\<rparr>)" ..
  define w3 where "w3 = wf_notices ops inp ?c adv t2 (w'\<lparr>wf_store := s1\<rparr>)"
  have w3: "wf_state w3 = st3\<lparr>st_processed := st_processed st3 @ [i]\<rparr>" "wf_phase w3 = WfRunning"
    "wf_node w3 = st_index ?st"
    using run st(5) by (simp_all add: w3_def w'_def)
  have eq: "wf_step ops inp wfid (EvCommand ?c t1 t2 t3 t4) w = wf_top ops inp wfid t3 t4 w3"
    using st3'(2) w3(1,3) unfolding s1 by (simp add: wf_after_record_def w3_def [symmetric] Let_def)
  have fr3: "fresh_from inp (Suc (st_index ?st)) st'" if "st_nodes st' = st_nodes st3" for st'
    using st3'(1) that fresh_from_cong by blast
  show ?thesis
  proof (cases adv)
    case True
    then show ?thesis
      using st3 st3'(3) w3 fr3 unfolding eq by (simp add: wf_top_def Let_def adv_def)
  next
    case False
    have "\<exists>s. wf_top ops inp wfid t3 t4 w3 =
        (notify_roles ops (cai_tenant_id inp) ''signing_pending'' ''Approved, signing pending''
           ''A contract in force awaits dispatch and return'' ''contract-specialist-signing'' [''contract_specialist'']
           (notify_recipients ops (cai_tenant_id inp) ''approved'' ''Contract approved''
              ''The contract is approved and in force'' ''approved'' [cai_applicant inp]
              (w3\<lparr>wf_state := (wf_state w3)\<lparr>st_status := AStatusApproved, st_completed_at := t3, st_updated_at := t3\<rparr>,
                wf_store := s\<rparr>)))\<lparr>wf_phase := WfReturned\<rparr>"
      using False ops st3 w3
        critical_accepts [of "as_complete ops"
          "wf_complete_input inp wfid [] AStatusApproved ''all approval nodes passed'' StatusActive"
          "w3\<lparr>wf_state := (wf_state w3)\<lparr>st_status := AStatusApproved, st_completed_at := t3, st_updated_at := t3\<rparr>\<rparr>"]
      by (simp add: wf_top_def Let_def adv_def store_accepts_def)
    then show ?thesis using False st3 w3 fr3 unfolding eq by (auto simp: adv_def Let_def)
  qed
qed

lemma wf_start_running:
  assumes "store_accepts ops" and "cai_approval_id inp \<noteq> []" and "cai_contract_id inp \<noteq> []"
    and "cai_applicant inp \<noteq> []" and "cai_nodes inp \<noteq> []"
  shows "let w = contract_wf_start ops inp wfid runid t0 t1 t2 s in
    wf_phase w = WfRunning \<and> st_index (wf_state w) = 0 \<and> st_processed (wf_state w) = []
    \<and> fresh_from (default_input inp) 0 (wf_state w)"
proof -
  let ?inp = "default_input inp"
  have inp: "cai_approval_id ?inp = cai_approval_id inp" "cai_contract_id ?inp = cai_contract_id inp"
    "cai_applicant ?inp = cai_applicant inp" "cai_nodes ?inp = cai_nodes inp"
    by (simp_all add: default_input_def)
  define w0 where "w0 = (\<lambda>s. \<lparr>wf_state = initial_state ?inp t0, wf_phase = WfRunning, wf_node = 0,
       wf_deadline = zero_time, wf_next_reminder = zero_time, wf_store = s :: 'a\<rparr>)"
  have "\<exists>s'. critical (as_start ops) (wf_start_input ?inp wfid runid) (w0 s) (wf_top ops ?inp wfid t1 t2)
      = wf_top ops ?inp wfid t1 t2 ((w0 s)\<lparr>wf_store := s'\<rparr>)"
    using assms(1) by (intro critical_accepts) (simp add: store_accepts_def)
  then obtain s' where "contract_wf_start ops inp wfid runid t0 t1 t2 s = wf_top ops ?inp wfid t1 t2 (w0 s')"
    using assms(2-5) by (auto simp: contract_wf_start_def Let_def inp w0_def)
  moreover have "fresh_from ?inp 0 (activate_current t1 (initial_state ?inp t0))"
    using assms(5) by (intro fresh_from_activate)
      (auto simp: fresh_from_def initialize_nodes_def initialize_node_def inp)
  moreover have "rn_status (initialize_nodes (cai_nodes inp) ! 0) \<noteq> NodeActive" "initialize_nodes (cai_nodes inp) \<noteq> []"
    using assms(5) by (auto simp: initialize_nodes_def initialize_node_def nth_Cons')
  ultimately show ?thesis
    by (simp add: wf_top_def Let_def w0_def inp fresh_from_cong [of "activate_current t1 (initial_state ?inp t0)\<lparr>st_updated_at := t1\<rparr>" "activate_current t1 (initial_state ?inp t0)"])
qed

definition approve_event :: "instant \<Rightarrow> string \<times> string \<Rightarrow> wf_event" where
  "approve_event now p = EvCommand (approve_command (fst p) (snd p) now) now now now now"

lemma wf_approve_chain:
  assumes "wf_inv inp w" and "wf_phase w = WfRunning" and "store_accepts ops"
    and "fresh_from inp (st_index (wf_state w)) (wf_state w)" and "ps \<noteq> []"
    and "st_index (wf_state w) + length ps = length (cai_nodes inp)"
    and "distinct (st_processed (wf_state w) @ map fst ps)" and "[] \<notin> set (map fst ps)"
    and "\<forall>k < length ps. snd (ps ! k) \<in> set (node_assignees (cai_nodes inp ! (st_index (wf_state w) + k)))
      \<and> snd (ps ! k) \<noteq> cai_applicant inp \<and> snd (ps ! k) \<noteq> []"
  shows "wf_phase (fold (wf_step ops inp wfid) (map (approve_event now) ps) w) = WfReturned
    \<and> st_status (wf_state (fold (wf_step ops inp wfid) (map (approve_event now) ps) w)) = AStatusApproved"
  using assms
proof (induction ps arbitrary: w)
  case (Cons p ps)
  let ?w = "wf_step ops inp wfid (approve_event now p) w"
  have step: "st_processed (wf_state ?w) = st_processed (wf_state w) @ [fst p]"
    "st_index (wf_state ?w) = Suc (st_index (wf_state w))"
    "fresh_from inp (Suc (st_index (wf_state w))) (wf_state ?w)"
    "if Suc (st_index (wf_state w)) < length (cai_nodes inp) then wf_phase ?w = WfRunning
       else wf_phase ?w = WfReturned \<and> st_status (wf_state ?w) = AStatusApproved"
    using wf_approve_step [OF Cons.prems(1-4), of "fst p" "snd p" wfid now now now now now] Cons.prems(7,8)
      Cons.prems(9) [rule_format, of 0]
    by (auto simp: approve_event_def Let_def)
  show ?case
  proof (cases "ps = []")
    case True
    with step(4) Cons.prems(6) show ?thesis by simp
  next
    case False
    have "\<forall>k < length ps. snd (ps ! k) \<in> set (node_assignees (cai_nodes inp ! (st_index (wf_state ?w) + k)))
      \<and> snd (ps ! k) \<noteq> cai_applicant inp \<and> snd (ps ! k) \<noteq> []"
    proof (intro allI impI)
      fix k assume "k < length ps"
      then show "snd (ps ! k) \<in> set (node_assignees (cai_nodes inp ! (st_index (wf_state ?w) + k)))
        \<and> snd (ps ! k) \<noteq> cai_applicant inp \<and> snd (ps ! k) \<noteq> []"
        using Cons.prems(9) [rule_format, of "Suc k"] step(2) by simp
    qed
    moreover have "wf_phase ?w = WfRunning" 
      using step(4) Cons.prems(6) False by (cases ps) auto
    moreover have "wf_inv inp ?w" by (rule wf_step_inv [OF Cons.prems(1)])
    ultimately show ?thesis
      using Cons.IH [of ?w] Cons.prems(3,6,7,8) step(1-3) False by simp
  qed
qed simp

lemma approve_chain_run:
  assumes "store_accepts ops" and "cai_approval_id inp \<noteq> []" and "cai_contract_id inp \<noteq> []"
    and "cai_applicant inp \<noteq> []" and "cai_nodes inp \<noteq> []" and "length ps = length (cai_nodes inp)"
    and "distinct (map fst ps)" and "[] \<notin> set (map fst ps)"
    and "\<forall>k < length ps. snd (ps ! k) \<in> set (node_assignees (cai_nodes inp ! k))
      \<and> snd (ps ! k) \<noteq> cai_applicant inp \<and> snd (ps ! k) \<noteq> []"
  shows "wf_phase (wf_run ops inp wfid runid t0 t1 t2 (map (approve_event now) ps) s) = WfReturned
    \<and> st_status (wf_state (wf_run ops inp wfid runid t0 t1 t2 (map (approve_event now) ps) s)) = AStatusApproved"
proof -
  let ?inp = "default_input inp" and ?w = "contract_wf_start ops inp wfid runid t0 t1 t2 s"
  have inp: "cai_applicant ?inp = cai_applicant inp" "cai_nodes ?inp = cai_nodes inp"
    by (simp_all add: default_input_def)
  have w: "wf_phase ?w = WfRunning" "st_index (wf_state ?w) = 0" "st_processed (wf_state ?w) = []"
    "fresh_from ?inp 0 (wf_state ?w)"
    using wf_start_running [OF assms(1-5), of wfid runid t0 t1 t2 s] by (auto simp: Let_def)
  have "ps \<noteq> []" using assms(5,6) by auto
  then show ?thesis unfolding wf_run_def
    using wf_approve_chain [OF contract_wf_start_inv w(1) assms(1), of ps wfid now] w(2-4) assms(6-9)
    by (simp add: inp)
qed

definition sample_input :: contract_approval_input where
  "sample_input = \<lparr>cai_approval_id = ''a1'', cai_audit = \<lparr>am_login_ip = [], am_client_ip = [],
     am_ip_source = [], am_request_id = []\<rparr>, cai_tenant_id = ''t'', cai_contract_id = ''c1'',
     cai_contract_version = 1, cai_applicant = ''ann'', cai_applicant_name = ''Ann'',
     cai_content_hash = [], cai_rule_id = ''r'', cai_rule_version = 1,
     cai_nodes = [sample_node\<lparr>node_assignees := [''ann'', ''bob'']\<rparr>],
     cai_default_timeout = 0, cai_reminder_interval = 0\<rparr>"

definition sample_events :: "wf_event list" where
  "sample_events = map (approve_event 100) [(''k1'', ''bob'')]"

lemma sample_store_accepts: "store_accepts (log_store (\<lambda>_ _. None))"
  by (simp add: store_accepts_def log_call_def)

lemma sample_run:
  "wf_phase (wf_run (log_store (\<lambda>_ _. None)) sample_input ''w'' ''r'' 0 1 2 sample_events []) = WfReturned
   \<and> st_status (wf_state (wf_run (log_store (\<lambda>_ _. None)) sample_input ''w'' ''r'' 0 1 2 sample_events []))
       = AStatusApproved"
  unfolding sample_events_def
  by (rule approve_chain_run) (simp_all add: sample_store_accepts, simp_all add: sample_input_def)

section \<open>Properties\<close>

text \<open>C4: whatever commands and timers arrive, in any order, a contract approval workflow that
  returns has been approved, rejected, withdrawn or has expired; and if it was approved, every node
  of the approval chain is approved, each by at least one of its assignees who is not the applicant.\<close>

theorem contract_workflow_outcome:
  fixes s :: 's and ops :: "'s approval_store"
  assumes "w = wf_run ops inp wfid runid t0 t1 t2 evs s" and "wf_phase w = WfReturned"
  shows "st_status (wf_state w) \<in> {AStatusApproved, AStatusRejected, AStatusWithdrawn, AStatusExpired}
    \<and> map (node_id \<circ> rn_node) (st_nodes (wf_state w)) = map node_id (cai_nodes inp)
    \<and> (st_status (wf_state w) = AStatusApproved \<longrightarrow>
        (\<forall>n \<in> set (st_nodes (wf_state w)). rn_status n = NodeApproved \<and>
           (\<exists>u \<in> rn_approved_by n. u \<noteq> cai_applicant inp \<and> u \<in> set (node_assignees (rn_node n)))))"
proof -
  let ?st = "wf_state w"
  have inv: "wf_inv (default_input inp) w"
    unfolding assms(1) by (rule contract_wf.reach_inv [OF wf_run_reach])
  then have st: "state_inv ?st" "st_applicant ?st = cai_applicant inp"
    "map (node_id \<circ> rn_node) (st_nodes ?st) = map node_id (cai_nodes inp)"
    by (simp_all add: wf_inv_def good_state_def default_input_def)
  have "passed_node (cai_applicant inp) n" if "st_status ?st = AStatusApproved" "n \<in> set (st_nodes ?st)" for n
  proof -
    have "st_index ?st = length (st_nodes ?st)"
      using inv assms(2) that(1) by (auto simp: wf_inv_def ended_def)
    with st that(2) show ?thesis by (auto simp: state_inv_def in_set_conv_nth)
  qed
  moreover have "rn_approved_by n \<subseteq> set (node_assignees (rn_node n))" if "n \<in> set (st_nodes ?st)" for n
    using st(1) that by (simp add: state_inv_def)
  moreover have "st_status ?st \<in> {AStatusApproved, AStatusRejected, AStatusWithdrawn, AStatusExpired}"
    using inv assms(2) by (auto simp: wf_inv_def ended_def)
  ultimately show ?thesis using st(3) unfolding passed_node_def by blast
qed

text \<open>delivering a command again, at any later point of the run, changes nothing once the
  command has had an effect.\<close>

theorem command_redelivery_ignored:
  assumes "w = wf_run ops inp wfid runid t0 t1 t2 evs s"
    and "w1 = wf_step ops (default_input inp) wfid (EvCommand c u1 u2 u3 u4) w" and "w1 \<noteq> w"
    and "w2 = fold (wf_step ops (default_input inp) wfid) evs' w1"
  shows "wf_step ops (default_input inp) wfid (EvCommand c v1 v2 v3 v4) w2 = w2"
proof -
  let ?inp = "default_input inp"
  have inv: "wf_inv ?inp w" unfolding assms(1) by (rule contract_wf.reach_inv [OF wf_run_reach])
  then have "state_inv (wf_state w)" by (simp add: wf_inv_def good_state_def)
  from wf_command_processed [OF this, of ops ?inp wfid c u1 u2 u3 u4] assms(2,3)
  have "cmd_id c \<in> set (st_processed (wf_state w1))"
    by (auto simp: wf_step_def split: if_splits)
  moreover have "wf_inv ?inp w1" unfolding assms(2) by (rule wf_step_inv [OF inv])
  ultimately have "cmd_id c \<in> set (st_processed (wf_state w2))"
    using wf_steps_processed_mono [of ?inp w1] by (auto simp: assms(4))
  then show ?thesis by (rule processed_command_ignored)
qed

text \<open>C5: a run that returns has made exactly these critical calls, whatever calls failed on the way:
  one start, one record per accepted command with pairwise different command ids, and then a single
  completion, which carries the final status and the contract's target: active after an approval,
  draft otherwise.\<close>

theorem workflow_critical_calls:
  assumes "w = wf_run (log_store fails) inp wfid runid t0 t1 t2 evs []" and "wf_phase w = WfReturned"
  shows "\<exists>si rs co. crit (wf_store w) = CallStart si # map CallRecord rs @ [CallComplete co]
     \<and> distinct (map (cmd_id \<circ> rci_command) rs)
     \<and> map (cmd_id \<circ> rci_command) rs = st_processed (wf_state w)
     \<and> coi_status co = st_status (wf_state w)
     \<and> coi_target_status co =
         (if st_status (wf_state w) = AStatusApproved then StatusActive else StatusDraft)"
proof -
  have "finished (wf_state w) (wf_store w)"
    using wf_run_trace [of fails inp wfid runid t0 t1 t2 evs] assms by (simp add: trace_inv_def)
  then show ?thesis unfolding finished_def by metis
qed

text \<open>C7: an approval that is supported terminates: if for every node an assignee who is not the
  applicant approves (with the any-one policy that the service attaches to every approve command),
  in the order of the chain and with fresh command ids, the workflow returns with the contract
  approved, provided the store accepts the calls.\<close>

theorem approval_chain_completes:
  assumes "store_accepts ops" and "cai_approval_id inp \<noteq> []" and "cai_contract_id inp \<noteq> []"
    and "cai_applicant inp \<noteq> []" and "cai_nodes inp \<noteq> []" and "length ps = length (cai_nodes inp)"
    and "distinct (map fst ps)" and "[] \<notin> set (map fst ps)"
    and "\<forall>k < length ps. snd (ps ! k) \<in> set (node_assignees (cai_nodes inp ! k))
      \<and> snd (ps ! k) \<noteq> cai_applicant inp \<and> snd (ps ! k) \<noteq> []"
  shows "wf_phase (wf_run ops inp wfid runid t0 t1 t2 (map (approve_event now) ps) s) = WfReturned
    \<and> st_status (wf_state (wf_run ops inp wfid runid t0 t1 t2 (map (approve_event now) ps) s)) = AStatusApproved"
  using assms by (rule approve_chain_run)

theorem contract_workflow_outcome_witness:
  "list_all (\<lambda>n. rn_status n = NodeApproved) (st_nodes (wf_state (wf_run (log_store (\<lambda>_ _. None))
      sample_input ''w'' ''r'' 0 1 2 sample_events [])))"
  using contract_workflow_outcome [OF refl sample_run [THEN conjunct1]] sample_run
  unfolding list_all_iff by blast

theorem workflow_critical_calls_witness:
  "\<exists>si rs co. crit (wf_store (wf_run (log_store (\<lambda>_ _. None)) sample_input ''w'' ''r'' 0 1 2
      sample_events [])) = CallStart si # map CallRecord rs @ [CallComplete co]
    \<and> coi_target_status co = StatusActive"
  using workflow_critical_calls [OF refl sample_run [THEN conjunct1]] sample_run by auto

theorem approval_chain_completes_witness:
  "wf_phase (wf_run (log_store (\<lambda>_ _. None)) sample_input ''w'' ''r'' 0 1 2
      (map (approve_event 100) [(''k1'', ''bob'')]) []) = WfReturned"
  using approval_chain_completes [OF sample_store_accepts, of sample_input "[(''k1'', ''bob'')]"]
  by (simp add: sample_input_def)

theorem command_redelivery_ignored_witness:
  "let w = wf_run (log_store (\<lambda>_ _. None)) sample_input ''w'' ''r'' 0 1 2 [] [];
       step = wf_step (log_store (\<lambda>_ _. None)) (default_input sample_input) ''w'' (hd sample_events)
   in step (step w) = step w"
proof -
  let ?ops = "log_store (\<lambda>_ _. None)"
  let ?w = "wf_run ?ops sample_input ''w'' ''r'' 0 1 2 [] []"
  let ?c = "approve_command ''k1'' ''bob'' 100"
  let ?w1 = "wf_step ?ops (default_input sample_input) ''w'' (EvCommand ?c 100 100 100 100) ?w"
  have ev: "hd sample_events = EvCommand ?c 100 100 100 100"
    by (simp add: sample_events_def approve_event_def)
  have "wf_phase ?w = WfRunning"
    using wf_start_running [OF sample_store_accepts, of sample_input "''w''" "''r''" 0 1 2 "[]"]
    by (simp add: wf_run_def Let_def sample_input_def)
  moreover have "wf_phase ?w1 = WfReturned"
    using sample_run by (simp add: wf_run_def sample_events_def approve_event_def)
  ultimately have "?w1 \<noteq> ?w" by auto
  from command_redelivery_ignored [OF refl refl this, of "?w1" "[]"] show ?thesis
    by (simp add: Let_def ev)
qed

text \<open>C32: an applicant who is an assignee of the current node cannot approve it, but adding a signer
  counts as the applicant's own confirmation: when the applicant adds one signer and that signer
  approves, the node passes although none of its other assignees has acted.\<close>

theorem applicant_add_sign_counts:
  assumes "st_index st < length (st_nodes st)" and "n = st_nodes st ! st_index st"
    and "st_applicant st \<in> set (node_assignees (rn_node n))" and "rn_added_signers n = []"
    and "x \<noteq> st_applicant st" and "x \<noteq> []"
    and "cmd_action c1 = ActionAddSign" and "cmd_actor c1 = st_applicant st"
    and "cmd_targets c1 = [x]" and "cmd_countersign c1 = CountersignAll"
    and "cmd_action c2 = ActionApprove" and "cmd_actor c2 = x"
  shows "\<exists>st1 st2. apply_contract_command st c1 = Inr (st1, True, False)
    \<and> apply_contract_command st1 c2 = Inr (st2, True, False) \<and> st_index st2 = Suc (st_index st)"
proof -
  define n1 where "n1 = n\<lparr>rn_node := (rn_node n)\<lparr>node_assignees := append_missing (node_assignees (rn_node n)) [x],
      node_countersign := CountersignAll\<rparr>, rn_added_signers := [x],
      rn_approved_by := insert (st_applicant st) (rn_approved_by n)\<rparr>"
  define n2 where "n2 = n1\<lparr>rn_approved_by := insert x (rn_approved_by n1)\<rparr>"
  have "apply_contract_command st c1 = Inr (set_node st n1, True, False)"
    using assms(1-4,6-10)
    by (simp add: apply_contract_command_def Let_def cmd_add_sign_def unique_strings_def n1_def)
      (simp add: append_missing_def)
  moreover have "\<exists>u \<in> set (node_assignees (rn_node n2)). u \<notin> set (rn_added_signers n2) \<and> u \<in> rn_approved_by n2"
    using assms(3,5) by (intro bexI [of _ "st_applicant st"]) (auto simp: n1_def n2_def)
  then have "approval_node_passed n2 b" for b
    by (simp add: approval_node_passed_def Let_def) (simp add: n1_def n2_def)
  then have "\<exists>st2. apply_contract_command (set_node st n1) c2 = Inr (st2, True, False)
      \<and> st_index st2 = Suc (st_index st)"
    using assms(1,5,11,12)
    by (simp add: apply_contract_command_def Let_def cmd_approve_def n2_def) (simp add: n1_def)
  ultimately show ?thesis by blast
qed

lemma cmd_approve_total:
  "cmd_actor c \<noteq> st_applicant st \<Longrightarrow> \<exists>st'. cmd_approve st n c = Inr st'"
  by (simp add: cmd_approve_def Let_def)

definition sample_state :: approval_state where
  "sample_state = (initial_state sample_input 0)"

definition sample_add_sign :: "string list \<Rightarrow> approval_command" where
  "sample_add_sign targets = (approve_command ''k2'' ''ann'' 5)
     \<lparr>cmd_action := ActionAddSign, cmd_targets := targets, cmd_countersign := CountersignAll,
      cmd_comment := ''please''\<rparr>"

theorem applicant_add_sign_counts_witness:
  "\<exists>st1 st2. apply_contract_command sample_state (sample_add_sign [''eve'']) = Inr (st1, True, False)
    \<and> apply_contract_command st1 (approve_command ''k3'' ''eve'' 6) = Inr (st2, True, False)
    \<and> st_index st2 = Suc (st_index sample_state)"
  by (rule applicant_add_sign_counts [OF _ refl])
    (simp_all add: sample_state_def sample_input_def sample_add_sign_def approve_command_def
      initialize_nodes_def initialize_node_def)

text \<open>when the signers added to a node include all its assignees (an approver who adds only
  himself to a node he alone holds), no approval by anyone can pass the node any more: the rule that
  an original assignee has to confirm can not be met.\<close>

theorem add_sign_of_all_assignees_blocks:
  assumes "cmd_action c1 = ActionAddSign" and "apply_contract_command st c1 = Inr (st1, ch1, ends1)"
    and "set (node_assignees (rn_node (st_nodes st ! st_index st))) \<subseteq> set (cmd_targets c1) - {[]}"
    and "cmd_action c2 = ActionApprove" and "apply_contract_command st1 c2 = Inr (st2, ch2, ends2)"
  shows "st_index st2 = st_index st1"
proof -
  let ?n = "st_nodes st ! st_index st"
  have lt: "st_index st < length (st_nodes st)" and act: "cmd_actor c1 \<in> set (node_assignees (rn_node ?n))"
    and add: "cmd_add_sign st ?n c1 = Inr st1"
    using assms(1,2) by (auto simp: apply_contract_command_def Let_def result_simps split: if_splits)
  obtain n1 where n1: "st1 = set_node st n1"
    "rn_added_signers n1 = append_missing (rn_added_signers ?n) (unique_strings (cmd_targets c1))"
    "node_assignees (rn_node n1) = append_missing (node_assignees (rn_node ?n)) (unique_strings (cmd_targets c1))"
    "unique_strings (cmd_targets c1) \<noteq> []"
    using add by (auto simp: cmd_add_sign_def Let_def split: if_splits)
  have "cmd_actor c1 \<in> set (rn_added_signers n1)" using assms(3) act by (auto simp: n1(2))
  then have sub: "rn_added_signers n1 \<noteq> []" by (metis empty_iff list.set(1))
  have sub': "set (node_assignees (rn_node n1)) \<subseteq> set (rn_added_signers n1)"
    using assms(3) by (auto simp: n1(2,3))
  have "\<not> approval_node_passed (n1\<lparr>rn_approved_by := a\<rparr>) b" for a b
    using sub sub' by (auto simp: approval_node_passed_def Let_def)
  then show ?thesis
    using assms(4,5) lt by (auto simp: apply_contract_command_def Let_def result_simps cmd_approve_def
        n1(1) split: if_splits)
qed

theorem add_sign_of_all_assignees_blocks_witness:
  "\<exists>st1 st2. apply_contract_command sample_state (sample_add_sign [''ann'', ''bob'']) = Inr (st1, True, False)
    \<and> apply_contract_command st1 (approve_command ''k3'' ''bob'' 6) = Inr (st2, True, False)
    \<and> st_index st2 = st_index st1"
proof -
  obtain st1 where st1: "apply_contract_command sample_state (sample_add_sign [''ann'', ''bob'']) = Inr (st1, True, False)"
    "st_index st1 < length (st_nodes st1)"
    "''bob'' \<in> set (node_assignees (rn_node (st_nodes st1 ! st_index st1)))" "st_applicant st1 = ''ann''"
    by (simp add: apply_contract_command_def cmd_add_sign_def sample_state_def sample_input_def
        sample_add_sign_def approve_command_def initialize_nodes_def initialize_node_def Let_def
        unique_strings_def append_missing_def)
  let ?c = "approve_command ''k3'' ''bob'' 6"
  obtain st2 where "cmd_approve st1 (st_nodes st1 ! st_index st1) ?c = Inr st2"
    using cmd_approve_total [of ?c st1] st1(4) by (auto simp: approve_command_def)
  then have st2: "apply_contract_command st1 ?c = Inr (st2, True, False)"
    using st1(2-4) by (simp add: apply_contract_command_def Let_def approve_command_def)
  have "st_index st2 = st_index st1"
    by (rule add_sign_of_all_assignees_blocks [OF _ st1(1) _ _ st2])
      (auto simp: sample_add_sign_def approve_command_def sample_state_def sample_input_def
        initialize_nodes_def initialize_node_def)
  with st1(1) st2 show ?thesis by blast
qed

end
