(* ===== verification/Status_Change.thy ===== *)
theory Status_Change
  imports Workflow_Run
begin

text \<open>
  The workflow for key status changes, \<^verbatim>\<open>internal/workflows/status_change.go\<close>: one node whose
  assignees are the administrators, any one of whom decides. It shares the activity layer and the
  machine record with the contract approval workflow.
\<close>

record status_change_input =
  sci_approval_id :: string
  sci_audit :: audit_meta
  sci_tenant_id :: string
  sci_contract_id :: string
  sci_contract_version :: nat
  sci_applicant :: string
  sci_applicant_name :: string
  sci_from_status :: status
  sci_target_status :: status
  sci_reason :: string
  sci_admins :: "string list"
  sci_timeout :: int

definition validate_status_change :: "status_change_input \<Rightarrow> unit result" where
  "validate_status_change inp =
     (if sci_approval_id inp = [] \<or> sci_contract_id inp = [] \<or> sci_applicant inp = []
         \<or> sci_admins inp = []
      then fail (ErrWorkflowInput ''invalid status change input'')
      else res_bind (validate_transition (sci_from_status inp) (sci_target_status inp)) (\<lambda>_.
        if \<not> requires_approval (sci_target_status inp)
        then fail (ErrWorkflowInput ''target status does not require approval'')
        else if sci_reason inp = [] then fail (ErrWorkflowInput ''reason is required'')
        else ok ()))"

definition sc_timeout :: "status_change_input \<Rightarrow> int" where
  "sc_timeout inp = (if sci_timeout inp \<le> 0 then 72 * hour_ns else sci_timeout inp)"

definition sc_node :: "status_change_input \<Rightarrow> node" where
  "sc_node inp = \<lparr>node_id = ''admin'', node_name = ''Administrator approval'', node_role_code = ''admin'',
     node_assignees = unique_strings (sci_admins inp), node_countersign = CountersignAny,
     node_timeout = sc_timeout inp\<rparr>"

definition sc_initial_state :: "status_change_input \<Rightarrow> instant \<Rightarrow> approval_state" where
  "sc_initial_state inp now = \<lparr>st_approval_id = sci_approval_id inp, st_kind = KindStatusChange,
     st_status = AStatusRunning, st_contract_id = sci_contract_id inp,
     st_applicant = sci_applicant inp, st_applicant_name = sci_applicant_name inp, st_index = 0,
     st_nodes = [(initialize_node (sc_node inp))\<lparr>rn_status := NodeActive, rn_started_at := now\<rparr>],
     st_started_at = now, st_updated_at = now, st_completed_at = zero_time, st_failure_reason = [],
     st_processed = []\<rparr>"

definition sc_start_input :: "status_change_input \<Rightarrow> string \<Rightarrow> string \<Rightarrow> start_approval_input" where
  "sc_start_input inp wfid runid = \<lparr>sai_approval_id = sci_approval_id inp,
     sai_tenant_id = sci_tenant_id inp, sai_contract_id = sci_contract_id inp,
     sai_applicant = sci_applicant inp, sai_applicant_name = sci_applicant_name inp,
     sai_expected_version = sci_contract_version inp, sai_kind = KindStatusChange,
     sai_from_status = sci_from_status inp, sai_target_status = sci_target_status inp,
     sai_reason = sci_reason inp, sai_rule_id = [], sai_rule_version = 0, sai_content_hash = [],
     sai_workflow_id = wfid, sai_run_id = runid, sai_nodes = [sc_node inp], sai_audit = sci_audit inp\<rparr>"

definition sc_complete_input ::
  "status_change_input \<Rightarrow> string \<Rightarrow> string \<Rightarrow> approval_status \<Rightarrow> string \<Rightarrow> status \<Rightarrow> complete_approval_input" where
  "sc_complete_input inp wfid actor st reason target =
     \<lparr>coi_approval_id = sci_approval_id inp, coi_tenant_id = sci_tenant_id inp,
      coi_contract_id = sci_contract_id inp, coi_actor = actor, coi_status = st, coi_reason = reason,
      coi_workflow_id = wfid, coi_target_status = target, coi_audit = sci_audit inp\<rparr>"

definition sc_record_input ::
  "status_change_input \<Rightarrow> approval_command \<Rightarrow> approval_state \<Rightarrow> record_command_input" where
  "sc_record_input inp c st = \<lparr>rci_approval_id = sci_approval_id inp, rci_tenant_id = sci_tenant_id inp,
     rci_contract_id = sci_contract_id inp, rci_node_id = ''admin'', rci_command = c, rci_state = st\<rparr>"

definition sc_start ::
  "'s approval_store \<Rightarrow> status_change_input \<Rightarrow> string \<Rightarrow> string \<Rightarrow> instant \<Rightarrow> instant \<Rightarrow> 's \<Rightarrow> 's wf" where
  "sc_start ops inp wfid runid t0 t1 s =
     (let w = \<lparr>wf_state = sc_initial_state inp t0, wf_phase = WfRunning, wf_node = 0,
               wf_deadline = t1 + sc_timeout inp, wf_next_reminder = zero_time, wf_store = s\<rparr>
      in case validate_status_change inp of
           Inl e \<Rightarrow> w\<lparr>wf_phase := WfFailed e\<rparr>
         | Inr _ \<Rightarrow>
             critical (as_start ops) (sc_start_input inp wfid runid) w
               (notify_current_node ops (sci_tenant_id inp) t1 ''pending_approval''
                  ''Status change awaits approval'' (sci_reason inp)))"

text \<open>The decision a command takes: the new status, or \<open>None\<close> when it is ignored.\<close>

definition sc_decide :: "status_change_input \<Rightarrow> approval_command \<Rightarrow> approval_status option" where
  "sc_decide inp c =
     (let admins = unique_strings (sci_admins inp) in
      if cmd_action c = ActionWithdraw \<and> cmd_actor c = sci_applicant inp then Some AStatusWithdrawn
      else if cmd_actor c \<in> set admins \<and> cmd_action c = ActionApprove \<and> cmd_actor c \<noteq> sci_applicant inp
      then Some AStatusApproved
      else if cmd_actor c \<in> set admins \<and> cmd_action c = ActionReject then Some AStatusRejected
      else None)"

definition sc_apply :: "approval_state \<Rightarrow> approval_command \<Rightarrow> approval_status \<Rightarrow> instant \<Rightarrow> instant \<Rightarrow> approval_state" where
  "sc_apply st c d t1 t2 =
     (let n = st_nodes st ! 0;
          st1 = (case d of
                   AStatusApproved \<Rightarrow> st\<lparr>st_nodes := (st_nodes st)[0 := n\<lparr>rn_status := NodeApproved\<rparr>]\<rparr>
                 | AStatusRejected \<Rightarrow> st\<lparr>st_nodes := (st_nodes st)[0 := n\<lparr>rn_status := NodeRejected\<rparr>],
                                        st_failure_reason := cmd_comment c\<rparr>
                 | _ \<Rightarrow> st)
      in st1\<lparr>st_status := d, st_completed_at := t1, st_updated_at := t2\<rparr>)"

fun sc_notice :: "approval_status \<Rightarrow> string \<times> string" where
  "sc_notice AStatusApproved = (''status_change'', ''Contract status changed'')"
| "sc_notice AStatusWithdrawn = (''status_change'', ''Status change withdrawn'')"
| "sc_notice _ = (''rejected'', ''Status change rejected'')"

definition sc_command ::
  "'s approval_store \<Rightarrow> status_change_input \<Rightarrow> string \<Rightarrow> approval_command \<Rightarrow> instant \<Rightarrow> instant \<Rightarrow> 's wf \<Rightarrow> 's wf" where
  "sc_command ops inp wfid c t1 t2 w =
     (case validate_common_command c of
        Inl e \<Rightarrow> w
      | Inr _ \<Rightarrow>
          if cmd_action c = ActionUrge \<or> cmd_action c = ActionComment then
            critical (as_record ops) (sc_record_input inp c (wf_state w)) w (\<lambda>w1.
              if cmd_action c = ActionUrge
              then notify_current_node ops (sci_tenant_id inp) t1 ''approval_reminder''
                     ''Status change urged'' (cmd_comment c) w1
              else w1)
          else (case sc_decide inp c of
                  None \<Rightarrow> w
                | Some d \<Rightarrow>
                    let st = sc_apply (wf_state w) c d t1 t2;
                        target = (if d = AStatusApproved then sci_target_status inp else sci_from_status inp)
                    in critical (as_record ops) (sc_record_input inp c st) (w\<lparr>wf_state := st\<rparr>)
                         (\<lambda>w1. critical (as_complete ops)
                            (sc_complete_input inp wfid (cmd_actor c) d (cmd_comment c) target) w1
                            (\<lambda>w2. (notify_recipients ops (sci_tenant_id inp) (fst (sc_notice d))
                               (snd (sc_notice d)) (cmd_comment c) (approval_status_string d)
                               [sci_applicant inp] w2)\<lparr>wf_phase := WfReturned\<rparr>))))"

text \<open>On expiry the code leaves the target status of the completion empty.\<close>

definition sc_timer ::
  "'s approval_store \<Rightarrow> status_change_input \<Rightarrow> string \<Rightarrow> instant \<Rightarrow> 's wf \<Rightarrow> 's wf" where
  "sc_timer ops inp wfid now w =
     (let reason = ''status change approval timed out'' in
      critical (as_complete ops)
        (sc_complete_input inp wfid [] AStatusExpired reason (StatusOther []))
        (w\<lparr>wf_state := (wf_state w)\<lparr>st_status := AStatusExpired, st_failure_reason := reason,
              st_completed_at := now, st_updated_at := now\<rparr>\<rparr>)
        (\<lambda>w1. (notify_recipients ops (sci_tenant_id inp) ''rejected'' ''Status change timed out'' reason
                 ''expired'' [sci_applicant inp] w1)\<lparr>wf_phase := WfReturned\<rparr>))"

datatype sc_event = ScCommand approval_command instant instant | ScTimer instant

definition sc_step ::
  "'s approval_store \<Rightarrow> status_change_input \<Rightarrow> string \<Rightarrow> sc_event \<Rightarrow> 's wf \<Rightarrow> 's wf" where
  "sc_step ops inp wfid ev w =
     (if wf_phase w \<noteq> WfRunning then w
      else case ev of
             ScTimer now \<Rightarrow> sc_timer ops inp wfid now w
           | ScCommand c t1 t2 \<Rightarrow> sc_command ops inp wfid c t1 t2 w)"

definition sc_run ::
  "'s approval_store \<Rightarrow> status_change_input \<Rightarrow> string \<Rightarrow> string \<Rightarrow> instant \<Rightarrow> instant \<Rightarrow> sc_event list \<Rightarrow> 's \<Rightarrow> 's wf" where
  "sc_run ops inp wfid runid t0 t1 evs s =
     fold (sc_step ops inp wfid) evs (sc_start ops inp wfid runid t0 t1 s)"

section \<open>Invariant\<close>

text \<open>
  The calls of a run on the logging store: a start, then records, and in the end one completion,
  whose target is the requested status exactly when it was approved.
\<close>

definition sc_finished :: "status_change_input \<Rightarrow> approval_state \<Rightarrow> call list \<Rightarrow> bool" where
  "sc_finished inp st calls \<longleftrightarrow> (\<exists>si rs co. crit calls = CallStart si # map CallRecord rs @ [CallComplete co]
     \<and> coi_status co = st_status st
     \<and> (st_status st = AStatusApproved \<longrightarrow> coi_target_status co = sci_target_status inp
          \<and> (\<exists>r \<in> set rs. cmd_action (rci_command r) = ActionApprove
               \<and> cmd_actor (rci_command r) \<in> set (sci_admins inp)
               \<and> cmd_actor (rci_command r) \<noteq> sci_applicant inp))
     \<and> (st_status st \<noteq> AStatusApproved \<longrightarrow> coi_target_status co \<in> {sci_from_status inp, StatusOther []}))"

definition sc_recorded :: "call list \<Rightarrow> bool" where
  "sc_recorded calls \<longleftrightarrow> (\<exists>si rs. crit calls = CallStart si # map CallRecord rs)"

definition sc_inv :: "status_change_input \<Rightarrow> call list wf \<Rightarrow> bool" where
  "sc_inv inp w \<longleftrightarrow>
     (wf_phase w = WfRunning \<longrightarrow> validate_status_change inp = Inr () \<and> st_status (wf_state w) = AStatusRunning
        \<and> sc_recorded (wf_store w))
     \<and> (wf_phase w = WfReturned \<longrightarrow> validate_status_change inp = Inr ()
        \<and> (ended (st_status (wf_state w)) \<or> st_status (wf_state w) = AStatusApproved)
        \<and> sc_finished inp (wf_state w) (wf_store w))"

lemma sc_apply_status [simp]: "st_status (sc_apply st c d t1 t2) = d"
  by (cases d) (simp_all add: sc_apply_def Let_def)

lemma sc_decide_Some:
  assumes "sc_decide inp c = Some d"
  shows "ended d \<or> d = AStatusApproved"
    and "d = AStatusApproved \<Longrightarrow> cmd_action c = ActionApprove \<and> cmd_actor c \<in> set (sci_admins inp)
      \<and> cmd_actor c \<noteq> sci_applicant inp"
  using assms by (auto simp: sc_decide_def Let_def ended_def split: if_splits)

lemma sc_start_inv: "sc_inv inp (sc_start (log_store fails) inp wfid runid t0 t1 [])"
proof (cases "validate_status_change inp")
  case (Inl e)
  then show ?thesis by (simp add: sc_start_def sc_inv_def)
next
  case (Inr u)
  show ?thesis
    unfolding sc_start_def Let_def Inr sum.case
    by (rule critical_cases [where P = "sc_inv inp"])
      (use Inr in \<open>auto simp: sc_inv_def sc_recorded_def sc_initial_state_def dest!: log_call_ok\<close>)
qed

lemma crit_Cons: "crit (x # xs) = (if is_notify x then crit xs else x # crit xs)"
  by (simp add: crit_def)

lemma sc_finishedI:
  assumes "crit calls = CallStart si # map CallRecord rs @ [CallComplete co]"
    and "coi_status co = st_status st"
    and "st_status st = AStatusApproved \<Longrightarrow> coi_target_status co = sci_target_status inp"
    and "st_status st = AStatusApproved \<Longrightarrow> \<exists>r \<in> set rs. cmd_action (rci_command r) = ActionApprove
      \<and> cmd_actor (rci_command r) \<in> set (sci_admins inp) \<and> cmd_actor (rci_command r) \<noteq> sci_applicant inp"
    and "st_status st \<noteq> AStatusApproved \<Longrightarrow> coi_target_status co \<in> {sci_from_status inp, StatusOther []}"
  shows "sc_finished inp st calls"
  unfolding sc_finished_def using assms by blast

lemma sc_timer_inv:
  assumes "sc_inv inp w" and "wf_phase w = WfRunning"
  shows "sc_inv inp (sc_timer (log_store fails) inp wfid now w)"
proof -
  obtain si rs where rs: "crit (wf_store w) = CallStart si # map CallRecord rs"
    using assms by (auto simp: sc_inv_def sc_recorded_def)
  have v: "validate_status_change inp = Inr ()" using assms by (simp add: sc_inv_def)
  show ?thesis
    unfolding sc_timer_def Let_def
  proof (rule critical_cases [where P = "sc_inv inp"], goal_cases)
    case (1 calls)
    then have "crit calls = CallStart si # map CallRecord rs @
        [CallComplete (sc_complete_input inp wfid [] AStatusExpired ''status change approval timed out'' (StatusOther []))]"
      by (auto simp: rs dest!: log_call_ok)
    then show ?case using v
      by (auto simp: sc_inv_def ended_def sc_complete_input_def intro!: sc_finishedI)
  qed (simp_all add: sc_inv_def)
qed

lemma sc_command_inv:
  assumes inv: "sc_inv inp w" and run: "wf_phase w = WfRunning"
  shows "sc_inv inp (sc_command (log_store fails) inp wfid c t1 t2 w)"
proof -
  obtain si rs where rs: "crit (wf_store w) = CallStart si # map CallRecord rs"
    using assms by (auto simp: sc_inv_def sc_recorded_def)
  have v: "validate_status_change inp = Inr ()" "st_status (wf_state w) = AStatusRunning"
    using assms by (simp_all add: sc_inv_def)
  have recs: "crit calls = CallStart si # map CallRecord (rs @ [r])"
    if "as_record (log_store fails) r (wf_store w) = Inr calls" for r calls
    using that by (auto simp: rs dest!: log_call_ok)
  consider (bad) e where "validate_common_command c = Inl e"
    | (memo) "validate_common_command c = Inr ()" "cmd_action c = ActionUrge \<or> cmd_action c = ActionComment"
    | (none) "validate_common_command c = Inr ()" "\<not> (cmd_action c = ActionUrge \<or> cmd_action c = ActionComment)"
        "sc_decide inp c = None"
    | (dec) d where "validate_common_command c = Inr ()"
        "\<not> (cmd_action c = ActionUrge \<or> cmd_action c = ActionComment)" "sc_decide inp c = Some d"
    by (cases "validate_common_command c"; cases "sc_decide inp c") auto
  then show ?thesis
  proof cases
    case memo
    then have "sc_command (log_store fails) inp wfid c t1 t2 w =
      critical (as_record (log_store fails)) (sc_record_input inp c (wf_state w)) w (\<lambda>w1.
        if cmd_action c = ActionUrge then notify_current_node (log_store fails) (sci_tenant_id inp) t1
          ''approval_reminder'' ''Status change urged'' (cmd_comment c) w1 else w1)"
      by (simp add: sc_command_def)
    moreover have "sc_inv inp (w1\<lparr>wf_store := calls\<rparr>)"
      if "wf_state w1 = wf_state w" "wf_phase w1 = wf_phase w" "sc_recorded calls" for w1 calls
      using that v run by (simp add: sc_inv_def)
    moreover have "sc_recorded calls"
      if "as_record (log_store fails) r (wf_store w) = Inr calls" for r calls
      using recs [OF that] unfolding sc_recorded_def by blast
    ultimately show ?thesis
      using v run
      by (simp only:) (rule critical_cases [where P = "sc_inv inp"];
          simp add: sc_inv_def; simp add: sc_recorded_def)
  next
    case (dec d)
    let ?st = "sc_apply (wf_state w) c d t1 t2"
    let ?r = "sc_record_input inp c ?st"
    let ?co = "sc_complete_input inp wfid (cmd_actor c) d (cmd_comment c)
      (if d = AStatusApproved then sci_target_status inp else sci_from_status inp)"
    have "sc_finished inp ?st calls"
      if "crit calls = CallStart si # map CallRecord (rs @ [?r]) @ [CallComplete ?co]" for calls
      by (rule sc_finishedI [OF that])
        (use sc_decide_Some(2) [OF dec(3)] in \<open>auto simp: sc_complete_input_def sc_record_input_def\<close>)
    then have fin: "sc_inv inp (w2\<lparr>wf_phase := WfReturned\<rparr>)"
      if "wf_state w2 = ?st" "crit (wf_store w2) = CallStart si # map CallRecord (rs @ [?r]) @ [CallComplete ?co]"
      for w2 using that v sc_decide_Some(1) [OF dec(3)] by (simp add: sc_inv_def)
    have "sc_command (log_store fails) inp wfid c t1 t2 w = critical (as_record (log_store fails)) ?r
        (w\<lparr>wf_state := ?st\<rparr>) (\<lambda>w1. critical (as_complete (log_store fails)) ?co w1
          (\<lambda>w2. (notify_recipients (log_store fails) (sci_tenant_id inp) (fst (sc_notice d))
             (snd (sc_notice d)) (cmd_comment c) (approval_status_string d) [sci_applicant inp] w2)
             \<lparr>wf_phase := WfReturned\<rparr>))"
      using dec by (simp add: sc_command_def Let_def)
    then show ?thesis
    proof (simp only:, intro critical_cases [where P = "sc_inv inp"], goal_cases)
      case (1 calls calls2)
      then show ?case using recs [of ?r calls] by (intro fin) (auto simp: crit_Cons dest!: log_call_ok)
    qed (simp_all add: sc_inv_def)
  qed (use assms in \<open>simp_all add: sc_command_def\<close>)
qed

inductive sc_trans :: "(call \<Rightarrow> call list \<Rightarrow> app_error option) \<Rightarrow> status_change_input \<Rightarrow> string
    \<Rightarrow> call list wf \<Rightarrow> call list wf \<Rightarrow> bool" for fails inp wfid where
  "sc_trans fails inp wfid w (sc_step (log_store fails) inp wfid ev w)"

inductive_cases sc_transE: "sc_trans fails inp wfid w w'"

definition sc_initial :: "(call \<Rightarrow> call list \<Rightarrow> app_error option) \<Rightarrow> status_change_input \<Rightarrow> string
    \<Rightarrow> call list wf \<Rightarrow> bool" where
  "sc_initial fails inp wfid w \<longleftrightarrow> (\<exists>runid t0 t1. w = sc_start (log_store fails) inp wfid runid t0 t1 [])"

interpretation status_change_wf:
  invariant_system "sc_initial fails inp wfid" "sc_trans fails inp wfid" "sc_inv inp" for fails inp wfid
  by unfold_locales
    (auto simp: sc_initial_def sc_start_inv sc_step_def sc_timer_inv sc_command_inv
      split: sc_event.splits elim!: sc_transE)

lemma sc_run_reach:
  "reach (sc_initial fails inp wfid) (sc_trans fails inp wfid) (sc_run (log_store fails) inp wfid runid t0 t1 evs [])"
proof (induction evs rule: rev_induct)
  case Nil
  show ?case by (rule reach_init) (simp add: sc_initial_def sc_run_def, blast)
next
  case (snoc ev evs)
  show ?case by (rule reach_step [OF snoc]) (simp add: sc_run_def sc_trans.intros)
qed

section \<open>Properties\<close>

text \<open>C6: a status change workflow that returns was started for a transition of the life cycle table
  whose target requires approval; it made one start, then records, then exactly one completion with
  its final status. If that status is approved, the completion carries the requested target and an
  administrator other than the applicant approved; otherwise the completion carries the original
  status (or none, on expiry).\<close>

theorem status_change_outcome:
  assumes "w = sc_run (log_store fails) inp wfid runid t0 t1 evs []" and "wf_phase w = WfReturned"
  shows "can_transition (sci_from_status inp) (sci_target_status inp)
    \<and> requires_approval (sci_target_status inp)
    \<and> st_status (wf_state w) \<in> {AStatusApproved, AStatusRejected, AStatusWithdrawn, AStatusExpired}
    \<and> (\<exists>si rs co. crit (wf_store w) = CallStart si # map CallRecord rs @ [CallComplete co]
       \<and> coi_status co = st_status (wf_state w)
       \<and> (if st_status (wf_state w) = AStatusApproved
          then coi_target_status co = sci_target_status inp
            \<and> (\<exists>r \<in> set rs. cmd_action (rci_command r) = ActionApprove
                 \<and> cmd_actor (rci_command r) \<in> set (sci_admins inp)
                 \<and> cmd_actor (rci_command r) \<noteq> sci_applicant inp)
          else coi_target_status co \<in> {sci_from_status inp, StatusOther []}))"
proof -
  have inv: "sc_inv inp w"
    unfolding assms(1) by (rule status_change_wf.reach_inv [OF sc_run_reach])
  then have v: "validate_status_change inp = Inr ()" "sc_finished inp (wf_state w) (wf_store w)"
    "ended (st_status (wf_state w)) \<or> st_status (wf_state w) = AStatusApproved"
    using assms(2) by (auto simp: sc_inv_def)
  have "can_transition (sci_from_status inp) (sci_target_status inp) \<and> requires_approval (sci_target_status inp)"
    using v(1) by (auto simp: validate_status_change_def result_simps split: if_splits)
  moreover have "\<exists>si rs co. crit (wf_store w) = CallStart si # map CallRecord rs @ [CallComplete co]
       \<and> coi_status co = st_status (wf_state w)
       \<and> (if st_status (wf_state w) = AStatusApproved
          then coi_target_status co = sci_target_status inp
            \<and> (\<exists>r \<in> set rs. cmd_action (rci_command r) = ActionApprove
                 \<and> cmd_actor (rci_command r) \<in> set (sci_admins inp)
                 \<and> cmd_actor (rci_command r) \<noteq> sci_applicant inp)
          else coi_target_status co \<in> {sci_from_status inp, StatusOther []})"
    using v(2) unfolding sc_finished_def by (cases "st_status (wf_state w) = AStatusApproved") auto
  moreover have "st_status (wf_state w) \<in> {AStatusApproved, AStatusRejected, AStatusWithdrawn, AStatusExpired}"
    using v(3) by (auto simp: ended_def)
  ultimately show ?thesis by blast
qed

definition sample_sc_input :: status_change_input where
  "sample_sc_input = \<lparr>sci_approval_id = ''a2'', sci_audit = cai_audit sample_input, sci_tenant_id = ''t'',
     sci_contract_id = ''c1'', sci_contract_version = 4, sci_applicant = ''ann'',
     sci_applicant_name = ''Ann'', sci_from_status = StatusActive, sci_target_status = StatusTerminated,
     sci_reason = ''breach'', sci_admins = [''ann'', ''adm''], sci_timeout = 0\<rparr>"

lemma sample_sc_run:
  "wf_phase (sc_run (log_store (\<lambda>_ _. None)) sample_sc_input ''w'' ''r'' 0 1
     [ScCommand (approve_command ''k1'' ''ann'' 5) 5 5, ScCommand (approve_command ''k2'' ''adm'' 6) 6 6] []) = WfReturned"
  by (simp add: sc_run_def sc_start_def sc_step_def sc_command_def sample_sc_input_def
      validate_status_change_def critical_def log_call_def can_transition_def Let_def
      validate_common_command_def approve_command_def needs_comment_def sc_decide_def
      unique_strings_def sc_initial_state_def validate_transition_def valid_status_def)

theorem status_change_outcome_witness:
  "st_status (wf_state (sc_run (log_store (\<lambda>_ _. None)) sample_sc_input ''w'' ''r'' 0 1
     [ScCommand (approve_command ''k1'' ''ann'' 5) 5 5, ScCommand (approve_command ''k2'' ''adm'' 6) 6 6] []))
   \<in> {AStatusApproved, AStatusRejected, AStatusWithdrawn, AStatusExpired}"
  using status_change_outcome [OF refl sample_sc_run] by blast

end
