(* ===== verification/Contract_Model.thy ===== *)
theory Contract_Model
  imports Contract_Status Payment_Term Business_Clock
begin

text \<open>
  The domain data of \<^verbatim>\<open>internal/domain/contract\<close>: the contract of \<^verbatim>\<open>model.go\<close> with its
  service items and signing data, the import policy of \<^verbatim>\<open>import_policy.go\<close>, the origin test of
  \<^verbatim>\<open>import_origin.go\<close>, the list query helpers and the expansion of service items into project
  services of \<^verbatim>\<open>project_service.go\<close>. A Go map is a HOL map, a pointer an option; Chinese literals
  that end up in data are written as their UTF-8 bytes.
\<close>

section \<open>Contracts\<close>

record system_info =
  sys_name :: string
  sys_level :: string

record service_item =
  svc_category_id :: string
  svc_category_version :: nat
  svc_source_id :: string
  svc_name :: string
  svc_service_type :: string
  svc_site :: string
  svc_batch :: string
  svc_category :: string
  svc_requirement :: string
  svc_test_mode :: string
  svc_systems :: "system_info list"

record import_policy =
  ip_version :: int
  ip_project_mode :: string
  ip_finance_mode :: string
  ip_report_mode :: string
  ip_responsibility_mode :: string
  ip_signing_mode :: string

record contract =
  c_id :: string
  c_tenant_id :: string
  c_number :: string
  c_number_format :: string
  c_title :: string
  c_type :: string
  c_service_type :: string
  c_opportunity_id :: string
  c_opportunity_name :: string
  c_crm_customer_id :: nat
  c_counterparty_source :: string
  c_local_counterparty_id :: string
  c_counterparty_version :: nat
  c_category_source :: string
  c_integration_policy :: string
  c_customer_name :: string
  c_customer_address :: string
  c_customer_contact :: string
  c_customer_phone :: string
  c_owner_identity_id :: string
  c_owner_org_id :: string
  c_project_id :: string
  c_systems :: "system_info list"
  c_service_items :: "service_item list"
  c_credit_level :: string
  c_owner_user_id :: string
  c_owner_name :: string
  c_amount_minor :: int
  c_currency :: string
  c_payment_terms :: "payment_term list option"
  c_content :: string
  c_template_id :: string
  c_template_values :: "string \<rightharpoonup> string"
  c_document :: string
  c_document_format :: string
  c_source_media_type :: string
  c_source_filename :: string
  c_source_sha256 :: string
  c_paper_number :: string
  c_origin_kind :: string
  c_import_mode :: string
  c_origin_item_id :: string
  c_historical_status :: string
  c_historical_customer :: string
  c_historical_owner :: string
  c_import_policy :: "import_policy option"
  c_source_file_id :: string
  c_source_file_status :: string
  c_status :: status
  c_version :: nat
  c_start_date :: "instant option"
  c_end_date :: "instant option"
  c_content_hash :: string
  c_created_at :: instant
  c_created_by :: string
  c_can_edit_draft :: bool
  c_updated_at :: instant

text \<open>A nil slice of payment terms, which draft editing distinguishes from an empty one, is \<open>None\<close>.\<close>

definition terms_list :: "payment_term list option \<Rightarrow> payment_term list" where
  "terms_list ts = (case ts of None \<Rightarrow> [] | Some l \<Rightarrow> l)"

lemma terms_list_simps [simp]: "terms_list None = []" "terms_list (Some l) = l"
  by (simp_all add: terms_list_def)

section \<open>Import policy and origin\<close>

definition import_normal :: string where "import_normal = ''NORMAL''"
definition import_archive_only :: string where "import_archive_only = ''ARCHIVE_ONLY''"
definition import_continue_live :: string where "import_continue_live = ''CONTINUE_LIVE''"
definition import_historical_closed :: string where
  "import_historical_closed = ''HISTORICAL_CLOSED''"

lemmas import_mode_defs =
  import_normal_def import_archive_only_def import_continue_live_def import_historical_closed_def

definition valid_import_presentation :: "import_policy \<Rightarrow> bool" where
  "valid_import_presentation p \<longleftrightarrow>
     (ip_report_mode p = ''ARCHIVE_SEPARATE'' \<or> ip_report_mode p = ''HISTORICAL_SEPARATE'')
     \<and> ip_signing_mode p = ''DECLARED_ONLY''"

definition import_mode_valid :: "string \<Rightarrow> import_policy \<Rightarrow> bool" where
  "import_mode_valid mode p =
     (if mode = import_archive_only then
        ip_project_mode p = ''NONE'' \<and> ip_finance_mode p = ''NONE''
        \<and> ip_report_mode p = ''ARCHIVE_SEPARATE'' \<and> ip_responsibility_mode p = ''INACTIVE''
      else if mode = import_continue_live then
        (ip_project_mode p = ''CREATE_NEW'' \<or> ip_project_mode p = ''LINK_EXISTING'')
        \<and> ip_finance_mode p = ''FULL_REPLAY'' \<and> ip_responsibility_mode p = ''ACTIVATE_ON_RELEASE''
      else if mode = import_historical_closed then
        ip_project_mode p = ''NONE'' \<and> ip_responsibility_mode p = ''INACTIVE''
        \<and> (ip_finance_mode p = ''EVIDENCE_ONLY'' \<or> ip_finance_mode p = ''FULL_REPLAY'')
      else False)"

definition validate_import_policy :: "string \<Rightarrow> import_policy option \<Rightarrow> unit result" where
  "validate_import_policy mode policy =
     (if mode = [] \<or> mode = import_normal then
        (if policy \<noteq> None then fail ErrImportPolicy else ok ())
      else case policy of
        None \<Rightarrow> fail ErrImportPolicy
      | Some p \<Rightarrow>
          if ip_version p \<noteq> 1 \<or> \<not> valid_import_presentation p then fail ErrImportPolicy
          else if \<not> import_mode_valid mode p then fail ErrImportPolicy
          else ok ())"

definition operational_origin :: "contract \<Rightarrow> bool" where
  "operational_origin c =
     (if c_origin_item_id c \<noteq> []
         \<and> (c_origin_kind c \<noteq> ''NORMAL'' \<or> c_import_mode c \<noteq> import_normal)
      then False
      else (c_origin_kind c = [] \<or> c_origin_kind c = ''NORMAL'')
           \<and> (c_import_mode c = [] \<or> c_import_mode c = import_normal)
           \<and> c_import_policy c = None)"

section \<open>List queries\<close>

text \<open>The pair of Go results \<open>(filter, ok)\<close>.\<close>

definition expired_filter :: "string \<Rightarrow> bool \<times> bool" where
  "expired_filter expired =
     (let v = to_lower (trim_space expired) in
      if v = ''true'' then (True, True)
      else if v = ''false'' then (False, True)
      else (False, False))"

definition clamp_contract_list_offset :: "int \<Rightarrow> int \<Rightarrow> int" where
  "clamp_contract_list_offset off tot =
     (if off < 0 then 0
      else if tot \<le> 0 \<or> off \<le> tot then off
      else tot)"

section \<open>Signing\<close>

datatype signing_status =
    SigningPendingShipment | SigningInReturn | SigningPendingReview | SigningCompleted
  | SigningOther string

record stamped_upload =
  su_contract_id :: string
  su_filename :: string
  su_document :: string
  su_uploaded_at :: instant
  su_uploaded_by :: string
  su_expected_version :: nat
  su_replacement_reason :: string

record stamped_document =
  sd_contract_id :: string
  sd_version :: nat
  sd_filename :: string
  sd_sha256 :: string
  sd_document :: string
  sd_uploaded_at :: instant
  sd_uploaded_by :: string
  sd_platform_file_id :: string
  sd_gateway_state :: string

record signing_shipment =
  sh_courier :: string
  sh_recipient_name :: string
  sh_recipient_phone :: string
  sh_recipient_address :: string
  sh_mailed_at :: instant

record signing_confirmation =
  sc_seal_verified :: bool
  sc_signature_verified :: bool
  sc_signed_at :: instant
  sc_document_version :: nat
  sc_content_sha256 :: string

section \<open>Project services\<close>

record project_service_item =
  ps_source_id :: string
  ps_name :: string
  ps_service_type :: string
  ps_site :: string
  ps_batch :: string
  ps_category :: string
  ps_system :: string
  ps_system_level :: string
  ps_requirement :: string
  ps_test_mode :: string

fun contains_sub :: "string \<Rightarrow> string \<Rightarrow> bool" where
  "contains_sub w [] = (w = [])"
| "contains_sub w (x # s) = (is_prefix w (x # s) \<or> contains_sub w s)"

fun first_project_value :: "string list \<Rightarrow> string" where
  "first_project_value [] = []"
| "first_project_value (v # vs) =
     (if trim_space v \<noteq> [] then trim_space v else first_project_value vs)"

text \<open>The default site and batch names, and the word for penetration testing.\<close>

definition default_site :: string where
  "default_site =
     [CHR 0xE9, CHR 0xBB, CHR 0x98, CHR 0xE8, CHR 0xAE, CHR 0xA4, CHR 0xE5, CHR 0x9C, CHR 0xBA, CHR 0xE6, CHR 0x89, CHR 0x80]"

definition default_batch :: string where
  "default_batch =
     [CHR 0xE9, CHR 0xBB, CHR 0x98, CHR 0xE8, CHR 0xAE, CHR 0xA4, CHR 0xE6, CHR 0x89, CHR 0xB9, CHR 0xE6, CHR 0xAC, CHR 0xA1]"

definition penetration_word :: string where
  "penetration_word = [CHR 0xE6, CHR 0xB8, CHR 0x97, CHR 0xE9, CHR 0x80, CHR 0x8F]"

definition service_test_mode :: "service_item \<Rightarrow> string" where
  "service_test_mode item =
     (let mode = to_upper (trim_space (svc_test_mode item)) in
      if mode = [] then
        (if contains_sub penetration_word (svc_service_type item)
            \<or> contains_sub ''penetration'' (to_lower (svc_service_type item))
         then ''PENETRATION'' else ''STANDARD'')
      else mode)"

definition service_source_id :: "string \<Rightarrow> nat \<Rightarrow> service_item \<Rightarrow> nat \<Rightarrow> nat \<Rightarrow> string" where
  "service_source_id contract_id item_index item system_count system_index =
     (let base = (if trim_space (svc_source_id item) = []
                  then trim_space contract_id @ ''-'' @ fmt_pad 2 (item_index + 1)
                  else trim_space (svc_source_id item))
      in if system_count > 1 then base @ ''-'' @ fmt_pad 2 (system_index + 1) else base)"

definition project_service :: "string \<Rightarrow> nat \<Rightarrow> service_item \<Rightarrow> nat \<Rightarrow> nat \<Rightarrow> system_info \<Rightarrow> project_service_item" where
  "project_service contract_id i item n j sys =
     \<lparr>ps_source_id = service_source_id contract_id i item n j,
      ps_name = first_project_value [svc_name item, svc_service_type item],
      ps_service_type = trim_space (svc_service_type item),
      ps_site = first_project_value [svc_site item, default_site],
      ps_batch = first_project_value [svc_batch item, default_batch],
      ps_category = first_project_value [svc_category item, svc_service_type item],
      ps_system = trim_space (sys_name sys), ps_system_level = trim_space (sys_level sys),
      ps_requirement = trim_space (svc_requirement item), ps_test_mode = service_test_mode item\<rparr>"

definition item_systems :: "service_item \<Rightarrow> system_info list" where
  "item_systems item =
     (if svc_systems item = [] then [\<lparr>sys_name = [], sys_level = []\<rparr>] else svc_systems item)"

definition item_services :: "string \<Rightarrow> nat \<Rightarrow> service_item \<Rightarrow> project_service_item list" where
  "item_services contract_id i item =
     map (\<lambda>(j, sys). project_service contract_id i item (length (item_systems item)) j sys)
       (enumerate 0 (item_systems item))"

definition project_service_items :: "string \<Rightarrow> service_item list \<Rightarrow> project_service_item list" where
  "project_service_items contract_id items =
     concat (map (\<lambda>(i, item). item_services contract_id i item) (enumerate 0 items))"

section \<open>Properties\<close>

text \<open>An accepted policy with a historical mode never belongs to a contract of ordinary origin.\<close>

lemma accepted_import_not_operational:
  assumes "validate_import_policy (c_import_mode c) (c_import_policy c) = Inr ()"
    and "c_import_mode c \<noteq> []" and "c_import_mode c \<noteq> import_normal"
  shows "\<not> operational_origin c"
  using assms by (auto simp: validate_import_policy_def operational_origin_def)

lemma import_policy_live:
  "validate_import_policy import_continue_live (Some p) = Inr () \<Longrightarrow>
     ip_responsibility_mode p = ''ACTIVATE_ON_RELEASE'' \<and> ip_finance_mode p = ''FULL_REPLAY''"
  by (auto simp: validate_import_policy_def import_mode_valid_def import_mode_defs split: if_splits)

text \<open>an accepted import policy keeps history out of ordinary business: only the continued mode may create or link a project or activate a responsibility, archive-only
  records replay no finance data, and no accepted mode counts in the ordinary report.\<close>

theorem import_policy_isolates_history:
  assumes "validate_import_policy mode (Some p) = Inr ()"
  shows "mode \<in> {import_archive_only, import_continue_live, import_historical_closed}
    \<and> (ip_project_mode p = ''NONE'') = (mode \<noteq> import_continue_live)
    \<and> (ip_responsibility_mode p = ''INACTIVE'') = (mode \<noteq> import_continue_live)
    \<and> (ip_finance_mode p = ''NONE'') = (mode = import_archive_only)
    \<and> ip_report_mode p \<in> {''ARCHIVE_SEPARATE'', ''HISTORICAL_SEPARATE''}"
  using assms
  by (auto simp: validate_import_policy_def import_mode_valid_def valid_import_presentation_def
      import_mode_defs split: if_splits)

theorem import_policy_isolates_history_witness:
  "ip_finance_mode \<lparr>ip_version = 1, ip_project_mode = ''NONE'', ip_finance_mode = ''EVIDENCE_ONLY'',
     ip_report_mode = ''HISTORICAL_SEPARATE'', ip_responsibility_mode = ''INACTIVE'',
     ip_signing_mode = ''DECLARED_ONLY''\<rparr> \<noteq> ''NONE''"
proof -
  let ?p = "\<lparr>ip_version = 1, ip_project_mode = ''NONE'', ip_finance_mode = ''EVIDENCE_ONLY'',
     ip_report_mode = ''HISTORICAL_SEPARATE'', ip_responsibility_mode = ''INACTIVE'',
     ip_signing_mode = ''DECLARED_ONLY''\<rparr>"
  have "validate_import_policy import_historical_closed (Some ?p) = Inr ()"
    by (simp add: validate_import_policy_def import_mode_valid_def valid_import_presentation_def
        import_mode_defs)
  from import_policy_isolates_history [OF this] show ?thesis by (simp add: import_mode_defs)
qed

text \<open>The offset sent to the database is the requested one when it lies inside the filtered set,
  never exceeds the row count of a nonempty set, and clamping it again changes nothing.\<close>

theorem clamp_offset_bounds:
  "0 \<le> clamp_contract_list_offset off tot
   \<and> (clamp_contract_list_offset off tot = off \<or> off < 0 \<or> off > tot)
   \<and> (tot \<le> 0 \<or> clamp_contract_list_offset off tot \<le> tot)
   \<and> clamp_contract_list_offset (clamp_contract_list_offset off tot) tot
       = clamp_contract_list_offset off tot"
  by (auto simp: clamp_contract_list_offset_def)

subsection \<open>Identifiers of project services\<close>

lemma item_systems_nonempty [simp]: "item_systems item \<noteq> []"
  by (simp add: item_systems_def)

lemma length_item_services [simp]:
  "length (item_services cid i item) = max 1 (length (svc_systems item))"
  by (auto simp: item_services_def item_systems_def Suc_leI)

lemma dash_not_digit: "\<not> is_digit CHR ''-''"
  by (simp add: is_digit_def byte_of_def)

lemma fmt_pad_no_dash: "CHR ''-'' \<notin> set (fmt_pad w n)"
  using fmt_pad_digits [of w n] dash_not_digit by (auto simp: list_all_iff)

text \<open>The identifier of a service whose item names none, split at the dashes.\<close>

lemma default_source_id_eq:
  assumes "service_source_id cid i item n j = service_source_id cid i' item' n' j'"
    and "trim_space (svc_source_id item) = []" and "trim_space (svc_source_id item') = []"
  shows "i = i' \<and> (1 < n \<and> 1 < n' \<longrightarrow> j = j')"
proof -
  define suf where "suf n j = (if 1 < n then ''-'' @ fmt_pad 2 (j + 1) else [])" for n j :: nat
  have split: "split_on CHR ''-'' (fmt_pad 2 (i + 1) @ suf n j)
      = fmt_pad 2 (i + 1) # (if 1 < n then [fmt_pad 2 (j + 1)] else [])" for i n j
    using fmt_pad_no_dash [of 2 "i + 1"] fmt_pad_no_dash [of 2 "j + 1"]
    by (simp add: suf_def split_on_append split_on_fresh)
  have "service_source_id cid i item n j = trim_space cid @ ''-'' @ fmt_pad 2 (i + 1) @ suf n j"
    if "trim_space (svc_source_id item) = []" for i item n j
    using that by (simp add: service_source_id_def suf_def Let_def)
  with assms have "fmt_pad 2 (i + 1) @ suf n j = fmt_pad 2 (i' + 1) @ suf n' j'" by auto
  then have "split_on CHR ''-'' (fmt_pad 2 (i + 1) @ suf n j)
      = split_on CHR ''-'' (fmt_pad 2 (i' + 1) @ suf n' j')" by simp
  then have "fmt_pad 2 (i + 1) = fmt_pad 2 (i' + 1)"
    "(if 1 < n then [fmt_pad 2 (j + 1)] else []) = (if 1 < n' then [fmt_pad 2 (j' + 1)] else [])"
    unfolding split by simp_all
  then show ?thesis by (auto dest!: fmt_pad_inj split: if_splits)
qed

lemma map_enumerate: "map f (enumerate k xs) = map (\<lambda>j. f (k + j, xs ! j)) [0..<length xs]"
  by (rule nth_equalityI) (simp_all add: nth_enumerate_eq)

lemma item_services_ids:
  "map ps_source_id (item_services cid i item)
   = map (service_source_id cid i item (length (item_systems item)))
       [0..<length (item_systems item)]"
  by (simp add: item_services_def project_service_def map_enumerate)

lemma distinct_item_service_ids:
  assumes "trim_space (svc_source_id item) = []"
  shows "distinct (map ps_source_id (item_services cid i item))"
  unfolding item_services_ids distinct_map
proof (intro conjI inj_onI)
  let ?n = "length (item_systems item)"
  fix j j' assume "j \<in> set [0..<?n]" "j' \<in> set [0..<?n]"
    and "service_source_id cid i item ?n j = service_source_id cid i item ?n j'"
  then show "j = j'"
    using default_source_id_eq [of cid i item ?n j i item ?n j'] assms by (cases "1 < ?n") auto
qed simp

definition services_from :: "string \<Rightarrow> nat \<Rightarrow> service_item list \<Rightarrow> project_service_item list" where
  "services_from cid k items = concat (map (\<lambda>(i, item). item_services cid i item) (enumerate k items))"

lemma services_from_simps [simp]:
  "services_from cid k [] = []"
  "services_from cid k (item # items) = item_services cid k item @ services_from cid (Suc k) items"
  by (simp_all add: services_from_def)

lemma services_from_ids:
  assumes "x \<in> set (services_from cid k items)"
  shows "\<exists>i item j n. k \<le> i \<and> item \<in> set items \<and> ps_source_id x = service_source_id cid i item n j"
  using assms
proof (induction items arbitrary: k)
  case (Cons item items)
  show ?case
  proof (cases "x \<in> set (item_services cid k item)")
    case True
    then have "ps_source_id x \<in> set (map ps_source_id (item_services cid k item))" by simp
    then obtain j where "ps_source_id x = service_source_id cid k item (length (item_systems item)) j"
      unfolding item_services_ids by auto
    then show ?thesis by (meson list.set_intros(1) order_refl)
  next
    case False
    with Cons.prems have "x \<in> set (services_from cid (Suc k) items)" by simp
    from Cons.IH [OF this] show ?thesis by (meson Suc_leD list.set_intros(2))
  qed
qed simp

lemma distinct_services_from:
  assumes "list_all (\<lambda>item. trim_space (svc_source_id item) = []) items"
  shows "distinct (map ps_source_id (services_from cid k items))"
  using assms
proof (induction items arbitrary: k)
  case (Cons item items)
  have "ps_source_id x \<noteq> ps_source_id y"
    if x: "x \<in> set (item_services cid k item)" and y: "y \<in> set (services_from cid (Suc k) items)" for x y
  proof
    assume eq: "ps_source_id x = ps_source_id y"
    from x have "ps_source_id x \<in> set (map ps_source_id (item_services cid k item))" by simp
    then obtain j where j: "ps_source_id x = service_source_id cid k item (length (item_systems item)) j"
      unfolding item_services_ids by auto
    from services_from_ids [OF y] obtain i it j' n where i: "Suc k \<le> i" "it \<in> set items"
      "ps_source_id y = service_source_id cid i it n j'" by blast
    with Cons.prems have "trim_space (svc_source_id it) = []" "trim_space (svc_source_id item) = []"
      by (auto simp: list_all_iff)
    with default_source_id_eq [of cid k item "length (item_systems item)" j i it n j'] eq j i
    show False by auto
  qed
  then show ?case
    using Cons distinct_item_service_ids [of item cid k] by fastforce
qed simp

text \<open>a contract whose service items name no source of their own exports one project service per
  system (one for an item without systems), and their identifiers are pairwise distinct, so the
  project side can select each on its own.\<close>

theorem project_service_ids_distinct:
  assumes "list_all (\<lambda>item. trim_space (svc_source_id item) = []) items"
  shows "distinct (map ps_source_id (project_service_items cid items))
    \<and> length (project_service_items cid items) = (\<Sum>item\<leftarrow>items. max 1 (length (svc_systems item)))"
proof -
  have eq: "project_service_items cid items = services_from cid 0 items"
    by (simp add: project_service_items_def services_from_def)
  have "length (services_from cid k items) = (\<Sum>item\<leftarrow>items. max 1 (length (svc_systems item)))" for k
    by (induction items arbitrary: k) simp_all
  then show ?thesis using distinct_services_from [OF assms] by (simp add: eq)
qed

definition sample_item :: service_item where
  "sample_item = \<lparr>svc_category_id = [], svc_category_version = 0, svc_source_id = [],
     svc_name = ''audit'', svc_service_type = ''review'', svc_site = [], svc_batch = [],
     svc_category = [], svc_requirement = [], svc_test_mode = [],
     svc_systems = [\<lparr>sys_name = ''a'', sys_level = ''3''\<rparr>, \<lparr>sys_name = ''b'', sys_level = ''2''\<rparr>]\<rparr>"

theorem project_service_ids_distinct_witness:
  "length (project_service_items ''c1'' [sample_item, sample_item]) = 4"
  using project_service_ids_distinct [of "[sample_item, sample_item]" "''c1''"]
  by (simp add: sample_item_def)

end
