(* ===== verification/Audit_Outbox.thy ===== *)
theory Audit_Outbox
  imports Contract_Model "HOL-Library.List_Lexorder" "HOL-Library.Char_ord"
begin

text \<open>
  The audit outbox: the rows that business transactions write (\<^verbatim>\<open>audit_outbox.go\<close>), the store
  that claims and settles them (\<^verbatim>\<open>internal/auditoutbox/gorm_store.go\<close>) and the dispatcher
  (\<^verbatim>\<open>internal/auditoutbox/dispatcher.go\<close>). Its claim and settle statements differ from those of
  the other outboxes: the lease is configurable, attempts may be limited, and settling a row does not
  look at its status.
\<close>

section \<open>Rows\<close>

datatype audit_delivery = AdPending | AdRetry | AdProcessing | AdDelivered | AdFailed

datatype audit_value =
    AvStr string | AvInt int | AvBool bool
  | AvMap "(string \<times> audit_value) list"

type_synonym audit_payload = "(string \<times> audit_value) list"

record audit_row =
  au_id :: string
  au_tenant :: string
  au_event :: string
  au_actor :: "string option"
  au_action :: string
  au_resource_type :: string
  au_resource_id :: string
  au_request :: "string option"
  au_login_ip :: "nat list option"
  au_client_ip :: "nat list option"
  au_ip_source :: string
  au_result :: string
  au_payload :: audit_payload
  au_status :: audit_delivery
  au_attempts :: nat
  au_next_at :: instant
  au_locked_at :: "instant option"
  au_delivered_at :: "instant option"
  au_last_error :: "string option"
  au_created_at :: instant

record audit_entry =
  ae_actor :: string
  ae_action :: string
  ae_resource_type :: string
  ae_resource_id :: string
  ae_request :: string
  ae_login_ip :: string
  ae_client_ip :: string
  ae_ip_source :: string
  ae_result :: string
  ae_payload :: audit_payload

text \<open>
  \<^verbatim>\<open>ipBytes\<close>: \<open>parse_ip\<close> is the address parser of Go's library, which returns the 16-byte
  form; an IPv4 address in it is the prefix of ten zero and two 255 bytes and then the four bytes.
\<close>

definition ipv4_prefix :: "nat list" where
  "ipv4_prefix = replicate 10 0 @ [255, 255]"

definition ip_bytes :: "(string \<Rightarrow> nat list option) \<Rightarrow> string \<Rightarrow> nat list option" where
  "ip_bytes parse_ip v =
     (case parse_ip (trim_space v) of
        None \<Rightarrow> None
      | Some bs \<Rightarrow> if length bs = 16 \<and> take 12 bs = ipv4_prefix then Some (drop 12 bs) else Some bs)"

definition audit_row_of ::
  "(string \<Rightarrow> nat list option) \<Rightarrow> string \<Rightarrow> string \<Rightarrow> string \<Rightarrow> instant \<Rightarrow> audit_entry \<Rightarrow> audit_row" where
  "audit_row_of parse_ip i tenant event_id now e =
     \<lparr>au_id = i, au_tenant = tenant, au_event = event_id, au_actor = string_ptr (ae_actor e),
      au_action = ae_action e, au_resource_type = ae_resource_type e,
      au_resource_id = ae_resource_id e, au_request = string_ptr (ae_request e),
      au_login_ip = ip_bytes parse_ip (ae_login_ip e), au_client_ip = ip_bytes parse_ip (ae_client_ip e),
      au_ip_source = (if ae_ip_source e = [] then ''UNKNOWN'' else ae_ip_source e),
      au_result = (if ae_result e = [] then ''SUCCESS'' else ae_result e),
      au_payload = ae_payload e, au_status = AdPending, au_attempts = 0, au_next_at = now,
      au_locked_at = None, au_delivered_at = None, au_last_error = None, au_created_at = now\<rparr>"

section \<open>The store\<close>

record audit_store =
  aus_lease :: int
  aus_max_tries :: nat

definition effective_lease :: "audit_store \<Rightarrow> int" where
  "effective_lease s = (if aus_lease s \<le> 0 then 2 * 60 * second_ns else aus_lease s)"

definition lease_expired :: "instant \<Rightarrow> audit_row \<Rightarrow> bool" where
  "lease_expired cutoff r = (case au_locked_at r of None \<Rightarrow> False | Some t \<Rightarrow> t < cutoff)"

definition audit_due :: "audit_store \<Rightarrow> instant \<Rightarrow> audit_row \<Rightarrow> bool" where
  "audit_due s now r \<longleftrightarrow>
     (let cutoff = now - effective_lease s in
      au_next_at r \<le> now \<and> (au_locked_at r = None \<or> lease_expired cutoff r)
      \<and> au_status r \<in> {AdPending, AdRetry, AdProcessing}
      \<and> (aus_max_tries s = 0 \<or> au_attempts r < aus_max_tries s
         \<or> (au_status r = AdProcessing \<and> lease_expired cutoff r)))"

definition audit_claim_row :: "instant \<Rightarrow> audit_row \<Rightarrow> audit_row" where
  "audit_claim_row now r =
     r\<lparr>au_status := AdProcessing, au_locked_at := Some now, au_attempts := au_attempts r + 1\<rparr>"

text \<open>\<open>skip\<close> are the rows locked by concurrent claims. The entry of a claimed row carries the
  attempts already increased.\<close>

definition audit_claim ::
  "audit_store \<Rightarrow> (string \<Rightarrow> bool) \<Rightarrow> int \<Rightarrow> instant \<Rightarrow> audit_row list \<Rightarrow> audit_row list \<times> audit_row list" where
  "audit_claim s skip limit now q =
     (if limit < 1 then (q, [])
      else let rows = take (nat limit) (sort_key au_next_at (sort_key au_id
                        (filter (\<lambda>r. audit_due s now r \<and> \<not> skip (au_id r)) q)))
           in (fold (\<lambda>r. update_rows (\<lambda>x. au_id x = au_id r) (audit_claim_row now)) rows q,
               map (\<lambda>r. r\<lparr>au_attempts := au_attempts r + 1\<rparr>) rows))"

definition audit_mark_delivered :: "string \<Rightarrow> instant \<Rightarrow> audit_row list \<Rightarrow> audit_row list" where
  "audit_mark_delivered i now q =
     update_rows (\<lambda>r. au_id r = i)
       (\<lambda>r. r\<lparr>au_status := AdDelivered, au_delivered_at := Some now, au_locked_at := None,
               au_last_error := None\<rparr>) q"

definition audit_mark_failed ::
  "audit_store \<Rightarrow> string \<Rightarrow> string \<Rightarrow> instant \<Rightarrow> audit_row list \<Rightarrow> audit_row list result" where
  "audit_mark_failed s i code retry_at q =
     (let update = (\<lambda>st. update_rows (\<lambda>r. au_id r = i)
            (\<lambda>r. r\<lparr>au_status := st, au_next_at := retry_at, au_locked_at := None,
                    au_last_error := Some code\<rparr>) q)
      in if aus_max_tries s > 0 then
           (case first_row (\<lambda>r. au_id r = i) q of
              None \<Rightarrow> fail (ErrStorage ''record not found'')
            | Some r \<Rightarrow> ok (update (if au_attempts r \<ge> aus_max_tries s then AdFailed else AdRetry)))
         else ok (update AdRetry))"

definition audit_retry_failed :: "string \<Rightarrow> string \<Rightarrow> instant \<Rightarrow> audit_row list \<Rightarrow> audit_row list \<times> bool" where
  "audit_retry_failed tenant i now q =
     (let hit = (\<lambda>r. au_tenant r = tenant \<and> au_id r = i \<and> au_status r = AdFailed) in
      (update_rows hit (\<lambda>r. r\<lparr>au_status := AdRetry, au_attempts := 0, au_next_at := now,
                               au_locked_at := None, au_last_error := None\<rparr>) q,
       rows_affected hit q = 1))"

definition purge_batch_limit :: nat where "purge_batch_limit = 1000"

definition purgeable :: "instant \<Rightarrow> audit_row \<Rightarrow> bool" where
  "purgeable cutoff r \<longleftrightarrow> au_status r = AdDelivered
     \<and> (case au_delivered_at r of None \<Rightarrow> False | Some t \<Rightarrow> t < cutoff)"

definition audit_purge :: "instant \<Rightarrow> int \<Rightarrow> audit_row list \<Rightarrow> audit_row list \<times> nat" where
  "audit_purge cutoff batch q =
     (let size' = (if batch < 1 \<or> batch > int purge_batch_limit then purge_batch_limit else nat batch);
          chosen = take size' (sort_key (\<lambda>r. the (au_delivered_at r)) (sort_key au_id
                     (filter (purgeable cutoff) q)));
          gone = (\<lambda>r. au_id r \<in> au_id ` set chosen \<and> au_status r = AdDelivered)
      in if chosen = [] then (q, 0)
         else (filter (\<lambda>r. \<not> gone r) q, length (filter gone q)))"

definition audit_status_counts :: "audit_row list \<Rightarrow> nat \<times> nat" where
  "audit_status_counts q =
     (length (filter (\<lambda>r. au_status r \<notin> {AdDelivered, AdFailed}) q),
      length (filter (\<lambda>r. au_status r = AdFailed) q))"

section \<open>The dispatcher\<close>

text \<open>The loop \<^verbatim>\<open>for i := 1; i < attempts && i < 8; i++\<close>.\<close>

function backoff_loop :: "nat \<Rightarrow> nat \<Rightarrow> int \<Rightarrow> int" where
  "backoff_loop i attempts base =
     (if i < attempts \<and> i < 8 then backoff_loop (i + 1) attempts (base * 2) else base)"
  by pat_completeness auto

termination
  by (relation "measure (\<lambda>(i, attempts, base). 8 - i)") auto

declare backoff_loop.simps [simp del]

definition audit_backoff :: "int \<Rightarrow> nat \<Rightarrow> int" where
  "audit_backoff max_backoff attempts =
     (let base = backoff_loop 1 attempts second_ns
      in if max_backoff > 0 \<and> base > max_backoff then max_backoff else base)"

definition audit_batch_size :: "int \<Rightarrow> int" where
  "audit_batch_size n = (if n \<le> 0 \<or> n > 200 then 50 else n)"

text \<open>\<open>reported\<close> tells whether the platform accepted the event. Errors of the store are only
  logged.\<close>

definition deliver_entry ::
  "audit_store \<Rightarrow> int \<Rightarrow> (audit_row \<Rightarrow> bool) \<Rightarrow> instant \<Rightarrow> audit_row \<Rightarrow> audit_row list \<Rightarrow> audit_row list" where
  "deliver_entry s max_backoff reported now e q =
     (if reported e then audit_mark_delivered (au_id e) now q
      else case audit_mark_failed s (au_id e) ''PLATFORM_AUDIT_UNAVAILABLE''
                  (now + audit_backoff max_backoff (au_attempts e + 1)) q of
             Inl _ \<Rightarrow> q | Inr q' \<Rightarrow> q')"

definition deliver_once ::
  "audit_store \<Rightarrow> int \<Rightarrow> int \<Rightarrow> (string \<Rightarrow> bool) \<Rightarrow> (audit_row \<Rightarrow> bool) \<Rightarrow> bool \<Rightarrow> instant
     \<Rightarrow> audit_row list \<Rightarrow> audit_row list" where
  "deliver_once s max_backoff batch skip reported cancelled now q =
     (if cancelled then q
      else let (q', entries) = audit_claim s skip (audit_batch_size batch) now q
           in fold (deliver_entry s max_backoff reported now) entries q')"

text \<open>A retention of zero or less disables the purge; otherwise at most one round an hour.\<close>

definition purge_due :: "int \<Rightarrow> instant option \<Rightarrow> instant \<Rightarrow> bool" where
  "purge_due retention last_purge now =
     (if retention \<le> 0 then False
      else case last_purge of None \<Rightarrow> True | Some t \<Rightarrow> now - t \<ge> 60 * 60 * second_ns)"

fun purge_rounds :: "nat \<Rightarrow> instant \<Rightarrow> audit_row list \<Rightarrow> audit_row list" where
  "purge_rounds 0 cutoff q = q"
| "purge_rounds (Suc n) cutoff q =
     (let (q', purged) = audit_purge cutoff (int purge_batch_limit) q
      in if purged = 0 then q' else purge_rounds n cutoff q')"

definition purge_delivered :: "instant \<Rightarrow> audit_row list \<Rightarrow> audit_row list" where
  "purge_delivered cutoff q = purge_rounds 20 cutoff q"

section \<open>Backoff\<close>

lemma backoff_loop_closed:
  "1 \<le> i \<Longrightarrow> backoff_loop i attempts base = base * 2 ^ (min attempts 8 - i)"
proof (induction i attempts base rule: backoff_loop.induct)
  case (1 i attempts base)
  show ?case
  proof (cases "i < attempts \<and> i < 8")
    case True
    then have k: "min attempts 8 - i = Suc (min attempts 8 - (i + 1))" by auto
    have "backoff_loop i attempts base = backoff_loop (i + 1) attempts (base * 2)"
      by (subst backoff_loop.simps) (use True in simp)
    also have "\<dots> = base * 2 * 2 ^ (min attempts 8 - (i + 1))"
      using True 1 by simp
    finally show ?thesis unfolding k by simp
  next
    case False
    then have "min attempts 8 - i = 0" by auto
    moreover have "backoff_loop i attempts base = base"
      by (subst backoff_loop.simps) (use False in auto)
    ultimately show ?thesis by simp
  qed
qed

text \<open>the backoff loop of the audit dispatcher ends after at most seven doublings: the delay is
  two to the power of the attempts less one in seconds, at most 128 seconds and at most the configured
  maximum.\<close>

theorem audit_backoff_closed:
  "audit_backoff max_backoff attempts =
     (if 0 < max_backoff then min max_backoff else id) (2 ^ (min attempts 8 - 1) * second_ns)"
  by (simp add: audit_backoff_def backoff_loop_closed mult.commute min_def Let_def)

section \<open>Evidence is kept\<close>

datatype audit_op =
    AClaim "string list" int instant
  | ADelivered string instant
  | AFailed string string instant
  | ARetry string string instant
  | APurge instant int

fun audit_step :: "audit_store \<Rightarrow> audit_op \<Rightarrow> audit_row list \<Rightarrow> audit_row list" where
  "audit_step s (AClaim skip limit now) q = fst (audit_claim s (\<lambda>i. i \<in> set skip) limit now q)"
| "audit_step s (ADelivered i now) q = audit_mark_delivered i now q"
| "audit_step s (AFailed i code retry_at) q =
     (case audit_mark_failed s i code retry_at q of Inl _ \<Rightarrow> q | Inr q' \<Rightarrow> q')"
| "audit_step s (ARetry tenant i now) q = fst (audit_retry_failed tenant i now q)"
| "audit_step s (APurge cutoff batch) q = fst (audit_purge cutoff batch q)"

definition same_event :: "audit_row \<Rightarrow> audit_row \<Rightarrow> bool" where
  "same_event r r' \<longleftrightarrow> au_id r' = au_id r \<and> au_tenant r' = au_tenant r \<and> au_event r' = au_event r
     \<and> au_action r' = au_action r \<and> au_actor r' = au_actor r \<and> au_payload r' = au_payload r
     \<and> au_resource_id r' = au_resource_id r \<and> au_created_at r' = au_created_at r"

definition undelivered :: "audit_row \<Rightarrow> audit_row list \<Rightarrow> bool" where
  "undelivered r q \<longleftrightarrow> (\<exists>r' \<in> set q. same_event r r' \<and> au_status r' \<noteq> AdDelivered)"

lemma undelivered_update:
  assumes "undelivered r q" and "\<And>x. au_id x = au_id r \<Longrightarrow> au_status x \<noteq> AdDelivered \<Longrightarrow> same_event r x \<Longrightarrow> p x \<Longrightarrow>
      same_event r (f x) \<and> au_status (f x) \<noteq> AdDelivered"
  shows "undelivered r (update_rows p f q)"
proof -
  from assms(1) obtain x where x: "x \<in> set q" "same_event r x" "au_status x \<noteq> AdDelivered"
    by (auto simp: undelivered_def)
  then have "au_id x = au_id r" by (simp add: same_event_def)
  with x assms(2) have "p x \<Longrightarrow> same_event r (f x) \<and> au_status (f x) \<noteq> AdDelivered" by blast
  with x show ?thesis unfolding undelivered_def set_update_rows by (cases "p x") blast+
qed

lemma undelivered_claims:
  "undelivered r q \<Longrightarrow>
     undelivered r (fold (\<lambda>r. update_rows (\<lambda>x. au_id x = au_id r) (audit_claim_row now)) rows q)"
proof (induction rows arbitrary: q)
  case (Cons a rows)
  have "undelivered r (update_rows (\<lambda>x. au_id x = au_id a) (audit_claim_row now) q)"
    by (rule undelivered_update [OF Cons.prems]) (simp add: audit_claim_row_def same_event_def)
  from Cons.IH [OF this] show ?case by simp
qed simp

fun delivers :: "string \<Rightarrow> audit_op \<Rightarrow> bool" where
  "delivers i (ADelivered j _) = (i = j)"
| "delivers i _ = False"

lemma undelivered_step:
  assumes "undelivered r q" and "\<not> delivers (au_id r) op"
  shows "undelivered r (audit_step s op q)"
proof (cases op)
  case (AClaim skip limit now)
  then show ?thesis using assms(1) by (simp add: audit_claim_def Let_def undelivered_claims)
next
  case (ADelivered i now)
  with assms show ?thesis by (auto simp: audit_mark_delivered_def intro!: undelivered_update)
next
  case (AFailed i code retry_at)
  with assms(1) show ?thesis
    by (auto simp: audit_mark_failed_def Let_def same_event_def split: option.splits
        intro!: undelivered_update)
next
  case (ARetry tenant i now)
  with assms(1) show ?thesis
    by (auto simp: audit_retry_failed_def Let_def same_event_def intro!: undelivered_update)
next
  case (APurge cutoff batch)
  with assms(1) show ?thesis by (auto simp: audit_purge_def Let_def undelivered_def)
qed

text \<open>audit evidence is never lost before it is sent: as long as nobody reports the event as
  delivered, claims, failures, retries and purges keep its row with its content in the table.\<close>

theorem audit_event_kept:
  assumes "r \<in> set q" and "au_status r \<noteq> AdDelivered"
    and "\<forall>op \<in> set ops. \<not> delivers (au_id r) op"
  shows "\<exists>r' \<in> set (fold (audit_step s) ops q). same_event r r' \<and> au_status r' \<noteq> AdDelivered"
proof -
  have "undelivered r q" using assms(1,2) by (auto simp: undelivered_def same_event_def)
  then have "undelivered r (fold (audit_step s) ops q)"
    using assms(3) by (induction ops arbitrary: q) (auto intro: undelivered_step)
  then show ?thesis by (simp add: undelivered_def)
qed

text \<open>settling an audit row does not check that the row is still held: when a worker that lost its
  lease reports a failure after another worker delivered the event, the delivered row goes back to
  being retried, and the next claim hands it out once more.\<close>

theorem late_failure_reopens_delivered:
  assumes "au_status r = AdDelivered" and "aus_max_tries s = 0 \<or> au_attempts r < aus_max_tries s"
    and "retry_at \<le> now"
  shows "\<exists>q. audit_mark_failed s (au_id r) code retry_at [r] = Inr q
    \<and> map au_id (snd (audit_claim s (\<lambda>_. False) 1 now q)) = [au_id r]"
  using assms
  by (auto simp: audit_mark_failed_def Let_def audit_claim_def audit_due_def)

definition sample_audit_row :: "audit_delivery \<Rightarrow> audit_row" where
  "sample_audit_row st =
     (audit_row_of (\<lambda>_. None) ''a1'' ''t1'' ''ev1'' 0
        \<lparr>ae_actor = ''u1'', ae_action = ''UPDATED'', ae_resource_type = ''contract'',
         ae_resource_id = ''c1'', ae_request = [], ae_login_ip = [], ae_client_ip = [],
         ae_ip_source = [], ae_result = [], ae_payload = []\<rparr>)\<lparr>au_status := st\<rparr>"

theorem audit_event_kept_witness:
  "fold (audit_step \<lparr>aus_lease = 0, aus_max_tries = 3\<rparr>)
     [AClaim [] 5 1, AFailed ''a1'' ''X'' 9, APurge 100 10] [sample_audit_row AdPending] \<noteq> []"
proof -
  have "\<forall>op \<in> set [AClaim [] 5 1, AFailed ''a1'' ''X'' 9, APurge 100 10].
      \<not> delivers (au_id (sample_audit_row AdPending)) op" by simp
  from audit_event_kept [OF _ _ this, of "[sample_audit_row AdPending]" "\<lparr>aus_lease = 0, aus_max_tries = 3\<rparr>"]
  show ?thesis by (auto simp: sample_audit_row_def)
qed

theorem late_failure_reopens_delivered_witness:
  "\<exists>q. audit_mark_failed \<lparr>aus_lease = 0, aus_max_tries = 3\<rparr> ''a1'' ''X'' 9 [sample_audit_row AdDelivered] = Inr q
     \<and> length (snd (audit_claim \<lparr>aus_lease = 0, aus_max_tries = 3\<rparr> (\<lambda>_. False) 1 10 q)) = 1"
  using late_failure_reopens_delivered
      [of "sample_audit_row AdDelivered" "\<lparr>aus_lease = 0, aus_max_tries = 3\<rparr>" 9 10 "''X''"]
  by (auto simp: sample_audit_row_def audit_row_of_def dest: arg_cong [where f = length])

end
