(* ===== verification/Outbox.thy ===== *)
theory Outbox
  imports Contract_Model
begin

text \<open>
  The transactional outbox queues. The tables for project activation, financial events, responsibility
  events, CRM links and notifications have the same delivery columns, and the repository claims,
  completes and fails their rows with the same statements (\<^verbatim>\<open>project_delivery.go\<close>,
  \<^verbatim>\<open>payment_terms.go\<close>, \<^verbatim>\<open>contract_responsibility.go\<close>, \<^verbatim>\<open>opportunity_link_outbox.go\<close>,
  \<^verbatim>\<open>notification_delivery.go\<close>); they are one model over rows with a payload of any type. The
  dispatcher of \<^verbatim>\<open>internal/integration/settlement\<close> is the client: \<open>deliver_all\<close> takes the
  functions that settle a row as arguments, as the code does, and what it achieves is proved from the
  laws of the locale \<open>delivery_store\<close>, which the queue model interprets.
\<close>

section \<open>Rows\<close>

datatype delivery_status = DsPending | DsProcessing | DsDelivered | DsDead

record 'p outbox_row =
  ob_id :: string
  ob_tenant :: string
  ob_key :: string
  ob_version :: nat
  ob_payload :: 'p
  ob_status :: delivery_status
  ob_attempts :: nat
  ob_next_at :: instant
  ob_locked_at :: "instant option"
  ob_delivered_at :: "instant option"
  ob_last_error :: "string option"
  ob_created_at :: instant

type_synonym 'p queue = "'p outbox_row list"

record 'p delivery =
  dl_id :: string
  dl_tenant :: string
  dl_payload :: 'p
  dl_attempts :: nat

definition lease_ns :: int where "lease_ns = 5 * 60 * second_ns"

definition new_outbox_row :: "string \<Rightarrow> string \<Rightarrow> string \<Rightarrow> nat \<Rightarrow> 'p \<Rightarrow> instant \<Rightarrow> instant \<Rightarrow> 'p outbox_row" where
  "new_outbox_row i tenant key ver payload next_at created =
     \<lparr>ob_id = i, ob_tenant = tenant, ob_key = key, ob_version = ver, ob_payload = payload,
      ob_status = DsPending, ob_attempts = 0, ob_next_at = next_at, ob_locked_at = None,
      ob_delivered_at = None, ob_last_error = None, ob_created_at = created\<rparr>"

section \<open>Claiming\<close>

text \<open>A pending row whose time has come, or a row whose worker has held it for over five minutes.\<close>

definition due_row :: "instant \<Rightarrow> 'p outbox_row \<Rightarrow> bool" where
  "due_row now r \<longleftrightarrow>
     (ob_status r = DsPending \<and> ob_next_at r \<le> now) \<or>
     (ob_status r = DsProcessing \<and>
        (case ob_locked_at r of None \<Rightarrow> False | Some t \<Rightarrow> t < now - lease_ns))"

text \<open>\<open>skip\<close> are the identifiers of rows that concurrent transactions have locked, which
  \<^verbatim>\<open>SKIP LOCKED\<close> passes over. Rows equal in both sort columns come in table order.\<close>

definition due_rows :: "(string \<Rightarrow> bool) \<Rightarrow> instant \<Rightarrow> 'p queue \<Rightarrow> 'p outbox_row list" where
  "due_rows skip now q =
     sort_key ob_next_at (sort_key ob_created_at (filter (\<lambda>r. due_row now r \<and> \<not> skip (ob_id r)) q))"

definition claim_row :: "instant \<Rightarrow> 'p outbox_row \<Rightarrow> 'p outbox_row" where
  "claim_row now r = r\<lparr>ob_status := DsProcessing, ob_attempts := ob_attempts r + 1, ob_locked_at := Some now\<rparr>"

fun claim_each :: "instant \<Rightarrow> 'p outbox_row list \<Rightarrow> 'p queue \<Rightarrow> 'p queue" where
  "claim_each now [] q = q"
| "claim_each now (r # rs) q =
     claim_each now rs
       (update_rows (\<lambda>x. ob_id x = ob_id r)
          (\<lambda>x. x\<lparr>ob_status := DsProcessing, ob_attempts := ob_attempts r + 1, ob_locked_at := Some now\<rparr>) q)"

definition delivery_of :: "'p outbox_row \<Rightarrow> 'p delivery" where
  "delivery_of r = \<lparr>dl_id = ob_id r, dl_tenant = ob_tenant r, dl_payload = ob_payload r,
                    dl_attempts = ob_attempts r + 1\<rparr>"

definition bounded_claim_limit :: "int \<Rightarrow> nat" where
  "bounded_claim_limit limit = (if limit \<le> 0 \<or> limit > 200 then 100 else nat limit)"

definition claim_deliveries ::
  "(string \<Rightarrow> bool) \<Rightarrow> instant \<Rightarrow> int \<Rightarrow> 'p queue \<Rightarrow> 'p queue \<times> 'p delivery list" where
  "claim_deliveries skip now limit q =
     (let rows = take (bounded_claim_limit limit) (due_rows skip now q)
      in (claim_each now rows q, map delivery_of rows))"

text \<open>The queues that claim one row at a time.\<close>

definition claim_delivery ::
  "(string \<Rightarrow> bool) \<Rightarrow> instant \<Rightarrow> 'p queue \<Rightarrow> 'p queue \<times> 'p delivery option" where
  "claim_delivery skip now q =
     (case due_rows skip now q of
        [] \<Rightarrow> (q, None)
      | r # _ \<Rightarrow> (claim_each now [r] q, Some (delivery_of r)))"

section \<open>Settling\<close>

text \<open>\<open>missing\<close> is the error of a row that is not in processing: \<^verbatim>\<open>ErrNotFound\<close>, or GORM's own
  error for the responsibility queue.\<close>

definition mark_delivered :: "app_error \<Rightarrow> string \<Rightarrow> instant \<Rightarrow> 'p queue \<Rightarrow> 'p queue result" where
  "mark_delivered missing i now q =
     (let hit = (\<lambda>r. ob_id r = i \<and> ob_status r = DsProcessing) in
      if rows_affected hit q \<noteq> 1 then fail missing
      else ok (update_rows hit (\<lambda>r. r\<lparr>ob_status := DsDelivered, ob_delivered_at := Some now,
                                    ob_locked_at := None, ob_last_error := None\<rparr>) q))"

definition ten_minutes :: int where "ten_minutes = 10 * 60 * second_ns"

text \<open>The loop \<^verbatim>\<open>for count := 1; count < attempts && delay < 10*time.Minute; count++\<close> with the number
  of iterations left.\<close>

fun delay_loop :: "nat \<Rightarrow> int \<Rightarrow> int" where
  "delay_loop 0 delay = delay"
| "delay_loop (Suc k) delay = (if delay < ten_minutes then delay_loop k (delay * 2) else delay)"

definition failure_delay :: "nat \<Rightarrow> int" where
  "failure_delay attempts =
     (let delay = delay_loop (attempts - 1) second_ns
      in if delay > ten_minutes then ten_minutes else delay)"

definition mark_failed :: "string \<Rightarrow> string \<Rightarrow> nat \<Rightarrow> bool \<Rightarrow> instant \<Rightarrow> 'p queue \<Rightarrow> 'p queue" where
  "mark_failed i message attempts dead now q =
     update_rows (\<lambda>r. ob_id r = i \<and> ob_status r = DsProcessing)
       (\<lambda>r. r\<lparr>ob_status := (if dead then DsDead else DsPending),
               ob_next_at := now + failure_delay attempts, ob_locked_at := None,
               ob_last_error := Some (take 1000 message)\<rparr>) q"

text \<open>The row part of \<^verbatim>\<open>RetryFailedIntegrationEvent\<close>: a dead row of the tenant is made due again.\<close>

definition dead_row :: "string \<Rightarrow> string \<Rightarrow> 'p outbox_row \<Rightarrow> bool" where
  "dead_row tenant i r \<longleftrightarrow> ob_tenant r = tenant \<and> ob_id r = i \<and> ob_status r = DsDead"

definition retry_dead :: "string \<Rightarrow> string \<Rightarrow> instant \<Rightarrow> 'p queue \<Rightarrow> 'p queue" where
  "retry_dead tenant i now q =
     update_rows (dead_row tenant i)
       (\<lambda>r. r\<lparr>ob_status := DsPending, ob_attempts := 0, ob_next_at := now, ob_locked_at := None,
               ob_last_error := None\<rparr>) q"

section \<open>The dispatcher\<close>

text \<open>
  One attempt to send a claimed row: the licence refuses it, the request ends with an HTTP status,
  or it cannot be sent (a token or a network error).
\<close>

datatype send_outcome = SendLicenseDenied app_error | SendStatus nat string | SendFailed string

definition permanent_delivery_failure :: "nat \<Rightarrow> bool" where
  "permanent_delivery_failure status =
     (if status < 400 \<or> status \<ge> 500 then False else status \<noteq> 408 \<and> status \<noteq> 429)"

text \<open>
  \<open>deliver\<close> returns the store and the error it reports. \<open>settled\<close> and \<open>failed\<close> write the
  outcome back to the queue; \<open>now\<close> is the clock when they run.
\<close>

definition deliver ::
  "nat \<Rightarrow> (string \<Rightarrow> instant \<Rightarrow> 'q \<Rightarrow> 'q result)
     \<Rightarrow> (string \<Rightarrow> string \<Rightarrow> nat \<Rightarrow> bool \<Rightarrow> instant \<Rightarrow> 'q \<Rightarrow> 'q result)
     \<Rightarrow> send_outcome \<Rightarrow> instant \<Rightarrow> 'p delivery \<Rightarrow> 'q \<Rightarrow> 'q \<times> app_error option" where
  "deliver max_attempts settled failed outcome now d q =
     (let give_up = (\<lambda>permanent message.
            let dead = (permanent \<or> dl_attempts d \<ge> max_attempts) in
            case failed (dl_id d) message (dl_attempts d) dead now q of
              Inl e \<Rightarrow> (q, Some e)
            | Inr q' \<Rightarrow> (q', Some (ErrStorage message)))
      in case outcome of
           SendLicenseDenied e \<Rightarrow> (q, Some e)
         | SendFailed message \<Rightarrow> give_up False message
         | SendStatus code body \<Rightarrow>
             if 200 \<le> code \<and> code < 300 then
               (case settled (dl_id d) now q of Inl e \<Rightarrow> (q, Some e) | Inr q' \<Rightarrow> (q', None))
             else give_up (permanent_delivery_failure code) body)"

text \<open>Per delivery: whether the process is stopping when its turn comes, what sending it does, and
  the clock. The first error is reported.\<close>

record delivery_env =
  de_cancelled :: bool
  de_outcome :: send_outcome
  de_now :: instant

fun deliver_all ::
  "nat \<Rightarrow> (string \<Rightarrow> instant \<Rightarrow> 'q \<Rightarrow> 'q result)
     \<Rightarrow> (string \<Rightarrow> string \<Rightarrow> nat \<Rightarrow> bool \<Rightarrow> instant \<Rightarrow> 'q \<Rightarrow> 'q result)
     \<Rightarrow> (string \<Rightarrow> delivery_env) \<Rightarrow> 'p delivery list \<Rightarrow> app_error option \<Rightarrow> 'q \<Rightarrow> 'q \<times> app_error option" where
  "deliver_all max_attempts settled failed env [] err q = (q, err)"
| "deliver_all max_attempts settled failed env (d # ds) err q =
     (if de_cancelled (env (dl_id d)) then (q, err)
      else let (q', e) = deliver max_attempts settled failed (de_outcome (env (dl_id d)))
                           (de_now (env (dl_id d))) d q
           in deliver_all max_attempts settled failed env ds (if err = None then e else err) q')"

definition default_batch_size :: int where "default_batch_size = 25"

definition dispatcher_batch_size :: "int \<Rightarrow> int" where
  "dispatcher_batch_size n = (if n \<le> 0 then default_batch_size else if n > 200 then 200 else n)"

text \<open>A round on one queue: the licence check, the claim, the deliveries.\<close>

definition dispatch_queue ::
  "app_error option \<Rightarrow> nat \<Rightarrow> int \<Rightarrow> (string \<Rightarrow> bool) \<Rightarrow> instant \<Rightarrow> (string \<Rightarrow> delivery_env)
     \<Rightarrow> app_error \<Rightarrow> 'p queue \<Rightarrow> 'p queue \<times> app_error option" where
  "dispatch_queue license max_attempts limit skip now env missing q =
     (case license of
        Some e \<Rightarrow> (q, Some e)
      | None \<Rightarrow>
          let (q', ds) = claim_deliveries skip now limit q
          in deliver_all max_attempts (mark_delivered missing)
               (\<lambda>i msg a dead t q. ok (mark_failed i msg a dead t q)) env ds None q')"

section \<open>Retry delay\<close>

lemma delay_loop_closed:
  assumes "0 < d"
  shows "min ten_minutes (delay_loop k d) = min ten_minutes (d * 2 ^ k)"
  using assms
proof (induction k arbitrary: d)
  case (Suc k)
  show ?case
  proof (cases "d < ten_minutes")
    case True
    with Suc.IH [of "d * 2"] Suc.prems show ?thesis by (simp add: mult.assoc)
  next
    case False
    have "(1 :: int) \<le> 2 ^ Suc k" by (rule one_le_power) simp
    with Suc.prems have "d * 1 \<le> d * 2 ^ Suc k" by (intro mult_left_mono) simp_all
    with False show ?thesis by simp
  qed
qed simp

text \<open>The delay before the next attempt doubles from one second with every attempt and is capped
  at ten minutes.\<close>

theorem failure_delay_closed:
  "failure_delay attempts = min (10 * 60) (2 ^ (attempts - 1)) * second_ns"
proof -
  have "failure_delay attempts = min ten_minutes (delay_loop (attempts - 1) second_ns)"
    by (simp add: failure_delay_def Let_def min_def)
  also have "\<dots> = min ten_minutes (second_ns * 2 ^ (attempts - 1))"
    by (rule delay_loop_closed) (simp add: second_ns_def)
  also have "\<dots> = min (10 * 60) (2 ^ (attempts - 1)) * second_ns"
    by (auto simp: ten_minutes_def second_ns_def min_def)
  finally show ?thesis .
qed

lemma failure_delay_pos: "0 < failure_delay attempts"
  by (simp add: failure_delay_closed second_ns_def)

section \<open>Claims\<close>

abbreviation queue_ids :: "'p queue \<Rightarrow> string list" where
  "queue_ids q \<equiv> map ob_id q"

lemma claim_each_ids [simp]: "queue_ids (claim_each now rs q) = queue_ids q"
  by (induction now rs q rule: claim_each.induct) (simp_all add: map_update_rows)

lemma set_due_rows: "set (due_rows skip now q) = {r \<in> set q. due_row now r \<and> \<not> skip (ob_id r)}"
  by (auto simp: due_rows_def)

lemma sorted_due_rows: "sorted (map ob_next_at (due_rows skip now q))"
  by (simp add: due_rows_def)

lemma length_due_rows:
  "length (due_rows skip now q) = length (filter (\<lambda>r. due_row now r \<and> \<not> skip (ob_id r)) q)"
  by (simp add: due_rows_def)

lemma distinct_due_rows:
  assumes "distinct (queue_ids q)" shows "distinct (queue_ids (due_rows skip now q))"
proof -
  have "mset (due_rows skip now q) = mset (filter (\<lambda>r. due_row now r \<and> \<not> skip (ob_id r)) q)"
    by (simp add: due_rows_def)
  then have "mset (queue_ids (due_rows skip now q))
      = mset (queue_ids (filter (\<lambda>r. due_row now r \<and> \<not> skip (ob_id r)) q))"
    by (metis mset_map)
  moreover have "distinct (queue_ids (filter (\<lambda>r. due_row now r \<and> \<not> skip (ob_id r)) q))"
    using assms by (simp add: distinct_map_filter)
  ultimately show ?thesis by (metis mset_eq_imp_distinct_iff)
qed

lemma same_id_same_row:
  "distinct (queue_ids q) \<Longrightarrow> x \<in> set q \<Longrightarrow> y \<in> set q \<Longrightarrow> ob_id x = ob_id y \<Longrightarrow> x = y"
  by (simp add: distinct_map inj_on_def)

text \<open>Claiming rows of the table one after the other changes just those rows.\<close>

lemma claim_each_eq:
  assumes "distinct (queue_ids q)" and "distinct (queue_ids rs)" and "set rs \<subseteq> set q"
  shows "claim_each now rs q = update_rows (\<lambda>x. x \<in> set rs) (claim_row now) q"
  using assms
proof (induction now rs q rule: claim_each.induct)
  case (1 now q)
  show ?case by (simp add: update_rows_def)
next
  case (2 now r rs q)
  let ?q1 = "update_rows (\<lambda>x. ob_id x = ob_id r) (\<lambda>x. x\<lparr>ob_status := DsProcessing,
      ob_attempts := ob_attempts r + 1, ob_locked_at := Some now\<rparr>) q"
  have only: "x = r" if "x \<in> set q" "ob_id x = ob_id r" for x
    using that 2(2,4) same_id_same_row [of q x r] by auto
  have q1: "?q1 = update_rows (\<lambda>x. x = r) (claim_row now) q"
    using only by (auto simp: update_rows_def claim_row_def)
  have ids: "distinct (queue_ids ?q1)" using 2(2) by (simp add: map_update_rows)
  have "set rs \<subseteq> set ?q1"
  proof
    fix y assume y: "y \<in> set rs"
    with 2(3) have "ob_id y \<noteq> ob_id r" by (auto simp: rev_image_eqI)
    with y 2(4) show "y \<in> set ?q1" by (auto simp: set_update_rows)
  qed
  with 2(1) ids 2(3) have "claim_each now (r # rs) q = update_rows (\<lambda>x. x \<in> set rs) (claim_row now) ?q1"
    by simp
  also have "\<dots> = update_rows (\<lambda>x. x \<in> set (r # rs)) (claim_row now) q"
  proof -
    have "ob_id (claim_row now r) = ob_id r" by (simp add: claim_row_def)
    with 2(3) have "claim_row now r \<notin> set rs" by (metis distinct.simps(2) image_eqI list.map(2) set_map)
    moreover have "r \<notin> set rs" using 2(3) by auto
    ultimately show ?thesis unfolding q1 by (auto simp: update_rows_def)
  qed
  finally show ?case .
qed

text \<open>a claim hands out distinct rows that are due and not locked by another worker, earliest
  first and as many as the limit allows; it marks exactly these as processing with one more attempt
  and a fresh lease, and leaves every other row alone.\<close>

theorem claim_deliveries_correct:
  assumes "distinct (queue_ids q)" and "claim_deliveries skip now limit q = (q', ds)"
  shows "\<exists>rows. ds = map delivery_of rows \<and> distinct (queue_ids rows)
     \<and> set rows \<subseteq> {r \<in> set q. due_row now r \<and> \<not> skip (ob_id r)}
     \<and> length rows = min (bounded_claim_limit limit)
         (length (filter (\<lambda>r. due_row now r \<and> \<not> skip (ob_id r)) q))
     \<and> sorted (map ob_next_at rows)
     \<and> (\<forall>r \<in> set rows. \<forall>x \<in> {x \<in> set q. due_row now x \<and> \<not> skip (ob_id x)} - set rows.
          ob_next_at r \<le> ob_next_at x)
     \<and> q' = update_rows (\<lambda>x. x \<in> set rows) (claim_row now) q"
proof -
  let ?due = "due_rows skip now q" and ?n = "bounded_claim_limit limit"
  let ?rows = "take ?n ?due"
  from assms(2) have eq: "ds = map delivery_of ?rows" "q' = claim_each now ?rows q"
    by (simp_all add: claim_deliveries_def Let_def)
  have d: "distinct (queue_ids ?rows)"
    using distinct_due_rows [OF assms(1), of skip now] by (simp add: take_map [symmetric])
  have sub: "set ?rows \<subseteq> {r \<in> set q. due_row now r \<and> \<not> skip (ob_id r)}"
    using set_take_subset [of ?n ?due] by (simp add: set_due_rows)
  have le: "ob_next_at r \<le> ob_next_at x"
    if "r \<in> set ?rows" "x \<in> {x \<in> set q. due_row now x \<and> \<not> skip (ob_id x)} - set ?rows" for r x
  proof -
    from that(2) have "x \<in> set ?due" by (simp add: set_due_rows)
    then have "x \<in> set (?rows @ drop ?n ?due)" by simp
    with that(2) have "x \<in> set (drop ?n ?due)" by (auto simp del: append_take_drop_id)
    moreover have "sorted (map ob_next_at ?rows @ map ob_next_at (drop ?n ?due))"
      using sorted_due_rows [of skip now q] by (metis append_take_drop_id map_append)
    ultimately show ?thesis using that(1) unfolding sorted_append by auto
  qed
  have "sorted (map ob_next_at ?rows)"
    using sorted_due_rows [of skip now q] by (simp add: take_map [symmetric] sorted_wrt_take)
  moreover have "length ?rows = min ?n (length (filter (\<lambda>r. due_row now r \<and> \<not> skip (ob_id r)) q))"
    by (simp add: length_due_rows min.commute)
  moreover have "q' = update_rows (\<lambda>x. x \<in> set ?rows) (claim_row now) q"
    unfolding eq(2) using assms(1) d sub by (intro claim_each_eq) auto
  ultimately show ?thesis using eq(1) d sub le by (intro exI [of _ ?rows]) blast
qed

end
