(* ===== verification/Outbox_Delivery.thy ===== *)
theory Outbox_Delivery
  imports Outbox
begin

text \<open>
  What the outbox queues and their dispatcher guarantee over time: which rows change under any sequence
  of queue operations, that a lease keeps other workers away, and, from the laws of the interface
  between the dispatcher and a queue, that a round of the dispatcher settles every row it claimed.
\<close>

section \<open>Operations of a queue\<close>

datatype 'p queue_op =
    QClaim "string list" instant int
  | QDelivered string instant
  | QFailed string string nat bool instant
  | QRetry string string instant
  | QEnqueue "'p outbox_row"

fun queue_step :: "'p queue_op \<Rightarrow> 'p queue \<Rightarrow> 'p queue" where
  "queue_step (QClaim skip now limit) q = fst (claim_deliveries (\<lambda>i. i \<in> set skip) now limit q)"
| "queue_step (QDelivered i now) q =
     (case mark_delivered ErrNotFound i now q of Inl e \<Rightarrow> q | Inr q' \<Rightarrow> q')"
| "queue_step (QFailed i message attempts dead now) q = mark_failed i message attempts dead now q"
| "queue_step (QRetry tenant i now) q = retry_dead tenant i now q"
| "queue_step (QEnqueue r) q = (if ob_id r \<in> set (map ob_id q) then q else q @ [r])"

lemma claim_deliveries_ids [simp]:
  "queue_ids (fst (claim_deliveries skip now limit q)) = queue_ids q"
  by (simp add: claim_deliveries_def Let_def)

lemma mark_failed_ids [simp]: "queue_ids (mark_failed i m a d t q) = queue_ids q"
  by (simp add: mark_failed_def map_update_rows)

lemma retry_dead_ids [simp]: "queue_ids (retry_dead tenant i t q) = queue_ids q"
  by (simp add: retry_dead_def map_update_rows)

lemma mark_delivered_ids:
  "mark_delivered e i t q = Inr q' \<Longrightarrow> queue_ids q' = queue_ids q"
  by (auto simp: mark_delivered_def Let_def map_update_rows split: if_splits)

lemma queue_step_distinct: "distinct (queue_ids q) \<Longrightarrow> distinct (queue_ids (queue_step op q))"
  by (cases op) (auto simp: mark_delivered_ids split: sum.splits)

lemma claim_deliveries_rows:
  assumes "distinct (queue_ids q)"
  shows "\<exists>rows. fst (claim_deliveries skip now limit q) = update_rows (\<lambda>x. x \<in> set rows) (claim_row now) q
    \<and> snd (claim_deliveries skip now limit q) = map delivery_of rows
    \<and> (\<forall>r \<in> set rows. r \<in> set q \<and> due_row now r) \<and> distinct (queue_ids rows)"
  using claim_deliveries_correct [OF assms surjective_pairing [of "claim_deliveries skip now limit q"]]
  by (elim exE conjE, intro exI conjI) auto

lemma claim_keeps:
  assumes "distinct (queue_ids q)" and "r \<in> set q" and "\<not> due_row now r"
  shows "r \<in> set (fst (claim_deliveries skip now limit q))"
  using claim_deliveries_rows [OF assms(1), of skip now limit] assms(2,3)
  by (auto simp: set_update_rows)

lemma claim_avoids:
  assumes "distinct (queue_ids q)" and "r \<in> set q" and "\<not> due_row now r"
  shows "ob_id r \<notin> dl_id ` set (snd (claim_deliveries skip now limit q))"
  using claim_deliveries_rows [OF assms(1), of skip now limit] assms(2,3)
  by (auto simp: delivery_of_def) (metis assms(1) same_id_same_row)

section \<open>Rows that operations leave alone\<close>

text \<open>The operations that concern a row: settling it, or retrying it.\<close>

fun settles :: "string \<Rightarrow> 'p queue_op \<Rightarrow> bool" where
  "settles i (QDelivered j _) = (i = j)"
| "settles i (QFailed j _ _ _ _) = (i = j)"
| "settles i _ = False"

fun claims_after :: "instant \<Rightarrow> 'p queue_op \<Rightarrow> bool" where
  "claims_after t (QClaim _ now _) = (t < now)"
| "claims_after t _ = False"

lemma row_kept_delivered:
  assumes "distinct (queue_ids q)" and "r \<in> set q" and "ob_status r = DsDelivered"
  shows "r \<in> set (queue_step op q)"
proof (cases op)
  case (QClaim skip now limit)
  then have "\<not> due_row now r" using assms by (auto simp: due_row_def)
  from claim_keeps [OF assms(1,2) this] show ?thesis using QClaim by simp
qed (use assms in \<open>auto simp: mark_delivered_def mark_failed_def retry_dead_def dead_row_def Let_def
      set_update_rows split: sum.splits if_splits\<close>)

lemma row_kept_leased:
  assumes "distinct (queue_ids q)" and "r \<in> set q" and "ob_status r = DsProcessing"
    and "ob_locked_at r = Some t" and "\<not> settles (ob_id r) op" and "\<not> claims_after (t + lease_ns) op"
  shows "r \<in> set (queue_step op q)"
proof (cases op)
  case (QClaim skip now limit)
  then have "\<not> due_row now r" using assms by (auto simp: due_row_def)
  from claim_keeps [OF assms(1,2) this] show ?thesis using QClaim by simp
qed (use assms in \<open>auto simp: mark_delivered_def mark_failed_def retry_dead_def dead_row_def Let_def
      set_update_rows split: sum.splits if_splits\<close>)

text \<open>a delivered row is final: no claim, settlement, retry or enqueue ever changes it or hands it
  out again.\<close>

theorem delivered_is_final:
  assumes "distinct (queue_ids q)" and "r \<in> set q" and "ob_status r = DsDelivered"
  shows "r \<in> set (fold queue_step ops q)
    \<and> ob_id r \<notin> dl_id ` set (snd (claim_deliveries skip now limit (fold queue_step ops q)))"
proof -
  have inv: "distinct (queue_ids (fold queue_step ops q)) \<and> r \<in> set (fold queue_step ops q)"
    using assms(1,2)
    by (induction ops arbitrary: q) (simp_all add: queue_step_distinct row_kept_delivered assms(3))
  have "\<not> due_row now r" using assms(3) by (simp add: due_row_def)
  with inv show ?thesis by (intro conjI claim_avoids) auto
qed

text \<open>a lease is exclusive: while the worker that claimed a row does not settle it, no claim made
  up to five minutes later returns the row, whatever else happens to the queue.\<close>

theorem lease_exclusive:
  assumes "distinct (queue_ids q)" and "claim_deliveries skip now limit q = (q1, ds1)"
    and "d \<in> set ds1" and "\<forall>op \<in> set ops. \<not> settles (dl_id d) op \<and> \<not> claims_after (now + lease_ns) op"
    and "now2 \<le> now + lease_ns"
  shows "dl_id d \<notin> dl_id ` set (snd (claim_deliveries skip2 now2 limit2 (fold queue_step ops q1)))"
proof -
  let ?q = "fold queue_step ops q1"
  from claim_deliveries_correct [OF assms(1,2)] obtain rows where
    rows: "ds1 = map delivery_of rows" "q1 = update_rows (\<lambda>x. x \<in> set rows) (claim_row now) q"
    "set rows \<subseteq> set q" by auto
  from rows(1) assms(3) obtain x where x: "x \<in> set rows" "d = delivery_of x" by auto
  let ?r = "claim_row now x"
  have d1: "distinct (queue_ids q1)"
    using claim_deliveries_ids [of skip now limit q] assms(1,2) by simp
  have r1: "?r \<in> set q1" using x rows(2,3) by (auto simp: set_update_rows)
  have r: "ob_status ?r = DsProcessing" "ob_locked_at ?r = Some now" "ob_id ?r = dl_id d"
    by (simp_all add: claim_row_def x(2) delivery_of_def)
  have inv: "distinct (queue_ids ?q) \<and> ?r \<in> set ?q"
    using d1 r1 assms(4)
    by (induction ops arbitrary: q1) (simp_all add: queue_step_distinct row_kept_leased [where t = now] r)
  have "\<not> due_row now2 ?r" using r assms(5) by (simp add: due_row_def)
  with inv show ?thesis using claim_avoids [of ?q ?r now2 skip2 limit2] r(3) by simp
qed

section \<open>The interface between dispatcher and queue\<close>

text \<open>
  What the dispatcher needs of a queue: settling a row in processing succeeds, gives the row its new
  status and no other row a different one, and keeps the queue well-formed.
\<close>

locale delivery_store =
  fixes inv :: "'q \<Rightarrow> bool"
    and status :: "'q \<Rightarrow> string \<Rightarrow> delivery_status option"
    and settled :: "string \<Rightarrow> instant \<Rightarrow> 'q \<Rightarrow> 'q result"
    and failed :: "string \<Rightarrow> string \<Rightarrow> nat \<Rightarrow> bool \<Rightarrow> instant \<Rightarrow> 'q \<Rightarrow> 'q result"
  assumes settled_law: "inv q \<Longrightarrow> status q i = Some DsProcessing \<Longrightarrow>
      \<exists>q'. settled i t q = Inr q' \<and> inv q' \<and> status q' = (status q)(i \<mapsto> DsDelivered)"
    and failed_law: "inv q \<Longrightarrow> status q i = Some DsProcessing \<Longrightarrow>
      \<exists>q'. failed i msg a dead t q = Inr q' \<and> inv q'
        \<and> status q' = (status q)(i \<mapsto> if dead then DsDead else DsPending)"

text \<open>The status a delivery attempt leads to, \<open>None\<close> when the row keeps its lease.\<close>

definition outcome_status :: "nat \<Rightarrow> send_outcome \<Rightarrow> 'p delivery \<Rightarrow> delivery_status option" where
  "outcome_status max_attempts outcome d =
     (case outcome of
        SendLicenseDenied e \<Rightarrow> None
      | SendFailed msg \<Rightarrow> Some (if dl_attempts d \<ge> max_attempts then DsDead else DsPending)
      | SendStatus code body \<Rightarrow>
          if 200 \<le> code \<and> code < 300 then Some DsDelivered
          else if permanent_delivery_failure code \<or> dl_attempts d \<ge> max_attempts then Some DsDead
          else Some DsPending)"

context delivery_store
begin

lemma deliver_law:
  assumes "inv q" and "status q (dl_id d) = Some DsProcessing"
    and "deliver max_attempts settled failed outcome t d q = (q', e)"
  shows "inv q' \<and> status q' =
    (case outcome_status max_attempts outcome d of None \<Rightarrow> status q | Some s \<Rightarrow> (status q)(dl_id d \<mapsto> s))"
proof -
  obtain q1 where q1: "settled (dl_id d) t q = Inr q1" "inv q1" "status q1 = (status q)(dl_id d \<mapsto> DsDelivered)"
    using settled_law [OF assms(1,2)] by blast
  have f: "\<exists>q2. failed (dl_id d) msg a dead t q = Inr q2 \<and> inv q2
      \<and> status q2 = (status q)(dl_id d \<mapsto> if dead then DsDead else DsPending)" for msg a dead
    by (rule failed_law [OF assms(1,2)])
  show ?thesis
  proof (cases outcome)
    case (SendLicenseDenied x1)
    with assms show ?thesis by (simp add: deliver_def outcome_status_def Let_def)
  next
    case (SendStatus code body)
    define dead where "dead = (permanent_delivery_failure code \<or> max_attempts \<le> dl_attempts d)"
    from f [of body "dl_attempts d" dead] obtain q2 where
      "failed (dl_id d) body (dl_attempts d) dead t q = Inr q2" "inv q2"
      "status q2 = (status q)(dl_id d \<mapsto> if dead then DsDead else DsPending)" by blast
    with assms(3) q1 SendStatus show ?thesis
      by (auto simp: deliver_def outcome_status_def Let_def dead_def [symmetric] split: if_splits)
  next
    case (SendFailed msg)
    define dead where "dead = (max_attempts \<le> dl_attempts d)"
    from f [of msg "dl_attempts d" dead] obtain q2 where
      "failed (dl_id d) msg (dl_attempts d) dead t q = Inr q2" "inv q2"
      "status q2 = (status q)(dl_id d \<mapsto> if dead then DsDead else DsPending)" by blast
    with assms(3) SendFailed show ?thesis
      by (auto simp: deliver_def outcome_status_def Let_def dead_def [symmetric] split: if_splits)
  qed
qed

lemma deliver_all_law:
  assumes "inv q" and "distinct (map dl_id ds)"
    and "list_all (\<lambda>d. status q (dl_id d) = Some DsProcessing) ds"
    and "list_all (\<lambda>d. \<not> de_cancelled (env (dl_id d))) ds"
    and "deliver_all max_attempts settled failed env ds err q = (q', e)"
  shows "inv q'
    \<and> (\<forall>d \<in> set ds. status q' (dl_id d) =
         (case outcome_status max_attempts (de_outcome (env (dl_id d))) d of
            None \<Rightarrow> Some DsProcessing | Some s \<Rightarrow> Some s))
    \<and> (\<forall>i. i \<notin> dl_id ` set ds \<longrightarrow> status q' i = status q i)"
  using assms
proof (induction ds arbitrary: q err)
  case (Cons d ds)
  let ?i = "dl_id d"
  obtain q1 e1 where step: "deliver max_attempts settled failed (de_outcome (env ?i)) (de_now (env ?i)) d q = (q1, e1)"
    by fastforce
  from Cons.prems(3) have "status q ?i = Some DsProcessing" by simp
  from deliver_law [OF Cons.prems(1) this step] have q1: "inv q1"
    "status q1 = (case outcome_status max_attempts (de_outcome (env ?i)) d of
       None \<Rightarrow> status q | Some s \<Rightarrow> (status q)(?i \<mapsto> s))" by simp_all
  have other: "status q1 j = status q j" if "j \<noteq> ?i" for j
    using q1(2) that by (auto split: option.splits)
  have "list_all (\<lambda>d. status q1 (dl_id d) = Some DsProcessing) ds"
    unfolding list_all_iff
  proof
    fix x assume x: "x \<in> set ds"
    with Cons.prems(2) have "dl_id x \<noteq> ?i" by (metis distinct.simps(2) image_eqI list.map(2) set_map)
    with x Cons.prems(3) other show "status q1 (dl_id x) = Some DsProcessing" by (simp add: list_all_iff)
  qed
  moreover have "deliver_all max_attempts settled failed env ds (if err = None then e1 else err) q1 = (q', e)"
    using Cons.prems(4,5) step by simp
  ultimately have ih: "inv q'" "\<forall>d \<in> set ds. status q' (dl_id d) =
         (case outcome_status max_attempts (de_outcome (env (dl_id d))) d of
            None \<Rightarrow> Some DsProcessing | Some s \<Rightarrow> Some s)"
    "\<forall>i. i \<notin> dl_id ` set ds \<longrightarrow> status q' i = status q1 i"
    using Cons.IH [OF q1(1)] Cons.prems(2,4) by auto
  have "?i \<notin> dl_id ` set ds" using Cons.prems(2) by simp
  with ih(3) have "status q' ?i = status q1 ?i" by simp
  with q1(2) \<open>status q ?i = Some DsProcessing\<close> ih other show ?case by (auto split: option.splits)
qed simp

end

definition row_status :: "'p queue \<Rightarrow> string \<Rightarrow> delivery_status option" where
  "row_status q i = map_option ob_status (first_row (\<lambda>r. ob_id r = i) q)"

lemma row_status_of:
  "distinct (queue_ids q) \<Longrightarrow> r \<in> set q \<Longrightarrow> row_status q (ob_id r) = Some (ob_status r)"
  by (induction q) (auto simp: row_status_def rev_image_eqI)

lemma row_status_update:
  assumes "row_status q i = Some DsProcessing"
    and "\<And>r. ob_id (f r) = ob_id r" and "\<And>r. ob_status (f r) = s"
  shows "row_status (update_rows (\<lambda>r. ob_id r = i \<and> ob_status r = DsProcessing) f q) = (row_status q)(i \<mapsto> s)"
proof
  fix j
  have "first_row (\<lambda>r. ob_id r = j) (update_rows (\<lambda>r. ob_id r = i \<and> ob_status r = DsProcessing) f q)
      = map_option (\<lambda>r. if ob_id r = i \<and> ob_status r = DsProcessing then f r else r) (first_row (\<lambda>r. ob_id r = j) q)"
    by (rule first_row_update_rows) (simp add: assms(2))
  with assms show "row_status (update_rows (\<lambda>r. ob_id r = i \<and> ob_status r = DsProcessing) f q) j
      = ((row_status q)(i \<mapsto> s)) j"
    by (auto simp: row_status_def option.map_comp comp_def dest: first_row_SomeD intro!: option.map_cong0
        split: option.splits)
qed

lemma one_row_affected:
  assumes "distinct (queue_ids q)" and "row_status q i = Some DsProcessing"
  shows "rows_affected (\<lambda>r. ob_id r = i \<and> ob_status r = DsProcessing) q = 1"
proof -
  obtain r where r: "r \<in> set q" "ob_id r = i" "ob_status r = DsProcessing"
    using assms(2) by (auto simp: row_status_def dest: first_row_SomeD)
  have "filter (\<lambda>r. ob_id r = i \<and> ob_status r = DsProcessing) q = filter (\<lambda>x. x = r) q"
    using r same_id_same_row [OF assms(1)] by (intro filter_cong) auto
  moreover have "distinct q" using assms(1) by (simp add: distinct_map)
  moreover have "{x. x = r} \<inter> set q = {r}" using r(1) by auto
  ultimately show ?thesis by (simp add: rows_affected_def distinct_length_filter)
qed

interpretation outbox: delivery_store "\<lambda>q :: 'p queue. distinct (queue_ids q)" row_status
    "mark_delivered missing" "\<lambda>i msg a dead t q. Inr (mark_failed i msg a dead t q)"
  for missing
proof
  fix q :: "'p queue" and i t msg a dead
  assume q: "distinct (queue_ids q)" "row_status q i = Some DsProcessing"
  note one = one_row_affected [OF q]
  show "\<exists>q'. mark_delivered missing i t q = Inr q' \<and> distinct (queue_ids q')
      \<and> row_status q' = (row_status q)(i \<mapsto> DsDelivered)"
    using q one by (auto simp: mark_delivered_def Let_def map_update_rows row_status_update)
  show "\<exists>q'. Inr (mark_failed i msg a dead t q) = Inr q' \<and> distinct (queue_ids q')
      \<and> row_status q' = (row_status q)(i \<mapsto> if dead then DsDead else DsPending)"
    using q by (auto simp: mark_failed_def map_update_rows row_status_update)
qed

text \<open>a round of the dispatcher settles all it claimed: with the licence open and no shutdown, every
  row it hands out ends delivered after a 2xx answer, dead after a permanent refusal or when its
  attempts are used up, pending for a retry otherwise, and only a licence refused in between leaves
  it to its lease; every row it did not claim keeps its status.\<close>

theorem dispatch_settles:
  fixes q :: "'p queue"
  assumes "distinct (queue_ids q)" and "claim_deliveries skip now limit q = (q1, ds)"
    and "list_all (\<lambda>d. \<not> de_cancelled (env (dl_id d))) ds"
    and "dispatch_queue None max_attempts limit skip now env missing q = (q', e)"
  shows "(\<forall>d \<in> set ds. row_status q' (dl_id d) =
         (case outcome_status max_attempts (de_outcome (env (dl_id d))) d of
            None \<Rightarrow> Some DsProcessing | Some s \<Rightarrow> Some s))
    \<and> (\<forall>i. i \<notin> dl_id ` set ds \<longrightarrow> row_status q' i = row_status q i)"
proof -
  from claim_deliveries_correct [OF assms(1,2)] obtain rows where rows: "ds = map delivery_of rows"
    "distinct (queue_ids rows)" "set rows \<subseteq> set q" "q1 = update_rows (\<lambda>x. x \<in> set rows) (claim_row now) q"
    by auto
  have ids: "map dl_id ds = queue_ids rows" by (simp add: rows(1) delivery_of_def)
  have d1: "distinct (queue_ids q1)"
    using claim_deliveries_ids [of skip now limit q] assms(1,2) by simp
  have claimed: "list_all (\<lambda>d. row_status q1 (dl_id d) = Some DsProcessing) ds"
    unfolding list_all_iff
  proof
    fix d assume "d \<in> set ds"
    then obtain r where r: "r \<in> set rows" "d = delivery_of r" using rows(1) by auto
    then have "claim_row now r \<in> set q1" using rows(3,4) by (auto simp: set_update_rows)
    from row_status_of [OF d1 this] r show "row_status q1 (dl_id d) = Some DsProcessing"
      by (simp add: claim_row_def delivery_of_def)
  qed
  have other: "row_status q1 i = row_status q i" if "i \<notin> dl_id ` set ds" for i
  proof -
    have i: "i \<notin> ob_id ` set rows" using that ids by (metis set_map)
    have eq: "first_row (\<lambda>r. ob_id r = i) q1
        = map_option (\<lambda>r. if r \<in> set rows then claim_row now r else r) (first_row (\<lambda>r. ob_id r = i) q)"
      unfolding rows(4) by (rule first_row_update_rows) (simp add: claim_row_def)
    show ?thesis
    proof (cases "first_row (\<lambda>r. ob_id r = i) q")
      case None
      then show ?thesis by (simp add: row_status_def eq)
    next
      case (Some r)
      with i have "r \<notin> set rows" by (auto dest: first_row_SomeD)
      with Some show ?thesis by (simp add: row_status_def eq)
    qed
  qed
  have "deliver_all max_attempts (mark_delivered missing)
      (\<lambda>i msg a dead t q. Inr (mark_failed i msg a dead t q)) env ds None q1 = (q', e)"
    using assms(2,4) by (simp add: dispatch_queue_def)
  from outbox.deliver_all_law [OF d1 _ claimed assms(3) this] rows(2) ids other show ?thesis by auto
qed

definition sample_row :: "string \<Rightarrow> delivery_status \<Rightarrow> unit outbox_row" where
  "sample_row i s = (new_outbox_row i ''t1'' ''c1'' 4 () 0 0)\<lparr>ob_status := s\<rparr>"

definition sample_queue :: "unit queue" where
  "sample_queue = [sample_row ''e1'' DsDelivered, sample_row ''e2'' DsPending]"

definition sample_env :: "string \<Rightarrow> delivery_env" where
  "sample_env i = \<lparr>de_cancelled = False, de_outcome = SendStatus 422 ''rejected'', de_now = 5\<rparr>"

lemma sample_claim:
  "claim_deliveries (\<lambda>_. False) 0 1 sample_queue
   = ([sample_row ''e1'' DsDelivered, claim_row 0 (sample_row ''e2'' DsPending)],
      [\<lparr>dl_id = ''e2'', dl_tenant = ''t1'', dl_payload = (), dl_attempts = 1\<rparr>])"
  by (simp add: claim_deliveries_def sample_queue_def sample_row_def new_outbox_row_def due_rows_def
      due_row_def bounded_claim_limit_def delivery_of_def claim_row_def)

lemma sample_queue_distinct: "distinct (queue_ids sample_queue)"
  by (simp add: sample_queue_def sample_row_def new_outbox_row_def)

theorem claim_deliveries_correct_witness:
  "ob_attempts (claim_row 0 (sample_row ''e2'' DsPending)) = 1
   \<and> length (snd (claim_deliveries (\<lambda>_. False) 0 1 sample_queue)) = 1"
  using claim_deliveries_correct [OF sample_queue_distinct sample_claim]
  by (auto simp: sample_claim claim_row_def sample_row_def new_outbox_row_def)

theorem delivered_is_final_witness:
  "sample_row ''e1'' DsDelivered \<in> set (fold queue_step
     [QClaim [] 0 10, QFailed ''e1'' ''late'' 1 True 9, QRetry ''t1'' ''e1'' 9] sample_queue)"
  using delivered_is_final [OF sample_queue_distinct, of "sample_row ''e1'' DsDelivered"
      "[QClaim [] 0 10, QFailed ''e1'' ''late'' 1 True 9, QRetry ''t1'' ''e1'' 9]"]
  by (simp add: sample_queue_def sample_row_def)

theorem lease_exclusive_witness:
  "''e2'' \<notin> dl_id ` set (snd (claim_deliveries (\<lambda>_. False) lease_ns 10
     (fold queue_step [QDelivered ''e1'' 7] (fst (claim_deliveries (\<lambda>_. False) 0 1 sample_queue)))))"
  using lease_exclusive [OF sample_queue_distinct sample_claim,
      of "\<lparr>dl_id = ''e2'', dl_tenant = ''t1'', dl_payload = (), dl_attempts = 1\<rparr>"
        "[QDelivered ''e1'' 7]" lease_ns "\<lambda>_. False" 10]
  by (simp add: sample_claim)

theorem dispatch_settles_witness:
  "row_status (fst (dispatch_queue None 20 1 (\<lambda>_. False) 0 sample_env ErrNotFound sample_queue)) ''e2''
   = Some DsDead"
  using dispatch_settles [OF sample_queue_distinct sample_claim, of sample_env 20 ErrNotFound]
  by (simp add: prod_eq_iff sample_env_def outcome_status_def permanent_delivery_failure_def)

end
