(* ===== verification/Database.thy ===== *)
theory Database
  imports Audit_Outbox Outbox_Delivery Number_Rule Approval_Workflow
begin

text \<open>
  The tables of \<^verbatim>\<open>internal/infrastructure/mysql\<close> as a record of row lists, with the unique
  keys of \<^verbatim>\<open>migrations/\<close> enforced where rows are inserted. A repository method that runs in a
  transaction is a function from the database to a result: on failure the caller keeps the old
  database, which is the rollback. Each read of the wall clock and each new identifier takes the
  next value of a sequence in \<open>env\<close>, so that two reads may differ. A JSON column is either empty (SQL NULL),
  the JSON text \<^verbatim>\<open>null\<close>, undecodable for its Go type, or holds a value. The outcome of a statement that fails for reasons outside the
  data (a lost connection) is not modelled.
\<close>

section \<open>Environment\<close>

record audit_context =
  ac_login_ip :: string
  ac_client_ip :: string
  ac_ip_source :: string
  ac_request_id :: string
  ac_actor_id :: string

text \<open>
  \<open>env_collate\<close> maps a string to its collation key: two strings are equal for
  \<^verbatim>\<open>utf8mb4_unicode_ci\<close> when their keys are. \<open>env_sha256\<close> is the hexadecimal digest.
  \<open>env_doc_format\<close>, \<open>env_doc_number\<close> and \<open>env_doc_text\<close> stand for the document
  processing of \<^verbatim>\<open>internal/contractdocument\<close> and \<^verbatim>\<open>internal/docx\<close>, and \<open>env_encrypt\<close>
  and \<open>env_decrypt\<close> for the phone cipher, which are not modelled.
\<close>

record env =
  env_clock :: "nat \<Rightarrow> instant"
  env_ulid :: "nat \<Rightarrow> string"
  env_zone :: "zone option"
  env_meta :: audit_context
  env_parse_ip :: "string \<Rightarrow> nat list option"
  env_sha256 :: "string \<Rightarrow> string"
  env_collate :: "string \<Rightarrow> string"
  env_doc_format :: "string \<Rightarrow> string \<Rightarrow> string result"
  env_doc_number :: "string \<Rightarrow> string \<Rightarrow> string result"
  env_doc_text :: "string \<Rightarrow> string result"
  env_encrypt :: "string \<Rightarrow> string \<Rightarrow> string result"
  env_decrypt :: "string \<Rightarrow> string \<Rightarrow> string result"

section \<open>Rows\<close>

datatype 'a json_col = JsonEmpty | JsonNull | JsonBad | JsonOk 'a

record contract_row =
  ct_id :: string
  ct_tenant :: string
  ct_number :: "string option"
  ct_number_format :: string
  ct_title :: string
  ct_type :: string
  ct_service_type :: string
  ct_opportunity_id :: "string option"
  ct_opportunity_name :: "string option"
  ct_counterparty_source :: string
  ct_local_counterparty :: "string option"
  ct_counterparty_version :: "nat option"
  ct_category_source :: string
  ct_integration_policy :: string
  ct_crm_customer :: "nat option"
  ct_customer_name :: "string option"
  ct_customer_address :: "string option"
  ct_customer_contact :: "string option"
  ct_customer_phone :: "string option"
  ct_owner_identity :: "string option"
  ct_owner_org :: "string option"
  ct_project :: "string option"
  ct_systems :: "system_info list json_col"
  ct_service_items :: "service_item list json_col"
  ct_credit_level :: "string option"
  ct_owner :: string
  ct_owner_name :: string
  ct_amount :: int
  ct_currency :: string
  ct_content :: string
  ct_template :: "string option"
  ct_template_values :: "(string \<rightharpoonup> string) json_col"
  ct_document :: string
  ct_document_format :: string
  ct_source_media_type :: string
  ct_source_filename :: string
  ct_source_sha256 :: string
  ct_paper_number :: string
  ct_origin_kind :: string
  ct_import_mode :: string
  ct_origin_item :: "string option"
  ct_historical_status :: string
  ct_historical_customer :: string
  ct_historical_owner :: string
  ct_responsibility_activated :: "instant option"
  ct_import_policy :: "import_policy json_col"
  ct_source_file_id :: string
  ct_source_file_status :: string
  ct_source_file_error :: string
  ct_status :: status
  ct_start_date :: "instant option"
  ct_end_date :: "instant option"
  ct_content_hash :: "string option"
  ct_version :: nat
  ct_created_at :: instant
  ct_created_by :: string
  ct_updated_at :: instant
  ct_updated_by :: string

record number_rule_row =
  nrr_rule :: number_rule

record sequence_row =
  sq_year :: int
  sq_key :: string
  sq_value :: nat
  sq_updated_at :: instant

record registry_row =
  rg_number :: string
  rg_tenant :: string
  rg_contract :: string
  rg_year :: int
  rg_key :: string
  rg_issued_at :: instant

record lifecycle_row =
  lc_id :: string
  lc_tenant :: string
  lc_contract :: string
  lc_from :: status
  lc_to :: status
  lc_actor :: "string option"
  lc_reason :: "string option"
  lc_approval :: "string option"
  lc_workflow :: "string option"
  lc_key :: string
  lc_occurred_at :: instant

record stamped_row =
  st_doc_contract :: string
  st_doc_tenant :: string
  st_doc_filename :: string
  st_doc_sha256 :: string
  st_doc_version :: nat
  st_doc_document :: string
  st_doc_uploaded_at :: instant
  st_doc_uploaded_by :: string
  st_doc_platform_file :: string
  st_doc_gateway_state :: string
  st_doc_gateway_error :: string
  st_doc_superseded_at :: "instant option"
  st_doc_superseded_by :: "string option"

record signing_row =
  sg_contract :: string
  sg_tenant :: string
  sg_method :: string
  sg_status :: signing_status
  sg_courier :: "string option"
  sg_recipient_name :: "string option"
  sg_recipient_phone :: "string option"
  sg_recipient_address :: "string option"
  sg_mailed_at :: "instant option"
  sg_received_at :: "instant option"
  sg_signed_at :: "instant option"
  sg_confirmed_at :: "instant option"
  sg_confirmed_version :: "nat option"
  sg_confirmed_sha256 :: "string option"
  sg_seal_verified :: bool
  sg_signature_verified :: bool
  sg_reminders :: nat
  sg_last_reminded :: "instant option"
  sg_version :: nat
  sg_updated_at :: instant
  sg_updated_by :: string

record signing_confirmation_row =
  cf_id :: string
  cf_tenant :: string
  cf_contract :: string
  cf_version :: nat
  cf_sha256 :: string
  cf_seal_verified :: bool
  cf_signature_verified :: bool
  cf_signed_at :: instant
  cf_confirmed_at :: instant
  cf_confirmed_by :: string
  cf_created_at :: instant

record rule_row =
  rl_rule :: rule
  rl_created_at :: instant
  rl_created_by :: string
  rl_updated_at :: instant
  rl_updated_by :: string

record instance_row =
  in_id :: string
  in_tenant :: string
  in_contract :: string
  in_kind :: approval_kind
  in_status :: approval_status
  in_applicant :: string
  in_applicant_name :: string
  in_from :: status
  in_target :: status
  in_reason :: "string option"
  in_rule_id :: "string option"
  in_rule_version :: "nat option"
  in_content_hash :: "string option"
  in_nodes :: "node list"
  in_state :: "approval_state option"
  in_index :: nat
  in_workflow :: string
  in_run :: string
  in_status_change_key :: "string option"
  in_completed :: bool
  in_completed_at :: "instant option"
  in_created_at :: instant
  in_updated_at :: instant

record snapshot_row =
  sn_approval :: string
  sn_tenant :: string
  sn_contract :: string
  sn_version :: nat
  sn_content_hash :: "string option"
  sn_json :: contract
  sn_document :: string
  sn_rule_id :: "string option"
  sn_rule_version :: "nat option"
  sn_created_at :: instant

record task_row =
  tk_approval :: string
  tk_node :: string
  tk_assignee :: string
  tk_node_name :: string
  tk_index :: nat
  tk_status :: node_status
  tk_approved :: bool
  tk_started_at :: "instant option"
  tk_completed_at :: "instant option"

record action_row =
  at_id :: string
  at_tenant :: string
  at_approval :: string
  at_contract :: string
  at_node :: "string option"
  at_command :: string
  at_action :: command_action
  at_actor :: string
  at_actor_name :: string
  at_comment :: "string option"
  at_payload :: approval_command
  at_occurred_at :: instant

text \<open>The notification of a queue row; the recipient key and the dedupe key form its unique key.\<close>

record notification =
  nt_recipient_key :: string
  nt_recipient_user :: "string option"
  nt_recipient_role :: "string option"
  nt_type :: string
  nt_title :: string
  nt_content :: string
  nt_contract :: "string option"
  nt_approval :: "string option"
  nt_dedupe_key :: string

text \<open>\<open>pp_stamped\<close> is \<open>None\<close> in the payloads of the first version, which had no such field.\<close>

record project_payload =
  pp_contract_id :: string
  pp_contract_number :: string
  pp_contract_version :: string
  pp_contract_name :: string
  pp_customer :: string
  pp_customer_id :: string
  pp_effective_at :: instant
  pp_stamped :: "bool option"
  pp_services :: "project_service_item list"

record financial_payload =
  fp_event_id :: string
  fp_event_type :: string
  fp_tenant_id :: string
  fp_occurred_at :: instant
  fp_contract_id :: string
  fp_version :: nat
  fp_contract_no :: string
  fp_customer_id :: string
  fp_customer_name :: string
  fp_owner_user_id :: string
  fp_project_id :: string
  fp_currency :: string
  fp_amount :: string
  fp_payment_terms :: "payment_term list"

record responsibility_payload =
  rp_event_id :: string
  rp_event_type :: string
  rp_tenant_id :: string
  rp_occurred_at :: instant
  rp_contract_id :: string
  rp_version :: nat
  rp_owner_user_id :: string
  rp_active :: bool

record stream_row =
  rs_tenant :: string
  rs_contract :: string
  rs_owner :: string
  rs_active :: bool
  rs_version :: nat
  rs_updated_at :: instant

record freeze_row =
  hf_id :: string
  hf_tenant :: string
  hf_batch :: string
  hf_request :: string
  hf_user :: string
  hf_status :: string
  hf_frozen_at :: instant
  hf_released_at :: "instant option"
  hf_outcome :: "string option"
  hf_created_at :: instant
  hf_updated_at :: instant

record receipt_row =
  hr_id :: string
  hr_tenant :: string
  hr_batch :: string
  hr_item :: string
  hr_resource_type :: string
  hr_resource :: string
  hr_from :: string
  hr_to :: string
  hr_key :: string
  hr_status :: string
  hr_applied_version :: nat
  hr_reason :: "string option"
  hr_evidence :: "string option"
  hr_received_at :: instant
  hr_created_at :: instant

record intake_row =
  oi_id :: string
  oi_tenant :: string
  oi_event :: string
  oi_opportunity :: nat
  oi_event_version :: nat
  oi_customer :: nat
  oi_opportunity_no :: string
  oi_contract_ref :: string
  oi_contract :: "string option"
  oi_contract_number :: "string option"
  oi_amount :: string
  oi_occurred_at :: instant
  oi_source_request :: "string option"
  oi_status :: string
  oi_version :: nat
  oi_reviewed_by :: "string option"
  oi_reviewer_name :: "string option"
  oi_review_reason :: "string option"
  oi_reviewed_at :: "instant option"
  oi_created_at :: instant
  oi_updated_at :: instant

text \<open>\<^verbatim>\<open>application.OpportunityIntake\<close>, also the stored answer of a review.\<close>

record opportunity_intake =
  opi_id :: string
  opi_tenant :: string
  opi_event :: string
  opi_opportunity :: nat
  opi_event_version :: nat
  opi_opportunity_no :: string
  opi_customer :: nat
  opi_contract_ref :: string
  opi_contract :: string
  opi_contract_number :: string
  opi_amount :: string
  opi_occurred_at :: instant
  opi_source_request :: string
  opi_status :: string
  opi_version :: nat
  opi_reviewed_by :: string
  opi_reviewer_name :: string
  opi_reviewed_at :: "instant option"
  opi_review_reason :: string
  opi_created_at :: instant

record intake_review_row =
  ov_id :: string
  ov_tenant :: string
  ov_intake :: string
  ov_key :: string
  ov_hash :: string
  ov_decision :: string
  ov_reason :: string
  ov_version :: nat
  ov_reviewer :: string
  ov_reviewer_name :: "string option"
  ov_response :: opportunity_intake
  ov_created_at :: instant

text \<open>The callback to the CRM.\<close>

record link_payload =
  lp_event :: string
  lp_intake :: string
  lp_opportunity :: nat
  lp_contract :: string
  lp_contract_number :: string
  lp_status :: string
  lp_linked_at :: "instant option"
  lp_sync_version :: nat

section \<open>The database\<close>

text \<open>\<open>db_number_rules\<close> is \<open>None\<close> before migration 37, when the table does not exist.\<close>

record db =
  db_tick :: nat
  db_seq :: nat
  db_contracts :: "contract_row list"
  db_terms :: "payment_term_record list"
  db_lifecycle :: "lifecycle_row list"
  db_rules :: "rule_row list"
  db_instances :: "instance_row list"
  db_snapshots :: "snapshot_row list"
  db_tasks :: "task_row list"
  db_actions :: "action_row list"
  db_notifications :: "notification queue"
  db_project_outbox :: "project_payload json_col queue"
  db_financial_outbox :: "financial_payload queue"
  db_responsibility_outbox :: "responsibility_payload queue"
  db_link_outbox :: "link_payload queue"
  db_streams :: "stream_row list"
  db_audit :: "audit_row list"
  db_stamped :: "stamped_row list"
  db_signing :: "signing_row list"
  db_confirmations :: "signing_confirmation_row list"
  db_number_rules :: "number_rule_row list option"
  db_sequences :: "sequence_row list"
  db_registry :: "registry_row list"
  db_freezes :: "freeze_row list"
  db_receipts :: "receipt_row list"
  db_intakes :: "intake_row list"
  db_intake_reviews :: "intake_review_row list"

definition read_clock :: "env \<Rightarrow> db \<Rightarrow> instant \<times> db" where
  "read_clock e d = (env_clock e (db_tick d), d\<lparr>db_tick := db_tick d + 1\<rparr>)"

definition new_id :: "env \<Rightarrow> db \<Rightarrow> string \<times> db" where
  "new_id e d = (env_ulid e (db_seq d), d\<lparr>db_seq := db_seq d + 1\<rparr>)"

definition err_duplicate :: app_error where "err_duplicate = ErrStorage ''duplicate key''"
definition err_no_record :: app_error where "err_no_record = ErrStorage ''record not found''"
definition err_decode :: app_error where "err_decode = ErrStorage ''decode''"

text \<open>\<open>clash\<close> says that two rows share a unique key. A plain insert fails on a clash; with
  \<^verbatim>\<open>OnConflict{DoNothing: true}\<close> the table stays as it is.\<close>

definition insert_row :: "('r \<Rightarrow> 'r \<Rightarrow> bool) \<Rightarrow> 'r \<Rightarrow> 'r list \<Rightarrow> 'r list result" where
  "insert_row clash r rows = (if list_ex (clash r) rows then fail err_duplicate else ok (rows @ [r]))"

definition insert_ignore :: "('r \<Rightarrow> 'r \<Rightarrow> bool) \<Rightarrow> 'r \<Rightarrow> 'r list \<Rightarrow> 'r list" where
  "insert_ignore clash r rows = (if list_ex (clash r) rows then rows else rows @ [r])"

fun insert_rows :: "('r \<Rightarrow> 'r \<Rightarrow> bool) \<Rightarrow> 'r list \<Rightarrow> 'r list \<Rightarrow> 'r list result" where
  "insert_rows clash [] rows = ok rows"
| "insert_rows clash (r # rs) rows = res_bind (insert_row clash r rows) (insert_rows clash rs)"

definition contract_at :: "string \<Rightarrow> string \<Rightarrow> contract_row \<Rightarrow> bool" where
  "contract_at tenant cid r \<longleftrightarrow> ct_tenant r = tenant \<and> ct_id r = cid"

definition find_contract :: "db \<Rightarrow> string \<Rightarrow> string \<Rightarrow> contract_row option" where
  "find_contract d tenant cid = first_row (contract_at tenant cid) (db_contracts d)"

text \<open>The optional contract number takes part in its unique key only when it is not NULL.\<close>

definition contract_clash :: "env \<Rightarrow> contract_row \<Rightarrow> contract_row \<Rightarrow> bool" where
  "contract_clash e a b \<longleftrightarrow> ct_id a = ct_id b
     \<or> (ct_tenant a = ct_tenant b \<and> ct_number a \<noteq> None \<and> ct_number b \<noteq> None
        \<and> env_collate e (the (ct_number a)) = env_collate e (the (ct_number b)))
     \<or> (ct_tenant a = ct_tenant b \<and> ct_origin_item a \<noteq> None \<and> ct_origin_item a = ct_origin_item b)"

definition lifecycle_clash :: "lifecycle_row \<Rightarrow> lifecycle_row \<Rightarrow> bool" where
  "lifecycle_clash a b \<longleftrightarrow> lc_id a = lc_id b \<or> lc_key a = lc_key b"

definition audit_clash :: "audit_row \<Rightarrow> audit_row \<Rightarrow> bool" where
  "audit_clash a b \<longleftrightarrow> au_id a = au_id b \<or> (au_tenant a = au_tenant b \<and> au_event a = au_event b)"

definition outbox_clash :: "'p outbox_row \<Rightarrow> 'p outbox_row \<Rightarrow> bool" where
  "outbox_clash a b \<longleftrightarrow> ob_id a = ob_id b
     \<or> (ob_tenant a = ob_tenant b \<and> ob_key a = ob_key b \<and> ob_version a = ob_version b)"

definition notification_clash :: "notification outbox_row \<Rightarrow> notification outbox_row \<Rightarrow> bool" where
  "notification_clash a b \<longleftrightarrow> ob_id a = ob_id b
     \<or> (ob_tenant a = ob_tenant b
        \<and> nt_recipient_key (ob_payload a) = nt_recipient_key (ob_payload b)
        \<and> nt_dedupe_key (ob_payload a) = nt_dedupe_key (ob_payload b))"

section \<open>Row predicates\<close>

definition json_empty :: "'a json_col \<Rightarrow> bool" where
  "json_empty c = (case c of JsonEmpty \<Rightarrow> True | _ \<Rightarrow> False)"

definition ordinary_contract_record :: "contract_row \<Rightarrow> bool" where
  "ordinary_contract_record r \<longleftrightarrow>
     (ct_origin_kind r = [] \<or> ct_origin_kind r = ''NORMAL'')
     \<and> (ct_import_mode r = [] \<or> ct_import_mode r = ''NORMAL'')
     \<and> json_empty (ct_import_policy r)"

definition local_outbound_not_applicable :: "contract_row \<Rightarrow> bool result" where
  "local_outbound_not_applicable r =
     (if \<not> (ct_counterparty_source r = ''LOCAL'' \<or> ct_category_source r = ''LOCAL'') then ok False
      else if ct_integration_policy r \<noteq> ''NOT_APPLICABLE'' then fail ErrContractSourceConflict
      else ok True)"

section \<open>Audit rows\<close>

text \<open>\<^verbatim>\<open>insertAuditOutbox\<close> with the event identifier \<^verbatim>\<open>newID()\<close> its callers give it.\<close>

definition insert_audit :: "env \<Rightarrow> string \<Rightarrow> audit_entry \<Rightarrow> db \<Rightarrow> db result" where
  "insert_audit e tenant entry d =
     (let (event_id, d1) = new_id e d;
          (now, d2) = read_clock e d1;
          (i, d3) = new_id e d2
      in res_bind (insert_row audit_clash (audit_row_of (env_parse_ip e) i tenant event_id now entry) (db_audit d3))
           (\<lambda>rows. ok (d3\<lparr>db_audit := rows\<rparr>)))"

definition audit_entry_for :: "env \<Rightarrow> string \<Rightarrow> string \<Rightarrow> string \<Rightarrow> audit_payload \<Rightarrow> audit_entry" where
  "audit_entry_for e actor action resource_id payload =
     \<lparr>ae_actor = actor, ae_action = ''CONTRACT_MANAGEMENT:'' @ action, ae_resource_type = ''contract'',
      ae_resource_id = resource_id, ae_request = ac_request_id (env_meta e),
      ae_login_ip = ac_login_ip (env_meta e), ae_client_ip = ac_client_ip (env_meta e),
      ae_ip_source = ac_ip_source (env_meta e), ae_result = [], ae_payload = payload\<rparr>"

definition insert_notification :: "env \<Rightarrow> string \<Rightarrow> notification \<Rightarrow> instant \<Rightarrow> db \<Rightarrow> db" where
  "insert_notification e tenant n now d =
     (let (i, d1) = new_id e d
      in d1\<lparr>db_notifications :=
             insert_ignore notification_clash (new_outbox_row i tenant [] 0 n now now) (db_notifications d1)\<rparr>)"

section \<open>Facts about tables\<close>

lemma insert_row_ok:
  "insert_row clash r rows = Inr rows' \<longleftrightarrow> rows' = rows @ [r] \<and> (\<forall>x \<in> set rows. \<not> clash r x)"
  by (auto simp: insert_row_def list_ex_iff)

lemma insert_ignore_cases:
  "insert_ignore clash r rows = rows \<or> insert_ignore clash r rows = rows @ [r]"
  by (simp add: insert_ignore_def)

lemma insert_rows_ok: "insert_rows clash rs rows = Inr rows' \<Longrightarrow> rows' = rows @ rs"
proof (induction clash rs rows rule: insert_rows.induct)
  case (2 clash r rs rows)
  from 2(2) have "insert_rows clash rs (rows @ [r]) = Inr rows'"
    by (auto simp: res_bind_eq_ok insert_row_ok)
  from 2(1) [OF this] show ?case by simp
qed simp

text \<open>The parts of the database an operation may change beside its own tables.\<close>

lemma insert_audit_ok:
  assumes "insert_audit e tenant entry d = Inr d'"
  shows "\<exists>a. d' = d\<lparr>db_tick := db_tick d + 1, db_seq := db_seq d + 2, db_audit := db_audit d @ [a]\<rparr>
    \<and> au_tenant a = tenant \<and> au_action a = ae_action entry \<and> au_resource_id a = ae_resource_id entry
    \<and> au_actor a = string_ptr (ae_actor entry) \<and> au_status a = AdPending \<and> au_payload a = ae_payload entry"
  using assms
  by (auto simp: insert_audit_def Let_def read_clock_def new_id_def res_bind_eq_ok insert_row_ok audit_row_of_def
      split: prod.splits)

lemma find_contract_SomeD:
  "find_contract d tenant cid = Some r \<Longrightarrow> r \<in> set (db_contracts d) \<and> ct_tenant r = tenant \<and> ct_id r = cid"
  by (auto simp: find_contract_def contract_at_def dest: first_row_SomeD)

lemma find_contract_cong:
  "db_contracts d' = db_contracts d \<Longrightarrow> find_contract d' = find_contract d"
  by (simp add: find_contract_def fun_eq_iff)

section \<open>An example database\<close>

definition sample_contract :: contract_row where
  "sample_contract = \<lparr>ct_id = ''c1'', ct_tenant = ''t1'', ct_number = None, ct_number_format = [],
     ct_title = ''title'', ct_type = ''direct'', ct_service_type = ''review'', ct_opportunity_id = None,
     ct_opportunity_name = None, ct_counterparty_source = ''CRM'', ct_local_counterparty = None,
     ct_counterparty_version = None, ct_category_source = [], ct_integration_policy = [],
     ct_crm_customer = Some 7, ct_customer_name = Some ''customer'', ct_customer_address = None,
     ct_customer_contact = None, ct_customer_phone = None, ct_owner_identity = None,
     ct_owner_org = None, ct_project = None, ct_systems = JsonOk [],
     ct_service_items = JsonOk [sample_item], ct_credit_level = None, ct_owner = ''u1'',
     ct_owner_name = ''Ann'', ct_amount = 100, ct_currency = ''CNY'', ct_content = ''text'',
     ct_template = None, ct_template_values = JsonEmpty, ct_document = [], ct_document_format = [],
     ct_source_media_type = [], ct_source_filename = [], ct_source_sha256 = [], ct_paper_number = [],
     ct_origin_kind = ''NORMAL'', ct_import_mode = [], ct_origin_item = None,
     ct_historical_status = [], ct_historical_customer = [], ct_historical_owner = [],
     ct_responsibility_activated = None, ct_import_policy = JsonEmpty, ct_source_file_id = [],
     ct_source_file_status = [], ct_source_file_error = [], ct_status = StatusDraft, ct_start_date = None, ct_end_date = None,
     ct_content_hash = Some ''h1'', ct_version = 1, ct_created_at = 0, ct_created_by = ''u1'',
     ct_updated_at = 0, ct_updated_by = ''u1''\<rparr>"

definition sample_db :: "contract_row list \<Rightarrow> db" where
  "sample_db contracts = \<lparr>db_tick = 0, db_seq = 0, db_contracts = contracts, db_terms = [],
     db_lifecycle = [], db_rules = [], db_instances = [], db_snapshots = [], db_tasks = [],
     db_actions = [], db_notifications = [], db_project_outbox = [], db_financial_outbox = [],
     db_responsibility_outbox = [], db_link_outbox = [], db_streams = [], db_audit = [], db_stamped = [], db_signing = [],
     db_confirmations = [],
     db_number_rules = Some [\<lparr>nrr_rule = default_number_rule\<rparr>], db_sequences = [], db_registry = [],
     db_freezes = [], db_receipts = [], db_intakes = [], db_intake_reviews = []\<rparr>"

definition sample_ulid :: "nat \<Rightarrow> string" where
  "sample_ulid n = CHR ''i'' # nat_str n"

definition sample_db_env :: env where
  "sample_db_env = \<lparr>env_clock = int, env_ulid = sample_ulid, env_zone = None,
     env_meta = \<lparr>ac_login_ip = [], ac_client_ip = [], ac_ip_source = [], ac_request_id = [], ac_actor_id = []\<rparr>,
     env_parse_ip = (\<lambda>_. None), env_sha256 = (\<lambda>_. ''h''), env_collate = (\<lambda>s. s),
     env_doc_format = (\<lambda>_ _. Inr ''DOCX''), env_doc_number = (\<lambda>doc _. Inr doc),
     env_doc_text = (\<lambda>doc. Inr doc), env_encrypt = (\<lambda>_ s. Inr s), env_decrypt = (\<lambda>_ s. Inr s)\<rparr>"

lemmas sample_defs = sample_contract_def sample_db_def sample_db_env_def

end
