(* ===== verification/Responsibility.thy ===== *)
theory Responsibility
  imports Database
begin

text \<open>
  The responsibility stream of \<^verbatim>\<open>contract_responsibility.go\<close>: who answers for a contract, and
  whether the contract still binds anybody, as a versioned row per contract with an outbox event per
  change. \<open>enqueue_responsibility\<close> runs inside every transaction that may change either.
\<close>

section \<open>Operations\<close>

definition responsibility_active :: "contract_row \<Rightarrow> bool" where
  "responsibility_active r =
     (let live = (ct_origin_kind r = ''IMPORTED'' \<and> ct_import_mode r = ''CONTINUE_LIVE''
                  \<and> ct_responsibility_activated r \<noteq> None);
          eligible = (if ordinary_contract_record r then True
            else if live then
              (case ct_import_policy r of
                 JsonOk p \<Rightarrow> validate_import_policy import_continue_live (Some p) = Inr ()
                             \<and> ip_responsibility_mode p = ''ACTIVATE_ON_RELEASE''
               | _ \<Rightarrow> False)
            else False)
      in eligible \<and> ct_owner r \<noteq> [] \<and> ct_status r \<noteq> StatusTerminated \<and> ct_status r \<noteq> StatusArchived)"

definition new_responsibility_payload ::
  "string \<Rightarrow> contract_row \<Rightarrow> nat \<Rightarrow> instant \<Rightarrow> responsibility_payload" where
  "new_responsibility_payload i r ver now =
     \<lparr>rp_event_id = i, rp_event_type = ''contract.responsibility_changed.v1'',
      rp_tenant_id = ct_tenant r, rp_occurred_at = now, rp_contract_id = ct_id r, rp_version = ver,
      rp_owner_user_id = ct_owner r, rp_active = responsibility_active r\<rparr>"

definition stream_at :: "string \<Rightarrow> string \<Rightarrow> stream_row \<Rightarrow> bool" where
  "stream_at tenant cid s \<longleftrightarrow> rs_tenant s = tenant \<and> rs_contract s = cid"

definition stream_clash :: "stream_row \<Rightarrow> stream_row \<Rightarrow> bool" where
  "stream_clash a b \<longleftrightarrow> stream_at (rs_tenant a) (rs_contract a) b"

definition stream_of :: "db \<Rightarrow> string \<Rightarrow> string \<Rightarrow> stream_row option" where
  "stream_of d tenant cid = first_row (stream_at tenant cid) (db_streams d)"

definition stream_seed :: "string \<Rightarrow> string \<Rightarrow> instant \<Rightarrow> stream_row" where
  "stream_seed tenant cid now =
     \<lparr>rs_tenant = tenant, rs_contract = cid, rs_owner = [], rs_active = False, rs_version = 0,
      rs_updated_at = now\<rparr>"

definition emit_responsibility :: "env \<Rightarrow> string \<Rightarrow> contract_row \<Rightarrow> stream_row \<Rightarrow> db \<Rightarrow> db result" where
  "emit_responsibility e tenant r s d =
     (let (i, d1) = new_id e d;
          payload = new_responsibility_payload i r (rs_version s) (rs_updated_at s);
          row = new_outbox_row i tenant (rs_contract s) (rs_version s) payload (rs_updated_at s) (rs_updated_at s)
      in res_bind (insert_row outbox_clash row (db_responsibility_outbox d1))
           (\<lambda>rows. ok (d1\<lparr>db_responsibility_outbox := rows\<rparr>)))"

definition advance_stream :: "env \<Rightarrow> string \<Rightarrow> string \<Rightarrow> contract_row \<Rightarrow> stream_row \<Rightarrow> db \<Rightarrow> db result" where
  "advance_stream e tenant cid r s d =
     (let (t1, d1) = read_clock e d;
          s' = s\<lparr>rs_version := rs_version s + 1, rs_owner := ct_owner r,
                 rs_active := responsibility_active r, rs_updated_at := t1\<rparr>;
          d2 = d1\<lparr>db_streams := update_rows (stream_at tenant cid) (\<lambda>_. s') (db_streams d1)\<rparr>
      in res_bind (local_outbound_not_applicable r)
           (\<lambda>skip. if skip then ok d2 else emit_responsibility e tenant r s' d2))"

definition enqueue_responsibility :: "env \<Rightarrow> string \<Rightarrow> string \<Rightarrow> db \<Rightarrow> db result" where
  "enqueue_responsibility e tenant cid d =
     (case find_contract d tenant cid of
        None \<Rightarrow> fail err_no_record
      | Some r \<Rightarrow>
          let (t0, d1) = read_clock e d;
              d2 = d1\<lparr>db_streams := insert_ignore stream_clash (stream_seed tenant cid t0) (db_streams d1)\<rparr>
          in case stream_of d2 tenant cid of
               None \<Rightarrow> fail err_no_record
             | Some s \<Rightarrow>
                 if rs_version s > 0 \<and> rs_owner s = ct_owner r \<and> rs_active s = responsibility_active r
                 then ok d2
                 else advance_stream e tenant cid r s d2)"

text \<open>
  \<^verbatim>\<open>ReconcileContractResponsibilities\<close> gives the contracts without a stream their first one, in
  batches of 200 by identifier, each contract in a transaction of its own, until a batch is empty.
  The result is the count, the error if any, and the database. The loop may in principle run forever,
  so it is a partial function; that it returns is a theorem.
\<close>

definition streamless :: "db \<Rightarrow> contract_row list" where
  "streamless d = filter (\<lambda>r. stream_of d (ct_tenant r) (ct_id r) = None) (db_contracts d)"

fun reconcile_batch :: "env \<Rightarrow> contract_row list \<Rightarrow> nat \<Rightarrow> db \<Rightarrow> nat \<times> app_error option \<times> db" where
  "reconcile_batch e [] n d = (n, None, d)"
| "reconcile_batch e (r # rs) n d =
     (case enqueue_responsibility e (ct_tenant r) (ct_id r) d of
        Inl err \<Rightarrow> (n, Some err, d)
      | Inr d' \<Rightarrow> reconcile_batch e rs (n + 1) d')"

definition reconcile_rows :: "db \<Rightarrow> contract_row list" where
  "reconcile_rows d = take 200 (sort_key ct_id (streamless d))"

partial_function (option) reconcile_responsibilities ::
  "env \<Rightarrow> nat \<Rightarrow> db \<Rightarrow> (nat \<times> app_error option \<times> db) option" where
  "reconcile_responsibilities e n d =
     (if reconcile_rows d = [] then Some (n, None, d)
      else let res = reconcile_batch e (reconcile_rows d) n d
           in if fst (snd res) \<noteq> None then Some res
              else reconcile_responsibilities e (fst res) (snd (snd res)))"

definition claim_responsibility_deliveries ::
  "env \<Rightarrow> (string \<Rightarrow> bool) \<Rightarrow> int \<Rightarrow> db \<Rightarrow> db \<times> responsibility_payload delivery list" where
  "claim_responsibility_deliveries e skip limit d =
     (let (now, d1) = read_clock e d;
          (q, ds) = claim_deliveries skip now limit (db_responsibility_outbox d1)
      in (d1\<lparr>db_responsibility_outbox := q\<rparr>, ds))"

definition mark_responsibility_delivered :: "env \<Rightarrow> string \<Rightarrow> db \<Rightarrow> db result" where
  "mark_responsibility_delivered e i d =
     (let (now, d1) = read_clock e d
      in res_bind (mark_delivered err_no_record i now (db_responsibility_outbox d1))
           (\<lambda>q. ok (d1\<lparr>db_responsibility_outbox := q\<rparr>)))"

definition mark_responsibility_failed :: "env \<Rightarrow> string \<Rightarrow> string \<Rightarrow> nat \<Rightarrow> bool \<Rightarrow> db \<Rightarrow> db" where
  "mark_responsibility_failed e i message attempts dead d =
     (let (now, d1) = read_clock e d
      in d1\<lparr>db_responsibility_outbox := mark_failed i message attempts dead now (db_responsibility_outbox d1)\<rparr>)"

section \<open>What an enqueue changes\<close>

definition responsibility_frame :: "db \<Rightarrow> db \<Rightarrow> bool" where
  "responsibility_frame d d' \<longleftrightarrow>
     d' = d\<lparr>db_tick := db_tick d', db_seq := db_seq d', db_streams := db_streams d',
             db_responsibility_outbox := db_responsibility_outbox d'\<rparr>"

lemma responsibility_frameD:
  assumes "responsibility_frame d d'"
  shows "db_contracts d' = db_contracts d" "db_terms d' = db_terms d" "db_lifecycle d' = db_lifecycle d"
    "db_instances d' = db_instances d" "db_tasks d' = db_tasks d" "db_registry d' = db_registry d"
    "db_audit d' = db_audit d" "db_project_outbox d' = db_project_outbox d"
    "db_financial_outbox d' = db_financial_outbox d" "db_stamped d' = db_stamped d"
    "db_signing d' = db_signing d" "db_number_rules d' = db_number_rules d"
    "db_sequences d' = db_sequences d" "db_actions d' = db_actions d"
    "db_snapshots d' = db_snapshots d" "db_notifications d' = db_notifications d"
    "db_rules d' = db_rules d" "db_confirmations d' = db_confirmations d"
    "db_link_outbox d' = db_link_outbox d"
    "db_freezes d' = db_freezes d" "db_receipts d' = db_receipts d" "db_intakes d' = db_intakes d"
    "db_intake_reviews d' = db_intake_reviews d"
  using assms unfolding responsibility_frame_def by - (erule ssubst, simp)+

lemma responsibility_frame_trans:
  assumes "responsibility_frame d d1" and "responsibility_frame d1 d2"
  shows "responsibility_frame d d2"
  unfolding responsibility_frame_def
  by (rule db.equality) (simp_all add: responsibility_frameD [OF assms(1)] responsibility_frameD [OF assms(2)])

lemma stream_of_insert:
  "first_row (stream_at t c) (insert_ignore stream_clash (stream_seed t' c' now) rows) =
     (case first_row (stream_at t c) rows of
        Some s \<Rightarrow> Some s
      | None \<Rightarrow> if t = t' \<and> c = c' then Some (stream_seed t' c' now) else None)"
proof (cases "list_ex (stream_clash (stream_seed t' c' now)) rows")
  case True
  then have "first_row (stream_at t' c') rows \<noteq> None"
    by (auto simp: list_ex_iff stream_clash_def stream_seed_def first_row_None)
  then show ?thesis using True by (auto simp: insert_ignore_def split: option.splits)
next
  case False
  then have none: "first_row (stream_at t' c') rows = None"
    by (auto simp: list_ex_iff stream_clash_def stream_seed_def first_row_None)
  have "stream_at t c (stream_seed t' c' now) \<longleftrightarrow> t = t' \<and> c = c'"
    by (auto simp: stream_at_def stream_seed_def)
  with False none show ?thesis by (auto simp: insert_ignore_def first_row_append split: option.splits)
qed

lemma stream_of_save:
  assumes "first_row (stream_at t' c') rows = Some s" and "stream_at t' c' s'"
  shows "first_row (stream_at t c) (update_rows (stream_at t' c') (\<lambda>_. s') rows) =
    (if t = t' \<and> c = c' then Some s' else first_row (stream_at t c) rows)"
proof (cases "t = t' \<and> c = c'")
  case True
  have "first_row (stream_at t' c') (update_rows (stream_at t' c') (\<lambda>_. s') rows) = Some s'"
    using assms by (simp add: first_row_update_rows) (meson first_row_SomeD(2))
  with True show ?thesis by simp
next
  case False
  have "first_row (stream_at t c) (update_rows (stream_at t' c') (\<lambda>_. s') rows)
      = first_row (stream_at t c) rows"
    using False assms(2) by (induction rows) (auto simp: stream_at_def)
  with False show ?thesis by auto
qed

definition stream_matches :: "contract_row \<Rightarrow> stream_row \<Rightarrow> bool" where
  "stream_matches r s \<longleftrightarrow>
     0 < rs_version s \<and> rs_owner s = ct_owner r \<and> rs_active s = responsibility_active r"

text \<open>The version the stream of a contract gets: one more exactly when something changed.\<close>

definition next_stream_version :: "contract_row \<Rightarrow> stream_row option \<Rightarrow> nat" where
  "next_stream_version r so =
     (case so of None \<Rightarrow> 1 | Some s \<Rightarrow> if stream_matches r s then rs_version s else rs_version s + 1)"

lemma advance_stream_ok:
  assumes "advance_stream e tenant cid r s d = Inr d'" and "stream_of d tenant cid = Some s"
  shows "responsibility_frame d d'"
    and "\<exists>s'. stream_matches r s' \<and> rs_version s' = rs_version s + 1
      \<and> (\<forall>t c. stream_of d' t c = (if (t, c) = (tenant, cid) then Some s' else stream_of d t c))"
proof -
  define s' where "s' = s\<lparr>rs_version := rs_version s + 1, rs_owner := ct_owner r,
      rs_active := responsibility_active r, rs_updated_at := env_clock e (db_tick d)\<rparr>"
  define d2 where "d2 = d\<lparr>db_tick := db_tick d + 1,
      db_streams := update_rows (stream_at tenant cid) (\<lambda>_. s') (db_streams d)\<rparr>"
  have run: "res_bind (local_outbound_not_applicable r)
      (\<lambda>skip. if skip then ok d2 else emit_responsibility e tenant r s' d2) = Inr d'"
    using assms(1) by (simp add: advance_stream_def read_clock_def Let_def s'_def d2_def cong: if_cong)
  have step: "responsibility_frame d2 d' \<and> db_streams d' = db_streams d2"
    using run by (auto simp: res_bind_eq_ok emit_responsibility_def new_id_def Let_def
        responsibility_frame_def split: if_splits)
  have "responsibility_frame d d2" by (simp add: responsibility_frame_def d2_def)
  with step show "responsibility_frame d d'" by (blast intro: responsibility_frame_trans)
  have "stream_at tenant cid s" using assms(2) by (auto simp: stream_of_def dest: first_row_SomeD)
  then have "stream_at tenant cid s'" by (simp add: s'_def stream_at_def)
  from stream_of_save [OF assms(2) [unfolded stream_of_def] this]
  have "stream_of d2 t c = (if (t, c) = (tenant, cid) then Some s' else stream_of d t c)" for t c
    by (simp add: stream_of_def d2_def)
  moreover have "stream_of d' t c = stream_of d2 t c" for t c using step by (simp add: stream_of_def)
  ultimately show "\<exists>s'. stream_matches r s' \<and> rs_version s' = rs_version s + 1
      \<and> (\<forall>t c. stream_of d' t c = (if (t, c) = (tenant, cid) then Some s' else stream_of d t c))"
    by (intro exI [of _ s']) (simp add: stream_matches_def s'_def)
qed

lemma enqueue_responsibility_ok:
  assumes "enqueue_responsibility e tenant cid d = Inr d'" and "find_contract d tenant cid = Some r"
  shows "responsibility_frame d d'"
    and "\<exists>s. stream_of d' tenant cid = Some s \<and> stream_matches r s
           \<and> rs_version s = next_stream_version r (stream_of d tenant cid)"
    and "\<And>t c. (t, c) \<noteq> (tenant, cid) \<Longrightarrow> stream_of d' t c = stream_of d t c"
proof -
  define t0 where "t0 = env_clock e (db_tick d)"
  define d2 where "d2 = d\<lparr>db_tick := db_tick d + 1,
      db_streams := insert_ignore stream_clash (stream_seed tenant cid t0) (db_streams d)\<rparr>"
  define s where "s = (case stream_of d tenant cid of Some s \<Rightarrow> s | None \<Rightarrow> stream_seed tenant cid t0)"
  have s: "stream_of d2 tenant cid = Some s"
    by (simp add: d2_def s_def stream_of_def stream_of_insert split: option.splits)
  have other: "stream_of d2 t c = stream_of d t c" if "(t, c) \<noteq> (tenant, cid)" for t c
    using that by (auto simp: d2_def stream_of_def stream_of_insert split: option.splits)
  have frame2: "responsibility_frame d d2"
    by (simp add: responsibility_frame_def d2_def)
  have ver: "next_stream_version r (stream_of d tenant cid) =
      (if stream_matches r s then rs_version s else rs_version s + 1)"
    by (auto simp: next_stream_version_def s_def stream_matches_def stream_seed_def split: option.splits)
  have run: "enqueue_responsibility e tenant cid d
      = (if stream_matches r s then ok d2 else advance_stream e tenant cid r s d2)"
    using s assms(2)
    by (simp add: enqueue_responsibility_def read_clock_def d2_def t0_def stream_matches_def Let_def)
  have "responsibility_frame d d' \<and> (\<exists>s'. stream_of d' tenant cid = Some s' \<and> stream_matches r s'
      \<and> rs_version s' = next_stream_version r (stream_of d tenant cid))
    \<and> (\<forall>t c. (t, c) \<noteq> (tenant, cid) \<longrightarrow> stream_of d' t c = stream_of d t c)"
  proof (cases "stream_matches r s")
    case True
    with run assms(1) have "d' = d2" by simp
    with True s other frame2 ver show ?thesis by simp
  next
    case False
    with run assms(1) have adv: "advance_stream e tenant cid r s d2 = Inr d'" by simp
    note a = advance_stream_ok [OF adv s]
    from a(1) frame2 have "responsibility_frame d d'" by (blast intro: responsibility_frame_trans)
    with a(2) other False ver show ?thesis by auto
  qed
  then show "responsibility_frame d d'"
    and "\<exists>s. stream_of d' tenant cid = Some s \<and> stream_matches r s
           \<and> rs_version s = next_stream_version r (stream_of d tenant cid)"
    and "\<And>t c. (t, c) \<noteq> (tenant, cid) \<Longrightarrow> stream_of d' t c = stream_of d t c" by auto
qed

lemma enqueue_needs_contract:
  "enqueue_responsibility e tenant cid d = Inr d' \<Longrightarrow> \<exists>r. find_contract d tenant cid = Some r"
  by (auto simp: enqueue_responsibility_def split: option.splits)

section \<open>The stream as a versioned register\<close>

text \<open>The specification: a register per contract whose version grows by one with every change of the
  value and with nothing else.\<close>

definition register_write :: "'v \<Rightarrow> ('v \<times> nat) option \<Rightarrow> ('v \<times> nat) option" where
  "register_write v reg =
     (case reg of None \<Rightarrow> Some (v, 1)
      | Some (u, n) \<Rightarrow> if 0 < n \<and> u = v then Some (u, n) else Some (v, n + 1))"

definition stream_register :: "db \<Rightarrow> string \<times> string \<Rightarrow> ((string \<times> bool) \<times> nat) option" where
  "stream_register d k =
     map_option (\<lambda>s. ((rs_owner s, rs_active s), rs_version s)) (stream_of d (fst k) (snd k))"

text \<open>C33: enqueuing refines writing the current owner and activity of the contract into its register:
  the version moves by one exactly when one of them differs, and no other contract is touched.\<close>

theorem responsibility_refines_register:
  assumes "enqueue_responsibility e tenant cid d = Inr d'" and "find_contract d tenant cid = Some r"
  shows "stream_register d' = (stream_register d)((tenant, cid) :=
           register_write (ct_owner r, responsibility_active r) (stream_register d (tenant, cid)))"
proof
  fix k
  note ok = enqueue_responsibility_ok [OF assms]
  show "stream_register d' k = ((stream_register d)((tenant, cid) :=
      register_write (ct_owner r, responsibility_active r) (stream_register d (tenant, cid)))) k"
  proof (cases "k = (tenant, cid)")
    case True
    with ok(2) show ?thesis
      by (auto simp: stream_register_def register_write_def next_stream_version_def stream_matches_def
          split: option.splits if_splits)
  next
    case False
    with ok(3) [of "fst k" "snd k"] show ?thesis by (simp add: stream_register_def)
  qed
qed

section \<open>Reconciliation returns\<close>

lemma reconcile_batch_ok:
  "reconcile_batch e rs n d = (m, None, d') \<Longrightarrow>
     db_contracts d' = db_contracts d \<and> m = n + length rs
     \<and> (\<forall>t c. stream_of d t c \<noteq> None \<longrightarrow> stream_of d' t c \<noteq> None)
     \<and> (\<forall>r \<in> set rs. stream_of d' (ct_tenant r) (ct_id r) \<noteq> None)"
proof (induction e rs n d rule: reconcile_batch.induct)
  case (2 e r rs n d)
  from 2(2) obtain d1 where d1: "enqueue_responsibility e (ct_tenant r) (ct_id r) d = Inr d1"
    "reconcile_batch e rs (n + 1) d1 = (m, None, d')" by (auto split: sum.splits)
  from enqueue_needs_contract [OF d1(1)] obtain c where c: "find_contract d (ct_tenant r) (ct_id r) = Some c"
    by blast
  note ok = enqueue_responsibility_ok [OF d1(1) c]
  have some: "stream_of d1 (ct_tenant r) (ct_id r) \<noteq> None" using ok(2) by auto
  have keep: "stream_of d1 t k \<noteq> None" if "stream_of d t k \<noteq> None" for t k
    using ok(3) [of t k] some that by (cases "(t, k) = (ct_tenant r, ct_id r)") auto
  from 2(1) [OF d1] responsibility_frameD(1) [OF ok(1)] some keep show ?case by auto
qed simp

lemma set_reconcile_rows: "set (reconcile_rows d) \<subseteq> set (streamless d)"
  using set_take_subset [of 200 "sort_key ct_id (streamless d)"] by (simp add: reconcile_rows_def)

lemma reconcile_rows_empty: "reconcile_rows d = [] \<longleftrightarrow> streamless d = []"
proof -
  have "sort_key ct_id (streamless d) = [] \<longleftrightarrow> streamless d = []"
    by (metis length_0_conv length_sort)
  then show ?thesis by (simp add: reconcile_rows_def)
qed

lemma reconcile_batch_progress:
  assumes "reconcile_batch e (reconcile_rows d) n d = (m, None, d')" and "reconcile_rows d \<noteq> []"
  shows "length (streamless d') < length (streamless d)"
proof -
  let ?has = "\<lambda>d r. stream_of d (ct_tenant r) (ct_id r) \<noteq> None"
  note ok = reconcile_batch_ok [OF assms(1)]
  let ?r = "hd (reconcile_rows d)"
  have r: "?r \<in> set (reconcile_rows d)" using assms(2) by simp
  then have "?r \<in> set (streamless d)" using set_reconcile_rows by auto
  moreover have "?has d' ?r" using ok r by auto
  moreover have eq: "streamless d' = filter (\<lambda>r. \<not> ?has d' r) (streamless d)"
  proof -
    have mono: "stream_of d' t c = None \<Longrightarrow> stream_of d t c = None" for t c using ok by blast
    show ?thesis using ok mono by (auto simp: streamless_def intro!: filter_cong)
  qed
  ultimately show ?thesis unfolding eq by (intro length_filter_less) auto
qed

text \<open>C34: the loop that gives contracts their first stream always returns, and when it reports no error
  every contract has a stream.\<close>

theorem reconcile_responsibilities_returns:
  "\<exists>m err d'. reconcile_responsibilities e n d = Some (m, err, d')
     \<and> (err = None \<longrightarrow> streamless d' = [])"
proof (induction "length (streamless d)" arbitrary: n d rule: less_induct)
  case less
  obtain m err d1 where run: "reconcile_batch e (reconcile_rows d) n d = (m, err, d1)"
    by (metis prod.exhaust)
  show ?case
  proof (cases "reconcile_rows d = [] \<or> err \<noteq> None")
    case True
    with run show ?thesis
      by (auto simp: reconcile_responsibilities.simps [of e n d] reconcile_rows_empty)
  next
    case False
    with run have batch: "reconcile_batch e (reconcile_rows d) n d = (m, None, d1)" by simp
    from reconcile_batch_progress [OF batch] False have "length (streamless d1) < length (streamless d)" by simp
    from less [OF this, of m] False batch show ?thesis
      by (simp add: reconcile_responsibilities.simps [of e n d])
  qed
qed

lemma sample_enqueue:
  "\<exists>d'. enqueue_responsibility sample_db_env ''t1'' ''c1'' (sample_db [sample_contract]) = Inr d'"
  by (simp add: enqueue_responsibility_def sample_defs find_contract_def contract_at_def read_clock_def
      new_id_def stream_of_def insert_ignore_def stream_clash_def stream_seed_def stream_at_def
      advance_stream_def local_outbound_not_applicable_def emit_responsibility_def insert_row_def Let_def)

theorem responsibility_refines_register_witness:
  "\<exists>d'. stream_register d' (''t1'', ''c1'') = Some ((''u1'', True), 1)"
proof -
  from sample_enqueue obtain d' where
    d': "enqueue_responsibility sample_db_env ''t1'' ''c1'' (sample_db [sample_contract]) = Inr d'" by blast
  have find: "find_contract (sample_db [sample_contract]) ''t1'' ''c1'' = Some sample_contract"
    by (simp add: find_contract_def contract_at_def sample_defs)
  have none: "stream_register (sample_db [sample_contract]) (''t1'', ''c1'') = None"
    by (simp add: stream_register_def stream_of_def sample_db_def)
  have act: "responsibility_active sample_contract" and own: "ct_owner sample_contract = ''u1''"
    by (simp_all add: sample_contract_def responsibility_active_def ordinary_contract_record_def json_empty_def)
  from fun_cong [OF responsibility_refines_register [OF d' find], of "(''t1'', ''c1'')"]
  have "stream_register d' (''t1'', ''c1'') = Some ((''u1'', True), 1)"
    by (simp add: register_write_def none act own)
  then show ?thesis by blast
qed

theorem reconcile_responsibilities_returns_witness:
  "\<exists>m err d'. reconcile_responsibilities sample_db_env 0 (sample_db [sample_contract]) = Some (m, err, d')"
  using reconcile_responsibilities_returns [of sample_db_env 0 "sample_db [sample_contract]"] by blast

end
