(* ===== verification/Number_Allocation.thy ===== *)
theory Number_Allocation
  imports Responsibility
begin

text \<open>
  Issuing contract numbers (\<^verbatim>\<open>contract_number.go\<close>). The sequence of a bucket (year and rule
  fingerprint) only proposes numbers; the primary key of the registry decides, and an occupied number
  makes the allocation go on to the next one, at most 50 times. Keys of the registry are compared by
  collation. The registry and sequence tables are taken to exist whenever the rule table does.
\<close>

section \<open>The rule and the sequences\<close>

definition err_relation_missing :: app_error where
  "err_relation_missing = ErrStorage ''Error 1146''"

definition err_out_of_range :: app_error where
  "err_out_of_range = ErrStorage ''Error 1264''"

text \<open>\<^verbatim>\<open>readContractNumberRule\<close>; the only row has the fixed key 1.\<close>

definition read_number_rule :: "db \<Rightarrow> number_rule option result" where
  "read_number_rule d =
     (case db_number_rules d of
        None \<Rightarrow> fail err_relation_missing
      | Some [] \<Rightarrow> ok None
      | Some (r # _) \<Rightarrow> ok (Some (nrr_rule r)))"

definition save_number_rule :: "number_rule \<Rightarrow> db \<Rightarrow> db result" where
  "save_number_rule rule d =
     (case db_number_rules d of
        None \<Rightarrow> fail err_relation_missing
      | Some _ \<Rightarrow> ok (d\<lparr>db_number_rules :=
          Some [\<lparr>nrr_rule = rule\<lparr>nr_seq_width := nr_seq_width rule mod 256\<rparr>\<rparr>]\<rparr>))"

definition in_bucket :: "int \<Rightarrow> string \<Rightarrow> sequence_row \<Rightarrow> bool" where
  "in_bucket year key s \<longleftrightarrow> sq_year s = year \<and> sq_key s = key"

definition sequence_value :: "string \<Rightarrow> int \<Rightarrow> db \<Rightarrow> nat" where
  "sequence_value key year d =
     (case first_row (in_bucket year key) (db_sequences d) of None \<Rightarrow> 0 | Some s \<Rightarrow> sq_value s)"

text \<open>The upsert: \<^verbatim>\<open>seq_year\<close> is a 16 bit and \<^verbatim>\<open>current_value\<close> a 32 bit unsigned column.\<close>

definition next_sequence :: "string \<Rightarrow> int \<Rightarrow> instant \<Rightarrow> db \<Rightarrow> (nat \<times> db) result" where
  "next_sequence key year now d =
     (if year < 0 \<or> 65535 < year then fail err_out_of_range
      else case first_row (in_bucket year key) (db_sequences d) of
        None \<Rightarrow>
          ok (1, d\<lparr>db_sequences := db_sequences d @
                     [\<lparr>sq_year = year, sq_key = key, sq_value = 1, sq_updated_at = now\<rparr>]\<rparr>)
      | Some s \<Rightarrow>
          if sq_value s + 1 > 2 ^ 32 - 1 then fail err_out_of_range
          else ok (sq_value s + 1,
                   d\<lparr>db_sequences := update_rows (in_bucket year key)
                       (\<lambda>r. r\<lparr>sq_value := sq_value s + 1, sq_updated_at := now\<rparr>) (db_sequences d)\<rparr>))"

section \<open>The registry\<close>

definition registry_match :: "env \<Rightarrow> string \<Rightarrow> registry_row \<Rightarrow> bool" where
  "registry_match e number r \<longleftrightarrow> env_collate e (rg_number r) = env_collate e number"

definition registered :: "env \<Rightarrow> string \<Rightarrow> db \<Rightarrow> bool" where
  "registered e number d \<longleftrightarrow> list_ex (registry_match e number) (db_registry d)"

text \<open>\<^verbatim>\<open>reserveContractNumberInTx\<close>: the insert fails exactly on a registered number, and then
  the locking read finds it.\<close>

definition reserve_number ::
  "env \<Rightarrow> string \<Rightarrow> string \<Rightarrow> string \<Rightarrow> int \<Rightarrow> string \<Rightarrow> instant \<Rightarrow> db \<Rightarrow> (bool \<times> db) result" where
  "reserve_number e number tenant cid year key now d =
     (let row = \<lparr>rg_number = number, rg_tenant = tenant, rg_contract = cid, rg_year = year,
                 rg_key = key, rg_issued_at = now\<rparr>
      in case insert_row (\<lambda>a b. registry_match e (rg_number a) b) row (db_registry d) of
           Inr rows \<Rightarrow> ok (True, d\<lparr>db_registry := rows\<rparr>)
         | Inl err \<Rightarrow> if registered e number d then ok (False, d) else fail err)"

section \<open>The legacy format\<close>

text \<open>The generic algorithm of \<^verbatim>\<open>strings.NewReplacer\<close>: at each position the first pair whose old
  text is a prefix is replaced; without one a byte is copied.\<close>

definition match_pair :: "(string \<times> string) list \<Rightarrow> string \<Rightarrow> (string \<times> string) option" where
  "match_pair pairs s = List.find (\<lambda>p. fst p \<noteq> [] \<and> is_prefix (fst p) s) pairs"

function replace_pairs :: "(string \<times> string) list \<Rightarrow> string \<Rightarrow> string" where
  "replace_pairs pairs [] = []"
| "replace_pairs pairs (c # s) =
     (case match_pair pairs (c # s) of
        None \<Rightarrow> c # replace_pairs pairs s
      | Some p \<Rightarrow> snd p @ replace_pairs pairs (drop (length (fst p)) (c # s)))"
  by pat_completeness auto
termination
  by (relation "measure (\<lambda>(pairs, s). length s)")
    (auto simp: match_pair_def dest!: find_Some_iff [THEN iffD1])

definition default_number_format :: string where
  "default_number_format = ''HT-{YYYYMMDD}-{ID8}''"

definition format_contract_number :: "zone option \<Rightarrow> string \<Rightarrow> string \<Rightarrow> instant \<Rightarrow> string" where
  "format_contract_number zone format cid now =
     (let fmt = (if format = [] then default_number_format else format);
          id8 = (if length cid > 8 then drop (length cid - 8) cid else cid);
          c = local_civil (location zone) now;
          y = fmt_pad_int 4 (civil_year c); m = fmt_pad 2 (civil_month c); dd = fmt_pad 2 (civil_day c)
      in replace_pairs
           [(''{YYYYMMDD}'', y @ m @ dd), (''{YYYY}'', y), (''{MM}'', m), (''{DD}'', dd), (''{ID8}'', id8)] fmt)"

section \<open>Allocation\<close>

definition conflict_attempts :: nat where "conflict_attempts = 50"

text \<open>The loop over the attempts; the first argument is the number of attempts left.\<close>

fun allocate_attempts ::
  "nat \<Rightarrow> env \<Rightarrow> string \<Rightarrow> string \<Rightarrow> number_rule \<Rightarrow> string \<Rightarrow> int \<Rightarrow> instant \<Rightarrow> db \<Rightarrow> (string \<times> db) result" where
  "allocate_attempts 0 e tenant cid rule key year now d = fail ErrNumberExhausted"
| "allocate_attempts (Suc k) e tenant cid rule key year now d =
     res_bind (next_sequence key year now d) (\<lambda>(seq, d1).
     res_bind (build_contract_number rule year seq) (\<lambda>number.
     res_bind (reserve_number e number tenant cid year key now d1) (\<lambda>(reserved, d2).
       if reserved then ok (number, d2)
       else allocate_attempts k e tenant cid rule key year now d2)))"

definition allocate_number ::
  "env \<Rightarrow> string \<Rightarrow> string \<Rightarrow> string \<Rightarrow> instant \<Rightarrow> db \<Rightarrow> (string \<times> db) result" where
  "allocate_number e tenant cid legacy now d =
     (case read_number_rule d of
        Inl err \<Rightarrow>
          if err \<noteq> err_relation_missing then fail err
          else ok (format_contract_number (env_zone e) legacy cid now, d)
      | Inr None \<Rightarrow> ok (format_contract_number (env_zone e) legacy cid now, d)
      | Inr (Some rule) \<Rightarrow>
          res_bind (contract_number_rule_key (env_sha256 e) rule) (\<lambda>key.
            allocate_attempts conflict_attempts e tenant cid rule key
              (clock_year_of (env_zone e) now) now d))"

section \<open>Writing the number into the contract\<close>

definition number_label :: string where
  "number_label = map char_of [0xE5, 0x90, 0x88, 0xE5, 0x90, 0x8C, 0xE7, 0xBC, 0x96, 0xE5, 0x8F, 0xB7 :: nat]"

definition system_number_label :: string where
  "system_number_label = map char_of [0xE7, 0xB3, 0xBB, 0xE7, 0xBB, 0x9F :: nat] @ number_label"

text \<open>The template values with every existing number entry replaced.\<close>

definition number_values :: "string \<Rightarrow> (string \<rightharpoonup> string) \<Rightarrow> (string \<rightharpoonup> string)" where
  "number_values number values =
     (\<lambda>k. if k \<in> {number_label, system_number_label} \<and> values k \<noteq> None then Some number else values k)"

definition approved_number_updates :: "env \<Rightarrow> contract_row \<Rightarrow> string \<Rightarrow> (contract_row \<Rightarrow> contract_row) result" where
  "approved_number_updates e current number =
     (let updates = (\<lambda>r. r\<lparr>ct_number := Some number\<rparr>) in
      if ct_document current = [] then ok updates
      else res_bind (env_doc_format e (ct_document_format current) (ct_document current)) (\<lambda>format.
        if format = ''PDF'' then ok updates
        else res_bind (env_doc_number e (ct_document current) number) (\<lambda>document.
          if document = ct_document current then ok updates
          else res_bind (env_doc_text e document) (\<lambda>content.
            let updates2 = (\<lambda>r. (updates r)\<lparr>ct_document := document, ct_content := content,
                               ct_content_hash := Some (env_sha256 e document)\<rparr>)
            in case ct_template_values current of
                 JsonEmpty \<Rightarrow> ok updates2
               | JsonNull \<Rightarrow> ok updates2
               | JsonBad \<Rightarrow> fail err_decode
               | JsonOk values \<Rightarrow>
                   ok (\<lambda>r. (updates2 r)\<lparr>ct_template_values := JsonOk (number_values number values)\<rparr>)))))"

text \<open>The part of \<^verbatim>\<open>CompleteApproval\<close> that gives a contract without a number one: the statement
  writes only rows that still have none, and its unique key is the number within the tenant.\<close>

definition unnumbered :: "contract_row \<Rightarrow> bool" where
  "unnumbered r \<longleftrightarrow> ct_number r = None \<or> ct_number r = Some []"

definition issue_number :: "env \<Rightarrow> string \<Rightarrow> contract_row \<Rightarrow> db \<Rightarrow> db result" where
  "issue_number e tenant current d =
     (let (now, d1) = read_clock e d
      in res_bind (allocate_number e tenant (ct_id current) (ct_number_format current) now d1) (\<lambda>(number, d2).
         res_bind (approved_number_updates e current number) (\<lambda>updates.
           let hit = (\<lambda>r. contract_at tenant (ct_id current) r \<and> unnumbered r) in
           if list_ex (\<lambda>r. ct_tenant r = tenant \<and> ct_id r \<noteq> ct_id current \<and> ct_number r \<noteq> None
                \<and> env_collate e (the (ct_number r)) = env_collate e number) (db_contracts d2)
              \<and> rows_affected hit (db_contracts d2) \<noteq> 0
           then fail ErrNumberConflict
           else if rows_affected hit (db_contracts d2) \<noteq> 1 then fail ErrStateConflict
           else ok (d2\<lparr>db_contracts := update_rows hit updates (db_contracts d2)\<rparr>))))"

section \<open>What an allocation changes\<close>

definition allocation_frame :: "db \<Rightarrow> db \<Rightarrow> bool" where
  "allocation_frame d d' \<longleftrightarrow>
     d' = d\<lparr>db_sequences := db_sequences d', db_registry := db_registry d'\<rparr>"

lemma allocation_frameD:
  assumes "allocation_frame d d'"
  shows "db_tick d' = db_tick d" "db_seq d' = db_seq d" "db_contracts d' = db_contracts d"
    "db_number_rules d' = db_number_rules d" "db_instances d' = db_instances d"
    "db_lifecycle d' = db_lifecycle d" "db_tasks d' = db_tasks d" "db_terms d' = db_terms d"
    "db_streams d' = db_streams d" "db_audit d' = db_audit d" "db_stamped d' = db_stamped d"
    "db_signing d' = db_signing d" "db_actions d' = db_actions d" "db_snapshots d' = db_snapshots d"
    "db_project_outbox d' = db_project_outbox d" "db_financial_outbox d' = db_financial_outbox d"
    "db_responsibility_outbox d' = db_responsibility_outbox d" "db_notifications d' = db_notifications d"
    "db_rules d' = db_rules d" "db_confirmations d' = db_confirmations d"
    "db_link_outbox d' = db_link_outbox d"
    "db_freezes d' = db_freezes d" "db_receipts d' = db_receipts d" "db_intakes d' = db_intakes d"
    "db_intake_reviews d' = db_intake_reviews d"
  using assms unfolding allocation_frame_def by - (erule ssubst, simp)+

lemma allocation_frame_refl [simp]: "allocation_frame d d"
  by (simp add: allocation_frame_def)

lemma allocation_frame_trans:
  assumes "allocation_frame d d1" and "allocation_frame d1 d2"
  shows "allocation_frame d d2"
  unfolding allocation_frame_def
  by (rule db.equality) (simp_all add: allocation_frameD [OF assms(1)] allocation_frameD [OF assms(2)])

lemma bucket_update:
  assumes "first_row (in_bucket year key) rows = Some s"
  shows "first_row (in_bucket y k)
      (update_rows (in_bucket year key) (\<lambda>r. r\<lparr>sq_value := v, sq_updated_at := now\<rparr>) rows) =
    (if y = year \<and> k = key then Some (s\<lparr>sq_value := v, sq_updated_at := now\<rparr>)
     else first_row (in_bucket y k) rows)"
proof (cases "y = year \<and> k = key")
  case True
  have "first_row (in_bucket year key)
      (update_rows (in_bucket year key) (\<lambda>r. r\<lparr>sq_value := v, sq_updated_at := now\<rparr>) rows)
    = map_option (\<lambda>r. if in_bucket year key r then r\<lparr>sq_value := v, sq_updated_at := now\<rparr> else r)
        (first_row (in_bucket year key) rows)"
    by (rule first_row_update_rows) (simp add: in_bucket_def)
  with True assms first_row_SomeD(2) [OF assms] show ?thesis by simp
next
  case False
  then have "first_row (in_bucket y k)
      (update_rows (in_bucket year key) (\<lambda>r. r\<lparr>sq_value := v, sq_updated_at := now\<rparr>) rows)
    = first_row (in_bucket y k) rows"
    by (induction rows) (auto simp: in_bucket_def)
  with False show ?thesis by auto
qed

lemma next_sequence_ok:
  assumes "next_sequence key year now d = Inr (seq, d')"
  shows "seq = sequence_value key year d + 1" and "allocation_frame d d'"
    and "db_registry d' = db_registry d"
    and "sequence_value k y d' = (if k = key \<and> y = year then seq else sequence_value k y d)"
proof -
  show "seq = sequence_value key year d + 1" "allocation_frame d d'" "db_registry d' = db_registry d"
    using assms by (auto simp: next_sequence_def sequence_value_def allocation_frame_def
        split: if_splits option.splits)
  show "sequence_value k y d' = (if k = key \<and> y = year then seq else sequence_value k y d)"
    using assms by (auto simp: next_sequence_def sequence_value_def bucket_update first_row_append
        in_bucket_def [of _ _ "\<lparr>sq_year = _, sq_key = _, sq_value = _, sq_updated_at = _\<rparr>"]
        split: if_splits option.splits)
qed

lemma next_sequence_total:
  assumes "0 \<le> year" and "year \<le> 65535" and "sequence_value key year d + 1 < 2 ^ 32"
  shows "\<exists>d'. next_sequence key year now d = Inr (sequence_value key year d + 1, d')"
  using assms by (auto simp: next_sequence_def sequence_value_def split: option.splits)

lemma reserve_number_eq:
  "reserve_number e number tenant cid year key now d =
     (if registered e number d then Inr (False, d)
      else Inr (True, d\<lparr>db_registry := db_registry d @
             [\<lparr>rg_number = number, rg_tenant = tenant, rg_contract = cid, rg_year = year,
               rg_key = key, rg_issued_at = now\<rparr>]\<rparr>))"
  by (auto simp: reserve_number_def insert_row_def registered_def Let_def)

lemma registered_append:
  "registered e n (d\<lparr>db_registry := db_registry d @ [r]\<rparr>) \<longleftrightarrow>
     registered e n d \<or> env_collate e (rg_number r) = env_collate e n"
  by (auto simp: registered_def registry_match_def)

lemma registered_cong:
  "db_registry d' = db_registry d \<Longrightarrow> registered e n d' = registered e n d"
  by (simp add: registered_def)

text \<open>A number an allocation returns was free, is now registered for its contract, and comes from the
  sequence of its bucket, the only one that moved.\<close>

lemma allocate_attempts_ok:
  assumes "allocate_attempts k e tenant cid rule key year now d = Inr (number, d')"
  shows "allocation_frame d d' \<and> \<not> registered e number d
    \<and> db_registry d' = db_registry d @
        [\<lparr>rg_number = number, rg_tenant = tenant, rg_contract = cid, rg_year = year,
          rg_key = key, rg_issued_at = now\<rparr>]
    \<and> sequence_value key year d < sequence_value key year d'
    \<and> build_contract_number rule year (sequence_value key year d') = Inr number
    \<and> (\<forall>k y. (k, y) \<noteq> (key, year) \<longrightarrow> sequence_value k y d' = sequence_value k y d)"
  using assms
proof (induction k arbitrary: d)
  case (Suc k)
  from Suc.prems obtain seq d1 n where
    seq: "next_sequence key year now d = Inr (seq, d1)" and
    n: "build_contract_number rule year seq = Inr n" and
    run: "res_bind (reserve_number e n tenant cid year key now d1) (\<lambda>(reserved, d2).
       if reserved then ok (n, d2)
       else allocate_attempts k e tenant cid rule key year now d2) = Inr (number, d')"
    by (auto simp: res_bind_eq_ok)
  note s = next_sequence_ok [OF seq]
  have reg: "registered e m d1 = registered e m d" for m using s(3) by (rule registered_cong)
  show ?case
  proof (cases "registered e n d1")
    case True
    with run have "allocate_attempts k e tenant cid rule key year now d1 = Inr (number, d')"
      by (simp add: reserve_number_eq)
    from Suc.IH [OF this] s reg show ?thesis
      by (auto intro: allocation_frame_trans)
  next
    case False
    define d2 where "d2 = d1\<lparr>db_registry := db_registry d1 @
        [\<lparr>rg_number = n, rg_tenant = tenant, rg_contract = cid, rg_year = year,
          rg_key = key, rg_issued_at = now\<rparr>]\<rparr>"
    from False run have eq: "number = n" "d' = d2"
      by (auto simp: reserve_number_eq d2_def)
    have sv: "sequence_value k y d2 = sequence_value k y d1" for k y
      by (simp add: d2_def sequence_value_def)
    have "allocation_frame d1 d2" by (simp add: allocation_frame_def d2_def)
    with s(2) have "allocation_frame d d2" by (rule allocation_frame_trans)
    with False reg s n show ?thesis
      unfolding eq by (auto simp: sv) (simp_all add: d2_def)
  qed
qed simp

lemma allocate_number_ok:
  assumes "allocate_number e tenant cid legacy now d = Inr (number, d')"
  shows "allocation_frame d d'"
    and "read_number_rule d = Inr (Some rule) \<Longrightarrow> \<not> registered e number d
      \<and> (\<exists>key year. db_registry d' = db_registry d @
        [\<lparr>rg_number = number, rg_tenant = tenant, rg_contract = cid, rg_year = year,
          rg_key = key, rg_issued_at = now\<rparr>])"
  using assms
  by (auto simp: allocate_number_def res_bind_eq_ok dest!: allocate_attempts_ok
      split: sum.splits option.splits if_splits)

section \<open>Numbering a contract\<close>

text \<open>The columns a numbering leaves alone, and those it sets.\<close>

definition numbers_only :: "string \<Rightarrow> contract_row \<Rightarrow> contract_row \<Rightarrow> bool" where
  "numbers_only number r r' \<longleftrightarrow>
     r' = r\<lparr>ct_number := Some number, ct_document := ct_document r', ct_content := ct_content r',
             ct_content_hash := ct_content_hash r', ct_template_values := ct_template_values r'\<rparr>"

lemma numbers_onlyD:
  assumes "numbers_only number r r'"
  shows "ct_number r' = Some number" "ct_id r' = ct_id r" "ct_tenant r' = ct_tenant r"
    "ct_status r' = ct_status r" "ct_version r' = ct_version r" "ct_amount r' = ct_amount r"
    "ct_origin_item r' = ct_origin_item r" "ct_owner r' = ct_owner r"
    "ct_origin_kind r' = ct_origin_kind r" "ct_import_mode r' = ct_import_mode r"
    "ct_import_policy r' = ct_import_policy r" "ct_responsibility_activated r' = ct_responsibility_activated r"
  using assms unfolding numbers_only_def by - (erule ssubst, simp)+

lemma approved_number_updates_ok:
  assumes "approved_number_updates e current number = Inr f"
  shows "numbers_only number r (f r)"
proof -
  let ?plain = "\<lambda>r :: contract_row. r\<lparr>ct_number := Some number\<rparr>"
  let ?body = "\<lambda>document content r. (?plain r)\<lparr>ct_document := document, ct_content := content,
      ct_content_hash := Some (env_sha256 e document)\<rparr>"
  have "f = ?plain \<or> (\<exists>document content. f = ?body document content \<or>
      (\<exists>v. f = (\<lambda>r. (?body document content r)\<lparr>ct_template_values := JsonOk v\<rparr>)))"
    using assms unfolding approved_number_updates_def Let_def res_bind_eq_ok if_fail_eq_ok
    by (cases "ct_template_values current")
      (auto simp only: res_bind_eq_ok sum.inject sum.distinct json_col.case split: if_split_asm)
  then show ?thesis by (elim disjE exE) (simp_all add: numbers_only_def)
qed

lemma issue_number_ok:
  assumes "issue_number e tenant current d = Inr d'"
  obtains number f d2 where
    "allocate_number e tenant (ct_id current) (ct_number_format current) (env_clock e (db_tick d))
       (d\<lparr>db_tick := db_tick d + 1\<rparr>) = Inr (number, d2)"
    "approved_number_updates e current number = Inr f"
    "d' = d2\<lparr>db_contracts := update_rows (\<lambda>r. contract_at tenant (ct_id current) r \<and> unnumbered r) f
              (db_contracts d)\<rparr>"
    "rows_affected (\<lambda>r. contract_at tenant (ct_id current) r \<and> unnumbered r) (db_contracts d) = 1"
    "list_all (\<lambda>r. ct_tenant r = tenant \<and> ct_id r \<noteq> ct_id current \<and> ct_number r \<noteq> None
       \<longrightarrow> env_collate e (the (ct_number r)) \<noteq> env_collate e number) (db_contracts d)"
proof -
  from assms obtain number d2 f where
    n: "allocate_number e tenant (ct_id current) (ct_number_format current) (env_clock e (db_tick d))
       (d\<lparr>db_tick := db_tick d + 1\<rparr>) = Inr (number, d2)"
    and f: "approved_number_updates e current number = Inr f"
    and rest: "\<not> (list_ex (\<lambda>r. ct_tenant r = tenant \<and> ct_id r \<noteq> ct_id current \<and> ct_number r \<noteq> None
                \<and> env_collate e (the (ct_number r)) = env_collate e number) (db_contracts d2)
          \<and> rows_affected (\<lambda>r. contract_at tenant (ct_id current) r \<and> unnumbered r) (db_contracts d2) \<noteq> 0)"
      "rows_affected (\<lambda>r. contract_at tenant (ct_id current) r \<and> unnumbered r) (db_contracts d2) = 1"
      "d' = d2\<lparr>db_contracts := update_rows (\<lambda>r. contract_at tenant (ct_id current) r \<and> unnumbered r) f
              (db_contracts d2)\<rparr>"
    by (auto simp: issue_number_def read_clock_def Let_def res_bind_eq_ok split: if_splits)
  have "db_contracts d2 = db_contracts d"
    using allocation_frameD(3) [OF allocate_number_ok(1) [OF n]] by simp
  with rest show ?thesis
    by (intro that [OF n f]) (auto simp: list_all_iff list_ex_iff)
qed

section \<open>Numbers are never reused\<close>

text \<open>The operations that concern numbering. \<open>SequencesLost\<close> is the loss of the sequence table, which
  the registry is there to survive.\<close>

datatype number_op =
    AllocateNumber string string string instant
  | SaveNumberRule number_rule
  | SequencesLost

fun number_step :: "env \<Rightarrow> number_op \<Rightarrow> db \<Rightarrow> (string list \<times> db) result" where
  "number_step e (AllocateNumber tenant cid legacy now) d =
     res_bind (allocate_number e tenant cid legacy now d) (\<lambda>(n, d'). ok ([n], d'))"
| "number_step e (SaveNumberRule rule) d = res_bind (save_number_rule rule d) (\<lambda>d'. ok ([], d'))"
| "number_step e SequencesLost d = ok ([], d\<lparr>db_sequences := []\<rparr>)"

text \<open>The numbers issued by a sequence of operations, each in a transaction of its own.\<close>

fun issued_numbers :: "env \<Rightarrow> number_op list \<Rightarrow> db \<Rightarrow> string list" where
  "issued_numbers e [] d = []"
| "issued_numbers e (op # ops) d =
     (case number_step e op d of
        Inl _ \<Rightarrow> issued_numbers e ops d
      | Inr (ns, d') \<Rightarrow> ns @ issued_numbers e ops d')"

definition has_number_rule :: "db \<Rightarrow> bool" where
  "has_number_rule d \<longleftrightarrow> (case db_number_rules d of None \<Rightarrow> False | Some rs \<Rightarrow> rs \<noteq> [])"

lemma has_number_rule_read: "has_number_rule d \<Longrightarrow> \<exists>rule. read_number_rule d = Inr (Some rule)"
  by (auto simp: has_number_rule_def read_number_rule_def split: option.splits list.splits)

lemma number_step_ok:
  assumes "number_step e op d = Inr (ns, d')" and "has_number_rule d"
  shows "has_number_rule d'"
    and "(ns = [] \<and> db_registry d' = db_registry d) \<or>
      (\<exists>n r. ns = [n] \<and> rg_number r = n \<and> \<not> registered e n d \<and> db_registry d' = db_registry d @ [r])"
proof -
  obtain rule where rule: "read_number_rule d = Inr (Some rule)"
    using assms(2) has_number_rule_read by blast
  show "has_number_rule d'"
    using assms
    by (cases op) (auto simp: res_bind_eq_ok has_number_rule_def save_number_rule_def
        dest!: allocate_number_ok(1) allocation_frameD(4) split: option.splits)
  show "(ns = [] \<and> db_registry d' = db_registry d) \<or>
      (\<exists>n r. ns = [n] \<and> rg_number r = n \<and> \<not> registered e n d \<and> db_registry d' = db_registry d @ [r])"
    using assms
    by (cases op) (auto simp: res_bind_eq_ok save_number_rule_def split: option.splits
        dest!: allocate_number_ok(2) [OF _ rule])
qed

text \<open>C2: no two contracts of the whole system, whatever their tenants, ever get numbers that are equal
  up to collation: along any sequence of allocations, changes of the rule and losses of the sequence
  table, the issued numbers are pairwise different and none was registered before.\<close>

theorem issued_numbers_never_repeat:
  assumes "has_number_rule d"
  shows "distinct (map (env_collate e) (issued_numbers e ops d)) \<and>
    list_all (\<lambda>n. \<not> registered e n d) (issued_numbers e ops d)"
  using assms
proof (induction ops arbitrary: d)
  case (Cons op ops)
  show ?case
  proof (cases "number_step e op d")
    case (Inl err)
    with Cons show ?thesis by simp
  next
    case (Inr out)
    then obtain ns d' where step: "number_step e op d = Inr (ns, d')" by (cases out) auto
    note s = number_step_ok [OF step Cons.prems]
    have ih: "distinct (map (env_collate e) (issued_numbers e ops d'))"
      "list_all (\<lambda>n. \<not> registered e n d') (issued_numbers e ops d')"
      using Cons.IH [OF s(1)] by blast+
    from s(2) show ?thesis
    proof
      assume "ns = [] \<and> db_registry d' = db_registry d"
      with step ih show ?thesis by (simp add: registered_def)
    next
      assume "\<exists>n r. ns = [n] \<and> rg_number r = n \<and> \<not> registered e n d \<and> db_registry d' = db_registry d @ [r]"
      then obtain n r where n: "ns = [n]" "rg_number r = n" "\<not> registered e n d"
        and reg: "db_registry d' = db_registry d @ [r]" by blast
      have "registered e m d' \<longleftrightarrow> registered e m d \<or> env_collate e n = env_collate e m" for m
        using reg n(2) by (auto simp: registered_def registry_match_def)
      with step ih n show ?thesis by (auto simp: list_all_iff)
    qed
  qed
qed simp

section \<open>Which number is issued\<close>

lemma allocate_attempts_skip:
  assumes "0 \<le> year" and "year \<le> 65535" and "j < k"
    and "\<forall>i<j. \<exists>n. build_contract_number rule year (sequence_value key year d + i + 1) = Inr n
           \<and> registered e n d"
    and "build_contract_number rule year (sequence_value key year d + j + 1) = Inr number"
    and "\<not> registered e number d"
    and "sequence_value key year d + j + 1 < 2 ^ 32"
  shows "\<exists>d'. allocate_attempts k e tenant cid rule key year now d = Inr (number, d')
    \<and> sequence_value key year d' = sequence_value key year d + j + 1"
  using assms
proof (induction k arbitrary: d j)
  case (Suc k)
  let ?v = "sequence_value key year d"
  from next_sequence_total [OF Suc.prems(1,2), of key d now] Suc.prems(7) obtain d1 where
    seq: "next_sequence key year now d = Inr (?v + 1, d1)" by fastforce
  note s = next_sequence_ok [OF seq]
  have reg: "registered e m d1 = registered e m d" for m using s(3) by (rule registered_cong)
  have v1: "sequence_value key year d1 = ?v + 1" using s(4) by simp
  show ?case
  proof (cases j)
    case 0
    with Suc.prems(5,6) seq v1 reg show ?thesis
      by (simp add: reserve_number_eq sequence_value_def)
  next
    case (Suc i)
    from Suc.prems(4) Suc obtain n where n: "build_contract_number rule year (?v + 1) = Inr n"
      "registered e n d" by auto
    have skip: "allocate_attempts (Suc k) e tenant cid rule key year now d
        = allocate_attempts k e tenant cid rule key year now d1"
      using seq n reg by (simp add: reserve_number_eq)
    have "\<exists>d'. allocate_attempts k e tenant cid rule key year now d1 = Inr (number, d')
        \<and> sequence_value key year d' = sequence_value key year d1 + i + 1"
    proof (rule Suc.IH)
      show "\<forall>i'<i. \<exists>n. build_contract_number rule year (sequence_value key year d1 + i' + 1) = Inr n
          \<and> registered e n d1"
      proof (intro allI impI)
        fix i' assume "i' < i"
        with Suc.prems(4) [rule_format, of "Suc i'"] Suc
        show "\<exists>n. build_contract_number rule year (sequence_value key year d1 + i' + 1) = Inr n
            \<and> registered e n d1" by (simp add: v1 reg)
      qed
      show "build_contract_number rule year (sequence_value key year d1 + i + 1) = Inr number"
        using Suc.prems(5) Suc by (simp add: v1)
    qed (use Suc.prems Suc in \<open>simp_all add: v1 reg\<close>)
    then show ?thesis unfolding skip using Suc by (auto simp: v1)
  qed
qed simp

text \<open>allocation returns the first number after the sequence of the current rule and business
  year that is free, provided it is reached within 50 attempts and the sequence fits its column, and
  the sequence then stands at that number.\<close>

theorem allocate_number_exact:
  assumes "read_number_rule d = Inr (Some rule)"
    and "contract_number_rule_key (env_sha256 e) rule = Inr key"
    and "clock_year_of (env_zone e) now = year" and "0 \<le> year" and "year \<le> 65535" and "j < 50"
    and "\<forall>i<j. \<exists>n. build_contract_number rule year (sequence_value key year d + i + 1) = Inr n
           \<and> registered e n d"
    and "build_contract_number rule year (sequence_value key year d + j + 1) = Inr number"
    and "\<not> registered e number d"
    and "sequence_value key year d + j + 1 < 2 ^ 32"
  shows "\<exists>d'. allocate_number e tenant cid legacy now d = Inr (number, d')
    \<and> registered e number d'
    \<and> sequence_value key year d' = sequence_value key year d + j + 1"
proof -
  from allocate_attempts_skip [OF assms(4,5) _ assms(7-10), of 50 tenant cid now] assms(6)
  obtain d' where run: "allocate_attempts 50 e tenant cid rule key year now d = Inr (number, d')"
    and v: "sequence_value key year d' = sequence_value key year d + j + 1" by blast
  have "registered e number d'"
    using allocate_attempts_ok [OF run] by (auto simp: registered_def registry_match_def)
  with run v assms(1-3) show ?thesis
    by (simp add: allocate_number_def conflict_attempts_def)
qed

lemma sample_rule_read: "read_number_rule (sample_db cs) = Inr (Some default_number_rule)"
  by (simp add: read_number_rule_def sample_db_def)

lemma sample_has_rule: "has_number_rule (sample_db cs)"
  by (simp add: has_number_rule_def sample_db_def)

theorem issued_numbers_never_repeat_witness:
  "distinct (map (env_collate sample_db_env) (issued_numbers sample_db_env
     [AllocateNumber ''t1'' ''c1'' [] 0, SequencesLost, AllocateNumber ''t2'' ''c2'' [] 0] (sample_db [])))"
  using issued_numbers_never_repeat [OF sample_has_rule] by blast

lemma default_rule_number_1: "\<exists>number. build_contract_number default_number_rule 1970 1 = Inr number"
  using build_number_normal(1) [OF normalize_number_rule_normal [OF default_rule_normalizes], of 1970 1]
    seq_limit_eq [of 4]
  by (simp add: default_number_rule_def)

theorem allocate_number_exact_witness:
  "\<exists>number d'. allocate_number sample_db_env ''t1'' ''c1'' [] 0 (sample_db []) = Inr (number, d')
     \<and> sequence_value ''h'' 1970 d' = 1"
proof -
  obtain number where n: "build_contract_number default_number_rule 1970 1 = Inr number"
    using default_rule_number_1 by blast
  have key: "contract_number_rule_key (env_sha256 sample_db_env) default_number_rule = Inr ''h''"
    by (simp add: contract_number_rule_key_def default_rule_normalizes sample_db_env_def)
  have year: "clock_year_of (env_zone sample_db_env) 0 = 1970"
    by (simp add: clock_year_of_def local_civil_def location_def fixed_zone_def fixed_zone_offset_def
        sample_db_env_def unix_sec_def day_seconds_def civil_of_day_def epoch_day_def year_of_abs_def
        days_before_year_def Let_def split: prod.split)
  have v: "sequence_value ''h'' 1970 (sample_db []) = 0"
    by (simp add: sequence_value_def sample_db_def)
  have free: "\<not> registered sample_db_env number (sample_db [])"
    by (simp add: registered_def sample_db_def)
  show ?thesis
    using allocate_number_exact [where j = 0 and number = number and cid = "''c1''" and tenant = "''t1''"
        and legacy = "[]", OF sample_rule_read key year _ _ _ _ _ free] n
    by (auto simp: v)
qed

end
