(* ===== verification/Project_Delivery.thy ===== *)
theory Project_Delivery
  imports Number_Allocation
begin

text \<open>
  Handing an active contract over to the project system (\<^verbatim>\<open>project_delivery.go\<close>), and the claim
  and settlement statements of the queues that take one row at a time (projects, notifications and
  CRM links).
\<close>

section \<open>Activation events\<close>

definition project_delivery_eligible_statuses :: "status list" where
  "project_delivery_eligible_statuses =
     [StatusActive, StatusInProgress, StatusPendingPay, StatusCompleted, StatusTerminated, StatusArchived]"

definition customer_id_of :: "nat option \<Rightarrow> string" where
  "customer_id_of v = (case v of None \<Rightarrow> [] | Some n \<Rightarrow> if n = 0 then [] else nat_str n)"

text \<open>The words for a customer that is not given, in UTF-8.\<close>

definition unnamed_customer :: string where
  "unnamed_customer = map char_of
     [0xE6, 0x9C, 0xAA, 0xE6, 0x8C, 0x87, 0xE5, 0xAE, 0x9A, 0xE5, 0xAE, 0xA2, 0xE6, 0x88, 0xB7 :: nat]"

definition new_project_activation_payload ::
  "contract_row \<Rightarrow> instant \<Rightarrow> bool \<Rightarrow> project_service_item list \<Rightarrow> project_payload" where
  "new_project_activation_payload r effective stamped services =
     \<lparr>pp_contract_id = ct_id r, pp_contract_number = value_or_empty (ct_number r),
      pp_contract_version = nat_str (ct_version r), pp_contract_name = ct_title r,
      pp_customer = first_project_value [value_or_empty (ct_customer_name r), unnamed_customer],
      pp_customer_id = customer_id_of (ct_crm_customer r), pp_effective_at = effective,
      pp_stamped = Some stamped, pp_services = services\<rparr>"

definition stamped_document_exists :: "string \<Rightarrow> string \<Rightarrow> db \<Rightarrow> bool" where
  "stamped_document_exists tenant cid d \<longleftrightarrow>
     rows_affected (\<lambda>s. st_doc_tenant s = tenant \<and> st_doc_contract s = cid) (db_stamped d) > 0"

definition decode_items :: "service_item list json_col \<Rightarrow> service_item list result" where
  "decode_items c =
     (case c of JsonEmpty \<Rightarrow> fail err_decode | JsonBad \<Rightarrow> fail err_decode | JsonNull \<Rightarrow> ok [] | JsonOk xs \<Rightarrow> ok xs)"

definition audit_actor :: "env \<Rightarrow> string" where
  "audit_actor e = (if ac_actor_id (env_meta e) = [] then ''SYSTEM'' else ac_actor_id (env_meta e))"

definition enqueue_project_activation :: "env \<Rightarrow> string \<Rightarrow> string \<Rightarrow> db \<Rightarrow> db result" where
  "enqueue_project_activation e tenant cid d =
     (case find_contract d tenant cid of
        None \<Rightarrow> fail err_no_record
      | Some r \<Rightarrow>
          res_bind (local_outbound_not_applicable r) (\<lambda>skip.
          if skip then ok d
          else if \<not> ordinary_contract_record r then ok d
          else res_bind (decode_items (ct_service_items r)) (\<lambda>items.
            let services = project_service_items cid items;
                (t0, d1) = read_clock e d;
                effective = (case ct_start_date r of None \<Rightarrow> t0 | Some t \<Rightarrow> t);
                payload = new_project_activation_payload r effective
                            (stamped_document_exists tenant cid d1) services;
                (now, d2) = read_clock e d1;
                (i, d3) = new_id e d2;
                row = new_outbox_row i tenant (ct_id r) (ct_version r) (JsonOk payload) now now;
                d4 = d3\<lparr>db_project_outbox := insert_ignore outbox_clash row (db_project_outbox d3)\<rparr>
            in insert_audit e tenant
                 (audit_entry_for e (audit_actor e) ''HANDED_OFF_TO_PROJECT'' (ct_id r)
                    [(''contract_id'', AvStr (ct_id r)), (''contract_version'', AvInt (int (ct_version r))),
                     (''service_item_count'', AvInt (int (length services))),
                     (''target'', AvStr ''PROJECT_MANAGEMENT'')]) d4)))"

text \<open>A payload is decoded, its flag set, and the row made due again. The JSON text null decodes to
  the zero value of the structure.\<close>

definition zero_project_payload :: project_payload where
  "zero_project_payload =
     \<lparr>pp_contract_id = [], pp_contract_number = [], pp_contract_version = [], pp_contract_name = [],
      pp_customer = [], pp_customer_id = [], pp_effective_at = zero_time, pp_stamped = None, pp_services = []\<rparr>"

definition decode_project_payload :: "project_payload json_col \<Rightarrow> project_payload result" where
  "decode_project_payload c =
     (case c of JsonEmpty \<Rightarrow> fail err_decode | JsonBad \<Rightarrow> fail err_decode
      | JsonNull \<Rightarrow> ok zero_project_payload | JsonOk p \<Rightarrow> ok p)"

definition refresh_project_delivery ::
  "env \<Rightarrow> project_payload json_col outbox_row \<Rightarrow> bool \<Rightarrow> db \<Rightarrow> db result" where
  "refresh_project_delivery e row uploaded d =
     res_bind (decode_project_payload (ob_payload row)) (\<lambda>p.
       let (now, d1) = read_clock e d
       in ok (d1\<lparr>db_project_outbox := update_rows (\<lambda>x. ob_id x = ob_id row)
               (\<lambda>x. x\<lparr>ob_payload := JsonOk (p\<lparr>pp_stamped := Some uploaded\<rparr>), ob_status := DsPending,
                       ob_attempts := 0, ob_next_at := now, ob_locked_at := None,
                       ob_delivered_at := None, ob_last_error := None\<rparr>) (db_project_outbox d1)\<rparr>))"

text \<open>\<^verbatim>\<open>Order("created_at DESC").Take\<close>: the newest row, the first in table order among equals.\<close>

definition mark_project_delivery_stamped :: "env \<Rightarrow> string \<Rightarrow> string \<Rightarrow> db \<Rightarrow> db result" where
  "mark_project_delivery_stamped e tenant cid d =
     (case sort_key (\<lambda>x. - ob_created_at x)
             (filter (\<lambda>x. ob_tenant x = tenant \<and> ob_key x = cid) (db_project_outbox d)) of
        [] \<Rightarrow> ok d
      | row # _ \<Rightarrow> refresh_project_delivery e row True d)"

section \<open>Reconciliation\<close>

text \<open>First the payloads without the stamp flag are completed, then contracts without any event get
  one; each step is a transaction of its own and the first error ends the scan.\<close>

definition legacy_project_rows :: "db \<Rightarrow> project_payload json_col outbox_row list" where
  "legacy_project_rows d =
     sort_key ob_created_at (filter (\<lambda>ob.
        (case ob_payload ob of JsonOk p \<Rightarrow> pp_stamped p = None | JsonEmpty \<Rightarrow> False | _ \<Rightarrow> True)
        \<and> list_ex (\<lambda>c. ct_id c = ob_key ob \<and> ct_tenant c = ob_tenant ob \<and> ordinary_contract_record c
              \<and> ct_status c \<in> set project_delivery_eligible_statuses) (db_contracts d))
       (db_project_outbox d))"

fun refresh_legacy ::
  "env \<Rightarrow> project_payload json_col outbox_row list \<Rightarrow> nat \<Rightarrow> db \<Rightarrow> nat \<times> app_error option \<times> db" where
  "refresh_legacy e [] n d = (n, None, d)"
| "refresh_legacy e (c # cs) n d =
     (case first_row (\<lambda>x. ob_id x = ob_id c) (db_project_outbox d) of
        None \<Rightarrow> (n, Some err_no_record, d)
      | Some row \<Rightarrow>
          (case refresh_project_delivery e row (stamped_document_exists (ob_tenant c) (ob_key c) d) d of
             Inl err \<Rightarrow> (n, Some err, d)
           | Inr d' \<Rightarrow> refresh_legacy e cs (n + 1) d'))"

definition has_project_row :: "db \<Rightarrow> string \<Rightarrow> string \<Rightarrow> bool" where
  "has_project_row d tenant cid \<longleftrightarrow>
     list_ex (\<lambda>ob. ob_tenant ob = tenant \<and> ob_key ob = cid) (db_project_outbox d)"

text \<open>\<^verbatim>\<open>JSON_LENGTH(...) > 0\<close>: a scalar, such as null, has length one.\<close>

definition json_length_positive :: "'a list json_col \<Rightarrow> bool" where
  "json_length_positive c =
     (case c of JsonEmpty \<Rightarrow> False | JsonNull \<Rightarrow> True | JsonBad \<Rightarrow> True | JsonOk xs \<Rightarrow> xs \<noteq> [])"

definition project_candidates :: "db \<Rightarrow> contract_row list" where
  "project_candidates d =
     sort_key ct_created_at (filter (\<lambda>c. ordinary_contract_record c
        \<and> ct_integration_policy c \<noteq> ''NOT_APPLICABLE''
        \<and> ct_status c \<in> set project_delivery_eligible_statuses
        \<and> json_length_positive (ct_service_items c)
        \<and> \<not> has_project_row d (ct_tenant c) (ct_id c)) (db_contracts d))"

fun create_activations :: "env \<Rightarrow> contract_row list \<Rightarrow> nat \<Rightarrow> db \<Rightarrow> nat \<times> app_error option \<times> db" where
  "create_activations e [] n d = (n, None, d)"
| "create_activations e (c # cs) n d =
     (if has_project_row d (ct_tenant c) (ct_id c) then create_activations e cs n d
      else case enqueue_project_activation e (ct_tenant c) (ct_id c) d of
             Inl err \<Rightarrow> (n, Some err, d)
           | Inr d' \<Rightarrow> create_activations e cs (n + 1) d')"

definition reconcile_project_deliveries :: "env \<Rightarrow> db \<Rightarrow> nat \<times> app_error option \<times> db" where
  "reconcile_project_deliveries e d =
     (let (n, err, d1) = refresh_legacy e (legacy_project_rows d) 0 d
      in if err \<noteq> None then (n, err, d1)
         else create_activations e (project_candidates d1) n d1)"

section \<open>Queues that claim one row\<close>

definition claim_project_delivery ::
  "env \<Rightarrow> (string \<Rightarrow> bool) \<Rightarrow> db \<Rightarrow> db \<times> project_payload json_col delivery option" where
  "claim_project_delivery e skip d =
     (let (now, d1) = read_clock e d; (q, x) = claim_delivery skip now (db_project_outbox d1)
      in (d1\<lparr>db_project_outbox := q\<rparr>, x))"

definition mark_project_delivered :: "env \<Rightarrow> string \<Rightarrow> db \<Rightarrow> db result" where
  "mark_project_delivered e i d =
     (let (now, d1) = read_clock e d
      in res_bind (mark_delivered ErrNotFound i now (db_project_outbox d1)) (\<lambda>q. ok (d1\<lparr>db_project_outbox := q\<rparr>)))"

definition mark_project_failed :: "env \<Rightarrow> string \<Rightarrow> string \<Rightarrow> nat \<Rightarrow> bool \<Rightarrow> db \<Rightarrow> db" where
  "mark_project_failed e i message attempts dead d =
     (let (now, d1) = read_clock e d
      in d1\<lparr>db_project_outbox := mark_failed i message attempts dead now (db_project_outbox d1)\<rparr>)"

definition claim_notification ::
  "env \<Rightarrow> (string \<Rightarrow> bool) \<Rightarrow> db \<Rightarrow> db \<times> notification delivery option" where
  "claim_notification e skip d =
     (let (now, d1) = read_clock e d; (q, x) = claim_delivery skip now (db_notifications d1)
      in (d1\<lparr>db_notifications := q\<rparr>, x))"

definition mark_notification_delivered :: "env \<Rightarrow> string \<Rightarrow> db \<Rightarrow> db result" where
  "mark_notification_delivered e i d =
     (let (now, d1) = read_clock e d
      in res_bind (mark_delivered ErrNotFound i now (db_notifications d1)) (\<lambda>q. ok (d1\<lparr>db_notifications := q\<rparr>)))"

definition mark_notification_failed :: "env \<Rightarrow> string \<Rightarrow> string \<Rightarrow> nat \<Rightarrow> bool \<Rightarrow> db \<Rightarrow> db" where
  "mark_notification_failed e i message attempts dead d =
     (let (now, d1) = read_clock e d
      in d1\<lparr>db_notifications := mark_failed i message attempts dead now (db_notifications d1)\<rparr>)"

text \<open>The row of a CRM link carries its event identifier as key; it has no version.\<close>

definition enqueue_opportunity_link :: "env \<Rightarrow> string \<Rightarrow> string \<Rightarrow> link_payload \<Rightarrow> db \<Rightarrow> db" where
  "enqueue_opportunity_link e tenant event payload d =
     (let (i, d1) = new_id e d; (t1, d2) = read_clock e d1; (t2, d3) = read_clock e d2
      in d3\<lparr>db_link_outbox :=
           insert_ignore outbox_clash (new_outbox_row i tenant event 0 payload t1 t2) (db_link_outbox d3)\<rparr>)"

definition claim_opportunity_link ::
  "env \<Rightarrow> (string \<Rightarrow> bool) \<Rightarrow> db \<Rightarrow> db \<times> link_payload delivery option" where
  "claim_opportunity_link e skip d =
     (let (now, d1) = read_clock e d; (q, x) = claim_delivery skip now (db_link_outbox d1)
      in (d1\<lparr>db_link_outbox := q\<rparr>, x))"

definition mark_link_delivered :: "env \<Rightarrow> string \<Rightarrow> db \<Rightarrow> db result" where
  "mark_link_delivered e i d =
     (let (now, d1) = read_clock e d
      in res_bind (mark_delivered ErrNotFound i now (db_link_outbox d1)) (\<lambda>q. ok (d1\<lparr>db_link_outbox := q\<rparr>)))"

definition mark_link_failed :: "env \<Rightarrow> string \<Rightarrow> string \<Rightarrow> nat \<Rightarrow> bool \<Rightarrow> db \<Rightarrow> db" where
  "mark_link_failed e i message attempts dead d =
     (let (now, d1) = read_clock e d
      in d1\<lparr>db_link_outbox := mark_failed i message attempts dead now (db_link_outbox d1)\<rparr>)"

section \<open>What the hand-over changes\<close>

definition project_frame :: "db \<Rightarrow> db \<Rightarrow> bool" where
  "project_frame d d' \<longleftrightarrow>
     d' = d\<lparr>db_tick := db_tick d', db_seq := db_seq d', db_project_outbox := db_project_outbox d',
             db_audit := db_audit d'\<rparr>"

lemma project_frameD:
  assumes "project_frame d d'"
  shows "db_contracts d' = db_contracts d" "db_terms d' = db_terms d" "db_lifecycle d' = db_lifecycle d"
    "db_instances d' = db_instances d" "db_tasks d' = db_tasks d" "db_registry d' = db_registry d"
    "db_streams d' = db_streams d" "db_responsibility_outbox d' = db_responsibility_outbox d"
    "db_financial_outbox d' = db_financial_outbox d" "db_stamped d' = db_stamped d"
    "db_signing d' = db_signing d" "db_number_rules d' = db_number_rules d"
    "db_sequences d' = db_sequences d" "db_actions d' = db_actions d"
    "db_snapshots d' = db_snapshots d" "db_notifications d' = db_notifications d"
    "db_rules d' = db_rules d" "db_confirmations d' = db_confirmations d" "db_link_outbox d' = db_link_outbox d"
    "db_freezes d' = db_freezes d" "db_receipts d' = db_receipts d" "db_intakes d' = db_intakes d"
    "db_intake_reviews d' = db_intake_reviews d"
  using assms unfolding project_frame_def by - (erule ssubst, simp)+

lemma project_frame_refl [simp]: "project_frame d d"
  by (simp add: project_frame_def)

lemma project_frame_trans:
  assumes "project_frame d d1" and "project_frame d1 d2"
  shows "project_frame d d2"
  unfolding project_frame_def
  by (rule db.equality) (simp_all add: project_frameD [OF assms(1)] project_frameD [OF assms(2)])

lemma insert_audit_frame: "insert_audit e tenant entry d = Inr d' \<Longrightarrow> project_frame d d'"
  by (auto simp: project_frame_def dest!: insert_audit_ok)

text \<open>New identifiers are not in use: the identifiers of the rows come from earlier places of the
  sequence. Then an insertion that ignores conflicts leaves a row of the same tenant, key and version,
  the new one or the one that was there.\<close>

definition queue_fresh :: "env \<Rightarrow> 'p queue \<Rightarrow> nat \<Rightarrow> bool" where
  "queue_fresh e q n \<longleftrightarrow> inj (env_ulid e) \<and> (\<forall>x \<in> set q. ob_id x \<in> env_ulid e ` {..<n})"

lemma queue_fresh_mono: "queue_fresh e q n \<Longrightarrow> n \<le> m \<Longrightarrow> queue_fresh e q m"
  by (fastforce simp: queue_fresh_def)

lemma queue_fresh_insert:
  assumes "queue_fresh e q n" and "ob_id row = env_ulid e n" and "n < m"
  shows "queue_fresh e (insert_ignore outbox_clash row q) m"
    and "\<exists>x \<in> set (insert_ignore outbox_clash row q).
      ob_tenant x = ob_tenant row \<and> ob_key x = ob_key row \<and> ob_version x = ob_version row"
proof -
  have row: "ob_id row \<in> env_ulid e ` {..<m}" using assms(2,3) by auto
  have old: "queue_fresh e q m" using assms(1,3) by (auto intro: queue_fresh_mono)
  then show "queue_fresh e (insert_ignore outbox_clash row q) m"
    using row by (auto simp: queue_fresh_def insert_ignore_def)
  show "\<exists>x \<in> set (insert_ignore outbox_clash row q).
      ob_tenant x = ob_tenant row \<and> ob_key x = ob_key row \<and> ob_version x = ob_version row"
  proof (cases "list_ex (outbox_clash row) q")
    case True
    then obtain x where x: "x \<in> set q" "outbox_clash row x" by (auto simp: list_ex_iff)
    have "ob_id x \<noteq> ob_id row" using assms(1,2) x(1) by (fastforce simp: queue_fresh_def dest: injD)
    with x True show ?thesis by (auto simp: insert_ignore_def outbox_clash_def)
  qed (simp add: insert_ignore_def)
qed

abbreviation project_ids_fresh :: "env \<Rightarrow> db \<Rightarrow> bool" where
  "project_ids_fresh e d \<equiv> queue_fresh e (db_project_outbox d) (db_seq d)"

text \<open>What a hand-over leaves behind: an event for the version of the contract and an audit row.\<close>

lemma enqueue_project_activation_ok:
  assumes "enqueue_project_activation e tenant cid d = Inr d'" and "find_contract d tenant cid = Some r"
  shows "project_frame d d'"
    and "\<exists>rows. db_project_outbox d' = db_project_outbox d @ rows"
    and "project_ids_fresh e d \<Longrightarrow> project_ids_fresh e d'"
    and "local_outbound_not_applicable r \<noteq> Inl ErrContractSourceConflict"
    and "project_ids_fresh e d \<Longrightarrow> local_outbound_not_applicable r = Inr False \<Longrightarrow> ordinary_contract_record r \<Longrightarrow>
      \<exists>ob \<in> set (db_project_outbox d'). ob_tenant ob = tenant \<and> ob_key ob = cid \<and> ob_version ob = ct_version r"
proof -
  let ?skip = "local_outbound_not_applicable r = Inr True \<or>
      local_outbound_not_applicable r = Inr False \<and> \<not> ordinary_contract_record r"
  have all: "project_frame d d' \<and> (\<exists>rows. db_project_outbox d' = db_project_outbox d @ rows)
    \<and> (project_ids_fresh e d \<longrightarrow> project_ids_fresh e d')
    \<and> local_outbound_not_applicable r \<noteq> Inl ErrContractSourceConflict
    \<and> (project_ids_fresh e d \<longrightarrow> local_outbound_not_applicable r = Inr False \<longrightarrow> ordinary_contract_record r \<longrightarrow>
      (\<exists>ob \<in> set (db_project_outbox d'). ob_tenant ob = tenant \<and> ob_key ob = cid \<and> ob_version ob = ct_version r))"
  proof (cases ?skip)
    case True
    with assms have "d' = d" by (auto simp: enqueue_project_activation_def)
    with True show ?thesis by auto
  next
    case False
    have id: "ct_id r = cid" using assms(2) by (auto dest: find_contract_SomeD)
    from False assms have loc: "local_outbound_not_applicable r = Inr False" "ordinary_contract_record r"
      by (auto simp: enqueue_project_activation_def res_bind_eq_ok split: if_splits)
    define i where "i = env_ulid e (db_seq d)"
    define now where "now = env_clock e (db_tick d + 1)"
    from assms loc obtain items payload entry where
      run: "insert_audit e tenant entry
        (d\<lparr>db_tick := db_tick d + 2, db_seq := db_seq d + 1, db_project_outbox :=
           insert_ignore outbox_clash (new_outbox_row i tenant cid (ct_version r) (JsonOk payload) now now)
             (db_project_outbox d)\<rparr>) = Inr d'"
      by (auto simp: enqueue_project_activation_def res_bind_eq_ok read_clock_def new_id_def Let_def id
          i_def now_def)
    define row where "row = new_outbox_row i tenant cid (ct_version r) (JsonOk payload) now now"
    define d1 where "d1 = d\<lparr>db_tick := db_tick d + 2, db_seq := db_seq d + 1,
        db_project_outbox := insert_ignore outbox_clash row (db_project_outbox d)\<rparr>"
    have run1: "insert_audit e tenant entry d1 = Inr d'" using run by (simp add: d1_def row_def)
    note frame = insert_audit_frame [OF run1]
    have seq: "db_seq d' = db_seq d + 3" and out: "db_project_outbox d' = insert_ignore outbox_clash row (db_project_outbox d)"
      using insert_audit_ok [OF run1] by (auto simp: d1_def)
    have "project_frame d d1" by (simp add: project_frame_def d1_def)
    with frame have 1: "project_frame d d'" by (blast intro: project_frame_trans)
    have 2: "\<exists>rows. db_project_outbox d' = db_project_outbox d @ rows"
      unfolding out by (auto simp: insert_ignore_def)
    have row: "ob_id row = env_ulid e (db_seq d)" "ob_tenant row = tenant" "ob_key row = cid"
      "ob_version row = ct_version r"
      by (simp_all add: row_def new_outbox_row_def i_def)
    have 3: "project_ids_fresh e d'" if fresh: "project_ids_fresh e d"
      using queue_fresh_insert(1) [OF fresh row(1), of "db_seq d + 3"] by (simp add: out seq)
    have 4: "\<exists>ob \<in> set (db_project_outbox d'). ob_tenant ob = tenant \<and> ob_key ob = cid \<and> ob_version ob = ct_version r"
      if fresh: "project_ids_fresh e d"
      using queue_fresh_insert(2) [OF fresh row(1), of "db_seq d + 3"] by (simp add: out row)
    from 1 2 3 4 loc show ?thesis by auto
  qed
  show "project_frame d d'" "\<exists>rows. db_project_outbox d' = db_project_outbox d @ rows"
    "project_ids_fresh e d \<Longrightarrow> project_ids_fresh e d'"
    "local_outbound_not_applicable r \<noteq> Inl ErrContractSourceConflict"
    "project_ids_fresh e d \<Longrightarrow> local_outbound_not_applicable r = Inr False \<Longrightarrow> ordinary_contract_record r \<Longrightarrow>
      \<exists>ob \<in> set (db_project_outbox d'). ob_tenant ob = tenant \<and> ob_key ob = cid \<and> ob_version ob = ct_version r"
    using all by blast+
qed

section \<open>Reconciliation is complete\<close>

lemma refresh_project_delivery_ok:
  assumes "refresh_project_delivery e row up d = Inr d'"
  shows "project_frame d d'" "project_ids_fresh e d \<Longrightarrow> project_ids_fresh e d'"
proof -
  from assms show "project_frame d d'"
    by (auto simp: refresh_project_delivery_def res_bind_eq_ok read_clock_def Let_def project_frame_def)
  from assms have "map ob_id (db_project_outbox d') = map ob_id (db_project_outbox d)"
    and seq: "db_seq d' = db_seq d"
    by (auto simp: refresh_project_delivery_def res_bind_eq_ok read_clock_def Let_def map_update_rows)
  then have "ob_id ` set (db_project_outbox d') = ob_id ` set (db_project_outbox d)"
    by (metis set_map)
  with seq show "project_ids_fresh e d \<Longrightarrow> project_ids_fresh e d'"
    unfolding queue_fresh_def by (metis (no_types, lifting) image_iff)
qed

lemma refresh_legacy_ok:
  "refresh_legacy e cs n d = (m, err, d') \<Longrightarrow>
     project_frame d d' \<and> (project_ids_fresh e d \<longrightarrow> project_ids_fresh e d')"
proof (induction e cs n d rule: refresh_legacy.induct)
  case (2 e c cs n d)
  show ?case
  proof (cases "first_row (\<lambda>x. ob_id x = ob_id c) (db_project_outbox d)")
    case (Some row)
    show ?thesis
    proof (cases "refresh_project_delivery e row (stamped_document_exists (ob_tenant c) (ob_key c) d) d")
      case (Inr d1)
      with 2(2) Some have "refresh_legacy e cs (n + 1) d1 = (m, err, d')" by simp
      from 2(1) [OF Some Inr this] refresh_project_delivery_ok [OF Inr] show ?thesis
        by (blast intro: project_frame_trans)
    qed (use 2(2) Some in simp)
  qed (use 2(2) in simp)
qed auto

lemma has_project_row_mono:
  "\<exists>rows. db_project_outbox d' = db_project_outbox d @ rows \<Longrightarrow> has_project_row d t c \<Longrightarrow> has_project_row d' t c"
  by (auto simp: has_project_row_def)

lemma find_contract_total:
  assumes "r \<in> set (db_contracts d)"
  obtains r' where "find_contract d (ct_tenant r) (ct_id r) = Some r'" "r' \<in> set (db_contracts d)"
    "ct_tenant r' = ct_tenant r" "ct_id r' = ct_id r"
proof -
  from assms have "find_contract d (ct_tenant r) (ct_id r) \<noteq> None"
    by (auto simp: find_contract_def contract_at_def first_row_None)
  then obtain r' where "find_contract d (ct_tenant r) (ct_id r) = Some r'" by blast
  with that show ?thesis by (metis find_contract_SomeD)
qed

lemma find_contract_distinct:
  assumes "distinct (map (\<lambda>c. (ct_tenant c, ct_id c)) (db_contracts d))" and "c \<in> set (db_contracts d)"
  shows "find_contract d (ct_tenant c) (ct_id c) = Some c"
proof -
  from assms(2) obtain c' where c': "find_contract d (ct_tenant c) (ct_id c) = Some c'"
    "c' \<in> set (db_contracts d)" "ct_tenant c' = ct_tenant c" "ct_id c' = ct_id c"
    by (rule find_contract_total)
  have "inj_on (\<lambda>c. (ct_tenant c, ct_id c)) (set (db_contracts d))"
    using assms(1) by (simp add: distinct_map)
  then have "c' = c" by (rule inj_onD) (use assms(2) c' in auto)
  with c'(1) show ?thesis by simp
qed

lemma create_activations_ok:
  assumes "create_activations e cs n d = (m, None, d')" and "project_ids_fresh e d"
    and "\<And>c. c \<in> set cs \<Longrightarrow> find_contract d (ct_tenant c) (ct_id c) = Some c \<and> ordinary_contract_record c
           \<and> ct_integration_policy c \<noteq> ''NOT_APPLICABLE''"
  shows "project_frame d d' \<and> (\<exists>rows. db_project_outbox d' = db_project_outbox d @ rows)
    \<and> (\<forall>c \<in> set cs. has_project_row d' (ct_tenant c) (ct_id c))"
  using assms
proof (induction e cs n d rule: create_activations.induct)
  case (2 e c cs n d)
  show ?case
  proof (cases "has_project_row d (ct_tenant c) (ct_id c)")
    case True
    with 2(3) have run: "create_activations e cs n d = (m, None, d')" by simp
    have "project_frame d d' \<and> (\<exists>rows. db_project_outbox d' = db_project_outbox d @ rows)
      \<and> (\<forall>c \<in> set cs. has_project_row d' (ct_tenant c) (ct_id c))"
      by (rule 2(1) [OF True run 2(4)]) (use 2(5) in simp)
    with has_project_row_mono [OF _ True, of d'] show ?thesis by simp
  next
    case False
    with 2(3) obtain d1 where
      enq: "enqueue_project_activation e (ct_tenant c) (ct_id c) d = Inr d1" and
      run: "create_activations e cs (n + 1) d1 = (m, None, d')" by (auto split: sum.splits)
    have c: "find_contract d (ct_tenant c) (ct_id c) = Some c" "ordinary_contract_record c"
      "ct_integration_policy c \<noteq> ''NOT_APPLICABLE''" using 2(5) [of c] by auto
    note ok = enqueue_project_activation_ok [OF enq c(1)]
    have loc: "local_outbound_not_applicable c = Inr False"
      using ok(4) c(3) by (auto simp: local_outbound_not_applicable_def split: if_splits)
    have row: "has_project_row d1 (ct_tenant c) (ct_id c)"
      using ok(5) [OF 2(4) loc c(2)] by (auto simp: has_project_row_def list_ex_iff)
    have keep: "find_contract d1 = find_contract d"
      using project_frameD(1) [OF ok(1)] by (rule find_contract_cong)
    have "project_frame d1 d' \<and> (\<exists>rows. db_project_outbox d' = db_project_outbox d1 @ rows)
      \<and> (\<forall>c \<in> set cs. has_project_row d' (ct_tenant c) (ct_id c))"
      by (rule 2(2) [OF False enq run ok(3) [OF 2(4)]]) (use 2(5) keep in simp)
    with has_project_row_mono [OF _ row, of d'] ok(1,2) show ?thesis
      by (auto intro: project_frame_trans)
  qed
qed simp

text \<open>a reconciliation of project deliveries that ends without an error leaves no eligible contract
  without an activation event, changes nothing but queue rows and audit evidence, and keeps the row
  identifiers fresh for the next run.\<close>

theorem reconcile_projects_complete:
  assumes "reconcile_project_deliveries e d = (n, None, d')" and "project_ids_fresh e d"
    and "distinct (map (\<lambda>c. (ct_tenant c, ct_id c)) (db_contracts d))"
  shows "project_candidates d' = [] \<and> project_frame d d'"
proof -
  obtain k err d1 where first: "refresh_legacy e (legacy_project_rows d) 0 d = (k, err, d1)"
    by (metis prod.exhaust)
  with assms(1) have second: "create_activations e (project_candidates d1) k d1 = (n, None, d')"
    by (auto simp: reconcile_project_deliveries_def split: if_splits)
  note one = refresh_legacy_ok [OF first]
  have contracts: "db_contracts d1 = db_contracts d" using one project_frameD(1) by blast
  have found: "find_contract d1 (ct_tenant c) (ct_id c) = Some c" if "c \<in> set (db_contracts d1)" for c
    using assms(3) that unfolding contracts [symmetric] by (rule find_contract_distinct)
  have "project_frame d1 d' \<and> (\<exists>rows. db_project_outbox d' = db_project_outbox d1 @ rows)
      \<and> (\<forall>c \<in> set (project_candidates d1). has_project_row d' (ct_tenant c) (ct_id c))"
    by (rule create_activations_ok [OF second])
      (use one assms(2) found in \<open>auto simp: project_candidates_def\<close>)
  then have frame: "project_frame d1 d'"
    and mono: "\<And>t c. has_project_row d1 t c \<Longrightarrow> has_project_row d' t c"
    and rows: "\<And>c. c \<in> set (project_candidates d1) \<Longrightarrow> has_project_row d' (ct_tenant c) (ct_id c)"
    using has_project_row_mono by blast+
  have "set (project_candidates d') = {}"
    using mono rows by (auto simp: project_candidates_def project_frameD(1) [OF frame])
  with one frame show ?thesis by (auto intro: project_frame_trans)
qed

definition sample_active :: contract_row where
  "sample_active = sample_contract\<lparr>ct_status := StatusActive, ct_number := Some ''HT-19700001''\<rparr>"

lemma sample_ids_fresh: "project_ids_fresh sample_db_env (sample_db cs)"
proof -
  have "inj sample_ulid"
    using fmt_pad_inj [of 0] by (auto simp: inj_def sample_ulid_def fmt_pad_def pad_zero_def)
  then show ?thesis by (simp add: queue_fresh_def sample_db_env_def sample_db_def)
qed

lemma sample_activation:
  "\<exists>d'. enqueue_project_activation sample_db_env ''t1'' ''c1'' (sample_db [sample_active]) = Inr d'"
  by (simp add: enqueue_project_activation_def sample_active_def sample_defs find_contract_def contract_at_def
      local_outbound_not_applicable_def ordinary_contract_record_def json_empty_def decode_items_def
      read_clock_def new_id_def insert_audit_def insert_row_def Let_def)

theorem reconcile_projects_complete_witness:
  "\<exists>n d'. reconcile_project_deliveries sample_db_env (sample_db [sample_active]) = (n, None, d')
     \<and> project_candidates d' = []"
proof -
  let ?d = "sample_db [sample_active]"
  obtain d1 where enq: "enqueue_project_activation sample_db_env ''t1'' ''c1'' ?d = Inr d1"
    using sample_activation by blast
  have legacy: "legacy_project_rows ?d = []" by (simp add: legacy_project_rows_def sample_db_def)
  have cand: "project_candidates ?d = [sample_active]"
    by (simp add: project_candidates_def sample_db_def has_project_row_def sample_active_def
        sample_contract_def ordinary_contract_record_def json_empty_def json_length_positive_def
        project_delivery_eligible_statuses_def)
  have key: "ct_tenant sample_active = ''t1''" "ct_id sample_active = ''c1''"
    by (simp_all add: sample_active_def sample_contract_def)
  have none: "\<not> has_project_row ?d ''t1'' ''c1''" by (simp add: has_project_row_def sample_db_def)
  have run: "reconcile_project_deliveries sample_db_env ?d = (1, None, d1)"
    by (simp add: reconcile_project_deliveries_def legacy cand key none enq)
  have "distinct (map (\<lambda>c. (ct_tenant c, ct_id c)) (db_contracts ?d))" by (simp add: sample_db_def)
  from reconcile_projects_complete [OF run sample_ids_fresh this] run show ?thesis by blast
qed

end
