(* ===== verification/Contract_Store.thy ===== *)
theory Contract_Store
  imports Project_Delivery
begin

text \<open>
  What the transactions on a contract row share: reading a row into a contract
  (\<^verbatim>\<open>contractFromRecord\<close>, \<^verbatim>\<open>readContractSource\<close>) and back (\<^verbatim>\<open>applyContractSource\<close>),
  the status update with its responsibility event, the life cycle row with its audit row, and the count
  of running approvals.
\<close>

section \<open>Rows and contracts\<close>

definition read_contract_source :: "contract_row \<Rightarrow> contract \<Rightarrow> contract" where
  "read_contract_source r c = c\<lparr>
     c_counterparty_source := ct_counterparty_source r,
     c_local_counterparty_id := value_or_empty (ct_local_counterparty r),
     c_counterparty_version := uint_value_or_zero (ct_counterparty_version r),
     c_category_source := ct_category_source r, c_integration_policy := ct_integration_policy r,
     c_document_format := ct_document_format r, c_source_media_type := ct_source_media_type r,
     c_source_filename := ct_source_filename r, c_source_sha256 := ct_source_sha256 r,
     c_paper_number := ct_paper_number r, c_origin_kind := ct_origin_kind r,
     c_import_mode := ct_import_mode r, c_origin_item_id := value_or_empty (ct_origin_item r),
     c_historical_status := ct_historical_status r, c_historical_customer := ct_historical_customer r,
     c_historical_owner := ct_historical_owner r,
     c_import_policy := (case ct_import_policy r of
        JsonEmpty \<Rightarrow> c_import_policy c
      | JsonNull \<Rightarrow> None
      | JsonBad \<Rightarrow> Some \<lparr>ip_version = -1, ip_project_mode = [], ip_finance_mode = [], ip_report_mode = [],
                      ip_responsibility_mode = [], ip_signing_mode = []\<rparr>
      | JsonOk p \<Rightarrow> Some p)\<rparr>"

text \<open>A column whose decoding error the code ignores; what does not decode leaves the zero value.\<close>

definition json_or :: "'a \<Rightarrow> 'a json_col \<Rightarrow> 'a" where
  "json_or z c = (case c of JsonOk x \<Rightarrow> x | _ \<Rightarrow> z)"

definition default_service_item :: "string \<Rightarrow> system_info list \<Rightarrow> service_item" where
  "default_service_item service_type systems =
     \<lparr>svc_category_id = [], svc_category_version = 0, svc_source_id = [], svc_name = [],
      svc_service_type = service_type, svc_site = [], svc_batch = [], svc_category = [],
      svc_requirement = [], svc_test_mode = [], svc_systems = systems\<rparr>"

definition record_service_items :: "contract_row \<Rightarrow> service_item list" where
  "record_service_items r =
     (let items = json_or [] (ct_service_items r) in
      if items = [] \<and> ct_service_type r \<noteq> []
      then [default_service_item (ct_service_type r) (json_or [] (ct_systems r))] else items)"

definition contract_from_record :: "contract_row \<Rightarrow> contract" where
  "contract_from_record r = read_contract_source r \<lparr>
     c_id = ct_id r, c_tenant_id = ct_tenant r, c_number = value_or_empty (ct_number r),
     c_number_format = ct_number_format r, c_title = ct_title r, c_type = ct_type r,
     c_service_type = ct_service_type r, c_opportunity_id = value_or_empty (ct_opportunity_id r),
     c_opportunity_name = value_or_empty (ct_opportunity_name r),
     c_crm_customer_id = uint_value_or_zero (ct_crm_customer r),
     c_counterparty_source = [], c_local_counterparty_id = [], c_counterparty_version = 0,
     c_category_source = [], c_integration_policy = [],
     c_customer_name = value_or_empty (ct_customer_name r),
     c_customer_address = value_or_empty (ct_customer_address r),
     c_customer_contact = value_or_empty (ct_customer_contact r),
     c_customer_phone = value_or_empty (ct_customer_phone r),
     c_owner_identity_id = value_or_empty (ct_owner_identity r),
     c_owner_org_id = value_or_empty (ct_owner_org r), c_project_id = value_or_empty (ct_project r),
     c_systems = json_or [] (ct_systems r), c_service_items = record_service_items r,
     c_credit_level = value_or_empty (ct_credit_level r), c_owner_user_id = ct_owner r,
     c_owner_name = ct_owner_name r, c_amount_minor = ct_amount r, c_currency = ct_currency r,
     c_payment_terms = None, c_content = ct_content r,
     c_template_id = value_or_empty (ct_template r),
     c_template_values = json_or Map.empty (ct_template_values r), c_document = ct_document r,
     c_document_format = [], c_source_media_type = [], c_source_filename = [], c_source_sha256 = [],
     c_paper_number = [], c_origin_kind = [], c_import_mode = [], c_origin_item_id = [],
     c_historical_status = [], c_historical_customer = [], c_historical_owner = [],
     c_import_policy = None, c_source_file_id = ct_source_file_id r,
     c_source_file_status = ct_source_file_status r, c_status = ct_status r, c_version = ct_version r,
     c_start_date = ct_start_date r, c_end_date = ct_end_date r,
     c_content_hash = value_or_empty (ct_content_hash r), c_created_at = ct_created_at r,
     c_created_by = ct_created_by r, c_can_edit_draft = False, c_updated_at = ct_updated_at r\<rparr>"

definition contract_source_error :: "contract \<Rightarrow> app_error option" where
  "contract_source_error source0 =
     (let source = (if c_origin_kind source0 = [] then source0\<lparr>c_origin_kind := ''NORMAL''\<rparr> else source0);
          local = (c_counterparty_source source = ''LOCAL'' \<or> c_category_source source = ''LOCAL'')
      in if c_origin_kind source = ''NORMAL'' \<and> \<not> operational_origin source then Some ErrImportPolicy
         else if c_origin_kind source \<noteq> ''NORMAL'' \<and>
                 (c_origin_kind source \<noteq> ''IMPORTED'' \<or> c_import_mode source = []
                  \<or> c_import_mode source = import_normal
                  \<or> validate_import_policy (c_import_mode source) (c_import_policy source) \<noteq> Inr ())
         then Some ErrImportPolicy
         else if local \<and> (c_origin_kind source \<noteq> ''NORMAL'' \<or> c_integration_policy source \<noteq> ''NOT_APPLICABLE'')
         then Some ErrContractSourceConflict
         else if c_counterparty_source source = ''LOCAL'' \<and>
                 (c_crm_customer_id source \<noteq> 0 \<or> c_opportunity_id source \<noteq> []
                  \<or> c_local_counterparty_id source = [] \<or> c_counterparty_version source = 0)
         then Some ErrValidation
         else None)"

definition apply_contract_source :: "contract \<Rightarrow> contract_row \<Rightarrow> contract_row result" where
  "apply_contract_source source0 r =
     (let source = (if c_origin_kind source0 = [] then source0\<lparr>c_origin_kind := ''NORMAL''\<rparr> else source0)
      in case contract_source_error source0 of
           Some err \<Rightarrow> fail err
         | None \<Rightarrow> ok (r\<lparr>
             ct_counterparty_source := c_counterparty_source source,
             ct_local_counterparty := string_ptr (c_local_counterparty_id source),
             ct_counterparty_version := uint_ptr (c_counterparty_version source),
             ct_category_source := c_category_source source,
             ct_integration_policy := c_integration_policy source,
             ct_document_format := c_document_format source,
             ct_source_media_type := c_source_media_type source,
             ct_source_filename := c_source_filename source,
             ct_source_sha256 := c_source_sha256 source,
             ct_paper_number := c_paper_number source, ct_origin_kind := c_origin_kind source,
             ct_import_mode := c_import_mode source,
             ct_origin_item := string_ptr (c_origin_item_id source),
             ct_historical_status := c_historical_status source,
             ct_historical_customer := c_historical_customer source,
             ct_historical_owner := c_historical_owner source,
             ct_import_policy := (case c_import_policy source of
                None \<Rightarrow> ct_import_policy r | Some p \<Rightarrow> JsonOk p)\<rparr>))"

section \<open>Status updates\<close>

definition set_status :: "string \<Rightarrow> string \<Rightarrow> status \<Rightarrow> status \<Rightarrow> string \<Rightarrow> instant \<Rightarrow> contract_row list \<Rightarrow> contract_row list" where
  "set_status tenant cid from to actor now rows =
     update_rows (\<lambda>r. contract_at tenant cid r \<and> ct_status r = from)
       (\<lambda>r. r\<lparr>ct_status := to, ct_version := ct_version r + 1, ct_updated_at := now,
               ct_updated_by := actor\<rparr>) rows"

definition update_status ::
  "env \<Rightarrow> string \<Rightarrow> string \<Rightarrow> status \<Rightarrow> status \<Rightarrow> string \<Rightarrow> db \<Rightarrow> db result" where
  "update_status e tenant cid from to actor d =
     res_bind (validate_transition from to) (\<lambda>_.
       let (now, d1) = read_clock e d in
       if rows_affected (\<lambda>r. contract_at tenant cid r \<and> ct_status r = from) (db_contracts d1) \<noteq> 1
       then fail ErrStateConflict
       else enqueue_responsibility e tenant cid
              (d1\<lparr>db_contracts := set_status tenant cid from to actor now (db_contracts d1)\<rparr>))"

definition insert_lifecycle ::
  "env \<Rightarrow> string \<Rightarrow> string \<Rightarrow> string \<Rightarrow> string \<Rightarrow> status \<Rightarrow> status \<Rightarrow> string \<Rightarrow> string \<Rightarrow> string \<Rightarrow> db \<Rightarrow> db result" where
  "insert_lifecycle e tenant cid approval workflow from to actor reason key d =
     (let (i, d1) = new_id e d;
          (now, d2) = read_clock e d1;
          row = \<lparr>lc_id = i, lc_tenant = tenant, lc_contract = cid, lc_from = from, lc_to = to,
                 lc_actor = string_ptr actor, lc_reason = string_ptr reason,
                 lc_approval = string_ptr approval, lc_workflow = string_ptr workflow,
                 lc_key = key, lc_occurred_at = now\<rparr>;
          d3 = d2\<lparr>db_lifecycle := insert_ignore lifecycle_clash row (db_lifecycle d2)\<rparr>
      in insert_audit e tenant
           (audit_entry_for e actor ''STATUS_CHANGE'' cid
              [(''contract_id'', AvStr cid), (''from_status'', AvStr (status_string from)),
               (''to_status'', AvStr (status_string to)), (''reason'', AvStr reason)]) d3)"

definition count_running_approvals :: "db \<Rightarrow> string \<Rightarrow> string \<Rightarrow> approval_kind list \<Rightarrow> nat" where
  "count_running_approvals d tenant cid kinds =
     rows_affected (\<lambda>i. in_tenant i = tenant \<and> in_contract i = cid \<and> in_kind i \<in> set kinds
                        \<and> in_status i = AStatusRunning) (db_instances d)"

section \<open>What they change\<close>

text \<open>Statements of one contract: the row of the contract may change, all others stay.\<close>

definition store_frame :: "db \<Rightarrow> db \<Rightarrow> bool" where
  "store_frame d d' \<longleftrightarrow>
     d' = d\<lparr>db_tick := db_tick d', db_seq := db_seq d', db_contracts := db_contracts d',
             db_lifecycle := db_lifecycle d', db_streams := db_streams d',
             db_responsibility_outbox := db_responsibility_outbox d', db_audit := db_audit d'\<rparr>"

lemma store_frameD:
  assumes "store_frame d d'"
  shows "db_terms d' = db_terms d" "db_rules d' = db_rules d" "db_instances d' = db_instances d"
    "db_snapshots d' = db_snapshots d" "db_tasks d' = db_tasks d" "db_actions d' = db_actions d"
    "db_notifications d' = db_notifications d" "db_project_outbox d' = db_project_outbox d"
    "db_financial_outbox d' = db_financial_outbox d" "db_link_outbox d' = db_link_outbox d"
    "db_stamped d' = db_stamped d" "db_signing d' = db_signing d" "db_confirmations d' = db_confirmations d"
    "db_number_rules d' = db_number_rules d" "db_sequences d' = db_sequences d" "db_registry d' = db_registry d"
    "db_freezes d' = db_freezes d" "db_receipts d' = db_receipts d" "db_intakes d' = db_intakes d"
    "db_intake_reviews d' = db_intake_reviews d"
  using assms unfolding store_frame_def by - (erule ssubst, simp)+

lemma store_frame_refl [simp]: "store_frame d d"
  by (simp add: store_frame_def)

lemma store_frame_trans:
  assumes "store_frame d d1" and "store_frame d1 d2"
  shows "store_frame d d2"
  unfolding store_frame_def
  by (rule db.equality) (simp_all add: store_frameD [OF assms(1)] store_frameD [OF assms(2)])

lemma responsibility_store_frame: "responsibility_frame d d' \<Longrightarrow> store_frame d d'"
  unfolding store_frame_def by (rule db.equality) (simp_all add: responsibility_frameD)

lemma insert_audit_store_frame: "insert_audit e tenant entry d = Inr d' \<Longrightarrow> store_frame d d'"
  by (auto simp: store_frame_def dest!: insert_audit_ok)

lemma insert_lifecycle_ok:
  assumes "insert_lifecycle e tenant cid approval workflow from to actor reason key d = Inr d'"
  shows "store_frame d d'" and "db_contracts d' = db_contracts d" and "db_streams d' = db_streams d"
    and "\<exists>row. lc_tenant row = tenant \<and> lc_contract row = cid \<and> lc_from row = from \<and> lc_to row = to
      \<and> lc_key row = key \<and> db_lifecycle d' = insert_ignore lifecycle_clash row (db_lifecycle d)"
proof -
  define row where "row = \<lparr>lc_id = env_ulid e (db_seq d), lc_tenant = tenant, lc_contract = cid,
      lc_from = from, lc_to = to, lc_actor = string_ptr actor, lc_reason = string_ptr reason,
      lc_approval = string_ptr approval, lc_workflow = string_ptr workflow,
      lc_key = key, lc_occurred_at = env_clock e (db_tick d)\<rparr>"
  define d1 where "d1 = d\<lparr>db_seq := db_seq d + 1, db_tick := db_tick d + 1,
      db_lifecycle := insert_ignore lifecycle_clash row (db_lifecycle d)\<rparr>"
  from assms obtain entry where run: "insert_audit e tenant entry d1 = Inr d'"
    by (simp add: insert_lifecycle_def new_id_def read_clock_def row_def d1_def)
  note same = project_frameD [OF insert_audit_frame [OF run]]
  have "store_frame d d1" by (simp add: store_frame_def d1_def)
  with insert_audit_store_frame [OF run] show "store_frame d d'" by (blast intro: store_frame_trans)
  show "db_contracts d' = db_contracts d" "db_streams d' = db_streams d"
    using same(1,7) by (simp_all add: d1_def)
  show "\<exists>row. lc_tenant row = tenant \<and> lc_contract row = cid \<and> lc_from row = from \<and> lc_to row = to
      \<and> lc_key row = key \<and> db_lifecycle d' = insert_ignore lifecycle_clash row (db_lifecycle d)"
    by (rule exI [of _ row]) (use same(3) in \<open>simp add: d1_def row_def\<close>)
qed

lemma find_set_status:
  "first_row (contract_at t c) (set_status tenant cid from to actor now rows) =
     map_option (\<lambda>r. if contract_at tenant cid r \<and> ct_status r = from
                     then r\<lparr>ct_status := to, ct_version := ct_version r + 1, ct_updated_at := now,
                             ct_updated_by := actor\<rparr> else r)
       (first_row (contract_at t c) rows)"
  unfolding set_status_def by (rule first_row_update_rows) (simp add: contract_at_def)

text \<open>A status update that succeeds was a legal transition of the row from the expected status; it
  takes one version, and the responsibility stream of the contract is up to date with the new row.\<close>

lemma update_status_ok:
  assumes "update_status e tenant cid from to actor d = Inr d'"
  shows "can_transition from to" and "store_frame d d'" and "db_lifecycle d' = db_lifecycle d"
    and "\<exists>now. db_contracts d' = set_status tenant cid from to actor now (db_contracts d)"
    and "rows_affected (\<lambda>r. contract_at tenant cid r \<and> ct_status r = from) (db_contracts d) = 1"
    and "\<exists>r s. find_contract d' tenant cid = Some r \<and> stream_of d' tenant cid = Some s \<and> stream_matches r s"
proof -
  define d1 where "d1 = d\<lparr>db_tick := db_tick d + 1,
      db_contracts := set_status tenant cid from to actor (env_clock e (db_tick d)) (db_contracts d)\<rparr>"
  from assms have "validate_transition from to = Inr ()"
    and rows: "rows_affected (\<lambda>r. contract_at tenant cid r \<and> ct_status r = from) (db_contracts d) = 1"
    and enq: "enqueue_responsibility e tenant cid d1 = Inr d'"
    by (auto simp: update_status_def res_bind_eq_ok read_clock_def d1_def Let_def split: if_splits)
  then show "can_transition from to" by simp
  show "rows_affected (\<lambda>r. contract_at tenant cid r \<and> ct_status r = from) (db_contracts d) = 1" by (rule rows)
  from enq obtain r where r: "find_contract d1 tenant cid = Some r"
    by (auto simp: enqueue_responsibility_def split: option.splits)
  note ok = enqueue_responsibility_ok [OF enq r]
  have "store_frame d d1" by (simp add: store_frame_def d1_def)
  with ok(1) show "store_frame d d'" by (blast intro: store_frame_trans responsibility_store_frame)
  show "db_lifecycle d' = db_lifecycle d" using responsibility_frameD(3) [OF ok(1)] by (simp add: d1_def)
  show "\<exists>now. db_contracts d' = set_status tenant cid from to actor now (db_contracts d)"
    using responsibility_frameD(1) [OF ok(1)] by (auto simp: d1_def)
  have "find_contract d' tenant cid = Some r"
    using r find_contract_cong [OF responsibility_frameD(1) [OF ok(1)]] by simp
  with ok(2) show "\<exists>r s. find_contract d' tenant cid = Some r \<and> stream_of d' tenant cid = Some s \<and> stream_matches r s"
    by blast
qed

text \<open>On the row itself, and on the rows of other contracts.\<close>

definition status_row :: "status \<Rightarrow> string \<Rightarrow> instant \<Rightarrow> contract_row \<Rightarrow> contract_row" where
  "status_row to actor now r =
     r\<lparr>ct_status := to, ct_version := ct_version r + 1, ct_updated_at := now, ct_updated_by := actor\<rparr>"

lemma status_row_simps [simp]:
  "ct_status (status_row to actor now r) = to" "ct_version (status_row to actor now r) = ct_version r + 1"
  "ct_number (status_row to actor now r) = ct_number r" "ct_tenant (status_row to actor now r) = ct_tenant r"
  "ct_id (status_row to actor now r) = ct_id r" "ct_amount (status_row to actor now r) = ct_amount r"
  by (simp_all add: status_row_def)

lemma update_status_find:
  assumes "update_status e tenant cid from to actor d = Inr d'" and "find_contract d tenant cid = Some r"
    and "ct_status r = from"
  shows "\<exists>now. find_contract d' tenant cid = Some (status_row to actor now r)"
proof -
  obtain now where "db_contracts d' = set_status tenant cid from to actor now (db_contracts d)"
    using update_status_ok(4) [OF assms(1)] by blast
  then show ?thesis
    using assms(2,3) find_contract_SomeD [OF assms(2)]
    by (auto simp: find_contract_def find_set_status status_row_def contract_at_def)
qed

lemma update_status_other:
  assumes "update_status e tenant cid from to actor d = Inr d'" and "(t, c) \<noteq> (tenant, cid)"
  shows "find_contract d' t c = find_contract d t c"
proof -
  obtain now where "db_contracts d' = set_status tenant cid from to actor now (db_contracts d)"
    using update_status_ok(4) [OF assms(1)] by blast
  moreover have "\<not> contract_at tenant cid r" if "first_row (contract_at t c) (db_contracts d) = Some r" for r
    using first_row_SomeD [OF that] assms(2) by (auto simp: contract_at_def)
  ultimately show ?thesis
    by (cases "first_row (contract_at t c) (db_contracts d)") (auto simp: find_contract_def find_set_status)
qed

text \<open>what a contract says about its origin survives the data base: a row written from an accepted
  contract reads back with the same source, document, origin and history fields.\<close>

theorem contract_source_round_trip:
  assumes "apply_contract_source c r = Inr r'" and "ct_import_policy r = JsonEmpty"
  shows "let b = contract_from_record r' in
    c_counterparty_source b = c_counterparty_source c \<and> c_local_counterparty_id b = c_local_counterparty_id c
    \<and> c_counterparty_version b = c_counterparty_version c \<and> c_category_source b = c_category_source c
    \<and> c_integration_policy b = c_integration_policy c \<and> c_document_format b = c_document_format c
    \<and> c_source_media_type b = c_source_media_type c \<and> c_source_filename b = c_source_filename c
    \<and> c_source_sha256 b = c_source_sha256 c \<and> c_paper_number b = c_paper_number c
    \<and> c_origin_kind b = (if c_origin_kind c = [] then ''NORMAL'' else c_origin_kind c)
    \<and> c_import_mode b = c_import_mode c \<and> c_origin_item_id b = c_origin_item_id c
    \<and> c_historical_status b = c_historical_status c \<and> c_historical_customer b = c_historical_customer c
    \<and> c_historical_owner b = c_historical_owner c \<and> c_import_policy b = c_import_policy c"
  using assms
  by (auto simp: apply_contract_source_def contract_from_record_def read_contract_source_def Let_def
      split: option.splits)

definition imported_source :: contract where
  "imported_source = (contract_from_record sample_contract)\<lparr>c_origin_kind := [],
     c_document_format := ''PDF'', c_paper_number := ''P-7''\<rparr>"

theorem contract_source_round_trip_witness:
  "\<exists>r'. apply_contract_source imported_source sample_contract = Inr r'
     \<and> c_paper_number (contract_from_record r') = ''P-7''"
proof -
  have "is_ok (apply_contract_source imported_source sample_contract)" by code_simp
  then obtain r' where r': "apply_contract_source imported_source sample_contract = Inr r'"
    by (auto simp: is_ok_def split: sum.splits)
  have "ct_import_policy sample_contract = JsonEmpty" "c_paper_number imported_source = ''P-7''"
    by (simp_all add: sample_contract_def imported_source_def)
  with contract_source_round_trip [OF r'] r' show ?thesis by (auto simp: Let_def)
qed

end
