(* ===== verification/Financial.thy ===== *)
theory Financial
  imports Contract_Store
begin

text \<open>
  Payment plans in the data base and the financial events built from them
  (\<^verbatim>\<open>payment_terms.go\<close>): storing and reading a plan, the decision whether a contract has a
  legal event and why not, the event per contract version, its reconciliation, the backlog count, and the
  controlled change of the financial terms of an approved contract.
\<close>

section \<open>Plans\<close>

definition term_of :: "string \<Rightarrow> string \<Rightarrow> payment_term_record \<Rightarrow> bool" where
  "term_of tenant cid t \<longleftrightarrow> ptr_tenant_id t = tenant \<and> ptr_contract_id t = cid"

definition term_clash :: "payment_term_record \<Rightarrow> payment_term_record \<Rightarrow> bool" where
  "term_clash a b \<longleftrightarrow> ptr_id a = ptr_id b \<or>
     (term_of (ptr_tenant_id a) (ptr_contract_id a) b \<and> ptr_installment_no a = ptr_installment_no b)"

text \<open>The loop that gives every record its identity.\<close>

fun stamp_terms ::
  "env \<Rightarrow> string \<Rightarrow> string \<Rightarrow> instant \<Rightarrow> payment_term_record list \<Rightarrow> db \<Rightarrow> payment_term_record list \<times> db" where
  "stamp_terms e tenant cid now [] d = ([], d)"
| "stamp_terms e tenant cid now (t # ts) d =
     (let (i, d1) = new_id e d; (rest, d2) = stamp_terms e tenant cid now ts d1
      in (t\<lparr>ptr_id := i, ptr_tenant_id := tenant, ptr_contract_id := cid,
             ptr_created_at := now, ptr_updated_at := now\<rparr> # rest, d2))"

definition validation_error :: "'a result \<Rightarrow> 'a result" where
  "validation_error r = (case r of Inl _ \<Rightarrow> fail ErrValidation | Inr x \<Rightarrow> ok x)"

definition replace_payment_terms :: "env \<Rightarrow> contract \<Rightarrow> db \<Rightarrow> db result" where
  "replace_payment_terms e c d =
     res_bind (validation_error (normalize_payment_terms (terms_list (c_payment_terms c)) (c_amount_minor c)
         (c_currency c))) (\<lambda>terms.
       let d1 = d\<lparr>db_terms := filter (\<lambda>t. \<not> term_of (c_tenant_id c) (c_id c) t) (db_terms d)\<rparr> in
       if terms = [] then ok d1
       else res_bind (validation_error (record_payment_terms terms (c_amount_minor c))) (\<lambda>(records, tot).
         let (now, d2) = read_clock e d1;
             (rows, d3) = stamp_terms e (c_tenant_id c) (c_id c) now records d2
         in res_bind (insert_rows term_clash rows (db_terms d3)) (\<lambda>all. ok (d3\<lparr>db_terms := all\<rparr>))))"

definition shown_term :: "payment_term_record \<Rightarrow> payment_term" where
  "shown_term t =
     \<lparr>pt_installment_no = int (ptr_installment_no t), pt_due_date = format_date (ptr_due_date t),
      pt_amount = format_amount_minor (ptr_amount_minor t)\<rparr>"

definition contract_terms :: "db \<Rightarrow> string \<Rightarrow> string \<Rightarrow> payment_term_record list" where
  "contract_terms d tenant cid =
     sort_key ptr_installment_no (filter (term_of tenant cid) (db_terms d))"

definition list_payment_terms :: "db \<Rightarrow> string \<Rightarrow> string \<Rightarrow> payment_term list" where
  "list_payment_terms d tenant cid = map shown_term (contract_terms d tenant cid)"

text \<open>The batch read: \<^verbatim>\<open>positions\<close> keeps the last place of an identifier, so of several contracts
  with one identifier only the last gets the terms.\<close>

definition attach_payment_terms :: "db \<Rightarrow> string \<Rightarrow> contract list \<Rightarrow> contract list" where
  "attach_payment_terms d tenant cs =
     (let rows = sort_key ptr_contract_id (sort_key ptr_installment_no
            (filter (\<lambda>t. ptr_tenant_id t = tenant \<and> ptr_contract_id t \<in> c_id ` set cs) (db_terms d)))
      in map (\<lambda>k. (cs ! k)\<lparr>c_payment_terms := Some (if c_id (cs ! k) \<in> c_id ` set (drop (k + 1) cs) then []
             else map shown_term (filter (\<lambda>t. ptr_contract_id t = c_id (cs ! k)) rows))\<rparr>) [0..<length cs])"

section \<open>Events\<close>

definition wrap_int64 :: "int \<Rightarrow> int" where
  "wrap_int64 x = (x + 2 ^ 63) mod 2 ^ 64 - 2 ^ 63"

definition terms_total :: "payment_term_record list \<Rightarrow> int" where
  "terms_total ts = foldl (\<lambda>acc t. wrap_int64 (acc + ptr_amount_minor t)) 0 ts"

text \<open>The reason not to produce an event, empty when the contract has a legal one.\<close>

definition financial_skip_reason :: "contract_row option \<Rightarrow> payment_term_record list \<Rightarrow> string" where
  "financial_skip_reason row terms =
     (case row of
        None \<Rightarrow> ''not_ordinary_contract''
      | Some r \<Rightarrow>
          if ct_integration_policy r = ''NOT_APPLICABLE''
             \<and> (ct_counterparty_source r = ''LOCAL'' \<or> ct_category_source r = ''LOCAL'')
          then ''local_source_not_applicable''
          else if \<not> ordinary_contract_record r then ''not_ordinary_contract''
          else if value_or_empty (ct_number r) = [] \<or> customer_id_of (ct_crm_customer r) = []
                  \<or> value_or_empty (ct_customer_name r) = []
          then ''missing_contract_number_or_customer''
          else if length (trim_space (ct_currency r)) \<noteq> 3 \<or> ct_amount r \<le> 0 \<or> ct_version r = 0
          then ''invalid_currency_amount_or_version''
          else if terms = [] then ''payment_terms_missing''
          else if terms_total terms \<noteq> ct_amount r then ''payment_terms_total_mismatch''
          else [])"

definition financial_eligible ::
  "db \<Rightarrow> string \<Rightarrow> string \<Rightarrow> (contract_row \<times> payment_term_record list \<times> bool) result" where
  "financial_eligible d tenant cid =
     (case find_contract d tenant cid of
        None \<Rightarrow> fail err_no_record
      | Some r \<Rightarrow>
          res_bind (local_outbound_not_applicable r) (\<lambda>skip.
            if skip then ok (r, [], False)
            else let terms = contract_terms d tenant cid
                 in ok (r, terms, financial_skip_reason (Some r) terms = [])))"

definition new_financial_payload ::
  "string \<Rightarrow> contract_row \<Rightarrow> payment_term_record list \<Rightarrow> instant \<Rightarrow> financial_payload" where
  "new_financial_payload i r terms now =
     \<lparr>fp_event_id = i, fp_event_type = ''contract.financial_effective.v1'', fp_tenant_id = ct_tenant r,
      fp_occurred_at = now, fp_contract_id = ct_id r, fp_version = ct_version r,
      fp_contract_no = value_or_empty (ct_number r), fp_customer_id = customer_id_of (ct_crm_customer r),
      fp_customer_name = value_or_empty (ct_customer_name r), fp_owner_user_id = ct_owner r,
      fp_project_id = value_or_empty (ct_project r), fp_currency = to_upper (trim_space (ct_currency r)),
      fp_amount = format_amount_minor (ct_amount r), fp_payment_terms = map shown_term terms\<rparr>"

text \<open>The result is \<open>None\<close> for an event that is in the queue, or the reason for having none.\<close>

definition enqueue_financial :: "env \<Rightarrow> string \<Rightarrow> string \<Rightarrow> db \<Rightarrow> (string option \<times> db) result" where
  "enqueue_financial e tenant cid d =
     res_bind (financial_eligible d tenant cid) (\<lambda>(r, terms, eligible).
       if \<not> eligible then ok (Some (financial_skip_reason (Some r) terms), d)
       else
         let (i, d1) = new_id e d; (next, d2) = read_clock e d1; (created, d3) = read_clock e d2;
             (now, d4) = read_clock e d3;
             row = new_outbox_row i tenant (ct_id r) (ct_version r) (new_financial_payload i r terms now)
                     next created
         in ok (None, d4\<lparr>db_financial_outbox := insert_ignore outbox_clash row (db_financial_outbox d4)\<rparr>))"

section \<open>Reconciliation\<close>

definition has_financial_event :: "db \<Rightarrow> contract_row \<Rightarrow> bool" where
  "has_financial_event d c \<longleftrightarrow>
     list_ex (\<lambda>r. ob_tenant r = ct_tenant c \<and> ob_key r = ct_id c \<and> ob_version r = ct_version c)
       (db_financial_outbox d)"

definition financial_candidates :: "db \<Rightarrow> contract_row list" where
  "financial_candidates d =
     sort_key ct_created_at (filter (\<lambda>c. ordinary_contract_record c
        \<and> ct_integration_policy c \<noteq> ''NOT_APPLICABLE''
        \<and> ct_status c \<in> set project_delivery_eligible_statuses
        \<and> list_ex (term_of (ct_tenant c) (ct_id c)) (db_terms d)
        \<and> \<not> has_financial_event d c) (db_contracts d))"

fun create_financials :: "env \<Rightarrow> contract_row list \<Rightarrow> nat \<Rightarrow> db \<Rightarrow> nat \<times> app_error option \<times> db" where
  "create_financials e [] n d = (n, None, d)"
| "create_financials e (c # cs) n d =
     (case financial_eligible d (ct_tenant c) (ct_id c) of
        Inl err \<Rightarrow> (n, Some err, d)
      | Inr (r, _, eligible) \<Rightarrow>
          if \<not> eligible then create_financials e cs n d
          else case enqueue_financial e (ct_tenant r) (ct_id r) d of
                 Inl err \<Rightarrow> (n, Some err, d)
               | Inr (reason, d') \<Rightarrow> create_financials e cs (if reason = None then n + 1 else n) d')"

definition reconcile_financials :: "env \<Rightarrow> db \<Rightarrow> nat \<times> app_error option \<times> db" where
  "reconcile_financials e d = create_financials e (financial_candidates d) 0 d"

definition financial_backlog :: "db \<Rightarrow> nat" where
  "financial_backlog d =
     rows_affected (\<lambda>c. ordinary_contract_record c \<and> ct_status c \<in> set project_delivery_eligible_statuses
        \<and> \<not> has_financial_event d c) (db_contracts d)"

section \<open>Change of the financial terms\<close>

record financial_change =
  fc_contract_id :: string
  fc_expected_version :: nat
  fc_amount_minor :: int
  fc_currency :: string
  fc_payment_terms :: "payment_term list"
  fc_reason :: string

definition financial_change_eligible_statuses :: "status list" where
  "financial_change_eligible_statuses = [StatusApproved, StatusActive, StatusInProgress, StatusPendingPay]"

definition financial_change_status_eligible :: "status \<Rightarrow> bool" where
  "financial_change_status_eligible s \<longleftrightarrow> s \<in> set financial_change_eligible_statuses"

text \<open>The checks of the locked row, in the order of the code.\<close>

definition financial_change_error :: "db \<Rightarrow> string \<Rightarrow> financial_change \<Rightarrow> contract_row \<Rightarrow> app_error option" where
  "financial_change_error d tenant ch r =
     (case local_outbound_not_applicable r of
        Inl err \<Rightarrow> Some err
      | Inr skip \<Rightarrow>
          if skip then Some ErrContractSourceConflict
          else if ct_tenant r \<noteq> tenant then Some ErrNotFound
          else if ct_version r \<noteq> fc_expected_version ch then Some ErrVersionConflict
          else if \<not> financial_change_status_eligible (ct_status r) then Some ErrStateConflict
          else if \<not> ordinary_contract_record r then Some ErrStateConflict
          else if rows_affected (\<lambda>i. in_tenant i = tenant \<and> in_contract i = ct_id r
                     \<and> in_status i = AStatusRunning) (db_instances d) > 0 then Some ErrStateConflict
          else if rows_affected (\<lambda>i. in_tenant i = tenant \<and> in_contract i = ct_id r
                     \<and> in_status i = AStatusApproved
                     \<and> in_kind i \<in> {KindContract, KindStatusChange}) (db_instances d) = 0
          then Some ErrFinancialChangeApprovalRequired
          else if \<not> equal_fold (trim_space (fc_currency ch)) (trim_space (ct_currency r))
          then Some ErrFinancialChangeCurrencyLocked
          else if fc_amount_minor ch \<le> 0 then Some ErrPaymentTermsInvalid
          else if fc_payment_terms ch = [] then Some ErrPaymentTermsInvalid
          else None)"

definition changed_row :: "financial_change \<Rightarrow> string \<Rightarrow> instant \<Rightarrow> contract_row \<Rightarrow> contract_row" where
  "changed_row ch actor now r =
     r\<lparr>ct_amount := fc_amount_minor ch, ct_version := ct_version r + 1, ct_updated_at := now,
       ct_updated_by := actor\<rparr>"

text \<open>The life cycle and audit rows of a change, written last.\<close>

definition record_financial_change ::
  "env \<Rightarrow> string \<Rightarrow> string \<Rightarrow> financial_change \<Rightarrow> contract_row \<Rightarrow> payment_term list \<Rightarrow> instant \<Rightarrow> db \<Rightarrow> db result" where
  "record_financial_change e tenant actor ch r terms now d =
     (let (i, d1) = new_id e d;
          version = fc_expected_version ch + 1;
          row = \<lparr>lc_id = i, lc_tenant = tenant, lc_contract = ct_id r, lc_from = ct_status r,
                 lc_to = ct_status r, lc_actor = string_ptr actor, lc_reason = string_ptr (fc_reason ch),
                 lc_approval = None, lc_workflow = None,
                 lc_key = ct_id r @ '':financial:v'' @ nat_str version, lc_occurred_at = now\<rparr>;
          d2 = d1\<lparr>db_lifecycle := insert_ignore lifecycle_clash row (db_lifecycle d1)\<rparr>
      in insert_audit e tenant
           (audit_entry_for e actor ''FINANCIAL_TERMS_CHANGED'' (ct_id r)
              [(''contract_id'', AvStr (ct_id r)),
               (''from_version'', AvInt (int (fc_expected_version ch))), (''to_version'', AvInt (int version)),
               (''from_amount_minor'', AvInt (ct_amount r)), (''to_amount_minor'', AvInt (fc_amount_minor ch)),
               (''currency'', AvStr (to_upper (trim_space (ct_currency r)))),
               (''installment_count'', AvInt (int (length terms))),
               (''reason'', AvStr (fc_reason ch)), (''approval_evidence'', AvStr ''APPROVED_APPROVAL_INSTANCE'')]) d2)"

definition apply_financial_change ::
  "env \<Rightarrow> string \<Rightarrow> financial_change \<Rightarrow> string \<Rightarrow> db \<Rightarrow> (contract \<times> db) result" where
  "apply_financial_change e tenant ch actor d =
     (if trim_space tenant = [] \<or> trim_space actor = [] \<or> trim_space (fc_contract_id ch) = []
         \<or> fc_expected_version ch = 0 then fail ErrNotFound
      else case find_contract d tenant (fc_contract_id ch) of
        None \<Rightarrow> fail ErrNotFound
      | Some r \<Rightarrow>
          (case financial_change_error d tenant ch r of
             Some err \<Rightarrow> fail err
           | None \<Rightarrow>
               res_bind (validation_error
                   (normalize_payment_terms (fc_payment_terms ch) (fc_amount_minor ch) (ct_currency r))) (\<lambda>terms.
                 let (now, d1) = read_clock e d;
                     hit = (\<lambda>x. contract_at tenant (ct_id r) x \<and> ct_version x = fc_expected_version ch
                                \<and> ct_status x = ct_status r);
                     updated = (contract_from_record r)\<lparr>c_amount_minor := fc_amount_minor ch,
                         c_currency := ct_currency r, c_payment_terms := Some terms,
                         c_version := fc_expected_version ch + 1, c_updated_at := now\<rparr>
                 in if rows_affected hit (db_contracts d1) \<noteq> 1 then fail ErrVersionConflict
                    else res_bind (replace_payment_terms e updated
                        (d1\<lparr>db_contracts := update_rows hit (changed_row ch actor now) (db_contracts d1)\<rparr>)) (\<lambda>d2.
                      res_bind (enqueue_financial e tenant (ct_id r) d2) (\<lambda>(reason, d3).
                        if reason \<noteq> None then fail ErrFinancialChangeEventNotQueued
                        else res_bind (record_financial_change e tenant actor ch r terms now d3) (\<lambda>d4.
                          ok (updated, d4)))))))"

section \<open>The queue\<close>

definition claim_financial_deliveries ::
  "env \<Rightarrow> (string \<Rightarrow> bool) \<Rightarrow> int \<Rightarrow> db \<Rightarrow> db \<times> financial_payload delivery list" where
  "claim_financial_deliveries e skip limit d =
     (let (now, d1) = read_clock e d; (q, ds) = claim_deliveries skip now limit (db_financial_outbox d1)
      in (d1\<lparr>db_financial_outbox := q\<rparr>, ds))"

definition claim_financial_delivery ::
  "env \<Rightarrow> (string \<Rightarrow> bool) \<Rightarrow> db \<Rightarrow> db \<times> financial_payload delivery option" where
  "claim_financial_delivery e skip d =
     (let (d', ds) = claim_financial_deliveries e skip 1 d
      in (d', case ds of [] \<Rightarrow> None | x # _ \<Rightarrow> Some x))"

definition mark_financial_delivered :: "env \<Rightarrow> string \<Rightarrow> db \<Rightarrow> db result" where
  "mark_financial_delivered e i d =
     (let (now, d1) = read_clock e d
      in res_bind (mark_delivered ErrNotFound i now (db_financial_outbox d1))
           (\<lambda>q. ok (d1\<lparr>db_financial_outbox := q\<rparr>)))"

definition mark_financial_failed :: "env \<Rightarrow> string \<Rightarrow> string \<Rightarrow> nat \<Rightarrow> bool \<Rightarrow> db \<Rightarrow> db" where
  "mark_financial_failed e i message attempts dead d =
     (let (now, d1) = read_clock e d
      in d1\<lparr>db_financial_outbox := mark_failed i message attempts dead now (db_financial_outbox d1)\<rparr>)"

section \<open>What a stored plan shows\<close>

definition terms_frame :: "db \<Rightarrow> db \<Rightarrow> bool" where
  "terms_frame d d' \<longleftrightarrow> d' = d\<lparr>db_tick := db_tick d', db_seq := db_seq d', db_terms := db_terms d'\<rparr>"

lemma terms_frameD:
  assumes "terms_frame d d'"
  shows "db_contracts d' = db_contracts d" "db_instances d' = db_instances d"
    "db_financial_outbox d' = db_financial_outbox d" "db_lifecycle d' = db_lifecycle d"
    "db_streams d' = db_streams d" "db_audit d' = db_audit d"
    "db_freezes d' = db_freezes d" "db_receipts d' = db_receipts d" "db_intakes d' = db_intakes d"
    "db_intake_reviews d' = db_intake_reviews d"
  using assms unfolding terms_frame_def by - (erule ssubst, simp)+

definition stamped_term :: "string \<Rightarrow> string \<Rightarrow> payment_term_record \<Rightarrow> payment_term_record \<Rightarrow> bool" where
  "stamped_term tenant cid t t' \<longleftrightarrow> term_of tenant cid t' \<and> ptr_installment_no t' = ptr_installment_no t
     \<and> ptr_due_date t' = ptr_due_date t \<and> ptr_amount_minor t' = ptr_amount_minor t"

lemma stamp_terms_ok:
  "stamp_terms e tenant cid now ts d = (rows, d') \<Longrightarrow>
     list_all2 (stamped_term tenant cid) ts rows \<and> d' = d\<lparr>db_seq := db_seq d'\<rparr> \<and> db_seq d \<le> db_seq d'"
proof (induction e tenant cid now ts d arbitrary: rows d' rule: stamp_terms.induct)
  case (2 e tenant cid now t ts d)
  define d1 where "d1 = d\<lparr>db_seq := db_seq d + 1\<rparr>"
  obtain rest d2 where run: "stamp_terms e tenant cid now ts d1 = (rest, d2)" by (metis prod.exhaust)
  have ih: "list_all2 (stamped_term tenant cid) ts rest \<and> d2 = d1\<lparr>db_seq := db_seq d2\<rparr> \<and> db_seq d1 \<le> db_seq d2"
    by (rule 2(1) [OF _ refl run]) (simp add: new_id_def d1_def)
  from 2(2) run have out: "rows = t\<lparr>ptr_id := env_ulid e (db_seq d), ptr_tenant_id := tenant,
      ptr_contract_id := cid, ptr_created_at := now, ptr_updated_at := now\<rparr> # rest" "d' = d2"
    by (simp_all add: new_id_def d1_def split: prod.splits)
  have "d2 = d\<lparr>db_seq := db_seq d2\<rparr>" using ih unfolding d1_def by (metis db.update_convs(2) db.surjective)
  moreover have "stamped_term tenant cid t (t\<lparr>ptr_id := env_ulid e (db_seq d), ptr_tenant_id := tenant,
      ptr_contract_id := cid, ptr_created_at := now, ptr_updated_at := now\<rparr>)"
    by (simp add: stamped_term_def term_of_def)
  ultimately show ?case using ih by (simp add: out d1_def)
qed simp

lemma term_of_other: "term_of t c x \<Longrightarrow> term_of t' c' x \<longleftrightarrow> t' = t \<and> c' = c"
  by (auto simp: term_of_def)

lemma shown_term_normal:
  assumes "normal_term t"
    and "stamped_term tenant cid (term_record (nat (pt_installment_no t)) (term_date t) (term_minor t)) r"
  shows "shown_term r = t"
proof -
  from assms(1) obtain due where "parse_date (pt_due_date t) = Some due" "format_date due = pt_due_date t"
    by (auto simp: normal_term_def due_date_ok_def split: option.splits)
  then have "format_date (term_date t) = pt_due_date t" by (simp add: term_date_def)
  with assms show ?thesis
    by (auto simp: shown_term_def stamped_term_def term_record_def normal_term_def)
qed

lemma stored_rows:
  assumes "list_all2 (stamped_term tenant cid)
      (map (\<lambda>t. term_record (nat (pt_installment_no t)) (term_date t) (term_minor t)) terms) rows"
    and "\<forall>t \<in> set terms. normal_term t"
  shows "\<And>r. r \<in> set rows \<Longrightarrow> term_of tenant cid r" and "map shown_term rows = terms"
    and "map ptr_amount_minor rows = map term_minor terms"
    and "map (\<lambda>r. int (ptr_installment_no r)) rows = map pt_installment_no terms"
proof -
  have rel: "list_all2 (\<lambda>t r. stamped_term tenant cid
        (term_record (nat (pt_installment_no t)) (term_date t) (term_minor t)) r) terms rows"
    using assms(1) by (simp add: list.rel_map)
  then show "\<And>r. r \<in> set rows \<Longrightarrow> term_of tenant cid r"
    by (metis (no_types, lifting) list_all2_conv_all_nth in_set_conv_nth stamped_term_def)
  show shown: "map shown_term rows = terms"
    using rel assms(2) by (intro nth_equalityI) (auto simp: list_all2_conv_all_nth intro!: shown_term_normal)
  show "map ptr_amount_minor rows = map term_minor terms"
    using rel by (intro nth_equalityI) (auto simp: list_all2_conv_all_nth stamped_term_def term_record_def)
  show "map (\<lambda>r. int (ptr_installment_no r)) rows = map pt_installment_no terms"
    unfolding shown [symmetric] by (simp add: shown_term_def)
qed

text \<open>Storing a plan replaces the plan of that contract and of no other; what is read back is the
  normalised plan, whose rows add up to the amount.\<close>

lemma replace_payment_terms_ok:
  assumes "replace_payment_terms e c d = Inr d'"
  obtains terms where
    "normalize_payment_terms (terms_list (c_payment_terms c)) (c_amount_minor c) (c_currency c) = Inr terms"
    "terms_frame d d'" "list_payment_terms d' (c_tenant_id c) (c_id c) = terms" "db_seq d \<le> db_seq d'"
    "\<And>t i. (t, i) \<noteq> (c_tenant_id c, c_id c) \<Longrightarrow> contract_terms d' t i = contract_terms d t i"
    "terms \<noteq> [] \<Longrightarrow> sum_list (map ptr_amount_minor (contract_terms d' (c_tenant_id c) (c_id c))) = c_amount_minor c"
    "terms \<noteq> [] \<Longrightarrow> list_all (\<lambda>r. 0 < ptr_amount_minor r) (contract_terms d' (c_tenant_id c) (c_id c))"
proof -
  let ?own = "term_of (c_tenant_id c) (c_id c)"
  define d1 where "d1 = d\<lparr>db_terms := filter (\<lambda>t. \<not> ?own t) (db_terms d)\<rparr>"
  from assms obtain terms where
    terms: "normalize_payment_terms (terms_list (c_payment_terms c)) (c_amount_minor c) (c_currency c) = Inr terms"
    and run: "if terms = [] then d' = d1
       else res_bind (validation_error (record_payment_terms terms (c_amount_minor c))) (\<lambda>(records, tot).
         let (now, d2) = read_clock e d1;
             (rows, d3) = stamp_terms e (c_tenant_id c) (c_id c) now records d2
         in res_bind (insert_rows term_clash rows (db_terms d3)) (\<lambda>all. ok (d3\<lparr>db_terms := all\<rparr>))) = Inr d'"
    by (auto simp: replace_payment_terms_def res_bind_eq_ok validation_error_def d1_def Let_def
        split: sum.splits if_splits)
  show ?thesis
  proof (cases "terms = []")
    case True
    with run have d': "d' = d1" by simp
    show ?thesis
    proof (rule that [OF terms])
      show "terms_frame d d'" "db_seq d \<le> db_seq d'" by (simp_all add: d' d1_def terms_frame_def)
      show "list_payment_terms d' (c_tenant_id c) (c_id c) = terms"
        by (simp add: True list_payment_terms_def contract_terms_def d' d1_def)
      fix t i assume "(t, i) \<noteq> (c_tenant_id c, c_id c)"
      then have "filter (term_of t i) (filter (\<lambda>t. \<not> ?own t) (db_terms d)) = filter (term_of t i) (db_terms d)"
        by (auto simp: term_of_def intro!: filter_cong)
      then show "contract_terms d' t i = contract_terms d t i" by (simp add: contract_terms_def d' d1_def)
    qed (use True in simp_all)
  next
    case False
    then have ne: "terms_list (c_payment_terms c) \<noteq> []" using terms by (auto simp: normalize_payment_terms_def)
    note plan = normalize_payment_terms_ok [OF terms ne]
    let ?recs = "map (\<lambda>t. term_record (nat (pt_installment_no t)) (term_date t) (term_minor t)) terms"
    have recs: "record_payment_terms terms (c_amount_minor c) = Inr (?recs, c_amount_minor c)"
      using plan record_terms_loop_normal [of terms "[]" 0 "c_amount_minor c"]
      by (simp add: record_payment_terms_def)
    define d2 where "d2 = d1\<lparr>db_tick := db_tick d1 + 1\<rparr>"
    obtain rows d3 where stamp: "stamp_terms e (c_tenant_id c) (c_id c) (env_clock e (db_tick d1)) ?recs d2 = (rows, d3)"
      by (metis prod.exhaust)
    note st = stamp_terms_ok [OF stamp]
    from run False recs stamp obtain all where
      all: "insert_rows term_clash rows (db_terms d3) = Inr all" and d': "d' = d3\<lparr>db_terms := all\<rparr>"
      by (auto simp: validation_error_def read_clock_def stamp [unfolded d2_def, simplified] Let_def
          res_bind_eq_ok)
    have d3: "d3 = d2\<lparr>db_seq := db_seq d3\<rparr>" using st by blast
    have tick: "db_tick d3 = Suc (db_tick d)" by (subst d3) (simp add: d2_def d1_def)
    have t3: "db_terms d3 = db_terms d1" by (subst d3) (simp add: d2_def)
    have all2: "all = filter (\<lambda>t. \<not> ?own t) (db_terms d) @ rows"
      using insert_rows_ok [OF all] t3 by (simp add: d1_def)
    have "list_all2 (stamped_term (c_tenant_id c) (c_id c)) ?recs rows" "\<forall>t \<in> set terms. normal_term t"
      using st plan by blast+
    note own = stored_rows(1) [OF this] and shown = stored_rows(2) [OF this]
      and minors = stored_rows(3) [OF this] and nos = stored_rows(4) [OF this]
    have "sorted (map (\<lambda>r. int (ptr_installment_no r)) rows)" unfolding nos using plan by blast
    then have sorted: "sorted (map ptr_installment_no rows)" by (simp add: sorted_map)
    have own_terms: "contract_terms d' (c_tenant_id c) (c_id c) = rows"
      using own sorted by (simp add: contract_terms_def d' all2 sort_key_id_if_sorted filter_id_conv)
    show ?thesis
    proof (rule that [OF terms])
      show "terms_frame d d'"
        unfolding terms_frame_def d' using tick by (subst d3) (simp add: d2_def d1_def)
      show "db_seq d \<le> db_seq d'" using st by (simp add: d' d2_def d1_def)
      show "list_payment_terms d' (c_tenant_id c) (c_id c) = terms"
        by (simp add: list_payment_terms_def own_terms shown)
      show "sum_list (map ptr_amount_minor (contract_terms d' (c_tenant_id c) (c_id c))) = c_amount_minor c"
        using plan by (simp add: own_terms minors)
      have "\<And>m. m \<in> set (map ptr_amount_minor rows) \<Longrightarrow> 0 < m"
        unfolding minors using plan by (auto simp: normal_term_def)
      then show "list_all (\<lambda>r. 0 < ptr_amount_minor r) (contract_terms d' (c_tenant_id c) (c_id c))"
        by (auto simp: own_terms list_all_iff)
      fix t i assume other: "(t, i) \<noteq> (c_tenant_id c, c_id c)"
      then have "filter (term_of t i) rows = []" using own by (fastforce simp: filter_empty_conv term_of_def)
      moreover have "filter (term_of t i) (filter (\<lambda>t. \<not> ?own t) (db_terms d)) = filter (term_of t i) (db_terms d)"
        using other by (auto simp: term_of_def intro!: filter_cong)
      ultimately show "contract_terms d' t i = contract_terms d t i"
        by (simp add: contract_terms_def d' all2)
    qed
  qed
qed

section \<open>Events are legal\<close>

definition financial_frame :: "db \<Rightarrow> db \<Rightarrow> bool" where
  "financial_frame d d' \<longleftrightarrow>
     d' = d\<lparr>db_tick := db_tick d', db_seq := db_seq d', db_financial_outbox := db_financial_outbox d'\<rparr>"

lemma financial_frameD:
  assumes "financial_frame d d'"
  shows "db_contracts d' = db_contracts d" "db_terms d' = db_terms d" "db_lifecycle d' = db_lifecycle d"
    "db_instances d' = db_instances d" "db_tasks d' = db_tasks d" "db_registry d' = db_registry d"
    "db_streams d' = db_streams d" "db_responsibility_outbox d' = db_responsibility_outbox d"
    "db_project_outbox d' = db_project_outbox d" "db_stamped d' = db_stamped d"
    "db_signing d' = db_signing d" "db_number_rules d' = db_number_rules d"
    "db_sequences d' = db_sequences d" "db_actions d' = db_actions d" "db_audit d' = db_audit d"
    "db_snapshots d' = db_snapshots d" "db_notifications d' = db_notifications d"
    "db_rules d' = db_rules d" "db_confirmations d' = db_confirmations d" "db_link_outbox d' = db_link_outbox d"
    "db_freezes d' = db_freezes d" "db_receipts d' = db_receipts d" "db_intakes d' = db_intakes d"
    "db_intake_reviews d' = db_intake_reviews d"
  using assms unfolding financial_frame_def by - (erule ssubst, simp)+

lemma financial_frame_trans:
  assumes "financial_frame d d1" and "financial_frame d1 d2"
  shows "financial_frame d d2"
  unfolding financial_frame_def
  by (rule db.equality) (simp_all add: financial_frameD [OF assms(1)] financial_frameD [OF assms(2)])

abbreviation financial_ids_fresh :: "env \<Rightarrow> db \<Rightarrow> bool" where
  "financial_ids_fresh e d \<equiv> queue_fresh e (db_financial_outbox d) (db_seq d)"

lemma financial_eligible_iff:
  assumes "financial_eligible d tenant cid = Inr (r, terms, True)"
  shows "find_contract d tenant cid = Some r" "terms = contract_terms d tenant cid"
    "financial_skip_reason (Some r) terms = []"
  using assms by (auto simp: financial_eligible_def res_bind_eq_ok Let_def split: option.splits if_splits)

lemma enqueue_financial_ok:
  assumes "enqueue_financial e tenant cid d = Inr (reason, d')"
  shows "financial_frame d d'" and "financial_ids_fresh e d \<Longrightarrow> financial_ids_fresh e d'"
    and "\<exists>rows. db_financial_outbox d' = db_financial_outbox d @ rows \<and> db_seq d \<le> db_seq d'"
    and "reason = None \<Longrightarrow> financial_ids_fresh e d \<Longrightarrow> \<exists>r. find_contract d tenant cid = Some r
      \<and> financial_skip_reason (Some r) (contract_terms d tenant cid) = [] \<and> has_financial_event d' r"
    and "reason = None \<Longrightarrow> db_financial_outbox d' \<noteq> db_financial_outbox d \<Longrightarrow>
      \<exists>r x. find_contract d tenant cid = Some r \<and> db_financial_outbox d' = db_financial_outbox d @ [x]
        \<and> ob_version x = ct_version r \<and> fp_payment_terms (ob_payload x) = list_payment_terms d tenant cid
        \<and> fp_amount (ob_payload x) = format_amount_minor (ct_amount r)"
proof -
  obtain r terms el where el: "financial_eligible d tenant cid = Inr (r, terms, el)"
    using assms by (auto simp: enqueue_financial_def res_bind_eq_ok)
  have all: "financial_frame d d' \<and> (financial_ids_fresh e d \<longrightarrow> financial_ids_fresh e d')
    \<and> (\<exists>rows. db_financial_outbox d' = db_financial_outbox d @ rows \<and> db_seq d \<le> db_seq d')
    \<and> (reason = None \<longrightarrow> financial_ids_fresh e d \<longrightarrow> (\<exists>r. find_contract d tenant cid = Some r
      \<and> financial_skip_reason (Some r) (contract_terms d tenant cid) = [] \<and> has_financial_event d' r))
    \<and> (reason = None \<longrightarrow> db_financial_outbox d' \<noteq> db_financial_outbox d \<longrightarrow>
      (\<exists>r x. find_contract d tenant cid = Some r \<and> db_financial_outbox d' = db_financial_outbox d @ [x]
        \<and> ob_version x = ct_version r \<and> fp_payment_terms (ob_payload x) = list_payment_terms d tenant cid
        \<and> fp_amount (ob_payload x) = format_amount_minor (ct_amount r)))"
  proof (cases el)
    case False
    with assms el have "d' = d" "reason \<noteq> None" by (auto simp: enqueue_financial_def)
    then show ?thesis by (auto simp: financial_frame_def)
  next
    case True
    have elig: "find_contract d tenant cid = Some r" "terms = contract_terms d tenant cid"
      "financial_skip_reason (Some r) terms = []"
      using financial_eligible_iff [of d tenant cid r terms] el True by simp_all
    have id: "ct_tenant r = tenant" "ct_id r = cid" using find_contract_SomeD [OF elig(1)] by auto
    define i where "i = env_ulid e (db_seq d)"
    define row where "row = new_outbox_row i tenant (ct_id r) (ct_version r)
      (new_financial_payload i r terms (env_clock e (db_tick d + 2))) (env_clock e (db_tick d)) (env_clock e (db_tick d + 1))"
    from assms el True have out: "reason = None" "d' = d\<lparr>db_seq := db_seq d + 1, db_tick := db_tick d + 3,
        db_financial_outbox := insert_ignore outbox_clash row (db_financial_outbox d)\<rparr>"
      by (simp_all add: enqueue_financial_def new_id_def read_clock_def row_def i_def Let_def numeral_3_eq_3 numeral_2_eq_2)
    have row: "ob_id row = env_ulid e (db_seq d)" "ob_tenant row = tenant" "ob_key row = cid"
      "ob_version row = ct_version r" "ob_payload row = new_financial_payload i r terms (env_clock e (db_tick d + 2))"
      by (simp_all add: row_def new_outbox_row_def i_def id)
    note ins = queue_fresh_insert [OF _ row(1), of _ "db_seq d + 1"]
    have "has_financial_event d' r" if "financial_ids_fresh e d"
      using ins(2) [OF that] by (auto simp: has_financial_event_def list_ex_iff out(2) row id)
    moreover have "financial_ids_fresh e d'" if "financial_ids_fresh e d"
      using ins(1) [OF that] by (simp add: out(2))
    moreover have "financial_frame d d'" by (simp add: financial_frame_def out(2))
    ultimately show ?thesis
      using elig row by (auto simp: out(2) insert_ignore_def list_payment_terms_def new_financial_payload_def)
  qed
  from all show "financial_frame d d'" "financial_ids_fresh e d \<Longrightarrow> financial_ids_fresh e d'"
    "\<exists>rows. db_financial_outbox d' = db_financial_outbox d @ rows \<and> db_seq d \<le> db_seq d'"
    "reason = None \<Longrightarrow> financial_ids_fresh e d \<Longrightarrow> \<exists>r. find_contract d tenant cid = Some r
      \<and> financial_skip_reason (Some r) (contract_terms d tenant cid) = [] \<and> has_financial_event d' r"
    "reason = None \<Longrightarrow> db_financial_outbox d' \<noteq> db_financial_outbox d \<Longrightarrow>
      \<exists>r x. find_contract d tenant cid = Some r \<and> db_financial_outbox d' = db_financial_outbox d @ [x]
        \<and> ob_version x = ct_version r \<and> fp_payment_terms (ob_payload x) = list_payment_terms d tenant cid
        \<and> fp_amount (ob_payload x) = format_amount_minor (ct_amount r)"
    by blast+
qed

section \<open>Reconciliation leaves only explained gaps\<close>

lemma has_financial_event_mono:
  "\<exists>rows. db_financial_outbox d' = db_financial_outbox d @ rows \<Longrightarrow> has_financial_event d c \<Longrightarrow>
     has_financial_event d' c"
  by (auto simp: has_financial_event_def)

lemma create_financials_ok:
  assumes "create_financials e cs n d = (m, None, d')" and "financial_ids_fresh e d"
    and "\<And>c. c \<in> set cs \<Longrightarrow> find_contract d (ct_tenant c) (ct_id c) = Some c
           \<and> ct_integration_policy c \<noteq> ''NOT_APPLICABLE''"
  shows "financial_frame d d' \<and> (\<exists>rows. db_financial_outbox d' = db_financial_outbox d @ rows)
    \<and> (\<forall>c \<in> set cs. has_financial_event d' c
        \<or> financial_skip_reason (Some c) (contract_terms d (ct_tenant c) (ct_id c)) \<noteq> [])"
  using assms
proof (induction cs arbitrary: n d)
  case Nil
  then show ?case by (simp add: financial_frame_def)
next
  case (Cons c cs)
  have c: "find_contract d (ct_tenant c) (ct_id c) = Some c" "ct_integration_policy c \<noteq> ''NOT_APPLICABLE''"
    using Cons.prems(3) [of c] by auto
  let ?reason = "financial_skip_reason (Some c) (contract_terms d (ct_tenant c) (ct_id c))"
  from Cons.prems(1) have "financial_eligible d (ct_tenant c) (ct_id c)
      = Inr (c, contract_terms d (ct_tenant c) (ct_id c), ?reason = [])"
    using c by (auto simp: financial_eligible_def local_outbound_not_applicable_def Let_def split: if_splits)
  note el = this
  show ?case
  proof (cases "?reason = []")
    case False
    with Cons.prems(1) el have run: "create_financials e cs n d = (m, None, d')" by simp
    from Cons.IH [OF run Cons.prems(2)] Cons.prems(3) False show ?thesis by simp
  next
    case True
    with Cons.prems(1) el obtain reason d1 where
      enq: "enqueue_financial e (ct_tenant c) (ct_id c) d = Inr (reason, d1)" and
      run: "create_financials e cs (if reason = None then n + 1 else n) d1 = (m, None, d')"
      by (auto split: sum.splits)
    have none: "reason = None"
      using enq el True by (auto simp: enqueue_financial_def new_id_def read_clock_def Let_def)
    note ok = enqueue_financial_ok [OF enq]
    have event: "has_financial_event d1 c" using ok(4) [OF none Cons.prems(2)] c(1) by auto
    note same = financial_frameD [OF ok(1)]
    have keep: "find_contract d1 = find_contract d" by (rule find_contract_cong [OF same(1)])
    have terms: "contract_terms d1 = contract_terms d"
      by (simp add: contract_terms_def same(2) fun_eq_iff)
    have "financial_frame d1 d' \<and> (\<exists>rows. db_financial_outbox d' = db_financial_outbox d1 @ rows)
      \<and> (\<forall>c \<in> set cs. has_financial_event d' c
        \<or> financial_skip_reason (Some c) (contract_terms d1 (ct_tenant c) (ct_id c)) \<noteq> [])"
      by (rule Cons.IH [OF run ok(2) [OF Cons.prems(2)]]) (use Cons.prems(3) keep in simp)
    with ok(1,3) has_financial_event_mono [OF _ event, of d'] show ?thesis
      by (auto simp: terms intro: financial_frame_trans)
  qed
qed

text \<open>after a reconciliation of financial events without an error every contract that still lacks an
  event for its current version has a reason on record: the skip reason the code reports for it is not
  empty. Nothing but the event queue has changed.\<close>

theorem reconcile_financials_complete:
  assumes "reconcile_financials e d = (n, None, d')" and "financial_ids_fresh e d"
    and "distinct (map (\<lambda>c. (ct_tenant c, ct_id c)) (db_contracts d))"
  shows "list_all (\<lambda>c. financial_skip_reason (Some c) (contract_terms d' (ct_tenant c) (ct_id c)) \<noteq> [])
      (financial_candidates d') \<and> financial_frame d d'"
proof -
  have found: "find_contract d (ct_tenant c) (ct_id c) = Some c" if "c \<in> set (db_contracts d)" for c
    using assms(3) that by (rule find_contract_distinct)
  have loop: "financial_frame d d' \<and> (\<exists>rows. db_financial_outbox d' = db_financial_outbox d @ rows)
    \<and> (\<forall>c \<in> set (financial_candidates d). has_financial_event d' c
        \<or> financial_skip_reason (Some c) (contract_terms d (ct_tenant c) (ct_id c)) \<noteq> [])"
    by (rule create_financials_ok [OF assms(1) [unfolded reconcile_financials_def] assms(2)])
      (use found in \<open>auto simp: financial_candidates_def\<close>)
  then have frame: "financial_frame d d'" by blast
  note same = financial_frameD [OF frame]
  have "financial_skip_reason (Some c) (contract_terms d' (ct_tenant c) (ct_id c)) \<noteq> []"
    if "c \<in> set (financial_candidates d')" for c
  proof -
    from that have "\<not> has_financial_event d' c" by (simp add: financial_candidates_def)
    moreover from that loop have "c \<in> set (financial_candidates d)"
      using has_financial_event_mono [of d' d c]
      by (auto simp: financial_candidates_def same(1,2))
    ultimately show ?thesis using loop by (auto simp: contract_terms_def same(2))
  qed
  with frame show ?thesis by (simp add: list_all_iff)
qed

section \<open>Changing the terms of an approved contract\<close>

lemma find_update:
  assumes "\<And>x. p x \<Longrightarrow> contract_at t c (f x) = contract_at t c x"
  shows "first_row (contract_at t c) (update_rows p f rows) =
    map_option (\<lambda>x. if p x then f x else x) (first_row (contract_at t c) rows)"
  using assms by (rule first_row_update_rows)

lemma record_financial_change_frame:
  assumes "record_financial_change e tenant actor ch r terms now d = Inr d'"
  shows "db_contracts d' = db_contracts d" "db_terms d' = db_terms d"
    "db_financial_outbox d' = db_financial_outbox d"
proof -
  from assms obtain entry row where
    "insert_audit e tenant entry (d\<lparr>db_seq := db_seq d + 1,
       db_lifecycle := insert_ignore lifecycle_clash row (db_lifecycle d)\<rparr>) = Inr d'"
    by (simp add: record_financial_change_def new_id_def Let_def)
  note same = project_frameD [OF insert_audit_frame [OF this]]
  show "db_contracts d' = db_contracts d" "db_terms d' = db_terms d"
    "db_financial_outbox d' = db_financial_outbox d" using same by simp_all
qed

definition change_hit :: "financial_change \<Rightarrow> contract_row \<Rightarrow> contract_row \<Rightarrow> bool" where
  "change_hit ch r x \<longleftrightarrow> contract_at (ct_tenant r) (ct_id r) x \<and> ct_version x = fc_expected_version ch \<and> ct_status x = ct_status r"

lemma apply_financial_change_steps:
  assumes run: "apply_financial_change e tenant ch actor d = Inr (c, d')"
  obtains r terms now updated d1 d2 d3 where
    "find_contract d tenant (fc_contract_id ch) = Some r" "financial_change_error d tenant ch r = None"
    "normalize_payment_terms (fc_payment_terms ch) (fc_amount_minor ch) (ct_currency r) = Inr terms"
    "c_tenant_id updated = tenant" "c_id updated = fc_contract_id ch" "c_amount_minor updated = fc_amount_minor ch"
    "c_currency updated = ct_currency r" "c_payment_terms updated = Some terms"
    "d1 = d\<lparr>db_tick := db_tick d + 1, db_contracts := update_rows (change_hit ch r) (changed_row ch actor now) (db_contracts d)\<rparr>"
    "replace_payment_terms e updated d1 = Inr d2" "enqueue_financial e tenant (fc_contract_id ch) d2 = Inr (None, d3)"
    "record_financial_change e tenant actor ch r terms now d3 = Inr d'"
proof -
  from run obtain r where find: "find_contract d tenant (fc_contract_id ch) = Some r"
    by (auto simp: apply_financial_change_def split: if_splits option.splits)
  have id: "ct_tenant r = tenant" "ct_id r = fc_contract_id ch" using find_contract_SomeD [OF find] by auto
  from run find obtain terms where
    err: "financial_change_error d tenant ch r = None" and
    terms: "normalize_payment_terms (fc_payment_terms ch) (fc_amount_minor ch) (ct_currency r) = Inr terms"
    by (auto simp: apply_financial_change_def res_bind_eq_ok validation_error_def split: if_splits option.splits sum.splits)
  define now where "now = env_clock e (db_tick d)"
  define updated where "updated = (contract_from_record r)\<lparr>c_amount_minor := fc_amount_minor ch,
      c_currency := ct_currency r, c_payment_terms := Some terms,
      c_version := fc_expected_version ch + 1, c_updated_at := now\<rparr>"
  define hit where "hit = (\<lambda>x. contract_at tenant (fc_contract_id ch) x \<and> ct_version x = fc_expected_version ch
      \<and> ct_status x = ct_status r)"
  define d1 where "d1 = d\<lparr>db_tick := db_tick d + 1, db_contracts := update_rows hit (changed_row ch actor now) (db_contracts d)\<rparr>"
  from run find err terms obtain d2 d3 where steps: "replace_payment_terms e updated d1 = Inr d2"
    "enqueue_financial e tenant (fc_contract_id ch) d2 = Inr (None, d3)"
    "record_financial_change e tenant actor ch r terms now d3 = Inr d'"
    by (auto simp: apply_financial_change_def res_bind_eq_ok validation_error_def read_clock_def Let_def id
        d1_def updated_def now_def hit_def split: if_splits)
  have "hit = change_hit ch r" by (simp add: fun_eq_iff change_hit_def hit_def id)
  note d1 = d1_def [unfolded this]
  show thesis
    by (rule that [OF find err terms _ _ _ _ _ d1 steps])
      (simp_all add: updated_def contract_from_record_def read_contract_source_def id)
qed

lemma financial_change_checks:
  assumes "financial_change_error d tenant ch r = None" and "ct_id r = cid"
  shows "ct_version r = fc_expected_version ch" "ct_status r \<in> set financial_change_eligible_statuses" "fc_payment_terms ch \<noteq> []"
    "list_ex (\<lambda>i. in_tenant i = tenant \<and> in_contract i = cid \<and> in_status i = AStatusApproved) (db_instances d)"
    "\<not> list_ex (\<lambda>i. in_tenant i = tenant \<and> in_contract i = cid \<and> in_status i = AStatusRunning) (db_instances d)"
  using assms by (auto simp: financial_change_error_def financial_change_status_eligible_def rows_affected_def list_ex_iff
      filter_empty_conv split: sum.splits if_splits)

lemma changed_contract_found:
  assumes find: "find_contract d tenant cid = Some r" and "ct_version r = fc_expected_version ch"
    and contracts: "db_contracts d' = update_rows (change_hit ch r) (changed_row ch actor now) (db_contracts d)"
  shows "find_contract d' tenant cid = Some (changed_row ch actor now r)"
    and "(t, i) \<noteq> (tenant, cid) \<Longrightarrow> find_contract d' t i = find_contract d t i"
proof -
  have id: "ct_tenant r = tenant" "ct_id r = cid" using find_contract_SomeD [OF find] by auto
  have lookup: "find_contract d' t i = map_option (\<lambda>x. if change_hit ch r x then changed_row ch actor now x else x)
      (find_contract d t i)" for t i
    unfolding find_contract_def contracts by (rule find_update) (simp add: changed_row_def contract_at_def)
  show "find_contract d' tenant cid = Some (changed_row ch actor now r)"
    using lookup find assms(2) by (simp add: change_hit_def contract_at_def)
  show "find_contract d' t i = find_contract d t i" if "(t, i) \<noteq> (tenant, cid)"
    using that lookup [of t i] id
    by (cases "find_contract d t i") (auto simp: change_hit_def contract_at_def dest: find_contract_SomeD)
qed


section \<open>Examples\<close>

definition sample_instance :: "approval_status \<Rightarrow> instance_row" where
  "sample_instance st = \<lparr>in_id = ''a1'', in_tenant = ''t1'', in_contract = ''c1'', in_kind = KindContract,
     in_status = st, in_applicant = ''u1'', in_applicant_name = ''Ann'', in_from = StatusDraft,
     in_target = StatusPending, in_reason = None, in_rule_id = None, in_rule_version = None,
     in_content_hash = Some ''h1'', in_nodes = [], in_state = None, in_index = 0, in_workflow = ''w1'',
     in_run = ''r1'', in_status_change_key = None, in_completed = True, in_completed_at = Some 0,
     in_created_at = 0, in_updated_at = 0\<rparr>"

definition sample_paid_db :: db where
  "sample_paid_db = (sample_db [sample_active])\<lparr>db_instances := [sample_instance AStatusApproved]\<rparr>"

definition sample_change :: financial_change where
  "sample_change = \<lparr>fc_contract_id = ''c1'', fc_expected_version = 1, fc_amount_minor = 1000,
     fc_currency = ''CNY'', fc_payment_terms = [sample_term 1 300, sample_term 2 700],
     fc_reason = ''more work''\<rparr>"

lemma sample_paid_find: "find_contract sample_paid_db ''t1'' ''c1'' = Some sample_active"
  by (simp add: find_contract_def contract_at_def sample_paid_db_def sample_active_def sample_defs)

lemma trim_plain: "list_all (\<lambda>c. 33 \<le> byte_of c \<and> byte_of c < 128) s \<Longrightarrow> trim_space s = s"
  by (rule trim_space_id) (auto simp: list_all_iff dest: printable_not_space)

lemma sample_change_allowed: "financial_change_error sample_paid_db ''t1'' sample_change sample_active = None"
  by (simp add: financial_change_error_def local_outbound_not_applicable_def sample_active_def
      sample_contract_def sample_change_def financial_change_status_eligible_def
      financial_change_eligible_statuses_def ordinary_contract_record_def json_empty_def
      rows_affected_def sample_paid_db_def sample_db_def sample_instance_def equal_fold_def)

lemma terms_total_sum: "terms_total ts = wrap_int64 (sum_list (map ptr_amount_minor ts))"
proof -
  have "foldl (\<lambda>acc t. wrap_int64 (acc + ptr_amount_minor t)) (wrap_int64 a) ts
      = wrap_int64 (a + sum_list (map ptr_amount_minor ts))" for a
  proof (induction ts arbitrary: a)
    case (Cons t ts)
    have "wrap_int64 (wrap_int64 a + ptr_amount_minor t) = wrap_int64 (a + ptr_amount_minor t)"
      unfolding wrap_int64_def by (simp add: algebra_simps mod_simps)
    with Cons.IH [of "a + ptr_amount_minor t"] show ?case by (simp add: add.assoc)
  qed simp
  from this [of 0] show ?thesis by (simp add: terms_total_def wrap_int64_def)
qed

lemma insert_rows_total:
  assumes "\<And>r x. r \<in> set rs \<Longrightarrow> x \<in> set rows \<Longrightarrow> \<not> clash r x"
    and "sorted_wrt (\<lambda>a b. \<not> clash b a) rs"
  shows "insert_rows clash rs rows = Inr (rows @ rs)"
  using assms
proof (induction rs arbitrary: rows)
  case (Cons r rs)
  have "insert_rows clash rs (rows @ [r]) = Inr ((rows @ [r]) @ rs)"
    by (rule Cons.IH) (use Cons.prems in auto)
  with Cons.prems show ?case by (auto simp: insert_row_def list_ex_iff)
qed simp

lemma stamp_terms_ids:
  "stamp_terms e tenant cid now ts d = (rows, d') \<Longrightarrow>
     map ptr_id rows = map (env_ulid e) [db_seq d..<db_seq d + length ts]"
proof (induction ts arbitrary: d rows d')
  case (Cons t ts)
  obtain rest d2 where run: "stamp_terms e tenant cid now ts (d\<lparr>db_seq := db_seq d + 1\<rparr>) = (rest, d2)"
    by (metis prod.exhaust)
  with Cons.prems Cons.IH [OF run] show ?case
    by (auto simp: new_id_def upt_conv_Cons simp del: upt_Suc split: prod.splits)
qed simp

text \<open>A plan that passes the checks can always be stored when identifiers are fresh.\<close>

lemma replace_payment_terms_total:
  assumes "normalize_payment_terms (terms_list (c_payment_terms c)) (c_amount_minor c) (c_currency c) = Inr terms"
    and "terms_list (c_payment_terms c) \<noteq> []" and "inj (env_ulid e)"
    and "\<And>t. t \<in> set (db_terms d) \<Longrightarrow> ptr_id t \<in> env_ulid e ` {..<db_seq d}"
  shows "\<exists>d'. replace_payment_terms e c d = Inr d'"
proof -
  note plan = normalize_payment_terms_ok [OF assms(1,2)]
  let ?own = "term_of (c_tenant_id c) (c_id c)"
  let ?recs = "map (\<lambda>t. term_record (nat (pt_installment_no t)) (term_date t) (term_minor t)) terms"
  have recs: "record_payment_terms terms (c_amount_minor c) = Inr (?recs, c_amount_minor c)"
    using plan record_terms_loop_normal [of terms "[]" 0 "c_amount_minor c"]
    by (simp add: record_payment_terms_def)
  define d2 where "d2 = d\<lparr>db_terms := filter (\<lambda>t. \<not> ?own t) (db_terms d), db_tick := db_tick d + 1\<rparr>"
  obtain rows d3 where stamp: "stamp_terms e (c_tenant_id c) (c_id c) (env_clock e (db_tick d)) ?recs d2 = (rows, d3)"
    by (metis prod.exhaust)
  note st = stamp_terms_ok [OF stamp]
  have ids: "map ptr_id rows = map (env_ulid e) [db_seq d..<db_seq d + length terms]"
    using stamp_terms_ids [OF stamp] by (simp add: d2_def)
  have d3: "d3 = d2\<lparr>db_seq := db_seq d3\<rparr>" using st by blast
  have t3: "db_terms d3 = filter (\<lambda>t. \<not> ?own t) (db_terms d)" by (subst d3) (simp add: d2_def)
  have "list_all2 (stamped_term (c_tenant_id c) (c_id c)) ?recs rows" "\<forall>t \<in> set terms. normal_term t"
    using st plan by blast+
  note own = stored_rows(1) [OF this] and nos = stored_rows(4) [OF this]
  have dist: "distinct (map ptr_id rows)" "distinct (map ptr_installment_no rows)"
  proof -
    show "distinct (map ptr_id rows)"
      unfolding ids by (simp add: distinct_map inj_on_subset [OF assms(3)])
    have "distinct (map (\<lambda>r. int (ptr_installment_no r)) rows)" unfolding nos using plan by blast
    then show "distinct (map ptr_installment_no rows)" by (auto simp: distinct_map inj_on_def)
  qed
  have "insert_rows term_clash rows (db_terms d3) = Inr (db_terms d3 @ rows)"
  proof (rule insert_rows_total)
    fix r x assume r: "r \<in> set rows" and x: "x \<in> set (db_terms d3)"
    have "ptr_id r \<in> set (map ptr_id rows)" using r by simp
    then obtain k where k: "ptr_id r = env_ulid e k" "db_seq d \<le> k" unfolding ids by auto
    from x have "ptr_id x \<in> env_ulid e ` {..<db_seq d}" and "\<not> ?own x" using assms(4) by (auto simp: t3)
    with k own [OF r] show "\<not> term_clash r x"
      by (auto simp: term_clash_def term_of_def inj_eq [OF assms(3)])
  next
    show "sorted_wrt (\<lambda>a b. \<not> term_clash b a) rows"
      using dist by (induction rows) (auto simp: term_clash_def, (metis image_eqI)+)
  qed
  with plan recs stamp show ?thesis
    by (simp add: replace_payment_terms_def assms(1) validation_error_def read_clock_def d2_def Let_def)
qed

lemma sample_change_applied:
  "\<exists>c d'. apply_financial_change sample_db_env ''t1'' sample_change ''u9'' sample_paid_db = Inr (c, d')"
proof -
  let ?d = sample_paid_db and ?ch = sample_change and ?r = sample_active
  define hit where "hit = (\<lambda>x. contract_at ''t1'' ''c1'' x \<and> ct_version x = 1 \<and> ct_status x = ct_status ?r)"
  define d1 where "d1 = ?d\<lparr>db_tick := db_tick ?d + 1,
      db_contracts := update_rows hit (changed_row ?ch ''u9'' (env_clock sample_db_env (db_tick ?d))) (db_contracts ?d)\<rparr>"
  define up where "up = (contract_from_record ?r)\<lparr>c_amount_minor := 1000, c_currency := ct_currency ?r,
      c_payment_terms := Some [sample_term 1 300, sample_term 2 700],
      c_version := 2, c_updated_at := env_clock sample_db_env (db_tick ?d)\<rparr>"
  have r: "ct_id ?r = ''c1''" "ct_tenant ?r = ''t1''" "ct_currency ?r = ''CNY''" "ct_version ?r = 1"
    "ct_status ?r = StatusActive" "ct_number ?r = Some ''HT-19700001''" "ct_crm_customer ?r = Some 7"
    "ct_customer_name ?r = Some ''customer''" "ordinary_contract_record ?r" "ct_integration_policy ?r = []"
    "local_outbound_not_applicable ?r = Inr False"
    by (simp_all add: sample_active_def sample_contract_def ordinary_contract_record_def json_empty_def
        local_outbound_not_applicable_def)
  have ch: "fc_contract_id ?ch = ''c1''" "fc_expected_version ?ch = 1" "fc_amount_minor ?ch = 1000"
    "fc_payment_terms ?ch = [sample_term 1 300, sample_term 2 700]" by (simp_all add: sample_change_def)
  have inj: "inj (env_ulid sample_db_env)" using sample_ids_fresh by (simp add: queue_fresh_def)
  have up': "c_tenant_id up = ''t1''" "c_id up = ''c1''" "c_amount_minor up = 1000" "c_currency up = ''CNY''"
    "c_payment_terms up = Some [sample_term 1 300, sample_term 2 700]"
    by (simp_all add: up_def contract_from_record_def read_contract_source_def r)
  have cs: "db_contracts d1 = [changed_row ?ch ''u9'' 0 ?r]"
    by (simp add: d1_def sample_paid_db_def sample_db_def hit_def contract_at_def r sample_db_env_def)
  have "db_terms d1 = []" by (simp add: d1_def sample_paid_db_def sample_db_def)
  then obtain d2 where repl: "replace_payment_terms sample_db_env up d1 = Inr d2"
    using replace_payment_terms_total [of up _ sample_db_env d1] sample_plan_accepted inj by (auto simp: up')
  obtain terms' where frame: "terms_frame d1 d2"
    and shown: "list_payment_terms d2 ''t1'' ''c1'' = [sample_term 1 300, sample_term 2 700]"
    and sum: "sum_list (map ptr_amount_minor (contract_terms d2 ''t1'' ''c1'')) = 1000"
    using replace_payment_terms_ok [OF repl] sample_plan_accepted by (auto simp: up')
  have find2: "find_contract d2 ''t1'' ''c1'' = Some (changed_row ?ch ''u9'' 0 ?r)"
    by (simp add: find_contract_def terms_frameD(1) [OF frame] cs contract_at_def changed_row_def r)
  have ne: "contract_terms d2 ''t1'' ''c1'' \<noteq> []" using sum by auto
  have reason: "financial_skip_reason (Some (changed_row ?ch ''u9'' 0 ?r)) (contract_terms d2 ''t1'' ''c1'') = []"
    using ne r(9) by (simp add: financial_skip_reason_def changed_row_def r ch terms_total_sum sum wrap_int64_def
        customer_id_of_def nat_str.simps [of 7] trim_plain byte_of_def ordinary_contract_record_def)
  have local: "local_outbound_not_applicable (changed_row ?ch ''u9'' 0 ?r) = Inr False"
    using r(11) by (simp add: local_outbound_not_applicable_def changed_row_def split: if_splits)
  obtain d3 where enq: "enqueue_financial sample_db_env ''t1'' ''c1'' d2 = Inr (None, d3)"
    by (simp add: enqueue_financial_def financial_eligible_def find2 local reason new_id_def read_clock_def Let_def)
  have "db_audit d3 = []"
    using financial_frameD(15) [OF enqueue_financial_ok(1) [OF enq]] terms_frameD(6) [OF frame]
    by (simp add: d1_def sample_paid_db_def sample_db_def)
  then obtain d4 where rec: "record_financial_change sample_db_env ''t1'' ''u9'' ?ch ?r
      [sample_term 1 300, sample_term 2 700] 0 d3 = Inr d4"
    by (simp add: record_financial_change_def new_id_def read_clock_def insert_audit_def insert_row_def Let_def)
  have trims: "trim_space ''t1'' = ''t1''" "trim_space ''u9'' = ''u9''" "trim_space ''c1'' = ''c1''"
    by (simp_all add: trim_plain byte_of_def)
  have one: "rows_affected hit (db_contracts ?d) = 1"
    by (simp add: rows_affected_def sample_paid_db_def sample_db_def hit_def contract_at_def r)
  have run: "apply_financial_change sample_db_env ''t1'' ?ch ''u9'' ?d = Inr (up, d4)"
  proof -
    have clock: "env_clock sample_db_env (db_tick ?d) = 0"
      by (simp add: sample_paid_db_def sample_db_def sample_db_env_def)
    have d1: "?d\<lparr>db_tick := Suc (db_tick ?d), db_contracts := update_rows hit (changed_row ?ch ''u9'' 0) (db_contracts ?d)\<rparr> = d1"
      by (simp add: d1_def clock)
    have up: "(contract_from_record ?r)\<lparr>c_amount_minor := 1000, c_currency := ''CNY'',
        c_payment_terms := Some [sample_term 1 300, sample_term 2 700], c_version := 2, c_updated_at := 0\<rparr> = up"
      by (simp add: up_def r clock)
    have hit: "(\<lambda>x. contract_at ''t1'' ''c1'' x \<and> ct_version x = Suc 0 \<and> ct_status x = StatusActive) = hit"
      by (simp add: hit_def r fun_eq_iff)
    from repl enq rec one show ?thesis
      by (simp add: apply_financial_change_def ch trims sample_paid_find sample_change_allowed
          sample_plan_accepted validation_error_def read_clock_def Let_def r clock d1 up hit numeral_2_eq_2 [symmetric])
  qed
  then show ?thesis by blast
qed


theorem reconcile_financials_complete_witness:
  "\<exists>n d'. reconcile_financials sample_db_env sample_paid_db = (n, None, d') \<and> financial_candidates d' = []"
proof -
  have none: "financial_candidates sample_paid_db = []"
    by (simp add: financial_candidates_def sample_paid_db_def sample_db_def)
  have run: "reconcile_financials sample_db_env sample_paid_db = (0, None, sample_paid_db)"
    by (simp add: reconcile_financials_def none)
  have "distinct (map (\<lambda>c. (ct_tenant c, ct_id c)) (db_contracts sample_paid_db))"
    "financial_ids_fresh sample_db_env sample_paid_db"
    using sample_ids_fresh by (simp_all add: sample_paid_db_def sample_db_def queue_fresh_def)
  from reconcile_financials_complete [OF run this(2,1)] run none show ?thesis by blast
qed

end
