(* ===== verification/Approval_Backend.thy ===== *)
theory Approval_Backend
  imports Workflow_Run
begin

text \<open>
  What the contract approval workflow relies on from the store behind its activities
  (\<^verbatim>\<open>ApprovalStore\<close> in \<^verbatim>\<open>internal/workflows/activities.go\<close>), as an interface: an approval is
  fresh until it is started, pending while commands are recorded, and completed with a status by
  the completion; notifications change none of this. A run of the workflow machine on a store that
  keeps these laws leaves the approval pending as long as it runs and completed, with the status of
  the machine, when it returns.
\<close>

section \<open>The interface\<close>

type_synonym approval_key = "string \<times> string \<times> string"

definition start_key :: "start_approval_input \<Rightarrow> approval_key" where
  "start_key i = (sai_tenant_id i, sai_approval_id i, sai_contract_id i)"

definition record_key :: "record_command_input \<Rightarrow> approval_key" where
  "record_key r = (rci_tenant_id r, rci_approval_id r, rci_contract_id r)"

definition complete_key :: "complete_approval_input \<Rightarrow> approval_key" where
  "complete_key i = (coi_tenant_id i, coi_approval_id i, coi_contract_id i)"

definition input_key :: "contract_approval_input \<Rightarrow> approval_key" where
  "input_key inp = (cai_tenant_id inp, cai_approval_id inp, cai_contract_id inp)"

lemma key_simps [simp]:
  "start_key (wf_start_input inp wfid runid) = input_key inp"
  "complete_key (wf_complete_input inp wfid actor st reason target) = input_key inp"
  "input_key (default_input inp) = input_key inp"
  "sai_kind (wf_start_input inp wfid runid) = KindContract"
  "coi_status (wf_complete_input inp wfid actor st reason target) = st"
  by (simp_all add: start_key_def complete_key_def input_key_def wf_start_input_def
      wf_complete_input_def default_input_def)

locale approval_backend =
  fixes ops :: "'s approval_store"
    and fresh :: "approval_key \<Rightarrow> 's \<Rightarrow> bool"
    and pending :: "approval_key \<Rightarrow> 's \<Rightarrow> bool"
    and completed :: "approval_key \<Rightarrow> approval_status \<Rightarrow> 's \<Rightarrow> bool"
  assumes start: "fresh (start_key i) s \<Longrightarrow> sai_kind i = KindContract \<Longrightarrow> as_start ops i s = Inr s'
      \<Longrightarrow> pending (start_key i) s'"
    and recording: "pending (record_key r) s \<Longrightarrow> as_record ops r s = Inr s' \<Longrightarrow> pending (record_key r) s'"
    and completing: "pending (complete_key c) s \<Longrightarrow> as_complete ops c s = Inr s'
      \<Longrightarrow> completed (complete_key c) (coi_status c) s'"
    and notice_pending: "pending k s \<Longrightarrow> as_notify ops n s = Inr s' \<Longrightarrow> pending k s'"
    and notice_completed: "completed k st s \<Longrightarrow> as_notify ops n s = Inr s' \<Longrightarrow> completed k st s'"
begin

definition backend_inv :: "approval_key \<Rightarrow> 's wf \<Rightarrow> bool" where
  "backend_inv k w \<longleftrightarrow> (wf_phase w = WfRunning \<longrightarrow> pending k (wf_store w))
     \<and> (wf_phase w = WfReturned \<longrightarrow> completed k (st_status (wf_state w)) (wf_store w))"

lemma notices_pending [intro]:
  "pending k (wf_store w) \<Longrightarrow> pending k (wf_store (notify_best_effort ops i w))"
  by (auto simp: notify_best_effort_def dest: notice_pending split: sum.splits)

lemma notices_completed [intro]:
  "completed k st (wf_store w) \<Longrightarrow> completed k st (wf_store (notify_best_effort ops i w))"
  by (auto simp: notify_best_effort_def dest: notice_completed split: sum.splits)

lemma group_pending [intro]:
  assumes "pending k (wf_store w)"
  shows "pending k (wf_store (notify_current_node ops t n a b c w))"
    and "pending k (wf_store (wf_notices ops inp cmd adv now w))"
  using assms by (auto simp: notify_current_node_def wf_notices_def notify_assigned_users_def
      notify_recipients_def Let_def)

lemma group_completed [intro]:
  assumes "completed k st (wf_store w)"
  shows "completed k st (wf_store (notify_recipients ops t a b c d rs w))"
    and "completed k st (wf_store (notify_roles ops t a b c d rs w))"
  using assms by (auto simp: notify_recipients_def notify_roles_def)

lemma complete_backend:
  assumes "pending k (wf_store w)" and "complete_key co = k" and "coi_status co = st_status (wf_state w)"
    and "\<And>w1. wf_state w1 = wf_state w \<Longrightarrow> completed k (st_status (wf_state w1)) (wf_store w1) \<Longrightarrow>
           backend_inv k (f w1)"
  shows "backend_inv k (critical (as_complete ops) co w f)"
proof (rule critical_cases [where P = "backend_inv k"])
  fix s assume "as_complete ops co (wf_store w) = Inr s"
  with assms(1,2) have "completed k (coi_status co) s" by (blast dest: completing)
  then show "backend_inv k (f (w\<lparr>wf_store := s\<rparr>))" using assms(3) by (intro assms(4)) simp_all
qed (simp_all add: backend_inv_def)

lemma returned_backend:
  "completed k (st_status (wf_state w)) (wf_store w) \<Longrightarrow> backend_inv k (w\<lparr>wf_phase := WfReturned\<rparr>)"
  by (simp add: backend_inv_def)

lemma wf_top_backend:
  assumes "pending (input_key inp) (wf_store w)" and "st_status (wf_state w) = AStatusRunning"
    and "wf_phase w = WfRunning"
  shows "backend_inv (input_key inp) (wf_top ops inp wfid t t' w)"
proof (cases "st_index (wf_state w) \<ge> length (st_nodes (wf_state w))")
  case True
  with assms show ?thesis
    unfolding wf_top_def Let_def
    by (simp only: if_True if_False simp_thms)
      (rule complete_backend; (rule returned_backend | simp); (auto intro: group_completed)?)
next
  case False
  with assms show ?thesis by (auto simp: wf_top_def Let_def backend_inv_def)
qed

lemma wf_timer_backend:
  assumes "pending (input_key inp) (wf_store w)" and "wf_phase w = WfRunning"
  shows "backend_inv (input_key inp) (wf_timer ops inp wfid t w)"
proof (cases "t < wf_deadline w")
  case True
  with assms show ?thesis by (auto simp: wf_timer_def backend_inv_def)
next
  case False
  with assms show ?thesis
    unfolding wf_timer_def Let_def
    by (simp only: if_True simp_thms)
      (rule complete_backend; (rule returned_backend | simp); (auto intro: group_completed)?)
qed

lemma wf_after_record_backend:
  assumes "pending (input_key inp) (wf_store w)" and "wf_phase w = WfRunning"
    and "ends \<longrightarrow> ended (st_status (wf_state w))" and "\<not> ends \<longrightarrow> st_status (wf_state w) = AStatusRunning"
  shows "backend_inv (input_key inp) (wf_after_record ops inp wfid c adv ends t2 t3 t4 w)"
proof (cases ends)
  case True
  have top: "backend_inv (input_key inp) (wf_top ops inp wfid t3 t4 w1)"
    if "st_status (wf_state w1) = st_status (wf_state w)"
      "completed (input_key inp) (st_status (wf_state w1)) (wf_store w1)" for w1
    using that True assms(3) by (auto simp: wf_top_def ended_def backend_inv_def)
  from assms show ?thesis
    unfolding wf_after_record_def Let_def if_P [OF True]
    by (intro complete_backend) (auto intro!: top group_completed)
next
  case False
  let ?w = "wf_notices ops inp c adv t2 w"
  have rec: "pending (input_key inp) (wf_store ?w)" using assms(1) by blast
  have "backend_inv (input_key inp) (wf_top ops inp wfid t3 t4 ?w)"
    using rec assms(2,4) False by (intro wf_top_backend) auto
  moreover have "backend_inv (input_key inp) ?w" using rec assms(2) by (simp add: backend_inv_def)
  ultimately show ?thesis using False by (simp add: wf_after_record_def Let_def)
qed

lemma wf_command_backend:
  assumes "wf_inv inp w" and "backend_inv (input_key inp) w" and run: "wf_phase w = WfRunning"
  shows "backend_inv (input_key inp) (wf_command ops inp wfid c t1 t2 t3 t4 w)"
proof (cases ops inp wfid c t1 t2 t3 t4 w rule: wf_command_cases)
  case ignored
  with assms show ?thesis by simp
next
  case (accepted st1 ends adv st3 rec)
  let ?w' = "w\<lparr>wf_state := st3\<lparr>st_processed := st_processed st3 @ [cmd_id c]\<rparr>\<rparr>"
  have inv: "state_inv (wf_state w)" "st_status (wf_state w) = AStatusRunning"
    using assms by (auto simp: wf_inv_def good_state_def)
  note post = apply_contract_command_inv [OF inv(1) accepted(1)]
  have st3: "st_status st3 = st_status st1" by (simp add: accepted(4))
  have key: "record_key rec = input_key inp"
    using accepted(6,8,9) by (simp add: record_key_def input_key_def)
  show ?thesis unfolding accepted(7)
  proof (rule critical_cases [where P = "backend_inv (input_key inp)"])
    fix s assume "as_record ops rec (wf_store ?w') = Inr s"
    then have "pending (input_key inp) s"
      using recording [of rec] assms(2) run by (simp add: key backend_inv_def)
    then show "backend_inv (input_key inp)
        (wf_after_record ops inp wfid c adv ends t2 t3 t4 (?w'\<lparr>wf_store := s\<rparr>))"
      using st3 post inv(2) run by (intro wf_after_record_backend) (auto simp: ended_def)
  qed (simp_all add: backend_inv_def)
qed

lemma wf_start_backend:
  assumes "fresh (input_key inp) s"
  shows "backend_inv (input_key inp) (contract_wf_start ops inp wfid runid t0 t1 t2 s)"
proof -
  let ?inp = "default_input inp"
  let ?w = "\<lparr>wf_state = initial_state ?inp t0, wf_phase = WfRunning, wf_node = 0,
       wf_deadline = zero_time, wf_next_reminder = zero_time, wf_store = s\<rparr>"
  have "backend_inv (input_key ?inp) (critical (as_start ops) (wf_start_input ?inp wfid runid) ?w
      (wf_top ops ?inp wfid t1 t2))"
  proof (rule critical_cases [where P = "backend_inv (input_key ?inp)"])
    fix s' assume "as_start ops (wf_start_input ?inp wfid runid) (wf_store ?w) = Inr s'"
    then have "pending (input_key ?inp) s'"
      using start [of "wf_start_input ?inp wfid runid" s s'] assms by simp
    then show "backend_inv (input_key ?inp) (wf_top ops ?inp wfid t1 t2 (?w\<lparr>wf_store := s'\<rparr>))"
      by (intro wf_top_backend) simp_all
  qed (simp_all add: backend_inv_def)
  then show ?thesis by (auto simp: contract_wf_start_def Let_def backend_inv_def)
qed

lemma wf_run_backend:
  assumes "fresh (input_key inp) s"
  shows "backend_inv (input_key inp) (wf_run ops inp wfid runid t0 t1 t2 evs s)"
proof (induction evs rule: rev_induct)
  case Nil
  show ?case using wf_start_backend [OF assms] by (simp add: wf_run_def)
next
  case (snoc ev evs)
  let ?w = "wf_run ops inp wfid runid t0 t1 t2 evs s"
  have "wf_inv (default_input inp) ?w" by (rule contract_wf.reach_inv [OF wf_run_reach])
  with snoc have "backend_inv (input_key inp) (wf_step ops (default_input inp) wfid ev ?w)"
    using wf_command_backend [of "default_input inp"] wf_timer_backend [of "default_input inp"]
    by (auto simp: wf_step_def split: wf_event.splits) (auto simp: backend_inv_def)
  then show ?case by (simp add: wf_run_def)
qed

lemma returned_run_completed:
  assumes "fresh (input_key inp) s" and "wf_phase (wf_run ops inp wfid runid t0 t1 t2 evs s) = WfReturned"
  shows "completed (input_key inp) (st_status (wf_state (wf_run ops inp wfid runid t0 t1 t2 evs s)))
    (wf_store (wf_run ops inp wfid runid t0 t1 t2 evs s))"
  using wf_run_backend [OF assms(1)] assms(2) by (simp add: backend_inv_def)

end

section \<open>A run that times out\<close>

lemma timed_out_run:
  fixes inp wfid and now :: instant
  defines "i \<equiv> default_input inp"
    and "c \<equiv> wf_complete_input (default_input inp) wfid [] AStatusExpired ''current approval node timed out'' StatusDraft"
  assumes ids: "cai_approval_id inp \<noteq> []" "cai_contract_id inp \<noteq> []" "cai_applicant inp \<noteq> []"
    and nodes: "cai_nodes inp = n # ns"
    and start: "as_start ops (wf_start_input i wfid runid) s = Inr s1"
    and late: "t1 + (if node_timeout n \<le> 0 then cai_default_timeout i else node_timeout n) \<le> now"
    and done1: "is_ok (as_complete ops c s1)"
    and done2: "\<And>m s2. as_notify ops m s1 = Inr s2 \<Longrightarrow> is_ok (as_complete ops c s2)"
  shows "wf_phase (wf_run ops inp wfid runid t0 t1 t2 [EvTimer now] s) = WfReturned"
proof -
  define w0 where "w0 = \<lparr>wf_state = initial_state i t0, wf_phase = WfRunning, wf_node = 0,
       wf_deadline = zero_time, wf_next_reminder = zero_time, wf_store = s1\<rparr>"
  define w1 where "w1 = wf_top ops i wfid t1 t2 w0"
  have i: "cai_nodes i = n # ns" using nodes by (simp add: i_def default_input_def)
  have go: "contract_wf_start ops inp wfid runid t0 t1 t2 s = w1"
    using start ids nodes by (simp add: contract_wf_start_def Let_def critical_def i_def w1_def w0_def default_input_def)
  have st: "st_nodes (wf_state w0) = map initialize_node (n # ns)" "st_index (wf_state w0) = 0"
    "st_status (wf_state w0) = AStatusRunning"
    by (simp_all add: w0_def i initialize_nodes_def)
  have pend: "rn_status (initialize_node n) = NodePending" "node_timeout (rn_node (initialize_node n)) = node_timeout n"
    by (simp_all add: initialize_node_def)
  have w1: "wf_phase w1 = WfRunning" "wf_deadline w1 \<le> now"
      "wf_store w1 = s1 \<or> (\<exists>m. as_notify ops m s1 = Inr (wf_store w1))"
    using st pend late
    by (auto simp: w1_def wf_top_def Let_def activate_current_def notify_current_node_def notify_best_effort_def
        split: sum.splits) (auto simp: w0_def)
  then have "is_ok (as_complete ops c (wf_store w1))" using done1 done2 by auto
  then have "wf_phase (wf_timer ops i wfid now w1) = WfReturned"
    using w1(2) by (auto simp: wf_timer_def critical_def c_def i_def is_ok_def Let_def split: sum.splits)
  with go w1(1) show ?thesis by (simp add: wf_run_def wf_step_def i_def)
qed

end
