(* ===== verification/Approval_Repository.thy ===== *)
theory Approval_Repository
  imports Financial Approval_Backend
begin

text \<open>
  The persistent side of the approval workflows (\<^verbatim>\<open>StartApproval\<close>, \<^verbatim>\<open>RecordCommand\<close>,
  \<^verbatim>\<open>CompleteApproval\<close> and \<^verbatim>\<open>CreateNotification\<close> of \<^verbatim>\<open>repository.go\<close>): instance, snapshot,
  tasks, command log and the effects of a decision on the contract. \<open>approval_repository\<close> puts them
  together as the activity store the workflow machines run on.
\<close>

section \<open>Keys\<close>

definition instance_clash :: "instance_row \<Rightarrow> instance_row \<Rightarrow> bool" where
  "instance_clash a b \<longleftrightarrow> in_id a = in_id b \<or> in_workflow a = in_workflow b
     \<or> (in_status_change_key a \<noteq> None \<and> in_status_change_key a = in_status_change_key b)"

definition snapshot_clash :: "snapshot_row \<Rightarrow> snapshot_row \<Rightarrow> bool" where
  "snapshot_clash a b \<longleftrightarrow> sn_approval a = sn_approval b"

definition task_clash :: "task_row \<Rightarrow> task_row \<Rightarrow> bool" where
  "task_clash a b \<longleftrightarrow> tk_approval a = tk_approval b \<and> tk_node a = tk_node b \<and> tk_assignee a = tk_assignee b"

definition action_clash :: "action_row \<Rightarrow> action_row \<Rightarrow> bool" where
  "action_clash a b \<longleftrightarrow> at_id a = at_id b \<or> at_command a = at_command b"

section \<open>Starting\<close>

definition initial_tasks :: "string \<Rightarrow> node list \<Rightarrow> instant \<Rightarrow> task_row list" where
  "initial_tasks approval nodes now =
     concat (map (\<lambda>(k, n). map (\<lambda>u. \<lparr>tk_approval = approval, tk_node = node_id n, tk_assignee = u,
         tk_node_name = node_name n, tk_index = k,
         tk_status = (if k = 0 then NodeActive else NodePending), tk_approved = False,
         tk_started_at = (if k = 0 then Some now else None), tk_completed_at = None\<rparr>)
       (unique_strings (node_assignees n))) (enumerate 0 nodes))"

definition find_instance :: "db \<Rightarrow> string \<Rightarrow> instance_row option" where
  "find_instance d i = first_row (\<lambda>x. in_id x = i) (db_instances d)"

text \<open>The checks and the submission of a contract approval, the check of a status change.\<close>

definition prepare_start :: "env \<Rightarrow> start_approval_input \<Rightarrow> contract_row \<Rightarrow> db \<Rightarrow> db result" where
  "prepare_start e i current d =
     (if sai_kind i = KindContract then
        (if sai_content_hash i = [] \<or> ct_content_hash current \<noteq> Some (sai_content_hash i)
         then fail ErrStateConflict
         else if count_running_approvals d (sai_tenant_id i) (sai_contract_id i) [KindContract] > 0
         then fail ErrStateConflict
         else res_bind (update_status e (sai_tenant_id i) (sai_contract_id i) (sai_from_status i)
                (sai_target_status i) (sai_applicant i) d) (\<lambda>d1.
              insert_lifecycle e (sai_tenant_id i) (sai_contract_id i) (sai_approval_id i) (sai_workflow_id i)
                (sai_from_status i) (sai_target_status i) (sai_applicant i) ''submitted for approval''
                (sai_approval_id i @ '':submitted'') d1))
      else if sai_kind i = KindStatusChange then
        (if count_running_approvals d (sai_tenant_id i) (sai_contract_id i) [KindStatusChange] > 0
         then fail ErrStateConflict else ok d)
      else ok d)"

definition new_instance :: "start_approval_input \<Rightarrow> instant \<Rightarrow> instance_row" where
  "new_instance i now = \<lparr>in_id = sai_approval_id i, in_tenant = sai_tenant_id i, in_contract = sai_contract_id i,
     in_kind = sai_kind i, in_status = AStatusRunning, in_applicant = sai_applicant i,
     in_applicant_name = sai_applicant_name i, in_from = sai_from_status i, in_target = sai_target_status i,
     in_reason = string_ptr (sai_reason i), in_rule_id = string_ptr (sai_rule_id i),
     in_rule_version = uint_ptr (sai_rule_version i), in_content_hash = string_ptr (sai_content_hash i),
     in_nodes = sai_nodes i, in_state = None, in_index = 0, in_workflow = sai_workflow_id i,
     in_run = sai_run_id i,
     in_status_change_key = (if sai_kind i = KindStatusChange
        then string_ptr (sai_tenant_id i @ '':'' @ sai_contract_id i) else None),
     in_completed = False, in_completed_at = None, in_created_at = now, in_updated_at = now\<rparr>"

text \<open>What the approval shows later: the contract as it was submitted, without its document bytes,
  which have a column of their own, and with its payment plan.\<close>

definition submitted_snapshot :: "start_approval_input \<Rightarrow> contract_row \<Rightarrow> db \<Rightarrow> instant \<Rightarrow> snapshot_row" where
  "submitted_snapshot i current d now = \<lparr>sn_approval = sai_approval_id i, sn_tenant = sai_tenant_id i,
     sn_contract = sai_contract_id i, sn_version = ct_version current,
     sn_content_hash = ct_content_hash current,
     sn_json = (contract_from_record current)\<lparr>c_payment_terms :=
                  Some (list_payment_terms d (sai_tenant_id i) (sai_contract_id i)),
                c_document := [], c_can_edit_draft := False\<rparr>,
     sn_document = ct_document current, sn_rule_id = string_ptr (sai_rule_id i),
     sn_rule_version = uint_ptr (sai_rule_version i), sn_created_at = now\<rparr>"

definition create_instance :: "env \<Rightarrow> start_approval_input \<Rightarrow> contract_row \<Rightarrow> db \<Rightarrow> db result" where
  "create_instance e i current d =
     (let (now, d1) = read_clock e d
      in case insert_row instance_clash (new_instance i now) (db_instances d1) of
           Inl _ \<Rightarrow> fail ErrStateConflict
         | Inr instances \<Rightarrow>
             res_bind (insert_row snapshot_clash (submitted_snapshot i current d1 now) (db_snapshots d1)) (\<lambda>snaps.
             res_bind (insert_rows task_clash (initial_tasks (sai_approval_id i) (sai_nodes i) now)
                         (db_tasks d1)) (\<lambda>tasks.
               ok (d1\<lparr>db_instances := instances, db_snapshots := snaps, db_tasks := tasks\<rparr>))))"

definition start_approval :: "env \<Rightarrow> start_approval_input \<Rightarrow> db \<Rightarrow> db result" where
  "start_approval e i d =
     (if find_instance d (sai_approval_id i) \<noteq> None then ok d
      else case find_contract d (sai_tenant_id i) (sai_contract_id i) of
        None \<Rightarrow> fail ErrNotFound
      | Some current \<Rightarrow>
          if \<not> ordinary_contract_record current then fail ErrStateConflict
          else if ct_version current \<noteq> sai_expected_version i then fail ErrVersionConflict
          else if ct_status current \<noteq> sai_from_status i then fail ErrStateConflict
          else res_bind (prepare_start e i current d) (create_instance e i current))"

section \<open>Recording a command\<close>

definition time_ptr :: "instant \<Rightarrow> instant option" where
  "time_ptr t = (if t = zero_time then None else Some t)"

definition node_tasks :: "string \<Rightarrow> nat \<Rightarrow> runtime_node \<Rightarrow> task_row list" where
  "node_tasks approval k n = map (\<lambda>u. \<lparr>tk_approval = approval, tk_node = node_id (rn_node n),
       tk_assignee = u, tk_node_name = node_name (rn_node n), tk_index = k, tk_status = rn_status n,
       tk_approved = (u \<in> rn_approved_by n), tk_started_at = time_ptr (rn_started_at n),
       tk_completed_at = time_ptr (rn_completed_at n)\<rparr>) (unique_strings (node_assignees (rn_node n)))"

definition sync_tasks :: "string \<Rightarrow> runtime_node list \<Rightarrow> db \<Rightarrow> db result" where
  "sync_tasks approval nodes d =
     res_bind (insert_rows task_clash (concat (map (\<lambda>(k, n). node_tasks approval k n) (enumerate 0 nodes)))
         (filter (\<lambda>t. tk_approval t \<noteq> approval) (db_tasks d)))
       (\<lambda>tasks. ok (d\<lparr>db_tasks := tasks\<rparr>))"

fun action_string :: "command_action \<Rightarrow> string" where
  "action_string ActionApprove = ''approve''"
| "action_string ActionReject = ''reject''"
| "action_string ActionAddSign = ''add_sign''"
| "action_string ActionTransfer = ''transfer''"
| "action_string ActionReturn = ''return''"
| "action_string ActionWithdraw = ''withdraw''"
| "action_string ActionUrge = ''urge''"
| "action_string ActionComment = ''comment''"
| "action_string (ActionOther s) = s"

fun countersign_string :: "countersign_mode \<Rightarrow> string" where
  "countersign_string CountersignEmpty = []"
| "countersign_string CountersignAll = ''all''"
| "countersign_string CountersignAny = ''any''"
| "countersign_string (CountersignOther s) = s"

definition command_row :: "string \<Rightarrow> record_command_input \<Rightarrow> instant \<Rightarrow> action_row" where
  "command_row i r at = \<lparr>at_id = i, at_tenant = rci_tenant_id r, at_approval = rci_approval_id r,
     at_contract = rci_contract_id r, at_node = string_ptr (rci_node_id r), at_command = cmd_id (rci_command r),
     at_action = cmd_action (rci_command r), at_actor = cmd_actor (rci_command r),
     at_actor_name = cmd_actor_name (rci_command r), at_comment = string_ptr (cmd_comment (rci_command r)),
     at_payload = rci_command r, at_occurred_at = at\<rparr>"

definition record_command :: "env \<Rightarrow> record_command_input \<Rightarrow> db \<Rightarrow> db result" where
  "record_command e r d =
     (if first_row (\<lambda>a. at_command a = cmd_id (rci_command r)) (db_actions d) \<noteq> None then ok d
      else
        let c = rci_command r;
            (at, d1) = (if cmd_occurred_at c = zero_time then read_clock e d else (cmd_occurred_at c, d));
            (i, d2) = new_id e d1
        in res_bind (insert_row action_clash (command_row i r at) (db_actions d2)) (\<lambda>actions.
           let (now, d3) = read_clock e (d2\<lparr>db_actions := actions\<rparr>);
               hit = (\<lambda>x. in_tenant x = rci_tenant_id r \<and> in_id x = rci_approval_id r)
           in if rows_affected hit (db_instances d3) \<noteq> 1 then fail ErrNotFound
              else res_bind (sync_tasks (rci_approval_id r) (st_nodes (rci_state r))
                  (d3\<lparr>db_instances := update_rows hit (\<lambda>x. x\<lparr>in_state := Some (rci_state r),
                        in_index := st_index (rci_state r), in_status := st_status (rci_state r),
                        in_updated_at := now\<rparr>) (db_instances d3)\<rparr>)) (\<lambda>d4.
                insert_audit e (rci_tenant_id r)
                  (audit_entry_for e (cmd_actor c) (''APPROVAL_'' @ to_upper (action_string (cmd_action c)))
                     (rci_contract_id r)
                     [(''approval_id'', AvStr (rci_approval_id r)), (''command_id'', AvStr (cmd_id c)),
                      (''command'', AvStr (to_upper (action_string (cmd_action c)))),
                      (''node_id'', AvStr (rci_node_id r)),
                      (''countersign'', AvStr (countersign_string (cmd_countersign c)))]) d4)))"

section \<open>Completing\<close>

definition complete_actor :: "complete_approval_input \<Rightarrow> string" where
  "complete_actor i = (if coi_actor i = [] then ''SYSTEM'' else coi_actor i)"

text \<open>The approved contract: number, two transitions with their life cycle rows, project and
  financial events.\<close>

definition activate_contract :: "env \<Rightarrow> complete_approval_input \<Rightarrow> contract_row \<Rightarrow> db \<Rightarrow> db result" where
  "activate_contract e i current d =
     (let t = coi_tenant_id i; c = coi_contract_id i; actor = complete_actor i in
      res_bind (if unnumbered current then issue_number e t current d else ok d) (\<lambda>d1.
      res_bind (update_status e t c StatusPending StatusApproved actor d1) (\<lambda>d2.
      res_bind (insert_lifecycle e t c (coi_approval_id i) (coi_workflow_id i) StatusPending StatusApproved
          actor (coi_reason i) (coi_approval_id i @ '':approved'') d2) (\<lambda>d3.
      res_bind (update_status e t c StatusApproved StatusActive actor d3) (\<lambda>d4.
      res_bind (insert_lifecycle e t c (coi_approval_id i) (coi_workflow_id i) StatusApproved StatusActive
          actor ''approval completed; contract activated'' (coi_approval_id i @ '':activated'') d4) (\<lambda>d5.
      res_bind (enqueue_project_activation e t c d5) (\<lambda>d6.
      res_bind (enqueue_financial e t c d6) (\<lambda>(reason, d7). ok d7))))))))"

definition apply_decision ::
  "env \<Rightarrow> complete_approval_input \<Rightarrow> instance_row \<Rightarrow> contract_row \<Rightarrow> db \<Rightarrow> db result" where
  "apply_decision e i x current d =
     (let t = coi_tenant_id i; c = coi_contract_id i; actor = complete_actor i in
      if in_kind x = KindContract then
        (if ct_status current \<noteq> StatusPending then fail ErrStateConflict
         else if in_content_hash x = None \<or> ct_content_hash current = None \<or> in_content_hash x = Some []
                 \<or> ct_content_hash current \<noteq> in_content_hash x then fail ErrStateConflict
         else if coi_status i = AStatusApproved then activate_contract e i current d
         else res_bind (update_status e t c StatusPending StatusDraft actor d) (\<lambda>d1.
              insert_lifecycle e t c (coi_approval_id i) (coi_workflow_id i) StatusPending StatusDraft
                actor (coi_reason i) (coi_approval_id i @ '':'' @ approval_status_string (coi_status i)) d1))
      else if coi_status i = AStatusApproved then
        (if ct_status current \<noteq> in_from x \<or> coi_target_status i \<noteq> in_target x then fail ErrStateConflict
         else res_bind (update_status e t c (in_from x) (in_target x) actor d) (\<lambda>d1.
              insert_lifecycle e t c (coi_approval_id i) (coi_workflow_id i) (in_from x) (in_target x)
                actor (coi_reason i) (coi_approval_id i @ '':status-applied'') d1))
      else ok d)"

definition finish_instance :: "env \<Rightarrow> complete_approval_input \<Rightarrow> db \<Rightarrow> db result" where
  "finish_instance e i d =
     (let (now, d1) = read_clock e d; hit = (\<lambda>x. in_id x = coi_approval_id i)
      in if rows_affected hit (db_instances d1) \<noteq> 1 then fail ErrNotFound
         else ok (d1\<lparr>
           db_instances := update_rows hit (\<lambda>x. x\<lparr>in_status := coi_status i, in_status_change_key := None,
               in_completed := True, in_completed_at := Some now, in_updated_at := now\<rparr>) (db_instances d1),
           db_tasks := update_rows (\<lambda>t. tk_approval t = coi_approval_id i \<and> tk_status t = NodeActive)
               (\<lambda>t. t\<lparr>tk_status := NodeSkipped, tk_completed_at := Some now\<rparr>) (db_tasks d1)\<rparr>))"

definition complete_approval :: "env \<Rightarrow> complete_approval_input \<Rightarrow> db \<Rightarrow> db result" where
  "complete_approval e i d =
     (case first_row (\<lambda>x. in_tenant x = coi_tenant_id i \<and> in_id x = coi_approval_id i) (db_instances d) of
        None \<Rightarrow> fail ErrNotFound
      | Some x \<Rightarrow>
          if in_completed x then ok d
          else case find_contract d (coi_tenant_id i) (coi_contract_id i) of
            None \<Rightarrow> fail ErrNotFound
          | Some current \<Rightarrow>
              if \<not> ordinary_contract_record current then fail ErrStateConflict
              else res_bind (apply_decision e i x current d) (finish_instance e i))"

section \<open>Notifications\<close>

definition user_notice :: "notify_input \<Rightarrow> string \<Rightarrow> notification" where
  "user_notice i u = \<lparr>nt_recipient_key = ''user:'' @ u, nt_recipient_user = string_ptr u,
     nt_recipient_role = None, nt_type = ni_type i, nt_title = ni_title i, nt_content = ni_content i,
     nt_contract = string_ptr (ni_contract_id i), nt_approval = string_ptr (ni_approval_id i),
     nt_dedupe_key = ni_dedupe_key i\<rparr>"

definition role_notice :: "notify_input \<Rightarrow> string \<Rightarrow> notification" where
  "role_notice i u = \<lparr>nt_recipient_key = ''role:'' @ u, nt_recipient_user = None,
     nt_recipient_role = string_ptr u, nt_type = ni_type i, nt_title = ni_title i, nt_content = ni_content i,
     nt_contract = string_ptr (ni_contract_id i), nt_approval = string_ptr (ni_approval_id i),
     nt_dedupe_key = ni_dedupe_key i\<rparr>"

definition create_notification :: "env \<Rightarrow> notify_input \<Rightarrow> db \<Rightarrow> db result" where
  "create_notification e i d =
     (let (now, d1) = read_clock e d;
          notices = map (user_notice i) (unique_strings (ni_recipients i))
                    @ map (role_notice i) (unique_strings (ni_role_recipients i))
      in ok (fold (\<lambda>n d. insert_notification e (ni_tenant_id i) n now d) notices d1))"

section \<open>The activity store\<close>

definition with_audit_meta :: "env \<Rightarrow> audit_meta \<Rightarrow> env" where
  "with_audit_meta e m =
     (if am_client_ip m = [] \<and> am_login_ip m = [] \<and> am_ip_source m = [] \<and> am_request_id m = [] then e
      else e\<lparr>env_meta := \<lparr>ac_login_ip = am_login_ip m, ac_client_ip = am_client_ip m,
              ac_ip_source = am_ip_source m, ac_request_id = am_request_id m, ac_actor_id = []\<rparr>\<rparr>)"

definition approval_repository :: "env \<Rightarrow> db approval_store" where
  "approval_repository e =
     \<lparr>as_start = (\<lambda>i. start_approval (with_audit_meta e (sai_audit i)) i),
      as_record = record_command e,
      as_complete = (\<lambda>i. complete_approval (with_audit_meta e (coi_audit i)) i),
      as_notify = create_notification e\<rparr>"

section \<open>What the operations change\<close>

lemma approval_repository_sel [simp]:
  "as_start (approval_repository e) = (\<lambda>i. start_approval (with_audit_meta e (sai_audit i)) i)"
  "as_record (approval_repository e) = record_command e"
  "as_complete (approval_repository e) = (\<lambda>i. complete_approval (with_audit_meta e (coi_audit i)) i)"
  "as_notify (approval_repository e) = create_notification e"
  by (simp_all add: approval_repository_def)

definition approval_row :: "string \<Rightarrow> string \<Rightarrow> db \<Rightarrow> instance_row option" where
  "approval_row tenant i d = first_row (\<lambda>x. in_tenant x = tenant \<and> in_id x = i) (db_instances d)"

lemma prepare_start_frame:
  assumes "prepare_start e i current d = Inr d'"
  shows "store_frame d d'"
proof (cases "sai_kind i = KindContract")
  case True
  with assms show ?thesis
    by (auto simp: prepare_start_def res_bind_eq_ok split: if_split_asm
        dest!: update_status_ok(2) insert_lifecycle_ok(1) intro: store_frame_trans)
next
  case False
  with assms show ?thesis by (auto simp: prepare_start_def split: if_split_asm)
qed

lemma start_approval_row:
  assumes "start_approval e i d = Inr d'" and "find_instance d (sai_approval_id i) = None"
  shows "\<exists>now. approval_row (sai_tenant_id i) (sai_approval_id i) d' = Some (new_instance i now)"
proof -
  from assms obtain current d1 where "prepare_start e i current d = Inr d1"
    and create: "create_instance e i current d1 = Inr d'"
    by (auto simp: start_approval_def res_bind_eq_ok split: option.splits if_split_asm)
  then have "db_instances d1 = db_instances d" by (blast dest: prepare_start_frame store_frameD(3))
  moreover obtain now where "db_instances d' = db_instances d1 @ [new_instance i now]"
    using create by (auto simp: create_instance_def read_clock_def Let_def res_bind_eq_ok insert_row_ok
        split: sum.splits)
  moreover have "first_row (\<lambda>x. in_tenant x = sai_tenant_id i \<and> in_id x = sai_approval_id i) (db_instances d) = None"
    using assms(2) by (auto simp: find_instance_def first_row_None)
  ultimately show ?thesis
    by (intro exI [of _ now]) (simp add: approval_row_def first_row_append new_instance_def)
qed

definition recorded_row :: "record_command_input \<Rightarrow> instant \<Rightarrow> instance_row \<Rightarrow> instance_row" where
  "recorded_row r now x = x\<lparr>in_state := Some (rci_state r), in_index := st_index (rci_state r),
     in_status := st_status (rci_state r), in_updated_at := now\<rparr>"

lemma recorded_row_simps [simp]:
  "in_tenant (recorded_row r now x) = in_tenant x" "in_id (recorded_row r now x) = in_id x"
  "in_completed (recorded_row r now x) = in_completed x" "in_kind (recorded_row r now x) = in_kind x"
  "in_contract (recorded_row r now x) = in_contract x"
  by (simp_all add: recorded_row_def)

lemma insert_audit_same:
  assumes "insert_audit e tenant entry d = Inr d'"
  shows "db_instances d' = db_instances d \<and> db_contracts d' = db_contracts d \<and> db_streams d' = db_streams d"
  using project_frameD [OF insert_audit_frame [OF assms]] by simp

lemma record_command_effect:
  assumes "record_command e r d = Inr d'"
  shows "db_contracts d' = db_contracts d" and "db_streams d' = db_streams d"
    and "d' = d \<or> (\<exists>now. db_instances d' =
      update_rows (\<lambda>x. in_tenant x = rci_tenant_id r \<and> in_id x = rci_approval_id r) (recorded_row r now)
        (db_instances d))"
proof -
  have "db_contracts d' = db_contracts d \<and> db_streams d' = db_streams d \<and> (d' = d \<or> (\<exists>now. db_instances d' =
      update_rows (\<lambda>x. in_tenant x = rci_tenant_id r \<and> in_id x = rci_approval_id r) (recorded_row r now)
        (db_instances d)))"
  proof (cases "first_row (\<lambda>a. at_command a = cmd_id (rci_command r)) (db_actions d)")
    case None
    define pr where "pr = (if cmd_occurred_at (rci_command r) = zero_time then read_clock e d
        else (cmd_occurred_at (rci_command r), d))"
    have pr: "db_contracts (snd pr) = db_contracts d" "db_streams (snd pr) = db_streams d"
      "db_instances (snd pr) = db_instances d"
      by (simp_all add: pr_def read_clock_def)
    obtain at d1 where at: "pr = (at, d1)" by force
    with assms None pr show ?thesis
      by (auto simp: record_command_def pr_def [symmetric] new_id_def read_clock_def sync_tasks_def
          recorded_row_def [abs_def] res_bind_eq_ok Let_def split: if_split_asm dest!: insert_audit_same)
  next
    case (Some a)
    with assms show ?thesis by (simp add: record_command_def)
  qed
  then show "db_contracts d' = db_contracts d" and "db_streams d' = db_streams d"
    and "d' = d \<or> (\<exists>now. db_instances d' =
      update_rows (\<lambda>x. in_tenant x = rci_tenant_id r \<and> in_id x = rci_approval_id r) (recorded_row r now)
        (db_instances d))"
    by blast+
qed

lemma record_command_row:
  assumes "record_command e r d = Inr d'"
    and "approval_row (rci_tenant_id r) (rci_approval_id r) d = Some x"
  shows "\<exists>x'. approval_row (rci_tenant_id r) (rci_approval_id r) d' = Some x' \<and> in_completed x' = in_completed x
    \<and> in_kind x' = in_kind x \<and> in_contract x' = in_contract x"
  using record_command_effect(3) [OF assms(1)] assms(2) first_row_SomeD [OF assms(2) [unfolded approval_row_def]]
  by (auto simp: approval_row_def first_row_update_rows)

text \<open>Numbering and activation, on the row of the contract.\<close>

lemma issue_number_find:
  assumes "issue_number e tenant r d = Inr d'" and "find_contract d tenant (ct_id r) = Some r" and "unnumbered r"
  shows "\<exists>number f. numbers_only number r (f r) \<and> find_contract d' tenant (ct_id r) = Some (f r)"
proof -
  obtain number f d2 where f: "approved_number_updates e r number = Inr f"
    and d': "d' = d2\<lparr>db_contracts := update_rows (\<lambda>x. contract_at tenant (ct_id r) x \<and> unnumbered x) f
              (db_contracts d)\<rparr>"
    using issue_number_ok [OF assms(1)] by metis
  have only: "numbers_only number x (f x)" for x by (rule approved_number_updates_ok [OF f])
  have "contract_at tenant (ct_id r) (f x) = contract_at tenant (ct_id r) x" for x
    using numbers_onlyD(2,3) [OF only [of x]] by (simp add: contract_at_def)
  then have "find_contract d' tenant (ct_id r) = Some (f r)"
    using assms(2,3) first_row_SomeD [OF assms(2) [unfolded find_contract_def]]
    by (simp add: d' find_contract_def find_update)
  with only show ?thesis by blast
qed

lemma enqueue_project_frame:
  assumes "enqueue_project_activation e tenant cid d = Inr d'"
  shows "project_frame d d'"
proof -
  from assms obtain r where "find_contract d tenant cid = Some r"
    by (auto simp: enqueue_project_activation_def split: option.splits)
  with assms show ?thesis by (rule enqueue_project_activation_ok(1))
qed

lemma activate_contract_find:
  assumes "activate_contract e i r d = Inr d'" and "find_contract d (coi_tenant_id i) (coi_contract_id i) = Some r"
    and "ct_status r = StatusPending"
  shows "\<exists>r'. find_contract d' (coi_tenant_id i) (coi_contract_id i) = Some r' \<and> ct_status r' = StatusActive
    \<and> ct_version r' = ct_version r + 2 \<and> ct_number r' \<noteq> None
    \<and> (\<not> unnumbered r \<longrightarrow> ct_number r' = ct_number r)"
proof -
  let ?t = "coi_tenant_id i" and ?c = "coi_contract_id i"
  have id: "ct_id r = ?c" using find_contract_SomeD [OF assms(2)] by (simp add: contract_at_def)
  from assms(1) obtain d1 d2 d3 d4 d5 d6 reason where
    n: "(if unnumbered r then issue_number e ?t r d else ok d) = Inr d1"
    and u1: "update_status e ?t ?c StatusPending StatusApproved (complete_actor i) d1 = Inr d2"
    and l1: "insert_lifecycle e ?t ?c (coi_approval_id i) (coi_workflow_id i) StatusPending StatusApproved
          (complete_actor i) (coi_reason i) (coi_approval_id i @ '':approved'') d2 = Inr d3"
    and u2: "update_status e ?t ?c StatusApproved StatusActive (complete_actor i) d3 = Inr d4"
    and l2: "insert_lifecycle e ?t ?c (coi_approval_id i) (coi_workflow_id i) StatusApproved StatusActive
          (complete_actor i) ''approval completed; contract activated'' (coi_approval_id i @ '':activated'') d4
        = Inr d5"
    and p: "enqueue_project_activation e ?t ?c d5 = Inr d6"
    and f: "enqueue_financial e ?t ?c d6 = Inr (reason, d')"
    by (auto simp: activate_contract_def Let_def res_bind_eq_ok)
  obtain r1 where r1: "find_contract d1 ?t ?c = Some r1" "ct_status r1 = StatusPending"
    "ct_version r1 = ct_version r" "ct_number r1 \<noteq> None" "\<not> unnumbered r \<longrightarrow> ct_number r1 = ct_number r"
  proof (cases "unnumbered r")
    case True
    with n issue_number_find [of e ?t r d d1] assms(2) obtain number f where
      "numbers_only number r (f r)" "find_contract d1 ?t ?c = Some (f r)" by (auto simp: id)
    with that [of "f r"] True assms(3) show ?thesis by (auto simp: numbers_onlyD)
  next
    case False
    with n assms(2,3) that [of r] show ?thesis by (auto simp: unnumbered_def)
  qed
  obtain n2 where r2: "find_contract d2 ?t ?c = Some (status_row StatusApproved (complete_actor i) n2 r1)"
    using update_status_find [OF u1 r1(1,2)] by blast
  have r3: "find_contract d3 = find_contract d2" by (rule find_contract_cong) (rule insert_lifecycle_ok(2) [OF l1])
  obtain n4 where r4: "find_contract d4 ?t ?c = Some (status_row StatusActive (complete_actor i) n4
      (status_row StatusApproved (complete_actor i) n2 r1))"
    using update_status_find [OF u2, unfolded r3, OF r2] by auto
  have r5: "find_contract d5 = find_contract d4" by (rule find_contract_cong) (rule insert_lifecycle_ok(2) [OF l2])
  have "find_contract d6 = find_contract d5"
    by (rule find_contract_cong) (rule project_frameD(1) [OF enqueue_project_frame [OF p]])
  moreover have "find_contract d' = find_contract d6"
    by (rule find_contract_cong) (rule financial_frameD(1) [OF enqueue_financial_ok(1) [OF f]])
  ultimately show ?thesis using r1 r4 r5 by auto
qed

lemma apply_decision_contract:
  assumes "apply_decision e i x r d = Inr d'" and "in_kind x = KindContract"
    and "find_contract d (coi_tenant_id i) (coi_contract_id i) = Some r"
  shows "\<exists>r'. find_contract d' (coi_tenant_id i) (coi_contract_id i) = Some r'
    \<and> (if coi_status i = AStatusApproved then ct_status r' = StatusActive \<and> ct_number r' \<noteq> None
       else ct_status r' = StatusDraft)"
proof (cases "coi_status i = AStatusApproved")
  case True
  with assms activate_contract_find [OF _ assms(3)] show ?thesis
    by (fastforce simp: apply_decision_def Let_def split: if_split_asm)
next
  case False
  with assms obtain d1 where "ct_status r = StatusPending"
    and u: "update_status e (coi_tenant_id i) (coi_contract_id i) StatusPending StatusDraft (complete_actor i) d = Inr d1"
    and "insert_lifecycle e (coi_tenant_id i) (coi_contract_id i) (coi_approval_id i) (coi_workflow_id i) StatusPending
        StatusDraft (complete_actor i) (coi_reason i)
        (coi_approval_id i @ '':'' @ approval_status_string (coi_status i)) d1 = Inr d'"
    by (auto simp: apply_decision_def Let_def res_bind_eq_ok split: if_split_asm)
  with update_status_find [OF u assms(3)] False find_contract_cong [of d' d1] insert_lifecycle_ok(2)
  show ?thesis by fastforce
qed

text \<open>A decision leaves the instances alone; finishing closes the one of the approval.\<close>

lemma issue_number_instances: "issue_number e tenant r d = Inr d' \<Longrightarrow> db_instances d' = db_instances d"
  by (elim issue_number_ok) (auto dest!: allocate_number_ok(1) simp: allocation_frameD)

lemma activate_contract_instances:
  assumes "activate_contract e i r d = Inr d'"
  shows "db_instances d' = db_instances d"
  using assms by (auto simp: activate_contract_def Let_def res_bind_eq_ok split: if_split_asm
      dest!: issue_number_instances update_status_ok(2) [THEN store_frameD(3)]
        insert_lifecycle_ok(1) [THEN store_frameD(3)] enqueue_project_frame [THEN project_frameD(4)]
        enqueue_financial_ok(1) [THEN financial_frameD(4)])

lemma finish_instance_row:
  assumes "finish_instance e i d = Inr d'"
    and "approval_row (coi_tenant_id i) (coi_approval_id i) d = Some x"
  shows "\<exists>x'. approval_row (coi_tenant_id i) (coi_approval_id i) d' = Some x' \<and> in_completed x'
    \<and> in_status x' = coi_status i" and "db_contracts d' = db_contracts d"
  using assms first_row_SomeD [OF assms(2) [unfolded approval_row_def]]
  by (auto simp: finish_instance_def read_clock_def Let_def approval_row_def first_row_update_rows
      split: if_split_asm)

lemma apply_decision_instances:
  assumes "apply_decision e i x r d = Inr d'"
  shows "db_instances d' = db_instances d"
  using assms
  by (auto simp: apply_decision_def Let_def res_bind_eq_ok store_frameD activate_contract_instances
      split: if_split_asm dest!: update_status_ok(2) insert_lifecycle_ok(1))

section \<open>The repository behind the workflow\<close>

definition approval_fresh :: "approval_key \<Rightarrow> db \<Rightarrow> bool" where
  "approval_fresh k d \<longleftrightarrow> find_instance d (fst (snd k)) = None"

definition approval_pending :: "approval_key \<Rightarrow> db \<Rightarrow> bool" where
  "approval_pending k d \<longleftrightarrow> (\<exists>x. approval_row (fst k) (fst (snd k)) d = Some x
     \<and> \<not> in_completed x \<and> in_kind x = KindContract \<and> in_contract x = snd (snd k))"

definition approval_completed :: "approval_key \<Rightarrow> approval_status \<Rightarrow> db \<Rightarrow> bool" where
  "approval_completed k st d \<longleftrightarrow> (\<exists>x r. approval_row (fst k) (fst (snd k)) d = Some x
     \<and> in_completed x \<and> in_status x = st \<and> find_contract d (fst k) (snd (snd k)) = Some r
     \<and> (if st = AStatusApproved then ct_status r = StatusActive \<and> ct_number r \<noteq> None
        else ct_status r = StatusDraft))"

lemma complete_approval_settles:
  assumes "approval_pending (complete_key i) d" and "complete_approval e i d = Inr d'"
  shows "approval_completed (complete_key i) (coi_status i) d'"
proof -
  obtain x where x: "approval_row (coi_tenant_id i) (coi_approval_id i) d = Some x" "\<not> in_completed x"
    "in_kind x = KindContract"
    using assms(1) by (auto simp: approval_pending_def complete_key_def)
  with assms(2) obtain r d1 where r: "find_contract d (coi_tenant_id i) (coi_contract_id i) = Some r"
    and dec: "apply_decision e i x r d = Inr d1" and fin: "finish_instance e i d1 = Inr d'"
    by (auto simp: complete_approval_def approval_row_def res_bind_eq_ok split: option.splits if_split_asm)
  have row: "approval_row (coi_tenant_id i) (coi_approval_id i) d1 = Some x"
    using x(1) apply_decision_instances [OF dec] by (simp add: approval_row_def)
  have same: "find_contract d' = find_contract d1"
    by (rule find_contract_cong) (rule finish_instance_row(2) [OF fin row])
  show ?thesis
    using finish_instance_row(1) [OF fin row] apply_decision_contract [OF dec x(3) r]
    unfolding approval_completed_def complete_key_def fst_conv snd_conv same by blast
qed

lemma create_notification_same:
  assumes "create_notification e n d = Inr d'"
  shows "db_instances d' = db_instances d" "db_contracts d' = db_contracts d" "db_streams d' = db_streams d"
proof -
  have "db_instances (insert_notification e t x now d) = db_instances d
    \<and> db_contracts (insert_notification e t x now d) = db_contracts d
    \<and> db_streams (insert_notification e t x now d) = db_streams d" for t x now d
    by (simp add: insert_notification_def new_id_def Let_def)
  then have "db_instances (fold (\<lambda>x d. insert_notification e t x now d) xs d) = db_instances d
    \<and> db_contracts (fold (\<lambda>x d. insert_notification e t x now d) xs d) = db_contracts d
    \<and> db_streams (fold (\<lambda>x d. insert_notification e t x now d) xs d) = db_streams d" for t now xs d
    by (induction xs arbitrary: d) simp_all
  then show "db_instances d' = db_instances d" "db_contracts d' = db_contracts d" "db_streams d' = db_streams d"
    using assms by (auto simp: create_notification_def read_clock_def Let_def)
qed

lemma approval_predicates_cong:
  assumes "db_instances d' = db_instances d" and "db_contracts d' = db_contracts d"
  shows "approval_pending k d' = approval_pending k d" "approval_completed k st d' = approval_completed k st d"
  using assms find_contract_cong [OF assms(2)]
  by (simp_all add: approval_pending_def approval_completed_def approval_row_def)

interpretation repository: approval_backend "approval_repository e" approval_fresh approval_pending
  approval_completed for e
proof unfold_locales
  fix i d d' assume "approval_fresh (start_key i) d" and kind: "sai_kind i = KindContract"
    and run: "as_start (approval_repository e) i d = Inr d'"
  then obtain now where "approval_row (sai_tenant_id i) (sai_approval_id i) d' = Some (new_instance i now)"
    using start_approval_row [of "with_audit_meta e (sai_audit i)" i d d']
    by (auto simp: approval_fresh_def start_key_def)
  with kind show "approval_pending (start_key i) d'"
    by (simp add: approval_pending_def start_key_def new_instance_def)
next
  fix r d d' assume "approval_pending (record_key r) d" and "as_record (approval_repository e) r d = Inr d'"
  then show "approval_pending (record_key r) d'"
    using record_command_row [of e r d d'] unfolding approval_pending_def record_key_def fst_conv snd_conv
      approval_repository_sel by metis
next
  fix c d d' assume "approval_pending (complete_key c) d" and "as_complete (approval_repository e) c d = Inr d'"
  then show "approval_completed (complete_key c) (coi_status c) d'"
    using complete_approval_settles [of c d "with_audit_meta e (coi_audit c)" d'] by simp
next
  fix k n d d' assume "approval_pending k d" and "as_notify (approval_repository e) n d = Inr d'"
  then show "approval_pending k d'"
    using approval_predicates_cong [of d' d] create_notification_same [of e n d d'] by simp
next
  fix k st n d d' assume "approval_completed k st d" and "as_notify (approval_repository e) n d = Inr d'"
  then show "approval_completed k st d'"
    using approval_predicates_cong [of d' d] create_notification_same [of e n d d'] by simp
qed

section \<open>Progress\<close>

text \<open>Identifiers are never handed out twice, so an audit row can always be written.\<close>

definition audit_fresh :: "env \<Rightarrow> db \<Rightarrow> bool" where
  "audit_fresh e d \<longleftrightarrow> inj (env_ulid e) \<and> (\<forall>a \<in> set (db_audit d). \<forall>n \<ge> db_seq d.
     au_id a \<noteq> env_ulid e n \<and> au_event a \<noteq> env_ulid e n)"

lemma audit_fresh_mono:
  "audit_fresh e d \<Longrightarrow> db_audit d' = db_audit d \<Longrightarrow> db_seq d \<le> db_seq d' \<Longrightarrow> audit_fresh e d'"
  by (auto simp: audit_fresh_def)

lemma audit_fresh_env: "env_ulid e' = env_ulid e \<Longrightarrow> audit_fresh e' d = audit_fresh e d"
  by (simp add: audit_fresh_def)

lemma insert_audit_total:
  assumes "audit_fresh e d"
  shows "\<exists>d'. insert_audit e tenant entry d = Inr d' \<and> audit_fresh e d'"
proof -
  let ?row = "audit_row_of (env_parse_ip e) (env_ulid e (db_seq d + 1)) tenant (env_ulid e (db_seq d))
      (env_clock e (db_tick d)) entry"
  have "\<forall>a \<in> set (db_audit d). \<not> audit_clash ?row a"
    using assms unfolding audit_fresh_def audit_clash_def
    by (simp add: audit_row_of_def) (metis le_refl le_SucI)
  moreover have "inj (env_ulid e)" using assms by (simp add: audit_fresh_def)
  ultimately show ?thesis
    using assms by (auto simp: insert_audit_def new_id_def read_clock_def insert_row_def list_ex_iff
        audit_fresh_def audit_row_of_def inj_eq)
qed

lemma insert_lifecycle_total:
  assumes "audit_fresh e d"
  shows "\<exists>d'. insert_lifecycle e tenant cid approval workflow from to actor reason key d = Inr d' \<and> audit_fresh e d'"
  unfolding insert_lifecycle_def new_id_def read_clock_def Let_def prod.case
  by (rule insert_audit_total) (rule audit_fresh_mono [OF assms], simp_all)

text \<open>A status change that leaves the contract under responsibility needs no event: the stream is
  already right.\<close>

definition keeps_responsibility :: "status \<Rightarrow> status \<Rightarrow> bool" where
  "keeps_responsibility a b \<longleftrightarrow> (a \<in> {StatusTerminated, StatusArchived} \<longleftrightarrow> b \<in> {StatusTerminated, StatusArchived})"

lemma status_row_active:
  "keeps_responsibility (ct_status r) to \<Longrightarrow>
     responsibility_active (status_row to actor now r) = responsibility_active r"
  by (auto simp: keeps_responsibility_def status_row_def responsibility_active_def ordinary_contract_record_def Let_def)

lemma update_status_total:
  assumes "can_transition from to" and r: "find_contract d tenant cid = Some r" "ct_status r = from"
    and rows: "rows_affected (\<lambda>x. contract_at tenant cid x \<and> ct_status x = from) (db_contracts d) = 1"
    and s: "stream_of d tenant cid = Some s" "stream_matches r s" and keep: "keeps_responsibility from to"
  shows "\<exists>d'. update_status e tenant cid from to actor d = Inr d' \<and> db_audit d' = db_audit d \<and> db_seq d' = db_seq d"
proof -
  define d1 where "d1 = d\<lparr>db_tick := db_tick d + 1,
      db_contracts := set_status tenant cid from to actor (env_clock e (db_tick d)) (db_contracts d)\<rparr>"
  have "find_contract d1 tenant cid = Some (status_row to actor (env_clock e (db_tick d)) r)"
    using r find_contract_SomeD [OF r(1)]
    by (auto simp: d1_def find_contract_def find_set_status status_row_def contract_at_def)
  moreover have "responsibility_active (status_row to actor (env_clock e (db_tick d)) r) = responsibility_active r"
    using keep r(2) by (simp add: status_row_active)
  moreover have "stream_of (d1\<lparr>db_tick := db_tick d1 + 1, db_streams := insert_ignore stream_clash
      (stream_seed tenant cid (env_clock e (db_tick d1))) (db_streams d1)\<rparr>) tenant cid = Some s"
    using s(1) by (simp add: d1_def stream_of_def stream_of_insert)
  ultimately have "\<exists>d'. enqueue_responsibility e tenant cid d1 = Inr d' \<and> db_audit d' = db_audit d
      \<and> db_seq d' = db_seq d"
    using s(2) by (simp add: enqueue_responsibility_def read_clock_def Let_def stream_matches_def status_row_def)
      (simp add: d1_def)
  with rows assms(1) show ?thesis
    by (simp add: update_status_def read_clock_def d1_def Let_def validate_transition_def can_transition_valid)
qed

text \<open>Everything a refusal needs.\<close>

definition refusable :: "env \<Rightarrow> approval_key \<Rightarrow> db \<Rightarrow> bool" where
  "refusable e k d \<longleftrightarrow> audit_fresh e d
     \<and> rows_affected (\<lambda>x. in_id x = fst (snd k)) (db_instances d) = 1
     \<and> rows_affected (\<lambda>x. contract_at (fst k) (snd (snd k)) x \<and> ct_status x = StatusPending) (db_contracts d) = 1
     \<and> (\<exists>x r s. approval_row (fst k) (fst (snd k)) d = Some x \<and> \<not> in_completed x \<and> in_kind x = KindContract
          \<and> in_contract x = snd (snd k) \<and> find_contract d (fst k) (snd (snd k)) = Some r \<and> ordinary_contract_record r
          \<and> ct_status r = StatusPending \<and> in_content_hash x = ct_content_hash r
          \<and> ct_content_hash r \<noteq> None \<and> ct_content_hash r \<noteq> Some []
          \<and> stream_of d (fst k) (snd (snd k)) = Some s \<and> stream_matches r s)"

lemma refusal_total:
  assumes "refusable e (complete_key i) d" and "coi_status i \<noteq> AStatusApproved"
  shows "\<exists>d'. complete_approval e i d = Inr d'"
proof -
  let ?t = "coi_tenant_id i" and ?c = "coi_contract_id i"
  obtain x r s where x: "approval_row ?t (coi_approval_id i) d = Some x" "\<not> in_completed x" "in_kind x = KindContract"
    and r: "find_contract d ?t ?c = Some r" "ordinary_contract_record r" "ct_status r = StatusPending"
    and hash: "in_content_hash x = ct_content_hash r" "ct_content_hash r \<noteq> None" "ct_content_hash r \<noteq> Some []"
    and s: "stream_of d ?t ?c = Some s" "stream_matches r s"
    and rows: "rows_affected (\<lambda>x. contract_at ?t ?c x \<and> ct_status x = StatusPending) (db_contracts d) = 1"
    and inst: "rows_affected (\<lambda>x. in_id x = coi_approval_id i) (db_instances d) = 1"
    and fresh: "audit_fresh e d"
    using assms(1) unfolding refusable_def complete_key_def fst_conv snd_conv by blast
  have "can_transition StatusPending StatusDraft" "keeps_responsibility StatusPending StatusDraft"
    by (simp_all add: can_transition_def keeps_responsibility_def)
  then obtain d1 where d1: "update_status e ?t ?c StatusPending StatusDraft (complete_actor i) d = Inr d1"
    "db_audit d1 = db_audit d" "db_seq d1 = db_seq d"
    using update_status_total [OF _ r(1,3) rows s] by blast
  then have "audit_fresh e d1" using audit_fresh_mono [OF fresh, of d1] by simp
  then obtain d2 where d2: "insert_lifecycle e ?t ?c (coi_approval_id i) (coi_workflow_id i) StatusPending
      StatusDraft (complete_actor i) (coi_reason i)
      (coi_approval_id i @ '':'' @ approval_status_string (coi_status i)) d1 = Inr d2"
    using insert_lifecycle_total by blast
  have dec: "apply_decision e i x r d = Inr d2"
    using x r hash assms(2) d1(1) d2 by (auto simp: apply_decision_def Let_def)
  then have "db_instances d2 = db_instances d" by (rule apply_decision_instances)
  with inst have "\<exists>d'. finish_instance e i d2 = Inr d'"
    by (simp add: finish_instance_def read_clock_def Let_def)
  with x r dec show ?thesis by (simp add: complete_approval_def approval_row_def)
qed

text \<open>Starting an approval makes it refusable.\<close>

lemma rows_affected_unique:
  assumes "distinct (map f rows)" and "first_row p rows = Some r" and "\<And>x. p x \<Longrightarrow> f x = f r"
  shows "rows_affected p rows = 1"
  using assms
proof (induction rows)
  case (Cons y ys)
  show ?case
  proof (cases "p y")
    case True
    with Cons.prems(2) have y: "r = y" by simp
    have "f y \<notin> f ` set ys" using Cons.prems(1) by simp
    then have "\<forall>x \<in> set ys. \<not> p x" using Cons.prems(3) y by (metis imageI)
    with True show ?thesis by (simp add: rows_affected_def filter_empty_conv)
  next
    case False
    with Cons show ?thesis by (simp add: rows_affected_def)
  qed
qed simp

lemma first_row_conj:
  "first_row p rows = Some r \<Longrightarrow> q r \<Longrightarrow> first_row (\<lambda>x. p x \<and> q x) rows = Some r"
  by (induction rows) (auto split: if_split_asm)

lemma enqueue_responsibility_seq:
  assumes "enqueue_responsibility e tenant cid d = Inr d'"
  shows "db_seq d \<le> db_seq d'"
  using assms by (auto simp: enqueue_responsibility_def advance_stream_def emit_responsibility_def read_clock_def
      new_id_def res_bind_eq_ok Let_def split: option.splits if_split_asm)

lemma update_status_seq:
  assumes "update_status e tenant cid from to actor d = Inr d'"
  shows "db_seq d \<le> db_seq d'"
  using assms by (auto simp: update_status_def read_clock_def res_bind_eq_ok Let_def split: if_split_asm
      dest!: enqueue_responsibility_seq)

lemma update_status_audit:
  assumes "update_status e tenant cid from to actor d = Inr d'"
  shows "db_audit d' = db_audit d"
proof -
  define d1 where "d1 = d\<lparr>db_tick := db_tick d + 1, db_contracts :=
      set_status tenant cid from to actor (env_clock e (db_tick d)) (db_contracts d)\<rparr>"
  have "db_audit d1 = db_audit d" "enqueue_responsibility e tenant cid d1 = Inr d'"
    using assms by (simp_all add: d1_def update_status_def read_clock_def res_bind_eq_ok Let_def split: if_split_asm)
  moreover from this obtain r where "find_contract d1 tenant cid = Some r"
    by (auto simp: enqueue_responsibility_def split: option.splits)
  ultimately show ?thesis by (metis enqueue_responsibility_ok(1) responsibility_frameD(7))
qed

lemma start_approval_ready:
  assumes run: "start_approval e i d = Inr d'" and new: "find_instance d (sai_approval_id i) = None"
    and kind: "sai_kind i = KindContract" "sai_target_status i = StatusPending"
    and keys: "distinct (map ct_id (db_contracts d))" and fresh: "audit_fresh e d"
  shows "refusable e (start_key i) d'"
proof -
  let ?t = "sai_tenant_id i" and ?c = "sai_contract_id i" and ?a = "sai_applicant i"
  from run new kind obtain r d1 d2 where r: "find_contract d ?t ?c = Some r" "ordinary_contract_record r"
      "ct_status r = sai_from_status i"
    and hash: "sai_content_hash i \<noteq> []" "ct_content_hash r = Some (sai_content_hash i)"
    and u: "update_status e ?t ?c (sai_from_status i) StatusPending ?a d = Inr d1"
    and l: "insert_lifecycle e ?t ?c (sai_approval_id i) (sai_workflow_id i) (sai_from_status i) StatusPending
      ?a ''submitted for approval'' (sai_approval_id i @ '':submitted'') d1 = Inr d2"
    and c: "create_instance e i r d2 = Inr d'"
    by (auto simp: start_approval_def prepare_start_def res_bind_eq_ok split: option.splits if_split_asm)
  obtain n where st: "find_contract d1 ?t ?c = Some (status_row StatusPending ?a n r)" (is "_ = Some ?r")
    using update_status_find [OF u r(1,3)] by blast
  obtain s where s: "stream_of d1 ?t ?c = Some s" "stream_matches ?r s"
    using update_status_ok(6) [OF u] st by auto
  note l_ok = insert_lifecycle_ok [OF l]
  obtain now where d': "db_instances d' = db_instances d2 @ [new_instance i now]" "db_contracts d' = db_contracts d2"
    "db_streams d' = db_streams d2" "db_audit d' = db_audit d2" "db_seq d' = db_seq d2"
    using c by (auto simp: create_instance_def read_clock_def Let_def res_bind_eq_ok insert_row_ok split: sum.splits)
  have "audit_fresh e d1"
    using store_frameD [OF update_status_ok(2) [OF u]] update_status_seq [OF u] update_status_audit [OF u]
    by (intro audit_fresh_mono [OF fresh]) simp_all
  from insert_lifecycle_total [OF this] l have "audit_fresh e d2" by (metis Inr_inject)
  then have A: "audit_fresh e d'" by (rule audit_fresh_mono) (simp_all add: d')
  have find: "find_contract d' ?t ?c = Some ?r"
    using st find_contract_cong [OF d'(2)] find_contract_cong [OF l_ok(2)] by simp
  have "map ct_id (db_contracts d1) = map ct_id (db_contracts d)"
    using update_status_ok(4) [OF u] by (auto simp: set_status_def map_update_rows)
  then have "distinct (map ct_id (db_contracts d'))" using keys l_ok(2) d'(2) by simp
  moreover have "first_row (\<lambda>x. contract_at ?t ?c x \<and> ct_status x = StatusPending) (db_contracts d') = Some ?r"
    using find by (intro first_row_conj) (simp_all add: find_contract_def)
  ultimately have B: "rows_affected (\<lambda>x. contract_at ?t ?c x \<and> ct_status x = StatusPending) (db_contracts d') = 1"
    by (rule rows_affected_unique) (use find_contract_SomeD [OF r(1)] in \<open>simp add: contract_at_def\<close>)
  have inst: "db_instances d2 = db_instances d"
    using store_frameD(3) [OF update_status_ok(2) [OF u]] store_frameD(3) [OF l_ok(1)] by simp
  have none: "\<forall>x \<in> set (db_instances d2). in_id x \<noteq> sai_approval_id i"
    using new by (auto simp: inst find_instance_def first_row_None)
  have C: "rows_affected (\<lambda>x. in_id x = sai_approval_id i) (db_instances d') = 1"
    using none by (simp add: d' rows_affected_def new_instance_def)
  have D: "approval_row ?t (sai_approval_id i) d' = Some (new_instance i now)"
  proof -
    have "first_row (\<lambda>x. in_tenant x = ?t \<and> in_id x = sai_approval_id i) (db_instances d2) = None"
      using none by (simp add: first_row_None)
    then show ?thesis by (simp add: d' approval_row_def first_row_append new_instance_def)
  qed
  have E: "stream_of d' ?t ?c = Some s" using s(1) l_ok(3) d'(3) by (simp add: stream_of_def)
  have F: "ordinary_contract_record ?r" using r(2) by (simp add: ordinary_contract_record_def status_row_def)
  show ?thesis unfolding refusable_def start_key_def fst_conv snd_conv
    using A B C D E F s(2) find hash kind
    by (auto simp: new_instance_def string_ptr_def status_row_def)
qed

lemma with_audit_meta_ulid [simp]: "env_ulid (with_audit_meta e m) = env_ulid e"
  by (simp add: with_audit_meta_def)

lemma refusable_env: "env_ulid e' = env_ulid e \<Longrightarrow> refusable e' k d = refusable e k d"
  unfolding refusable_def using audit_fresh_env [of e' e d] by blast

lemma refusable_start:
  assumes "as_start (approval_repository e) i d = Inr d'" and "find_instance d (sai_approval_id i) = None"
    and "sai_kind i = KindContract" and "sai_target_status i = StatusPending"
    and "distinct (map ct_id (db_contracts d))" and "audit_fresh e d"
  shows "refusable e (start_key i) d'"
  using start_approval_ready [of "with_audit_meta e (sai_audit i)" i d d'] assms
  by (simp add: refusable_env [of "with_audit_meta e (sai_audit i)" e]
      audit_fresh_env [of "with_audit_meta e (sai_audit i)" e])

lemma refusable_complete:
  assumes "refusable e (complete_key c) d" and "coi_status c \<noteq> AStatusApproved"
  shows "\<exists>d' x r. as_complete (approval_repository e) c d = Inr d'
    \<and> approval_row (coi_tenant_id c) (coi_approval_id c) d' = Some x \<and> in_completed x \<and> in_status x = coi_status c
    \<and> find_contract d' (coi_tenant_id c) (coi_contract_id c) = Some r \<and> ct_status r = StatusDraft"
proof -
  have "refusable (with_audit_meta e (coi_audit c)) (complete_key c) d"
    using assms(1) by (simp add: refusable_env [of "with_audit_meta e (coi_audit c)" e])
  from refusal_total [OF this assms(2)] obtain d'
    where run: "complete_approval (with_audit_meta e (coi_audit c)) c d = Inr d'" by blast
  have "approval_pending (complete_key c) d"
    using assms(1) by (auto simp: refusable_def approval_pending_def)
  from complete_approval_settles [OF this run] run assms(2) show ?thesis
    by (auto simp: approval_completed_def complete_key_def)
qed

lemma refusable_notice:
  assumes "refusable e k d" and "create_notification e n d = Inr d'"
  shows "refusable e k d'"
proof -
  have ins: "db_audit (insert_notification e t x now d) = db_audit d
    \<and> db_seq d \<le> db_seq (insert_notification e t x now d)" for t x now d
    by (simp add: insert_notification_def new_id_def Let_def)
  have ins_all: "db_audit (fold (\<lambda>x d. insert_notification e t x now d) xs d) = db_audit d
    \<and> db_seq d \<le> db_seq (fold (\<lambda>x d. insert_notification e t x now d) xs d)" for t now xs d
  proof (induction xs arbitrary: d)
    case (Cons x xs)
    from Cons [of "insert_notification e t x now d"] ins [of t x now d] show ?case by auto
  qed simp
  have "db_audit d' = db_audit d" "db_seq d \<le> db_seq d'"
    using assms(2) ins_all [of _ _ _ "d\<lparr>db_tick := db_tick d + 1\<rparr>"]
    by (auto simp: create_notification_def read_clock_def Let_def simp del: fold_append)
  then have "audit_fresh e d \<Longrightarrow> audit_fresh e d'" by (blast intro: audit_fresh_mono)
  with assms(1) create_notification_same [OF assms(2)] show ?thesis
    by (simp add: refusable_def approval_row_def stream_of_def find_contract_def)
qed

section \<open>Properties\<close>

text \<open>C1: a contract approval workflow that returns has settled its contract in the data base: the stored
  approval is completed with the status of the workflow, and the contract is in force with a number if the
  approval was given, and a draft again otherwise.\<close>

theorem approval_run_settles_contract:
  assumes "find_instance d (cai_approval_id inp) = None"
    and "w = wf_run (approval_repository e) inp wfid runid t0 t1 t2 evs d" and "wf_phase w = WfReturned"
  shows "\<exists>x r. approval_row (cai_tenant_id inp) (cai_approval_id inp) (wf_store w) = Some x
    \<and> in_completed x \<and> in_status x = st_status (wf_state w)
    \<and> find_contract (wf_store w) (cai_tenant_id inp) (cai_contract_id inp) = Some r
    \<and> (if st_status (wf_state w) = AStatusApproved then ct_status r = StatusActive \<and> ct_number r \<noteq> None
       else ct_status r = StatusDraft)"
  using repository.returned_run_completed [of inp d e wfid runid t0 t1 t2 evs] assms
  by (simp add: approval_fresh_def input_key_def approval_completed_def)

text \<open>a started contract approval can always be taken back: whatever refuses it (a rejection, a
  withdrawal or a time-out), the completion succeeds and returns the contract to draft.\<close>

theorem started_approval_can_be_refused:
  assumes "as_start (approval_repository e) i d = Inr d1" and "find_instance d (sai_approval_id i) = None"
    and "sai_kind i = KindContract" and "sai_target_status i = StatusPending"
    and "distinct (map ct_id (db_contracts d))" and "audit_fresh e d"
    and "complete_key c = start_key i" and "coi_status c \<noteq> AStatusApproved"
  shows "\<exists>d2 x r. as_complete (approval_repository e) c d1 = Inr d2
    \<and> approval_row (coi_tenant_id c) (coi_approval_id c) d2 = Some x \<and> in_completed x \<and> in_status x = coi_status c
    \<and> find_contract d2 (coi_tenant_id c) (coi_contract_id c) = Some r \<and> ct_status r = StatusDraft"
  using refusable_start [OF assms(1-6)] refusable_complete [OF _ assms(8), of e d1]
  by (simp add: assms(7) [symmetric])

section \<open>Witnesses\<close>

definition run_input :: contract_approval_input where
  "run_input = sample_input\<lparr>cai_tenant_id := ''t1'', cai_content_hash := ''h1''\<rparr>"

definition run_db :: db where
  "run_db = sample_db [sample_contract]"

lemma sample_ulid_inj [simp]: "sample_ulid m = sample_ulid n \<longleftrightarrow> m = n"
  using fmt_pad_inj [of 0] by (auto simp: inj_def sample_ulid_def fmt_pad_def pad_zero_def)

lemma run_fresh: "audit_fresh sample_db_env run_db" "find_instance run_db (cai_approval_id run_input) = None"
  "distinct (map ct_id (db_contracts run_db))"
  using sample_ulid_inj by (simp_all add: audit_fresh_def inj_def run_db_def sample_db_def sample_db_env_def find_instance_def)

text \<open>The submission is evaluated with the contract row and the input kept as they are; the
  congruence rules keep the simplifier out of continuations that have not been reached.\<close>

lemma res_bind_weak: "r = r' \<Longrightarrow> res_bind r f = res_bind r' f" by simp

lemma sample_row_simps:
  "ct_id sample_contract = ''c1''" "ct_tenant sample_contract = ''t1''" "ct_status sample_contract = StatusDraft"
  "ct_version sample_contract = 1" "ct_content_hash sample_contract = Some ''h1''" "ct_owner sample_contract = ''u1''"
  "ct_origin_kind sample_contract = ''NORMAL''" "ct_import_mode sample_contract = []"
  "ct_import_policy sample_contract = JsonEmpty" "ct_counterparty_source sample_contract = ''CRM''"
  "ct_category_source sample_contract = []"
  by (simp_all add: sample_contract_def)

lemma sample_env_simps:
  "env_clock sample_db_env = int" "env_ulid sample_db_env = sample_ulid"
  "with_audit_meta sample_db_env (cai_audit (default_input run_input)) = sample_db_env"
  by (simp_all add: sample_db_env_def with_audit_meta_def run_input_def sample_input_def default_input_def)

lemma run_input_simps:
  "cai_approval_id (default_input run_input) = ''a1''" "cai_tenant_id (default_input run_input) = ''t1''"
  "cai_contract_id (default_input run_input) = ''c1''" "cai_contract_version (default_input run_input) = 1"
  "cai_content_hash (default_input run_input) = ''h1''"
  "cai_nodes (default_input run_input) = [sample_node\<lparr>node_assignees := [''ann'', ''bob'']\<rparr>]"
  by (simp_all add: run_input_def sample_input_def default_input_def)

lemmas start_eval = Let_def validate_transition_def can_transition_def valid_status_def start_approval_def
  find_instance_def find_contract_def contract_at_def run_db_def sample_db_def ordinary_contract_record_def
  json_empty_def wf_start_input_def prepare_start_def count_running_approvals_def rows_affected_def
  update_status_def read_clock_def set_status_def enqueue_responsibility_def insert_ignore_def stream_of_def
  stream_at_def stream_seed_def responsibility_active_def advance_stream_def local_outbound_not_applicable_def
  emit_responsibility_def new_id_def insert_row_def insert_lifecycle_def insert_audit_def create_instance_def
  initial_tasks_def audit_clash_def lifecycle_clash_def outbox_clash_def snapshot_clash_def task_clash_def
  instance_clash_def new_outbox_row_def new_responsibility_payload_def

lemma audit_row_simps: "au_id (audit_row_of f i tenant event_id now e) = i"
  "au_event (audit_row_of f i tenant event_id now e) = event_id"
  "au_tenant (audit_row_of f i tenant event_id now e) = tenant"
  by (simp_all add: audit_row_of_def)

lemma run_starts: "\<exists>d1. as_start (approval_repository sample_db_env)
    (wf_start_input (default_input run_input) ''w'' ''r'') run_db = Inr d1"
  by (simp add: start_eval sample_row_simps sample_env_simps run_input_simps audit_row_simps sample_node_def
      unique_strings_def cong: let_weak_cong res_bind_weak)

theorem approval_run_settles_contract_witness:
  "\<exists>x r. approval_row ''t1'' ''a1'' (wf_store (wf_run (approval_repository sample_db_env) run_input ''w'' ''r''
      0 1 2 [EvTimer (10 ^ 18)] run_db)) = Some x \<and> in_completed x
    \<and> find_contract (wf_store (wf_run (approval_repository sample_db_env) run_input ''w'' ''r''
      0 1 2 [EvTimer (10 ^ 18)] run_db)) ''t1'' ''c1'' = Some r"
proof -
  let ?i = "wf_start_input (default_input run_input) ''w'' ''r''"
  let ?c = "wf_complete_input (default_input run_input) ''w'' [] AStatusExpired ''current approval node timed out''
      StatusDraft"
  obtain d1 where d1: "as_start (approval_repository sample_db_env) ?i run_db = Inr d1" using run_starts by blast
  have i: "sai_target_status ?i = StatusPending" "sai_approval_id ?i = cai_approval_id run_input"
    by (simp_all add: wf_start_input_def default_input_def)
  have ready: "refusable sample_db_env (complete_key ?c) d1"
    using refusable_start [OF d1] i run_fresh by simp
  have ok: "is_ok (as_complete (approval_repository sample_db_env) ?c d2)"
    if "refusable sample_db_env (complete_key ?c) d2" for d2
    using refusable_complete [OF that] by (auto simp: is_ok_def)
  have notified: "is_ok (as_complete (approval_repository sample_db_env) ?c d2)"
    if "as_notify (approval_repository sample_db_env) m d1 = Inr d2" for m d2
    using refusable_notice [OF ready] that by (intro ok) simp
  have inp: "cai_nodes run_input = [sample_node\<lparr>node_assignees := [''ann'', ''bob'']\<rparr>]"
    "cai_approval_id run_input \<noteq> []" "cai_contract_id run_input \<noteq> []" "cai_applicant run_input \<noteq> []"
    "1 + (if node_timeout (sample_node\<lparr>node_assignees := [''ann'', ''bob'']\<rparr>) \<le> 0
       then cai_default_timeout (default_input run_input)
       else node_timeout (sample_node\<lparr>node_assignees := [''ann'', ''bob'']\<rparr>)) \<le> 10 ^ 18"
    by (simp_all add: run_input_def sample_input_def sample_node_def default_input_def hour_ns_def)
  have "wf_phase (wf_run (approval_repository sample_db_env) run_input ''w'' ''r'' 0 1 2
      [EvTimer (10 ^ 18)] run_db) = WfReturned"
    by (rule timed_out_run [OF inp(2-4,1) d1 inp(5) ok [OF ready] notified])
  from approval_run_settles_contract [OF run_fresh(2) refl this] show ?thesis
    by (auto simp: run_input_def sample_input_def)
qed

theorem started_approval_can_be_refused_witness:
  "\<exists>d1 d2. as_start (approval_repository sample_db_env)
      (wf_start_input (default_input run_input) ''w'' ''r'') run_db = Inr d1
     \<and> as_complete (approval_repository sample_db_env) (wf_complete_input run_input ''w'' ''ann''
         AStatusWithdrawn ''changed'' StatusDraft) d1 = Inr d2"
proof -
  obtain d1 where d1: "as_start (approval_repository sample_db_env)
      (wf_start_input (default_input run_input) ''w'' ''r'') run_db = Inr d1" using run_starts by blast
  have "sai_target_status (wf_start_input (default_input run_input) ''w'' ''r'') = StatusPending"
    "sai_approval_id (wf_start_input (default_input run_input) ''w'' ''r'') = cai_approval_id run_input"
    by (simp_all add: wf_start_input_def default_input_def)
  with started_approval_can_be_refused [OF d1, of "wf_complete_input run_input ''w'' ''ann'' AStatusWithdrawn
      ''changed'' StatusDraft"] d1 run_fresh show ?thesis by auto
qed

end
