(* ===== verification/Contract_Operations.thy ===== *)
theory Contract_Operations
  imports Approval_Repository
begin

text \<open>
  The transactions on a contract beside its approval: creation, the edit of a draft, the direct status
  change, the audit row of a document access (\<^verbatim>\<open>contracts_lifecycle.go\<close>, \<^verbatim>\<open>draft.go\<close>) and the
  daily archiving of contracts whose end date has passed (\<^verbatim>\<open>archive.go\<close>). A status \<open>StatusOther []\<close>
  is the empty string of the code.
\<close>

section \<open>Direct status change\<close>

definition direct_target_allowed :: "status \<Rightarrow> bool" where
  "direct_target_allowed target \<longleftrightarrow>
     \<not> (requires_approval target \<or> target = StatusPending \<or> target = StatusApproved \<or> target = StatusActive)"

definition transition_direct ::
  "env \<Rightarrow> string \<Rightarrow> string \<Rightarrow> nat \<Rightarrow> status \<Rightarrow> string \<Rightarrow> string \<Rightarrow> string \<Rightarrow> db \<Rightarrow> db result" where
  "transition_direct e tenant cid expected target actor reason key d =
     (case find_contract d tenant cid of
        None \<Rightarrow> fail ErrNotFound
      | Some r \<Rightarrow>
          if ct_version r \<noteq> expected then fail ErrVersionConflict
          else if \<not> ordinary_contract_record r then fail ErrStateConflict
          else if count_running_approvals d tenant cid [KindContract, KindStatusChange] > 0
          then fail ErrStateConflict
          else if \<not> direct_target_allowed target then fail ErrStateConflict
          else res_bind (update_status e tenant cid (ct_status r) target actor d)
                 (insert_lifecycle e tenant cid [] [] (ct_status r) target actor reason key))"

section \<open>Creation\<close>

definition new_contract_row :: "contract \<Rightarrow> string \<Rightarrow> instant \<Rightarrow> contract_row" where
  "new_contract_row c actor now =
     \<lparr>ct_id = c_id c, ct_tenant = c_tenant_id c, ct_number = string_ptr (c_number c),
      ct_number_format = c_number_format c, ct_title = c_title c, ct_type = c_type c,
      ct_service_type = c_service_type c, ct_opportunity_id = string_ptr (c_opportunity_id c),
      ct_opportunity_name = string_ptr (c_opportunity_name c), ct_counterparty_source = [],
      ct_local_counterparty = None, ct_counterparty_version = None, ct_category_source = [],
      ct_integration_policy = [], ct_crm_customer = uint_ptr (c_crm_customer_id c),
      ct_customer_name = string_ptr (c_customer_name c),
      ct_customer_address = string_ptr (c_customer_address c),
      ct_customer_contact = string_ptr (c_customer_contact c),
      ct_customer_phone = string_ptr (c_customer_phone c),
      ct_owner_identity = string_ptr (c_owner_identity_id c), ct_owner_org = string_ptr (c_owner_org_id c),
      ct_project = string_ptr (c_project_id c), ct_systems = JsonOk (c_systems c),
      ct_service_items = JsonOk (c_service_items c), ct_credit_level = string_ptr (c_credit_level c),
      ct_owner = c_owner_user_id c, ct_owner_name = c_owner_name c, ct_amount = c_amount_minor c,
      ct_currency = c_currency c, ct_content = c_content c, ct_template = string_ptr (c_template_id c),
      ct_template_values = JsonOk (c_template_values c), ct_document = c_document c,
      ct_document_format = [], ct_source_media_type = [], ct_source_filename = [], ct_source_sha256 = [],
      ct_paper_number = [], ct_origin_kind = [], ct_import_mode = [], ct_origin_item = None,
      ct_historical_status = [], ct_historical_customer = [], ct_historical_owner = [],
      ct_responsibility_activated = None, ct_import_policy = JsonEmpty,
      ct_source_file_id = c_source_file_id c, ct_source_file_status = c_source_file_status c,
      ct_source_file_error = [],
      ct_status = (if c_status c = StatusOther [] then StatusDraft else c_status c),
      ct_start_date = c_start_date c, ct_end_date = c_end_date c,
      ct_content_hash = string_ptr (c_content_hash c), ct_version = 1,
      ct_created_at = now, ct_created_by = actor, ct_updated_at = now, ct_updated_by = actor\<rparr>"

text \<open>The plain insert of a life cycle row; a repeated key fails the transaction.\<close>

definition draft_event ::
  "env \<Rightarrow> contract \<Rightarrow> string \<Rightarrow> string \<Rightarrow> string \<Rightarrow> instant \<Rightarrow> db \<Rightarrow> db result" where
  "draft_event e c actor reason key now d =
     (let (i, d1) = new_id e d;
          row = \<lparr>lc_id = i, lc_tenant = c_tenant_id c, lc_contract = c_id c, lc_from = StatusDraft,
                 lc_to = StatusDraft, lc_actor = string_ptr actor, lc_reason = string_ptr reason,
                 lc_approval = None, lc_workflow = None, lc_key = key, lc_occurred_at = now\<rparr>
      in res_bind (insert_row lifecycle_clash row (db_lifecycle d1)) (\<lambda>rows. ok (d1\<lparr>db_lifecycle := rows\<rparr>)))"

definition create_contract :: "env \<Rightarrow> contract \<Rightarrow> string \<Rightarrow> db \<Rightarrow> db result" where
  "create_contract e c actor d =
     (let (now, d1) = read_clock e d in
      res_bind (apply_contract_source c (new_contract_row c actor now)) (\<lambda>r.
      res_bind (insert_row (contract_clash e) r (db_contracts d1)) (\<lambda>rows.
      res_bind (enqueue_responsibility e (c_tenant_id c) (c_id c) (d1\<lparr>db_contracts := rows\<rparr>)) (\<lambda>d2.
      res_bind (replace_payment_terms e c d2) (\<lambda>d3.
      res_bind (draft_event e c actor ''contract created'' (c_id c @ '':created'') now d3)
        (insert_audit e (c_tenant_id c)
           (audit_entry_for e actor ''CREATED'' (c_id c)
              [(''contract_id'', AvStr (c_id c)), (''status'', AvStr (status_string (ct_status r))),
               (''contract_type'', AvStr (c_type c)), (''amount_minor'', AvInt (c_amount_minor c)),
               (''currency'', AvStr (c_currency c))])))))))"

definition get_contract :: "db \<Rightarrow> string \<Rightarrow> string \<Rightarrow> contract result" where
  "get_contract d tenant cid =
     (case find_contract d tenant cid of
        None \<Rightarrow> fail ErrNotFound
      | Some r \<Rightarrow> ok (hd (attach_payment_terms d tenant [contract_from_record r])))"

section \<open>Life cycle of a contract\<close>

record lifecycle_event =
  le_id :: string
  le_contract :: string
  le_from :: status
  le_to :: status
  le_actor :: string
  le_reason :: string
  le_occurred_at :: instant

definition list_contract_lifecycle :: "db \<Rightarrow> string \<Rightarrow> string \<Rightarrow> lifecycle_event list" where
  "list_contract_lifecycle d tenant cid =
     map (\<lambda>r. \<lparr>le_id = lc_id r, le_contract = lc_contract r, le_from = lc_from r, le_to = lc_to r,
                le_actor = value_or_empty (lc_actor r), le_reason = value_or_empty (lc_reason r),
                le_occurred_at = lc_occurred_at r\<rparr>)
       (sort_key lc_occurred_at (sort_key lc_id
          (filter (\<lambda>r. lc_tenant r = tenant \<and> lc_contract r = cid) (db_lifecycle d))))"

section \<open>Drafts\<close>

text \<open>The editable columns; identity, owner, number, origin and creation data stay.\<close>

definition draft_row :: "contract \<Rightarrow> nat \<Rightarrow> string \<Rightarrow> instant \<Rightarrow> contract_row \<Rightarrow> contract_row" where
  "draft_row c expected actor now r =
     r\<lparr>ct_title := c_title c, ct_type := c_type c, ct_service_type := c_service_type c,
       ct_credit_level := string_ptr (c_credit_level c),
       ct_counterparty_source := c_counterparty_source c,
       ct_local_counterparty := string_ptr (c_local_counterparty_id c),
       ct_counterparty_version := uint_ptr (c_counterparty_version c),
       ct_category_source := c_category_source c, ct_integration_policy := c_integration_policy c,
       ct_opportunity_id := string_ptr (c_opportunity_id c),
       ct_opportunity_name := string_ptr (c_opportunity_name c),
       ct_crm_customer := uint_ptr (c_crm_customer_id c),
       ct_customer_name := string_ptr (c_customer_name c),
       ct_customer_address := string_ptr (c_customer_address c),
       ct_customer_contact := string_ptr (c_customer_contact c),
       ct_customer_phone := string_ptr (c_customer_phone c), ct_systems := JsonOk (c_systems c),
       ct_service_items := JsonOk (c_service_items c), ct_amount := c_amount_minor c,
       ct_currency := c_currency c, ct_content := c_content c,
       ct_template_values := JsonOk (c_template_values c), ct_document := c_document c,
       ct_content_hash := Some (c_content_hash c), ct_start_date := c_start_date c,
       ct_end_date := c_end_date c, ct_version := expected + 1, ct_updated_at := now,
       ct_updated_by := actor\<rparr>"

text \<open>An edit that leaves the plan out keeps the stored plan, which then forbids another currency.\<close>

definition draft_terms :: "db \<Rightarrow> contract_row \<Rightarrow> contract \<Rightarrow> contract result" where
  "draft_terms d current c =
     (case c_payment_terms c of
        Some _ \<Rightarrow> ok c
      | None \<Rightarrow>
          let stored = list_payment_terms d (c_tenant_id c) (c_id c) in
          if stored \<noteq> [] \<and> \<not> equal_fold (trim_space (c_currency c)) (trim_space (ct_currency current))
          then fail ErrValidation else ok (c\<lparr>c_payment_terms := Some stored\<rparr>))"

definition editable_draft :: "contract \<Rightarrow> nat \<Rightarrow> contract_row \<Rightarrow> bool" where
  "editable_draft c expected x \<longleftrightarrow>
     contract_at (c_tenant_id c) (c_id c) x \<and> ct_version x = expected \<and> ct_status x = StatusDraft"

definition update_contract_draft :: "env \<Rightarrow> contract \<Rightarrow> nat \<Rightarrow> string \<Rightarrow> db \<Rightarrow> db result" where
  "update_contract_draft e c0 expected actor d =
     (case find_contract d (c_tenant_id c0) (c_id c0) of
        None \<Rightarrow> fail ErrNotFound
      | Some r \<Rightarrow>
          if ct_version r \<noteq> expected then fail ErrVersionConflict
          else if ct_status r \<noteq> StatusDraft then fail ErrStateConflict
          else res_bind (draft_terms d r c0) (\<lambda>c.
            res_bind (validation_error
                (normalize_payment_terms (terms_list (c_payment_terms c)) (c_amount_minor c) (c_currency c))) (\<lambda>_.
              let (now, d1) = read_clock e d in
              if rows_affected (editable_draft c expected) (db_contracts d1) \<noteq> 1
              then fail ErrVersionConflict
              else res_bind (replace_payment_terms e c
                  (d1\<lparr>db_contracts := update_rows (editable_draft c expected) (draft_row c expected actor now)
                                         (db_contracts d1)\<rparr>)) (\<lambda>d2.
                res_bind (draft_event e c actor ''contract draft edited''
                    (c_id c @ '':draft:v'' @ nat_str (expected + 1)) now d2)
                  (insert_audit e (c_tenant_id c)
                     (audit_entry_for e actor ''UPDATED'' (c_id c)
                        [(''contract_id'', AvStr (c_id c)), (''from_version'', AvInt (int expected)),
                         (''to_version'', AvInt (int (expected + 1))),
                         (''status'', AvStr (status_string StatusDraft)),
                         (''amount_minor'', AvInt (c_amount_minor c)), (''currency'', AvStr (c_currency c))]))))))"

definition record_document_access :: "env \<Rightarrow> string \<Rightarrow> string \<Rightarrow> string \<Rightarrow> string \<Rightarrow> db \<Rightarrow> db result" where
  "record_document_access e tenant cid kind actor d =
     insert_audit e tenant
       (audit_entry_for e (if actor = [] then ''UNKNOWN'' else actor) ''DOCUMENT_DOWNLOADED'' cid
          [(''contract_id'', AvStr cid), (''document_kind'', AvStr kind)]) d"

text \<open>The outcome of handing the source file to the platform; the message is cut at 512 bytes.\<close>

definition mark_contract_source_result :: "string \<Rightarrow> string \<Rightarrow> string \<Rightarrow> string \<Rightarrow> string \<Rightarrow> db \<Rightarrow> db" where
  "mark_contract_source_result tenant cid file state detail d =
     d\<lparr>db_contracts := update_rows (contract_at tenant cid)
         (\<lambda>r. r\<lparr>ct_source_file_id := trim_space file, ct_source_file_status := trim_space state,
                 ct_source_file_error := trim_space (take 512 detail)\<rparr>) (db_contracts d)\<rparr>"

section \<open>Archiving\<close>

definition archive_statuses :: "status list" where
  "archive_statuses = [StatusActive, StatusInProgress, StatusPendingPay, StatusCompleted, StatusTerminated]"

definition archive_limit :: nat where "archive_limit = 1000"

definition ends_before :: "instant \<Rightarrow> contract_row \<Rightarrow> bool" where
  "ends_before date r = (case ct_end_date r of None \<Rightarrow> False | Some t \<Rightarrow> t < date)"

definition archive_candidates :: "instant \<Rightarrow> db \<Rightarrow> contract_row list" where
  "archive_candidates date d =
     take archive_limit (sort_key (\<lambda>r. case ct_end_date r of None \<Rightarrow> 0 | Some t \<Rightarrow> t) (sort_key ct_id
       (filter (\<lambda>r. ordinary_contract_record r \<and> ends_before date r \<and> ct_status r \<in> set archive_statuses)
          (db_contracts d))))"

definition archive_title :: string where
  "archive_title = map char_of [0xE5, 0x90, 0x88, 0xE5, 0x90, 0x8C, 0xE5, 0xB7, 0xB2, 0xE8, 0x87, 0xAA,
     0xE5, 0x8A, 0xA8, 0xE5, 0xBD, 0x92, 0xE6, 0xA1, 0xA3 :: nat]"

definition archive_content :: string where
  "archive_content = map char_of [0xE5, 0x90, 0x88, 0xE5, 0x90, 0x8C, 0xE7, 0xBB, 0x93, 0xE6, 0x9D, 0x9F,
     0xE6, 0x97, 0xA5, 0xE6, 0x9C, 0x9F, 0xE5, 0xB7, 0xB2, 0xE8, 0xBF, 0x87, 0xEF, 0xBC, 0x8C, 0xE7, 0xB3,
     0xBB, 0xE7, 0xBB, 0x9F, 0xE5, 0xB7, 0xB2, 0xE8, 0x87, 0xAA, 0xE5, 0x8A, 0xA8, 0xE5, 0xBD, 0x92, 0xE6,
     0xA1, 0xA3 :: nat]"

definition archive_notice :: "string \<Rightarrow> string \<Rightarrow> bool \<Rightarrow> string \<Rightarrow> notification" where
  "archive_notice cid key role u =
     \<lparr>nt_recipient_key = (if role then ''role:'' else ''user:'') @ u,
      nt_recipient_user = (if role then None else string_ptr u),
      nt_recipient_role = (if role then string_ptr u else None), nt_type = ''status_change'',
      nt_title = archive_title, nt_content = archive_content, nt_contract = string_ptr cid,
      nt_approval = None, nt_dedupe_key = key\<rparr>"

definition archive_notices :: "string \<Rightarrow> string \<Rightarrow> string list \<Rightarrow> notification list" where
  "archive_notices cid key users =
     map (archive_notice cid key False) (unique_strings users)
     @ map (archive_notice cid key True) [''sales_director'', ''admin'']"

text \<open>The checks of the locked row: a row that is no longer a candidate is passed over.\<close>

definition archivable :: "db \<Rightarrow> instant \<Rightarrow> contract_row \<Rightarrow> contract_row \<Rightarrow> bool" where
  "archivable d date candidate r \<longleftrightarrow>
     ordinary_contract_record r \<and> ct_status r = ct_status candidate \<and> ends_before date r
     \<and> can_transition (ct_status r) StatusArchived
     \<and> count_running_approvals d (ct_tenant r) (ct_id r) [KindStatusChange] = 0"

definition archive_key :: "string \<Rightarrow> civil \<Rightarrow> string" where
  "archive_key cid day = cid @ '':auto-archive:'' @ format_date day"

definition archive_one :: "env \<Rightarrow> string list \<Rightarrow> civil \<Rightarrow> contract_row \<Rightarrow> db \<Rightarrow> (bool \<times> db) result" where
  "archive_one e additional day candidate d =
     (case find_contract d (ct_tenant candidate) (ct_id candidate) of
        None \<Rightarrow> ok (False, d)
      | Some r \<Rightarrow>
          if \<not> archivable d (go_date day utc) candidate r then ok (False, d)
          else res_bind (update_status e (ct_tenant r) (ct_id r) (ct_status r) StatusArchived ''SYSTEM'' d) (\<lambda>d1.
            res_bind (insert_lifecycle e (ct_tenant r) (ct_id r) [] ''contract-auto-archive-daily''
                (ct_status r) StatusArchived ''SYSTEM'' ''contract end date passed; automatically archived''
                (archive_key (ct_id r) day) d1) (\<lambda>d2.
              let (now, d3) = read_clock e d2
              in ok (True, fold (\<lambda>n d. insert_notification e (ct_tenant r) n now d)
                   (archive_notices (ct_id r) (archive_key (ct_id r) day) (ct_owner r # additional)) d3))))"

fun archive_each ::
  "env \<Rightarrow> string list \<Rightarrow> civil \<Rightarrow> contract_row list \<Rightarrow> nat \<Rightarrow> db \<Rightarrow> nat \<times> app_error option \<times> db" where
  "archive_each e additional day [] n d = (n, None, d)"
| "archive_each e additional day (c # cs) n d =
     (case archive_one e additional day c d of
        Inl err \<Rightarrow> (n, Some err, d)
      | Inr (archived, d') \<Rightarrow> archive_each e additional day cs (if archived then n + 1 else n) d')"

definition archive_expired :: "env \<Rightarrow> string \<Rightarrow> string list \<Rightarrow> db \<Rightarrow> nat \<times> app_error option \<times> db" where
  "archive_expired e as_of additional d =
     (case parse_date as_of of
        None \<Rightarrow> (0, Some (ErrStorage ''parse date''), d)
      | Some day \<Rightarrow> archive_each e additional day (archive_candidates (go_date day utc) d) 0 d)"

section \<open>What a created contract reads back as\<close>

lemma new_row_policy: "ct_import_policy (new_contract_row c actor now) = JsonEmpty"
  by (simp add: new_contract_row_def)

lemma sort_key_constant: "(\<And>x. x \<in> set xs \<Longrightarrow> f x = k) \<Longrightarrow> sort_key f xs = xs"
  by (rule sort_key_id_if_sorted) (simp add: map_replicate_const cong: map_cong)

lemma attach_one:
  assumes "c_id c = cid"
  shows "attach_payment_terms d tenant [c] = [c\<lparr>c_payment_terms := Some (list_payment_terms d tenant cid)\<rparr>]"
proof -
  have own: "(\<lambda>t. ptr_tenant_id t = tenant \<and> ptr_contract_id t = cid) = term_of tenant cid"
    by (simp add: term_of_def fun_eq_iff)
  have "sort_key ptr_contract_id (contract_terms d tenant cid) = contract_terms d tenant cid"
    by (rule sort_key_constant) (auto simp: contract_terms_def term_of_def)
  moreover have "filter (\<lambda>t. ptr_contract_id t = cid) (contract_terms d tenant cid) = contract_terms d tenant cid"
    by (auto simp: filter_id_conv contract_terms_def term_of_def)
  ultimately show ?thesis
    by (simp add: attach_payment_terms_def Let_def assms list_payment_terms_def own contract_terms_def)
qed

lemma draft_event_ok:
  assumes "draft_event e c actor reason key now d = Inr d'"
  shows "store_frame d d'" "db_contracts d' = db_contracts d" "db_streams d' = db_streams d"
    "\<exists>row. lc_tenant row = c_tenant_id c \<and> lc_contract row = c_id c \<and> lc_key row = key
       \<and> db_lifecycle d' = db_lifecycle d @ [row]"
  using assms by (auto simp: draft_event_def new_id_def res_bind_eq_ok insert_row_ok store_frame_def)

lemma terms_of_frame: "db_terms d' = db_terms d \<Longrightarrow> list_payment_terms d' = list_payment_terms d"
  by (simp add: list_payment_terms_def contract_terms_def fun_eq_iff)

text \<open>What creation does, step by step.\<close>

lemma create_contract_ok:
  assumes "create_contract e c actor d = Inr d'"
  obtains r terms where
    "apply_contract_source c (new_contract_row c actor (env_clock e (db_tick d))) = Inr r"
    "find_contract d (c_tenant_id c) (c_id c) = None" "db_contracts d' = db_contracts d @ [r]"
    "normalize_payment_terms (terms_list (c_payment_terms c)) (c_amount_minor c) (c_currency c) = Inr terms"
    "list_payment_terms d' (c_tenant_id c) (c_id c) = terms"
    "find_contract d' (c_tenant_id c) (c_id c) = Some r"
proof -
  define d1 where "d1 = d\<lparr>db_tick := db_tick d + 1\<rparr>"
  from assms obtain r rows d2 d3 d4 entry where
    src: "apply_contract_source c (new_contract_row c actor (env_clock e (db_tick d))) = Inr r"
    and rows: "insert_row (contract_clash e) r (db_contracts d1) = Inr rows"
    and enq: "enqueue_responsibility e (c_tenant_id c) (c_id c) (d1\<lparr>db_contracts := rows\<rparr>) = Inr d2"
    and terms: "replace_payment_terms e c d2 = Inr d3"
    and ev: "draft_event e c actor ''contract created'' (c_id c @ '':created'') (env_clock e (db_tick d)) d3 = Inr d4"
    and au: "insert_audit e (c_tenant_id c) entry d4 = Inr d'"
    by (auto simp: create_contract_def read_clock_def res_bind_eq_ok d1_def)
  have key: "ct_tenant r = c_tenant_id c" "ct_id r = c_id c"
    using src by (auto simp: apply_contract_source_def new_contract_row_def Let_def split: option.splits)
  have new: "rows = db_contracts d @ [r]" "\<forall>x \<in> set (db_contracts d). \<not> contract_clash e r x"
    using rows by (auto simp: insert_row_ok d1_def)
  then have none: "find_contract d (c_tenant_id c) (c_id c) = None"
    by (auto simp: find_contract_def first_row_None contract_at_def contract_clash_def key)
  have find: "find_contract (d1\<lparr>db_contracts := rows\<rparr>) (c_tenant_id c) (c_id c) = Some r"
    using none by (simp add: find_contract_def new(1) first_row_append contract_at_def key)
  obtain plan where plan:
    "normalize_payment_terms (terms_list (c_payment_terms c)) (c_amount_minor c) (c_currency c) = Inr plan"
    "terms_frame d2 d3" "list_payment_terms d3 (c_tenant_id c) (c_id c) = plan"
    by (rule replace_payment_terms_ok [OF terms]) blast
  have contracts: "db_contracts d' = rows"
    using project_frameD(1) [OF insert_audit_frame [OF au]] draft_event_ok(2) [OF ev]
      terms_frameD(1) [OF plan(2)] responsibility_frameD(1) [OF enqueue_responsibility_ok(1) [OF enq find]] by simp
  have kept: "db_terms d' = db_terms d3"
    using store_frameD(1) [OF insert_audit_store_frame [OF au]] store_frameD(1) [OF draft_event_ok(1) [OF ev]] by simp
  have "list_payment_terms d' (c_tenant_id c) (c_id c) = plan" using plan(3) terms_of_frame [OF kept] by simp
  moreover have "find_contract d' (c_tenant_id c) (c_id c) = Some r"
    using find contracts by (simp add: find_contract_def)
  ultimately show ?thesis using that [OF src none _ plan(1)] contracts new(1) by simp
qed


lemma imported_source_simps:
  "c_tenant_id imported_source = ''t1''" "c_id imported_source = ''c1''" "c_payment_terms imported_source = None"
  "c_service_items imported_source = [sample_item]" "c_paper_number imported_source = ''P-7''"
  by (simp_all add: imported_source_def contract_from_record_def read_contract_source_def sample_contract_def
      record_service_items_def json_or_def)

lemma sample_created: "\<exists>d'. create_contract sample_db_env imported_source ''u1'' (sample_db []) = Inr d'"
proof -
  have "is_ok (apply_contract_source imported_source (new_contract_row imported_source ''u1'' 0))" by code_simp
  then obtain r where r: "apply_contract_source imported_source (new_contract_row imported_source ''u1'' 0) = Inr r"
    by (auto simp: is_ok_def split: sum.splits)
  then have row: "ct_tenant r = ''t1''" "ct_id r = ''c1''" "ct_owner r = ''u1''" "ct_counterparty_source r = ''CRM''"
      "ct_category_source r = []"
    by (auto simp: apply_contract_source_def new_contract_row_def imported_source_def contract_from_record_def
        read_contract_source_def sample_contract_def Let_def split: option.splits)
  show ?thesis
    unfolding create_contract_def
    by (simp add: read_clock_def r sample_db_def sample_env_simps insert_row_def imported_source_simps
        enqueue_responsibility_def find_contract_def contract_at_def row stream_of_def insert_ignore_def
        stream_seed_def stream_at_def advance_stream_def local_outbound_not_applicable_def emit_responsibility_def
        new_id_def replace_payment_terms_def validation_error_def normalize_payment_terms_def draft_event_def
        insert_audit_def Let_def cong: let_weak_cong res_bind_weak)
qed


section \<open>What the edit of a draft changes\<close>

lemma update_contract_draft_ok:
  assumes "update_contract_draft e c0 expected actor d = Inr d'"
  obtains r c now terms where "find_contract d (c_tenant_id c0) (c_id c0) = Some r" "ct_version r = expected"
    "ct_status r = StatusDraft" "draft_terms d r c0 = Inr c"
    "normalize_payment_terms (terms_list (c_payment_terms c)) (c_amount_minor c) (c_currency c) = Inr terms"
    "db_contracts d' = update_rows (editable_draft c expected) (draft_row c expected actor now) (db_contracts d)"
    "list_payment_terms d' (c_tenant_id c) (c_id c) = terms"
    "\<And>t i. (t, i) \<noteq> (c_tenant_id c, c_id c) \<Longrightarrow> list_payment_terms d' t i = list_payment_terms d t i"
    "db_instances d' = db_instances d" "db_streams d' = db_streams d"
proof -
  define d1 where "d1 = d\<lparr>db_tick := db_tick d + 1\<rparr>"
  from assms obtain r c terms d2 d3 entry where r: "find_contract d (c_tenant_id c0) (c_id c0) = Some r"
      "ct_version r = expected" "ct_status r = StatusDraft" "draft_terms d r c0 = Inr c"
    and terms: "normalize_payment_terms (terms_list (c_payment_terms c)) (c_amount_minor c) (c_currency c) = Inr terms"
    and rep: "replace_payment_terms e c (d1\<lparr>db_contracts := update_rows (editable_draft c expected)
        (draft_row c expected actor (env_clock e (db_tick d))) (db_contracts d1)\<rparr>) = Inr d2"
    and ev: "draft_event e c actor ''contract draft edited'' (c_id c @ '':draft:v'' @ nat_str (expected + 1))
        (env_clock e (db_tick d)) d2 = Inr d3"
    and au: "insert_audit e (c_tenant_id c) entry d3 = Inr d'"
    by (auto simp: update_contract_draft_def read_clock_def res_bind_eq_ok d1_def validation_error_def Let_def
        split: option.splits if_split_asm sum.splits)
  obtain plan where plan: "normalize_payment_terms (terms_list (c_payment_terms c)) (c_amount_minor c) (c_currency c) = Inr plan"
      "terms_frame (d1\<lparr>db_contracts := update_rows (editable_draft c expected)
        (draft_row c expected actor (env_clock e (db_tick d))) (db_contracts d1)\<rparr>) d2"
      "list_payment_terms d2 (c_tenant_id c) (c_id c) = plan"
      "\<And>t i. (t, i) \<noteq> (c_tenant_id c, c_id c) \<Longrightarrow> contract_terms d2 t i = contract_terms d t i"
    by (rule replace_payment_terms_ok [OF rep]) (simp add: d1_def contract_terms_def)
  have kept: "db_terms d' = db_terms d2"
    using store_frameD(1) [OF insert_audit_store_frame [OF au]] store_frameD(1) [OF draft_event_ok(1) [OF ev]] by simp
  have same: "db_contracts d' = db_contracts d2" "db_instances d' = db_instances d2" "db_streams d' = db_streams d2"
    using project_frameD(1,7) [OF insert_audit_frame [OF au]] draft_event_ok(2,3) [OF ev]
      store_frameD(3) [OF insert_audit_store_frame [OF au]] store_frameD(3) [OF draft_event_ok(1) [OF ev]] by simp_all
  show ?thesis
  proof (rule that [OF r terms])
    show "list_payment_terms d' (c_tenant_id c) (c_id c) = terms"
      using plan(1,3) terms terms_of_frame [OF kept] by simp
    show "list_payment_terms d' t i = list_payment_terms d t i" if "(t, i) \<noteq> (c_tenant_id c, c_id c)" for t i
      using plan(4) [OF that] terms_of_frame [OF kept] by (simp add: list_payment_terms_def)
  qed (use same terms_frameD(1,2,5) [OF plan(2)] in \<open>simp_all add: d1_def\<close>)
qed

lemma draft_terms_id: "draft_terms d r c0 = Inr c \<Longrightarrow> c = c0\<lparr>c_payment_terms := c_payment_terms c\<rparr>"
  by (auto simp: draft_terms_def Let_def split: option.splits if_split_asm)

text \<open>a draft edit is safe: it needs the expected version of a draft, writes the given values with the
  next version, cannot touch the identity, the owner, the number, the origin or the creation stamp, and changes
  neither another contract's row nor its payment plan.\<close>

theorem draft_edit_effect:
  assumes "update_contract_draft e c expected actor d = Inr d'"
  shows "\<exists>r r'. find_contract d (c_tenant_id c) (c_id c) = Some r \<and> ct_version r = expected \<and> ct_status r = StatusDraft
    \<and> find_contract d' (c_tenant_id c) (c_id c) = Some r' \<and> ct_version r' = expected + 1 \<and> ct_status r' = StatusDraft
    \<and> ct_title r' = c_title c \<and> ct_amount r' = c_amount_minor c \<and> ct_content r' = c_content c
    \<and> ct_number r' = ct_number r \<and> ct_owner r' = ct_owner r \<and> ct_owner_identity r' = ct_owner_identity r
    \<and> ct_origin_kind r' = ct_origin_kind r \<and> ct_import_mode r' = ct_import_mode r
    \<and> ct_created_at r' = ct_created_at r \<and> ct_created_by r' = ct_created_by r
    \<and> (\<forall>t i. (t, i) = (c_tenant_id c, c_id c)
         \<or> find_contract d' t i = find_contract d t i \<and> list_payment_terms d' t i = list_payment_terms d t i)"
proof -
  obtain r c1 now where r: "find_contract d (c_tenant_id c) (c_id c) = Some r" "ct_version r = expected"
      "ct_status r = StatusDraft" and c1: "draft_terms d r c = Inr c1"
    and rows: "db_contracts d' = update_rows (editable_draft c1 expected) (draft_row c1 expected actor now) (db_contracts d)"
    and other: "\<And>t i. (t, i) \<noteq> (c_tenant_id c1, c_id c1) \<Longrightarrow> list_payment_terms d' t i = list_payment_terms d t i"
    by (rule update_contract_draft_ok [OF assms]) blast
  note id = draft_terms_id [OF c1]
  have fields: "c_tenant_id c1 = c_tenant_id c" "c_id c1 = c_id c" "c_title c1 = c_title c"
    "c_amount_minor c1 = c_amount_minor c" "c_content c1 = c_content c" by (subst id, simp)+
  have find: "find_contract d' t i = map_option (\<lambda>x. if editable_draft c1 expected x
      then draft_row c1 expected actor now x else x) (find_contract d t i)" for t i
    unfolding find_contract_def rows
    by (rule first_row_update_rows) (simp add: contract_at_def draft_row_def)
  have own: "find_contract d' (c_tenant_id c) (c_id c) = Some (draft_row c1 expected actor now r)"
    using r find_contract_SomeD [OF r(1)] by (simp add: find editable_draft_def contract_at_def fields)
  have rest: "find_contract d' t i = find_contract d t i" if "(t, i) \<noteq> (c_tenant_id c, c_id c)" for t i
    using that find_contract_SomeD [of d t i]
    by (cases "find_contract d t i") (auto simp: find editable_draft_def contract_at_def fields)
  show ?thesis using r own rest other
    by (intro exI [of _ r] exI [of _ "draft_row c1 expected actor now r"]) (auto simp: draft_row_def fields)
qed

theorem draft_edit_effect_witness:
  "\<exists>d' r'. update_contract_draft sample_db_env (imported_source\<lparr>c_title := ''new''\<rparr>) 1 ''u1''
       (sample_db [sample_contract]) = Inr d'
     \<and> find_contract d' ''t1'' ''c1'' = Some r' \<and> ct_title r' = ''new'' \<and> ct_version r' = 2"
proof -
  have "\<exists>d'. update_contract_draft sample_db_env (imported_source\<lparr>c_title := ''new''\<rparr>) 1 ''u1''
      (sample_db [sample_contract]) = Inr d'"
    by (simp add: update_contract_draft_def imported_source_simps find_contract_def contract_at_def sample_db_def
        sample_row_simps draft_terms_def list_payment_terms_def contract_terms_def normalize_payment_terms_def
        validation_error_def read_clock_def rows_affected_def editable_draft_def replace_payment_terms_def
        draft_event_def new_id_def insert_row_def insert_audit_def Let_def cong: let_weak_cong res_bind_weak)
  then obtain d' where run: "update_contract_draft sample_db_env (imported_source\<lparr>c_title := ''new''\<rparr>) 1 ''u1''
      (sample_db [sample_contract]) = Inr d'" by blast
  from draft_edit_effect [OF run] run show ?thesis by (auto simp: imported_source_simps)
qed

section \<open>Direct status changes\<close>

lemma direct_targets:
  "direct_target_allowed target \<Longrightarrow> can_transition from target \<Longrightarrow>
     (from = StatusPending \<and> target = StatusDraft)
     \<or> (from \<in> {StatusInProgress, StatusPendingPay} \<and> target = StatusCompleted)"
  by (cases "from") (auto simp: direct_target_allowed_def can_transition_def)

lemma transition_direct_ok:
  assumes "transition_direct e tenant cid expected target actor reason key d = Inr d'"
  obtains r d1 where "find_contract d tenant cid = Some r" "ct_version r = expected"
    "ordinary_contract_record r" "count_running_approvals d tenant cid [KindContract, KindStatusChange] = 0"
    "direct_target_allowed target" "update_status e tenant cid (ct_status r) target actor d = Inr d1"
    "insert_lifecycle e tenant cid [] [] (ct_status r) target actor reason key d1 = Inr d'"
  using assms
  by (auto simp: transition_direct_def res_bind_eq_ok split: option.splits if_split_asm)

text \<open>C37: a direct status change never bypasses an approval: it succeeds only on an ordinary contract of
  the expected version with no approval under way, only to take back a submission or to complete a contract in
  execution, and it changes that contract's row alone.\<close>

theorem direct_transition_effect:
  assumes "transition_direct e tenant cid expected target actor reason key d = Inr d'"
  shows "\<exists>r now. find_contract d tenant cid = Some r \<and> ct_version r = expected \<and> ordinary_contract_record r
    \<and> count_running_approvals d tenant cid [KindContract, KindStatusChange] = 0
    \<and> ((ct_status r = StatusPending \<and> target = StatusDraft)
       \<or> (ct_status r \<in> {StatusInProgress, StatusPendingPay} \<and> target = StatusCompleted))
    \<and> find_contract d' tenant cid = Some (status_row target actor now r)
    \<and> db_instances d' = db_instances d
    \<and> (\<forall>t c. (t, c) = (tenant, cid) \<or> find_contract d' t c = find_contract d t c)"
proof -
  obtain r d1 where r: "find_contract d tenant cid = Some r" "ct_version r = expected"
    "ordinary_contract_record r" "count_running_approvals d tenant cid [KindContract, KindStatusChange] = 0"
    and target: "direct_target_allowed target"
    and up: "update_status e tenant cid (ct_status r) target actor d = Inr d1"
    and lc: "insert_lifecycle e tenant cid [] [] (ct_status r) target actor reason key d1 = Inr d'"
    by (rule transition_direct_ok [OF assms]) blast
  note same = find_contract_cong [OF insert_lifecycle_ok(2) [OF lc]]
  obtain now where "find_contract d1 tenant cid = Some (status_row target actor now r)"
    using update_status_find [OF up r(1) refl] by blast
  moreover have "db_instances d' = db_instances d"
    using store_frameD(3) [OF insert_lifecycle_ok(1) [OF lc]] store_frameD(3) [OF update_status_ok(2) [OF up]] by simp
  moreover have "(t, c) = (tenant, cid) \<or> find_contract d' t c = find_contract d t c" for t c
    using update_status_other [OF up] same by metis
  ultimately show ?thesis
    using r direct_targets [OF target update_status_ok(1) [OF up]] same by auto
qed

section \<open>Archiving is exact\<close>

definition notice_frame :: "db \<Rightarrow> db \<Rightarrow> bool" where
  "notice_frame d d' \<longleftrightarrow> d' = d\<lparr>db_tick := db_tick d', db_seq := db_seq d', db_notifications := db_notifications d'\<rparr>"

lemma notice_frameD:
  assumes "notice_frame d d'"
  shows "db_contracts d' = db_contracts d" "db_instances d' = db_instances d" "db_streams d' = db_streams d"
    "db_lifecycle d' = db_lifecycle d" "db_stamped d' = db_stamped d" "db_signing d' = db_signing d"
    "db_confirmations d' = db_confirmations d" "db_terms d' = db_terms d" "db_audit d' = db_audit d"
  using assms unfolding notice_frame_def by - (erule ssubst, simp)+

lemma notices_frame:
  "notice_frame d (fold (\<lambda>n d. insert_notification e tenant n now d) ns d)"
proof (induction ns arbitrary: d)
  case (Cons n ns)
  have "fold (\<lambda>n d. insert_notification e tenant n now d) ns (insert_notification e tenant n now d) = d'
      \<Longrightarrow> notice_frame (insert_notification e tenant n now d) d' \<Longrightarrow> notice_frame d d'" for d'
    unfolding notice_frame_def by (erule ssubst) (simp add: insert_notification_def new_id_def Let_def)
  with Cons show ?case by simp
qed (simp add: notice_frame_def)

lemma archive_one_ok:
  assumes "archive_one e additional day c d = Inr (b, d')"
    and c: "find_contract d (ct_tenant c) (ct_id c) = Some r"
  shows "b = archivable d (go_date day utc) c r" and "db_instances d' = db_instances d"
    and "\<exists>now. find_contract d' (ct_tenant c) (ct_id c)
      = Some (if archivable d (go_date day utc) c r then status_row StatusArchived ''SYSTEM'' now r else r)"
    and "\<And>t i. (t, i) \<noteq> (ct_tenant c, ct_id c) \<Longrightarrow> find_contract d' t i = find_contract d t i"
proof -
  have key: "ct_tenant r = ct_tenant c" "ct_id r = ct_id c" using find_contract_SomeD [OF c] by auto
  let ?goal = "b = archivable d (go_date day utc) c r \<and> db_instances d' = db_instances d
    \<and> (\<exists>now. find_contract d' (ct_tenant c) (ct_id c)
        = Some (if archivable d (go_date day utc) c r then status_row StatusArchived ''SYSTEM'' now r else r))
    \<and> (\<forall>t i. (t, i) \<noteq> (ct_tenant c, ct_id c) \<longrightarrow> find_contract d' t i = find_contract d t i)"
  have ?goal
  proof (cases "archivable d (go_date day utc) c r")
    case False
    with assms show ?thesis by (simp add: archive_one_def)
  next
    case True
    let ?ns = "archive_notices (ct_id c) (archive_key (ct_id c) day) (ct_owner r # additional)"
    from True assms key obtain d1 d2 where
      up: "update_status e (ct_tenant c) (ct_id c) (ct_status r) StatusArchived ''SYSTEM'' d = Inr d1"
      and lc: "insert_lifecycle e (ct_tenant c) (ct_id c) [] ''contract-auto-archive-daily'' (ct_status r)
          StatusArchived ''SYSTEM'' ''contract end date passed; automatically archived''
          (archive_key (ct_id c) day) d1 = Inr d2"
      and d': "b" "d' = fold (\<lambda>n d. insert_notification e (ct_tenant c) n (env_clock e (db_tick d2)) d) ?ns
          (d2\<lparr>db_tick := db_tick d2 + 1\<rparr>)"
      by (auto simp: archive_one_def res_bind_eq_ok read_clock_def)
    note lc_same = insert_lifecycle_ok(2) [OF lc] store_frameD(3) [OF insert_lifecycle_ok(1) [OF lc]]
    have "notice_frame (d2\<lparr>db_tick := db_tick d2 + 1\<rparr>) d'" unfolding d'(2) by (rule notices_frame)
    with lc_same have same: "db_contracts d' = db_contracts d1" "db_instances d' = db_instances d1"
      by (auto dest: notice_frameD)
    note find = find_contract_cong [OF same(1)]
    show ?thesis
      using True d'(1) same(2) store_frameD(3) [OF update_status_ok(2) [OF up]]
        update_status_find [OF up c refl] update_status_other [OF up]
      by (auto simp: find)
  qed
  then show "b = archivable d (go_date day utc) c r" and "db_instances d' = db_instances d"
    and "\<exists>now. find_contract d' (ct_tenant c) (ct_id c)
      = Some (if archivable d (go_date day utc) c r then status_row StatusArchived ''SYSTEM'' now r else r)"
    and "\<And>t i. (t, i) \<noteq> (ct_tenant c, ct_id c) \<Longrightarrow> find_contract d' t i = find_contract d t i"
    by blast+
qed

lemma running_cong:
  "db_instances d' = db_instances d \<Longrightarrow> count_running_approvals d' = count_running_approvals d"
  by (simp add: count_running_approvals_def fun_eq_iff)

text \<open>The rows the loop archives, judged in the state before it.\<close>

definition archived_now :: "db \<Rightarrow> contract_row \<Rightarrow> bool" where
  "archived_now d c \<longleftrightarrow> count_running_approvals d (ct_tenant c) (ct_id c) [KindStatusChange] = 0"

lemma archive_each_ok:
  assumes "archive_each e additional day cs n d = (m, None, d')"
    and "\<And>c. c \<in> set cs \<Longrightarrow> find_contract d (ct_tenant c) (ct_id c) = Some c
        \<and> ordinary_contract_record c \<and> ends_before (go_date day utc) c \<and> can_transition (ct_status c) StatusArchived"
    and "distinct (map (\<lambda>c. (ct_tenant c, ct_id c)) cs)"
  shows "m = n + length (filter (archived_now d) cs)
    \<and> (\<forall>t i. (t, i) \<notin> (\<lambda>c. (ct_tenant c, ct_id c)) ` set cs \<longrightarrow> find_contract d' t i = find_contract d t i)
    \<and> (\<forall>c \<in> set cs. \<exists>now. find_contract d' (ct_tenant c) (ct_id c)
         = Some (if archived_now d c then status_row StatusArchived ''SYSTEM'' now c else c))"
  using assms
proof (induction cs arbitrary: n d)
  case (Cons c cs)
  note here = Cons.prems(2) [of c, simplified]
  from Cons.prems(1) obtain b d1 where one: "archive_one e additional day c d = Inr (b, d1)"
    and rest: "archive_each e additional day cs (if b then n + 1 else n) d1 = (m, None, d')"
    by (auto split: sum.splits prod.splits)
  note step = archive_one_ok [OF one conjunct1 [OF here]]
  have b: "archivable d (go_date day utc) c c = archived_now d c"
    using here by (simp add: archivable_def archived_now_def)
  have now: "archived_now d1 x = archived_now d x" for x
    by (simp add: archived_now_def running_cong [OF step(2)])
  have apart: "(ct_tenant x, ct_id x) \<noteq> (ct_tenant c, ct_id c)" if "x \<in> set cs" for x
    using Cons.prems(3) that by (auto simp: image_iff)
  have "find_contract d1 (ct_tenant x) (ct_id x) = Some x \<and> ordinary_contract_record x
      \<and> ends_before (go_date day utc) x \<and> can_transition (ct_status x) StatusArchived" if "x \<in> set cs" for x
    using Cons.prems(2) [of x] step(4) [OF apart [OF that]] that by simp
  note ih = Cons.IH [OF rest this, simplified now]
  have "(ct_tenant c, ct_id c) \<notin> (\<lambda>c. (ct_tenant c, ct_id c)) ` set cs" using apart by force
  then show ?case
    using ih Cons.prems(3) step(1,3,4) b by auto
qed simp


definition expired_contract :: contract_row where
  "expired_contract = sample_contract\<lparr>ct_status := StatusActive, ct_end_date := Some 0\<rparr>"

definition expired_db :: db where
  "expired_db = (sample_db [expired_contract])\<lparr>db_streams := [\<lparr>rs_tenant = ''t1'', rs_contract = ''c1'',
     rs_owner = ''u1'', rs_active = True, rs_version = 1, rs_updated_at = 0\<rparr>]\<rparr>"

lemma expired_simps:
  "ct_tenant expired_contract = ''t1''" "ct_id expired_contract = ''c1''" "ct_status expired_contract = StatusActive"
  "ct_owner expired_contract = ''u1''" "ordinary_contract_record expired_contract"
  "ct_end_date expired_contract = Some 0" "ct_counterparty_source expired_contract = ''CRM''"
  "ct_category_source expired_contract = []" "ct_origin_kind expired_contract = ''NORMAL''"
  "ct_import_mode expired_contract = []" "ct_import_policy expired_contract = JsonEmpty"
  by (simp_all add: expired_contract_def sample_contract_def ordinary_contract_record_def json_empty_def)

lemma expired_day: "parse_date ''2024-02-03'' = Some (Civil 2024 2 3)" "0 < go_date (Civil 2024 2 3) utc"
  by code_simp+

lemma expired_candidates: "archive_candidates (go_date (Civil 2024 2 3) utc) expired_db = [expired_contract]"
  using expired_day(2)
  by (simp add: archive_candidates_def expired_db_def sample_db_def expired_simps ends_before_def archive_statuses_def
      archive_limit_def)

lemma expired_run: "\<exists>d'. archive_expired sample_db_env ''2024-02-03'' [] expired_db = (1, None, d')"
proof -
  have "\<exists>d'. archive_one sample_db_env [] (Civil 2024 2 3) expired_contract expired_db = Inr (True, d')"
    using expired_day(2)
    by (simp add: archive_one_def start_eval archivable_def expired_db_def expired_simps ends_before_def
        sample_env_simps audit_row_simps cong: let_weak_cong res_bind_weak)
  then show ?thesis by (auto simp: archive_expired_def expired_day expired_candidates)
qed


theorem direct_transition_effect_witness:
  "\<exists>d'. transition_direct sample_db_env ''t1'' ''c1'' 1 StatusDraft ''u1'' ''r'' ''k''
       (sample_db [sample_contract\<lparr>ct_status := StatusPending\<rparr>]) = Inr d'
     \<and> map_option ct_status (find_contract d' ''t1'' ''c1'') = Some StatusDraft"
proof -
  have "\<exists>d'. transition_direct sample_db_env ''t1'' ''c1'' 1 StatusDraft ''u1'' ''r'' ''k''
      (sample_db [sample_contract\<lparr>ct_status := StatusPending\<rparr>]) = Inr d'"
    by (simp add: transition_direct_def start_eval sample_row_simps direct_target_allowed_def sample_env_simps
        audit_row_simps cong: let_weak_cong res_bind_weak)
  then obtain d' where "transition_direct sample_db_env ''t1'' ''c1'' 1 StatusDraft ''u1'' ''r'' ''k''
      (sample_db [sample_contract\<lparr>ct_status := StatusPending\<rparr>]) = Inr d'" by blast
  from direct_transition_effect [OF this] this show ?thesis by auto
qed

end
