(* ===== verification/Signing.thy ===== *)
theory Signing
  imports Contract_Operations
begin

text \<open>
  The signing of an approved contract on paper: the shipment and its reminders, the stamped document in
  immutable versions, and the confirmation that pins one version and its hash
  (\<^verbatim>\<open>contracts_signing_actions.go\<close>, \<^verbatim>\<open>contracts_stamped.go\<close>, \<^verbatim>\<open>contracts_policy.go\<close>,
  \<^verbatim>\<open>contracts_signing_helpers.go\<close>, \<^verbatim>\<open>domain/contract/phonecipher.go\<close>). The cipher of the
  recipient's phone is a parameter: \<open>env_encrypt\<close> stands for AES-GCM with its Base64 text, given the
  additional data and the plain text, and \<open>env_decrypt\<close> for the reverse.
\<close>

section \<open>Phone numbers\<close>

definition signing_phone_cipher_prefix :: string where "signing_phone_cipher_prefix = ''enc:v1:''"

definition is_signing_phone_ciphertext :: "string \<Rightarrow> bool" where
  "is_signing_phone_ciphertext s \<longleftrightarrow>
     take (length signing_phone_cipher_prefix) s = signing_phone_cipher_prefix"

definition signing_phone_aad :: "string \<Rightarrow> string" where
  "signing_phone_aad cid = ''signing-phone:'' @ cid"

definition encrypt_signing_phone :: "env \<Rightarrow> string \<Rightarrow> string \<Rightarrow> string result" where
  "encrypt_signing_phone e cid plaintext =
     (if trim_space plaintext = [] then ok []
      else res_bind (env_encrypt e (signing_phone_aad cid) (trim_space plaintext))
             (\<lambda>sealed. ok (signing_phone_cipher_prefix @ sealed)))"

definition decrypt_signing_phone :: "env \<Rightarrow> string \<Rightarrow> string \<Rightarrow> string result" where
  "decrypt_signing_phone e cid stored =
     (if \<not> is_signing_phone_ciphertext stored then fail (ErrStorage ''not a signing phone ciphertext'')
      else env_decrypt e (signing_phone_aad cid) (drop (length signing_phone_cipher_prefix) stored))"

text \<open>\<^verbatim>\<open>string(runes)\<close>: the UTF-8 encoding; a surrogate or a number out of range becomes U+FFFD.\<close>

definition encode_rune :: "nat \<Rightarrow> nat list" where
  "encode_rune r =
     (if r < 0x80 then [r]
      else if r < 0x800 then [0xC0 + r div 64, 0x80 + r mod 64]
      else if 0xD800 \<le> r \<and> r < 0xE000 \<or> 0x110000 \<le> r then [0xEF, 0xBF, 0xBD]
      else if r < 0x10000 then [0xE0 + r div 4096, 0x80 + r div 64 mod 64, 0x80 + r mod 64]
      else [0xF0 + r div 262144, 0x80 + r div 4096 mod 64, 0x80 + r div 64 mod 64, 0x80 + r mod 64])"

definition string_of_runes :: "nat list \<Rightarrow> string" where
  "string_of_runes rs = map char_of (concat (map encode_rune rs))"

definition mask_phone :: "string \<Rightarrow> string" where
  "mask_phone phone0 =
     (let phone = trim_space phone0; runes = go_runes phone in
      if phone = [] then []
      else if length runes \<le> 4 then replicate (length runes) (CHR ''*'')
      else if length runes \<le> 7
      then string_of_runes (take 2 runes) @ replicate (length runes - 2) (CHR ''*'')
      else string_of_runes (take 3 runes) @ ''****'' @ string_of_runes (drop (length runes - 4) runes))"

definition mask_stored_signing_phone :: "env \<Rightarrow> string \<Rightarrow> string \<Rightarrow> string" where
  "mask_stored_signing_phone e cid stored =
     (if stored = [] then []
      else if is_signing_phone_ciphertext stored
      then (case decrypt_signing_phone e cid stored of Inl _ \<Rightarrow> ''***'' | Inr plain \<Rightarrow> mask_phone plain)
      else mask_phone stored)"

section \<open>Notices\<close>

definition signing_notification_key :: "string \<Rightarrow> string \<Rightarrow> string" where
  "signing_notification_key cid event = cid @ '':signing:'' @ event"

definition insert_signing_notification ::
  "env \<Rightarrow> string \<Rightarrow> string \<Rightarrow> string \<Rightarrow> string \<Rightarrow> string \<Rightarrow> string \<Rightarrow> db \<Rightarrow> db result" where
  "insert_signing_notification e tenant cid typ title content key d =
     (case find_contract d tenant cid of
        None \<Rightarrow> fail err_no_record
      | Some r \<Rightarrow>
          if ct_owner r = [] then ok d
          else let (now, d1) = read_clock e d
               in ok (insert_notification e tenant
                    \<lparr>nt_recipient_key = ''user:'' @ ct_owner r, nt_recipient_user = string_ptr (ct_owner r),
                     nt_recipient_role = None, nt_type = typ, nt_title = title, nt_content = content,
                     nt_contract = string_ptr cid, nt_approval = None, nt_dedupe_key = key\<rparr> now d1))"

definition shipped_title :: string where
  "shipped_title = map char_of [0xE5, 0x90, 0x88, 0xE5, 0x90, 0x8C, 0xE5, 0xB7, 0xB2, 0xE5, 0xAF, 0x84, 0xE5, 0x87,
     0xBA :: nat]"

definition shipped_content :: string where
  "shipped_content = map char_of [0xE5, 0x90, 0x88, 0xE5, 0x90, 0x8C, 0xE7, 0xAD, 0xBE, 0xE7, 0xBD, 0xB2, 0xE6, 0x96,
     0x87, 0xE4, 0xBB, 0xB6, 0xE5, 0xB7, 0xB2, 0xE5, 0xAF, 0x84, 0xE5, 0x87, 0xBA, 0xEF, 0xBC, 0x8C,
     0xE8, 0xAF, 0xB7, 0xE5, 0x85, 0xB3, 0xE6, 0xB3, 0xA8, 0xE5, 0x9B, 0x9E, 0xE4, 0xBC, 0xA0, 0xE8,
     0xBF, 0x9B, 0xE5, 0xBA, 0xA6 :: nat]"

definition received_title :: string where
  "received_title = map char_of [0xE5, 0x90, 0x88, 0xE5, 0x90, 0x8C, 0xE5, 0xB7, 0xB2, 0xE7, 0xAD, 0xBE, 0xE6, 0x94,
     0xB6 :: nat]"

definition received_content :: string where
  "received_content = map char_of [0xE5, 0xAE, 0xA2, 0xE6, 0x88, 0xB7, 0xE5, 0xB7, 0xB2, 0xE7, 0xAD, 0xBE, 0xE6, 0x94,
     0xB6, 0xE5, 0x90, 0x88, 0xE5, 0x90, 0x8C, 0xEF, 0xBC, 0x8C, 0xE8, 0xAF, 0xB7, 0xE7, 0xBB, 0xA7,
     0xE7, 0xBB, 0xAD, 0xE8, 0xB7, 0x9F, 0xE8, 0xBF, 0x9B, 0xE7, 0xAD, 0xBE, 0xE7, 0xBD, 0xB2, 0xE6,
     0x96, 0x87, 0xE4, 0xBB, 0xB6, 0xE5, 0x9B, 0x9E, 0xE4, 0xBC, 0xA0 :: nat]"

definition confirmed_title :: string where
  "confirmed_title = map char_of [0xE5, 0x90, 0x88, 0xE5, 0x90, 0x8C, 0xE7, 0xAD, 0xBE, 0xE7, 0xBD, 0xB2, 0xE5, 0xB7,
     0xB2, 0xE7, 0xA1, 0xAE, 0xE8, 0xAE, 0xA4 :: nat]"

definition confirmed_content :: "nat \<Rightarrow> string" where
  "confirmed_content version =
     (map char_of [0xE5, 0x90, 0x88, 0xE5, 0x90, 0x8C, 0xE7, 0xAD, 0xBE, 0xE7, 0xBD, 0xB2, 0xE6, 0x96,
     0x87, 0xE4, 0xBB, 0xB6, 0x20, 0x76 :: nat]) @ nat_str version @ (map char_of [0x20, 0xE5, 0xB7,
     0xB2, 0xE5, 0xAE, 0x8C, 0xE6, 0x88, 0x90, 0xE6, 0xA0, 0xB8, 0xE9, 0xAA, 0x8C, 0xEF, 0xBC, 0x8C,
     0xE7, 0xAD, 0xBE, 0xE7, 0xBD, 0xB2, 0xE6, 0xB5, 0x81, 0xE7, 0xA8, 0x8B, 0xE5, 0xB7, 0xB2, 0xE5,
     0xAE, 0x8C, 0xE6, 0x88, 0x90 :: nat])"

section \<open>Shipment and reminders\<close>

definition signing_of :: "string \<Rightarrow> string \<Rightarrow> signing_row \<Rightarrow> bool" where
  "signing_of tenant cid s \<longleftrightarrow> sg_tenant s = tenant \<and> sg_contract s = cid"

definition signing_clash :: "signing_row \<Rightarrow> signing_row \<Rightarrow> bool" where
  "signing_clash a b \<longleftrightarrow> sg_contract a = sg_contract b"

definition new_signing_row :: "string \<Rightarrow> string \<Rightarrow> signing_status \<Rightarrow> string \<Rightarrow> instant \<Rightarrow> signing_row" where
  "new_signing_row tenant cid status actor now =
     \<lparr>sg_contract = cid, sg_tenant = tenant, sg_method = ''paper'', sg_status = status, sg_courier = None,
      sg_recipient_name = None, sg_recipient_phone = None, sg_recipient_address = None,
      sg_mailed_at = None, sg_received_at = None, sg_signed_at = None, sg_confirmed_at = None,
      sg_confirmed_version = None, sg_confirmed_sha256 = None, sg_seal_verified = False,
      sg_signature_verified = False, sg_reminders = 0, sg_last_reminded = None, sg_version = 1,
      sg_updated_at = now, sg_updated_by = actor\<rparr>"

definition shippable :: "string \<Rightarrow> string \<Rightarrow> signing_row \<Rightarrow> bool" where
  "shippable tenant cid s \<longleftrightarrow>
     signing_of tenant cid s \<and> sg_status s \<in> {SigningPendingShipment, SigningInReturn}"

definition shipped_row :: "signing_shipment \<Rightarrow> string \<Rightarrow> string \<Rightarrow> instant \<Rightarrow> signing_row \<Rightarrow> signing_row" where
  "shipped_row sh phone actor now s =
     s\<lparr>sg_status := SigningInReturn, sg_courier := Some (sh_courier sh),
       sg_recipient_name := Some (sh_recipient_name sh), sg_recipient_phone := Some phone,
       sg_recipient_address := Some (sh_recipient_address sh), sg_mailed_at := Some (sh_mailed_at sh),
       sg_version := sg_version s + 1, sg_updated_at := now, sg_updated_by := actor\<rparr>"

definition first_shipment :: "string \<Rightarrow> string \<Rightarrow> signing_shipment \<Rightarrow> string \<Rightarrow> string \<Rightarrow> instant \<Rightarrow> signing_row" where
  "first_shipment tenant cid sh phone actor now =
     (new_signing_row tenant cid SigningInReturn actor now)\<lparr>sg_courier := string_ptr (sh_courier sh),
       sg_recipient_name := string_ptr (sh_recipient_name sh), sg_recipient_phone := string_ptr phone,
       sg_recipient_address := string_ptr (sh_recipient_address sh), sg_mailed_at := Some (sh_mailed_at sh)\<rparr>"

text \<open>The ledger row after the shipment: the conditional update, or the first row, or the update once more
  when the insert met a row.\<close>

definition ship_rows ::
  "string \<Rightarrow> string \<Rightarrow> signing_shipment \<Rightarrow> string \<Rightarrow> string \<Rightarrow> instant \<Rightarrow> signing_row list \<Rightarrow> signing_row list result" where
  "ship_rows tenant cid sh phone actor now rows =
     (let hit = shippable tenant cid; up = update_rows hit (shipped_row sh phone actor now) rows;
          first = first_shipment tenant cid sh phone actor now in
      if rows_affected hit rows \<noteq> 0 then ok up
      else if first_row (signing_of tenant cid) rows \<noteq> None then fail ErrStateConflict
      else if \<not> list_ex (signing_clash first) rows then ok (rows @ [first])
      else if rows_affected hit rows \<noteq> 1 then fail ErrStateConflict else ok up)"

definition save_signing_shipment :: "env \<Rightarrow> string \<Rightarrow> string \<Rightarrow> string \<Rightarrow> signing_shipment \<Rightarrow> db \<Rightarrow> db result" where
  "save_signing_shipment e tenant cid actor sh d =
     (let (now, d1) = read_clock e d in
      res_bind (encrypt_signing_phone e cid (sh_recipient_phone sh)) (\<lambda>phone.
        if find_contract d1 tenant cid = None then fail ErrNotFound
        else res_bind (ship_rows tenant cid sh phone actor now (db_signing d1)) (\<lambda>rows.
          insert_signing_notification e tenant cid ''signing_shipped'' shipped_title shipped_content
            (signing_notification_key cid ''shipped'') (d1\<lparr>db_signing := rows\<rparr>))))"

definition awaiting_receipt :: "string \<Rightarrow> string \<Rightarrow> signing_row \<Rightarrow> bool" where
  "awaiting_receipt tenant cid s \<longleftrightarrow>
     signing_of tenant cid s \<and> sg_status s = SigningInReturn \<and> sg_received_at s = None"

definition mark_signing_received :: "env \<Rightarrow> string \<Rightarrow> string \<Rightarrow> string \<Rightarrow> db \<Rightarrow> db result" where
  "mark_signing_received e tenant cid actor d =
     (let (now, d1) = read_clock e d; hit = awaiting_receipt tenant cid in
      if rows_affected hit (db_signing d1) = 0 then fail ErrStateConflict
      else insert_signing_notification e tenant cid ''signing_received'' received_title received_content
             (signing_notification_key cid ''received'')
             (d1\<lparr>db_signing := update_rows hit (\<lambda>s. s\<lparr>sg_received_at := Some now,
                sg_version := sg_version s + 1, sg_updated_at := now, sg_updated_by := actor\<rparr>) (db_signing d1)\<rparr>))"

definition record_signing_reminder :: "env \<Rightarrow> string \<Rightarrow> string \<Rightarrow> string \<Rightarrow> db \<Rightarrow> db result" where
  "record_signing_reminder e tenant cid actor d =
     (let (now, d1) = read_clock e d;
          hit = (\<lambda>s. signing_of tenant cid s \<and> sg_status s = SigningInReturn) in
      if rows_affected hit (db_signing d1) = 0 then fail ErrStateConflict
      else ok (d1\<lparr>db_signing := update_rows hit (\<lambda>s. s\<lparr>sg_reminders := sg_reminders s + 1,
             sg_last_reminded := Some now, sg_version := sg_version s + 1, sg_updated_at := now,
             sg_updated_by := actor\<rparr>) (db_signing d1)\<rparr>))"

section \<open>Stamped documents\<close>

definition validate_stamped_upload_policy :: "status \<Rightarrow> signing_status option \<Rightarrow> string \<Rightarrow> unit result" where
  "validate_stamped_upload_policy status signing reason =
     (if status = StatusArchived then fail ErrStateConflict
      else if signing = Some SigningCompleted \<and> trim_space reason = [] then fail ErrStateConflict
      else ok ())"

definition stamped_of :: "string \<Rightarrow> string \<Rightarrow> stamped_row \<Rightarrow> bool" where
  "stamped_of tenant cid s \<longleftrightarrow> st_doc_tenant s = tenant \<and> st_doc_contract s = cid"

definition stamped_clash :: "stamped_row \<Rightarrow> stamped_row \<Rightarrow> bool" where
  "stamped_clash a b \<longleftrightarrow> st_doc_contract a = st_doc_contract b \<and> st_doc_version a = st_doc_version b"

definition max_stamped_version :: "db \<Rightarrow> string \<Rightarrow> string \<Rightarrow> nat" where
  "max_stamped_version d tenant cid =
     fold max (map st_doc_version (filter (stamped_of tenant cid) (db_stamped d))) 0"

definition latest_stamped :: "db \<Rightarrow> string \<Rightarrow> string \<Rightarrow> stamped_row option" where
  "latest_stamped d tenant cid =
     (case sort_key (\<lambda>s. - int (st_doc_version s)) (filter (stamped_of tenant cid) (db_stamped d)) of
        [] \<Rightarrow> None | s # _ \<Rightarrow> Some s)"

definition supersede :: "string \<Rightarrow> string \<Rightarrow> string \<Rightarrow> instant \<Rightarrow> stamped_row list \<Rightarrow> stamped_row list" where
  "supersede tenant cid actor now rows =
     update_rows (\<lambda>s. stamped_of tenant cid s \<and> st_doc_superseded_at s = None)
       (\<lambda>s. s\<lparr>st_doc_superseded_at := Some now, st_doc_superseded_by := Some actor\<rparr>) rows"

definition new_stamped_row :: "string \<Rightarrow> stamped_upload \<Rightarrow> nat \<Rightarrow> string \<Rightarrow> instant \<Rightarrow> stamped_row" where
  "new_stamped_row tenant up version digest now =
     \<lparr>st_doc_contract = su_contract_id up, st_doc_tenant = tenant, st_doc_filename = su_filename up,
      st_doc_sha256 = digest, st_doc_version = version, st_doc_document = su_document up,
      st_doc_uploaded_at = now, st_doc_uploaded_by = su_uploaded_by up, st_doc_platform_file = [],
      st_doc_gateway_state = ''DISABLED'', st_doc_gateway_error = [], st_doc_superseded_at = None,
      st_doc_superseded_by = None\<rparr>"

text \<open>A new version takes back the confirmation of the old one.\<close>

definition reopened_row :: "string \<Rightarrow> instant \<Rightarrow> signing_row \<Rightarrow> signing_row" where
  "reopened_row actor now s =
     s\<lparr>sg_status := SigningPendingReview, sg_version := sg_version s + 1, sg_seal_verified := False,
       sg_signature_verified := False, sg_signed_at := None, sg_confirmed_at := None,
       sg_confirmed_version := None, sg_confirmed_sha256 := None, sg_updated_at := now, sg_updated_by := actor\<rparr>"

definition stamped_signing_rows ::
  "string \<Rightarrow> string \<Rightarrow> string \<Rightarrow> instant \<Rightarrow> signing_row list \<Rightarrow> signing_row list result" where
  "stamped_signing_rows tenant cid actor now rows =
     (if first_row (signing_of tenant cid) rows \<noteq> None
      then if rows_affected (signing_of tenant cid) rows \<noteq> 1 then fail ErrStateConflict
           else ok (update_rows (signing_of tenant cid) (reopened_row actor now) rows)
      else insert_row signing_clash (new_signing_row tenant cid SigningPendingReview actor now) rows)"

definition stamped_document_of :: "stamped_row \<Rightarrow> stamped_document" where
  "stamped_document_of s =
     \<lparr>sd_contract_id = st_doc_contract s, sd_version = st_doc_version s, sd_filename = st_doc_filename s,
      sd_sha256 = st_doc_sha256 s, sd_document = st_doc_document s, sd_uploaded_at = st_doc_uploaded_at s,
      sd_uploaded_by = st_doc_uploaded_by s, sd_platform_file_id = st_doc_platform_file s,
      sd_gateway_state = st_doc_gateway_state s\<rparr>"

definition save_stamped_document :: "env \<Rightarrow> string \<Rightarrow> stamped_upload \<Rightarrow> db \<Rightarrow> (stamped_document \<times> db) result" where
  "save_stamped_document e tenant up d =
     (let cid = su_contract_id up; digest = env_sha256 e (su_document up);
          (now, d1) = (if su_uploaded_at up = zero_time then read_clock e d else (su_uploaded_at up, d)) in
      case find_contract d1 tenant cid of
        None \<Rightarrow> fail ErrNotFound
      | Some r \<Rightarrow>
          res_bind (validate_stamped_upload_policy (ct_status r)
              (map_option sg_status (first_row (signing_of tenant cid) (db_signing d1)))
              (su_replacement_reason up)) (\<lambda>_.
            let current = max_stamped_version d1 tenant cid;
                d2 = (if current > 0
                      then d1\<lparr>db_stamped := supersede tenant cid (su_uploaded_by up) now (db_stamped d1)\<rparr> else d1);
                row = new_stamped_row tenant up (current + 1) digest now in
            if su_expected_version up \<noteq> current then fail ErrVersionConflict
            else res_bind (insert_row stamped_clash row (db_stamped d2)) (\<lambda>docs.
              res_bind (stamped_signing_rows tenant cid (su_uploaded_by up) now (db_signing d2)) (\<lambda>rows.
                res_bind (mark_project_delivery_stamped e tenant cid
                    (d2\<lparr>db_stamped := docs, db_signing := rows\<rparr>)) (\<lambda>d3.
                  ok (stamped_document_of row, d3))))))"

definition stamped_version_at :: "string \<Rightarrow> string \<Rightarrow> nat \<Rightarrow> string \<Rightarrow> stamped_row \<Rightarrow> bool" where
  "stamped_version_at tenant cid version sha s \<longleftrightarrow>
     stamped_of tenant cid s \<and> st_doc_version s = version \<and> st_doc_sha256 s = sha"

definition stamped_version_matches :: "db \<Rightarrow> string \<Rightarrow> string \<Rightarrow> nat \<Rightarrow> string \<Rightarrow> bool" where
  "stamped_version_matches d tenant cid version sha \<longleftrightarrow>
     rows_affected (stamped_version_at tenant cid version sha) (db_stamped d) = 1"

text \<open>MySQL may report no changed row for an update that writes what is there; then the code counts.\<close>

definition update_stamped_version ::
  "string \<Rightarrow> string \<Rightarrow> nat \<Rightarrow> string \<Rightarrow> (stamped_row \<Rightarrow> stamped_row) \<Rightarrow> db \<Rightarrow> db result" where
  "update_stamped_version tenant cid version sha f d =
     (let hit = stamped_version_at tenant cid version sha; d1 = d\<lparr>db_stamped := update_rows hit f (db_stamped d)\<rparr> in
      if rows_affected hit (db_stamped d) \<noteq> 1 \<and> \<not> stamped_version_matches d1 tenant cid version sha
      then fail ErrVersionConflict else ok d1)"

definition mark_stamped_gateway_pending :: "string \<Rightarrow> string \<Rightarrow> nat \<Rightarrow> string \<Rightarrow> db \<Rightarrow> db result" where
  "mark_stamped_gateway_pending tenant cid version sha =
     update_stamped_version tenant cid version sha
       (\<lambda>s. s\<lparr>st_doc_gateway_state := ''PENDING'', st_doc_gateway_error := []\<rparr>)"

definition mark_stamped_gateway_result ::
  "string \<Rightarrow> string \<Rightarrow> nat \<Rightarrow> string \<Rightarrow> string \<Rightarrow> string \<Rightarrow> db \<Rightarrow> db result" where
  "mark_stamped_gateway_result tenant cid version sha state v =
     update_stamped_version tenant cid version sha
       (\<lambda>s. if state = ''READY''
             then s\<lparr>st_doc_gateway_state := state, st_doc_platform_file := v, st_doc_gateway_error := []\<rparr>
             else s\<lparr>st_doc_gateway_state := state, st_doc_gateway_error := take (min (length v) 512) v\<rparr>)"

definition get_stamped_document :: "db \<Rightarrow> string \<Rightarrow> string \<Rightarrow> stamped_document result" where
  "get_stamped_document d tenant cid =
     (case latest_stamped d tenant cid of None \<Rightarrow> fail ErrNotFound | Some s \<Rightarrow> ok (stamped_document_of s))"

section \<open>Confirmation\<close>

definition confirmation_clash :: "signing_confirmation_row \<Rightarrow> signing_confirmation_row \<Rightarrow> bool" where
  "confirmation_clash a b \<longleftrightarrow> cf_id a = cf_id b
     \<or> (cf_tenant a = cf_tenant b \<and> cf_contract a = cf_contract b \<and> cf_version a = cf_version b)"

definition confirmable :: "string \<Rightarrow> string \<Rightarrow> nat \<Rightarrow> signing_row \<Rightarrow> bool" where
  "confirmable tenant cid version s \<longleftrightarrow> signing_of tenant cid s \<and> sg_status s = SigningPendingReview
     \<and> (sg_confirmed_version s = None \<or> sg_confirmed_version s = Some version)"

definition confirmed_row ::
  "signing_confirmation \<Rightarrow> stamped_row \<Rightarrow> string \<Rightarrow> instant \<Rightarrow> signing_row \<Rightarrow> signing_row" where
  "confirmed_row cf doc actor now s =
     s\<lparr>sg_status := SigningCompleted, sg_seal_verified := sc_seal_verified cf,
       sg_signature_verified := sc_signature_verified cf, sg_signed_at := Some (sc_signed_at cf),
       sg_confirmed_at := Some now, sg_confirmed_version := Some (st_doc_version doc),
       sg_confirmed_sha256 := Some (st_doc_sha256 doc), sg_version := sg_version s + 1,
       sg_updated_at := now, sg_updated_by := actor\<rparr>"

definition confirmation_history ::
  "string \<Rightarrow> string \<Rightarrow> string \<Rightarrow> signing_confirmation \<Rightarrow> stamped_row \<Rightarrow> string \<Rightarrow> instant \<Rightarrow> signing_confirmation_row" where
  "confirmation_history i tenant cid cf doc actor now =
     \<lparr>cf_id = i, cf_tenant = tenant, cf_contract = cid, cf_version = st_doc_version doc,
      cf_sha256 = st_doc_sha256 doc, cf_seal_verified = sc_seal_verified cf,
      cf_signature_verified = sc_signature_verified cf, cf_signed_at = sc_signed_at cf,
      cf_confirmed_at = now, cf_confirmed_by = actor, cf_created_at = now\<rparr>"

definition confirm_signing :: "env \<Rightarrow> string \<Rightarrow> string \<Rightarrow> string \<Rightarrow> signing_confirmation \<Rightarrow> db \<Rightarrow> db result" where
  "confirm_signing e tenant cid actor cf d =
     (let (now, d1) = read_clock e d in
      if find_contract d1 tenant cid = None then fail ErrNotFound
      else case latest_stamped d1 tenant cid of
        None \<Rightarrow> fail ErrStateConflict
      | Some doc \<Rightarrow>
          if sc_document_version cf \<noteq> st_doc_version doc
             \<or> \<not> equal_fold (trim_space (sc_content_sha256 cf)) (st_doc_sha256 doc)
          then fail ErrVersionConflict
          else case first_row (signing_of tenant cid) (db_signing d1) of
            None \<Rightarrow> fail ErrStateConflict
          | Some s \<Rightarrow>
              if sg_status s = SigningCompleted
              then if uint_value_or_zero (sg_confirmed_version s) = st_doc_version doc
                      \<and> equal_fold (value_or_empty (sg_confirmed_sha256 s)) (st_doc_sha256 doc)
                   then ok d1 else fail ErrStateConflict
              else if sg_status s \<noteq> SigningPendingReview then fail ErrStateConflict
              else let hit = confirmable tenant cid (st_doc_version doc) in
                if rows_affected hit (db_signing d1) \<noteq> 1 then fail ErrVersionConflict
                else let (i, d2) = new_id e (d1\<lparr>db_signing := update_rows hit (confirmed_row cf doc actor now) (db_signing d1)\<rparr>);
                         d3 = d2\<lparr>db_confirmations := insert_ignore confirmation_clash
                                (confirmation_history i tenant cid cf doc actor now) (db_confirmations d2)\<rparr>
                     in insert_signing_notification e tenant cid ''signing_confirmed'' confirmed_title
                          (confirmed_content (st_doc_version doc))
                          (signing_notification_key cid (''confirmed:v'' @ nat_str (st_doc_version doc))) d3)"

section \<open>The record a reader sees\<close>

record signing_record =
  gr_contract :: contract
  gr_method :: string
  gr_status :: signing_status
  gr_courier :: string
  gr_recipient_name :: string
  gr_recipient_phone :: string
  gr_recipient_address :: string
  gr_mailed_at :: "instant option"
  gr_received_at :: "instant option"
  gr_document_name :: string
  gr_returned_at :: "instant option"
  gr_document_version :: nat
  gr_document_sha256 :: string
  gr_confirmed_version :: nat
  gr_confirmed_sha256 :: string
  gr_seal_verified :: bool
  gr_signature_verified :: bool
  gr_signed_at :: "instant option"
  gr_confirmed_at :: "instant option"
  gr_reminders :: nat
  gr_last_reminded :: "instant option"
  gr_version :: nat

text \<open>\<open>None\<close> is the zero record the code passes where there is no row.\<close>

definition signing_from_records :: "env \<Rightarrow> contract \<Rightarrow> signing_row option \<Rightarrow> stamped_row option \<Rightarrow> signing_record" where
  "signing_from_records e item row doc =
     (let z = new_signing_row [] [] SigningPendingShipment [] 0;
          s = (case row of Some s \<Rightarrow> s | None \<Rightarrow> z);
          present = (sg_contract s \<noteq> []) in
      \<lparr>gr_contract = item, gr_method = (if present then sg_method s else ''paper''),
       gr_status = (if present then sg_status s else SigningPendingShipment),
       gr_courier = value_or_empty (sg_courier s), gr_recipient_name = value_or_empty (sg_recipient_name s),
       gr_recipient_phone = mask_stored_signing_phone e (c_id item) (value_or_empty (sg_recipient_phone s)),
       gr_recipient_address = value_or_empty (sg_recipient_address s), gr_mailed_at = sg_mailed_at s,
       gr_received_at = sg_received_at s,
       gr_document_name = (case doc of None \<Rightarrow> [] | Some x \<Rightarrow> st_doc_filename x),
       gr_returned_at = (case doc of None \<Rightarrow> None | Some x \<Rightarrow> time_ptr (st_doc_uploaded_at x)),
       gr_document_version = (case doc of None \<Rightarrow> 0 | Some x \<Rightarrow> st_doc_version x),
       gr_document_sha256 = (case doc of None \<Rightarrow> [] | Some x \<Rightarrow> st_doc_sha256 x),
       gr_confirmed_version = uint_value_or_zero (sg_confirmed_version s),
       gr_confirmed_sha256 = value_or_empty (sg_confirmed_sha256 s), gr_seal_verified = sg_seal_verified s,
       gr_signature_verified = sg_signature_verified s, gr_signed_at = sg_signed_at s,
       gr_confirmed_at = sg_confirmed_at s, gr_reminders = sg_reminders s,
       gr_last_reminded = sg_last_reminded s, gr_version = (if present then sg_version s else 0)\<rparr>)"

definition signing_phone_column_limit :: nat where "signing_phone_column_limit = 80"

text \<open>A phone number stored before the encryption is encrypted when it is read, if that works.\<close>

definition repair_signing_phone_plaintext :: "env \<Rightarrow> string \<Rightarrow> string \<Rightarrow> signing_row option \<Rightarrow> db \<Rightarrow> db" where
  "repair_signing_phone_plaintext e tenant cid row d =
     (let stored = (case row of None \<Rightarrow> [] | Some s \<Rightarrow> value_or_empty (sg_recipient_phone s)) in
      if stored = [] \<or> is_signing_phone_ciphertext stored then d
      else case encrypt_signing_phone e cid stored of
        Inl _ \<Rightarrow> d
      | Inr repaired \<Rightarrow>
          if length repaired > signing_phone_column_limit then d
          else d\<lparr>db_signing := update_rows (\<lambda>s. signing_of tenant cid s \<and> sg_recipient_phone s = Some stored)
                    (\<lambda>s. s\<lparr>sg_recipient_phone := Some repaired\<rparr>) (db_signing d)\<rparr>)"

definition get_signing_record :: "env \<Rightarrow> string \<Rightarrow> string \<Rightarrow> db \<Rightarrow> (signing_record \<times> db) result" where
  "get_signing_record e tenant cid d =
     res_bind (get_contract d tenant cid) (\<lambda>item.
       let row = first_row (signing_of tenant cid) (db_signing d)
       in ok (signing_from_records e item row (latest_stamped d tenant cid),
              repair_signing_phone_plaintext e tenant cid row d))"

section \<open>The signing state machine\<close>

text \<open>Every change of the signing tables, in any order; all other operations leave the three tables alone.\<close>

inductive signing_step :: "env \<Rightarrow> db \<Rightarrow> db \<Rightarrow> bool" for e where
  step_ship: "save_signing_shipment e tenant cid actor sh d = Inr d' \<Longrightarrow> signing_step e d d'"
| step_received: "mark_signing_received e tenant cid actor d = Inr d' \<Longrightarrow> signing_step e d d'"
| step_reminder: "record_signing_reminder e tenant cid actor d = Inr d' \<Longrightarrow> signing_step e d d'"
| step_upload: "save_stamped_document e tenant up d = Inr (doc, d') \<Longrightarrow> signing_step e d d'"
| step_pending: "mark_stamped_gateway_pending tenant cid version sha d = Inr d' \<Longrightarrow> signing_step e d d'"
| step_result: "mark_stamped_gateway_result tenant cid version sha state v d = Inr d' \<Longrightarrow> signing_step e d d'"
| step_confirm: "confirm_signing e tenant cid actor cf d = Inr d' \<Longrightarrow> signing_step e d d'"
| step_read: "get_signing_record e tenant cid d = Inr (r, d') \<Longrightarrow> signing_step e d d'"
| step_other: "db_stamped d' = db_stamped d \<Longrightarrow> db_signing d' = db_signing d \<Longrightarrow>
    db_confirmations d' = db_confirmations d \<Longrightarrow> signing_step e d d'"

definition no_signing :: "db \<Rightarrow> bool" where
  "no_signing d \<longleftrightarrow> db_stamped d = [] \<and> db_signing d = [] \<and> db_confirmations d = []"

definition docs :: "db \<Rightarrow> string \<Rightarrow> string \<Rightarrow> stamped_row list" where
  "docs d tenant cid = filter (stamped_of tenant cid) (db_stamped d)"

text \<open>Versions count from one and exactly the newest is current.\<close>

definition version_chain :: "stamped_row list \<Rightarrow> bool" where
  "version_chain ds \<longleftrightarrow> map st_doc_version ds = [1..<length ds + 1]
     \<and> list_all (\<lambda>s. st_doc_superseded_at s \<noteq> None) (butlast ds)
     \<and> (ds = [] \<or> st_doc_superseded_at (last ds) = None)"

definition signing_row_ok :: "stamped_row list \<Rightarrow> signing_row \<Rightarrow> bool" where
  "signing_row_ok ds s =
     (case sg_status s of
        SigningPendingShipment \<Rightarrow> ds = [] \<and> sg_confirmed_version s = None
      | SigningInReturn \<Rightarrow> ds = [] \<and> sg_confirmed_version s = None
      | SigningPendingReview \<Rightarrow> ds \<noteq> [] \<and> sg_confirmed_version s = None
      | SigningCompleted \<Rightarrow> ds \<noteq> [] \<and> sg_confirmed_version s = Some (st_doc_version (last ds))
                            \<and> sg_confirmed_sha256 s = Some (st_doc_sha256 (last ds))
      | SigningOther _ \<Rightarrow> False)"

definition signing_inv :: "db \<Rightarrow> bool" where
  "signing_inv d \<longleftrightarrow>
     (\<forall>t c. version_chain (docs d t c)) \<and> distinct (map sg_contract (db_signing d))
     \<and> (\<forall>s \<in> set (db_signing d). signing_row_ok (docs d (sg_tenant s) (sg_contract s)) s)
     \<and> (\<forall>x \<in> set (db_stamped d). \<exists>s \<in> set (db_signing d). signing_of (st_doc_tenant x) (st_doc_contract x) s)
     \<and> (\<forall>h \<in> set (db_confirmations d). \<exists>x \<in> set (db_stamped d).
          stamped_version_at (cf_tenant h) (cf_contract h) (cf_version h) (cf_sha256 h) x)"

section \<open>Version chains\<close>

lemma filter_update_rows:
  "(\<And>r. q r \<Longrightarrow> p (f r) = p r) \<Longrightarrow> filter p (update_rows q f rows) = update_rows q f (filter p rows)"
  by (induction rows) auto

lemma in_update_rows: "x \<in> set rows \<Longrightarrow> (if p x then f x else x) \<in> set (update_rows p f rows)"
  unfolding update_rows_def by (simp only: set_map) (rule imageI)

lemma ex_update_rows:
  "x \<in> set rows \<Longrightarrow> q (if p x then f x else x) \<Longrightarrow> \<exists>y \<in> set (update_rows p f rows). q y"
  by (rule bexI [OF _ in_update_rows])

lemma chain_length: "version_chain ds \<Longrightarrow> ds \<noteq> [] \<Longrightarrow> st_doc_version (last ds) = length ds"
  by (simp add: version_chain_def last_map [symmetric] del: upt_Suc)

lemma fold_max_upt: "fold max [Suc 0..<Suc n] (0::nat) = n"
  by (induction n) auto

lemma chain_max: "version_chain (docs d t c) \<Longrightarrow> max_stamped_version d t c = length (docs d t c)"
  by (simp add: max_stamped_version_def docs_def version_chain_def fold_max_upt del: upt_Suc)

lemma chain_latest:
  assumes "version_chain (docs d t c)"
  shows "latest_stamped d t c = (if docs d t c = [] then None else Some (last (docs d t c)))"
proof -
  let ?ds = "docs d t c"
  have vs: "map st_doc_version ?ds = [1..<length ?ds + 1]" using assms by (simp add: version_chain_def)
  have "distinct (map st_doc_version ?ds)" by (simp only: vs) simp
  then have inj: "inj_on (\<lambda>s. - int (st_doc_version s)) (set ?ds)"
    by (auto simp: distinct_map inj_on_def)
  have "sorted (map st_doc_version ?ds)" unfolding vs by (rule sorted_upt)
  then have "sorted (map (\<lambda>s. - int (st_doc_version s)) (rev ?ds))"
    by (simp add: sorted_map sorted_wrt_rev)
  from sort_key_inj_key_eq [OF _ inj this] have "sort_key (\<lambda>s. - int (st_doc_version s)) ?ds = rev ?ds" by simp
  then show ?thesis
    by (cases ?ds rule: rev_cases) (simp_all add: latest_stamped_def docs_def [symmetric])
qed

lemma chain_extend:
  assumes "version_chain ds" and "st_doc_version row = length ds + 1" and "st_doc_superseded_at row = None"
  shows "version_chain (update_rows (\<lambda>s. st_doc_superseded_at s = None)
    (\<lambda>s. s\<lparr>st_doc_superseded_at := Some now, st_doc_superseded_by := Some actor\<rparr>) ds @ [row])"
  using assms by (auto simp: version_chain_def list_all_iff set_update_rows map_update_rows)

lemma version_chain_iff:
  "version_chain ds \<longleftrightarrow> map st_doc_version ds = [1..<length ds + 1]
     \<and> list_all (\<lambda>x. x \<noteq> None) (butlast (map st_doc_superseded_at ds))
     \<and> (map st_doc_superseded_at ds = [] \<or> last (map st_doc_superseded_at ds) = None)"
  by (cases ds rule: rev_cases)
    (simp_all add: version_chain_def map_butlast [symmetric] list.pred_map comp_def del: upt_Suc)

lemma chain_update:
  assumes "version_chain ds"
    and "\<And>s. st_doc_version (f s) = st_doc_version s \<and> st_doc_superseded_at (f s) = st_doc_superseded_at s"
  shows "version_chain (update_rows p f ds)"
proof -
  have "map st_doc_version (update_rows p f ds) = map st_doc_version ds"
    "map st_doc_superseded_at (update_rows p f ds) = map st_doc_superseded_at ds"
    by (rule map_update_rows, use assms(2) in blast)+
  with assms(1) show ?thesis by (simp only: version_chain_iff length_update_rows)
qed

section \<open>The invariant is inductive\<close>

lemma signing_inv_cong:
  assumes "db_stamped d' = db_stamped d" "db_signing d' = db_signing d" "db_confirmations d' = db_confirmations d"
  shows "signing_inv d' = signing_inv d"
  using assms by (simp add: signing_inv_def docs_def)

lemma signing_inv_update:
  assumes "signing_inv d" and "db_stamped d' = db_stamped d"
    and "db_signing d' = update_rows hit f (db_signing d)" and "db_confirmations d' = db_confirmations d"
    and "\<And>s. s \<in> set (db_signing d) \<Longrightarrow> hit s \<Longrightarrow> sg_contract (f s) = sg_contract s \<and> sg_tenant (f s) = sg_tenant s
        \<and> signing_row_ok (docs d (sg_tenant s) (sg_contract s)) (f s)"
  shows "signing_inv d'"
proof -
  have docs: "docs d' = docs d" by (simp add: docs_def assms(2) fun_eq_iff)
  have "map sg_contract (db_signing d') = map sg_contract (db_signing d)"
    unfolding assms(3) update_rows_def map_map by (rule map_cong) (use assms(5) in auto)
  moreover have "\<exists>s \<in> set (db_signing d'). signing_of t c s"
    if "\<exists>s \<in> set (db_signing d). signing_of t c s" for t c
  proof -
    from that obtain s where s: "s \<in> set (db_signing d)" "signing_of t c s" by blast
    then have "signing_of t c (if hit s then f s else s)" using assms(5) [of s] by (simp add: signing_of_def)
    moreover have "(if hit s then f s else s) \<in> set (db_signing d')"
      unfolding assms(3) update_rows_def using s(1) by auto
    ultimately show ?thesis by blast
  qed
  ultimately show ?thesis
    using assms(1,5) unfolding signing_inv_def docs assms(2,4)
    by (auto simp: assms(3) set_update_rows)
qed

text \<open>Updates of a row that keep its key, its status and what it confirms.\<close>

lemma signing_inv_keep:
  assumes "signing_inv d" and "db_stamped d' = db_stamped d"
    and "db_signing d' = update_rows hit f (db_signing d)" and "db_confirmations d' = db_confirmations d"
    and "\<And>s. sg_contract (f s) = sg_contract s \<and> sg_tenant (f s) = sg_tenant s \<and> sg_status (f s) = sg_status s
        \<and> sg_confirmed_version (f s) = sg_confirmed_version s \<and> sg_confirmed_sha256 (f s) = sg_confirmed_sha256 s"
  shows "signing_inv d'"
proof (rule signing_inv_update [OF assms(1-4)])
  fix s assume "s \<in> set (db_signing d)"
  then have "signing_row_ok (docs d (sg_tenant s) (sg_contract s)) s"
    using assms(1) by (simp add: signing_inv_def)
  then show "sg_contract (f s) = sg_contract s \<and> sg_tenant (f s) = sg_tenant s
      \<and> signing_row_ok (docs d (sg_tenant s) (sg_contract s)) (f s)"
    using assms(5) [of s] by (auto simp: signing_row_ok_def split: signing_status.splits)
qed

lemma signing_notification_ok:
  assumes "insert_signing_notification e tenant cid typ title content key d = Inr d'"
  shows "notice_frame d d'"
  using assms
  by (auto simp: insert_signing_notification_def read_clock_def insert_notification_def new_id_def notice_frame_def Let_def
      split: option.splits if_split_asm)

lemma signing_inv_notice: "notice_frame d d' \<Longrightarrow> signing_inv d' = signing_inv d"
  by (rule signing_inv_cong) (auto dest: notice_frameD)

lemma no_docs_without_signing:
  assumes "signing_inv d" and "first_row (signing_of t c) (db_signing d) = None"
  shows "docs d t c = []"
  using assms by (auto simp: signing_inv_def docs_def filter_empty_conv stamped_of_def first_row_None)

lemma ship_rows_inv:
  assumes "signing_inv d" and "ship_rows tenant cid sh phone actor now (db_signing d) = Inr rows"
  shows "signing_inv (d\<lparr>db_signing := rows\<rparr>)"
proof -
  consider (update) "rows = update_rows (shippable tenant cid) (shipped_row sh phone actor now) (db_signing d)"
    | (first) "rows = db_signing d @ [first_shipment tenant cid sh phone actor now]"
      "first_row (signing_of tenant cid) (db_signing d) = None"
      "\<not> list_ex (signing_clash (first_shipment tenant cid sh phone actor now)) (db_signing d)"
    using assms(2) by (auto simp: ship_rows_def Let_def split: if_split_asm)
  then show ?thesis
  proof cases
    case update
    show ?thesis
      by (rule signing_inv_update [OF assms(1), of _ "shippable tenant cid" "shipped_row sh phone actor now"])
        (use assms(1) in \<open>auto simp: update signing_inv_def signing_row_ok_def shippable_def shipped_row_def\<close>)
  next
    case first
    have "docs d tenant cid = []" by (rule no_docs_without_signing [OF assms(1) first(2)])
    moreover have "docs (d\<lparr>db_signing := rows\<rparr>) = docs d" by (simp add: docs_def fun_eq_iff)
    ultimately show ?thesis
      using assms(1) first(3)
      by (auto simp: signing_inv_def first(1) first_shipment_def new_signing_row_def signing_row_ok_def
          list_ex_iff signing_clash_def)
  qed
qed

lemma save_shipment_inv:
  assumes "signing_inv d" and "save_signing_shipment e tenant cid actor sh d = Inr d'"
  shows "signing_inv d'"
proof -
  let ?d = "d\<lparr>db_tick := db_tick d + 1\<rparr>"
  from assms(2) obtain phone rows where
    rows: "ship_rows tenant cid sh phone actor (env_clock e (db_tick d)) (db_signing ?d) = Inr rows"
    and nt: "insert_signing_notification e tenant cid ''signing_shipped'' shipped_title shipped_content
        (signing_notification_key cid ''shipped'') (?d\<lparr>db_signing := rows\<rparr>) = Inr d'"
    by (auto simp: save_signing_shipment_def read_clock_def res_bind_eq_ok split: if_split_asm)
  have "signing_inv ?d" using assms(1) signing_inv_cong [of ?d d] by simp
  from ship_rows_inv [OF this rows] show ?thesis
    using signing_inv_notice [OF signing_notification_ok [OF nt]] by simp
qed

lemma mark_received_inv:
  assumes "signing_inv d" and "mark_signing_received e tenant cid actor d = Inr d'"
  shows "signing_inv d'"
proof -
  let ?up = "\<lambda>s. s\<lparr>sg_received_at := Some (env_clock e (db_tick d)), sg_version := sg_version s + 1,
      sg_updated_at := env_clock e (db_tick d), sg_updated_by := actor\<rparr>"
  let ?d = "d\<lparr>db_tick := db_tick d + 1, db_signing := update_rows (awaiting_receipt tenant cid) ?up (db_signing d)\<rparr>"
  have "signing_inv ?d"
    by (rule signing_inv_keep [OF assms(1), of _ "awaiting_receipt tenant cid" ?up]) simp_all
  moreover have nt: "insert_signing_notification e tenant cid ''signing_received'' received_title received_content
      (signing_notification_key cid ''received'') ?d = Inr d'"
    using assms(2) by (simp add: mark_signing_received_def read_clock_def Let_def split: if_split_asm)
  ultimately show ?thesis using signing_inv_notice [OF signing_notification_ok [OF nt]] by simp
qed

lemma reminder_inv:
  assumes "signing_inv d" and "record_signing_reminder e tenant cid actor d = Inr d'"
  shows "signing_inv d'"
proof -
  let ?up = "\<lambda>s. s\<lparr>sg_reminders := sg_reminders s + 1, sg_last_reminded := Some (env_clock e (db_tick d)),
      sg_version := sg_version s + 1, sg_updated_at := env_clock e (db_tick d), sg_updated_by := actor\<rparr>"
  have "db_stamped d' = db_stamped d \<and> db_confirmations d' = db_confirmations d
      \<and> db_signing d' = update_rows (\<lambda>s. signing_of tenant cid s \<and> sg_status s = SigningInReturn) ?up (db_signing d)"
    using assms(2) by (auto simp: record_signing_reminder_def read_clock_def Let_def split: if_split_asm)
  then show ?thesis
    by (intro signing_inv_keep [OF assms(1), of d' "\<lambda>s. signing_of tenant cid s \<and> sg_status s = SigningInReturn" ?up])
      simp_all
qed

lemma read_record_inv:
  assumes "signing_inv d" and "get_signing_record e tenant cid d = Inr (r, d')"
  shows "signing_inv d'"
proof -
  consider "d' = d" | stored repaired where "d' = d\<lparr>db_signing := update_rows
      (\<lambda>s. signing_of tenant cid s \<and> sg_recipient_phone s = Some stored)
      (\<lambda>s. s\<lparr>sg_recipient_phone := Some repaired\<rparr>) (db_signing d)\<rparr>"
    using assms(2)
    by (auto simp: get_signing_record_def res_bind_eq_ok repair_signing_phone_plaintext_def Let_def
        split: if_split_asm sum.splits)
  then show ?thesis
  proof cases
    case 2
    show ?thesis unfolding 2
      by (rule signing_inv_keep [OF assms(1), of _ "\<lambda>s. signing_of tenant cid s \<and> sg_recipient_phone s = Some stored"
            "\<lambda>s. s\<lparr>sg_recipient_phone := Some repaired\<rparr>"]) simp_all
  qed (use assms(1) in simp)
qed

lemma gateway_inv:
  assumes "signing_inv d" and "update_stamped_version tenant cid version sha f d = Inr d'"
    and keep: "\<And>s. st_doc_version (f s) = st_doc_version s \<and> st_doc_superseded_at (f s) = st_doc_superseded_at s
        \<and> st_doc_sha256 (f s) = st_doc_sha256 s \<and> st_doc_tenant (f s) = st_doc_tenant s
        \<and> st_doc_contract (f s) = st_doc_contract s"
  shows "signing_inv d'"
proof -
  let ?hit = "stamped_version_at tenant cid version sha"
  have d': "d' = d\<lparr>db_stamped := update_rows ?hit f (db_stamped d)\<rparr>"
    using assms(2) by (auto simp: update_stamped_version_def Let_def split: if_split_asm)
  have docs: "docs d' t c = update_rows ?hit f (docs d t c)" for t c
    unfolding docs_def d' by (simp add: filter_update_rows keep stamped_of_def)
  have last: "last (update_rows ?hit f ds) = (if ?hit (last ds) then f (last ds) else last ds)"
    "(update_rows ?hit f ds = []) = (ds = [])" if "ds \<noteq> []" for ds
    using that by (simp_all add: update_rows_def last_map)
  have row: "signing_row_ok (docs d' t c) s = signing_row_ok (docs d t c) s" for t c s
    by (cases "docs d t c = []") (auto simp: docs signing_row_ok_def last keep split: signing_status.splits)
  have chain: "version_chain (docs d' t c)" for t c
    unfolding docs by (rule chain_update) (use assms(1) keep in \<open>simp_all add: signing_inv_def\<close>)
  define g where "g = (\<lambda>x. if ?hit x then f x else x)"
  have g: "st_doc_tenant (g x) = st_doc_tenant x" "st_doc_contract (g x) = st_doc_contract x"
    "stamped_version_at t c v h (g x) = stamped_version_at t c v h x" for x t c v h
    using keep [of x] by (simp_all add: g_def stamped_version_at_def stamped_of_def)
  have "set (db_stamped d') = g ` set (db_stamped d)" by (simp add: d' update_rows_def g_def)
  moreover have "db_signing d' = db_signing d" "db_confirmations d' = db_confirmations d" by (simp_all add: d')
  ultimately show ?thesis
    using assms(1) unfolding signing_inv_def row by (simp add: chain g)
qed

lemma signing_inv_history:
  assumes "signing_inv d" and "db_stamped d' = db_stamped d" and "db_signing d' = db_signing d"
    and "db_confirmations d' = insert_ignore confirmation_clash h (db_confirmations d)"
    and "x \<in> set (db_stamped d)" "stamped_version_at (cf_tenant h) (cf_contract h) (cf_version h) (cf_sha256 h) x"
  shows "signing_inv d'"
proof -
  have "set (db_confirmations d') \<subseteq> insert h (set (db_confirmations d))"
    using assms(4) insert_ignore_cases [of confirmation_clash h "db_confirmations d"] by auto
  moreover have docs: "docs d' = docs d" by (simp add: docs_def assms(2) fun_eq_iff)
  ultimately show ?thesis
    using assms(1,5,6) unfolding signing_inv_def assms(2,3) docs by (simp only:) blast
qed

lemma confirm_inv:
  assumes "signing_inv d" and "confirm_signing e tenant cid actor cf d = Inr d'"
  shows "signing_inv d'"
proof -
  let ?now = "env_clock e (db_tick d)" and ?ds = "docs d tenant cid"
  have chain: "version_chain ?ds" using assms(1) by (simp add: signing_inv_def)
  have latest: "latest_stamped (d\<lparr>db_tick := n\<rparr>) tenant cid = (if ?ds = [] then None else Some (last ?ds))" for n
    using chain_latest [OF chain] by (simp add: latest_stamped_def)
  show ?thesis
  proof (cases "\<exists>n. d' = d\<lparr>db_tick := n\<rparr>")
    case True
    then show ?thesis using assms(1) signing_inv_cong [of d' d] by auto
  next
    case False
    let ?hit = "confirmable tenant cid (st_doc_version (last ?ds))"
    let ?d1 = "d\<lparr>db_tick := db_tick d + 1, db_signing := update_rows ?hit (confirmed_row cf (last ?ds) actor ?now) (db_signing d)\<rparr>"
    let ?h = "confirmation_history (env_ulid e (db_seq d)) tenant cid cf (last ?ds) actor ?now"
    let ?d2 = "?d1\<lparr>db_seq := db_seq d + 1,
      db_confirmations := insert_ignore confirmation_clash ?h (db_confirmations d)\<rparr>"
    from False assms(2) have ne: "?ds \<noteq> []"
      and nt: "insert_signing_notification e tenant cid ''signing_confirmed'' confirmed_title
          (confirmed_content (st_doc_version (last ?ds)))
          (signing_notification_key cid (''confirmed:v'' @ nat_str (st_doc_version (last ?ds)))) ?d2 = Inr d'"
      by (auto simp: confirm_signing_def read_clock_def new_id_def latest Let_def
          split: if_split_asm option.splits)
    have "signing_inv ?d1"
      by (rule signing_inv_update [OF assms(1), of _ ?hit "confirmed_row cf (last ?ds) actor ?now"])
        (use ne in \<open>auto simp: confirmable_def signing_of_def confirmed_row_def signing_row_ok_def\<close>)
    moreover have "last ?ds \<in> set (db_stamped d)" "stamped_of tenant cid (last ?ds)"
      using last_in_set [OF ne] by (auto simp: docs_def)
    ultimately have "signing_inv ?d2"
      by (intro signing_inv_history [of ?d1 ?d2 ?h "last ?ds"])
        (simp_all add: confirmation_history_def stamped_version_at_def)
    then show ?thesis using signing_inv_notice [OF signing_notification_ok [OF nt]] by simp
  qed
qed

lemma project_stamped_same:
  assumes "mark_project_delivery_stamped e tenant cid d = Inr d'"
  shows "db_stamped d' = db_stamped d" "db_signing d' = db_signing d" "db_confirmations d' = db_confirmations d"
  using assms
  by (auto simp: mark_project_delivery_stamped_def refresh_project_delivery_def read_clock_def res_bind_eq_ok Let_def
      split: list.splits)

lemma save_stamped_ok:
  assumes "save_stamped_document e tenant up d = Inr (doc, d')"
  obtains now current docs' rows where "current = max_stamped_version d tenant (su_contract_id up)"
    "docs' = (if current > 0 then supersede tenant (su_contract_id up) (su_uploaded_by up) now (db_stamped d)
        else db_stamped d) @ [new_stamped_row tenant up (current + 1) (env_sha256 e (su_document up)) now]"
    "stamped_signing_rows tenant (su_contract_id up) (su_uploaded_by up) now (db_signing d) = Inr rows"
    "db_stamped d' = docs'" "db_signing d' = rows" "db_confirmations d' = db_confirmations d"
    "doc = stamped_document_of (new_stamped_row tenant up (current + 1) (env_sha256 e (su_document up)) now)"
    "su_expected_version up = current"
proof -
  define start where "start = (if su_uploaded_at up = zero_time then read_clock e d else (su_uploaded_at up, d))"
  define now where "now = fst start"
  define d1 where "d1 = snd start"
  have same: "db_stamped d1 = db_stamped d" "db_signing d1 = db_signing d" "db_confirmations d1 = db_confirmations d"
    by (simp_all add: d1_def start_def read_clock_def)
  have max: "max_stamped_version d1 = max_stamped_version d" by (simp add: max_stamped_version_def same fun_eq_iff)
  let ?c = "max_stamped_version d tenant (su_contract_id up)"
  define d2 where "d2 = (if ?c > 0
      then d1\<lparr>db_stamped := supersede tenant (su_contract_id up) (su_uploaded_by up) now (db_stamped d1)\<rparr> else d1)"
  have start: "start = (now, d1)" by (simp add: now_def d1_def)
  from assms [unfolded save_stamped_document_def Let_def, folded start_def, unfolded start prod.case]
  obtain docs' rows where ex: "su_expected_version up = ?c"
    and docs: "insert_row stamped_clash (new_stamped_row tenant up (?c + 1) (env_sha256 e (su_document up)) now)
        (db_stamped d2) = Inr docs'"
    and rows: "stamped_signing_rows tenant (su_contract_id up) (su_uploaded_by up) now (db_signing d2) = Inr rows"
    and pj: "mark_project_delivery_stamped e tenant (su_contract_id up) (d2\<lparr>db_stamped := docs', db_signing := rows\<rparr>) = Inr d'"
    and doc: "doc = stamped_document_of (new_stamped_row tenant up (?c + 1) (env_sha256 e (su_document up)) now)"
    unfolding max d2_def [symmetric]
    by (simp add: res_bind_eq_ok split: option.split_asm if_split_asm) blast
  have "db_signing d2 = db_signing d" "db_confirmations d2 = db_confirmations d" by (simp_all add: d2_def same)
  with rows docs project_stamped_same [OF pj] show ?thesis
    by (intro that [OF refl refl _ _ _ _ doc ex]) (simp_all add: d2_def same insert_row_ok)
qed

lemma docs_upload:
  assumes chain: "version_chain (docs d tenant cid)" and row: "stamped_of tenant cid row"
    and "db_stamped d' = (if max_stamped_version d tenant cid > 0 then supersede tenant cid actor now (db_stamped d)
        else db_stamped d) @ [row]"
  shows "docs d' t c = (if (t, c) = (tenant, cid)
    then update_rows (\<lambda>s. st_doc_superseded_at s = None)
      (\<lambda>s. s\<lparr>st_doc_superseded_at := Some now, st_doc_superseded_by := Some actor\<rparr>) (docs d tenant cid) @ [row]
    else docs d t c)"
proof -
  let ?f = "\<lambda>s. s\<lparr>st_doc_superseded_at := Some now, st_doc_superseded_by := Some actor\<rparr>"
  have cut: "filter (stamped_of t c) (supersede tenant cid actor now (db_stamped d))
      = update_rows (\<lambda>s. stamped_of tenant cid s \<and> st_doc_superseded_at s = None) ?f (docs d t c)" for t c
    unfolding supersede_def docs_def by (rule filter_update_rows) (simp add: stamped_of_def)
  have rows: "update_rows (\<lambda>s. stamped_of tenant cid s \<and> st_doc_superseded_at s = None) ?f (docs d t c)
      = (if (t, c) = (tenant, cid) then update_rows (\<lambda>s. st_doc_superseded_at s = None) ?f (docs d t c) else docs d t c)"
    by (auto simp: update_rows_def docs_def stamped_of_def intro!: map_idI)
  have empty: "docs d tenant cid = []" if "max_stamped_version d tenant cid = 0"
    using that chain_max [OF chain] by simp
  have new: "filter (stamped_of t c) [row] = (if (t, c) = (tenant, cid) then [row] else [])"
    using row by (auto simp: stamped_of_def)
  show ?thesis
  proof (cases "max_stamped_version d tenant cid > 0")
    case True
    then have "docs d' t c = update_rows (\<lambda>s. stamped_of tenant cid s \<and> st_doc_superseded_at s = None) ?f (docs d t c)
        @ filter (stamped_of t c) [row]"
      unfolding docs_def [of d'] assms(3) filter_append cut [symmetric] by simp
    then show ?thesis unfolding rows new by auto
  next
    case False
    then have "docs d' t c = docs d t c @ filter (stamped_of t c) [row]"
      unfolding docs_def assms(3) filter_append by simp
    with empty False show ?thesis unfolding new by auto
  qed
qed

lemma stamped_signing_rows_ok:
  assumes "stamped_signing_rows tenant cid actor now rows = Inr rows'"
    and "distinct (map sg_contract rows)"
  shows "distinct (map sg_contract rows')" and "\<exists>s \<in> set rows'. signing_of tenant cid s"
    and "\<And>s. s \<in> set rows' \<Longrightarrow> if signing_of tenant cid s
        then sg_status s = SigningPendingReview \<and> sg_confirmed_version s = None else s \<in> set rows"
    and "\<And>t c s. s \<in> set rows \<Longrightarrow> signing_of t c s \<Longrightarrow> \<exists>s \<in> set rows'. signing_of t c s"
proof -
  have "distinct (map sg_contract rows') \<and> (\<exists>s \<in> set rows'. signing_of tenant cid s)
    \<and> (\<forall>s \<in> set rows'. if signing_of tenant cid s
        then sg_status s = SigningPendingReview \<and> sg_confirmed_version s = None else s \<in> set rows)
    \<and> (\<forall>t c. \<forall>s \<in> set rows. signing_of t c s \<longrightarrow> (\<exists>s \<in> set rows'. signing_of t c s))"
  proof (cases "first_row (signing_of tenant cid) rows")
    case None
    with assms show ?thesis
      by (auto simp: stamped_signing_rows_def insert_row_ok signing_clash_def new_signing_row_def signing_of_def
          first_row_None)
  next
    case (Some x)
    let ?g = "\<lambda>s. if signing_of tenant cid s then reopened_row actor now s else s"
    have keep: "signing_of t c (?g s) = signing_of t c s" "sg_contract (?g s) = sg_contract s" for t c s
      by (simp_all add: reopened_row_def signing_of_def)
    have rows': "rows' = update_rows (signing_of tenant cid) (reopened_row actor now) rows"
      using assms(1) Some by (auto simp: stamped_signing_rows_def split: if_split_asm)
    have "map sg_contract rows' = map sg_contract rows"
      unfolding rows' by (rule map_update_rows) (simp add: reopened_row_def)
    moreover have some: "\<exists>s \<in> set rows'. signing_of t c s" if "s \<in> set rows" "signing_of t c s" for t c s
      unfolding rows' by (rule ex_update_rows [OF that(1)]) (use keep(1) [of t c s] that(2) in simp)
    moreover have "\<exists>s \<in> set rows'. signing_of tenant cid s"
      using some first_row_SomeD [OF Some] by blast
    moreover have "if signing_of tenant cid s then sg_status s = SigningPendingReview \<and> sg_confirmed_version s = None
        else s \<in> set rows" if "s \<in> set rows'" for s
      using that unfolding rows' by (auto simp: set_update_rows reopened_row_def signing_of_def)
    ultimately show ?thesis using assms(2) by (simp only:) blast
  qed
  then show "distinct (map sg_contract rows')" and "\<exists>s \<in> set rows'. signing_of tenant cid s"
    and "\<And>s. s \<in> set rows' \<Longrightarrow> if signing_of tenant cid s
        then sg_status s = SigningPendingReview \<and> sg_confirmed_version s = None else s \<in> set rows"
    and "\<And>t c s. s \<in> set rows \<Longrightarrow> signing_of t c s \<Longrightarrow> \<exists>s \<in> set rows'. signing_of t c s" by blast+
qed

lemma upload_inv:
  assumes "signing_inv d" and "save_stamped_document e tenant up d = Inr (doc, d')"
  shows "signing_inv d'"
proof -
  let ?c = "su_contract_id up"
  obtain now rows where
    stamped: "db_stamped d' = (if max_stamped_version d tenant ?c > 0
        then supersede tenant ?c (su_uploaded_by up) now (db_stamped d) else db_stamped d)
        @ [new_stamped_row tenant up (max_stamped_version d tenant ?c + 1) (env_sha256 e (su_document up)) now]"
    and rows: "stamped_signing_rows tenant ?c (su_uploaded_by up) now (db_signing d) = Inr rows"
    and same: "db_signing d' = rows" "db_confirmations d' = db_confirmations d"
    by (rule save_stamped_ok [OF assms(2)]) blast
  define row where "row = new_stamped_row tenant up (max_stamped_version d tenant ?c + 1) (env_sha256 e (su_document up)) now"
  have chains: "version_chain (docs d t c)" for t c using assms(1) by (simp add: signing_inv_def)
  have row: "stamped_of tenant ?c row" "st_doc_version row = length (docs d tenant ?c) + 1" "st_doc_superseded_at row = None"
    by (simp_all add: row_def new_stamped_row_def stamped_of_def chain_max [OF chains])
  note docs' = docs_upload [OF chains row(1) stamped [folded row_def]]
  have chain: "version_chain (docs d' t c)" for t c
    unfolding docs' using chains chain_extend [OF chains row(2,3)] by simp
  note sr = stamped_signing_rows_ok [OF rows]
  have dist: "distinct (map sg_contract (db_signing d))" using assms(1) by (simp add: signing_inv_def)
  have ok: "signing_row_ok (docs d' (sg_tenant s) (sg_contract s)) s" if "s \<in> set rows" for s
    using sr(3) [OF dist that] assms(1)
    by (cases "signing_of tenant ?c s") (auto simp: docs' signing_row_ok_def signing_of_def signing_inv_def)
  have old: "\<exists>y \<in> set (db_stamped d'). stamped_version_at t c v h y"
    if "x \<in> set (db_stamped d)" "stamped_version_at t c v h x" for t c v h x
  proof -
    have "x \<in> set (docs d t c)" using that by (simp add: docs_def stamped_version_at_def)
    then have "\<exists>y \<in> set (update_rows (\<lambda>s. st_doc_superseded_at s = None) (\<lambda>s. s\<lparr>st_doc_superseded_at := Some now,
        st_doc_superseded_by := Some (su_uploaded_by up)\<rparr>) (docs d t c)).
        st_doc_version y = st_doc_version x \<and> st_doc_sha256 y = st_doc_sha256 x"
      by (rule ex_update_rows) simp
    with \<open>x \<in> set (docs d t c)\<close>
    have "\<exists>y \<in> set (docs d' t c). st_doc_version y = st_doc_version x \<and> st_doc_sha256 y = st_doc_sha256 x"
      unfolding docs' by (cases "(t, c) = (tenant, ?c)") (simp_all, blast+)
    with that(2) show ?thesis by (auto simp: docs_def stamped_version_at_def)
  qed
  have earlier: "\<exists>x \<in> set (db_stamped d). st_doc_tenant x = st_doc_tenant y \<and> st_doc_contract x = st_doc_contract y"
    if "y \<in> set (db_stamped d')" "y \<noteq> row" for y
    using that unfolding stamped row_def supersede_def by (auto simp: update_rows_def split: if_split_asm)
  have "\<exists>s \<in> set rows. signing_of (st_doc_tenant y) (st_doc_contract y) s" if "y \<in> set (db_stamped d')" for y
  proof (cases "y = row")
    case True
    with row(1) sr(2) [OF dist] show ?thesis by (simp add: stamped_of_def)
  next
    case False
    from earlier [OF that False] obtain x where x: "x \<in> set (db_stamped d)"
      "st_doc_tenant x = st_doc_tenant y" "st_doc_contract x = st_doc_contract y" by blast
    then obtain s where "s \<in> set (db_signing d)" "signing_of (st_doc_tenant y) (st_doc_contract y) s"
      using assms(1) unfolding signing_inv_def by (metis (no_types, lifting))
    then show ?thesis by (rule sr(4) [OF dist])
  qed
  moreover have "\<exists>y \<in> set (db_stamped d'). stamped_version_at (cf_tenant h) (cf_contract h) (cf_version h) (cf_sha256 h) y"
    if "h \<in> set (db_confirmations d)" for h
    using assms(1) that old unfolding signing_inv_def by (metis (no_types, lifting))
  ultimately show ?thesis
    unfolding signing_inv_def same using chain sr(1) [OF dist] ok by blast
qed

lemma signing_step_inv:
  assumes "signing_inv d" and "signing_step e d d'"
  shows "signing_inv d'"
  using assms(2)
proof cases
  case (step_pending tenant cid version sha)
  then show ?thesis
    by (intro gateway_inv [OF assms(1) step_pending [unfolded mark_stamped_gateway_pending_def]]) simp
next
  case (step_result tenant cid version sha state v)
  then show ?thesis
    by (intro gateway_inv [OF assms(1) step_result [unfolded mark_stamped_gateway_result_def]]) simp
next
  case step_other
  then show ?thesis using assms(1) signing_inv_cong [of d' d] by simp
qed (use assms(1) in \<open>blast intro: save_shipment_inv mark_received_inv reminder_inv upload_inv confirm_inv
    read_record_inv\<close>)+

interpretation signing_machine: invariant_system no_signing "signing_step e" signing_inv for e
proof
  show "no_signing d \<Longrightarrow> signing_inv d" for d
    by (simp add: no_signing_def signing_inv_def docs_def version_chain_def)
  show "signing_inv d \<Longrightarrow> signing_step e d d' \<Longrightarrow> signing_inv d'" for d d'
    by (rule signing_step_inv)
qed

section \<open>What a reader of the signing data can rely on\<close>

text \<open>C38: whatever the order of shipments, uploads, confirmations, gateway results and reads, a completed
  signing refers to the document a reader gets: the confirmed version and hash are those of the newest stamped
  document. The stamped versions of a contract count from one without a gap and only the newest is current.\<close>

theorem completed_signing_pins_document:
  assumes "reach no_signing (signing_step e) d"
    and "first_row (signing_of tenant cid) (db_signing d) = Some s" and "sg_status s = SigningCompleted"
  shows "\<exists>doc. get_stamped_document d tenant cid = Inr doc
    \<and> sg_confirmed_version s = Some (sd_version doc) \<and> sg_confirmed_sha256 s = Some (sd_sha256 doc)
    \<and> map st_doc_version (docs d tenant cid) = [1..<sd_version doc + 1]
    \<and> filter (\<lambda>x. st_doc_superseded_at x = None) (docs d tenant cid) = [last (docs d tenant cid)]"
proof -
  have inv: "signing_inv d" by (rule signing_machine.reach_inv [OF assms(1)])
  then have chain: "version_chain (docs d tenant cid)" by (simp add: signing_inv_def)
  have row: "s \<in> set (db_signing d)" "sg_tenant s = tenant" "sg_contract s = cid"
    using first_row_SomeD [OF assms(2)] by (auto simp: signing_of_def)
  with inv assms(3) have ok: "docs d tenant cid \<noteq> []"
    "sg_confirmed_version s = Some (st_doc_version (last (docs d tenant cid)))"
    "sg_confirmed_sha256 s = Some (st_doc_sha256 (last (docs d tenant cid)))"
    by (auto simp: signing_inv_def signing_row_ok_def)
  have "get_stamped_document d tenant cid = Inr (stamped_document_of (last (docs d tenant cid)))"
    using ok(1) chain_latest [OF chain] by (simp add: get_stamped_document_def)
  moreover obtain xs x where split: "docs d tenant cid = xs @ [x]"
    using ok(1) by (cases "docs d tenant cid" rule: rev_cases) auto
  then have "filter (\<lambda>x. st_doc_superseded_at x = None) (docs d tenant cid) = [last (docs d tenant cid)]"
    using chain by (auto simp: version_chain_def list_all_iff filter_empty_conv)
  moreover have "map st_doc_version (docs d tenant cid) = [1..<st_doc_version (last (docs d tenant cid)) + 1]"
    using chain chain_length [OF chain ok(1)] by (simp add: version_chain_def del: upt_Suc)
  ultimately show ?thesis using ok by (intro exI [of _ "stamped_document_of (last (docs d tenant cid))"])
    (simp add: stamped_document_of_def del: upt_Suc)
qed

definition upload_of :: "nat \<Rightarrow> stamped_upload" where
  "upload_of n = \<lparr>su_contract_id = ''c1'', su_filename = ''f'', su_document = ''doc'', su_uploaded_at = 5,
     su_uploaded_by = ''u1'', su_expected_version = n, su_replacement_reason = []\<rparr>"

definition confirmation_of :: "nat \<Rightarrow> signing_confirmation" where
  "confirmation_of n = \<lparr>sc_seal_verified = True, sc_signature_verified = True, sc_signed_at = 6,
     sc_document_version = n, sc_content_sha256 = ''h''\<rparr>"

lemma sample_signing:
  "\<exists>d1 d2 doc s. save_stamped_document sample_db_env ''t1'' (upload_of 0) (sample_db [sample_active]) = Inr (doc, d1)
     \<and> confirm_signing sample_db_env ''t1'' ''c1'' ''u1'' (confirmation_of 1) d1 = Inr d2
     \<and> first_row (signing_of ''t1'' ''c1'') (db_signing d2) = Some s \<and> sg_status s = SigningCompleted"
proof -
  have fold: "equal_fold (trim_space ''h'') ''h''" by code_simp
  have env: "env_sha256 sample_db_env = (\<lambda>_. ''h'')" by (simp add: sample_db_env_def)
  show ?thesis
    by (simp add: save_stamped_document_def upload_of_def zero_time_def find_contract_def contract_at_def sample_db_def
        sample_active_def sample_row_simps validate_stamped_upload_policy_def max_stamped_version_def
        new_stamped_row_def insert_row_def stamped_signing_rows_def new_signing_row_def
        mark_project_delivery_stamped_def confirm_signing_def confirmation_of_def read_clock_def latest_stamped_def
        stamped_of_def env fold signing_of_def confirmable_def rows_affected_def new_id_def
        insert_signing_notification_def confirmed_row_def insert_notification_def Let_def
        cong: let_weak_cong res_bind_weak)
qed

theorem completed_signing_pins_document_witness:
  "\<exists>d s doc. reach no_signing (signing_step sample_db_env) d
     \<and> first_row (signing_of ''t1'' ''c1'') (db_signing d) = Some s \<and> sg_status s = SigningCompleted
     \<and> get_stamped_document d ''t1'' ''c1'' = Inr doc \<and> sg_confirmed_version s = Some (sd_version doc)"
proof -
  obtain d1 d2 doc s where run: "save_stamped_document sample_db_env ''t1'' (upload_of 0) (sample_db [sample_active]) = Inr (doc, d1)"
     "confirm_signing sample_db_env ''t1'' ''c1'' ''u1'' (confirmation_of 1) d1 = Inr d2"
    and s: "first_row (signing_of ''t1'' ''c1'') (db_signing d2) = Some s" "sg_status s = SigningCompleted"
    using sample_signing by blast
  have "reach no_signing (signing_step sample_db_env) (sample_db [sample_active])"
    by (rule reach_init) (simp add: no_signing_def sample_db_def)
  then have "reach no_signing (signing_step sample_db_env) d2"
    using run by (meson reach_step step_upload step_confirm)
  from completed_signing_pins_document [OF this s] this s show ?thesis by blast
qed

section \<open>Phone numbers stay sealed\<close>

lemma ship_rows_phone:
  assumes "ship_rows tenant cid sh phone actor now rows = Inr rows'" and "distinct (map sg_contract rows)"
    and "phone \<noteq> []"
  shows "\<exists>s. first_row (signing_of tenant cid) rows' = Some s \<and> sg_recipient_phone s = Some phone"
proof (cases "rows_affected (shippable tenant cid) rows = 0")
  case True
  then have "rows' = rows @ [first_shipment tenant cid sh phone actor now]"
    "first_row (signing_of tenant cid) rows = None"
    using assms(1) by (auto simp: ship_rows_def Let_def split: if_split_asm)
  then show ?thesis using assms(3)
    by (simp add: first_row_append first_shipment_def new_signing_row_def signing_of_def string_ptr_def)
next
  case False
  then have rows': "rows' = update_rows (shippable tenant cid) (shipped_row sh phone actor now) rows"
    using assms(1) by (auto simp: ship_rows_def Let_def)
  from False obtain x where x: "x \<in> set rows" "shippable tenant cid x"
    by (auto simp: rows_affected_def filter_empty_conv)
  then have "first_row (signing_of tenant cid) rows \<noteq> None"
    by (auto simp: first_row_None shippable_def)
  then obtain y where y: "first_row (signing_of tenant cid) rows = Some y" by blast
  have "y = x"
    using first_row_SomeD [OF y] x assms(2) by (auto simp: distinct_map inj_on_def shippable_def signing_of_def)
  moreover have "first_row (signing_of tenant cid) rows'
      = map_option (\<lambda>r. if shippable tenant cid r then shipped_row sh phone actor now r else r)
          (first_row (signing_of tenant cid) rows)"
    unfolding rows' by (rule first_row_update_rows) (simp add: shipped_row_def signing_of_def)
  ultimately show ?thesis using y x by (simp add: shipped_row_def)
qed

lemma mask_sealed:
  assumes "env_decrypt e (signing_phone_aad cid) sealed = Inr plain"
  shows "mask_stored_signing_phone e cid (signing_phone_cipher_prefix @ sealed) = mask_phone plain"
proof -
  have "signing_phone_cipher_prefix \<noteq> []" by (simp add: signing_phone_cipher_prefix_def)
  then show ?thesis
    using assms by (simp add: mask_stored_signing_phone_def is_signing_phone_ciphertext_def decrypt_signing_phone_def)
qed

text \<open>the recipient's phone number never lies in the table in clear text and no reader gets it back: a
  registered shipment stores the sealed number, and the signing record shows the mask of the number that was
  given, provided the cipher opens what it sealed.\<close>

theorem shipped_phone_sealed_and_masked:
  assumes "save_signing_shipment e tenant cid actor sh d = Inr d'"
    and "trim_space (sh_recipient_phone sh) \<noteq> []" and "distinct (map sg_contract (db_signing d))"
    and cipher: "\<And>aad p x. env_encrypt e aad p = Inr x \<Longrightarrow> env_decrypt e aad x = Inr p"
    and "get_signing_record e tenant cid d' = Inr (r, d'')"
  shows "\<exists>s sealed. env_encrypt e (signing_phone_aad cid) (trim_space (sh_recipient_phone sh)) = Inr sealed
    \<and> first_row (signing_of tenant cid) (db_signing d') = Some s
    \<and> sg_recipient_phone s = Some (signing_phone_cipher_prefix @ sealed)
    \<and> gr_recipient_phone r = mask_phone (trim_space (sh_recipient_phone sh))"
proof -
  let ?d = "d\<lparr>db_tick := db_tick d + 1\<rparr>"
  from assms(1,2) obtain sealed rows where
    sealed: "env_encrypt e (signing_phone_aad cid) (trim_space (sh_recipient_phone sh)) = Inr sealed"
    and rows: "ship_rows tenant cid sh (signing_phone_cipher_prefix @ sealed) actor (env_clock e (db_tick d))
        (db_signing d) = Inr rows"
    and nt: "insert_signing_notification e tenant cid ''signing_shipped'' shipped_title shipped_content
        (signing_notification_key cid ''shipped'') (?d\<lparr>db_signing := rows\<rparr>) = Inr d'"
    by (auto simp: save_signing_shipment_def encrypt_signing_phone_def read_clock_def res_bind_eq_ok split: if_split_asm)
  have signing: "db_signing d' = rows"
    using notice_frameD(6) [OF signing_notification_ok [OF nt]] by simp
  obtain s where s: "first_row (signing_of tenant cid) rows = Some s"
    "sg_recipient_phone s = Some (signing_phone_cipher_prefix @ sealed)"
    using ship_rows_phone [OF rows assms(3)] by (auto simp: signing_phone_cipher_prefix_def)
  from assms(5) obtain item where item: "get_contract d' tenant cid = Inr item"
    and r: "r = signing_from_records e item (first_row (signing_of tenant cid) (db_signing d')) (latest_stamped d' tenant cid)"
    by (auto simp: get_signing_record_def res_bind_eq_ok Let_def)
  then have "c_id item = cid"
    by (auto simp: get_contract_def attach_payment_terms_def Let_def contract_from_record_def read_contract_source_def
        dest!: find_contract_SomeD split: option.splits)
  then have "gr_recipient_phone r = mask_stored_signing_phone e cid (signing_phone_cipher_prefix @ sealed)"
    unfolding r using s signing by (simp add: signing_from_records_def Let_def)
  with mask_sealed [OF cipher [OF sealed]] sealed s signing show ?thesis by auto
qed

lemma mask_example: "mask_phone ''13812345678'' = ''138****5678''" by code_simp

definition sample_shipment :: signing_shipment where
  "sample_shipment = \<lparr>sh_courier = ''sf'', sh_recipient_name = ''Bo'', sh_recipient_phone = ''13812345678'',
     sh_recipient_address = [], sh_mailed_at = 3\<rparr>"

theorem shipped_phone_sealed_and_masked_witness:
  "\<exists>d' r d''. save_signing_shipment sample_db_env ''t1'' ''c1'' ''u1'' sample_shipment (sample_db [sample_active]) = Inr d'
     \<and> get_signing_record sample_db_env ''t1'' ''c1'' d' = Inr (r, d'') \<and> gr_recipient_phone r = ''138****5678''"
proof -
  have phone: "trim_space (sh_recipient_phone sample_shipment) = ''13812345678''"
    by (simp add: sample_shipment_def) code_simp
  have cipher: "env_encrypt sample_db_env = (\<lambda>_. Inr)" "env_decrypt sample_db_env = (\<lambda>_. Inr)"
    by (simp_all add: sample_db_env_def fun_eq_iff)
  have "\<exists>d'. save_signing_shipment sample_db_env ''t1'' ''c1'' ''u1'' sample_shipment (sample_db [sample_active]) = Inr d'
      \<and> find_contract d' ''t1'' ''c1'' = Some sample_active"
    by (simp add: save_signing_shipment_def read_clock_def encrypt_signing_phone_def phone cipher find_contract_def
        contract_at_def sample_db_def sample_active_def sample_row_simps ship_rows_def rows_affected_def
        insert_signing_notification_def insert_notification_def new_id_def Let_def cong: let_weak_cong res_bind_weak)
  then obtain d' where run:
      "save_signing_shipment sample_db_env ''t1'' ''c1'' ''u1'' sample_shipment (sample_db [sample_active]) = Inr d'"
    and "find_contract d' ''t1'' ''c1'' = Some sample_active" by blast
  then obtain r d'' where rd: "get_signing_record sample_db_env ''t1'' ''c1'' d' = Inr (r, d'')"
    by (auto simp: get_signing_record_def get_contract_def Let_def)
  have "distinct (map sg_contract (db_signing (sample_db [sample_active])))" by (simp add: sample_db_def)
  from shipped_phone_sealed_and_masked [OF run _ this _ rd] phone run rd
  show ?thesis by (auto simp: cipher mask_example)
qed

end
