(* ===== verification/Opportunity.thy ===== *)
theory Opportunity
  imports Contract_Operations
begin

text \<open>
  The intake of CRM opportunities and their link to a contract (\<^verbatim>\<open>repository.go\<close>,
  \<^verbatim>\<open>opportunity_link_guard.go\<close>, \<^verbatim>\<open>integration/crm/link.go\<close>): an event is accepted once, reviewed
  once under an idempotency key, and the review writes the guarded link, the callback to the CRM and the stored
  answer in one transaction.
\<close>

section \<open>Accepting an event\<close>

definition intake_accepted :: string where "intake_accepted = ''ACCEPTED''"
definition intake_link_confirmed :: string where "intake_link_confirmed = ''LINK_CONFIRMED''"
definition intake_link_exception :: string where "intake_link_exception = ''LINK_EXCEPTION''"

definition intake_from_record :: "intake_row \<Rightarrow> opportunity_intake" where
  "intake_from_record r =
     \<lparr>opi_id = oi_id r, opi_tenant = oi_tenant r, opi_event = oi_event r, opi_opportunity = oi_opportunity r,
      opi_event_version = oi_event_version r, opi_opportunity_no = oi_opportunity_no r,
      opi_customer = oi_customer r, opi_contract_ref = oi_contract_ref r,
      opi_contract = value_or_empty (oi_contract r), opi_contract_number = value_or_empty (oi_contract_number r),
      opi_amount = oi_amount r, opi_occurred_at = oi_occurred_at r,
      opi_source_request = value_or_empty (oi_source_request r), opi_status = oi_status r,
      opi_version = oi_version r, opi_reviewed_by = value_or_empty (oi_reviewed_by r),
      opi_reviewer_name = value_or_empty (oi_reviewer_name r), opi_reviewed_at = oi_reviewed_at r,
      opi_review_reason = value_or_empty (oi_review_reason r), opi_created_at = oi_created_at r\<rparr>"

definition intake_event :: "string \<Rightarrow> string \<Rightarrow> intake_row \<Rightarrow> bool" where
  "intake_event tenant event r \<longleftrightarrow> oi_tenant r = tenant \<and> oi_event r = event"

definition intake_at :: "string \<Rightarrow> string \<Rightarrow> intake_row \<Rightarrow> bool" where
  "intake_at tenant i r \<longleftrightarrow> oi_tenant r = tenant \<and> oi_id r = i"

definition intake_clash :: "intake_row \<Rightarrow> intake_row \<Rightarrow> bool" where
  "intake_clash a b \<longleftrightarrow> oi_id a = oi_id b \<or> intake_event (oi_tenant a) (oi_event a) b"

definition new_intake_row :: "opportunity_intake \<Rightarrow> instant \<Rightarrow> intake_row" where
  "new_intake_row i now =
     \<lparr>oi_id = opi_id i, oi_tenant = opi_tenant i, oi_event = opi_event i, oi_opportunity = opi_opportunity i,
      oi_event_version = opi_event_version i, oi_customer = opi_customer i,
      oi_opportunity_no = opi_opportunity_no i, oi_contract_ref = opi_contract_ref i, oi_contract = None,
      oi_contract_number = None, oi_amount = opi_amount i, oi_occurred_at = opi_occurred_at i,
      oi_source_request = string_ptr (opi_source_request i), oi_status = intake_accepted, oi_version = 1,
      oi_reviewed_by = None, oi_reviewer_name = None, oi_review_reason = None, oi_reviewed_at = None,
      oi_created_at = now, oi_updated_at = now\<rparr>"

definition accept_intake :: "env \<Rightarrow> opportunity_intake \<Rightarrow> db \<Rightarrow> (opportunity_intake \<times> db) result" where
  "accept_intake e i d =
     (case first_row (intake_event (opi_tenant i) (opi_event i)) (db_intakes d) of
        Some r \<Rightarrow> ok (intake_from_record r, d)
      | None \<Rightarrow>
          let (now, d1) = read_clock e d; row = new_intake_row i now in
          (case insert_row intake_clash row (db_intakes d1) of
             Inr rows \<Rightarrow> ok (intake_from_record row, d1\<lparr>db_intakes := rows\<rparr>)
           | Inl err \<Rightarrow>
               (case first_row (intake_event (opi_tenant i) (opi_event i)) (db_intakes d1) of
                  Some r \<Rightarrow> ok (intake_from_record r, d1) | None \<Rightarrow> fail err)))"

definition get_intake :: "db \<Rightarrow> string \<Rightarrow> string \<Rightarrow> opportunity_intake result" where
  "get_intake d tenant i =
     (case first_row (intake_at tenant i) (db_intakes d) of
        None \<Rightarrow> fail ErrNotFound | Some r \<Rightarrow> ok (intake_from_record r))"

section \<open>The link guard\<close>

definition resolve_link_target :: "contract_row option \<Rightarrow> contract_row option \<Rightarrow> contract_row result" where
  "resolve_link_target by_id by_number =
     (case (by_id, by_number) of
        (Some a, Some b) \<Rightarrow> if ct_id a \<noteq> ct_id b then fail ErrOpportunityLinkRejected else ok a
      | (Some a, None) \<Rightarrow> ok a
      | (None, Some b) \<Rightarrow> ok b
      | (None, None) \<Rightarrow> fail ErrNotFound)"

definition link_target_allowed :: "contract_row \<Rightarrow> intake_row \<Rightarrow> bool" where
  "link_target_allowed target i =
     (if oi_customer i = 0 then False
      else if \<not> ordinary_contract_record target then False
      else if ct_status target \<in> {StatusArchived, StatusTerminated} then False
      else if ct_counterparty_source target = ''LOCAL'' \<or> ct_category_source target = ''LOCAL'' then False
      else if uint_value_or_zero (ct_crm_customer target) \<noteq> 0 then
        uint_value_or_zero (ct_crm_customer target) = oi_customer i
        \<and> (let linked = trim_space (value_or_empty (ct_opportunity_id target))
           in linked = [] \<or> linked = nat_str (oi_opportunity i))
      else \<not> approval_passed (ct_status target))"

definition number_matches :: "env \<Rightarrow> string \<Rightarrow> string \<Rightarrow> contract_row \<Rightarrow> bool" where
  "number_matches e tenant ref r \<longleftrightarrow> ct_tenant r = tenant
     \<and> (case ct_number r of None \<Rightarrow> False | Some n \<Rightarrow> env_collate e n = env_collate e ref)"

definition linked_row :: "intake_row \<Rightarrow> string \<Rightarrow> instant \<Rightarrow> contract_row \<Rightarrow> contract_row" where
  "linked_row i reviewer now r =
     r\<lparr>ct_opportunity_id := Some (nat_str (oi_opportunity i)), ct_crm_customer := Some (oi_customer i),
       ct_updated_at := now, ct_updated_by := reviewer\<rparr>"

definition confirm_opportunity_link ::
  "env \<Rightarrow> string \<Rightarrow> intake_row \<Rightarrow> string \<Rightarrow> string \<Rightarrow> db \<Rightarrow> (string \<times> string \<times> db) result" where
  "confirm_opportunity_link e tenant i reviewer display d =
     (let ref = trim_space (oi_contract_ref i) in
      if ref = [] then fail ErrNotFound
      else res_bind (resolve_link_target (find_contract d tenant ref)
                       (first_row (number_matches e tenant ref) (db_contracts d))) (\<lambda>target.
        if \<not> link_target_allowed target i then fail ErrOpportunityLinkRejected
        else
          let (now, d1) = read_clock e d; hit = contract_at tenant (ct_id target) in
          if rows_affected hit (db_contracts d1) \<noteq> 1 then fail ErrNotFound
          else res_bind (insert_audit e tenant
                 (audit_entry_for e reviewer ''OPPORTUNITY_LINK_CONFIRMED'' (ct_id target)
                    [(''intake_id'', AvStr (oi_id i)), (''event_id'', AvStr (oi_event i)),
                     (''operator'', AvStr reviewer), (''operator_display_name'', AvStr display),
                     (''before'', AvMap [(''opportunity_id'', AvStr (value_or_empty (ct_opportunity_id target))),
                        (''crm_customer_id'', AvInt (int (uint_value_or_zero (ct_crm_customer target))))]),
                     (''after'', AvMap [(''opportunity_id'', AvStr (nat_str (oi_opportunity i))),
                        (''crm_customer_id'', AvInt (int (oi_customer i)))])])
                 (d1\<lparr>db_contracts := update_rows hit (linked_row i reviewer now) (db_contracts d1)\<rparr>)) (\<lambda>d2.
               ok (ct_id target,
                   (let number = value_or_empty (ct_number target) in if number = [] then ref else number), d2))))"

section \<open>Review\<close>

record intake_review =
  ir_decision :: string
  ir_reason :: string
  ir_version :: nat

definition encode_link_callback :: "opportunity_intake \<Rightarrow> link_payload" where
  "encode_link_callback i =
     \<lparr>lp_event = opi_event i, lp_intake = opi_id i, lp_opportunity = opi_opportunity i,
      lp_contract = opi_contract i,
      lp_contract_number = (let n = trim_space (opi_contract_number i)
                            in if n = [] then trim_space (opi_contract_ref i) else n),
      lp_status = opi_status i,
      lp_linked_at = (if opi_status i \<noteq> intake_link_confirmed then None else opi_reviewed_at i),
      lp_sync_version = opi_version i\<rparr>"

definition review_at :: "string \<Rightarrow> string \<Rightarrow> string \<Rightarrow> intake_review_row \<Rightarrow> bool" where
  "review_at tenant i key r \<longleftrightarrow> ov_tenant r = tenant \<and> ov_intake r = i \<and> ov_key r = key"

definition review_clash :: "intake_review_row \<Rightarrow> intake_review_row \<Rightarrow> bool" where
  "review_clash a b \<longleftrightarrow> ov_id a = ov_id b \<or> review_at (ov_tenant a) (ov_intake a) (ov_key a) b"

definition reviewed_row :: "intake_review \<Rightarrow> string \<Rightarrow> string \<Rightarrow> instant \<Rightarrow> intake_row \<Rightarrow> intake_row" where
  "reviewed_row rv reviewer display now r =
     r\<lparr>oi_status := ir_decision rv, oi_version := oi_version r + 1, oi_reviewed_by := Some reviewer,
       oi_reviewer_name := Some display, oi_reviewed_at := Some now, oi_review_reason := Some (ir_reason rv),
       oi_updated_at := now\<rparr>"

text \<open>The link part of a review: nothing for an exception; otherwise the guarded link.\<close>

definition review_link ::
  "env \<Rightarrow> string \<Rightarrow> string \<Rightarrow> string \<Rightarrow> intake_row \<Rightarrow> db \<Rightarrow> (string \<times> string \<times> intake_row \<times> db) result" where
  "review_link e tenant reviewer display r d =
     (if oi_status r = intake_link_confirmed
      then res_bind (confirm_opportunity_link e tenant r reviewer display d) (\<lambda>(cid, number, d1).
             ok (cid, number, r\<lparr>oi_contract := Some cid,
                 oi_contract_number := (if number \<noteq> [] then Some number else oi_contract_number r)\<rparr>, d1))
      else ok ([], [], r, d))"

definition review_intake ::
  "env \<Rightarrow> string \<Rightarrow> string \<Rightarrow> string \<Rightarrow> intake_review \<Rightarrow> string \<Rightarrow> string \<Rightarrow> string \<Rightarrow> db
     \<Rightarrow> (opportunity_intake \<times> db) result" where
  "review_intake e tenant i reviewer rv key hash display d =
     (case first_row (intake_at tenant i) (db_intakes d) of
        None \<Rightarrow> fail ErrNotFound
      | Some row \<Rightarrow>
          (case first_row (review_at tenant i key) (db_intake_reviews d) of
             Some prior \<Rightarrow> if ov_hash prior \<noteq> hash then fail ErrStateConflict else ok (ov_response prior, d)
           | None \<Rightarrow>
               if oi_version row \<noteq> ir_version rv then fail ErrVersionConflict
               else if oi_status row \<noteq> intake_accepted then fail ErrStateConflict
               else
                 let (now, d1) = read_clock e d in
                 res_bind (review_link e tenant reviewer display (reviewed_row rv reviewer display now row) d1)
                   (\<lambda>(cid, number, row', d2).
                   let out = (intake_from_record row')\<lparr>opi_contract := cid, opi_contract_number := number\<rparr>;
                       d3 = d2\<lparr>db_intakes := update_rows (\<lambda>x. oi_id x = oi_id row') (\<lambda>_. row') (db_intakes d2)\<rparr>;
                       d4 = enqueue_opportunity_link e (opi_tenant out) (opi_event out) (encode_link_callback out) d3;
                       (rid, d5) = new_id e d4;
                       rec = \<lparr>ov_id = rid, ov_tenant = tenant, ov_intake = i, ov_key = key, ov_hash = hash,
                              ov_decision = ir_decision rv, ov_reason = ir_reason rv, ov_version = ir_version rv,
                              ov_reviewer = reviewer, ov_reviewer_name = Some display, ov_response = out,
                              ov_created_at = now\<rparr>
                   in res_bind (insert_row review_clash rec (db_intake_reviews d5)) (\<lambda>rows.
                        ok (out, d5\<lparr>db_intake_reviews := rows\<rparr>)))))"

section \<open>What a review does\<close>

definition intake_frame :: "db \<Rightarrow> db \<Rightarrow> bool" where
  "intake_frame d d' \<longleftrightarrow> d' = d\<lparr>db_tick := db_tick d', db_seq := db_seq d', db_intakes := db_intakes d',
     db_intake_reviews := db_intake_reviews d', db_link_outbox := db_link_outbox d'\<rparr>"

lemma intake_frameD:
  assumes "intake_frame d d'"
  shows "db_contracts d' = db_contracts d" "db_instances d' = db_instances d" "db_streams d' = db_streams d"
    "db_audit d' = db_audit d" "db_lifecycle d' = db_lifecycle d"
  using assms unfolding intake_frame_def by - (erule ssubst, simp)+

lemma rows_affected_one: "rows_affected p rows = 1 \<Longrightarrow> x \<in> set rows \<Longrightarrow> p x \<Longrightarrow> first_row p rows = Some x"
  by (induction rows) (auto simp: rows_affected_def filter_empty_conv split: if_split_asm)

lemma confirm_link_ok:
  assumes "confirm_opportunity_link e tenant i reviewer display d = Inr (cid, number, d')"
  obtains target now where "find_contract d tenant cid = Some target" "link_target_allowed target i"
    "db_contracts d' = update_rows (contract_at tenant cid) (linked_row i reviewer now) (db_contracts d)"
    "store_frame d d'" "db_streams d' = db_streams d" "db_lifecycle d' = db_lifecycle d" "db_seq d \<le> db_seq d'"
proof -
  let ?ref = "trim_space (oi_contract_ref i)" and ?now = "env_clock e (db_tick d)"
  from assms obtain target entry where
    target: "resolve_link_target (find_contract d tenant ?ref) (first_row (number_matches e tenant ?ref) (db_contracts d)) = Inr target"
    and ok: "link_target_allowed target i" "cid = ct_id target"
      "rows_affected (contract_at tenant (ct_id target)) (db_contracts d) = 1"
    and au: "insert_audit e tenant entry (d\<lparr>db_tick := db_tick d + 1,
        db_contracts := update_rows (contract_at tenant (ct_id target)) (linked_row i reviewer ?now) (db_contracts d)\<rparr>) = Inr d'"
    by (auto simp: confirm_opportunity_link_def read_clock_def res_bind_eq_ok Let_def split: if_split_asm)
  have mem: "target \<in> set (db_contracts d)" "ct_tenant target = tenant"
    using target find_contract_SomeD first_row_SomeD [of "number_matches e tenant ?ref"]
    by (auto simp: resolve_link_target_def number_matches_def split: option.splits if_split_asm)
  have unique: "find_contract d tenant cid = Some target"
    using rows_affected_one [OF ok(3)] mem by (simp add: find_contract_def ok(2) contract_at_def)
  obtain a where d': "d' = d\<lparr>
      db_contracts := update_rows (contract_at tenant cid) (linked_row i reviewer ?now) (db_contracts d),
      db_tick := db_tick d + 2, db_seq := db_seq d + 2, db_audit := db_audit d @ [a]\<rparr>"
    using insert_audit_ok [OF au] ok(2) by auto
  show ?thesis
    by (rule that [OF unique ok(1), of ?now]) (simp_all add: d' store_frame_def)
qed

lemma review_link_ok:
  assumes "review_link e tenant reviewer display r d = Inr (cid, number, row, d')"
  shows "oi_id row = oi_id r" "oi_tenant row = oi_tenant r" "oi_event row = oi_event r" "oi_status row = oi_status r"
    "db_intakes d' = db_intakes d" "db_intake_reviews d' = db_intake_reviews d" "db_seq d \<le> db_seq d'"
    "db_link_outbox d' = db_link_outbox d"
  using assms
  by (auto simp: review_link_def res_bind_eq_ok split: if_split_asm elim!: confirm_link_ok dest: store_frameD)

text \<open>A first review, split into its steps.\<close>

lemma review_intake_ok:
  assumes "review_intake e tenant i reviewer rv key hash display d = Inr (out, d')"
    and "first_row (review_at tenant i key) (db_intake_reviews d) = None"
  obtains row now cid number row' d2 d3 rec where "first_row (intake_at tenant i) (db_intakes d) = Some row"
    "oi_status row = intake_accepted" "oi_version row = ir_version rv"
    "review_link e tenant reviewer display (reviewed_row rv reviewer display now row) (d\<lparr>db_tick := db_tick d + 1\<rparr>)
       = Inr (cid, number, row', d2)"
    "out = (intake_from_record row')\<lparr>opi_contract := cid, opi_contract_number := number\<rparr>"
    "d3 = enqueue_opportunity_link e (opi_tenant out) (opi_event out) (encode_link_callback out)
       (d2\<lparr>db_intakes := update_rows (\<lambda>x. oi_id x = oi_id row') (\<lambda>_. row') (db_intakes d2)\<rparr>)"
    "d' = d3\<lparr>db_seq := db_seq d3 + 1, db_intake_reviews := db_intake_reviews d3 @ [rec]\<rparr>"
    "review_at tenant i key rec" "ov_hash rec = hash" "ov_response rec = out"
  using assms
  by (auto simp: review_intake_def read_clock_def new_id_def res_bind_eq_ok insert_row_ok review_at_def Let_def
      split: option.splits if_split_asm)

lemma enqueue_link_frame: "intake_frame d (enqueue_opportunity_link e tenant event p d)"
  "db_intakes (enqueue_opportunity_link e tenant event p d) = db_intakes d"
  "db_intake_reviews (enqueue_opportunity_link e tenant event p d) = db_intake_reviews d"
  by (simp_all add: enqueue_opportunity_link_def new_id_def read_clock_def intake_frame_def)

text \<open>a review is idempotent under its key: the same request, repeated, gets the answer of the first one
  and changes nothing.\<close>

theorem intake_review_idempotent:
  assumes "review_intake e tenant i reviewer rv key hash display d = Inr (out, d')"
  shows "review_intake e' tenant i reviewer' rv' key hash display' d' = Inr (out, d')"
proof (cases "first_row (review_at tenant i key) (db_intake_reviews d)")
  case (Some prior)
  with assms show ?thesis by (auto simp: review_intake_def split: option.splits if_split_asm)
next
  case None
  obtain row now cid number row' d2 d3 rec where row: "first_row (intake_at tenant i) (db_intakes d) = Some row"
    and link: "review_link e tenant reviewer display (reviewed_row rv reviewer display now row)
        (d\<lparr>db_tick := db_tick d + 1\<rparr>) = Inr (cid, number, row', d2)"
    and d3: "d3 = enqueue_opportunity_link e (opi_tenant out) (opi_event out) (encode_link_callback out)
        (d2\<lparr>db_intakes := update_rows (\<lambda>x. oi_id x = oi_id row') (\<lambda>_. row') (db_intakes d2)\<rparr>)"
    and d': "d' = d3\<lparr>db_seq := db_seq d3 + 1, db_intake_reviews := db_intake_reviews d3 @ [rec]\<rparr>"
    and rec: "review_at tenant i key rec" "ov_hash rec = hash" "ov_response rec = out"
    by (rule review_intake_ok [OF assms None]) blast
  note lk = review_link_ok [OF link]
  have key: "oi_id row' = i" "oi_tenant row' = tenant"
    using lk(1,2) first_row_SomeD [OF row] by (auto simp: reviewed_row_def intake_at_def)
  have intakes: "db_intakes d' = update_rows (\<lambda>x. oi_id x = i) (\<lambda>_. row') (db_intakes d)"
    using lk(5) by (simp add: d' d3 enqueue_link_frame key)
  have "row' \<in> set (db_intakes d')"
    using first_row_SomeD [OF row] unfolding intakes by (auto simp: set_update_rows intake_at_def)
  then have "first_row (intake_at tenant i) (db_intakes d') \<noteq> None"
    using key by (auto simp: first_row_None intake_at_def)
  moreover have "first_row (review_at tenant i key) (db_intake_reviews d') = Some rec"
    using None rec(1) lk(6) by (simp add: d' d3 enqueue_link_frame first_row_append)
  ultimately show ?thesis using rec(2,3) by (auto simp: review_intake_def)
qed

text \<open>C39: confirming a link is guarded: it reaches exactly one contract, which is ordinary, neither archived
  nor terminated, not of local origin, and either belongs to that customer with no other opportunity linked or has
  no customer and has not passed approval. Only its opportunity and customer change, no other contract changes,
  and the callback to the CRM carries the contract.\<close>

theorem confirmed_link_guarded:
  assumes "review_intake e tenant i reviewer rv key hash display d = Inr (out, d')"
    and "first_row (review_at tenant i key) (db_intake_reviews d) = None" and "ir_decision rv = intake_link_confirmed"
  shows "\<exists>row target now. first_row (intake_at tenant i) (db_intakes d) = Some row \<and> oi_status row = intake_accepted
    \<and> find_contract d tenant (opi_contract out) = Some target \<and> ordinary_contract_record target
    \<and> ct_status target \<notin> {StatusArchived, StatusTerminated} \<and> ct_counterparty_source target \<noteq> ''LOCAL''
    \<and> (uint_value_or_zero (ct_crm_customer target) = oi_customer row
         \<and> trim_space (value_or_empty (ct_opportunity_id target)) \<in> {[], nat_str (oi_opportunity row)}
       \<or> uint_value_or_zero (ct_crm_customer target) = 0 \<and> \<not> approval_passed (ct_status target))
    \<and> find_contract d' tenant (opi_contract out) = Some (target\<lparr>ct_opportunity_id := Some (nat_str (oi_opportunity row)),
         ct_crm_customer := Some (oi_customer row), ct_updated_at := now, ct_updated_by := reviewer\<rparr>)
    \<and> (\<forall>t c. (t, c) = (tenant, opi_contract out) \<or> find_contract d' t c = find_contract d t c)
    \<and> lp_contract (encode_link_callback out) = opi_contract out"
proof -
  obtain row now cid number row' d2 d3 rec where row: "first_row (intake_at tenant i) (db_intakes d) = Some row"
      "oi_status row = intake_accepted"
    and link: "review_link e tenant reviewer display (reviewed_row rv reviewer display now row)
        (d\<lparr>db_tick := db_tick d + 1\<rparr>) = Inr (cid, number, row', d2)"
    and out: "out = (intake_from_record row')\<lparr>opi_contract := cid, opi_contract_number := number\<rparr>"
    and d3: "d3 = enqueue_opportunity_link e (opi_tenant out) (opi_event out) (encode_link_callback out)
        (d2\<lparr>db_intakes := update_rows (\<lambda>x. oi_id x = oi_id row') (\<lambda>_. row') (db_intakes d2)\<rparr>)"
    and d': "d' = d3\<lparr>db_seq := db_seq d3 + 1, db_intake_reviews := db_intake_reviews d3 @ [rec]\<rparr>"
    by (rule review_intake_ok [OF assms(1,2)]) blast
  let ?row = "reviewed_row rv reviewer display now row"
  have "confirm_opportunity_link e tenant ?row reviewer display (d\<lparr>db_tick := db_tick d + 1\<rparr>) = Inr (cid, number, d2)"
    using link assms(3) by (auto simp: review_link_def res_bind_eq_ok reviewed_row_def)
  then obtain target now' where target: "find_contract (d\<lparr>db_tick := db_tick d + 1\<rparr>) tenant cid = Some target"
      "link_target_allowed target ?row"
    and rows: "db_contracts d2 = update_rows (contract_at tenant cid) (linked_row ?row reviewer now') (db_contracts d)"
    by (rule confirm_link_ok) simp
  have "db_contracts d' = db_contracts d2"
    using intake_frameD(1) [OF enqueue_link_frame(1)] by (simp add: d' d3)
  then have find: "find_contract d' t c = map_option (\<lambda>r. if contract_at tenant cid r then linked_row ?row reviewer now' r else r)
      (find_contract d t c)" for t c
    unfolding find_contract_def rows
    by (simp add: first_row_update_rows contract_at_def linked_row_def)
  have here: "find_contract d tenant cid = Some target" using target(1) by (simp add: find_contract_def)
  have cid: "opi_contract out = cid" by (simp add: out)
  have guards: "ordinary_contract_record target" "ct_status target \<notin> {StatusArchived, StatusTerminated}"
    "ct_counterparty_source target \<noteq> ''LOCAL''"
    "uint_value_or_zero (ct_crm_customer target) = oi_customer row
         \<and> trim_space (value_or_empty (ct_opportunity_id target)) \<in> {[], nat_str (oi_opportunity row)}
       \<or> uint_value_or_zero (ct_crm_customer target) = 0 \<and> \<not> approval_passed (ct_status target)"
    using target(2) by (auto simp: link_target_allowed_def reviewed_row_def Let_def split: if_split_asm)
  have "find_contract d' t c = find_contract d t c" if "(t, c) \<noteq> (tenant, cid)" for t c
    using that find_contract_SomeD [of d t c]
    by (cases "find_contract d t c") (auto simp: find contract_at_def)
  moreover have "find_contract d' tenant cid = Some (target\<lparr>ct_opportunity_id := Some (nat_str (oi_opportunity row)),
      ct_crm_customer := Some (oi_customer row), ct_updated_at := now', ct_updated_by := reviewer\<rparr>)"
    using here find_contract_SomeD [OF here] by (simp add: find contract_at_def linked_row_def reviewed_row_def)
  ultimately show ?thesis
    using row here guards unfolding cid
    by (intro exI [of _ row] exI [of _ target] exI [of _ now']) (auto simp: encode_link_callback_def cid)
qed

section \<open>An example\<close>

definition sample_intake :: intake_row where
  "sample_intake = \<lparr>oi_id = ''in1'', oi_tenant = ''t1'', oi_event = ''ev1'', oi_opportunity = 42, oi_event_version = 1,
     oi_customer = 7, oi_opportunity_no = ''O-42'', oi_contract_ref = ''c1'', oi_contract = None,
     oi_contract_number = None, oi_amount = ''1.00'', oi_occurred_at = 0, oi_source_request = None,
     oi_status = intake_accepted, oi_version = 1, oi_reviewed_by = None, oi_reviewer_name = None,
     oi_review_reason = None, oi_reviewed_at = None, oi_created_at = 0, oi_updated_at = 0\<rparr>"

definition sample_review :: intake_review where
  "sample_review = \<lparr>ir_decision = intake_link_confirmed, ir_reason = ''ok'', ir_version = 1\<rparr>"

definition intake_db :: db where "intake_db = (sample_db [sample_contract])\<lparr>db_intakes := [sample_intake]\<rparr>"

lemma intake_db_simps:
  "db_intakes intake_db = [sample_intake]" "db_intake_reviews intake_db = []" "db_audit intake_db = []"
  "db_contracts intake_db = [sample_contract]" "db_link_outbox intake_db = []" "db_tick intake_db = 0" "db_seq intake_db = 0"
  by (simp_all add: intake_db_def sample_db_def)

lemma sample_intake_simps:
  "oi_id sample_intake = ''in1''" "oi_tenant sample_intake = ''t1''" "oi_event sample_intake = ''ev1''"
  "oi_opportunity sample_intake = 42" "oi_customer sample_intake = 7" "oi_contract_ref sample_intake = ''c1''"
  "oi_status sample_intake = intake_accepted" "oi_version sample_intake = 1" "intake_accepted \<noteq> intake_link_confirmed"
  "ir_decision sample_review = intake_link_confirmed" "ir_version sample_review = 1"
  by (simp_all add: sample_intake_def sample_review_def intake_accepted_def intake_link_confirmed_def)

lemma sample_link_fields:
  "ct_number sample_contract = None" "ct_crm_customer sample_contract = Some 7" "ct_opportunity_id sample_contract = None"
  "trim_space ''c1'' = ''c1''" "trim_space [] = []"
  by (simp add: sample_contract_def, simp add: sample_contract_def, simp add: sample_contract_def, code_simp, code_simp)

lemma sample_reviewed:
  "\<exists>out d'. review_intake sample_db_env ''t1'' ''in1'' ''u9'' sample_review ''k'' ''h'' ''Rev'' intake_db = Inr (out, d')"
proof -
  have allowed: "link_target_allowed sample_contract (reviewed_row sample_review ''u9'' ''Rev'' 0 sample_intake)"
    by (simp add: link_target_allowed_def reviewed_row_def sample_intake_simps sample_link_fields sample_row_simps
        ordinary_contract_record_def json_empty_def uint_value_or_zero_def)
  have row: "oi_contract_ref (reviewed_row rv a b c r) = oi_contract_ref r"
    "oi_status (reviewed_row rv a b c r) = ir_decision rv" for rv a b c r by (simp_all add: reviewed_row_def)
  show ?thesis
    by (simp add: review_intake_def intake_db_simps intake_at_def sample_intake_simps read_clock_def review_link_def row
        confirm_opportunity_link_def sample_link_fields find_contract_def contract_at_def sample_row_simps
        number_matches_def resolve_link_target_def sample_env_simps allowed rows_affected_def insert_audit_def
        new_id_def insert_row_def enqueue_opportunity_link_def Let_def cong: let_weak_cong res_bind_weak)
qed

theorem intake_review_idempotent_witness:
  "\<exists>out d'. review_intake sample_db_env ''t1'' ''in1'' ''u9'' sample_review ''k'' ''h'' ''Rev'' intake_db = Inr (out, d')
     \<and> review_intake sample_db_env ''t1'' ''in1'' ''u9'' sample_review ''k'' ''h'' ''Rev'' d' = Inr (out, d')"
proof -
  obtain out d' where
    run: "review_intake sample_db_env ''t1'' ''in1'' ''u9'' sample_review ''k'' ''h'' ''Rev'' intake_db = Inr (out, d')"
    using sample_reviewed by blast
  with intake_review_idempotent [OF run] show ?thesis by blast
qed

theorem confirmed_link_guarded_witness:
  "\<exists>out d' target. review_intake sample_db_env ''t1'' ''in1'' ''u9'' sample_review ''k'' ''h'' ''Rev'' intake_db = Inr (out, d')
     \<and> find_contract d' ''t1'' (opi_contract out) = Some target \<and> ct_crm_customer target = Some 7"
proof -
  obtain out d' where
    run: "review_intake sample_db_env ''t1'' ''in1'' ''u9'' sample_review ''k'' ''h'' ''Rev'' intake_db = Inr (out, d')"
    using sample_reviewed by blast
  have "first_row (review_at ''t1'' ''in1'' ''k'') (db_intake_reviews intake_db) = None"
    by (simp add: intake_db_simps)
  from confirmed_link_guarded [OF run this sample_intake_simps(10)] run show ?thesis
    by (auto simp: intake_db_simps intake_at_def sample_intake_simps)
qed

end
