(* ===== verification/Administration.thy ===== *)
theory Administration
  imports Contract_Operations
begin

text \<open>
  Two stores an administrator works on: the approval rules with their optimistic version
  (\<^verbatim>\<open>rules.go\<close>) and the dead letters of the four integration queues
  (\<^verbatim>\<open>mysql/integration_outbox.go\<close>). The JSON columns of a rule hold the rule itself.
\<close>

section \<open>Rules\<close>

definition rule_clash :: "rule_row \<Rightarrow> rule_row \<Rightarrow> bool" where
  "rule_clash a b \<longleftrightarrow> rule_id (rl_rule a) = rule_id (rl_rule b)"

definition list_rules :: "db \<Rightarrow> string \<Rightarrow> bool \<Rightarrow> rule list" where
  "list_rules d tenant enabled_only =
     sort_key (\<lambda>r. - rule_priority r) (sort_key rule_id
       (map rl_rule (filter (\<lambda>r. rule_tenant_id (rl_rule r) = tenant \<and> (\<not> enabled_only \<or> rule_enabled (rl_rule r)))
          (db_rules d))))"

definition create_rule :: "env \<Rightarrow> rule \<Rightarrow> string \<Rightarrow> db \<Rightarrow> db result" where
  "create_rule e rule actor d =
     (let (now, d1) = read_clock e d;
          row = \<lparr>rl_rule = rule\<lparr>rule_version := 1\<rparr>, rl_created_at = now, rl_created_by = actor,
                 rl_updated_at = now, rl_updated_by = actor\<rparr>
      in res_bind (insert_row rule_clash row (db_rules d1)) (\<lambda>rows. ok (d1\<lparr>db_rules := rows\<rparr>)))"

definition rule_at :: "string \<Rightarrow> string \<Rightarrow> nat \<Rightarrow> rule_row \<Rightarrow> bool" where
  "rule_at tenant i version r \<longleftrightarrow> rule_tenant_id (rl_rule r) = tenant \<and> rule_id (rl_rule r) = i
     \<and> rule_version (rl_rule r) = version"

definition updated_rule :: "rule \<Rightarrow> string \<Rightarrow> instant \<Rightarrow> rule_row \<Rightarrow> rule_row" where
  "updated_rule rule actor now r =
     r\<lparr>rl_rule := (rl_rule r)\<lparr>rule_name := rule_name rule, rule_priority := rule_priority rule,
          rule_enabled := rule_enabled rule, rule_expression := rule_expression rule,
          rule_nodes := rule_nodes rule, rule_version := rule_version rule + 1\<rparr>,
       rl_updated_at := now, rl_updated_by := actor\<rparr>"

definition update_rule :: "env \<Rightarrow> rule \<Rightarrow> string \<Rightarrow> db \<Rightarrow> db result" where
  "update_rule e rule actor d =
     (let hit = rule_at (rule_tenant_id rule) (rule_id rule) (rule_version rule);
          (now, d1) = read_clock e d in
      if rows_affected hit (db_rules d1) \<noteq> 1 then fail ErrVersionConflict
      else ok (d1\<lparr>db_rules := update_rows hit (updated_rule rule actor now) (db_rules d1)\<rparr>))"

definition delete_rule :: "string \<Rightarrow> string \<Rightarrow> nat \<Rightarrow> db \<Rightarrow> db result" where
  "delete_rule tenant i version d =
     (let hit = rule_at tenant i version in
      if rows_affected hit (db_rules d) \<noteq> 1 then fail ErrVersionConflict
      else ok (d\<lparr>db_rules := filter (\<lambda>r. \<not> hit r) (db_rules d)\<rparr>))"

section \<open>Dead letters\<close>

definition outbox_financial :: string where "outbox_financial = ''financial''"
definition outbox_responsibility :: string where "outbox_responsibility = ''responsibility''"
definition outbox_project :: string where "outbox_project = ''project''"
definition outbox_link :: string where "outbox_link = ''link''"

definition integration_outbox_kinds :: "string list" where
  "integration_outbox_kinds = [outbox_financial, outbox_responsibility, outbox_project, outbox_link]"

definition valid_integration_outbox_kind :: "string \<Rightarrow> bool" where
  "valid_integration_outbox_kind kind \<longleftrightarrow> kind \<in> set integration_outbox_kinds"

definition integration_outbox_event :: "string \<Rightarrow> string" where
  "integration_outbox_event kind =
     (if kind = outbox_financial then ''contract.financial_effective.v1''
      else if kind = outbox_responsibility then ''contract.responsibility_changed.v1''
      else if kind = outbox_project then ''contract.activation''
      else if kind = outbox_link then ''crm.opportunity_contract_link''
      else [])"

record failed_event =
  fe_id :: string
  fe_kind :: string
  fe_aggregate :: string
  fe_event :: string
  fe_attempts :: nat
  fe_last_error :: string
  fe_created_at :: instant
  fe_updated_at :: instant

definition failed_event_of :: "string \<Rightarrow> ('p outbox_row \<Rightarrow> string) \<Rightarrow> 'p outbox_row \<Rightarrow> failed_event" where
  "failed_event_of kind aggregate r =
     \<lparr>fe_id = ob_id r, fe_kind = kind, fe_aggregate = aggregate r, fe_event = integration_outbox_event kind,
      fe_attempts = ob_attempts r, fe_last_error = value_or_empty (ob_last_error r),
      fe_created_at = ob_created_at r,
      fe_updated_at = (case ob_locked_at r of None \<Rightarrow> ob_created_at r
                       | Some t \<Rightarrow> if ob_created_at r < t then t else ob_created_at r)\<rparr>"

definition dead_list :: "string \<Rightarrow> string \<Rightarrow> nat \<Rightarrow> ('p outbox_row \<Rightarrow> string) \<Rightarrow> 'p queue \<Rightarrow> failed_event list" where
  "dead_list tenant kind limit aggregate q =
     map (failed_event_of kind aggregate) (take limit (sort_key (\<lambda>r. - ob_created_at r)
       (filter (\<lambda>r. ob_tenant r = tenant \<and> ob_status r = DsDead) q)))"

definition list_failed_integration_events :: "db \<Rightarrow> string \<Rightarrow> string \<Rightarrow> int \<Rightarrow> failed_event list result" where
  "list_failed_integration_events d tenant kind limit0 =
     (let limit = nat (if limit0 \<le> 0 \<or> limit0 > 200 then 100 else limit0) in
      if kind = outbox_financial then ok (dead_list tenant kind limit ob_key (db_financial_outbox d))
      else if kind = outbox_responsibility then ok (dead_list tenant kind limit ob_key (db_responsibility_outbox d))
      else if kind = outbox_project then ok (dead_list tenant kind limit ob_key (db_project_outbox d))
      else if kind = outbox_link then ok (dead_list tenant kind limit (\<lambda>r. lp_intake (ob_payload r)) (db_link_outbox d))
      else fail ErrValidation)"

text \<open>The attempts and the error of a dead row, and its revival, per table.\<close>

definition dead_prior :: "string \<Rightarrow> string \<Rightarrow> 'p queue \<Rightarrow> (nat \<times> string option) option" where
  "dead_prior tenant i q = map_option (\<lambda>r. (ob_attempts r, ob_last_error r)) (first_row (dead_row tenant i) q)"

definition outbox_prior :: "string \<Rightarrow> string \<Rightarrow> string \<Rightarrow> db \<Rightarrow> (nat \<times> string option) option" where
  "outbox_prior kind tenant i d =
     (if kind = outbox_financial then dead_prior tenant i (db_financial_outbox d)
      else if kind = outbox_responsibility then dead_prior tenant i (db_responsibility_outbox d)
      else if kind = outbox_project then dead_prior tenant i (db_project_outbox d)
      else dead_prior tenant i (db_link_outbox d))"

definition outbox_dead_rows :: "string \<Rightarrow> string \<Rightarrow> string \<Rightarrow> db \<Rightarrow> nat" where
  "outbox_dead_rows kind tenant i d =
     (if kind = outbox_financial then rows_affected (dead_row tenant i) (db_financial_outbox d)
      else if kind = outbox_responsibility then rows_affected (dead_row tenant i) (db_responsibility_outbox d)
      else if kind = outbox_project then rows_affected (dead_row tenant i) (db_project_outbox d)
      else rows_affected (dead_row tenant i) (db_link_outbox d))"

definition outbox_revive :: "string \<Rightarrow> string \<Rightarrow> string \<Rightarrow> instant \<Rightarrow> db \<Rightarrow> db" where
  "outbox_revive kind tenant i now d =
     (if kind = outbox_financial then d\<lparr>db_financial_outbox := retry_dead tenant i now (db_financial_outbox d)\<rparr>
      else if kind = outbox_responsibility
      then d\<lparr>db_responsibility_outbox := retry_dead tenant i now (db_responsibility_outbox d)\<rparr>
      else if kind = outbox_project then d\<lparr>db_project_outbox := retry_dead tenant i now (db_project_outbox d)\<rparr>
      else d\<lparr>db_link_outbox := retry_dead tenant i now (db_link_outbox d)\<rparr>)"

definition retry_actor :: "env \<Rightarrow> string \<Rightarrow> string" where
  "retry_actor e actor =
     (let a = (if trim_space actor = [] then ac_actor_id (env_meta e) else trim_space actor)
      in if a = [] then ''SYSTEM'' else a)"

definition retry_failed_integration_event ::
  "env \<Rightarrow> string \<Rightarrow> string \<Rightarrow> string \<Rightarrow> string \<Rightarrow> db \<Rightarrow> (bool \<times> db) result" where
  "retry_failed_integration_event e tenant kind i actor d =
     (if \<not> valid_integration_outbox_kind kind then fail ErrValidation
      else case outbox_prior kind tenant i d of
        None \<Rightarrow> ok (False, d)
      | Some (attempts, err) \<Rightarrow>
          let (now, d1) = read_clock e d; d2 = outbox_revive kind tenant i now d1 in
          if outbox_dead_rows kind tenant i d1 \<noteq> 1 then ok (False, d2)
          else res_bind (insert_audit e tenant
                 \<lparr>ae_actor = retry_actor e actor, ae_action = ''CONTRACT_MANAGEMENT:INTEGRATION_OUTBOX_RETRY'',
                  ae_resource_type = ''integration_outbox'', ae_resource_id = i,
                  ae_request = ac_request_id (env_meta e), ae_login_ip = ac_login_ip (env_meta e),
                  ae_client_ip = ac_client_ip (env_meta e), ae_ip_source = ac_ip_source (env_meta e),
                  ae_result = [],
                  ae_payload = [(''kind'', AvStr kind), (''id'', AvStr i),
                    (''event'', AvStr (integration_outbox_event kind)),
                    (''previous_attempts'', AvInt (int attempts)),
                    (''previous_last_error'', AvStr (value_or_empty err))]\<rparr> d2) (\<lambda>d3. ok (True, d3)))"

definition count_dead :: "db \<Rightarrow> string \<Rightarrow> nat" where
  "count_dead d kind =
     (if kind = outbox_financial then rows_affected (\<lambda>r. ob_status r = DsDead) (db_financial_outbox d)
      else if kind = outbox_responsibility then rows_affected (\<lambda>r. ob_status r = DsDead) (db_responsibility_outbox d)
      else if kind = outbox_project then rows_affected (\<lambda>r. ob_status r = DsDead) (db_project_outbox d)
      else rows_affected (\<lambda>r. ob_status r = DsDead) (db_link_outbox d))"

definition count_dead_integration_events :: "db \<Rightarrow> (string \<times> nat) list" where
  "count_dead_integration_events d = map (\<lambda>kind. (kind, count_dead d kind)) integration_outbox_kinds"

section \<open>Rule versions\<close>

text \<open>the version of an approval rule is an optimistic lock: of two updates or deletions made from the
  same version of a rule, whatever they carry, the second fails with a version conflict.\<close>

theorem rule_update_locks:
  assumes "update_rule e rule actor d = Inr d'" and "rule_tenant_id other = rule_tenant_id rule"
    and "rule_id other = rule_id rule" and "rule_version other = rule_version rule"
  shows "update_rule e' other actor' d' = Inl ErrVersionConflict
    \<and> delete_rule (rule_tenant_id other) (rule_id other) (rule_version other) d' = Inl ErrVersionConflict"
proof -
  let ?hit = "rule_at (rule_tenant_id rule) (rule_id rule) (rule_version rule)"
  from assms(1) obtain now where rows: "db_rules d' = update_rows ?hit (updated_rule rule actor now) (db_rules d)"
    by (auto simp: update_rule_def read_clock_def Let_def split: if_split_asm)
  have "filter ?hit (update_rows ?hit (updated_rule rule actor now) rs) = []" for rs
    by (induction rs) (auto simp: rule_at_def updated_rule_def)
  then have "rows_affected ?hit (db_rules d') = 0" by (simp add: rows rows_affected_def)
  then show ?thesis using assms(2-4) by (simp add: update_rule_def delete_rule_def read_clock_def)
qed

definition stored_rule :: rule where "stored_rule = sample_rule ''r1'' 1 500"

theorem rule_update_locks_witness:
  "\<exists>d'. update_rule sample_db_env stored_rule ''u1'' ((sample_db [])\<lparr>db_rules := [\<lparr>rl_rule = stored_rule,
         rl_created_at = 0, rl_created_by = ''u1'', rl_updated_at = 0, rl_updated_by = ''u1''\<rparr>]\<rparr>) = Inr d'
     \<and> update_rule sample_db_env (stored_rule\<lparr>rule_name := ''m''\<rparr>) ''u2'' d' = Inl ErrVersionConflict"
proof -
  let ?d = "(sample_db [])\<lparr>db_rules := [\<lparr>rl_rule = stored_rule, rl_created_at = 0, rl_created_by = ''u1'',
      rl_updated_at = 0, rl_updated_by = ''u1''\<rparr>]\<rparr>"
  have "\<exists>d'. update_rule sample_db_env stored_rule ''u1'' ?d = Inr d'"
    by (simp add: update_rule_def read_clock_def rows_affected_def rule_at_def)
  then obtain d' where run: "update_rule sample_db_env stored_rule ''u1'' ?d = Inr d'" by blast
  from rule_update_locks [OF run, of "stored_rule\<lparr>rule_name := ''m''\<rparr>"] run show ?thesis by simp
qed

end
