(* ===== verification/Handover.thy ===== *)
theory Handover
  imports Contract_Operations
begin

text \<open>
  The hand-over of a leaving user's responsibilities (\<^verbatim>\<open>application/handover.go\<close>,
  \<^verbatim>\<open>mysql/handover.go\<close>): a freeze that keeps new responsibilities away from the user, the paged list of
  what the user owns, the transfer of one contract with its idempotent receipt, and the transfer of an approval
  task through the workflow. The owner directory and the workflow command are parameters: \<open>owners\<close> is
  \<open>None\<close> when no directory is wired, and \<open>dispatch\<close> likewise.
\<close>

section \<open>Freezes\<close>

record freeze =
  fz_id :: string
  fz_tenant :: string
  fz_batch :: string
  fz_request :: string
  fz_user :: string
  fz_status :: string
  fz_frozen_at :: instant
  fz_released_at :: "instant option"
  fz_outcome :: string

definition freeze_frozen :: string where "freeze_frozen = ''FROZEN''"
definition freeze_released :: string where "freeze_released = ''RELEASED''"

definition freeze_clash :: "freeze_row \<Rightarrow> freeze_row \<Rightarrow> bool" where
  "freeze_clash a b \<longleftrightarrow> hf_id a = hf_id b
     \<or> (hf_tenant a = hf_tenant b \<and> hf_batch a = hf_batch b \<and> hf_user a = hf_user b)"

definition freeze_from_record :: "freeze_row \<Rightarrow> freeze" where
  "freeze_from_record r =
     \<lparr>fz_id = hf_id r, fz_tenant = hf_tenant r, fz_batch = hf_batch r, fz_request = hf_request r,
      fz_user = hf_user r, fz_status = hf_status r, fz_frozen_at = hf_frozen_at r,
      fz_released_at = hf_released_at r, fz_outcome = value_or_empty (hf_outcome r)\<rparr>"

definition new_freeze_row :: "freeze \<Rightarrow> freeze_row" where
  "new_freeze_row f =
     \<lparr>hf_id = fz_id f, hf_tenant = fz_tenant f, hf_batch = fz_batch f, hf_request = fz_request f,
      hf_user = fz_user f, hf_status = fz_status f, hf_frozen_at = fz_frozen_at f, hf_released_at = None,
      hf_outcome = None, hf_created_at = fz_frozen_at f, hf_updated_at = fz_frozen_at f\<rparr>"

definition create_freeze :: "freeze \<Rightarrow> db \<Rightarrow> (freeze \<times> bool \<times> db) result" where
  "create_freeze f d =
     (case insert_row freeze_clash (new_freeze_row f) (db_freezes d) of
        Inr rows \<Rightarrow> ok (freeze_from_record (new_freeze_row f), True, d\<lparr>db_freezes := rows\<rparr>)
      | Inl _ \<Rightarrow>
          (case first_row (\<lambda>r. hf_tenant r = fz_tenant f \<and> hf_batch r = fz_batch f \<and> hf_user r = fz_user f)
                  (db_freezes d) of
             None \<Rightarrow> fail err_no_record
           | Some r \<Rightarrow> ok (freeze_from_record r, False, d)))"

definition in_batch :: "string \<Rightarrow> string \<Rightarrow> freeze_row \<Rightarrow> bool" where
  "in_batch tenant batch r \<longleftrightarrow> hf_tenant r = tenant \<and> hf_batch r = batch"

definition release_freeze :: "string \<Rightarrow> string \<Rightarrow> string \<Rightarrow> instant \<Rightarrow> db \<Rightarrow> db result" where
  "release_freeze tenant batch outcome now d =
     (let hit = (\<lambda>r. in_batch tenant batch r \<and> hf_status r = freeze_frozen) in
      if rows_affected hit (db_freezes d) = 0 \<and> rows_affected (in_batch tenant batch) (db_freezes d) = 0
      then fail ErrHandoverNotFound
      else ok (d\<lparr>db_freezes := update_rows hit (\<lambda>r. r\<lparr>hf_status := freeze_released,
             hf_released_at := Some now, hf_outcome := Some outcome, hf_updated_at := now\<rparr>) (db_freezes d)\<rparr>))"

definition active_freeze :: "db \<Rightarrow> string \<Rightarrow> string \<Rightarrow> freeze option" where
  "active_freeze d tenant user =
     (case sort_key (\<lambda>r. - hf_frozen_at r)
             (filter (\<lambda>r. hf_tenant r = tenant \<and> hf_user r = user \<and> hf_status r = freeze_frozen) (db_freezes d)) of
        [] \<Rightarrow> None | r # _ \<Rightarrow> Some (freeze_from_record r))"

section \<open>Responsibilities\<close>

record responsibility =
  hp_type :: string
  hp_id :: string
  hp_name :: string
  hp_owner :: string
  hp_category :: string
  hp_version :: nat
  hp_updated_at :: instant

definition category_contract_owner :: string where "category_contract_owner = ''CONTRACT_OWNER''"
definition category_approval_assignee :: string where "category_approval_assignee = ''APPROVAL_ASSIGNEE''"
definition resource_approval_task :: string where "resource_approval_task = ''approval_task''"

definition handover_closed_statuses :: "status list" where
  "handover_closed_statuses = [StatusArchived, StatusTerminated, StatusCompleted]"

definition contract_responsibility :: "contract_row \<Rightarrow> responsibility" where
  "contract_responsibility r =
     \<lparr>hp_type = ''contract'', hp_id = ct_id r, hp_name = ct_title r, hp_owner = ct_owner r,
      hp_category = category_contract_owner, hp_version = ct_version r, hp_updated_at = ct_updated_at r\<rparr>"

definition owned_contracts :: "db \<Rightarrow> string \<Rightarrow> string \<Rightarrow> contract_row list" where
  "owned_contracts d tenant user =
     filter (\<lambda>r. ct_tenant r = tenant \<and> ct_owner r = user \<and> ct_status r \<notin> set handover_closed_statuses)
       (db_contracts d)"

definition list_contract_responsibilities ::
  "db \<Rightarrow> string \<Rightarrow> string \<Rightarrow> string \<Rightarrow> nat \<Rightarrow> responsibility list" where
  "list_contract_responsibilities d tenant user cursor limit =
     map contract_responsibility (take limit (sort_key ct_id
       (filter (\<lambda>r. trim_space cursor = [] \<or> trim_space cursor < ct_id r) (owned_contracts d tenant user))))"

definition task_key :: "task_row \<Rightarrow> string" where
  "task_key t = tk_approval t @ '':'' @ tk_node t"

definition active_tasks :: "db \<Rightarrow> string \<Rightarrow> string \<Rightarrow> task_row list" where
  "active_tasks d tenant user =
     filter (\<lambda>t. tk_assignee t = user \<and> tk_status t = NodeActive
        \<and> list_ex (\<lambda>i. in_id i = tk_approval t \<and> in_tenant i = tenant \<and> in_status i = AStatusRunning)
            (db_instances d)) (db_tasks d)"

definition task_responsibility :: "string \<Rightarrow> task_row \<Rightarrow> responsibility" where
  "task_responsibility user t =
     \<lparr>hp_type = resource_approval_task, hp_id = task_key t, hp_name = tk_node_name t, hp_owner = user,
      hp_category = category_approval_assignee, hp_version = 0,
      hp_updated_at = (case tk_started_at t of None \<Rightarrow> zero_time | Some s \<Rightarrow> s)\<rparr>"

definition list_approval_responsibilities ::
  "db \<Rightarrow> string \<Rightarrow> string \<Rightarrow> string \<Rightarrow> nat \<Rightarrow> responsibility list" where
  "list_approval_responsibilities d tenant user cursor limit =
     map (task_responsibility user) (take limit (sort_key tk_approval (sort_key tk_node
       (filter (\<lambda>t. trim_space cursor = [] \<or> trim_space cursor < task_key t) (active_tasks d tenant user)))))"

definition list_owned_responsibilities ::
  "db \<Rightarrow> string \<Rightarrow> string \<Rightarrow> string \<Rightarrow> int \<Rightarrow> responsibility list" where
  "list_owned_responsibilities d tenant user cursor limit0 =
     (let limit = nat (if limit0 \<le> 0 then 100 else limit0)
      in take limit (sort_key hp_id (list_contract_responsibilities d tenant user cursor limit
                                     @ list_approval_responsibilities d tenant user cursor limit)))"

text \<open>The loop over the pages; \<open>None\<close> would mean that it does not end.\<close>

partial_function (option) count_responsibilities ::
  "db \<Rightarrow> string \<Rightarrow> string \<Rightarrow> string \<Rightarrow> nat \<Rightarrow> nat option" where
  [code]: "count_responsibilities d tenant user cursor n =
     (let page = list_owned_responsibilities d tenant user cursor 200 in
      if length page < 200 then Some (n + length page)
      else count_responsibilities d tenant user (hp_id (last page)) (n + length page))"

definition responsibilities ::
  "db \<Rightarrow> string \<Rightarrow> string \<Rightarrow> string \<Rightarrow> int \<Rightarrow> (responsibility list \<times> string) result" where
  "responsibilities d tenant0 user0 cursor limit0 =
     (let tenant = trim_space tenant0; user = trim_space user0;
          limit = (if limit0 \<le> 0 \<or> limit0 > 200 then 100 else limit0);
          items = map (\<lambda>x. let y = (if trim_space (hp_type x) = [] then x\<lparr>hp_type := ''contract''\<rparr> else x)
                           in if trim_space (hp_category y) = [] then y\<lparr>hp_category := category_contract_owner\<rparr> else y)
                    (list_owned_responsibilities d tenant user (trim_space cursor) limit)
      in if tenant = [] \<or> user = [] then fail ErrHandoverValidation
         else ok (items, if int (length items) = limit then hp_id (last items) else []))"

definition handover_freeze ::
  "env \<Rightarrow> string \<Rightarrow> string \<Rightarrow> string \<Rightarrow> string \<Rightarrow> db \<Rightarrow> (freeze \<times> nat option \<times> db) result" where
  "handover_freeze e tenant0 batch0 request0 user0 d =
     (let tenant = trim_space tenant0; batch = trim_space batch0; request = trim_space request0;
          user = trim_space user0 in
      if tenant = [] \<or> batch = [] \<or> request = [] \<or> user = [] then fail ErrHandoverValidation
      else
        let (now, d1) = read_clock e d; (i, d2) = new_id e d1 in
        res_bind (create_freeze \<lparr>fz_id = i, fz_tenant = tenant, fz_batch = batch, fz_request = request,
            fz_user = user, fz_status = freeze_frozen, fz_frozen_at = now, fz_released_at = None,
            fz_outcome = []\<rparr> d2) (\<lambda>(f, _, d3).
          ok (f, count_responsibilities d3 tenant user [] 0, d3)))"

section \<open>Transfers\<close>

record transfer_input =
  ti_tenant :: string
  ti_batch :: string
  ti_item :: string
  ti_resource_type :: string
  ti_resource :: string
  ti_from :: string
  ti_to :: string
  ti_to_name :: string
  ti_expected_version :: nat
  ti_key :: string

record receipt =
  rt_tenant :: string
  rt_batch :: string
  rt_item :: string
  rt_resource_type :: string
  rt_resource :: string
  rt_from :: string
  rt_to :: string
  rt_key :: string
  rt_status :: string
  rt_applied_version :: nat
  rt_reason :: string
  rt_evidence :: string
  rt_received_at :: instant

definition receipt_applied :: string where "receipt_applied = ''APPLIED''"
definition receipt_rejected :: string where "receipt_rejected = ''REJECTED''"
definition receipt_retryable :: string where "receipt_retryable = ''RETRYABLE''"

definition receipt_from_record :: "receipt_row \<Rightarrow> receipt" where
  "receipt_from_record r =
     \<lparr>rt_tenant = hr_tenant r, rt_batch = hr_batch r, rt_item = hr_item r,
      rt_resource_type = hr_resource_type r, rt_resource = hr_resource r, rt_from = hr_from r, rt_to = hr_to r,
      rt_key = hr_key r, rt_status = hr_status r, rt_applied_version = hr_applied_version r,
      rt_reason = value_or_empty (hr_reason r), rt_evidence = value_or_empty (hr_evidence r),
      rt_received_at = hr_received_at r\<rparr>"

definition optional_string :: "string \<Rightarrow> string option" where
  "optional_string s = (if trim_space s = [] then None else Some (trim_space s))"

definition receipt_of :: "string \<Rightarrow> string \<Rightarrow> receipt_row \<Rightarrow> bool" where
  "receipt_of tenant key r \<longleftrightarrow> hr_tenant r = tenant \<and> hr_key r = key"

definition receipt_clash :: "receipt_row \<Rightarrow> receipt_row \<Rightarrow> bool" where
  "receipt_clash a b \<longleftrightarrow> hr_id a = hr_id b \<or> receipt_of (hr_tenant a) (hr_key a) b"

definition new_receipt_row ::
  "string \<Rightarrow> transfer_input \<Rightarrow> string \<Rightarrow> nat \<Rightarrow> string \<Rightarrow> string \<Rightarrow> instant \<Rightarrow> receipt_row" where
  "new_receipt_row i t status version reason evidence now =
     \<lparr>hr_id = i, hr_tenant = ti_tenant t, hr_batch = ti_batch t, hr_item = ti_item t,
      hr_resource_type = ti_resource_type t, hr_resource = ti_resource t, hr_from = ti_from t, hr_to = ti_to t,
      hr_key = ti_key t, hr_status = status, hr_applied_version = version, hr_reason = optional_string reason,
      hr_evidence = optional_string evidence, hr_received_at = now, hr_created_at = now\<rparr>"

definition find_receipt :: "db \<Rightarrow> string \<Rightarrow> string \<Rightarrow> receipt option" where
  "find_receipt d tenant key = map_option receipt_from_record (first_row (receipt_of tenant key) (db_receipts d))"

definition store_receipt :: "receipt_row \<Rightarrow> db \<Rightarrow> (receipt \<times> db) result" where
  "store_receipt row d =
     res_bind (insert_row receipt_clash row (db_receipts d)) (\<lambda>rows.
       ok (receipt_from_record row, d\<lparr>db_receipts := rows\<rparr>))"

definition owner_row :: "transfer_input \<Rightarrow> instant \<Rightarrow> contract_row \<Rightarrow> contract_row" where
  "owner_row t now r =
     r\<lparr>ct_owner := ti_to t, ct_owner_identity := Some (ti_to t), ct_version := ct_version r + 1,
       ct_updated_at := now, ct_updated_by := ti_to t,
       ct_owner_name := (if trim_space (ti_to_name t) \<noteq> [] then ti_to_name t else ct_owner_name r)\<rparr>"

definition transferable :: "transfer_input \<Rightarrow> contract_row \<Rightarrow> bool" where
  "transferable t r \<longleftrightarrow> contract_at (ti_tenant t) (ti_resource t) r
     \<and> ct_version r = ti_expected_version t \<and> ct_owner r = ti_from t"

definition transfer_ownership :: "env \<Rightarrow> transfer_input \<Rightarrow> instant \<Rightarrow> db \<Rightarrow> (receipt \<times> db) result" where
  "transfer_ownership e t now d =
     (case first_row (receipt_of (ti_tenant t) (ti_key t)) (db_receipts d) of
        Some r \<Rightarrow> ok (receipt_from_record r, d)
      | None \<Rightarrow>
          (case find_contract d (ti_tenant t) (ti_resource t) of
             None \<Rightarrow> fail ErrHandoverNotFound
           | Some r \<Rightarrow>
               if \<not> ordinary_contract_record r then fail ErrImportCorrectionRequired
               else if ct_version r \<noteq> ti_expected_version t \<or> ct_owner r \<noteq> ti_from t then
                 (let (i, d1) = new_id e d
                  in store_receipt (new_receipt_row i t receipt_rejected 0 ''CONTRACT_VERSION_CONFLICT'' [] now) d1)
               else if rows_affected (transferable t) (db_contracts d) \<noteq> 1 then fail ErrHandoverConflict
               else res_bind (enqueue_responsibility e (ti_tenant t) (ti_resource t)
                    (d\<lparr>db_contracts := update_rows (transferable t) (owner_row t now) (db_contracts d)\<rparr>)) (\<lambda>d1.
                  let (i, d2) = new_id e d1
                  in store_receipt (new_receipt_row i t receipt_applied (ti_expected_version t + 1) []
                       (''contract:'' @ ti_resource t) now) d2)))"

definition save_receipt :: "env \<Rightarrow> receipt \<Rightarrow> db \<Rightarrow> db" where
  "save_receipt e r d =
     (let (i, d1) = new_id e d; (now, d2) = read_clock e d1;
          row = \<lparr>hr_id = i, hr_tenant = rt_tenant r, hr_batch = rt_batch r, hr_item = rt_item r,
                 hr_resource_type = rt_resource_type r, hr_resource = rt_resource r, hr_from = rt_from r,
                 hr_to = rt_to r, hr_key = rt_key r, hr_status = rt_status r,
                 hr_applied_version = rt_applied_version r, hr_reason = optional_string (rt_reason r),
                 hr_evidence = optional_string (rt_evidence r), hr_received_at = rt_received_at r,
                 hr_created_at = now\<rparr>
      in d2\<lparr>db_receipts := insert_ignore receipt_clash row (db_receipts d2)\<rparr>)"

section \<open>The service\<close>

record user_reference =
  ur_user_id :: string
  ur_display_name :: string
  ur_roles :: "string list"

type_synonym owner_directory = "(string \<Rightarrow> string \<Rightarrow> user_reference result) option"

text \<open>The arguments: tenant, approval, node, from, to, idempotency key, reason; the answer is the evidence.\<close>

type_synonym approval_dispatch =
  "(string \<Rightarrow> string \<Rightarrow> string \<Rightarrow> string \<Rightarrow> string \<Rightarrow> string \<Rightarrow> string \<Rightarrow> string result) option"

definition trim_transfer :: "transfer_input \<Rightarrow> transfer_input" where
  "trim_transfer t =
     t\<lparr>ti_tenant := trim_space (ti_tenant t), ti_batch := trim_space (ti_batch t), ti_item := trim_space (ti_item t),
       ti_resource_type := trim_space (ti_resource_type t), ti_resource := trim_space (ti_resource t),
       ti_from := trim_space (ti_from t), ti_to := trim_space (ti_to t), ti_key := trim_space (ti_key t)\<rparr>"

definition resolve_successor :: "owner_directory \<Rightarrow> transfer_input \<Rightarrow> transfer_input result" where
  "resolve_successor owners t =
     (case owners of
        None \<Rightarrow> ok t
      | Some resolve \<Rightarrow>
          res_bind (resolve (ti_tenant t) (ti_to t)) (\<lambda>owner.
            if trim_space (ur_user_id owner) \<noteq> ti_to t \<or> trim_space (ur_display_name owner) = []
            then fail ErrHandoverValidation
            else ok (t\<lparr>ti_to_name := trim_space (ur_display_name owner)\<rparr>)))"

text \<open>\<^verbatim>\<open>strings.Cut\<close> at a colon.\<close>

definition cut_colon :: "string \<Rightarrow> (string \<times> string) option" where
  "cut_colon s = (case dropWhile (\<lambda>c. c \<noteq> CHR '':'') s of [] \<Rightarrow> None
                  | _ # rest \<Rightarrow> Some (takeWhile (\<lambda>c. c \<noteq> CHR '':'') s, rest))"

definition task_receipt :: "transfer_input \<Rightarrow> instant \<Rightarrow> string \<Rightarrow> string \<Rightarrow> string \<Rightarrow> receipt" where
  "task_receipt t now status reason evidence =
     \<lparr>rt_tenant = ti_tenant t, rt_batch = ti_batch t, rt_item = ti_item t,
      rt_resource_type = ti_resource_type t, rt_resource = ti_resource t, rt_from = ti_from t, rt_to = ti_to t,
      rt_key = ti_key t, rt_status = status, rt_applied_version = 0, rt_reason = reason, rt_evidence = evidence,
      rt_received_at = now\<rparr>"

definition transfer_approval_task ::
  "env \<Rightarrow> approval_dispatch \<Rightarrow> transfer_input \<Rightarrow> db \<Rightarrow> (receipt \<times> db) result" where
  "transfer_approval_task e dispatch t d =
     (let (now, d1) = read_clock e d in
      case cut_colon (ti_resource t) of
        None \<Rightarrow> fail ErrHandoverValidation
      | Some (approval, node) \<Rightarrow>
          if trim_space approval = [] \<or> trim_space node = [] then fail ErrHandoverValidation
          else (case dispatch of
              None \<Rightarrow> ok (task_receipt t now receipt_retryable ''APPROVAL_DISPATCH_UNAVAILABLE'' [], d1)
            | Some run \<Rightarrow>
                (case run (ti_tenant t) approval node (ti_from t) (ti_to t) (ti_key t) (''handover:'' @ ti_batch t) of
                   Inl _ \<Rightarrow> ok (task_receipt t now receipt_retryable ''APPROVAL_COMMAND_FAILED'' [], d1)
                 | Inr evidence \<Rightarrow>
                     let r = task_receipt t now receipt_applied [] evidence in ok (r, save_receipt e r d1))))"

definition handover_transfer ::
  "env \<Rightarrow> owner_directory \<Rightarrow> approval_dispatch \<Rightarrow> transfer_input \<Rightarrow> db \<Rightarrow> (receipt \<times> db) result" where
  "handover_transfer e owners dispatch t0 d =
     (let t = trim_transfer t0 in
      if ti_tenant t = [] \<or> ti_batch t = [] \<or> ti_item t = [] \<or> ti_resource t = [] \<or> ti_from t = []
         \<or> ti_to t = [] \<or> ti_key t = [] then fail ErrHandoverValidation
      else if ti_from t = ti_to t then fail ErrHandoverValidation
      else case find_receipt d (ti_tenant t) (ti_key t) of
        Some r \<Rightarrow> ok (r, d)
      | None \<Rightarrow>
          if (case active_freeze d (ti_tenant t) (ti_to t) of None \<Rightarrow> False | Some f \<Rightarrow> fz_status f = freeze_frozen)
          then fail ErrHandoverFrozen
          else res_bind (resolve_successor owners t) (\<lambda>t1.
            if ti_resource_type t1 = resource_approval_task then transfer_approval_task e dispatch t1 d
            else let (now, d1) = read_clock e d in transfer_ownership e t1 now d1))"

definition handover_receipt :: "db \<Rightarrow> string \<Rightarrow> string \<Rightarrow> receipt result" where
  "handover_receipt d tenant key =
     (case find_receipt d (trim_space tenant) (trim_space key) of
        None \<Rightarrow> fail ErrHandoverNotFound | Some r \<Rightarrow> ok r)"

definition handover_complete :: "env \<Rightarrow> string \<Rightarrow> string \<Rightarrow> string \<Rightarrow> db \<Rightarrow> db result" where
  "handover_complete e tenant0 batch0 outcome0 d =
     (let tenant = trim_space tenant0; batch = trim_space batch0; outcome = to_upper (trim_space outcome0) in
      if tenant = [] \<or> batch = [] \<or> (outcome \<noteq> ''COMPLETED'' \<and> outcome \<noteq> ''CANCELLED'')
      then fail ErrHandoverValidation
      else let (now, d1) = read_clock e d in release_freeze tenant batch outcome now d1)"

text \<open>\<open>wired\<close>: whether the service has a freeze checker.\<close>

definition ensure_owner_not_frozen :: "bool \<Rightarrow> db \<Rightarrow> string \<Rightarrow> string \<Rightarrow> unit result" where
  "ensure_owner_not_frozen wired d tenant owner =
     (if \<not> wired \<or> trim_space owner = [] then ok ()
      else case active_freeze d tenant (trim_space owner) of
        None \<Rightarrow> ok ()
      | Some f \<Rightarrow> if fz_status f = freeze_frozen then fail ErrHandoverFrozen else ok ())"

section \<open>A transfer is applied once\<close>

lemma store_receipt_ok:
  "store_receipt row d = Inr (rc, d') \<longleftrightarrow> rc = receipt_from_record row \<and> d' = d\<lparr>db_receipts := db_receipts d @ [row]\<rparr>
     \<and> (\<forall>x \<in> set (db_receipts d). \<not> receipt_clash row x)"
  by (auto simp: store_receipt_def res_bind_eq_ok insert_row_ok)

lemma transfer_cases:
  assumes "transfer_ownership e t now d = Inr (rc, d')"
  obtains (replay) r where "first_row (receipt_of (ti_tenant t) (ti_key t)) (db_receipts d) = Some r"
      "rc = receipt_from_record r" "d' = d"
  | (rejected) r row where "first_row (receipt_of (ti_tenant t) (ti_key t)) (db_receipts d) = None"
      "find_contract d (ti_tenant t) (ti_resource t) = Some r"
      "ct_version r \<noteq> ti_expected_version t \<or> ct_owner r \<noteq> ti_from t"
      "row = new_receipt_row (env_ulid e (db_seq d)) t receipt_rejected 0 ''CONTRACT_VERSION_CONFLICT'' [] now"
      "rc = receipt_from_record row" "d' = d\<lparr>db_seq := db_seq d + 1, db_receipts := db_receipts d @ [row]\<rparr>"
  | (applied) r d1 row where "first_row (receipt_of (ti_tenant t) (ti_key t)) (db_receipts d) = None"
      "find_contract d (ti_tenant t) (ti_resource t) = Some r" "ordinary_contract_record r"
      "ct_version r = ti_expected_version t" "ct_owner r = ti_from t"
      "enqueue_responsibility e (ti_tenant t) (ti_resource t)
         (d\<lparr>db_contracts := update_rows (transferable t) (owner_row t now) (db_contracts d)\<rparr>) = Inr d1"
      "row = new_receipt_row (env_ulid e (db_seq d1)) t receipt_applied (ti_expected_version t + 1) []
         (''contract:'' @ ti_resource t) now"
      "rc = receipt_from_record row" "d' = d1\<lparr>db_seq := db_seq d1 + 1, db_receipts := db_receipts d1 @ [row]\<rparr>"
proof (cases "first_row (receipt_of (ti_tenant t) (ti_key t)) (db_receipts d)")
  case (Some r)
  from assms Some have "rc = receipt_from_record r" "d' = d" by (simp_all add: transfer_ownership_def)
  then show ?thesis by (rule replay [OF Some])
next
  case None
  with assms obtain r where r: "find_contract d (ti_tenant t) (ti_resource t) = Some r" "ordinary_contract_record r"
    by (auto simp: transfer_ownership_def split: option.splits if_split_asm)
  show ?thesis
  proof (cases "ct_version r \<noteq> ti_expected_version t \<or> ct_owner r \<noteq> ti_from t")
    case True
    with assms None r have "store_receipt (new_receipt_row (env_ulid e (db_seq d)) t receipt_rejected 0
        ''CONTRACT_VERSION_CONFLICT'' [] now) (d\<lparr>db_seq := db_seq d + 1\<rparr>) = Inr (rc, d')"
      by (simp add: transfer_ownership_def new_id_def)
    then show ?thesis unfolding store_receipt_ok by (elim conjE) (rule rejected [OF None r(1) True refl], simp_all)
  next
    case False
    with assms None r obtain d1 where d1: "enqueue_responsibility e (ti_tenant t) (ti_resource t)
         (d\<lparr>db_contracts := update_rows (transferable t) (owner_row t now) (db_contracts d)\<rparr>) = Inr d1"
      and st: "store_receipt (new_receipt_row (env_ulid e (db_seq d1)) t receipt_applied (ti_expected_version t + 1) []
         (''contract:'' @ ti_resource t) now) (d1\<lparr>db_seq := db_seq d1 + 1\<rparr>) = Inr (rc, d')"
      by (auto simp: transfer_ownership_def new_id_def res_bind_eq_ok split: if_split_asm)
    from False have same: "ct_version r = ti_expected_version t" "ct_owner r = ti_from t" by simp_all
    from st show ?thesis
      unfolding store_receipt_ok by (elim conjE) (rule applied [OF None r same d1 refl], simp_all)
  qed
qed

lemma receipt_row_of: "receipt_of (ti_tenant t) (ti_key t) (new_receipt_row i t status version reason evidence now)"
  by (simp add: receipt_of_def new_receipt_row_def)

lemma enqueue_receipts:
  assumes "enqueue_responsibility e tenant cid d = Inr d'"
  shows "db_receipts d' = db_receipts d"
proof -
  obtain r where "find_contract d tenant cid = Some r" using enqueue_needs_contract [OF assms] by blast
  from enqueue_responsibility_ok(1) [OF assms this] show ?thesis by (rule responsibility_frameD)
qed

text \<open>the key of a transfer makes it idempotent: whatever is sent under the same key afterwards gets the
  first receipt back, and nothing changes.\<close>

theorem transfer_idempotent:
  assumes "transfer_ownership e t now d = Inr (rc, d')"
    and "ti_tenant t' = ti_tenant t" and "ti_key t' = ti_key t"
  shows "transfer_ownership e' t' now' d' = Inr (rc, d')"
  using assms(1)
proof (cases rule: transfer_cases)
  case (replay r)
  with assms show ?thesis by (simp add: transfer_ownership_def)
next
  case (rejected r row)
  then have "first_row (receipt_of (ti_tenant t) (ti_key t)) (db_receipts d') = Some row"
    by (simp add: first_row_append receipt_row_of)
  with rejected(5) assms(2,3) show ?thesis by (simp add: transfer_ownership_def)
next
  case (applied r d1 row)
  have "db_receipts d1 = db_receipts d" using enqueue_receipts [OF applied(6)] by simp
  with applied have "first_row (receipt_of (ti_tenant t) (ti_key t)) (db_receipts d') = Some row"
    by (simp add: first_row_append receipt_row_of)
  with applied(8) assms(2,3) show ?thesis by (simp add: transfer_ownership_def)
qed

text \<open>C40: a receipt tells the truth. Of a first request, an applied receipt means that the contract, which had
  the expected version and owner, now belongs to the successor with the next version, and that its responsibility
  stream says so; a rejected receipt means that no contract changed. No other contract changes in either case.\<close>

theorem transfer_receipt_truthful:
  assumes "transfer_ownership e t now d = Inr (rc, d')"
    and "first_row (receipt_of (ti_tenant t) (ti_key t)) (db_receipts d) = None"
  shows "(rt_status rc = receipt_rejected \<and> db_contracts d' = db_contracts d)
    \<or> (rt_status rc = receipt_applied \<and> rt_applied_version rc = ti_expected_version t + 1
        \<and> (\<exists>r r' s. find_contract d (ti_tenant t) (ti_resource t) = Some r \<and> ct_owner r = ti_from t
             \<and> find_contract d' (ti_tenant t) (ti_resource t) = Some r' \<and> ct_owner r' = ti_to t
             \<and> ct_owner_identity r' = Some (ti_to t) \<and> ct_version r' = rt_applied_version rc
             \<and> ct_status r' = ct_status r
             \<and> stream_of d' (ti_tenant t) (ti_resource t) = Some s \<and> rs_owner s = ti_to t)
        \<and> (\<forall>tn c. (tn, c) = (ti_tenant t, ti_resource t) \<or> find_contract d' tn c = find_contract d tn c))"
  using assms(1)
proof (cases rule: transfer_cases)
  case (replay r)
  with assms(2) show ?thesis by simp
next
  case (rejected r row)
  then show ?thesis by (simp add: receipt_from_record_def new_receipt_row_def)
next
  case (applied r d1 row)
  let ?rows = "update_rows (transferable t) (owner_row t now) (db_contracts d)"
  have find: "find_contract (d\<lparr>db_contracts := ?rows\<rparr>) tn c
      = map_option (\<lambda>x. if transferable t x then owner_row t now x else x) (find_contract d tn c)" for tn c
    unfolding find_contract_def by (simp add: first_row_update_rows contract_at_def owner_row_def)
  have here: "find_contract (d\<lparr>db_contracts := ?rows\<rparr>) (ti_tenant t) (ti_resource t) = Some (owner_row t now r)"
    using applied(2,4,5) find_contract_SomeD [OF applied(2)] by (simp add: find transferable_def contract_at_def)
  note enq = enqueue_responsibility_ok [OF applied(6) here]
  have "db_contracts d' = ?rows" using responsibility_frameD(1) [OF enq(1)] by (simp add: applied(9))
  then have find': "find_contract d' tn c = find_contract (d\<lparr>db_contracts := ?rows\<rparr>) tn c" for tn c
    by (simp add: find_contract_def)
  have "stream_of d' tn c = stream_of d1 tn c" for tn c by (simp add: applied(9) stream_of_def)
  with enq(2) obtain s where "stream_of d' (ti_tenant t) (ti_resource t) = Some s" "rs_owner s = ti_to t"
    by (auto simp: stream_matches_def owner_row_def)
  moreover have "find_contract d' tn c = find_contract d tn c" if "(tn, c) \<noteq> (ti_tenant t, ti_resource t)" for tn c
    using that find_contract_SomeD [of d tn c]
    by (cases "find_contract d tn c") (auto simp: find' find transferable_def contract_at_def)
  ultimately show ?thesis
    using applied(2,4,5) here
    by (intro disjI2) (auto simp: find' applied(7,8) receipt_from_record_def new_receipt_row_def owner_row_def)
qed

section \<open>A frozen user gets nothing new\<close>

lemma active_freeze_iff:
  "(case active_freeze d tenant user of None \<Rightarrow> False | Some f \<Rightarrow> fz_status f = freeze_frozen) \<longleftrightarrow>
     (\<exists>r \<in> set (db_freezes d). hf_tenant r = tenant \<and> hf_user r = user \<and> hf_status r = freeze_frozen)"
proof -
  let ?rows = "filter (\<lambda>r. hf_tenant r = tenant \<and> hf_user r = user \<and> hf_status r = freeze_frozen) (db_freezes d)"
  let ?sorted = "sort_key (\<lambda>r. - hf_frozen_at r) ?rows"
  have set: "set ?sorted = set ?rows" by simp
  show ?thesis
  proof (cases ?sorted)
    case Nil
    then have "set ?rows = {}" using set by simp
    with Nil show ?thesis by (auto simp: active_freeze_def filter_empty_conv)
  next
    case (Cons r rest)
    then have "r \<in> set ?rows" using set by (metis list.set_intros(1))
    with Cons show ?thesis by (auto simp: active_freeze_def freeze_from_record_def)
  qed
qed

lemma create_freeze_row:
  assumes "create_freeze f d = Inr (fz, created, d')"
  shows "\<exists>r \<in> set (db_freezes d'). hf_tenant r = fz_tenant f \<and> hf_user r = fz_user f \<and> hf_status r = fz_status fz"
  using assms
  by (auto simp: create_freeze_def insert_row_ok freeze_from_record_def new_freeze_row_def
      split: sum.splits option.splits dest: first_row_SomeD(1) first_row_SomeD(2))

text \<open>from the moment a freeze is acknowledged as frozen, and as long as the freeze table stays, the user
  can be given no new responsibility: the check of the write paths refuses the user as owner, and a transfer to
  the user succeeds only by repeating a receipt of before.\<close>

theorem frozen_user_gets_nothing:
  assumes "handover_freeze e tenant batch request user d = Inr (f, n, d')" and "fz_status f = freeze_frozen"
    and "db_freezes d'' = db_freezes d'" and "trim_space (ti_tenant t) = trim_space tenant"
    and "trim_space (ti_to t) = trim_space user"
  shows "ensure_owner_not_frozen True d'' (trim_space tenant) user = Inl ErrHandoverFrozen
    \<and> (case handover_transfer e' owners dispatch t d'' of
         Inl err \<Rightarrow> err \<in> {ErrHandoverValidation, ErrHandoverFrozen}
       | Inr (rc, d3) \<Rightarrow> d3 = d'' \<and> find_receipt d'' (trim_space (ti_tenant t)) (trim_space (ti_key t)) = Some rc)"
proof -
  let ?fz = "\<lparr>fz_id = env_ulid e (db_seq d), fz_tenant = trim_space tenant, fz_batch = trim_space batch,
      fz_request = trim_space request, fz_user = trim_space user, fz_status = freeze_frozen,
      fz_frozen_at = env_clock e (db_tick d), fz_released_at = None, fz_outcome = []\<rparr>"
  from assms(1) obtain created where
    run: "create_freeze ?fz (d\<lparr>db_tick := db_tick d + 1, db_seq := db_seq d + 1\<rparr>) = Inr (f, created, d')"
    and user: "trim_space user \<noteq> []"
    by (auto simp: handover_freeze_def read_clock_def new_id_def res_bind_eq_ok Let_def split: if_split_asm)
  have frozen: "case active_freeze d'' (trim_space tenant) (trim_space user) of
      None \<Rightarrow> False | Some f \<Rightarrow> fz_status f = freeze_frozen"
    unfolding active_freeze_iff using create_freeze_row [OF run] assms(2,3) by simp
  then have "ensure_owner_not_frozen True d'' (trim_space tenant) user = Inl ErrHandoverFrozen"
    using user by (auto simp: ensure_owner_not_frozen_def split: option.splits)
  moreover have to: "ti_tenant (trim_transfer t) = trim_space tenant" "ti_to (trim_transfer t) = trim_space user"
    "ti_key (trim_transfer t) = trim_space (ti_key t)"
    using assms(4,5) by (simp_all add: trim_transfer_def)
  have "case handover_transfer e' owners dispatch t d'' of
         Inl err \<Rightarrow> err \<in> {ErrHandoverValidation, ErrHandoverFrozen}
       | Inr (rc, d3) \<Rightarrow> d3 = d'' \<and> find_receipt d'' (trim_space (ti_tenant t)) (trim_space (ti_key t)) = Some rc"
    unfolding handover_transfer_def Let_def to using frozen assms(4)
    by (cases "find_receipt d'' (trim_space tenant) (trim_space (ti_key t))") (simp_all add: split: if_split)
  ultimately show ?thesis by blast
qed

section \<open>The count over the pages is exact\<close>

text \<open>The merge of two sorted lists, the specification of a page over two tables.\<close>

fun merge_by :: "('a \<Rightarrow> 'k::linorder) \<Rightarrow> 'a list \<Rightarrow> 'a list \<Rightarrow> 'a list" where
  "merge_by k [] ys = ys"
| "merge_by k (x # xs) [] = x # xs"
| "merge_by k (x # xs) (y # ys) = (if k x \<le> k y then x # merge_by k xs (y # ys) else y # merge_by k (x # xs) ys)"

lemma merge_by_Nil [simp]: "merge_by k xs [] = xs"
  by (cases xs) simp_all

lemma mset_merge_by: "mset (merge_by k xs ys) = mset xs + mset ys"
  by (induction k xs ys rule: merge_by.induct) simp_all

lemma set_merge_by: "set (merge_by k xs ys) = set xs \<union> set ys"
  using arg_cong [OF mset_merge_by, of set_mset k xs ys] by simp

lemma sorted_merge_by:
  "sorted (map k xs) \<Longrightarrow> sorted (map k ys) \<Longrightarrow> sorted (map k (merge_by k xs ys))"
  by (induction k xs ys rule: merge_by.induct) (auto simp: set_merge_by)

lemma take_merge_by: "take n (merge_by k (take n xs) (take n ys)) = take n (merge_by k xs ys)"
proof -
  have "n \<le> a \<Longrightarrow> n \<le> b \<Longrightarrow> take n (merge_by k (take a xs) (take b ys)) = take n (merge_by k xs ys)" for a b
  proof (induction n arbitrary: xs ys a b)
    case (Suc n)
    then obtain a' b' where a: "a = Suc a'" "n \<le> a'" and b: "b = Suc b'" "n \<le> b'"
      by (metis Suc_le_D Suc_le_mono)
    show ?case
    proof (cases xs; cases ys)
      fix x xs' y ys' assume "xs = x # xs'" "ys = y # ys'"
      then show ?thesis
        using Suc.IH [of a' b xs' ys] Suc.IH [of a b' xs ys'] a b by auto
    qed (use a b in auto)
  qed simp
  then show ?thesis by simp
qed

lemma sort_append_merge:
  assumes "inj_on k (set xs \<union> set ys)" and "sorted (map k xs)" and "sorted (map k ys)"
  shows "sort_key k (xs @ ys) = merge_by k xs ys"
  by (rule sort_key_inj_key_eq) (use assms in \<open>auto simp: mset_merge_by sorted_merge_by\<close>)

lemma page_of_merged:
  assumes "inj_on k (set xs \<union> set ys)" and "sorted (map k xs)" and "sorted (map k ys)"
  shows "take n (sort_key k (take n xs @ take n ys)) = take n (sort_key k (xs @ ys))"
proof -
  have "inj_on k (set (take n xs) \<union> set (take n ys))"
    by (rule inj_on_subset [OF assms(1)]) (auto dest: in_set_takeD)
  moreover have "sorted (map k (take n zs))" if "sorted (map k zs)" for zs
    using sorted_wrt_take [OF that] by (simp add: take_map)
  ultimately show ?thesis
    using assms by (simp add: sort_append_merge take_merge_by)
qed

lemma map_sort_key: "map f (sort_key (\<lambda>x. k (f x)) xs) = sort_key k (map f xs)"
proof -
  have "map f (insort_key (\<lambda>x. k (f x)) x ys) = insort_key k (f x) (map f ys)" for x ys
    by (induction ys) simp_all
  then show ?thesis by (induction xs) simp_all
qed

lemma sort_twice:
  "sorted_wrt (\<lambda>x y. f x < f y \<or> f x = f y \<and> g x \<le> g y) (sort_key f (sort_key g xs))"
proof -
  have insort: "sorted_wrt (\<lambda>x y. f x < f y \<or> f x = f y \<and> g x \<le> g y) (insort_key f z ys)"
    if "sorted_wrt (\<lambda>x y. f x < f y \<or> f x = f y \<and> g x \<le> g y) ys" "\<forall>y \<in> set ys. g z \<le> g y" for z ys
    using that by (induction ys) (auto simp: set_insort_key)
  have "sorted (map g zs) \<Longrightarrow> sorted_wrt (\<lambda>x y. f x < f y \<or> f x = f y \<and> g x \<le> g y) (sort_key f zs)" for zs
  proof (induction zs)
    case (Cons z zs)
    have "\<forall>y \<in> set (sort_key f zs). g z \<le> g y" using Cons.prems by simp
    then have "sorted_wrt (\<lambda>x y. f x < f y \<or> f x = f y \<and> g x \<le> g y) (insort_key f z (sort_key f zs))"
      using Cons by (intro insort) simp_all
    then show ?case by simp
  qed simp
  then show ?thesis by simp
qed

lemma key_order:
  fixes a b :: string
  assumes "length a = length b" and "a < b \<or> a = b \<and> n \<le> m"
  shows "a @ c # n \<le> b @ c # m"
  using assms by (induction a b rule: list_induct2) auto

lemma sorted_task_keys:
  assumes "\<And>x y. x \<in> set ts \<Longrightarrow> y \<in> set ts \<Longrightarrow> length (tk_approval x) = length (tk_approval y)"
  shows "sorted (map task_key (sort_key tk_approval (sort_key tk_node ts)))"
proof -
  have "sorted_wrt (\<lambda>x y. task_key x \<le> task_key y) (sort_key tk_approval (sort_key tk_node ts))"
    by (rule sorted_wrt_mono_rel [OF _ sort_twice [of tk_approval tk_node]])
      (use assms in \<open>auto simp: task_key_def intro!: key_order\<close>)
  then show ?thesis by (simp add: sorted_map)
qed

text \<open>Everything a user owns, in the order of the pages.\<close>

definition all_responsibilities :: "db \<Rightarrow> string \<Rightarrow> string \<Rightarrow> responsibility list" where
  "all_responsibilities d tenant user =
     sort_key hp_id (map contract_responsibility (owned_contracts d tenant user)
                     @ map (task_responsibility user) (active_tasks d tenant user))"

text \<open>Identifiers are distinct, not blank, without white space at their ends, and those of approvals have one
  length, as ULIDs have.\<close>

definition plain_ids :: "db \<Rightarrow> string \<Rightarrow> string \<Rightarrow> bool" where
  "plain_ids d tenant user \<longleftrightarrow> distinct (map hp_id (all_responsibilities d tenant user))
     \<and> list_all (\<lambda>x. hp_id x \<noteq> [] \<and> trim_space (hp_id x) = hp_id x) (all_responsibilities d tenant user)
     \<and> list_all (\<lambda>x. list_all (\<lambda>y. length (tk_approval x) = length (tk_approval y)) (active_tasks d tenant user))
         (active_tasks d tenant user)"

definition after :: "string \<Rightarrow> responsibility \<Rightarrow> bool" where
  "after cursor x \<longleftrightarrow> cursor = [] \<or> cursor < hp_id x"

lemma owned_page:
  assumes plain: "plain_ids d tenant user" and "trim_space cursor = cursor" and "0 < n"
  shows "list_owned_responsibilities d tenant user cursor (int n)
    = take n (filter (after cursor) (all_responsibilities d tenant user))"
proof -
  let ?C = "filter (after cursor) (map contract_responsibility (owned_contracts d tenant user))"
  let ?T = "filter (after cursor) (map (task_responsibility user) (active_tasks d tenant user))"
  let ?cs = "filter (\<lambda>r. cursor = [] \<or> cursor < ct_id r) (owned_contracts d tenant user)"
  let ?ts = "filter (\<lambda>t. cursor = [] \<or> cursor < task_key t) (active_tasks d tenant user)"
  have ids: "hp_id (contract_responsibility r) = ct_id r" "hp_id (task_responsibility user t) = task_key t" for r t
    by (simp_all add: contract_responsibility_def task_responsibility_def)
  have C: "?C = map contract_responsibility ?cs" and T: "?T = map (task_responsibility user) ?ts"
    by (simp_all add: filter_map comp_def after_def ids)
  have dist: "distinct (map hp_id (map contract_responsibility (owned_contracts d tenant user)
      @ map (task_responsibility user) (active_tasks d tenant user)))"
    using plain unfolding plain_ids_def all_responsibilities_def
    by (simp only: distinct_map distinct_sort set_sort)
  then have inj: "inj_on hp_id (set ?C \<union> set ?T)"
    unfolding distinct_map by (elim conjE) (erule inj_on_subset, auto)
  have cs: "map contract_responsibility (sort_key ct_id ?cs) = sort_key hp_id ?C"
    using map_sort_key [of contract_responsibility hp_id ?cs] by (simp add: C ids)
  let ?st = "sort_key tk_approval (sort_key tk_node ?ts)"
  have "sorted (map task_key ?st)"
    by (rule sorted_task_keys) (use plain in \<open>auto simp: plain_ids_def list_all_iff\<close>)
  then have ts: "map (task_responsibility user) ?st = sort_key hp_id ?T"
    by (intro sort_key_inj_key_eq [symmetric])
      (use inj in \<open>auto simp: T ids comp_def intro: inj_on_subset\<close>)
  have "list_owned_responsibilities d tenant user cursor (int n)
      = take n (sort_key hp_id (take n (sort_key hp_id ?C) @ take n (sort_key hp_id ?T)))"
    using assms(2,3) unfolding list_owned_responsibilities_def list_contract_responsibilities_def
      list_approval_responsibilities_def cs [symmetric] ts [symmetric]
    by (simp add: take_map)
  also have "\<dots> = take n (sort_key hp_id (sort_key hp_id ?C @ sort_key hp_id ?T))"
    by (rule page_of_merged) (use inj in simp_all)
  also have "sort_key hp_id (sort_key hp_id ?C @ sort_key hp_id ?T) = sort_key hp_id (?C @ ?T)"
    by (rule sort_key_inj_key_eq) (use inj in \<open>simp_all add: sorted_sort_key\<close>)
  also have "\<dots> = filter (after cursor) (all_responsibilities d tenant user)"
    by (simp add: all_responsibilities_def filter_sort)
  finally show ?thesis .
qed

lemma filter_after_nth:
  assumes "sorted (map k xs)" and "distinct (map k xs)" and "n < length xs"
  shows "filter (\<lambda>x. k (xs ! n) < k x) xs = drop (Suc n) xs"
proof -
  have xs: "xs = take n xs @ xs ! n # drop (Suc n) xs" using assms(3) by (rule id_take_nth_drop)
  have "sorted (map k (take n xs @ xs ! n # drop (Suc n) xs))" "distinct (map k (take n xs @ xs ! n # drop (Suc n) xs))"
    using assms(1,2) xs by simp_all
  then have "filter (\<lambda>x. k (xs ! n) < k x) (take n xs) = []" "filter (\<lambda>x. k (xs ! n) < k x) (drop (Suc n) xs) = drop (Suc n) xs"
    by (auto simp: filter_empty_conv filter_id_conv sorted_append not_less order.strict_iff_order image_iff)
  then show ?thesis by (subst xs) (simp add: filter_append)
qed

lemma count_from:
  assumes "plain_ids d tenant user"
  shows "trim_space cursor = cursor \<Longrightarrow> count_responsibilities d tenant user cursor n
    = Some (n + length (filter (after cursor) (all_responsibilities d tenant user)))"
proof (induction "length (filter (after cursor) (all_responsibilities d tenant user))" arbitrary: cursor n
    rule: less_induct)
  case less
  let ?all = "all_responsibilities d tenant user" and ?rest = "filter (after cursor) (all_responsibilities d tenant user)"
  have page: "list_owned_responsibilities d tenant user cursor 200 = take 200 ?rest"
    using owned_page [OF assms less.prems, of 200] by simp
  show ?case
  proof (cases "length ?rest < 200")
    case True
    then show ?thesis
      by (subst count_responsibilities.simps) (simp add: page)
  next
    case False
    then have "take 200 ?rest \<noteq> []" "length (take 200 ?rest) = 200" by (cases ?rest; simp)+
    then have last: "last (take 200 ?rest) = ?rest ! 199" by (simp add: last_conv_nth del: take_eq_Nil)
    let ?next = "hp_id (?rest ! 199)"
    have mem: "?rest ! 199 \<in> set ?rest" using False by (intro nth_mem) simp
    then have trim: "trim_space ?next = ?next" "?next \<noteq> []"
      using assms by (auto simp: plain_ids_def list_all_iff)
    have "sorted (map hp_id ?rest)" "distinct (map hp_id ?rest)"
      using assms by (auto simp: all_responsibilities_def plain_ids_def sorted_filter distinct_map_filter)
    then have "filter (\<lambda>x. ?next < hp_id x) ?rest = drop 200 ?rest"
      using filter_after_nth [of hp_id ?rest 199] False by simp
    moreover have "filter (after ?next) ?all = filter (\<lambda>x. ?next < hp_id x) ?rest"
      using mem trim(2) by (auto simp: after_def intro!: filter_cong)
    ultimately have rest: "filter (after ?next) ?all = drop 200 ?rest" by simp
    have "count_responsibilities d tenant user cursor n = count_responsibilities d tenant user ?next (n + 200)"
      using False by (subst count_responsibilities.simps) (simp add: page last)
    also have "\<dots> = Some (n + 200 + length (drop 200 ?rest))"
      using less.hyps [of ?next "n + 200"] False trim(1) by (simp add: rest)
    finally show ?thesis using False by simp
  qed
qed

text \<open>the count a freeze reports is exact and the loop over the pages ends: it is the number of open
  contracts the user owns plus the number of active approval tasks the user has, however many pages that takes.\<close>

theorem handover_count_exact:
  assumes "plain_ids d tenant user"
  shows "count_responsibilities d tenant user [] 0
    = Some (length (owned_contracts d tenant user) + length (active_tasks d tenant user))"
proof -
  have "trim_space ([] :: string) = []" by code_simp
  moreover have "filter (after []) xs = xs" for xs by (simp add: after_def)
  ultimately show ?thesis
    using count_from [OF assms, of "[]" 0] by (simp add: all_responsibilities_def)
qed

theorem handover_count_exact_witness:
  "count_responsibilities (sample_db [sample_contract]) ''t1'' ''u1'' [] 0 = Some 1"
proof -
  have owned: "owned_contracts (sample_db [sample_contract]) ''t1'' ''u1'' = [sample_contract]"
    "active_tasks (sample_db [sample_contract]) ''t1'' ''u1'' = []"
    by (simp_all add: owned_contracts_def active_tasks_def sample_db_def sample_row_simps handover_closed_statuses_def)
  have "trim_space ''c1'' = ''c1''" by code_simp
  then have "plain_ids (sample_db [sample_contract]) ''t1'' ''u1''"
    by (simp add: plain_ids_def all_responsibilities_def owned contract_responsibility_def sample_row_simps)
  from handover_count_exact [OF this] show ?thesis by (simp add: owned)
qed

definition sample_transfer :: transfer_input where
  "sample_transfer = \<lparr>ti_tenant = ''t1'', ti_batch = ''b'', ti_item = ''i'', ti_resource_type = ''contract'',
     ti_resource = ''c1'', ti_from = ''u1'', ti_to = ''u2'', ti_to_name = ''Bo'', ti_expected_version = 1, ti_key = ''k''\<rparr>"

lemma sample_transferred:
  "\<exists>rc d'. transfer_ownership sample_db_env sample_transfer 9 (sample_db [sample_contract]) = Inr (rc, d')
     \<and> rt_status rc = receipt_applied"
  by (simp add: transfer_ownership_def sample_transfer_def start_eval sample_row_simps transferable_def owner_row_def
      store_receipt_def receipt_from_record_def new_receipt_row_def cong: let_weak_cong res_bind_weak)

theorem transfer_idempotent_witness:
  "\<exists>rc d'. transfer_ownership sample_db_env sample_transfer 9 (sample_db [sample_contract]) = Inr (rc, d')
     \<and> transfer_ownership sample_db_env sample_transfer 10 d' = Inr (rc, d')"
proof -
  obtain rc d' where run: "transfer_ownership sample_db_env sample_transfer 9 (sample_db [sample_contract]) = Inr (rc, d')"
    using sample_transferred by blast
  from transfer_idempotent [OF run refl refl] run show ?thesis by blast
qed

theorem transfer_receipt_truthful_witness:
  "\<exists>rc d' r. transfer_ownership sample_db_env sample_transfer 9 (sample_db [sample_contract]) = Inr (rc, d')
     \<and> find_contract d' ''t1'' ''c1'' = Some r \<and> ct_owner r = ''u2''"
proof -
  obtain rc d' where run: "transfer_ownership sample_db_env sample_transfer 9 (sample_db [sample_contract]) = Inr (rc, d')"
    and applied: "rt_status rc = receipt_applied" using sample_transferred by blast
  have "first_row (receipt_of (ti_tenant sample_transfer) (ti_key sample_transfer)) (db_receipts (sample_db [sample_contract])) = None"
    by (simp add: sample_db_def)
  from transfer_receipt_truthful [OF run this] run applied show ?thesis
    by (auto simp: receipt_applied_def receipt_rejected_def sample_transfer_def)
qed

theorem frozen_user_gets_nothing_witness:
  "\<exists>f n d'. handover_freeze sample_db_env ''t1'' ''b'' ''q'' ''u2'' (sample_db [sample_contract]) = Inr (f, n, d')
     \<and> ensure_owner_not_frozen True d' ''t1'' ''u2'' = Inl ErrHandoverFrozen"
proof -
  have trim: "trim_space ''t1'' = ''t1''" "trim_space ''b'' = ''b''" "trim_space ''q'' = ''q''" "trim_space ''u2'' = ''u2''"
    by code_simp+
  have "\<exists>f n d'. handover_freeze sample_db_env ''t1'' ''b'' ''q'' ''u2'' (sample_db [sample_contract]) = Inr (f, n, d')
      \<and> fz_status f = freeze_frozen"
    by (simp add: handover_freeze_def trim read_clock_def new_id_def create_freeze_def insert_row_def sample_db_def
        freeze_from_record_def new_freeze_row_def Let_def)
  then obtain f n d' where run: "handover_freeze sample_db_env ''t1'' ''b'' ''q'' ''u2'' (sample_db [sample_contract]) = Inr (f, n, d')"
    and frozen: "fz_status f = freeze_frozen" by blast
  from frozen_user_gets_nothing [OF run frozen refl, of sample_transfer] run show ?thesis
    by (auto simp: trim sample_transfer_def)
qed

end
