(* ===== verification/Access.thy ===== *)
theory Access
  imports Contract_Operations
begin

text \<open>
  Who may see and change which contract: the principal of a request and the data scope of a permission
  (\<^verbatim>\<open>Principal\<close>, \<^verbatim>\<open>contractScope\<close>, \<^verbatim>\<open>canAccessContract\<close> of
  \<^verbatim>\<open>application/service.go\<close>), the scope as a condition on rows (\<^verbatim>\<open>applyContractScope\<close> of
  \<^verbatim>\<open>mysql/repository.go\<close>) and the rules for drafts (\<^verbatim>\<open>application/draft.go\<close>). The fields of a
  principal that only the transport reads (subject, e-mail, catalogue version) are left out.
\<close>

section \<open>Principals and scopes\<close>

record scope_filter =
  sf_tenant :: string
  sf_identity :: string
  sf_orgs :: "string list"
  sf_projects :: "string list"
  sf_all :: bool
  sf_self :: bool

record principal =
  pr_tenant :: string
  pr_user :: string
  pr_identity :: string
  pr_display_name :: string
  pr_roles :: "string list"
  pr_permissions :: "string \<Rightarrow> bool"
  pr_scopes :: "string \<rightharpoonup> scope_filter"

definition has :: "principal \<Rightarrow> string \<Rightarrow> bool" where
  "has p permission = pr_permissions p permission"

definition scope :: "principal \<Rightarrow> string \<Rightarrow> scope_filter option" where
  "scope p permission =
     (if \<not> has p permission then None
      else case pr_scopes p permission of
        None \<Rightarrow> None
      | Some f \<Rightarrow>
          let g = f\<lparr>sf_tenant := pr_tenant p, sf_identity := pr_identity p\<rparr>
          in if sf_all g \<or> sf_self g \<or> sf_orgs g \<noteq> [] \<or> sf_projects g \<noteq> [] then Some g else None)"

definition senior_roles :: "string list" where
  "senior_roles = [''admin'', ''sales_director'', ''tech_director'', ''finance_director'', ''audit_admin'']"

fun sales_scan :: "bool \<Rightarrow> string list \<Rightarrow> bool" where
  "sales_scan found [] = found"
| "sales_scan found (r # rs) =
     (if r \<in> set senior_roles then False
      else if r = ''sales'' then sales_scan True rs
      else sales_scan found rs)"

definition sales_only :: "string list \<Rightarrow> bool" where
  "sales_only roles = sales_scan False roles"

definition contract_scope :: "principal \<Rightarrow> string \<Rightarrow> scope_filter option" where
  "contract_scope p permission =
     (case scope p permission of
        None \<Rightarrow> None
      | Some f \<Rightarrow>
          if (permission = ''contract.read'' \<or> permission = ''contract.edit'') \<and> sales_only (pr_roles p)
          then Some (f\<lparr>sf_all := False, sf_self := True, sf_orgs := [], sf_projects := []\<rparr>)
          else Some f)"

definition contains_string :: "string list \<Rightarrow> string \<Rightarrow> bool" where
  "contains_string values expected \<longleftrightarrow> expected \<noteq> [] \<and> expected \<in> set values"

definition has_role :: "principal \<Rightarrow> string \<Rightarrow> bool" where
  "has_role p role \<longleftrightarrow> role \<in> set (pr_roles p)"

section \<open>The scope in memory and in SQL\<close>

definition can_access_contract :: "scope_filter \<Rightarrow> contract \<Rightarrow> bool" where
  "can_access_contract f c \<longleftrightarrow> c_tenant_id c = sf_tenant f
     \<and> (sf_all f
        \<or> (sf_self f \<and> c_owner_identity_id c \<noteq> [] \<and> c_owner_identity_id c = sf_identity f)
        \<or> (c_owner_org_id c \<noteq> [] \<and> contains_string (sf_orgs f) (c_owner_org_id c))
        \<or> (c_project_id c \<noteq> [] \<and> contains_string (sf_projects f) (c_project_id c)))"

definition filter_contracts :: "contract list \<Rightarrow> scope_filter \<Rightarrow> contract list" where
  "filter_contracts items f = filter (can_access_contract f) items"

text \<open>A comparison with a NULL column is not true.\<close>

definition column_in :: "string list \<Rightarrow> string option \<Rightarrow> bool" where
  "column_in values column = (case column of None \<Rightarrow> False | Some v \<Rightarrow> v \<in> set values)"

definition scope_predicates :: "scope_filter \<Rightarrow> (contract_row \<Rightarrow> bool) list" where
  "scope_predicates f =
     (if sf_self f \<and> sf_identity f \<noteq> [] then [\<lambda>r. column_in [sf_identity f] (ct_owner_identity r)] else [])
     @ (if sf_orgs f \<noteq> [] then [\<lambda>r. column_in (sf_orgs f) (ct_owner_org r)] else [])
     @ (if sf_projects f \<noteq> [] then [\<lambda>r. column_in (sf_projects f) (ct_project r)] else [])"

definition apply_contract_scope :: "scope_filter \<Rightarrow> contract_row \<Rightarrow> bool" where
  "apply_contract_scope f r \<longleftrightarrow> ct_tenant r = sf_tenant f
     \<and> (sf_all f \<or> list_ex (\<lambda>p. p r) (scope_predicates f))"

definition get_contract_scoped :: "db \<Rightarrow> scope_filter \<Rightarrow> string \<Rightarrow> contract result" where
  "get_contract_scoped d f cid =
     (case first_row (\<lambda>r. apply_contract_scope f r \<and> ct_id r = cid) (db_contracts d) of
        None \<Rightarrow> fail ErrNotFound
      | Some r \<Rightarrow> ok (hd (attach_payment_terms d (sf_tenant f) [contract_from_record r])))"

section \<open>Drafts and approved contracts\<close>

definition draft_actor_allowed :: "principal \<Rightarrow> contract \<Rightarrow> bool" where
  "draft_actor_allowed p c \<longleftrightarrow>
     (if pr_tenant p \<noteq> c_tenant_id c \<or> pr_user p = [] then False
      else if ''admin'' \<in> set (pr_roles p) then True
      else if ''sales'' \<in> set (pr_roles p) then c_created_by c \<noteq> [] \<and> c_created_by c = pr_user p
      else False)"

definition can_edit_draft :: "principal \<Rightarrow> contract \<Rightarrow> bool" where
  "can_edit_draft p c =
     (case scope p ''contract.edit'' of
        None \<Rightarrow> False
      | Some f \<Rightarrow> operational_origin c \<and> c_status c = StatusDraft \<and> can_access_contract f c
                  \<and> draft_actor_allowed p c)"

definition get_contract_for :: "principal \<Rightarrow> string \<Rightarrow> db \<Rightarrow> contract result" where
  "get_contract_for p cid d =
     (case contract_scope p ''contract.read'' of
        None \<Rightarrow> fail ErrForbidden
      | Some f \<Rightarrow> res_bind (get_contract_scoped d f cid) (\<lambda>c. ok (c\<lparr>c_can_edit_draft := can_edit_draft p c\<rparr>)))"

definition get_approved_contract :: "principal \<Rightarrow> string \<Rightarrow> string \<Rightarrow> db \<Rightarrow> contract result" where
  "get_approved_contract p cid permission d =
     (case contract_scope p permission of
        None \<Rightarrow> fail ErrForbidden
      | Some f \<Rightarrow>
          res_bind (get_contract_scoped d f cid) (\<lambda>c.
            if \<not> operational_origin c \<or> \<not> approval_passed (c_status c) then fail ErrForbidden else ok c))"

section \<open>Lemmas\<close>

lemma sales_scan_iff:
  "sales_scan found roles \<longleftrightarrow> set roles \<inter> set senior_roles = {} \<and> (found \<or> ''sales'' \<in> set roles)"
  by (induction found roles rule: sales_scan.induct) (auto simp: senior_roles_def)

lemma scope_SomeD:
  assumes "scope p permission = Some f"
  shows "has p permission" "sf_tenant f = pr_tenant p" "sf_identity f = pr_identity p"
  using assms by (auto simp: scope_def Let_def split: if_split_asm option.splits)

lemma contract_scope_SomeD:
  assumes "contract_scope p permission = Some f"
  shows "has p permission" "sf_tenant f = pr_tenant p" "sf_identity f = pr_identity p"
proof -
  obtain g where g: "scope p permission = Some g" "sf_tenant f = sf_tenant g" "sf_identity f = sf_identity g"
    using assms by (auto simp: contract_scope_def split: option.splits if_split_asm)
  with scope_SomeD [OF g(1)] show "has p permission" "sf_tenant f = pr_tenant p" "sf_identity f = pr_identity p"
    by simp_all
qed

text \<open>Optional text columns are written through \<^verbatim>\<open>stringPtr\<close>, so they are NULL rather than empty.\<close>

definition scope_columns_ok :: "contract_row \<Rightarrow> bool" where
  "scope_columns_ok r \<longleftrightarrow> ct_owner_org r \<noteq> Some [] \<and> ct_project r \<noteq> Some []"

lemma scope_fields_from_record [simp]:
  "c_id (contract_from_record r) = ct_id r"
  "c_tenant_id (contract_from_record r) = ct_tenant r"
  "c_owner_identity_id (contract_from_record r) = value_or_empty (ct_owner_identity r)"
  "c_owner_org_id (contract_from_record r) = value_or_empty (ct_owner_org r)"
  "c_project_id (contract_from_record r) = value_or_empty (ct_project r)"
  "c_status (contract_from_record r) = ct_status r"
  "c_version (contract_from_record r) = ct_version r"
  by (simp_all add: contract_from_record_def read_contract_source_def)

lemma can_access_terms [simp]:
  "can_access_contract f (c\<lparr>c_payment_terms := t\<rparr>) = can_access_contract f c"
  by (simp add: can_access_contract_def)

lemma apply_scope_in_memory:
  assumes "scope_columns_ok r"
  shows "apply_contract_scope f r = can_access_contract f (contract_from_record r)"
  using assms
  by (cases "ct_owner_identity r"; cases "ct_owner_org r"; cases "ct_project r")
    (auto simp: apply_contract_scope_def can_access_contract_def scope_predicates_def column_in_def contains_string_def
      scope_columns_ok_def)

lemma get_contract_scoped_ok:
  assumes "get_contract_scoped d f cid = Inr c"
  obtains r where "r \<in> set (db_contracts d)" "apply_contract_scope f r" "ct_id r = cid" "ct_tenant r = sf_tenant f"
    "c = (contract_from_record r)\<lparr>c_payment_terms := Some (list_payment_terms d (sf_tenant f) cid)\<rparr>"
proof -
  from assms obtain r where r: "first_row (\<lambda>r. apply_contract_scope f r \<and> ct_id r = cid) (db_contracts d) = Some r"
    "c = hd (attach_payment_terms d (sf_tenant f) [contract_from_record r])"
    by (auto simp: get_contract_scoped_def split: option.splits)
  from first_row_SomeD [OF r(1)] have row: "r \<in> set (db_contracts d)" "apply_contract_scope f r" "ct_id r = cid"
    by simp_all
  with r(2) attach_one [of "contract_from_record r" cid d "sf_tenant f"] that [OF row] show ?thesis
    by (simp add: apply_contract_scope_def)
qed

text \<open>The identifier is the primary key, so a read within a scope is a plain read followed by the check.\<close>

lemma first_row_key:
  assumes "distinct (map g rows)" "first_row q rows = Some r" "\<And>x. q x \<Longrightarrow> g x = k" "\<And>x. p x \<Longrightarrow> g x = k \<and> q x"
  shows "first_row p rows = (if p r then Some r else None)"
proof -
  have only: "x = r" if "x \<in> set rows" "p x" for x
    using assms first_row_SomeD [OF assms(2)] that by (metis distinct_map inj_onD)
  show ?thesis
  proof (cases "p r")
    case True
    with first_row_SomeD [OF assms(2)] obtain x where "first_row p rows = Some x"
      by (cases "first_row p rows") (auto simp: first_row_None)
    with only first_row_SomeD [of p rows x] True show ?thesis by auto
  next
    case False
    with only show ?thesis by (auto simp: first_row_None)
  qed
qed

text \<open>C25: On a table with unique identifiers whose optional columns are not empty strings, reading a
  contract within a scope in SQL is reading it by tenant and identifier and checking the scope in memory;
  a contract outside the scope is reported as absent.\<close>
theorem scoped_read_is_checked_read:
  assumes "distinct (map ct_id (db_contracts d))" "list_all scope_columns_ok (db_contracts d)"
  shows "get_contract_scoped d f cid =
    res_bind (get_contract d (sf_tenant f) cid)
      (\<lambda>c. if can_access_contract f c then ok c else fail ErrNotFound)"
proof (cases "find_contract d (sf_tenant f) cid")
  case None
  then have "first_row (\<lambda>r. apply_contract_scope f r \<and> ct_id r = cid) (db_contracts d) = None"
    by (auto simp: find_contract_def contract_at_def first_row_None apply_contract_scope_def)
  with None show ?thesis by (simp add: get_contract_scoped_def get_contract_def)
next
  case (Some r)
  then have row: "r \<in> set (db_contracts d)" "ct_tenant r = sf_tenant f" "ct_id r = cid"
    using find_contract_SomeD by blast+
  have "first_row (\<lambda>r. apply_contract_scope f r \<and> ct_id r = cid) (db_contracts d)
      = (if apply_contract_scope f r \<and> ct_id r = cid then Some r else None)"
    by (rule first_row_key [OF assms(1) Some [unfolded find_contract_def]])
      (auto simp: contract_at_def apply_contract_scope_def)
  moreover have "apply_contract_scope f r = can_access_contract f (contract_from_record r)"
    using row(1) assms(2) by (intro apply_scope_in_memory) (auto simp: list_all_iff)
  ultimately show ?thesis
    using Some row attach_one [of "contract_from_record r" cid d "sf_tenant f"]
    by (simp add: get_contract_scoped_def get_contract_def)
qed

definition seller :: principal where
  "seller = \<lparr>pr_tenant = ''t1'', pr_user = ''u1'', pr_identity = ''i1'', pr_display_name = ''Ann'',
     pr_roles = [''sales''], pr_permissions = (\<lambda>_. True),
     pr_scopes = (\<lambda>_. Some \<lparr>sf_tenant = [], sf_identity = [], sf_orgs = [''o1''], sf_projects = [],
       sf_all = True, sf_self = False\<rparr>)\<rparr>"

definition owned_by :: "string \<Rightarrow> string \<Rightarrow> contract_row" where
  "owned_by cid owner = sample_contract\<lparr>ct_id := cid, ct_owner_identity := Some owner, ct_owner_org := Some ''o1''\<rparr>"

definition seller_scope :: scope_filter where
  "seller_scope = \<lparr>sf_tenant = ''t1'', sf_identity = ''i1'', sf_orgs = [], sf_projects = [], sf_all = False, sf_self = True\<rparr>"

lemma owned_by_simps [simp]:
  "ct_id (owned_by cid owner) = cid" "ct_tenant (owned_by cid owner) = ''t1''"
  "ct_owner_identity (owned_by cid owner) = Some owner" "ct_owner_org (owned_by cid owner) = Some ''o1''"
  "ct_project (owned_by cid owner) = None"
  by (simp_all add: owned_by_def sample_contract_def)

lemma sample_db_contracts [simp]: "db_contracts (sample_db rows) = rows"
  by (simp add: sample_db_def)

lemma seller_scopes:
  "contract_scope seller ''contract.read'' = Some seller_scope"
  "contract_scope seller ''contract.edit'' = Some seller_scope"
  by (simp_all add: contract_scope_def scope_def has_def seller_def sales_only_def senior_roles_def seller_scope_def)

theorem scoped_read_is_checked_read_witness:
  "get_contract_scoped (sample_db [owned_by ''c1'' ''i1'', owned_by ''c2'' ''i2'']) seller_scope ''c2'' = Inl ErrNotFound
   \<and> is_ok (get_contract_scoped (sample_db [owned_by ''c1'' ''i1'', owned_by ''c2'' ''i2'']) seller_scope ''c1'')"
proof -
  let ?d = "sample_db [owned_by ''c1'' ''i1'', owned_by ''c2'' ''i2'']"
  have "distinct (map ct_id (db_contracts ?d))" "list_all scope_columns_ok (db_contracts ?d)"
    by (simp_all add: scope_columns_ok_def)
  note read = scoped_read_is_checked_read [OF this, of seller_scope]
  show ?thesis
    unfolding read
    by (simp add: get_contract_def find_contract_def contract_at_def attach_one [OF refl] seller_scope_def
        can_access_contract_def contains_string_def)
qed



end
