(* ===== verification/Ledger.thy ===== *)
theory Ledger
  imports Access Signing
begin

text \<open>
  The contract ledger: keyword search with \<^verbatim>\<open>LIKE\<close> (\<^verbatim>\<open>literalLikePattern\<close> of
  \<^verbatim>\<open>mysql/contracts_approved.go\<close>), the filtered and paged list of contracts (\<^verbatim>\<open>mysql/repository.go\<close>,
  \<^verbatim>\<open>ListContractsPage\<close> of \<^verbatim>\<open>application/service.go\<close>), the lists of approved contracts for other systems
  (\<^verbatim>\<open>contracts_approved.go\<close>, \<^verbatim>\<open>integration_contract_lists.go\<close>) and the signed counts of opportunities.
  The repository of the service is the MySQL one: the branches of the service for repositories without
  scoped queries are not modelled.
\<close>

section \<open>Keyword search\<close>

text \<open>
  \<^verbatim>\<open>LIKE\<close> compares character by character; \<open>eq\<close> is the equality of characters in the collation of the
  column. Code point 37 is the percent sign, 95 the underscore and 92 the backslash, the default escape.
\<close>

function like :: "(nat \<Rightarrow> nat \<Rightarrow> bool) \<Rightarrow> nat list \<Rightarrow> nat list \<Rightarrow> bool" where
  "like eq [] s \<longleftrightarrow> s = []"
| "like eq (p # ps) s \<longleftrightarrow>
     (if p = 37 then like eq ps s \<or> (case s of [] \<Rightarrow> False | c # cs \<Rightarrow> like eq (p # ps) cs)
      else case s of
        [] \<Rightarrow> False
      | c # cs \<Rightarrow>
          (case ps of
             q # qs \<Rightarrow> if p = 92 then eq q c \<and> like eq qs cs else (p = 95 \<or> eq p c) \<and> like eq ps cs
           | [] \<Rightarrow> (p = 95 \<or> eq p c) \<and> like eq ps cs))"
  by pat_completeness auto
termination by (relation "measure (\<lambda>(eq, ps, s). length ps + length s)") auto

declare like.simps(2) [simp del]

definition like_escape :: "char \<Rightarrow> string" where
  "like_escape c = (if byte_of c \<in> {37, 92, 95} then [char_of (92 :: nat), c] else [c])"

definition literal_like_pattern :: "string \<Rightarrow> string" where
  "literal_like_pattern keyword = ''%'' @ concat (map like_escape keyword) @ ''%''"

definition collate_char :: "env \<Rightarrow> nat \<Rightarrow> nat \<Rightarrow> bool" where
  "collate_char e a b \<longleftrightarrow> env_collate e (string_of_runes [a]) = env_collate e (string_of_runes [b])"

definition column_like :: "env \<Rightarrow> string \<Rightarrow> string option \<Rightarrow> bool" where
  "column_like e pattern column =
     (case column of None \<Rightarrow> False | Some v \<Rightarrow> like (collate_char e) (go_runes pattern) (go_runes v))"

definition keyword_matches :: "env \<Rightarrow> string \<Rightarrow> contract_row \<Rightarrow> bool" where
  "keyword_matches e keyword r =
     (let pattern = literal_like_pattern keyword
      in column_like e pattern (ct_number r) \<or> column_like e pattern (Some (ct_title r))
         \<or> column_like e pattern (ct_customer_name r))"

section \<open>Filters and pages\<close>

record contract_list_query =
  clq_keyword :: string
  clq_status :: string
  clq_type :: string
  clq_expired :: string
  clq_offset :: int
  clq_limit :: int

record contract_page =
  cp_items :: "contract list"
  cp_total :: int
  cp_page :: int
  cp_size :: int

definition row_expired :: "instant \<Rightarrow> contract_row \<Rightarrow> bool" where
  "row_expired today r \<longleftrightarrow> ct_status r \<in> set expiry_statuses
     \<and> (case ct_end_date r of None \<Rightarrow> False | Some t \<Rightarrow> t < today)"

definition contract_ledger_filters :: "env \<Rightarrow> instant \<Rightarrow> contract_list_query \<Rightarrow> contract_row \<Rightarrow> bool" where
  "contract_ledger_filters e now q r \<longleftrightarrow>
     (let keyword = trim_space (clq_keyword q); status = trim_space (clq_status q); ty = trim_space (clq_type q);
          (expired, active) = expired_filter (clq_expired q);
          today = calendar_day (env_zone e) now
      in (keyword = [] \<or> keyword_matches e keyword r)
         \<and> (status = [] \<or> status_string (ct_status r) = status)
         \<and> (ty = [] \<or> env_collate e (ct_type r) = env_collate e ty)
         \<and> (active \<longrightarrow> row_expired today r = expired))"

definition contract_ledger_paging_defaults :: "contract_list_query \<Rightarrow> contract_list_query" where
  "contract_ledger_paging_defaults q =
     q\<lparr>clq_limit := (if clq_limit q \<le> 0 \<or> 200 < clq_limit q then 50 else clq_limit q),
       clq_offset := (if clq_offset q < 0 then 0 else clq_offset q)\<rparr>"

text \<open>The lists leave the document and the template values out of the selected columns.\<close>

definition listed_row :: "contract_row \<Rightarrow> contract_row" where
  "listed_row r = r\<lparr>ct_document := [], ct_template_values := JsonEmpty\<rparr>"

definition ledger_order :: "contract_row list \<Rightarrow> contract_row list" where
  "ledger_order rows = rev (sort_key ct_updated_at (sort_key ct_id rows))"

definition ledger_rows :: "env \<Rightarrow> instant \<Rightarrow> scope_filter \<Rightarrow> contract_list_query \<Rightarrow> db \<Rightarrow> contract_row list" where
  "ledger_rows e now f q d =
     filter (\<lambda>r. apply_contract_scope f r \<and> contract_ledger_filters e now q r) (db_contracts d)"

definition page_of :: "int \<Rightarrow> int \<Rightarrow> 'a list \<Rightarrow> 'a list" where
  "page_of off lim xs = take (nat lim) (drop (nat off) xs)"

definition list_contracts_page_after_count ::
  "env \<Rightarrow> instant \<Rightarrow> scope_filter \<Rightarrow> contract_list_query \<Rightarrow> int \<Rightarrow> db \<Rightarrow> contract_page" where
  "list_contracts_page_after_count e now f q0 tot d =
     (let q = contract_ledger_paging_defaults q0;
          off = clamp_contract_list_offset (clq_offset q) tot;
          records = page_of off (clq_limit q) (ledger_order (ledger_rows e now f q d))
      in \<lparr>cp_items = attach_payment_terms d (sf_tenant f) (map (contract_from_record \<circ> listed_row) records),
          cp_total = tot, cp_page = off div clq_limit q + 1, cp_size = clq_limit q\<rparr>)"

text \<open>The clock is read once for the count and once for the page.\<close>

definition list_contracts_page_scoped ::
  "env \<Rightarrow> scope_filter \<Rightarrow> contract_list_query \<Rightarrow> db \<Rightarrow> contract_page" where
  "list_contracts_page_scoped e f q0 d =
     (let q = contract_ledger_paging_defaults q0;
          tot = int (length (ledger_rows e (env_clock e (db_tick d)) f q d))
      in list_contracts_page_after_count e (env_clock e (db_tick d + 1)) f q tot d)"

definition contract_ledger_max_page :: int where "contract_ledger_max_page = 100000"

definition list_contracts_page :: "env \<Rightarrow> principal \<Rightarrow> contract_list_query \<Rightarrow> db \<Rightarrow> contract_page result" where
  "list_contracts_page e p q0 d =
     (case contract_scope p ''contract.read'' of
        None \<Rightarrow> fail ErrForbidden
      | Some f \<Rightarrow>
          let lim = (if clq_limit q0 \<le> 0 \<or> 200 < clq_limit q0 then 50 else clq_limit q0);
              q = \<lparr>clq_keyword = trim_space (clq_keyword q0), clq_status = trim_space (clq_status q0),
                   clq_type = trim_space (clq_type q0), clq_expired = trim_space (clq_expired q0),
                   clq_offset = (if clq_offset q0 < 0 \<or> contract_ledger_max_page \<le> clq_offset q0 div lim then 0
                                 else clq_offset q0),
                   clq_limit = lim\<rparr>;
              page = list_contracts_page_scoped e f q d;
              off = clamp_contract_list_offset (clq_offset q) (cp_total page)
          in ok (page\<lparr>cp_items := map (\<lambda>c. c\<lparr>c_can_edit_draft := can_edit_draft p c\<rparr>) (cp_items page),
                      cp_page := off div lim + 1, cp_size := lim\<rparr>))"

section \<open>Approved contracts for other systems\<close>

definition approved_row :: "scope_filter \<Rightarrow> contract_row \<Rightarrow> bool" where
  "approved_row f r \<longleftrightarrow> apply_contract_scope f r \<and> ordinary_contract_record r
     \<and> ct_status r \<in> set approval_passed_statuses"

text \<open>\<^verbatim>\<open>ORDER BY updated_at DESC\<close>; rows with the same time stay in table order.\<close>

definition newest_first :: "contract_row list \<Rightarrow> contract_row list" where
  "newest_first rows = sort_key (\<lambda>r. - ct_updated_at r) rows"

definition bounded_limit :: "int \<Rightarrow> int \<Rightarrow> int \<Rightarrow> int" where
  "bounded_limit most fallback lim = (if lim \<le> 0 \<or> most < lim then fallback else lim)"

definition list_approved_contracts_scoped :: "scope_filter \<Rightarrow> int \<Rightarrow> db \<Rightarrow> contract list" where
  "list_approved_contracts_scoped f lim d =
     attach_payment_terms d (sf_tenant f) (map (contract_from_record \<circ> listed_row)
       (take (nat (bounded_limit 200 50 lim)) (newest_first (filter (approved_row f) (db_contracts d)))))"

definition approved_contract_reference :: "contract_row \<Rightarrow> contract" where
  "approved_contract_reference r =
     \<lparr>c_id = ct_id r, c_tenant_id = [], c_number = value_or_empty (ct_number r), c_number_format = [],
      c_title = ct_title r, c_type = [], c_service_type = [], c_opportunity_id = [], c_opportunity_name = [],
      c_crm_customer_id = 0, c_counterparty_source = ct_counterparty_source r, c_local_counterparty_id = [],
      c_counterparty_version = 0, c_category_source = ct_category_source r,
      c_integration_policy = ct_integration_policy r, c_customer_name = value_or_empty (ct_customer_name r),
      c_customer_address = [], c_customer_contact = [], c_customer_phone = [], c_owner_identity_id = [],
      c_owner_org_id = [], c_project_id = [], c_systems = [], c_service_items = [], c_credit_level = [],
      c_owner_user_id = [], c_owner_name = [], c_amount_minor = 0, c_currency = [], c_payment_terms = None,
      c_content = [], c_template_id = [], c_template_values = Map.empty, c_document = [], c_document_format = [],
      c_source_media_type = [], c_source_filename = [], c_source_sha256 = [], c_paper_number = [],
      c_origin_kind = [], c_import_mode = [], c_origin_item_id = [], c_historical_status = [],
      c_historical_customer = [], c_historical_owner = [], c_import_policy = None, c_source_file_id = [],
      c_source_file_status = [], c_status = ct_status r, c_version = ct_version r, c_start_date = None,
      c_end_date = None, c_content_hash = [], c_created_at = zero_time, c_created_by = [], c_can_edit_draft = False,
      c_updated_at = zero_time\<rparr>"

definition apply_approved_contract_keyword :: "env \<Rightarrow> string \<Rightarrow> contract_row \<Rightarrow> bool" where
  "apply_approved_contract_keyword e keyword r \<longleftrightarrow>
     (let k = trim_space keyword in k = [] \<or> keyword_matches e k r)"

definition reference_rows :: "env \<Rightarrow> scope_filter \<Rightarrow> string \<Rightarrow> string \<Rightarrow> db \<Rightarrow> contract_row list" where
  "reference_rows e f keyword after_id d =
     sort_key ct_id (filter (\<lambda>r. approved_row f r \<and> apply_approved_contract_keyword e keyword r
         \<and> (after_id = [] \<or> after_id < ct_id r)) (db_contracts d))"

definition list_approved_references_scoped ::
  "env \<Rightarrow> scope_filter \<Rightarrow> string \<Rightarrow> string \<Rightarrow> int \<Rightarrow> db \<Rightarrow> contract list" where
  "list_approved_references_scoped e f keyword after_id lim d =
     map approved_contract_reference
       (take (nat (bounded_limit 500 500 lim)) (reference_rows e f keyword after_id d))"

definition list_approved_contract_references ::
  "env \<Rightarrow> principal \<Rightarrow> string \<Rightarrow> string \<Rightarrow> int \<Rightarrow> db \<Rightarrow> contract list result" where
  "list_approved_contract_references e p keyword after_id lim d =
     (case contract_scope p ''contract.approved.read'' of
        None \<Rightarrow> fail ErrForbidden
      | Some f \<Rightarrow> ok (list_approved_references_scoped e f keyword after_id lim d))"

definition list_approved_contracts :: "principal \<Rightarrow> int \<Rightarrow> db \<Rightarrow> contract list result" where
  "list_approved_contracts p lim d =
     (case contract_scope p ''contract.approved.read'' of
        None \<Rightarrow> fail ErrForbidden
      | Some f \<Rightarrow> ok (list_approved_contracts_scoped f lim d))"

definition integration_consumable :: "env \<Rightarrow> contract_row \<Rightarrow> bool" where
  "integration_consumable e r \<longleftrightarrow>
     env_collate e (ct_integration_policy r) \<noteq> env_collate e ''NOT_APPLICABLE''
     \<and> env_collate e (ct_counterparty_source r) \<noteq> env_collate e ''LOCAL''
     \<and> env_collate e (ct_category_source r) \<noteq> env_collate e ''LOCAL''"

definition list_project_consumable_contracts :: "env \<Rightarrow> principal \<Rightarrow> int \<Rightarrow> db \<Rightarrow> contract list result" where
  "list_project_consumable_contracts e p lim d =
     (case contract_scope p ''contract.approved.read'' of
        None \<Rightarrow> fail ErrForbidden
      | Some f \<Rightarrow> ok (attach_payment_terms d (sf_tenant f) (map (contract_from_record \<circ> listed_row)
          (take (nat (bounded_limit 200 50 lim)) (newest_first
             (filter (\<lambda>r. approved_row f r \<and> integration_consumable e r) (db_contracts d)))))))"

definition list_settlement_consumable_contracts ::
  "env \<Rightarrow> principal \<Rightarrow> string \<Rightarrow> int \<Rightarrow> db \<Rightarrow> contract list result" where
  "list_settlement_consumable_contracts e p keyword0 lim d =
     (case contract_scope p ''contract.read'' of
        None \<Rightarrow> fail ErrForbidden
      | Some f \<Rightarrow> let keyword = trim_space keyword0 in
          ok (attach_payment_terms d (sf_tenant f) (map (contract_from_record \<circ> listed_row)
            (take (nat (bounded_limit 200 50 lim)) (newest_first
               (filter (\<lambda>r. apply_contract_scope f r \<and> ordinary_contract_record r \<and> ct_status r = StatusCompleted
                   \<and> (keyword = [] \<or> keyword_matches e keyword r) \<and> integration_consumable e r) (db_contracts d)))))))"

text \<open>
  \<^verbatim>\<open>GROUP BY opportunity_id\<close> under the collation of the column: the rows of one collation class form a group,
  which shows the value of one of them.
\<close>

definition signed_rows :: "env \<Rightarrow> db \<Rightarrow> string \<Rightarrow> string list \<Rightarrow> contract_row list" where
  "signed_rows e d tenant opportunities =
     filter (\<lambda>r. ordinary_contract_record r \<and> ct_tenant r = tenant
         \<and> (case ct_opportunity_id r of None \<Rightarrow> False
            | Some i \<Rightarrow> list_ex (\<lambda>x. env_collate e x = env_collate e i) opportunities)
         \<and> ct_status r \<in> set approval_passed_statuses) (db_contracts d)"

fun signed_counts :: "env \<Rightarrow> string list \<Rightarrow> (string \<rightharpoonup> nat) \<Rightarrow> (string \<rightharpoonup> nat)" where
  "signed_counts e [] m = m"
| "signed_counts e (i # is) m =
     (signed_counts e (filter (\<lambda>x. env_collate e x \<noteq> env_collate e i) is) m)
       (i \<mapsto> 1 + length (filter (\<lambda>x. env_collate e x = env_collate e i) is))"

definition count_signed_contracts :: "env \<Rightarrow> db \<Rightarrow> string \<Rightarrow> string list \<Rightarrow> (string \<rightharpoonup> nat) result" where
  "count_signed_contracts e d tenant0 opportunities =
     (let tenant = trim_space tenant0 in
      if tenant = [] \<or> opportunities = [] \<or> 1000 < length opportunities then fail ErrValidation
      else ok (signed_counts e (map (value_or_empty \<circ> ct_opportunity_id) (signed_rows e d tenant opportunities))
                 (\<lambda>i. if i \<in> set opportunities then Some 0 else None)))"

section \<open>Keywords match literally\<close>

definition escape_rune :: "nat \<Rightarrow> nat list" where
  "escape_rune r = (if r \<in> {37, 92, 95} then [92, r] else [r])"

lemma like_percent: "like eq (37 # ps) s \<longleftrightarrow> (\<exists>u t. s = u @ t \<and> like eq ps t)"
proof (induction s)
  case (Cons c s)
  have "(\<exists>u t. c # s = u @ t \<and> like eq ps t) \<longleftrightarrow> like eq ps (c # s) \<or> (\<exists>u t. s = u @ t \<and> like eq ps t)"
    by (metis append_Cons append_Nil list.exhaust list.inject)
  with Cons show ?case by (simp add: like.simps(2))
qed (simp add: like.simps(2))

lemma like_literal_Cons:
  "like eq (escape_rune r @ ps) s \<longleftrightarrow> (\<exists>c cs. s = c # cs \<and> eq r c \<and> like eq ps cs)"
  by (cases s; cases ps) (auto simp: escape_rune_def like.simps(2))

lemma like_literal:
  "like eq (concat (map escape_rune k) @ ps) s \<longleftrightarrow> (\<exists>m t. s = m @ t \<and> list_all2 eq k m \<and> like eq ps t)"
proof (induction k arbitrary: s)
  case (Cons r k)
  have "like eq (concat (map escape_rune (r # k)) @ ps) s
      \<longleftrightarrow> (\<exists>c cs. s = c # cs \<and> eq r c \<and> (\<exists>m t. cs = m @ t \<and> list_all2 eq k m \<and> like eq ps t))"
    by (simp add: like_literal_Cons Cons.IH)
  also have "\<dots> \<longleftrightarrow> (\<exists>m t. s = m @ t \<and> list_all2 eq (r # k) m \<and> like eq ps t)" (is "?l \<longleftrightarrow> ?r")
  proof
    assume ?l
    then obtain c m t where "s = c # m @ t" "eq r c" "list_all2 eq k m" "like eq ps t" by blast
    then show ?r by (intro exI [of _ "c # m"] exI [of _ t]) simp
  next
    assume ?r
    then obtain m t where "s = m @ t" "list_all2 eq (r # k) m" "like eq ps t" by blast
    then show ?l by (cases m) auto
  qed
  finally show ?case .
qed simp

text \<open>Escaping bytes and escaping code points agree, because no continuation byte is escaped.\<close>

definition escape_byte :: "nat \<Rightarrow> nat list" where
  "escape_byte b = (if b \<in> {37, 92, 95} then [92, b] else [b])"

lemma escape_byte_high: "128 \<le> b \<Longrightarrow> escape_byte b = [b]"
  by (simp add: escape_byte_def)

lemma runes_of_low: "b < 128 \<Longrightarrow> runes_of (b # bs) = b # runes_of bs"
  by (simp add: runes_of.simps(2))

definition high :: "nat list \<Rightarrow> nat list" where
  "high bs = takeWhile (\<lambda>b. 128 \<le> b) bs"

lemma decode_rune_lead:
  assumes "128 \<le> b"
  shows "decode_rune (b # bs) = decode_rune (b # high bs)"
proof -
  consider "bs = []" | b1 rest where "bs = b1 # rest" "b1 < 128" | b1 where "bs = [b1]" "128 \<le> b1"
    | b1 b2 rest where "bs = b1 # b2 # rest" "128 \<le> b1" "b2 < 128"
    | b1 b2 where "bs = [b1, b2]" "128 \<le> b1" "128 \<le> b2"
    | b1 b2 b3 rest where "bs = b1 # b2 # b3 # rest" "128 \<le> b1" "128 \<le> b2" "b3 < 128"
    | b1 b2 b3 rest where "bs = b1 # b2 # b3 # rest" "128 \<le> b1" "128 \<le> b2" "128 \<le> b3"
    by (metis list.exhaust linorder_not_le)
  then show ?thesis
  proof cases
    case (2 b1 rest)
    then have "\<not> cont_byte b1" "\<not> 160 \<le> b1" "\<not> 144 \<le> b1" "\<not> 128 \<le> b1" by (simp_all add: cont_byte_def)
    with 2 assms show ?thesis by (simp add: high_def split: list.split)
  next
    case (4 b1 b2 rest)
    then have "\<not> cont_byte b2" by (simp add: cont_byte_def)
    with 4 assms show ?thesis by (simp add: high_def split: list.split)
  next
    case (6 b1 b2 b3 rest)
    then have "\<not> cont_byte b3" by (simp add: cont_byte_def)
    with 6 assms show ?thesis by (simp add: high_def split: list.split)
  qed (simp_all add: high_def)
qed

lemma decode_rune_reach: "128 \<le> b \<Longrightarrow> snd (decode_rune (b # bs)) \<le> 1 + length (high bs)"
  using decode_rune_width [of "b # high bs"] decode_rune_lead [of b bs] by simp

lemma high_escape: "high (concat (map escape_byte bs)) = high bs"
  by (induction bs) (simp_all add: high_def escape_byte_def)

lemma decode_rune_escaped:
  assumes "128 \<le> b"
  shows "decode_rune (b # concat (map escape_byte bs)) = decode_rune (b # bs)"
    and "drop (snd (decode_rune (b # bs))) (b # concat (map escape_byte bs))
      = concat (map escape_byte (drop (snd (decode_rune (b # bs))) (b # bs)))"
proof -
  show "decode_rune (b # concat (map escape_byte bs)) = decode_rune (b # bs)"
    using decode_rune_lead [OF assms, of "concat (map escape_byte bs)"] decode_rune_lead [OF assms, of bs]
    by (simp only: high_escape)
  obtain k where k: "snd (decode_rune (b # bs)) = Suc k" "k \<le> length (high bs)"
    using decode_rune_width [of "b # bs"] decode_rune_reach [OF assms, of bs]
    by (cases "snd (decode_rune (b # bs))") auto
  have "drop k (concat (map escape_byte bs)) = concat (map escape_byte (drop k bs))"
    using k(2)
  proof (induction bs arbitrary: k)
    case (Cons x bs)
    then show ?case by (cases k; cases "128 \<le> x") (auto simp: high_def escape_byte_high)
  qed simp
  with k(1) show "drop (snd (decode_rune (b # bs))) (b # concat (map escape_byte bs))
      = concat (map escape_byte (drop (snd (decode_rune (b # bs))) (b # bs)))" by simp
qed

lemma decode_rune_high: "128 \<le> b \<Longrightarrow> 128 \<le> fst (decode_rune (b # bs))"
  using decode_rune_ascii [of b bs] by (meson leD leI)

lemma runes_of_escaped: "runes_of (concat (map escape_byte bs)) = concat (map escape_rune (runes_of bs))"
proof (induction bs rule: runes_of.induct)
  case (2 b bs)
  show ?case
  proof (cases "b < 128")
    case True
    then have "runes_of (escape_byte b @ rest) = escape_rune b @ runes_of rest" for rest
      by (simp add: escape_byte_def escape_rune_def runes_of_low)
    with True 2 show ?thesis by (simp add: runes_of_low runes_of.simps(2) [of b bs])
  next
    case False
    then have high: "128 \<le> b" by simp
    have "runes_of (b # concat (map escape_byte bs)) =
        fst (decode_rune (b # bs)) # runes_of (concat (map escape_byte (drop (snd (decode_rune (b # bs))) (b # bs))))"
      by (simp only: runes_of.simps(2) [of b "concat (map escape_byte bs)"] decode_rune_escaped [OF high])
    with 2 decode_rune_high [OF high, of bs] show ?thesis
      by (simp add: escape_byte_high [OF high] runes_of.simps(2) [of b bs] escape_rune_def)
  qed
qed simp

lemma map_like_escape: "map byte_of (concat (map like_escape k)) = concat (map escape_byte (map byte_of k))"
  by (induction k) (auto simp: like_escape_def escape_byte_def)

lemma decode_rune_append_low: "c < 128 \<Longrightarrow> decode_rune (b # bs @ [c]) = decode_rune (b # bs)"
proof (cases "128 \<le> b")
  case True
  assume "c < 128"
  then have "high (bs @ [c]) = high bs" by (induction bs) (simp_all add: high_def)
  with decode_rune_lead [OF True, of "bs @ [c]"] decode_rune_lead [OF True, of bs] show ?thesis by simp
qed simp

lemma runes_of_append_low:
  "c < 128 \<Longrightarrow> runes_of (bs @ [c]) = runes_of bs @ [c]"
proof (induction bs rule: runes_of.induct)
  case (2 b bs)
  have "snd (decode_rune (b # bs)) \<le> length (b # bs)" using decode_rune_width [of "b # bs"] by simp
  then have "drop (snd (decode_rune (b # bs))) (b # bs @ [c]) = drop (snd (decode_rune (b # bs))) (b # bs) @ [c]"
    by (metis append_Cons drop_append diff_is_0_eq drop0)
  then show ?case
    using 2(1) [OF 2(2)] decode_rune_append_low [OF 2(2), of b bs]
    by (simp only: append_Cons runes_of.simps(2))
qed (simp add: runes_of_low)

lemma runes_of_pattern:
  "go_runes (literal_like_pattern k) = 37 # concat (map escape_rune (go_runes k)) @ [37]"
proof -
  have "map byte_of (literal_like_pattern k) = 37 # concat (map escape_byte (map byte_of k)) @ [37]"
    by (simp add: literal_like_pattern_def map_like_escape byte_of_def)
  then show ?thesis by (simp only: go_runes_def) (simp add: runes_of_low runes_of_append_low runes_of_escaped del: map_map)
qed

text \<open>C30: The keyword of a search is matched literally: a column matches when it contains the keyword
  character by character in the collation of the column; percent signs, underscores and backslashes of the
  keyword have no special meaning.\<close>
theorem keyword_search_literal:
  "column_like e (literal_like_pattern keyword) (Some v) \<longleftrightarrow>
     (\<exists>before middle rest. go_runes v = before @ middle @ rest
        \<and> list_all2 (collate_char e) (go_runes keyword) middle)"
proof -
  have "column_like e (literal_like_pattern keyword) (Some v) \<longleftrightarrow>
     (\<exists>u t. go_runes v = u @ t \<and> like (collate_char e) (concat (map escape_rune (go_runes keyword)) @ [37]) t)"
    by (simp add: column_like_def runes_of_pattern like_percent)
  then show ?thesis by (auto simp: like_literal like_percent)
qed

section \<open>Pages cover the ledger\<close>

lemma attach_distinct:
  assumes "distinct (map c_id cs)"
  shows "attach_payment_terms d tenant cs
    = map (\<lambda>c. c\<lparr>c_payment_terms := Some (list_payment_terms d tenant (c_id c))\<rparr>) cs"
proof -
  define rows where "rows = sort_key ptr_contract_id (sort_key ptr_installment_no
    (filter (\<lambda>t. ptr_tenant_id t = tenant \<and> ptr_contract_id t \<in> c_id ` set cs) (db_terms d)))"
  have plan: "map shown_term (filter (\<lambda>t. ptr_contract_id t = c_id (cs ! k)) rows)
      = list_payment_terms d tenant (c_id (cs ! k))" if "k < length cs" for k
  proof -
    have "filter (\<lambda>t. ptr_contract_id t = c_id (cs ! k)) rows = sort_key ptr_installment_no
        (filter (\<lambda>t. ptr_contract_id t = c_id (cs ! k)) (filter (\<lambda>t. ptr_tenant_id t = tenant \<and> ptr_contract_id t \<in> c_id ` set cs) (db_terms d)))"
      by (simp only: rows_def sort_key_stable filter_sort)
    also have "\<dots> = sort_key ptr_installment_no (filter (term_of tenant (c_id (cs ! k))) (db_terms d))"
      using that by (auto simp: term_of_def intro!: arg_cong [of _ _ "sort_key ptr_installment_no"] filter_cong)
    finally show ?thesis by (simp add: list_payment_terms_def contract_terms_def)
  qed
  have fresh: "c_id (cs ! k) \<notin> c_id ` set (drop (Suc k) cs)" if "k < length cs" for k
  proof -
    have "map c_id cs = take k (map c_id cs) @ c_id (cs ! k) # map c_id (drop (Suc k) cs)"
      using that by (metis id_take_nth_drop length_map nth_map drop_map)
    with assms have "distinct (c_id (cs ! k) # map c_id (drop (Suc k) cs))" by (metis distinct_append)
    then show ?thesis by simp
  qed
  show ?thesis
    unfolding attach_payment_terms_def Let_def rows_def [symmetric]
    by (rule nth_equalityI) (auto simp: plan dest: fresh)
qed

lemma chunks: "concat (map (\<lambda>k. take n (drop (k * n) xs)) [0..<K]) = take (K * n) xs"
proof (induction K)
  case (Suc K)
  have "take (n + K * n) xs = take (K * n) xs @ take n (drop (K * n) xs)"
    by (metis add.commute take_add)
  with Suc show ?case by simp
qed simp

lemma page_of_clamped:
  assumes "0 \<le> off"
  shows "page_of (clamp_contract_list_offset off (int (length xs))) lim xs = page_of off lim xs"
  using assms by (auto simp: page_of_def clamp_contract_list_offset_def)

lemma ledger_rows_trimmed:
  "ledger_rows e now f \<lparr>clq_keyword = trim_space (clq_keyword q), clq_status = trim_space (clq_status q),
      clq_type = trim_space (clq_type q), clq_expired = trim_space (clq_expired q), clq_offset = off, clq_limit = lim\<rparr> d
    = ledger_rows e now f q d"
  by (simp add: ledger_rows_def contract_ledger_filters_def expired_filter_def)

lemma ledger_rows_same_day:
  "calendar_day (env_zone e) now = calendar_day (env_zone e) now' \<Longrightarrow> ledger_rows e now f q d = ledger_rows e now' f q d"
  by (simp add: ledger_rows_def contract_ledger_filters_def)

lemma length_ledger_order [simp]: "length (ledger_order rows) = length rows"
  by (simp add: ledger_order_def)

lemma distinct_ledger:
  assumes "distinct (map ct_id (db_contracts d))"
  shows "distinct (map ct_id (ledger_order (ledger_rows e now f q d)))"
  using assms by (simp add: ledger_order_def ledger_rows_def distinct_map rev_map [symmetric] inj_on_def)

text \<open>What a user sees of a row of the ledger.\<close>

definition ledger_view :: "principal \<Rightarrow> string \<Rightarrow> db \<Rightarrow> contract_row \<Rightarrow> contract" where
  "ledger_view p tenant d r =
     (let c = (contract_from_record (listed_row r))\<lparr>c_payment_terms := Some (list_payment_terms d tenant (ct_id r))\<rparr>
      in c\<lparr>c_can_edit_draft := can_edit_draft p c\<rparr>)"

lemma listed_row_simps [simp]: "ct_id (listed_row r) = ct_id r" "ct_tenant (listed_row r) = ct_tenant r"
  by (simp_all add: listed_row_def)

lemma list_contracts_page_ok:
  assumes "distinct (map ct_id (db_contracts d))" "contract_scope p ''contract.read'' = Some f"
    "calendar_day (env_zone e) (env_clock e (db_tick d)) = calendar_day (env_zone e) (env_clock e (db_tick d + 1))"
    "1 \<le> n" "n \<le> 200" "k < 100000"
  shows "\<exists>page. list_contracts_page e p (q\<lparr>clq_limit := int n, clq_offset := int k * int n\<rparr>) d = Inr page
    \<and> cp_total page = int (length (ledger_rows e (env_clock e (db_tick d)) f q d))
    \<and> cp_items page = map (ledger_view p (pr_tenant p) d)
        (take n (drop (k * n) (ledger_order (ledger_rows e (env_clock e (db_tick d)) f q d))))"
proof -
  define rows where "rows = ledger_order (ledger_rows e (env_clock e (db_tick d)) f q d)"
  have off: "\<not> contract_ledger_max_page \<le> int k * int n div int n" "\<not> int k * int n < 0"
    using assms(4,6) by (simp_all add: contract_ledger_max_page_def linorder_not_less)
  have tenant: "sf_tenant f = pr_tenant p" using contract_scope_SomeD(2) [OF assms(2)] .
  have same: "ledger_order (ledger_rows e (env_clock e (db_tick d + 1)) f q d) = rows"
    using ledger_rows_same_day [OF assms(3), of f q d] by (simp add: rows_def)
  have "distinct (map ct_id (take n (drop (k * n) rows)))"
    using distinct_ledger [OF assms(1)] by (simp add: rows_def take_map [symmetric] drop_map [symmetric])
  then have "distinct (map c_id (map (contract_from_record \<circ> listed_row) (take n (drop (k * n) rows))))"
    by (simp add: comp_def)
  note terms = attach_distinct [OF this]
  have page: "page_of (int k * int n) (int n) rows = take n (drop (k * n) rows)"
    by (simp add: page_of_def nat_mult_distrib)
  have clamp: "page_of (clamp_contract_list_offset (int k * int n) (int (length (ledger_rows e (env_clock e (db_tick d)) f q d))))
      (int n) rows = take n (drop (k * n) rows)"
    using page_of_clamped [of "int k * int n" rows "int n"] page by (simp add: rows_def)
  show ?thesis
    using assms(4,5) off unfolding rows_def [symmetric]
    by (simp add: list_contracts_page_def assms(2) Let_def list_contracts_page_scoped_def
        list_contracts_page_after_count_def contract_ledger_paging_defaults_def ledger_rows_trimmed same [simplified] clamp
        terms tenant ledger_view_def)
qed

text \<open>The pages of the ledger cover it: on one business day and for a page size of up to 200, the
  pages one after the other show every visible contract that matches the filters, once, newest first, and
  every page reports their number.\<close>
theorem ledger_pages_cover:
  assumes "distinct (map ct_id (db_contracts d))" "contract_scope p ''contract.read'' = Some f"
    "calendar_day (env_zone e) (env_clock e (db_tick d)) = calendar_day (env_zone e) (env_clock e (db_tick d + 1))"
    "1 \<le> n" "n \<le> 200" "K \<le> 100000"
    "length (ledger_rows e (env_clock e (db_tick d)) f q d) \<le> K * n"
  shows "\<exists>page. (\<forall>k < K. list_contracts_page e p (q\<lparr>clq_limit := int n, clq_offset := int k * int n\<rparr>) d = Inr (page k)
        \<and> cp_total (page k) = int (length (ledger_rows e (env_clock e (db_tick d)) f q d)))
    \<and> concat (map (\<lambda>k. cp_items (page k)) [0..<K])
      = map (ledger_view p (pr_tenant p) d) (ledger_order (ledger_rows e (env_clock e (db_tick d)) f q d))"
proof -
  define rows where "rows = ledger_order (ledger_rows e (env_clock e (db_tick d)) f q d)"
  define want where "want = (\<lambda>k page. list_contracts_page e p (q\<lparr>clq_limit := int n, clq_offset := int k * int n\<rparr>) d = Inr page
    \<and> cp_total page = int (length (ledger_rows e (env_clock e (db_tick d)) f q d))
    \<and> cp_items page = map (ledger_view p (pr_tenant p) d) (take n (drop (k * n) rows)))"
  have "\<forall>k. k < K \<longrightarrow> (\<exists>page. want k page)"
    using list_contracts_page_ok [OF assms(1-5), where q = q] assms(6) by (auto simp: want_def rows_def)
  then obtain page where page: "\<And>k. k < K \<Longrightarrow> want k (page k)" by metis
  have "concat (map (\<lambda>k. cp_items (page k)) [0..<K])
      = concat (map (\<lambda>k. map (ledger_view p (pr_tenant p) d) (take n (drop (k * n) rows))) [0..<K])"
    using page by (intro arg_cong [of _ _ concat] map_cong) (auto simp: want_def)
  also have "\<dots> = map (ledger_view p (pr_tenant p) d) (concat (map (\<lambda>k. take n (drop (k * n) rows)) [0..<K]))"
    by (simp add: map_concat comp_def)
  also have "\<dots> = map (ledger_view p (pr_tenant p) d) rows"
    using assms(7) by (simp only: chunks) (simp add: rows_def)
  finally show ?thesis
    using page by (intro exI [of _ page]) (simp add: want_def rows_def)
qed

definition open_query :: contract_list_query where
  "open_query = \<lparr>clq_keyword = [], clq_status = ''draft'', clq_type = [], clq_expired = [], clq_offset = 0, clq_limit = 0\<rparr>"

definition ledger_db :: db where
  "ledger_db = sample_db [owned_by ''c1'' ''i1'', owned_by ''c2'' ''i2'', (owned_by ''c3'' ''i1'')\<lparr>ct_updated_at := 9\<rparr>]"

lemma ledger_db_rows:
  "ledger_rows sample_db_env 0 seller_scope open_query ledger_db = [owned_by ''c1'' ''i1'', (owned_by ''c3'' ''i1'')\<lparr>ct_updated_at := 9\<rparr>]"
proof -
  have "expired_filter [] = (False, False)" by code_simp
  then show ?thesis
    by (simp add: ledger_rows_def ledger_db_def apply_contract_scope_def scope_predicates_def column_in_def seller_scope_def
        contract_ledger_filters_def open_query_def trim_space_id owned_by_def sample_contract_def space_bytes_def byte_of_def)
qed

theorem ledger_pages_cover_witness:
  "\<exists>page. list_contracts_page sample_db_env seller (open_query\<lparr>clq_limit := 1, clq_offset := 0\<rparr>) ledger_db = Inr (page 0)
     \<and> list_contracts_page sample_db_env seller (open_query\<lparr>clq_limit := 1, clq_offset := 1\<rparr>) ledger_db = Inr (page (1 :: nat))
     \<and> map c_id (cp_items (page 0) @ cp_items (page 1)) = [''c3'', ''c1'']"
proof -
  have start: "env_clock sample_db_env (db_tick ledger_db) = 0" "env_clock sample_db_env (db_tick ledger_db + 1) = 1"
    by (simp_all add: sample_db_env_def ledger_db_def sample_db_def)
  have day: "calendar_day (env_zone sample_db_env) (env_clock sample_db_env (db_tick ledger_db))
      = calendar_day (env_zone sample_db_env) (env_clock sample_db_env (db_tick ledger_db + 1))"
    unfolding start by code_simp
  have keys: "distinct (map ct_id (db_contracts ledger_db))" by (simp add: ledger_db_def)
  have few: "length (ledger_rows sample_db_env (env_clock sample_db_env (db_tick ledger_db)) seller_scope open_query ledger_db) \<le> 2 * 1"
    unfolding start ledger_db_rows by simp
  have "ledger_order [owned_by ''c1'' ''i1'', (owned_by ''c3'' ''i1'')\<lparr>ct_updated_at := 9\<rparr>]
      = [(owned_by ''c3'' ''i1'')\<lparr>ct_updated_at := 9\<rparr>, owned_by ''c1'' ''i1'']"
    by (simp add: ledger_order_def owned_by_def sample_contract_def)
  with ledger_pages_cover [OF keys seller_scopes(1) day _ _ _ few]
  obtain page where page: "\<And>k. k < 2 \<Longrightarrow> list_contracts_page sample_db_env seller (open_query\<lparr>clq_limit := int 1, clq_offset := int k * int 1\<rparr>) ledger_db = Inr (page k)"
    and items: "concat (map (\<lambda>k. cp_items (page k)) [0..<2]) = map (ledger_view seller ''t1'' ledger_db)
      [(owned_by ''c3'' ''i1'')\<lparr>ct_updated_at := 9\<rparr>, owned_by ''c1'' ''i1'']"
    unfolding start ledger_db_rows by (auto simp: seller_def)
  have "map c_id (concat (map (\<lambda>k. cp_items (page k)) [0..<2])) = [''c3'', ''c1'']"
    unfolding items by (simp add: ledger_view_def Let_def)
  with page [of 0] page [of 1] show ?thesis by (auto simp: upt_rec intro!: exI [of _ page])
qed

end
