(* ===== verification/Reports.thy ===== *)
theory Reports
  imports Ledger
begin

text \<open>
  The read models over the contract table: the dashboard (\<^verbatim>\<open>ContractDashboardScoped\<close> of
  \<^verbatim>\<open>mysql/repository.go\<close>, \<^verbatim>\<open>ContractDashboard\<close> of \<^verbatim>\<open>application/service.go\<close>) and the signing ledger with its
  tabs and statistics (\<^verbatim>\<open>mysql/contracts_signing_query.go\<close>).
\<close>

section \<open>Dashboard\<close>

record currency_total =
  cur_currency :: string
  cur_amount :: int
  cur_contracts :: int

record dashboard_contract =
  di_id :: string
  di_number :: string
  di_title :: string
  di_type :: string
  di_service_type :: string
  di_credit_level :: string
  di_owner_name :: string
  di_amount :: int
  di_currency :: string
  di_content :: string
  di_status :: status
  di_start_date :: "instant option"
  di_end_date :: "instant option"
  di_created_at :: instant
  di_updated_at :: instant
  di_in_approval :: bool
  di_active_unexpired :: bool
  di_expired :: bool

record dashboard =
  da_tenant :: string
  da_amount :: int
  da_currency_totals :: "currency_total list"
  da_contracts_total :: int
  da_in_approval :: int
  da_active :: int
  da_expired :: int
  da_contracts :: "dashboard_contract list"
  da_limited :: bool

definition dashboard_active_statuses :: "status list" where
  "dashboard_active_statuses = [StatusActive, StatusInProgress, StatusPendingPay]"

definition dashboard_active_scope :: "instant \<Rightarrow> contract_row \<Rightarrow> bool" where
  "dashboard_active_scope today r \<longleftrightarrow> ct_status r = StatusArchived
     \<or> (ct_status r \<in> set dashboard_active_statuses
        \<and> (case ct_end_date r of None \<Rightarrow> True | Some t \<Rightarrow> today \<le> t))"

definition dashboard_status_is_active :: "status \<Rightarrow> instant option \<Rightarrow> instant \<Rightarrow> bool" where
  "dashboard_status_is_active s end_date today =
     (if s = StatusArchived then True
      else if s \<noteq> StatusActive \<and> s \<noteq> StatusInProgress \<and> s \<noteq> StatusPendingPay then False
      else case end_date of None \<Rightarrow> True | Some t \<Rightarrow> \<not> t < today)"

text \<open>The sum of a group is scanned into a 64 bit integer, which fails beyond its range; the grand total wraps.\<close>

definition currency_group :: "contract_row list \<Rightarrow> string \<Rightarrow> currency_total result" where
  "currency_group rows currency =
     (let group = filter (\<lambda>r. ct_currency r = currency) rows; amount = sum_list (map ct_amount group);
          name = to_upper (trim_space currency)
      in if amount < min_int64 \<or> max_int64 < amount then fail err_decode
         else ok \<lparr>cur_currency = (if name = [] then ''UNKNOWN'' else name), cur_amount = amount,
                  cur_contracts = int (length group)\<rparr>)"

fun res_map :: "('a \<Rightarrow> 'b result) \<Rightarrow> 'a list \<Rightarrow> 'b list result" where
  "res_map f [] = ok []"
| "res_map f (x # xs) = res_bind (f x) (\<lambda>y. res_bind (res_map f xs) (\<lambda>ys. ok (y # ys)))"

definition dashboard_currency_totals :: "contract_row list \<Rightarrow> (currency_total list \<times> int \<times> int) result" where
  "dashboard_currency_totals rows =
     res_bind (res_map (currency_group rows) (sort (remdups (map ct_currency rows)))) (\<lambda>totals.
       ok (totals, sum_list (map cur_contracts totals),
           foldl (\<lambda>acc t. wrap_int64 (acc + cur_amount t)) 0 totals))"

definition dashboard_item :: "string list \<Rightarrow> instant \<Rightarrow> contract_row \<Rightarrow> dashboard_contract" where
  "dashboard_item approvals today r =
     (let active = dashboard_status_is_active (ct_status r) (ct_end_date r) today;
          expired = (ct_status r \<noteq> StatusArchived \<and> active
                     \<and> (case ct_end_date r of None \<Rightarrow> False | Some t \<Rightarrow> t < today))
      in \<lparr>di_id = ct_id r, di_number = value_or_empty (ct_number r), di_title = ct_title r, di_type = ct_type r,
          di_service_type = ct_service_type r, di_credit_level = value_or_empty (ct_credit_level r),
          di_owner_name = ct_owner_name r, di_amount = ct_amount r, di_currency = ct_currency r,
          di_content = ct_content r, di_status = ct_status r, di_start_date = ct_start_date r,
          di_end_date = ct_end_date r, di_created_at = ct_created_at r, di_updated_at = ct_updated_at r,
          di_in_approval = (ct_id r \<in> set approvals), di_active_unexpired = (active \<and> \<not> expired),
          di_expired = expired\<rparr>)"

definition dashboard_rows :: "scope_filter \<Rightarrow> db \<Rightarrow> contract_row list" where
  "dashboard_rows f d = filter (\<lambda>r. apply_contract_scope f r \<and> ordinary_contract_record r) (db_contracts d)"

definition running_contracts :: "scope_filter \<Rightarrow> db \<Rightarrow> string list" where
  "running_contracts f d = remdups (map in_contract (filter (\<lambda>i. in_tenant i = sf_tenant f
     \<and> in_contract i \<in> ct_id ` set (dashboard_rows f d) \<and> in_status i = AStatusRunning) (db_instances d)))"

definition contract_dashboard_scoped :: "scope_filter \<Rightarrow> instant \<Rightarrow> int \<Rightarrow> db \<Rightarrow> dashboard result" where
  "contract_dashboard_scoped f today lim0 d =
     (let lim = bounded_limit 200 200 lim0; rows = dashboard_rows f d in
      res_bind (dashboard_currency_totals rows) (\<lambda>(totals, contracts, amount).
        let approvals = running_contracts f d in
        ok \<lparr>da_tenant = [], da_amount = amount, da_currency_totals = totals, da_contracts_total = contracts,
            da_in_approval = int (length approvals),
            da_active = int (length (filter (dashboard_active_scope today) rows)),
            da_expired = int (length (filter (\<lambda>r. ct_status r \<in> set dashboard_active_statuses
               \<and> (case ct_end_date r of None \<Rightarrow> False | Some t \<Rightarrow> t < today)) rows)),
            da_contracts = map (dashboard_item approvals today) (take (nat lim) (newest_first rows)),
            da_limited = (lim < contracts)\<rparr>))"

definition contract_dashboard :: "env \<Rightarrow> principal \<Rightarrow> db \<Rightarrow> dashboard result" where
  "contract_dashboard e p d =
     (case contract_scope p ''contract.read'' of
        None \<Rightarrow> fail ErrForbidden
      | Some f \<Rightarrow>
          res_bind (contract_dashboard_scoped f (calendar_day (env_zone e) (env_clock e (db_tick d))) 200 d)
            (\<lambda>b. ok (b\<lparr>da_tenant := pr_tenant p\<rparr>)))"

section \<open>Signing ledger\<close>

record signing_record_query =
  srq_keyword :: string
  srq_status :: string
  srq_method :: string
  srq_offset :: int
  srq_limit :: int

record signing_stats =
  ss_total :: int
  ss_completed :: int
  ss_processing :: int
  ss_monthly :: int
  ss_expired :: int

record signing_record_page =
  sp_items :: "signing_record list"
  sp_total :: int
  sp_offset :: int
  sp_limit :: int
  sp_has_more :: bool
  sp_stats :: signing_stats

type_synonym ledger_line = "contract_row \<times> signing_row option"

definition joined_signing :: "db \<Rightarrow> contract_row \<Rightarrow> signing_row option" where
  "joined_signing d r = first_row (signing_of (ct_tenant r) (ct_id r)) (db_signing d)"

definition signing_ledger_query :: "scope_filter \<Rightarrow> db \<Rightarrow> ledger_line list" where
  "signing_ledger_query f d =
     map (\<lambda>r. (r, joined_signing d r))
       (filter (\<lambda>r. list_ex (\<lambda>x. apply_contract_scope f x \<and> ct_id x = ct_id r) (db_contracts d)
           \<and> ct_status r \<in> set approval_passed_statuses) (db_contracts d))"

definition line_completed :: "ledger_line \<Rightarrow> bool" where
  "line_completed l = (case snd l of None \<Rightarrow> False | Some s \<Rightarrow> sg_status s = SigningCompleted)"

definition line_overdue :: "instant \<Rightarrow> ledger_line \<Rightarrow> bool" where
  "line_overdue today l = (case ct_end_date (fst l) of None \<Rightarrow> False | Some t \<Rightarrow> t < today)"

definition line_status :: "ledger_line \<Rightarrow> signing_status" where
  "line_status l = (case snd l of None \<Rightarrow> SigningPendingShipment | Some s \<Rightarrow> sg_status s)"

definition signing_keyword_matches :: "env \<Rightarrow> string \<Rightarrow> ledger_line \<Rightarrow> bool" where
  "signing_keyword_matches e keyword l =
     (keyword_matches e keyword (fst l)
      \<or> column_like e (literal_like_pattern keyword) (case snd l of None \<Rightarrow> None | Some s \<Rightarrow> sg_courier s))"

definition signing_status_matches :: "string \<Rightarrow> instant \<Rightarrow> ledger_line \<Rightarrow> bool" where
  "signing_status_matches status today l =
     (if status = [] then True
      else if status = ''pending_shipment'' then line_status l = SigningPendingShipment \<and> \<not> line_overdue today l
      else if status = ''in_return'' then line_status l = SigningInReturn \<and> \<not> line_overdue today l
      else if status = ''pending_review'' then line_status l = SigningPendingReview \<and> \<not> line_overdue today l
      else if status = ''completed'' then line_completed l
      else if status = ''expired'' then \<not> line_completed l \<and> line_overdue today l
      else False)"

definition apply_signing_record_filters :: "env \<Rightarrow> signing_record_query \<Rightarrow> instant \<Rightarrow> ledger_line \<Rightarrow> bool" where
  "apply_signing_record_filters e q today l \<longleftrightarrow>
     (let keyword = trim_space (srq_keyword q); way = trim_space (srq_method q) in
      (keyword = [] \<or> signing_keyword_matches e keyword l)
      \<and> signing_status_matches (trim_space (srq_status q)) today l
      \<and> (way = [] \<or> env_collate e (case snd l of None \<Rightarrow> ''paper'' | Some s \<Rightarrow> sg_method s) = env_collate e way))"

definition signing_ledger_order :: "ledger_line list \<Rightarrow> ledger_line list" where
  "signing_ledger_order ls =
     sort_key (\<lambda>l. if line_completed l then 1 else 0 :: nat)
       (rev (sort_key (ct_updated_at \<circ> fst) (sort_key (ct_id \<circ> fst) ls)))"

definition next_month_start :: "zone option \<Rightarrow> instant \<Rightarrow> instant" where
  "next_month_start z now =
     (case local_civil (location z) now of
        Civil y m _ \<Rightarrow> go_date (if m = 12 then Civil (y + 1) 1 1 else Civil y (m + 1) 1) (location z))"

definition signing_stats_scoped :: "env \<Rightarrow> scope_filter \<Rightarrow> instant \<Rightarrow> instant \<Rightarrow> db \<Rightarrow> signing_stats" where
  "signing_stats_scoped e f today now d =
     (let ls = signing_ledger_query f d; from = month_start_of (env_zone e) now; until = next_month_start (env_zone e) now
      in \<lparr>ss_total = int (length ls), ss_completed = int (length (filter line_completed ls)),
          ss_processing = int (length (filter (\<lambda>l. line_status l \<in>
             {SigningPendingShipment, SigningInReturn, SigningPendingReview} \<and> \<not> line_overdue today l) ls)),
          ss_monthly = int (length (filter (\<lambda>l. line_completed l
             \<and> (case snd l of Some s \<Rightarrow> (case sg_confirmed_at s of Some t \<Rightarrow> from \<le> t \<and> t < until | None \<Rightarrow> False)
                | None \<Rightarrow> False)) ls)),
          ss_expired = int (length (filter (\<lambda>l. \<not> line_completed l \<and> line_overdue today l) ls))\<rparr>)"

definition signing_records_for_contracts :: "env \<Rightarrow> string \<Rightarrow> contract list \<Rightarrow> db \<Rightarrow> signing_record list" where
  "signing_records_for_contracts e tenant cs d =
     map (\<lambda>c. signing_from_records e c (first_row (signing_of tenant (c_id c)) (db_signing d))
                (latest_stamped d tenant (c_id c))) cs"

definition list_signing_records_scoped :: "env \<Rightarrow> scope_filter \<Rightarrow> signing_record_query \<Rightarrow> db \<Rightarrow> signing_record_page" where
  "list_signing_records_scoped e f q d =
     (let lim = bounded_limit 200 50 (srq_limit q); off = max 0 (srq_offset q);
          today = calendar_day (env_zone e) (env_clock e (db_tick d));
          ls = filter (apply_signing_record_filters e q today) (signing_ledger_query f d);
          tot = int (length (remdups (map (ct_id \<circ> fst) ls)));
          ids = (if off < tot then map (ct_id \<circ> fst) (page_of off lim (signing_ledger_order ls)) else []);
          cs = attach_payment_terms d (sf_tenant f) (map (contract_from_record \<circ> listed_row)
                 (List.map_filter (find_contract d (sf_tenant f)) ids))
      in \<lparr>sp_items = signing_records_for_contracts e (sf_tenant f) cs d, sp_total = tot, sp_offset = off, sp_limit = lim,
          sp_has_more = (off + int (length ids) < tot),
          sp_stats = signing_stats_scoped e f today (env_clock e (db_tick d + 1)) d\<rparr>)"

definition list_signing_records :: "env \<Rightarrow> principal \<Rightarrow> signing_record_query \<Rightarrow> db \<Rightarrow> signing_record_page result" where
  "list_signing_records e p q d =
     (case scope p ''contract.approved.read'' of
        None \<Rightarrow> fail ErrForbidden
      | Some f \<Rightarrow> ok (list_signing_records_scoped e f
          (q\<lparr>srq_limit := bounded_limit 200 50 (srq_limit q), srq_offset := max 0 (srq_offset q)\<rparr>) d))"

definition get_signing_record_scoped ::
  "env \<Rightarrow> scope_filter \<Rightarrow> string \<Rightarrow> db \<Rightarrow> (signing_record \<times> db) result" where
  "get_signing_record_scoped e f cid d =
     res_bind (get_contract_scoped d f cid) (\<lambda>item.
       let row = first_row (signing_of (sf_tenant f) cid) (db_signing d)
       in ok (signing_from_records e item row (latest_stamped d (sf_tenant f) cid),
              repair_signing_phone_plaintext e (sf_tenant f) cid row d))"

section \<open>The dashboard adds up\<close>

lemma sum_by_key:
  fixes h :: "'a \<Rightarrow> int"
  assumes "distinct ks" "g ` set rows \<subseteq> set ks"
  shows "(\<Sum>k\<leftarrow>ks. \<Sum>r\<leftarrow>filter (\<lambda>r. g r = k) rows. h r) = (\<Sum>r\<leftarrow>rows. h r)"
  using assms(2)
proof (induction rows)
  case (Cons r rows)
  have "(\<Sum>k\<leftarrow>ks. \<Sum>x\<leftarrow>filter (\<lambda>x. g x = k) (r # rows). h x)
      = (\<Sum>k\<leftarrow>ks. (if g r = k then h r else 0) + (\<Sum>x\<leftarrow>filter (\<lambda>x. g x = k) rows. h x))"
    by (intro arg_cong [of _ _ sum_list] map_cong) auto
  moreover have "(\<Sum>k\<leftarrow>ks. if g r = k then h r else 0) = h r"
    using assms(1) Cons.prems by (simp add: sum_list_distinct_conv_sum_set)
  ultimately show ?case using Cons by (simp add: sum_list_addf)
qed simp

lemma res_map_ok: "res_map f xs = Inr ys \<longleftrightarrow> list_all2 (\<lambda>x y. f x = Inr y) xs ys"
  by (induction xs arbitrary: ys) (auto simp: res_bind_eq_ok list_all2_Cons1)

lemma list_all2_map_eq: "list_all2 (\<lambda>x y. g y = h x) xs ys \<Longrightarrow> map g ys = map h xs"
  by (induction rule: list_all2_induct) auto

lemma currency_totals_ok:
  assumes "dashboard_currency_totals rows = Inr (totals, contracts, amount)"
  shows "contracts = int (length rows)" "(\<Sum>t\<leftarrow>totals. cur_amount t) = (\<Sum>r\<leftarrow>rows. ct_amount r)"
proof -
  define ks where "ks = sort (remdups (map ct_currency rows))"
  have ks: "distinct ks" "ct_currency ` set rows \<subseteq> set ks" by (auto simp: ks_def)
  from assms have groups: "list_all2 (\<lambda>k t. currency_group rows k = Inr t) ks totals"
    and contracts: "contracts = (\<Sum>t\<leftarrow>totals. cur_contracts t)"
    by (auto simp: dashboard_currency_totals_def res_bind_eq_ok res_map_ok ks_def)
  have "map cur_contracts totals = map (\<lambda>k. \<Sum>r\<leftarrow>filter (\<lambda>r. ct_currency r = k) rows. 1) ks"
    by (rule list_all2_map_eq, rule list_all2_mono [OF groups])
      (auto simp: currency_group_def Let_def sum_list_triv split: if_split_asm)
  moreover have "map cur_amount totals = map (\<lambda>k. \<Sum>r\<leftarrow>filter (\<lambda>r. ct_currency r = k) rows. ct_amount r) ks"
    by (rule list_all2_map_eq, rule list_all2_mono [OF groups])
      (auto simp: currency_group_def Let_def split: if_split_asm)
  ultimately show "contracts = int (length rows)" "(\<Sum>t\<leftarrow>totals. cur_amount t) = (\<Sum>r\<leftarrow>rows. ct_amount r)"
    by (simp_all only: contracts sum_by_key [OF ks]) (simp add: sum_list_triv)
qed

lemma dashboard_item_active: "di_active_unexpired (dashboard_item approvals today r) = dashboard_active_scope today r"
  by (auto simp: dashboard_item_def Let_def dashboard_active_scope_def dashboard_status_is_active_def
      dashboard_active_statuses_def split: option.splits if_split_asm)

lemma dashboard_item_expired: "\<not> di_expired (dashboard_item approvals today r)"
  by (auto simp: dashboard_item_def Let_def dashboard_status_is_active_def split: option.splits if_split_asm)

lemma length_filter_or:
  "(\<And>x. \<not> (p x \<and> q x)) \<Longrightarrow> length (filter p xs) + length (filter q xs) = length (filter (\<lambda>x. p x \<or> q x) xs)"
  by (induction xs) auto

lemma length_filter_sort_key [simp]: "length (filter p (sort_key f xs)) = length (filter p xs)"
  by (simp add: filter_sort)

lemma dashboard_parts:
  assumes "contract_dashboard_scoped f today lim d = Inr b"
  shows "da_contracts_total b = int (length (dashboard_rows f d))"
    "(\<Sum>t\<leftarrow>da_currency_totals b. cur_amount t) = (\<Sum>r\<leftarrow>dashboard_rows f d. ct_amount r)"
    "da_active b + da_expired b = int (length (filter (\<lambda>r. ct_status r = StatusArchived
       \<or> ct_status r \<in> set dashboard_active_statuses) (dashboard_rows f d)))"
    "\<not> da_limited b \<Longrightarrow> int (length (filter di_active_unexpired (da_contracts b))) = da_active b"
    "filter di_expired (da_contracts b) = []"
proof -
  define rows where "rows = dashboard_rows f d"
  define overdue :: "contract_row \<Rightarrow> bool" where "overdue = (\<lambda>r. ct_status r \<in> set dashboard_active_statuses
    \<and> (case ct_end_date r of None \<Rightarrow> False | Some t \<Rightarrow> t < today))"
  define n where "n = nat (bounded_limit 200 200 lim)"
  from assms obtain totals contracts amount where totals: "dashboard_currency_totals rows = Inr (totals, contracts, amount)"
    and b: "da_contracts_total b = contracts" "da_currency_totals b = totals"
      "da_active b = int (length (filter (dashboard_active_scope today) rows))" "da_expired b = int (length (filter overdue rows))"
      "da_contracts b = map (dashboard_item (running_contracts f d) today) (take n (newest_first rows))"
      "da_limited b = (bounded_limit 200 200 lim < contracts)"
    by (auto simp: contract_dashboard_scoped_def Let_def res_bind_eq_ok rows_def overdue_def n_def)
  note sums = currency_totals_ok [OF totals]
  show "da_contracts_total b = int (length (dashboard_rows f d))"
    "(\<Sum>t\<leftarrow>da_currency_totals b. cur_amount t) = (\<Sum>r\<leftarrow>dashboard_rows f d. ct_amount r)"
    using b sums by (simp_all add: rows_def)
  have "length (filter (dashboard_active_scope today) rows) + length (filter overdue rows)
      = length (filter (\<lambda>r. dashboard_active_scope today r \<or> overdue r) rows)"
    by (rule length_filter_or) (auto simp: dashboard_active_scope_def overdue_def dashboard_active_statuses_def split: option.splits)
  moreover have "(\<lambda>r. dashboard_active_scope today r \<or> overdue r)
      = (\<lambda>r. ct_status r = StatusArchived \<or> ct_status r \<in> set dashboard_active_statuses)"
    by (auto simp: fun_eq_iff dashboard_active_scope_def overdue_def split: option.splits)
  ultimately show "da_active b + da_expired b = int (length (filter (\<lambda>r. ct_status r = StatusArchived
       \<or> ct_status r \<in> set dashboard_active_statuses) (dashboard_rows f d)))"
    using b(3,4) by (simp add: rows_def)
  show "int (length (filter di_active_unexpired (da_contracts b))) = da_active b" if "\<not> da_limited b"
  proof -
    have "length (newest_first rows) \<le> n"
      using that b(6) sums(1) by (simp add: n_def newest_first_def bounded_limit_def split: if_split_asm)
    then have "da_contracts b = map (dashboard_item (running_contracts f d) today) (newest_first rows)" using b(5) by simp
    then show ?thesis using b(3) by (simp add: filter_map comp_def dashboard_item_active newest_first_def)
  qed
  show "filter di_expired (da_contracts b) = []" using b(5) by (simp add: filter_map comp_def dashboard_item_expired)
qed


definition overdue_contract :: contract_row where
  "overdue_contract = (owned_by ''c1'' ''i1'')\<lparr>ct_status := StatusActive, ct_end_date := Some 5\<rparr>"

lemma overdue_contract_simps:
  "ct_status overdue_contract = StatusActive" "ct_end_date overdue_contract = Some 5" "ct_amount overdue_contract = 100"
  "ct_currency overdue_contract = ''CNY''"
  by (simp_all add: overdue_contract_def owned_by_def sample_contract_def)


section \<open>The tabs of the signing ledger\<close>

definition tab_query :: "string \<Rightarrow> signing_record_query" where
  "tab_query status = \<lparr>srq_keyword = [], srq_status = status, srq_method = [], srq_offset = 0, srq_limit = 50\<rparr>"

definition known_signing :: "signing_row \<Rightarrow> bool" where
  "known_signing s = (case sg_status s of SigningOther _ \<Rightarrow> False | _ \<Rightarrow> True)"

lemma signing_ledger_keys:
  assumes "distinct (map ct_id (db_contracts d))"
  shows "distinct (map (ct_id \<circ> fst) (filter p (signing_ledger_query f d)))"
proof -
  have "inj_on ct_id (set (db_contracts d))" using assms by (simp add: distinct_map)
  moreover have "distinct (db_contracts d)" using assms by (simp add: distinct_map)
  ultimately show ?thesis
    by (auto simp: signing_ledger_query_def distinct_map inj_on_def)
qed

lemma list_signing_records_tab:
  assumes "distinct (map ct_id (db_contracts d))" "scope p ''contract.approved.read'' = Some f"
  shows "\<exists>page. list_signing_records e p (tab_query status) d = Inr page
    \<and> sp_total page = int (length (filter (signing_status_matches (trim_space status)
        (calendar_day (env_zone e) (env_clock e (db_tick d)))) (signing_ledger_query f d)))
    \<and> sp_stats page = signing_stats_scoped e f (calendar_day (env_zone e) (env_clock e (db_tick d)))
        (env_clock e (db_tick d + 1)) d"
proof -
  let ?today = "calendar_day (env_zone e) (env_clock e (db_tick d))"
  have "apply_signing_record_filters e (tab_query status\<lparr>srq_limit := l, srq_offset := off\<rparr>) ?today
      = signing_status_matches (trim_space status) ?today" for l off
    by (simp add: fun_eq_iff apply_signing_record_filters_def tab_query_def)
  with signing_ledger_keys [OF assms(1)] show ?thesis
    by (simp add: list_signing_records_def assms(2) list_signing_records_scoped_def Let_def distinct_remdups_id del: map_map)
qed

lemma known_lines:
  assumes "list_all known_signing (db_signing d)" "l \<in> set (signing_ledger_query f d)"
  shows "line_status l \<in> {SigningPendingShipment, SigningInReturn, SigningPendingReview, SigningCompleted}"
proof -
  from assms(2) obtain r where l: "l = (r, joined_signing d r)" by (auto simp: signing_ledger_query_def)
  show ?thesis
  proof (cases "joined_signing d r")
    case (Some s)
    then have "s \<in> set (db_signing d)" using first_row_SomeD(1) by (fastforce simp: joined_signing_def)
    with assms(1) have "known_signing s" by (simp add: list_all_iff)
    with Some l show ?thesis by (cases "sg_status s") (auto simp: line_status_def known_signing_def)
  qed (simp add: l line_status_def)
qed

lemma simple_tabs:
  "signing_status_matches [] today = (\<lambda>_. True)" "signing_status_matches ''completed'' today = line_completed"
  "signing_status_matches ''expired'' today = (\<lambda>l. \<not> line_completed l \<and> line_overdue today l)"
  by (simp_all add: fun_eq_iff signing_status_matches_def)

lemma length_filter_split3:
  assumes "\<And>x. x \<in> set xs \<Longrightarrow> r x \<longleftrightarrow> p1 x \<or> p2 x \<or> p3 x"
    "\<And>x. \<not> (p1 x \<and> p2 x)" "\<And>x. \<not> (p1 x \<and> p3 x)" "\<And>x. \<not> (p2 x \<and> p3 x)"
  shows "int (length (filter p1 xs)) + int (length (filter p2 xs)) + int (length (filter p3 xs)) = int (length (filter r xs))"
  using assms(1)
proof (induction xs)
  case (Cons x xs)
  with assms(2-4) [of x] show ?case by auto
qed simp

text \<open>The tabs of the signing ledger agree with its statistics: with unique identifiers and known
  signing states every approved contract in the scope is counted in exactly one of completed, processing and
  expired, the tab of all records shows their sum, and the other tabs show the figure their name says.\<close>
theorem signing_tabs_agree:
  assumes "distinct (map ct_id (db_contracts d))" "list_all known_signing (db_signing d)"
    "scope p ''contract.approved.read'' = Some f"
  shows "\<exists>tab stats. (\<forall>status. \<exists>page. list_signing_records e p (tab_query status) d = Inr page
        \<and> sp_total page = tab status \<and> sp_stats page = stats)
    \<and> tab [] = ss_total stats \<and> tab ''completed'' = ss_completed stats \<and> tab ''expired'' = ss_expired stats
    \<and> tab ''pending_shipment'' + tab ''in_return'' + tab ''pending_review'' = ss_processing stats
    \<and> ss_completed stats + ss_processing stats + ss_expired stats = ss_total stats"
proof -
  let ?today = "calendar_day (env_zone e) (env_clock e (db_tick d))"
  let ?ls = "signing_ledger_query f d"
  define tab where "tab = (\<lambda>status. int (length (filter (signing_status_matches (trim_space status) ?today) ?ls)))"
  define stats where "stats = signing_stats_scoped e f ?today (env_clock e (db_tick d + 1)) d"
  have trims: "trim_space ''completed'' = ''completed''" "trim_space ''expired'' = ''expired''"
    "trim_space ''pending_shipment'' = ''pending_shipment''" "trim_space ''in_return'' = ''in_return''"
    "trim_space ''pending_review'' = ''pending_review''" by code_simp+
  have pages: "\<exists>page. list_signing_records e p (tab_query status) d = Inr page
      \<and> sp_total page = tab status \<and> sp_stats page = stats" for status
    using list_signing_records_tab [OF assms(1,3), of e status] by (simp add: tab_def stats_def)
  have plain: "tab [] = ss_total stats" "tab ''completed'' = ss_completed stats" "tab ''expired'' = ss_expired stats"
    by (simp_all add: tab_def trims stats_def signing_stats_scoped_def Let_def simple_tabs)
  have open_tabs: "tab ''pending_shipment'' + tab ''in_return'' + tab ''pending_review'' = ss_processing stats"
    unfolding tab_def trims stats_def signing_stats_scoped_def Let_def signing_stats.simps
    by (rule length_filter_split3) (auto simp: signing_status_matches_def)
  have "ss_completed stats + ss_processing stats + ss_expired stats = int (length (filter (\<lambda>_. True) ?ls))"
    unfolding stats_def signing_stats_scoped_def Let_def signing_stats.simps
  proof (rule length_filter_split3)
    show "True \<longleftrightarrow> line_completed l \<or> (line_status l \<in> {SigningPendingShipment, SigningInReturn, SigningPendingReview}
        \<and> \<not> line_overdue ?today l) \<or> (\<not> line_completed l \<and> line_overdue ?today l)" if "l \<in> set ?ls" for l
      using known_lines [OF assms(2) that] by (auto simp: line_completed_def line_status_def split: option.splits)
  qed (auto simp: line_completed_def line_status_def split: option.splits)
  then have "ss_completed stats + ss_processing stats + ss_expired stats = ss_total stats"
    by (simp add: stats_def signing_stats_scoped_def Let_def)
  with pages plain open_tabs show ?thesis by (intro exI [of _ tab] exI [of _ stats]) blast
qed

theorem signing_tabs_agree_witness:
  "\<exists>page. list_signing_records sample_db_env seller (tab_query []) (sample_db [overdue_contract]) = Inr page
     \<and> sp_total page = ss_total (sp_stats page)"
proof -
  have keys: "distinct (map ct_id (db_contracts (sample_db [overdue_contract])))" by simp
  have known: "list_all known_signing (db_signing (sample_db [overdue_contract]))" by (simp add: sample_db_def)
  have "scope seller ''contract.approved.read'' = Some \<lparr>sf_tenant = ''t1'', sf_identity = ''i1'', sf_orgs = [''o1''],
      sf_projects = [], sf_all = True, sf_self = False\<rparr>"
    by (simp add: scope_def has_def seller_def)
  from signing_tabs_agree [OF keys known this, of sample_db_env] show ?thesis by metis
qed

end
