(* ===== verification/Service.thy ===== *)
theory Service
  imports Reports Opportunity Administration Handover
begin

text \<open>
  The use cases of \<^verbatim>\<open>application/service.go\<close> and its neighbours that guard one repository operation each:
  signing and stamped documents with the file gateway, the number rule (\<^verbatim>\<open>application/contract_number.go\<close>), the
  controlled financial change (\<^verbatim>\<open>application/contract_financial_change.go\<close>), opportunity intakes
  (\<^verbatim>\<open>application/opportunity_intakes.go\<close>), approval rules and dead letters
  (\<^verbatim>\<open>application/integration_outbox.go\<close>). The licence and the file gateway are parameters:
  \<open>sv_license n\<close> says whether the licence admits the operation at its n-th check.
\<close>

section \<open>Service\<close>

record file_gateway =
  fg_upload :: "string \<Rightarrow> string \<Rightarrow> string \<Rightarrow> string \<Rightarrow> string \<Rightarrow> string \<Rightarrow> string + string"
  fg_bind :: "string \<Rightarrow> string \<Rightarrow> string \<Rightarrow> string \<Rightarrow> string \<Rightarrow> string \<Rightarrow> string option"
  fg_download :: "string \<Rightarrow> string + string"

record service =
  sv_license :: "nat \<Rightarrow> bool"
  sv_gateway :: "file_gateway option"
  sv_file_mode :: string
  sv_file_app :: string
  sv_financial_change :: bool
  sv_freeze_wired :: bool

definition check_business_license :: "service \<Rightarrow> nat \<Rightarrow> unit result" where
  "check_business_license sv n = (if sv_license sv n then ok () else fail ErrLicenseRestricted)"

text \<open>A use case that commits more than one transaction returns its result and the database it leaves.\<close>

type_synonym 'a outcome = "'a result \<times> db"

definition in_transaction :: "db result \<Rightarrow> db \<Rightarrow> unit outcome" where
  "in_transaction r d = (case r of Inl err \<Rightarrow> (Inl err, d) | Inr d' \<Rightarrow> (Inr (), d'))"

section \<open>Signing\<close>

definition max_signing_phone_length :: nat where "max_signing_phone_length = 20"

definition shipment_valid :: "signing_shipment \<Rightarrow> bool" where
  "shipment_valid sh \<longleftrightarrow> trim_space (sh_recipient_phone sh) \<noteq> []
     \<and> rune_count (trim_space (sh_recipient_phone sh)) \<le> max_signing_phone_length
     \<and> rune_count (trim_space (sh_courier sh)) \<le> 120 \<and> rune_count (trim_space (sh_recipient_name sh)) \<le> 120
     \<and> rune_count (trim_space (sh_recipient_address sh)) \<le> 500"

definition save_signing_shipment_for :: "service \<Rightarrow> env \<Rightarrow> principal \<Rightarrow> string \<Rightarrow> signing_shipment \<Rightarrow> db \<Rightarrow> unit outcome" where
  "save_signing_shipment_for sv e p cid sh d =
     (case res_bind (check_business_license sv 0) (\<lambda>_.
             res_bind (get_approved_contract p cid ''contract.signing.manage'' d) (\<lambda>_.
             if \<not> shipment_valid sh then fail ErrValidation else get_signing_record e (pr_tenant p) cid d)) of
        Inl err \<Rightarrow> (Inl err, d)
      | Inr (current, d1) \<Rightarrow>
          if gr_status current = SigningPendingReview \<or> gr_status current = SigningCompleted
          then (Inl ErrStateConflict, d1)
          else in_transaction (res_bind (check_business_license sv 1) (\<lambda>_.
                 save_signing_shipment e (pr_tenant p) cid (pr_user p) sh d1)) d1)"

definition guarded_signing :: "service \<Rightarrow> principal \<Rightarrow> string \<Rightarrow> bool \<Rightarrow> (db \<Rightarrow> db result) \<Rightarrow> db \<Rightarrow> db result" where
  "guarded_signing sv p cid valid act d =
     res_bind (check_business_license sv 0) (\<lambda>_.
     res_bind (get_approved_contract p cid ''contract.signing.manage'' d) (\<lambda>_.
     if \<not> valid then fail ErrValidation
     else res_bind (check_business_license sv 1) (\<lambda>_. act d)))"

definition mark_signing_received_for :: "service \<Rightarrow> env \<Rightarrow> principal \<Rightarrow> string \<Rightarrow> db \<Rightarrow> db result" where
  "mark_signing_received_for sv e p cid =
     guarded_signing sv p cid True (mark_signing_received e (pr_tenant p) cid (pr_user p))"

definition record_signing_reminder_for :: "service \<Rightarrow> env \<Rightarrow> principal \<Rightarrow> string \<Rightarrow> db \<Rightarrow> db result" where
  "record_signing_reminder_for sv e p cid =
     guarded_signing sv p cid True (record_signing_reminder e (pr_tenant p) cid (pr_user p))"

definition confirmation_valid :: "signing_confirmation \<Rightarrow> bool" where
  "confirmation_valid cf \<longleftrightarrow> sc_seal_verified cf \<and> sc_signature_verified cf \<and> sc_signed_at cf \<noteq> zero_time
     \<and> sc_document_version cf \<noteq> 0 \<and> trim_space (sc_content_sha256 cf) \<noteq> []"

definition confirm_signing_for ::
  "service \<Rightarrow> env \<Rightarrow> principal \<Rightarrow> string \<Rightarrow> signing_confirmation \<Rightarrow> db \<Rightarrow> db result" where
  "confirm_signing_for sv e p cid cf =
     guarded_signing sv p cid (confirmation_valid cf) (confirm_signing e (pr_tenant p) cid (pr_user p) cf)"

definition get_signing_record_for :: "env \<Rightarrow> principal \<Rightarrow> string \<Rightarrow> db \<Rightarrow> (signing_record \<times> db) result" where
  "get_signing_record_for e p cid d =
     res_bind (get_approved_contract p cid ''contract.approved.read'' d) (\<lambda>_.
       case scope p ''contract.approved.read'' of
         None \<Rightarrow> fail ErrForbidden
       | Some f \<Rightarrow> get_signing_record_scoped e f cid d)"

section \<open>Stamped documents and the file gateway\<close>

definition err_gateway :: app_error where "err_gateway = ErrStorage ''file gateway''"

definition stamped_request_id :: "env \<Rightarrow> string \<Rightarrow> nat \<Rightarrow> string \<Rightarrow> string" where
  "stamped_request_id e cid version doc =
     ''contract-stamped-'' @ cid @ ''-v'' @ nat_str version @ ''-'' @ take 16 (env_sha256 e doc)"

definition gateway_store :: "service \<Rightarrow> file_gateway \<Rightarrow> env \<Rightarrow> string \<Rightarrow> stamped_document \<Rightarrow> string + string" where
  "gateway_store sv g e cid saved =
     (case fg_upload g (stamped_request_id e cid (sd_version saved) (sd_document saved)) (sv_file_app sv)
             ''CONTRACT_STAMPED_PDF'' (sd_filename saved) ''application/pdf'' (sd_document saved) of
        Inl msg \<Rightarrow> Inl msg
      | Inr fid \<Rightarrow>
          (case fg_bind g (sv_file_app sv) fid ''contract'' cid ''STAMPED_PDF'' (sd_filename saved) of
             Some msg \<Rightarrow> Inl msg | None \<Rightarrow> Inr fid))"

definition file_mode :: "service \<Rightarrow> string \<Rightarrow> bool" where
  "file_mode sv name = equal_fold (trim_space (sv_file_mode sv)) name"

definition publish_stamped :: "service \<Rightarrow> env \<Rightarrow> principal \<Rightarrow> string \<Rightarrow> stamped_document \<Rightarrow> db \<Rightarrow> stamped_document outcome" where
  "publish_stamped sv e p cid saved d =
     (case sv_gateway sv of
        None \<Rightarrow> (Inr saved, d)
      | Some g \<Rightarrow>
          if file_mode sv ''legacy'' then (Inr saved, d)
          else case mark_stamped_gateway_pending (pr_tenant p) cid (sd_version saved) (sd_sha256 saved) d of
            Inl err \<Rightarrow> (Inl err, d)
          | Inr d1 \<Rightarrow>
              (case gateway_store sv g e cid saved of
                 Inl msg \<Rightarrow>
                   let d2 = (case mark_stamped_gateway_result (pr_tenant p) cid (sd_version saved) (sd_sha256 saved)
                               ''FAILED'' msg d1 of Inl _ \<Rightarrow> d1 | Inr d2 \<Rightarrow> d2)
                   in if file_mode sv ''dual'' then (Inr saved, d2) else (Inl err_gateway, d2)
               | Inr fid \<Rightarrow>
                   (case mark_stamped_gateway_result (pr_tenant p) cid (sd_version saved) (sd_sha256 saved)
                           ''READY'' fid d1 of
                      Inl err \<Rightarrow> (Inl err, d1)
                    | Inr d2 \<Rightarrow> (Inr (saved\<lparr>sd_platform_file_id := fid, sd_gateway_state := ''READY''\<rparr>), d2))))"

definition save_stamped_document_for ::
  "service \<Rightarrow> env \<Rightarrow> principal \<Rightarrow> string \<Rightarrow> string \<Rightarrow> string \<Rightarrow> nat \<Rightarrow> string \<Rightarrow> db \<Rightarrow> stamped_document outcome" where
  "save_stamped_document_for sv e p cid filename doc expected reason d =
     (case res_bind (check_business_license sv 0) (\<lambda>_.
             res_bind (get_approved_contract p cid ''contract.stamped_pdf.upload'' d) (\<lambda>_.
             res_bind (check_business_license sv 1) (\<lambda>_.
               let (now, d1) = read_clock e d in
               save_stamped_document e (pr_tenant p)
                 \<lparr>su_contract_id = cid, su_filename = filename, su_document = doc, su_uploaded_at = now,
                  su_uploaded_by = pr_user p, su_expected_version = expected, su_replacement_reason = reason\<rparr> d1))) of
        Inl err \<Rightarrow> (Inl err, d)
      | Inr (saved, d2) \<Rightarrow> publish_stamped sv e p cid saved d2)"

definition replace_stamped_document ::
  "service \<Rightarrow> env \<Rightarrow> principal \<Rightarrow> string \<Rightarrow> string \<Rightarrow> string \<Rightarrow> nat \<Rightarrow> string \<Rightarrow> db \<Rightarrow> stamped_document outcome" where
  "replace_stamped_document sv e p cid filename doc expected reason0 d =
     (let reason = trim_space reason0 in
      if reason = [] \<or> 500 < rune_count reason \<or> expected = 0 then (Inl ErrValidation, d)
      else save_stamped_document_for sv e p cid filename doc expected reason d)"

definition blob_verified :: "env \<Rightarrow> stamped_document \<Rightarrow> stamped_document result" where
  "blob_verified e doc =
     (if sd_sha256 doc \<noteq> [] \<and> \<not> equal_fold (env_sha256 e (sd_document doc)) (sd_sha256 doc)
      then fail err_gateway else ok doc)"

definition get_stamped_document_for :: "service \<Rightarrow> env \<Rightarrow> principal \<Rightarrow> string \<Rightarrow> db \<Rightarrow> stamped_document result" where
  "get_stamped_document_for sv e p cid d =
     res_bind (get_approved_contract p cid ''contract.document.download'' d) (\<lambda>_.
     res_bind (get_stamped_document d (pr_tenant p) cid) (\<lambda>doc.
       let mode = to_lower (trim_space (sv_file_mode sv)) in
       case sv_gateway sv of
         None \<Rightarrow> ok doc
       | Some g \<Rightarrow>
           if mode = ''legacy'' \<or> sd_platform_file_id doc = [] \<or> \<not> equal_fold (sd_gateway_state doc) ''READY'' then ok doc
           else case fg_download g (sd_platform_file_id doc) of
             Inr content \<Rightarrow>
               if equal_fold (env_sha256 e content) (sd_sha256 doc) then ok (doc\<lparr>sd_document := content\<rparr>)
               else if mode = ''required'' then fail err_gateway else blob_verified e doc
           | Inl _ \<Rightarrow> if mode = ''required'' then fail err_gateway else blob_verified e doc))"

section \<open>Number rule\<close>

text \<open>\<open>nv_sample\<close> is \<open>None\<close> where the view has no sample and gives a reason instead.\<close>

record number_rule_view =
  nv_rule :: number_rule
  nv_year :: int
  nv_current :: nat
  nv_sample :: "string option"

definition has_permission_or_admin :: "principal \<Rightarrow> string \<Rightarrow> bool" where
  "has_permission_or_admin p permission \<longleftrightarrow> has p permission \<or> has_role p ''admin''"

definition contract_number_rule_view :: "env \<Rightarrow> db \<Rightarrow> number_rule_view result" where
  "contract_number_rule_view e d =
     res_bind (read_number_rule d) (\<lambda>found.
       let year = clock_year_of (env_zone e) (env_clock e (db_tick d)) in
       case found of
         None \<Rightarrow> ok \<lparr>nv_rule = default_number_rule, nv_year = year, nv_current = 0, nv_sample = None\<rparr>
       | Some rule \<Rightarrow>
           (case contract_number_rule_key (env_sha256 e) rule of
              Inl _ \<Rightarrow> ok \<lparr>nv_rule = rule, nv_year = year, nv_current = 0, nv_sample = None\<rparr>
            | Inr key \<Rightarrow>
                let current = sequence_value key year d in
                ok \<lparr>nv_rule = rule, nv_year = year, nv_current = current,
                    nv_sample = (case build_contract_number rule year (current + 1) of
                                   Inl _ \<Rightarrow> None | Inr number \<Rightarrow> Some number)\<rparr>))"

definition get_contract_number_rule :: "env \<Rightarrow> principal \<Rightarrow> db \<Rightarrow> number_rule_view result" where
  "get_contract_number_rule e p d =
     (if \<not> has_permission_or_admin p ''contract.read'' then fail ErrForbidden
      else contract_number_rule_view e d)"

definition check_number_rule_issuable :: "env \<Rightarrow> number_rule \<Rightarrow> db \<Rightarrow> unit result" where
  "check_number_rule_issuable e rule d =
     (case contract_number_rule_key (env_sha256 e) rule of
        Inl _ \<Rightarrow> fail ErrValidation
      | Inr key \<Rightarrow>
          let year = clock_year_of (env_zone e) (env_clock e (db_tick d)) in
          (case build_contract_number rule year (sequence_value key year d + 1) of
             Inl _ \<Rightarrow> ok ()
           | Inr candidate \<Rightarrow> if registered e candidate d then fail ErrValidation else ok ()))"

definition update_contract_number_rule ::
  "service \<Rightarrow> env \<Rightarrow> principal \<Rightarrow> number_rule \<Rightarrow> db \<Rightarrow> (number_rule_view \<times> db) result" where
  "update_contract_number_rule sv e p rule d =
     res_bind (check_business_license sv 0) (\<lambda>_.
     if \<not> has p ''contract.number_rule.manage'' then fail ErrForbidden
     else case normalize_number_rule rule of
       Inl _ \<Rightarrow> fail ErrValidation
     | Inr n0 \<Rightarrow>
         let (now, d1) = read_clock e d;
             n = n0\<lparr>nr_updated_by := trim_space (pr_user p), nr_updated_at := now\<rparr> in
         res_bind (check_business_license sv 1) (\<lambda>_.
         res_bind (check_number_rule_issuable e n d1) (\<lambda>_.
         let (_, d2) = read_clock e d1 in
         res_bind (save_number_rule n d2) (\<lambda>d3.
         res_bind (contract_number_rule_view e d3) (\<lambda>view. ok (view, d3))))))"

section \<open>Financial change\<close>

definition max_financial_change_reason :: nat where "max_financial_change_reason = 500"

definition change_contract_financial_terms ::
  "service \<Rightarrow> env \<Rightarrow> principal \<Rightarrow> string \<Rightarrow> financial_change \<Rightarrow> db \<Rightarrow> (contract \<times> db) result" where
  "change_contract_financial_terms sv e p cid ch d =
     (if \<not> sv_financial_change sv then fail ErrFinancialChangeDisabled
      else res_bind (check_business_license sv 0) (\<lambda>_.
        case contract_scope p ''contract.edit'' of
          None \<Rightarrow> fail ErrForbidden
        | Some f \<Rightarrow>
            if pr_user p = [] then fail ErrForbidden
            else res_bind (get_contract_scoped d f cid) (\<lambda>current.
              let requested = to_upper (trim_space (fc_currency ch));
                  reason = trim_space (fc_reason ch) in
              if \<not> operational_origin current then fail ErrImportCorrectionRequired
              else if \<not> approval_passed (c_status current) \<or> \<not> financial_change_status_eligible (c_status current)
              then fail ErrStateConflict
              else if fc_expected_version ch = 0 then fail ErrValidation
              else if fc_expected_version ch \<noteq> c_version current then fail ErrVersionConflict
              else if requested \<noteq> [] \<and> requested \<noteq> to_upper (trim_space (c_currency current))
              then fail ErrFinancialChangeCurrencyLocked
              else if fc_amount_minor ch \<le> 0 then fail ErrValidation
              else if reason = [] \<or> max_financial_change_reason < rune_count reason then fail ErrValidation
              else if fc_payment_terms ch = [] then fail ErrValidation
              else res_bind (validation_error
                  (normalize_payment_terms (fc_payment_terms ch) (fc_amount_minor ch) requested)) (\<lambda>terms.
                apply_financial_change e (c_tenant_id current)
                  (ch\<lparr>fc_contract_id := c_id current, fc_currency := to_upper (trim_space (c_currency current)),
                      fc_payment_terms := terms, fc_reason := reason\<rparr>) (pr_user p) d))))"

section \<open>Opportunity intakes\<close>

definition max_intake_ref_length :: nat where "max_intake_ref_length = 128"

definition trim_intake :: "opportunity_intake \<Rightarrow> opportunity_intake" where
  "trim_intake i = i\<lparr>opi_contract_ref := trim_space (opi_contract_ref i), opi_opportunity_no := trim_space (opi_opportunity_no i),
     opi_source_request := trim_space (opi_source_request i),
     opi_amount := trim_space (opi_amount i)\<rparr>"

definition accept_opportunity_intake ::
  "service \<Rightarrow> env \<Rightarrow> opportunity_intake \<Rightarrow> db \<Rightarrow> (opportunity_intake \<times> db) result" where
  "accept_opportunity_intake sv e i0 d =
     res_bind (check_business_license sv 0) (\<lambda>_.
       let i = trim_intake i0 in
       if trim_space (opi_tenant i) = [] \<or> trim_space (opi_event i) = [] \<or> opi_opportunity i = 0
          \<or> opi_event_version i = 0 \<or> opi_contract_ref i = [] \<or> opi_occurred_at i = zero_time then fail ErrValidation
       else if list_ex (\<lambda>v. max_intake_ref_length < rune_count v)
                 [opi_contract_ref i, opi_opportunity_no i, opi_source_request i] then fail ErrValidation
       else case payment_amount_minor (opi_amount i) of
         Inl _ \<Rightarrow> fail ErrValidation
       | Inr _ \<Rightarrow> accept_intake e i d)"

definition review_material :: "intake_review \<Rightarrow> string" where
  "review_material rv = ir_decision rv @ [char_of (0 :: nat)] @ ir_reason rv @ [char_of (0 :: nat)] @ nat_str (ir_version rv)"

definition review_opportunity_intake ::
  "service \<Rightarrow> env \<Rightarrow> principal \<Rightarrow> string \<Rightarrow> intake_review \<Rightarrow> string \<Rightarrow> db \<Rightarrow> (opportunity_intake \<times> db) result" where
  "review_opportunity_intake sv e p i rv0 key d =
     res_bind (check_business_license sv 0) (\<lambda>_.
     if \<not> has p ''opportunity_intake.process'' then fail ErrForbidden
     else
       let rv = rv0\<lparr>ir_decision := trim_space (ir_decision rv0), ir_reason := trim_space (ir_reason rv0)\<rparr> in
       if (ir_decision rv \<noteq> intake_link_confirmed \<and> ir_decision rv \<noteq> intake_link_exception) \<or> ir_reason rv = []
          \<or> 500 < length (ir_reason rv) \<or> ir_version rv = 0 \<or> trim_space key = [] \<or> 128 < length key
       then fail ErrValidation
       else review_intake e (pr_tenant p) i (pr_user p) rv key (env_sha256 e (review_material rv)) (pr_display_name p) d)"

section \<open>Approval rules and dead letters\<close>

definition list_rules_for :: "principal \<Rightarrow> db \<Rightarrow> rule list result" where
  "list_rules_for p d =
     (if \<not> has p ''approval.view'' \<and> \<not> has p ''approval_rule.manage'' then fail ErrForbidden
      else ok (list_rules d (pr_tenant p) False))"

definition create_rule_for :: "service \<Rightarrow> env \<Rightarrow> principal \<Rightarrow> rule \<Rightarrow> db \<Rightarrow> (rule \<times> db) result" where
  "create_rule_for sv e p rule d =
     res_bind (check_business_license sv 0) (\<lambda>_.
     if \<not> has p ''approval_rule.manage'' then fail ErrForbidden
     else res_bind (validate_rule rule) (\<lambda>_.
       let (i, d1) = new_id e d;
           r = rule\<lparr>rule_id := i, rule_tenant_id := pr_tenant p, rule_version := 1\<rparr> in
       res_bind (check_business_license sv 1) (\<lambda>_.
       res_bind (create_rule e r (pr_user p) d1) (\<lambda>d2. ok (r, d2)))))"

definition update_rule_for :: "service \<Rightarrow> env \<Rightarrow> principal \<Rightarrow> rule \<Rightarrow> db \<Rightarrow> (rule \<times> db) result" where
  "update_rule_for sv e p rule d =
     res_bind (check_business_license sv 0) (\<lambda>_.
     if \<not> has p ''approval_rule.manage'' then fail ErrForbidden
     else if rule_id rule = [] \<or> rule_version rule = 0 then fail ErrValidation
     else res_bind (validate_rule rule) (\<lambda>_.
       let r = rule\<lparr>rule_tenant_id := pr_tenant p\<rparr> in
       res_bind (check_business_license sv 1) (\<lambda>_.
       res_bind (update_rule e r (pr_user p) d) (\<lambda>d1. ok (r\<lparr>rule_version := rule_version r + 1\<rparr>, d1)))))"

definition delete_rule_for :: "service \<Rightarrow> principal \<Rightarrow> string \<Rightarrow> nat \<Rightarrow> db \<Rightarrow> db result" where
  "delete_rule_for sv p i version d =
     res_bind (check_business_license sv 0) (\<lambda>_.
     if \<not> has p ''approval_rule.manage'' then fail ErrForbidden
     else if i = [] \<or> version = 0 then fail ErrValidation
     else res_bind (check_business_license sv 1) (\<lambda>_. delete_rule (pr_tenant p) i version d))"

definition list_failed_events_for :: "principal \<Rightarrow> string \<Rightarrow> int \<Rightarrow> db \<Rightarrow> failed_event list result" where
  "list_failed_events_for p kind0 lim d =
     (let kind = trim_space kind0 in
      if \<not> has p ''approval.manage'' then fail ErrForbidden
      else if \<not> valid_integration_outbox_kind kind then fail ErrValidation
      else if trim_space (pr_tenant p) = [] then fail ErrForbidden
      else list_failed_integration_events d (pr_tenant p) kind (bounded_limit 200 100 lim))"

definition retry_failed_event_for :: "env \<Rightarrow> principal \<Rightarrow> string \<Rightarrow> string \<Rightarrow> db \<Rightarrow> (bool \<times> db) result" where
  "retry_failed_event_for e p kind0 i0 d =
     (let kind = trim_space kind0; i = trim_space i0 in
      if \<not> has p ''approval.manage'' then fail ErrForbidden
      else if \<not> valid_integration_outbox_kind kind \<or> i = [] \<or> 64 < length i then fail ErrValidation
      else if trim_space (pr_tenant p) = [] then fail ErrForbidden
      else retry_failed_integration_event e (pr_tenant p) kind i (pr_user p) d)"

section \<open>What the stamped document use cases promise\<close>

definition sample_service :: service where
  "sample_service = \<lparr>sv_license = (\<lambda>_. True), sv_gateway = None, sv_file_mode = ''legacy'', sv_file_app = ''app'',
     sv_financial_change = True, sv_freeze_wired = True\<rparr>"

text \<open>Bookkeeping of the gateway leaves the upload itself alone.\<close>

definition same_upload :: "stamped_row \<Rightarrow> stamped_row \<Rightarrow> bool" where
  "same_upload a b \<longleftrightarrow> st_doc_contract a = st_doc_contract b \<and> st_doc_tenant a = st_doc_tenant b
     \<and> st_doc_filename a = st_doc_filename b \<and> st_doc_sha256 a = st_doc_sha256 b
     \<and> st_doc_version a = st_doc_version b \<and> st_doc_document a = st_doc_document b
     \<and> st_doc_uploaded_at a = st_doc_uploaded_at b \<and> st_doc_uploaded_by a = st_doc_uploaded_by b
     \<and> st_doc_superseded_at a = st_doc_superseded_at b"

definition newest_is :: "db \<Rightarrow> string \<Rightarrow> string \<Rightarrow> stamped_row \<Rightarrow> bool" where
  "newest_is d tenant cid row \<longleftrightarrow> signing_inv d \<and> docs d tenant cid \<noteq> [] \<and> same_upload (last (docs d tenant cid)) row"

lemma newest_read:
  assumes "newest_is d tenant cid row"
  shows "\<exists>s. get_stamped_document d tenant cid = Inr (stamped_document_of s) \<and> same_upload s row"
  using assms chain_latest [of d tenant cid]
  by (auto simp: newest_is_def signing_inv_def get_stamped_document_def)

lemma update_stamped_newest:
  assumes "newest_is d tenant cid row" and "update_stamped_version tenant cid version sha f d = Inr d'"
    and keep: "\<And>s. same_upload (f s) s"
  shows "newest_is d' tenant cid row"
proof -
  let ?hit = "stamped_version_at tenant cid version sha"
  have d': "d' = d\<lparr>db_stamped := update_rows ?hit f (db_stamped d)\<rparr>"
    using assms(2) by (auto simp: update_stamped_version_def Let_def split: if_split_asm)
  have docs: "docs d' tenant cid = update_rows ?hit f (docs d tenant cid)"
    unfolding docs_def d' using keep by (simp add: filter_update_rows same_upload_def stamped_of_def)
  have "signing_inv d'"
    by (rule gateway_inv [OF _ assms(2)]) (use assms(1) keep in \<open>simp_all add: newest_is_def same_upload_def\<close>)
  moreover have "same_upload (last (docs d' tenant cid)) row"
    using assms(1) keep [of "last (docs d tenant cid)"]
    by (auto simp: docs newest_is_def update_rows_def last_map same_upload_def)
  ultimately show ?thesis using assms(1) by (simp add: newest_is_def docs update_rows_def)
qed

lemma gateway_marks_keep_newest:
  assumes "newest_is d tenant cid row"
  shows "mark_stamped_gateway_pending tenant cid version sha d = Inr d' \<Longrightarrow> newest_is d' tenant cid row"
    and "mark_stamped_gateway_result tenant cid version sha state v d = Inr d' \<Longrightarrow> newest_is d' tenant cid row"
  unfolding mark_stamped_gateway_pending_def mark_stamped_gateway_result_def
  by (erule update_stamped_newest [OF assms]; simp add: same_upload_def)+

lemma publish_keeps_newest:
  assumes "newest_is d (pr_tenant p) cid row" and "publish_stamped sv e p cid saved d = (r, d')"
  shows "newest_is d' (pr_tenant p) cid row"
proof -
  let ?t = "pr_tenant p" and ?v = "sd_version saved" and ?h = "sd_sha256 saved"
  consider "d' = d" | d1 g where "mark_stamped_gateway_pending ?t cid ?v ?h d = Inr d1" "sv_gateway sv = Some g"
      "\<not> file_mode sv ''legacy''"
    using assms(2)
    by (cases "mark_stamped_gateway_pending ?t cid ?v ?h d")
      (auto simp: publish_stamped_def split: option.split_asm if_split_asm)
  then show ?thesis
  proof cases
    case 2
    have n1: "newest_is d1 ?t cid row" by (rule gateway_marks_keep_newest(1) [OF assms(1) 2(1)])
    have "d' = d1 \<or> (\<exists>state v. mark_stamped_gateway_result ?t cid ?v ?h state v d1 = Inr d')"
    proof (cases "gateway_store sv g e cid saved")
      case (Inl msg)
      with 2 assms(2) show ?thesis
        by (cases "mark_stamped_gateway_result ?t cid ?v ?h ''FAILED'' msg d1")
          (auto simp: publish_stamped_def split: if_split_asm)
    next
      case (Inr fid)
      with 2 assms(2) show ?thesis
        by (cases "mark_stamped_gateway_result ?t cid ?v ?h ''READY'' fid d1") (auto simp: publish_stamped_def)
    qed
    then show ?thesis using n1 gateway_marks_keep_newest(2) [OF n1] by blast
  qed (use assms(1) in simp)
qed

lemma upload_newest:
  assumes "signing_inv d" and "save_stamped_document e tenant up d = Inr (doc, d')"
  shows "\<exists>now. newest_is d' tenant (su_contract_id up)
      (new_stamped_row tenant up (su_expected_version up + 1) (env_sha256 e (su_document up)) now)"
proof -
  let ?c = "su_contract_id up"
  let ?m = "max_stamped_version d tenant ?c"
  let ?row = "\<lambda>now. new_stamped_row tenant up (?m + 1) (env_sha256 e (su_document up)) now"
  obtain now where stamped: "db_stamped d' = (if ?m > 0
        then supersede tenant ?c (su_uploaded_by up) now (db_stamped d) else db_stamped d) @ [?row now]"
    and expected: "su_expected_version up = ?m"
  proof (rule save_stamped_ok [OF assms(2)])
    fix now current docs'
    assume "current = ?m" and "docs' = (if current > 0 then supersede tenant ?c (su_uploaded_by up) now (db_stamped d)
        else db_stamped d) @ [new_stamped_row tenant up (current + 1) (env_sha256 e (su_document up)) now]"
      and "db_stamped d' = docs'" and "su_expected_version up = current"
    then show thesis by (intro that [of now]) simp_all
  qed
  have row: "stamped_of tenant ?c (?row now)" by (simp add: stamped_of_def new_stamped_row_def)
  have chain: "version_chain (docs d tenant ?c)" using assms(1) by (simp add: signing_inv_def)
  have "docs d' tenant ?c \<noteq> []" "last (docs d' tenant ?c) = ?row now"
    using docs_upload [OF chain row stamped] by simp_all
  moreover have "signing_inv d'" by (rule upload_inv [OF assms])
  ultimately show ?thesis unfolding expected by (auto simp: newest_is_def same_upload_def)
qed

text \<open>A download never hands out content of another digest than the stored one.\<close>

lemma download_digest:
  assumes "get_stamped_document_for sv e p cid d = Inr got" and "get_stamped_document d (pr_tenant p) cid = Inr doc"
    and "sd_sha256 doc = env_sha256 e (sd_document doc)"
  shows "equal_fold (env_sha256 e (sd_document got)) (sd_sha256 doc) \<and> sd_version got = sd_version doc
    \<and> sd_filename got = sd_filename doc"
proof -
  have fold: "equal_fold x x" for x by (simp add: equal_fold_def)
  have blob: "blob_verified e doc = Inr doc" using assms(3) by (simp add: blob_verified_def fold)
  have "got = doc \<or> (\<exists>content. equal_fold (env_sha256 e content) (sd_sha256 doc) \<and> got = doc\<lparr>sd_document := content\<rparr>)"
  proof (cases "get_approved_contract p cid ''contract.document.download'' d")
    case Inl
    with assms(1) show ?thesis by (simp add: get_stamped_document_for_def)
  next
    case Inr
    show ?thesis
    proof (cases "sv_gateway sv")
      case None
      with assms(1,2) Inr show ?thesis by (simp add: get_stamped_document_for_def)
    next
      case (Some g)
      with assms(1,2) Inr show ?thesis
        by (cases "fg_download g (sd_platform_file_id doc)")
          (auto simp: get_stamped_document_for_def Let_def blob split: if_split_asm)
    qed
  qed
  then show ?thesis using assms(3) fold by auto
qed

text \<open>an upload of a stamped document through the service is all or nothing, whatever the file gateway does. Either
  the request fails and no stamped document and no signing record changed, or the uploaded file is from then on the newest
  version: its number follows the one the caller named, and name, content and digest are those of the upload. Every
  later download by a user of the tenant that returns a document, in whichever file mode and from whichever gateway,
  returns that version with content of the uploaded digest.\<close>

theorem stamped_upload_survives_gateway:
  assumes "reach no_signing (signing_step e) d"
    and "save_stamped_document_for sv e p cid filename doc expected reason d = (r, d')"
  shows "(\<exists>err. r = Inl err \<and> db_stamped d' = db_stamped d \<and> db_signing d' = db_signing d)
    \<or> (\<exists>out. get_stamped_document d' (pr_tenant p) cid = Inr out \<and> sd_version out = expected + 1
        \<and> sd_filename out = filename \<and> sd_document out = doc \<and> sd_sha256 out = env_sha256 e doc
        \<and> sd_uploaded_by out = pr_user p
        \<and> (\<forall>sv' q got. pr_tenant q = pr_tenant p \<and> get_stamped_document_for sv' e q cid d' = Inr got \<longrightarrow>
             equal_fold (env_sha256 e (sd_document got)) (env_sha256 e doc) \<and> sd_version got = expected + 1
             \<and> sd_filename got = filename))"
proof -
  define up where "up = (\<lambda>now. \<lparr>su_contract_id = cid, su_filename = filename, su_document = doc, su_uploaded_at = now,
      su_uploaded_by = pr_user p, su_expected_version = expected, su_replacement_reason = reason\<rparr>)"
  obtain now d1 where clock: "read_clock e d = (now, d1)" by fastforce
  have d1: "db_stamped d1 = db_stamped d" "db_signing d1 = db_signing d" "db_confirmations d1 = db_confirmations d"
    using clock by (auto simp: read_clock_def)
  have inv: "signing_inv d1"
    using signing_machine.reach_inv [OF assms(1)] signing_inv_cong [OF d1] by simp
  show ?thesis
  proof (cases "\<exists>err. r = Inl err \<and> d' = d")
    case False
    with assms(2) obtain saved d2 where save: "save_stamped_document e (pr_tenant p) (up now) d1 = Inr (saved, d2)"
      and pub: "publish_stamped sv e p cid saved d2 = (r, d')"
      by (auto simp: save_stamped_document_for_def clock up_def res_bind_eq_ok Let_def split: sum.split_asm)
    from upload_newest [OF inv save] obtain t where
      "newest_is d2 (pr_tenant p) cid (new_stamped_row (pr_tenant p) (up now) (expected + 1) (env_sha256 e doc) t)"
      by (auto simp: up_def)
    from newest_read [OF publish_keeps_newest [OF this pub]] obtain s where
      get: "get_stamped_document d' (pr_tenant p) cid = Inr (stamped_document_of s)"
      and s: "st_doc_version s = expected + 1" "st_doc_filename s = filename" "st_doc_document s = doc"
        "st_doc_sha256 s = env_sha256 e doc" "st_doc_uploaded_by s = pr_user p"
      by (auto simp: same_upload_def new_stamped_row_def up_def)
    have "equal_fold (env_sha256 e (sd_document got)) (env_sha256 e doc) \<and> sd_version got = expected + 1
        \<and> sd_filename got = filename"
      if "pr_tenant q = pr_tenant p" "get_stamped_document_for sv' e q cid d' = Inr got" for sv' q got
      using download_digest [OF that(2), of "stamped_document_of s"] get s that(1) by (simp add: stamped_document_of_def)
    with get s show ?thesis by (auto simp: stamped_document_of_def)
  qed auto
qed

lemma sample_visible:
  "\<exists>c. get_approved_contract seller ''c1'' ''contract.stamped_pdf.upload'' (sample_db [sample_active]) = Inr c"
proof -
  let ?f = "\<lparr>sf_tenant = ''t1'', sf_identity = ''i1'', sf_orgs = [''o1''], sf_projects = [], sf_all = True, sf_self = False\<rparr>"
  have scope: "contract_scope seller ''contract.stamped_pdf.upload'' = Some ?f"
    by (simp add: contract_scope_def scope_def has_def seller_def)
  have row: "first_row (\<lambda>r. apply_contract_scope ?f r \<and> ct_id r = ''c1'') (db_contracts (sample_db [sample_active]))
      = Some sample_active"
    by (simp add: apply_contract_scope_def sample_active_def sample_row_simps)
  have origin: "ct_origin_item sample_contract = None" by (simp add: sample_contract_def)
  show ?thesis
    unfolding get_approved_contract_def scope get_contract_scoped_def row
    by (simp add: attach_one [OF refl] operational_origin_def contract_from_record_def read_contract_source_def
        sample_active_def sample_row_simps Let_def apply_contract_scope_def origin)
qed

lemma sample_stamped_upload:
  "\<exists>out d'. save_stamped_document_for sample_service sample_db_env seller ''c1'' ''f.pdf'' ''doc'' 0 []
     (sample_db [sample_active]) = (Inr out, d')"
proof -
  obtain c where c: "get_approved_contract seller ''c1'' ''contract.stamped_pdf.upload'' (sample_db [sample_active]) = Inr c"
    using sample_visible by blast
  have clock: "read_clock sample_db_env (sample_db [sample_active]) = (0, (sample_db [sample_active])\<lparr>db_tick := 1\<rparr>)"
    by (simp add: read_clock_def sample_db_env_def sample_db_def)
  have env: "env_sha256 sample_db_env = (\<lambda>_. ''h'')" by (simp add: sample_db_env_def)
  have "\<exists>out d'. save_stamped_document sample_db_env ''t1'' \<lparr>su_contract_id = ''c1'', su_filename = ''f.pdf'', su_document = ''doc'',
      su_uploaded_at = 0, su_uploaded_by = ''u1'', su_expected_version = 0, su_replacement_reason = []\<rparr>
      ((sample_db [sample_active])\<lparr>db_tick := 1\<rparr>) = Inr (out, d')"
    by (simp add: save_stamped_document_def zero_time_def second_ns_def find_contract_def contract_at_def sample_db_def sample_active_def
        sample_row_simps validate_stamped_upload_policy_def max_stamped_version_def new_stamped_row_def insert_row_def
        stamped_signing_rows_def new_signing_row_def mark_project_delivery_stamped_def env Let_def
        cong: let_weak_cong res_bind_weak)
  then show ?thesis
    using c clock
    by (auto simp: save_stamped_document_for_def check_business_license_def sample_service_def publish_stamped_def seller_def)
qed

theorem stamped_upload_survives_gateway_witness:
  "\<exists>d' out. save_stamped_document_for sample_service sample_db_env seller ''c1'' ''f.pdf'' ''doc'' 0 []
       (sample_db [sample_active]) = (Inr out, d')
     \<and> (\<exists>doc. get_stamped_document d' ''t1'' ''c1'' = Inr doc \<and> sd_document doc = ''doc'' \<and> sd_version doc = 1)"
proof -
  obtain out d' where run: "save_stamped_document_for sample_service sample_db_env seller ''c1'' ''f.pdf'' ''doc'' 0 []
     (sample_db [sample_active]) = (Inr out, d')" using sample_stamped_upload by blast
  have "reach no_signing (signing_step sample_db_env) (sample_db [sample_active])"
    by (rule reach_init) (simp add: no_signing_def sample_db_def)
  from stamped_upload_survives_gateway [OF this run] run show ?thesis by (auto simp: seller_def)
qed

section \<open>What the number rule promises\<close>

lemma save_normal_rule:
  assumes "normal_rule n" and "save_number_rule n d = Inr d'"
  shows "read_number_rule d' = Inr (Some n)" "db_sequences d' = db_sequences d" "db_registry d' = db_registry d"
    "db_tick d' = db_tick d"
  using assms by (auto simp: save_number_rule_def read_number_rule_def normal_rule_def split: option.split_asm)

lemma built_sequence_fits:
  assumes "normal_rule n" and "build_contract_number n year k = Inr number"
  shows "k < 2 ^ 32"
proof -
  have w: "1 \<le> nr_seq_width n" "nr_seq_width n \<le> 9" using assms(1) by (simp_all add: normal_rule_def)
  then have "k < 10 ^ nat (nr_seq_width n)"
    using assms(2) seq_limit_eq [OF w]
    by (auto simp: build_contract_number_def normalize_normal [OF assms(1)] Let_def split: if_split_asm)
  also have "(10 :: nat) ^ nat (nr_seq_width n) \<le> 10 ^ 9" using w by (intro power_increasing) auto
  finally show ?thesis by simp
qed

text \<open>the sample that a change of the number rule shows the administrator is the number the next approved contract
  gets, for any tenant and contract, as long as the business year of the change lasts and the year fits its column:
  the change is refused when the sample is already taken, and a number of at most nine digits fits its sequence.\<close>

theorem number_rule_sample_is_next:
  assumes "update_contract_number_rule sv e p rule d = Inr (view, d')" and "nv_sample view = Some number"
    and "clock_year_of (env_zone e) (env_clock e (db_tick d + 1)) = nv_year view"
    and "clock_year_of (env_zone e) now = nv_year view" and "0 \<le> nv_year view" and "nv_year view \<le> 65535"
  shows "\<exists>d''. allocate_number e tenant cid legacy now d' = Inr (number, d'')"
proof -
  obtain t1 d1 where c1: "read_clock e d = (t1, d1)" by fastforce
  obtain t2 d2 where c2: "read_clock e d1 = (t2, d2)" by fastforce
  have same: "db_sequences d2 = db_sequences d1" "db_registry d2 = db_registry d1" "db_tick d1 = db_tick d + 1"
    using c1 c2 by (auto simp: read_clock_def)
  from assms(1) obtain n0 where n0: "normalize_number_rule rule = Inr n0"
    by (cases "normalize_number_rule rule") (auto simp: update_contract_number_rule_def res_bind_eq_ok split: if_split_asm)
  define n where "n = n0\<lparr>nr_updated_by := trim_space (pr_user p), nr_updated_at := t1\<rparr>"
  have normal: "normal_rule n" using normalize_number_rule_normal [OF n0] by (simp add: normal_rule_def n_def)
  from assms(1) n0 c1 c2 have issuable: "check_number_rule_issuable e n d1 = Inr ()"
    and save: "save_number_rule n d2 = Inr d'" and view: "contract_number_rule_view e d' = Inr view"
    by (auto simp: update_contract_number_rule_def res_bind_eq_ok n_def Let_def split: if_split_asm)
  note s = save_normal_rule [OF normal save]
  define key where "key = env_sha256 e (rule_key_material n)"
  have key: "contract_number_rule_key (env_sha256 e) n = Inr key"
    by (simp add: contract_number_rule_key_def normalize_normal [OF normal] key_def)
  define v where "v = sequence_value key (nv_year view) d'"
  have seq: "sequence_value key y d' = sequence_value key y d1" for y
    by (simp add: sequence_value_def s same)
  have built: "build_contract_number n (nv_year view) (v + 1) = Inr number"
    using view assms(2) by (auto simp: contract_number_rule_view_def s key v_def Let_def split: sum.split_asm)
  have free: "\<not> registered e number d'"
    using issuable built assms(3)
    by (auto simp: check_number_rule_issuable_def key same(3) v_def seq registered_def s(3) same(2) split: if_split_asm)
  from allocate_attempts_skip [OF assms(5,6), of 0 50 n key d' e number tenant cid now] built free
    built_sequence_fits [OF normal built]
  obtain d'' where "allocate_attempts 50 e tenant cid n key (nv_year view) now d' = Inr (number, d'')"
    by (auto simp: v_def)
  then show ?thesis by (auto simp: allocate_number_def s(1) key assms(4) conflict_attempts_def)
qed

lemma sample_year:
  assumes "0 \<le> t" "t \<le> 2"
  shows "clock_year_of (env_zone sample_db_env) t = 1970"
proof -
  have "t div second_ns = 0" using assms by (simp add: second_ns_def)
  then show ?thesis
    by (simp add: clock_year_of_def local_civil_def location_def fixed_zone_def fixed_zone_offset_def sample_db_env_def
        unix_sec_def day_seconds_def civil_of_day_def epoch_day_def year_of_abs_def days_before_year_def Let_def
        split: prod.split)
qed

lemma sample_rule_change:
  "\<exists>view d' number. update_contract_number_rule sample_service sample_db_env seller default_number_rule (sample_db [])
       = Inr (view, d') \<and> nv_sample view = Some number \<and> nv_year view = 1970"
proof -
  define n where "n = default_number_rule\<lparr>nr_updated_by := trim_space ''u1'', nr_updated_at := 0\<rparr>"
  have normal: "normal_rule n"
    using normalize_number_rule_normal [OF default_rule_normalizes] by (simp add: normal_rule_def n_def)
  obtain number where number: "build_contract_number default_number_rule 1970 1 = Inr number"
    using default_rule_number_1 by blast
  then have built: "build_contract_number n 1970 1 = Inr number"
    unfolding build_contract_number_def normalize_normal [OF normal] default_rule_normalizes
    by (auto simp: n_def Let_def split: if_split_asm)
  have key: "contract_number_rule_key (env_sha256 sample_db_env) n = Inr ''h''"
    by (simp add: contract_number_rule_key_def normalize_normal [OF normal] sample_db_env_def)
  have year: "clock_year_of (env_zone sample_db_env) (env_clock sample_db_env t) = 1970" if "t \<le> 2" for t
    using that sample_year [of "int t"] by (simp add: sample_db_env_def)
  have clock: "read_clock sample_db_env d = (int (db_tick d), d\<lparr>db_tick := db_tick d + 1\<rparr>)" for d
    by (simp add: read_clock_def sample_db_env_def)
  have tables: "db_tick (sample_db []) = 0" "db_sequences (sample_db []) = []" "db_registry (sample_db []) = []"
    by (simp_all add: sample_db_def)
  have issuable: "check_number_rule_issuable sample_db_env n ((sample_db [])\<lparr>db_tick := 1\<rparr>) = Inr ()"
    by (simp add: check_number_rule_issuable_def key year built [simplified] sequence_value_def registered_def tables)
  obtain d' where save: "save_number_rule n ((sample_db [])\<lparr>db_tick := 2\<rparr>) = Inr d'"
    by (simp add: save_number_rule_def sample_db_def)
  note s = save_normal_rule [OF normal save]
  have view: "contract_number_rule_view sample_db_env d' = Inr \<lparr>nv_rule = n, nv_year = 1970, nv_current = 0, nv_sample = Some number\<rparr>"
    by (simp add: contract_number_rule_view_def s key year sequence_value_def tables built [simplified])
  show ?thesis
    by (simp add: update_contract_number_rule_def check_business_license_def sample_service_def has_def seller_def
        default_rule_normalizes clock tables n_def [symmetric] numeral_2_eq_2 [symmetric] issuable save view
        issuable [simplified] save [simplified])
qed

theorem number_rule_sample_is_next_witness:
  "\<exists>view d' number. update_contract_number_rule sample_service sample_db_env seller default_number_rule (sample_db [])
       = Inr (view, d') \<and> nv_sample view = Some number
     \<and> (\<exists>d''. allocate_number sample_db_env ''t1'' ''c1'' [] 0 d' = Inr (number, d''))"
proof -
  obtain view d' number where run: "update_contract_number_rule sample_service sample_db_env seller default_number_rule
      (sample_db []) = Inr (view, d')" "nv_sample view = Some number" "nv_year view = 1970"
    using sample_rule_change by blast
  have "env_clock sample_db_env (db_tick (sample_db []) + 1) = 1" by (simp add: sample_db_env_def sample_db_def)
  with number_rule_sample_is_next [OF run(1,2), of 0 "''t1''" "''c1''" "[]"] sample_year [of 1] sample_year [of 0] run show ?thesis
    by auto
qed

section \<open>The financial change\<close>

lemma blank_currency_rejected:
  assumes "terms \<noteq> []"
  shows "normalize_payment_terms terms amount [] = Inl ErrPaymentTermsInvalid"
  using assms by (simp add: normalize_payment_terms_def currency_ok_def)

text \<open>the service applies a controlled financial change only to an approved, still running contract of ordinary origin
  that the caller may edit, at the version the caller saw, for the contract's own currency and with a plan that adds up
  to the new amount. The currency has to be written out: a request that leaves it empty passes the check that the
  currency is unchanged and is then always rejected, because its plan is normalised in the empty currency.\<close>

theorem financial_change_guarded:
  assumes "change_contract_financial_terms sv e p cid ch d = Inr (out, d')"
  shows "\<exists>f current terms. sv_financial_change sv \<and> contract_scope p ''contract.edit'' = Some f
    \<and> get_contract_scoped d f cid = Inr current \<and> operational_origin current \<and> approval_passed (c_status current)
    \<and> fc_expected_version ch = c_version current
    \<and> trim_space (fc_currency ch) \<noteq> []
    \<and> to_upper (trim_space (fc_currency ch)) = to_upper (trim_space (c_currency current))
    \<and> trim_space (fc_reason ch) \<noteq> [] \<and> rune_count (trim_space (fc_reason ch)) \<le> 500
    \<and> sum_list (map term_minor terms) = fc_amount_minor ch
    \<and> apply_financial_change e (c_tenant_id current)
        (ch\<lparr>fc_contract_id := c_id current, fc_currency := to_upper (trim_space (c_currency current)),
            fc_payment_terms := terms, fc_reason := trim_space (fc_reason ch)\<rparr>) (pr_user p) d = Inr (out, d')"
proof -
  from assms obtain f current where f: "sv_financial_change sv" "contract_scope p ''contract.edit'' = Some f"
      "get_contract_scoped d f cid = Inr current"
    and rest: "operational_origin current" "approval_passed (c_status current)" "fc_expected_version ch = c_version current"
      "to_upper (trim_space (fc_currency ch)) = [] \<or>
         to_upper (trim_space (fc_currency ch)) = to_upper (trim_space (c_currency current))"
      "trim_space (fc_reason ch) \<noteq> []" "rune_count (trim_space (fc_reason ch)) \<le> 500" "fc_payment_terms ch \<noteq> []"
    and plan: "res_bind (validation_error (normalize_payment_terms (fc_payment_terms ch) (fc_amount_minor ch)
         (to_upper (trim_space (fc_currency ch))))) (\<lambda>terms. apply_financial_change e (c_tenant_id current)
           (ch\<lparr>fc_contract_id := c_id current, fc_currency := to_upper (trim_space (c_currency current)),
               fc_payment_terms := terms, fc_reason := trim_space (fc_reason ch)\<rparr>) (pr_user p) d) = Inr (out, d')"
    by (auto simp: change_contract_financial_terms_def res_bind_eq_ok Let_def max_financial_change_reason_def
        split: if_split_asm option.split_asm)
  from plan obtain terms where terms: "normalize_payment_terms (fc_payment_terms ch) (fc_amount_minor ch)
      (to_upper (trim_space (fc_currency ch))) = Inr terms"
    and applied: "apply_financial_change e (c_tenant_id current)
        (ch\<lparr>fc_contract_id := c_id current, fc_currency := to_upper (trim_space (c_currency current)),
            fc_payment_terms := terms, fc_reason := trim_space (fc_reason ch)\<rparr>) (pr_user p) d = Inr (out, d')"
    by (cases "normalize_payment_terms (fc_payment_terms ch) (fc_amount_minor ch) (to_upper (trim_space (fc_currency ch)))")
      (auto simp: validation_error_def)
  have named: "to_upper (trim_space (fc_currency ch)) \<noteq> []"
    using terms blank_currency_rejected [OF rest(7)] by auto
  then have "trim_space (fc_currency ch) \<noteq> []" by auto
  with f rest named applied normalize_payment_terms_ok [OF terms rest(7)] show ?thesis by blast
qed

end
