(* ===== verification/Catalog.thy ===== *)
theory Catalog
  imports Service
begin

text \<open>
  The local catalogue of counterparties and service categories: the tables and their operations
  (\<^verbatim>\<open>mysql/local_catalog.go\<close>, \<^verbatim>\<open>mysql/local_catalog_grants.go\<close>) and the use cases
  (\<^verbatim>\<open>application/local_catalog.go\<close>, \<^verbatim>\<open>application/local_catalog_grants.go\<close>). The catalogue has tables of its own,
  so its operations take them beside the database, which gives them identifiers, the clock and the audit table.
  The platform's directory of people and organisations is a parameter.
\<close>

section \<open>Rows\<close>

record catalog_entry =
  en_tenant :: string
  en_id :: string
  en_enabled :: bool
  en_version :: nat
  en_owner_identity :: string
  en_owner_org :: string
  en_owner_project :: string
  en_created_by :: string
  en_updated_at :: instant

record counterparty_row = catalog_entry +
  pa_name :: string

record category_row = catalog_entry +
  lg_code :: string
  lg_name :: string

record grant_row =
  gt_tenant :: string
  gt_kind :: string
  gt_entry :: string
  gt_subject_type :: string
  gt_subject :: string
  gt_subject_name :: string
  gt_enabled :: bool
  gt_version :: nat
  gt_updated_by :: string
  gt_updated_at :: instant

record catalog =
  cl_counterparties :: "counterparty_row list"
  cl_categories :: "category_row list"
  cl_grants :: "grant_row list"

record local_counterparty =
  lcp_id :: string
  lcp_tenant :: string
  lcp_name :: string
  lcp_enabled :: bool
  lcp_version :: nat
  lcp_owner_identity :: string
  lcp_owner_org :: string
  lcp_created_by :: string
  lcp_updated_at :: instant

record local_category =
  lcg_id :: string
  lcg_tenant :: string
  lcg_code :: string
  lcg_name :: string
  lcg_enabled :: bool
  lcg_version :: nat
  lcg_owner_identity :: string
  lcg_owner_org :: string
  lcg_created_by :: string
  lcg_updated_at :: instant

record catalog_target =
  tg_subject_type :: string
  tg_subject :: string
  tg_name :: string

record catalog_grant =
  cg_subject_type :: string
  cg_subject :: string
  cg_subject_name :: string
  cg_enabled :: bool
  cg_version :: nat
  cg_updated_at :: instant

record catalog_grant_input =
  gi_subject_type :: string
  gi_subject :: string
  gi_enabled :: bool
  gi_expected_version :: nat

record catalog_visibility =
  vi_identity :: string
  vi_orgs :: "string list"

definition local_counterparty_value :: "counterparty_row \<Rightarrow> local_counterparty" where
  "local_counterparty_value r =
     \<lparr>lcp_id = en_id r, lcp_tenant = en_tenant r, lcp_name = pa_name r, lcp_enabled = en_enabled r,
      lcp_version = en_version r, lcp_owner_identity = en_owner_identity r, lcp_owner_org = en_owner_org r,
      lcp_created_by = en_created_by r, lcp_updated_at = en_updated_at r\<rparr>"

definition local_category_value :: "category_row \<Rightarrow> local_category" where
  "local_category_value r =
     \<lparr>lcg_id = en_id r, lcg_tenant = en_tenant r, lcg_code = lg_code r, lcg_name = lg_name r,
      lcg_enabled = en_enabled r, lcg_version = en_version r, lcg_owner_identity = en_owner_identity r,
      lcg_owner_org = en_owner_org r, lcg_created_by = en_created_by r, lcg_updated_at = en_updated_at r\<rparr>"

definition catalog_grant_value :: "grant_row \<Rightarrow> catalog_grant" where
  "catalog_grant_value r =
     \<lparr>cg_subject_type = gt_subject_type r, cg_subject = gt_subject r, cg_subject_name = gt_subject_name r,
      cg_enabled = gt_enabled r, cg_version = gt_version r, cg_updated_at = gt_updated_at r\<rparr>"

section \<open>Saving\<close>

text \<open>
  \<^verbatim>\<open>Save\<close> of GORM on a row with a primary key: an update by that key and, when it changes nothing, an insert
  with \<^verbatim>\<open>ON DUPLICATE KEY UPDATE\<close> of all other columns. \<open>same\<close> is the primary key; \<open>clash\<close> the other
  unique key; \<open>onto\<close> writes a row over another one and keeps the other's primary key.
\<close>

definition gorm_save :: "('r \<Rightarrow> 'r \<Rightarrow> bool) \<Rightarrow> ('r \<Rightarrow> 'r \<Rightarrow> bool) \<Rightarrow> ('r \<Rightarrow> 'r \<Rightarrow> 'r) \<Rightarrow> 'r \<Rightarrow> 'r list \<Rightarrow> 'r list" where
  "gorm_save same clash onto r rows =
     (if list_ex (same r) rows then update_rows (same r) (\<lambda>_. r) rows
      else if list_ex (clash r) rows then update_rows (clash r) (onto r) rows
      else rows @ [r])"

definition same_entry :: "'a catalog_entry_scheme \<Rightarrow> 'a catalog_entry_scheme \<Rightarrow> bool" where
  "same_entry a b \<longleftrightarrow> en_tenant a = en_tenant b \<and> en_id a = en_id b"

definition same_code :: "category_row \<Rightarrow> category_row \<Rightarrow> bool" where
  "same_code a b \<longleftrightarrow> en_tenant a = en_tenant b \<and> lg_code a = lg_code b"

definition keep_key :: "'a catalog_entry_scheme \<Rightarrow> 'a catalog_entry_scheme \<Rightarrow> 'a catalog_entry_scheme" where
  "keep_key r old = r\<lparr>en_tenant := en_tenant old, en_id := en_id old\<rparr>"

definition same_grant :: "grant_row \<Rightarrow> grant_row \<Rightarrow> bool" where
  "same_grant a b \<longleftrightarrow> gt_tenant a = gt_tenant b \<and> gt_kind a = gt_kind b \<and> gt_entry a = gt_entry b
     \<and> gt_subject_type a = gt_subject_type b \<and> gt_subject a = gt_subject b"

definition catalog_audit :: "env \<Rightarrow> string \<Rightarrow> string \<Rightarrow> string \<Rightarrow> string \<Rightarrow> string \<Rightarrow> audit_payload \<Rightarrow> db \<Rightarrow> db result" where
  "catalog_audit e tenant actor action kind i payload =
     insert_audit e tenant \<lparr>ae_actor = actor, ae_action = action, ae_resource_type = kind, ae_resource_id = i,
       ae_request = [], ae_login_ip = [], ae_client_ip = [], ae_ip_source = [], ae_result = [], ae_payload = payload\<rparr>"

section \<open>Scope\<close>

definition local_catalog_scope :: "scope_filter \<Rightarrow> 'a catalog_entry_scheme \<Rightarrow> bool" where
  "local_catalog_scope f r \<longleftrightarrow> en_tenant r = sf_tenant f \<and> sf_tenant f \<noteq> []
     \<and> (sf_all f
        \<or> (sf_self f \<and> sf_identity f \<noteq> [] \<and> en_owner_identity r = sf_identity f)
        \<or> en_owner_org r \<in> set (sf_orgs f) \<or> en_owner_project r \<in> set (sf_projects f))"

definition new_local_catalog_owner :: "env \<Rightarrow> scope_filter \<Rightarrow> string \<Rightarrow> db \<Rightarrow> catalog_entry \<times> db" where
  "new_local_catalog_owner e f actor d =
     (let (i, d1) = new_id e d; (now, d2) = read_clock e d1
      in (\<lparr>en_tenant = sf_tenant f, en_id = i, en_enabled = True, en_version = 1, en_owner_identity = sf_identity f,
           en_owner_org = (case sf_orgs f of o1 # _ \<Rightarrow> if sf_self f then [] else o1 | [] \<Rightarrow> []),
           en_owner_project = (case sf_projects f of p1 # _ \<Rightarrow> if sf_self f then [] else p1 | [] \<Rightarrow> []),
           en_created_by = actor, en_updated_at = now\<rparr>, d2))"

definition catalog_limit :: "int \<Rightarrow> nat" where
  "catalog_limit lim = nat (if lim < 1 \<or> 200 < lim then 50 else lim)"

section \<open>Counterparties\<close>

definition counterparty_page :: "env \<Rightarrow> (counterparty_row \<Rightarrow> bool) \<Rightarrow> string \<Rightarrow> int \<Rightarrow> catalog \<Rightarrow> local_counterparty list" where
  "counterparty_page e visible keyword lim c =
     map local_counterparty_value (take (catalog_limit lim) (sort_key (\<lambda>r. env_collate e (pa_name r)) (sort_key en_id
       (filter (\<lambda>r. visible r \<and> (keyword = [] \<or> column_like e (literal_like_pattern keyword) (Some (pa_name r))))
         (cl_counterparties c)))))"

definition list_local_counterparties :: "env \<Rightarrow> scope_filter \<Rightarrow> string \<Rightarrow> int \<Rightarrow> catalog \<Rightarrow> local_counterparty list" where
  "list_local_counterparties e f = counterparty_page e (local_catalog_scope f)"

definition get_local_counterparty :: "scope_filter \<Rightarrow> string \<Rightarrow> catalog \<Rightarrow> local_counterparty result" where
  "get_local_counterparty f i c =
     (case first_row (\<lambda>r. local_catalog_scope f r \<and> en_id r = i) (cl_counterparties c) of
        None \<Rightarrow> fail ErrNotFound | Some r \<Rightarrow> ok (local_counterparty_value r))"

definition counterparty_of :: "catalog_entry \<Rightarrow> string \<Rightarrow> counterparty_row" where
  "counterparty_of o1 name = catalog_entry.extend o1 \<lparr>pa_name = name\<rparr>"

definition save_local_counterparty ::
  "env \<Rightarrow> scope_filter \<Rightarrow> local_counterparty \<Rightarrow> nat \<Rightarrow> string \<Rightarrow> catalog \<times> db \<Rightarrow> (local_counterparty \<times> catalog \<times> db) result" where
  "save_local_counterparty e f v expected actor s =
     (let (c, d) = s in
      if sf_tenant f = [] \<or> actor = [] then fail ErrNotFound
      else res_bind
        (if lcp_id v = [] then
           if expected \<noteq> 0 then fail ErrVersionConflict
           else let (o1, d1) = new_local_catalog_owner e f actor d in ok (counterparty_of o1 [], d1)
         else case first_row (\<lambda>r. local_catalog_scope f r \<and> en_id r = lcp_id v) (cl_counterparties c) of
             None \<Rightarrow> fail ErrNotFound
           | Some r \<Rightarrow> if expected = 0 \<or> en_version r \<noteq> expected then fail ErrVersionConflict
                      else ok (r\<lparr>en_version := en_version r + 1\<rparr>, d))
        (\<lambda>(row0, d1).
          let (now, d2) = read_clock e d1;
              row = row0\<lparr>pa_name := lcp_name v, en_enabled := lcp_enabled v, en_updated_at := now\<rparr>;
              c1 = c\<lparr>cl_counterparties := gorm_save same_entry (\<lambda>_ _. False) keep_key row (cl_counterparties c)\<rparr>
          in res_bind (catalog_audit e (sf_tenant f) actor ''CONTRACT_MANAGEMENT:LOCAL_COUNTERPARTY_SAVE''
                 ''local_counterparty'' (en_id row) [] d2)
               (\<lambda>d3. ok (local_counterparty_value row, c1, d3))))"

section \<open>Categories\<close>

definition category_page :: "env \<Rightarrow> (category_row \<Rightarrow> bool) \<Rightarrow> string \<Rightarrow> int \<Rightarrow> catalog \<Rightarrow> local_category list" where
  "category_page e visible keyword lim c =
     map local_category_value (take (catalog_limit lim) (sort_key lg_code (sort_key en_id
       (filter (\<lambda>r. visible r \<and> (keyword = [] \<or> column_like e (literal_like_pattern keyword) (Some (lg_name r))
                                  \<or> like (=) (go_runes (literal_like_pattern keyword)) (go_runes (lg_code r))))
         (cl_categories c)))))"

definition list_local_categories :: "env \<Rightarrow> scope_filter \<Rightarrow> string \<Rightarrow> int \<Rightarrow> catalog \<Rightarrow> local_category list" where
  "list_local_categories e f = category_page e (local_catalog_scope f)"

definition get_local_category :: "scope_filter \<Rightarrow> string \<Rightarrow> catalog \<Rightarrow> local_category result" where
  "get_local_category f i c =
     (case first_row (\<lambda>r. local_catalog_scope f r \<and> en_id r = i) (cl_categories c) of
        None \<Rightarrow> fail ErrNotFound | Some r \<Rightarrow> ok (local_category_value r))"

definition category_of :: "catalog_entry \<Rightarrow> string \<Rightarrow> string \<Rightarrow> category_row" where
  "category_of o1 code name = catalog_entry.extend o1 \<lparr>lg_code = code, lg_name = name\<rparr>"

definition save_local_category ::
  "env \<Rightarrow> scope_filter \<Rightarrow> local_category \<Rightarrow> nat \<Rightarrow> string \<Rightarrow> catalog \<times> db \<Rightarrow> (local_category \<times> catalog \<times> db) result" where
  "save_local_category e f v expected actor s =
     (let (c, d) = s in
      if sf_tenant f = [] \<or> actor = [] then fail ErrNotFound
      else res_bind
        (if lcg_id v = [] then
           if expected \<noteq> 0 then fail ErrVersionConflict
           else let (o1, d1) = new_local_catalog_owner e f actor d in ok (category_of o1 (lcg_code v) [], d1)
         else case first_row (\<lambda>r. local_catalog_scope f r \<and> en_id r = lcg_id v) (cl_categories c) of
             None \<Rightarrow> fail ErrNotFound
           | Some r \<Rightarrow> if expected = 0 \<or> en_version r \<noteq> expected then fail ErrVersionConflict
                      else if lg_code r \<noteq> lcg_code v then fail ErrStateConflict
                      else ok (r\<lparr>en_version := en_version r + 1\<rparr>, d))
        (\<lambda>(row0, d1).
          let (now, d2) = read_clock e d1;
              row = row0\<lparr>lg_name := lcg_name v, en_enabled := lcg_enabled v, en_updated_at := now\<rparr>;
              c1 = c\<lparr>cl_categories := gorm_save same_entry same_code keep_key row (cl_categories c)\<rparr>
          in res_bind (catalog_audit e (sf_tenant f) actor ''CONTRACT_MANAGEMENT:LOCAL_CATEGORY_SAVE''
                 ''local_category'' (en_id row) [] d2)
               (\<lambda>d3. ok (local_category_value row, c1, d3))))"

section \<open>Grants\<close>

definition managed_catalog_entry :: "scope_filter \<Rightarrow> string \<Rightarrow> string \<Rightarrow> catalog \<Rightarrow> unit result" where
  "managed_catalog_entry f kind i c =
     (if kind \<noteq> ''counterparties'' \<and> kind \<noteq> ''categories'' then fail ErrValidation
      else if (if kind = ''categories'' then list_ex (\<lambda>r. local_catalog_scope f r \<and> en_id r = i) (cl_categories c)
               else list_ex (\<lambda>r. local_catalog_scope f r \<and> en_id r = i) (cl_counterparties c)) then ok ()
      else fail ErrNotFound)"

definition list_local_catalog_grants :: "scope_filter \<Rightarrow> string \<Rightarrow> string \<Rightarrow> catalog \<Rightarrow> catalog_grant list result" where
  "list_local_catalog_grants f kind i c =
     res_bind (managed_catalog_entry f kind i c) (\<lambda>_.
       ok (map catalog_grant_value (sort_key gt_subject_type (sort_key gt_subject
         (filter (\<lambda>g. gt_tenant g = sf_tenant f \<and> gt_kind g = kind \<and> gt_entry g = i) (cl_grants c))))))"

definition grant_key :: "string \<Rightarrow> string \<Rightarrow> string \<Rightarrow> string \<Rightarrow> string \<Rightarrow> grant_row \<Rightarrow> bool" where
  "grant_key tenant kind i ty subject g \<longleftrightarrow> gt_tenant g = tenant \<and> gt_kind g = kind \<and> gt_entry g = i
     \<and> gt_subject_type g = ty \<and> gt_subject g = subject"

definition save_local_catalog_grant ::
  "env \<Rightarrow> scope_filter \<Rightarrow> string \<Rightarrow> string \<Rightarrow> catalog_grant \<Rightarrow> nat \<Rightarrow> string \<Rightarrow> catalog \<times> db \<Rightarrow>
     (catalog_grant \<times> catalog \<times> db) result" where
  "save_local_catalog_grant e f kind i v expected actor s =
     (let (c, d) = s in
      if sf_tenant f = [] \<or> actor = [] \<or> (cg_subject_type v \<noteq> ''USER'' \<and> cg_subject_type v \<noteq> ''ORG'') \<or> cg_subject v = []
      then fail ErrValidation
      else res_bind (managed_catalog_entry f kind i c) (\<lambda>_.
        res_bind
          (case first_row (grant_key (sf_tenant f) kind i (cg_subject_type v) (cg_subject v)) (cl_grants c) of
             None \<Rightarrow>
               if expected \<noteq> 0 \<or> \<not> cg_enabled v then fail ErrVersionConflict
               else ok \<lparr>gt_tenant = sf_tenant f, gt_kind = kind, gt_entry = i, gt_subject_type = cg_subject_type v,
                        gt_subject = cg_subject v, gt_subject_name = [], gt_enabled = False, gt_version = 1,
                        gt_updated_by = [], gt_updated_at = zero_time\<rparr>
           | Some g \<Rightarrow>
               if gt_version g \<noteq> expected \<or> expected = 0 then fail ErrVersionConflict
               else ok (g\<lparr>gt_version := gt_version g + 1\<rparr>))
          (\<lambda>row0.
            let (now, d1) = read_clock e d;
                row = row0\<lparr>gt_subject_name := (if cg_enabled v then cg_subject_name v else gt_subject_name row0),
                           gt_enabled := cg_enabled v, gt_updated_by := actor, gt_updated_at := now\<rparr>;
                c1 = c\<lparr>cl_grants := gorm_save same_grant (\<lambda>_ _. False) (\<lambda>r _. r) row (cl_grants c)\<rparr>;
                payload = [(''enabled'', AvBool (gt_enabled row)), (''entry_id'', AvStr i), (''entry_kind'', AvStr kind),
                  (''new_version'', AvInt (int (gt_version row))), (''old_version'', AvInt (int expected)),
                  (''subject_id'', AvStr (gt_subject row)), (''subject_type'', AvStr (gt_subject_type row))]
            in res_bind (catalog_audit e (sf_tenant f) actor ''CONTRACT_MANAGEMENT:LOCAL_CATALOG_GRANT''
                   ''local_catalog_grant'' i payload d1)
                 (\<lambda>d2. ok (catalog_grant_value row, c1, d2)))))"

section \<open>Visibility\<close>

definition grant_for :: "catalog_visibility \<Rightarrow> grant_row \<Rightarrow> bool" where
  "grant_for vis g \<longleftrightarrow> (gt_subject_type g = ''USER'' \<and> gt_subject g = vi_identity vis)
     \<or> (gt_subject_type g = ''ORG'' \<and> gt_subject g \<in> set (vi_orgs vis))"

definition visible_catalog_query :: "string \<Rightarrow> string \<Rightarrow> catalog_visibility \<Rightarrow> grant_row list \<Rightarrow> 'a catalog_entry_scheme \<Rightarrow> bool" where
  "visible_catalog_query tenant kind vis grants r \<longleftrightarrow>
     en_tenant r = tenant \<and> en_enabled r \<and> tenant \<noteq> [] \<and> vi_identity vis \<noteq> []
     \<and> (en_owner_identity r = vi_identity vis
        \<or> list_ex (\<lambda>g. gt_tenant g = en_tenant r \<and> gt_kind g = kind \<and> gt_entry g = en_id r \<and> gt_enabled g \<and> grant_for vis g) grants)"

definition list_visible_local_counterparties ::
  "env \<Rightarrow> string \<Rightarrow> catalog_visibility \<Rightarrow> string \<Rightarrow> int \<Rightarrow> catalog \<Rightarrow> local_counterparty list" where
  "list_visible_local_counterparties e tenant vis keyword lim c =
     counterparty_page e (visible_catalog_query tenant ''counterparties'' vis (cl_grants c)) keyword lim c"

definition get_visible_local_counterparty :: "string \<Rightarrow> catalog_visibility \<Rightarrow> string \<Rightarrow> catalog \<Rightarrow> local_counterparty result" where
  "get_visible_local_counterparty tenant vis i c =
     (case first_row (\<lambda>r. visible_catalog_query tenant ''counterparties'' vis (cl_grants c) r \<and> en_id r = i)
             (cl_counterparties c) of
        None \<Rightarrow> fail ErrNotFound | Some r \<Rightarrow> ok (local_counterparty_value r))"

definition list_visible_local_categories ::
  "env \<Rightarrow> string \<Rightarrow> catalog_visibility \<Rightarrow> string \<Rightarrow> int \<Rightarrow> catalog \<Rightarrow> local_category list" where
  "list_visible_local_categories e tenant vis keyword lim c =
     category_page e (visible_catalog_query tenant ''categories'' vis (cl_grants c)) keyword lim c"

definition get_visible_local_category :: "string \<Rightarrow> catalog_visibility \<Rightarrow> string \<Rightarrow> catalog \<Rightarrow> local_category result" where
  "get_visible_local_category tenant vis i c =
     (case first_row (\<lambda>r. visible_catalog_query tenant ''categories'' vis (cl_grants c) r \<and> en_id r = i)
             (cl_categories c) of
        None \<Rightarrow> fail ErrNotFound | Some r \<Rightarrow> ok (local_category_value r))"

section \<open>Use cases\<close>

record target_directory =
  td_targets :: "principal \<Rightarrow> catalog_target list result"
  td_organizations :: "principal \<Rightarrow> string list result"

text \<open>\<open>so_catalog\<close> says whether a catalogue is configured; it is the repository modelled above.\<close>

record contract_source_options =
  so_counterparty :: string
  so_category :: string
  so_catalog :: bool
  so_targets :: "target_directory option"
  so_project_integration :: bool
  so_settlement_integration :: bool
  so_crm_link :: bool

definition local_catalog_read_scope :: "principal \<Rightarrow> scope_filter result" where
  "local_catalog_read_scope p =
     (case List.find (\<lambda>permission. contract_scope p permission \<noteq> None)
             [''contract.catalog.manage'', ''contract.create'', ''contract.edit''] of
        None \<Rightarrow> fail ErrForbidden
      | Some permission \<Rightarrow> ok (the (contract_scope p permission)))"

definition local_catalog_store :: "contract_source_options option \<Rightarrow> unit result" where
  "local_catalog_store so =
     (case so of None \<Rightarrow> fail ErrLocalCatalogUnavailable
      | Some opts \<Rightarrow> if so_catalog opts then ok () else fail ErrLocalCatalogUnavailable)"

definition local_catalog_visibility :: "contract_source_options \<Rightarrow> principal \<Rightarrow> catalog_visibility result" where
  "local_catalog_visibility opts p =
     (if pr_tenant p = [] \<or> pr_identity p = [] then fail ErrForbidden
      else case so_targets opts of
        None \<Rightarrow> ok \<lparr>vi_identity = pr_identity p, vi_orgs = []\<rparr>
      | Some td \<Rightarrow> res_bind (td_organizations td p) (\<lambda>orgs. ok \<lparr>vi_identity = pr_identity p, vi_orgs = orgs\<rparr>))"

definition catalog_manager :: "principal \<Rightarrow> bool" where
  "catalog_manager p \<longleftrightarrow> scope p ''contract.catalog.manage'' \<noteq> None"

definition list_catalog ::
  "contract_source_options option \<Rightarrow> principal \<Rightarrow> string \<Rightarrow> (scope_filter \<Rightarrow> string \<Rightarrow> 'a) \<Rightarrow>
     (string \<Rightarrow> catalog_visibility \<Rightarrow> string \<Rightarrow> 'a) \<Rightarrow> 'a result" where
  "list_catalog so p keyword0 all visible =
     res_bind (local_catalog_read_scope p) (\<lambda>f.
     res_bind (local_catalog_store so) (\<lambda>_.
       let keyword = trim_space keyword0 in
       if 100 < rune_count keyword then fail ErrValidation
       else if \<not> catalog_manager p
       then res_bind (local_catalog_visibility (the so) p) (\<lambda>vis. ok (visible (sf_tenant f) vis keyword))
       else ok (all f keyword)))"

definition list_local_counterparties_for ::
  "contract_source_options option \<Rightarrow> env \<Rightarrow> principal \<Rightarrow> string \<Rightarrow> int \<Rightarrow> catalog \<Rightarrow> local_counterparty list result" where
  "list_local_counterparties_for so e p keyword lim c =
     list_catalog so p keyword (\<lambda>f kw. list_local_counterparties e f kw lim c)
       (\<lambda>tenant vis kw. list_visible_local_counterparties e tenant vis kw lim c)"

definition list_local_categories_for ::
  "contract_source_options option \<Rightarrow> env \<Rightarrow> principal \<Rightarrow> string \<Rightarrow> int \<Rightarrow> catalog \<Rightarrow> local_category list result" where
  "list_local_categories_for so e p keyword lim c =
     list_catalog so p keyword (\<lambda>f kw. list_local_categories e f kw lim c)
       (\<lambda>tenant vis kw. list_visible_local_categories e tenant vis kw lim c)"

definition catalog_manage_scope :: "service \<Rightarrow> principal \<Rightarrow> scope_filter result" where
  "catalog_manage_scope sv p =
     res_bind (check_business_license sv 0) (\<lambda>_.
       case scope p ''contract.catalog.manage'' of
         None \<Rightarrow> fail ErrForbidden
       | Some f \<Rightarrow> if pr_tenant p = [] \<or> pr_user p = [] \<or> pr_identity p = [] then fail ErrForbidden else ok f)"

definition save_local_counterparty_for ::
  "service \<Rightarrow> contract_source_options option \<Rightarrow> env \<Rightarrow> principal \<Rightarrow> local_counterparty \<Rightarrow> nat \<Rightarrow> catalog \<times> db \<Rightarrow>
     (local_counterparty \<times> catalog \<times> db) result" where
  "save_local_counterparty_for sv so e p v0 expected s =
     res_bind (catalog_manage_scope sv p) (\<lambda>f.
       let v = v0\<lparr>lcp_name := trim_space (lcp_name v0)\<rparr> in
       if lcp_name v = [] \<or> 255 < rune_count (lcp_name v) then fail ErrValidation
       else res_bind (local_catalog_store so) (\<lambda>_. save_local_counterparty e f v expected (pr_user p) s))"

text \<open>The pattern \<^verbatim>\<open>^[A-Z0-9][A-Z0-9_.-]{0,63}$\<close>.\<close>

definition code_head :: "char \<Rightarrow> bool" where
  "code_head ch \<longleftrightarrow> (65 \<le> byte_of ch \<and> byte_of ch \<le> 90) \<or> (48 \<le> byte_of ch \<and> byte_of ch \<le> 57)"

definition local_category_code :: "string \<Rightarrow> bool" where
  "local_category_code s =
     (case s of [] \<Rightarrow> False
      | ch # rest \<Rightarrow> code_head ch \<and> length rest \<le> 63
                    \<and> list_all (\<lambda>x. code_head x \<or> x \<in> set ''_.-'') rest)"

definition save_local_category_for ::
  "service \<Rightarrow> contract_source_options option \<Rightarrow> env \<Rightarrow> principal \<Rightarrow> local_category \<Rightarrow> nat \<Rightarrow> catalog \<times> db \<Rightarrow>
     (local_category \<times> catalog \<times> db) result" where
  "save_local_category_for sv so e p v0 expected s =
     res_bind (catalog_manage_scope sv p) (\<lambda>f.
       let v = v0\<lparr>lcg_code := trim_space (lcg_code v0), lcg_name := trim_space (lcg_name v0)\<rparr> in
       if \<not> local_category_code (lcg_code v) \<or> lcg_name v = [] \<or> 120 < rune_count (lcg_name v) then fail ErrValidation
       else res_bind (local_catalog_store so) (\<lambda>_. save_local_category e f v expected (pr_user p) s))"

definition catalog_grant_manager ::
  "contract_source_options option \<Rightarrow> principal \<Rightarrow> string \<Rightarrow> string \<Rightarrow> scope_filter result" where
  "catalog_grant_manager so p kind i =
     (case scope p ''contract.catalog.manage'' of
        None \<Rightarrow> fail ErrForbidden
      | Some f \<Rightarrow>
          if pr_tenant p = [] \<or> pr_identity p = [] \<or> pr_user p = [] then fail ErrForbidden
          else if (kind \<noteq> ''counterparties'' \<and> kind \<noteq> ''categories'') \<or> i = [] \<or> 128 < length i then fail ErrValidation
          else res_bind (local_catalog_store so) (\<lambda>_. ok f))"

definition list_local_catalog_targets :: "contract_source_options option \<Rightarrow> principal \<Rightarrow> catalog_target list result" where
  "list_local_catalog_targets so p =
     (if \<not> catalog_manager p \<or> pr_tenant p = [] then fail ErrForbidden
      else case so of
        None \<Rightarrow> fail ErrPersonnelDirectoryUnavailable
      | Some opts \<Rightarrow>
          (case so_targets opts of None \<Rightarrow> fail ErrPersonnelDirectoryUnavailable | Some td \<Rightarrow> td_targets td p))"

definition list_local_catalog_grants_for ::
  "contract_source_options option \<Rightarrow> principal \<Rightarrow> string \<Rightarrow> string \<Rightarrow> catalog \<Rightarrow> catalog_grant list result" where
  "list_local_catalog_grants_for so p kind i c =
     res_bind (catalog_grant_manager so p kind i) (\<lambda>f. list_local_catalog_grants f kind i c)"

definition target_name :: "catalog_grant_input \<Rightarrow> catalog_target list \<Rightarrow> string" where
  "target_name inp targets =
     (case List.find (\<lambda>t. tg_subject_type t = gi_subject_type inp \<and> tg_subject t = gi_subject inp) targets of
        None \<Rightarrow> [] | Some t \<Rightarrow> tg_name t)"

definition save_local_catalog_grant_for ::
  "service \<Rightarrow> contract_source_options option \<Rightarrow> env \<Rightarrow> principal \<Rightarrow> string \<Rightarrow> string \<Rightarrow> catalog_grant_input \<Rightarrow>
     catalog \<times> db \<Rightarrow> (catalog_grant \<times> catalog \<times> db) result" where
  "save_local_catalog_grant_for sv so e p kind i inp0 s =
     res_bind (check_business_license sv 0) (\<lambda>_.
     res_bind (catalog_grant_manager so p kind i) (\<lambda>f.
       let inp = inp0\<lparr>gi_subject := trim_space (gi_subject inp0)\<rparr>;
           v = \<lparr>cg_subject_type = gi_subject_type inp, cg_subject = gi_subject inp, cg_subject_name = [],
                cg_enabled = gi_enabled inp, cg_version = 0, cg_updated_at = zero_time\<rparr> in
       if (gi_subject_type inp \<noteq> ''USER'' \<and> gi_subject_type inp \<noteq> ''ORG'') \<or> gi_subject inp = []
          \<or> 128 < length (gi_subject inp) \<or> (\<not> gi_enabled inp \<and> gi_expected_version inp = 0) then fail ErrValidation
       else res_bind
         (if gi_enabled inp
          then res_bind (list_local_catalog_targets so p) (\<lambda>targets.
                 if target_name inp targets = [] then fail ErrLocalReferenceInvalid
                 else ok (v\<lparr>cg_subject_name := target_name inp targets\<rparr>))
          else ok v)
         (\<lambda>v'. save_local_catalog_grant e f kind i v' (gi_expected_version inp) (pr_user p) s)))"

text \<open>References from contracts.\<close>

definition local_counterparty_reference ::
  "contract_source_options \<Rightarrow> principal \<Rightarrow> scope_filter \<Rightarrow> string \<Rightarrow> catalog \<Rightarrow> local_counterparty result" where
  "local_counterparty_reference opts p f i c =
     (case scope p ''contract.catalog.manage'' of
        Some manage \<Rightarrow> get_local_counterparty manage i c
      | None \<Rightarrow> res_bind (local_catalog_visibility opts p) (\<lambda>vis. get_visible_local_counterparty (sf_tenant f) vis i c))"

definition local_category_reference ::
  "contract_source_options \<Rightarrow> principal \<Rightarrow> scope_filter \<Rightarrow> string \<Rightarrow> catalog \<Rightarrow> local_category result" where
  "local_category_reference opts p f i c =
     (case scope p ''contract.catalog.manage'' of
        Some manage \<Rightarrow> get_local_category manage i c
      | None \<Rightarrow> res_bind (local_catalog_visibility opts p) (\<lambda>vis. get_visible_local_category (sf_tenant f) vis i c))"

section \<open>Well-formed catalogues\<close>

datatype catalog_op =
    SaveCounterparty scope_filter local_counterparty nat string
  | SaveCategory scope_filter local_category nat string
  | SaveGrant scope_filter string string catalog_grant nat string

fun catalog_run :: "env \<Rightarrow> catalog_op \<Rightarrow> catalog \<times> db \<Rightarrow> (catalog \<times> db) result" where
  "catalog_run e (SaveCounterparty f v expected actor) s =
     res_bind (save_local_counterparty e f v expected actor s) (\<lambda>(_, s'). ok s')"
| "catalog_run e (SaveCategory f v expected actor) s =
     res_bind (save_local_category e f v expected actor s) (\<lambda>(_, s'). ok s')"
| "catalog_run e (SaveGrant f kind i v expected actor) s =
     res_bind (save_local_catalog_grant e f kind i v expected actor s) (\<lambda>(_, s'). ok s')"

definition entry_key :: "'a catalog_entry_scheme \<Rightarrow> string \<times> string" where
  "entry_key r = (en_tenant r, en_id r)"

definition code_key :: "category_row \<Rightarrow> string \<times> string" where
  "code_key r = (en_tenant r, lg_code r)"

definition grant_key_of :: "grant_row \<Rightarrow> string \<times> string \<times> string \<times> string \<times> string" where
  "grant_key_of g = (gt_tenant g, gt_kind g, gt_entry g, gt_subject_type g, gt_subject g)"

definition entry_ok :: "'a catalog_entry_scheme \<Rightarrow> bool" where
  "entry_ok r \<longleftrightarrow> en_tenant r \<noteq> [] \<and> 1 \<le> en_version r"

definition grant_ok :: "catalog \<Rightarrow> grant_row \<Rightarrow> bool" where
  "grant_ok c g \<longleftrightarrow> 1 \<le> gt_version g \<and> (gt_subject_type g = ''USER'' \<or> gt_subject_type g = ''ORG'')
     \<and> ((gt_kind g = ''counterparties'' \<and> (gt_tenant g, gt_entry g) \<in> set (map entry_key (cl_counterparties c)))
        \<or> (gt_kind g = ''categories'' \<and> (gt_tenant g, gt_entry g) \<in> set (map entry_key (cl_categories c))))"

definition catalog_ok :: "catalog \<Rightarrow> bool" where
  "catalog_ok c \<longleftrightarrow> distinct (map entry_key (cl_counterparties c)) \<and> distinct (map entry_key (cl_categories c))
     \<and> distinct (map code_key (cl_categories c)) \<and> distinct (map grant_key_of (cl_grants c))
     \<and> list_all entry_ok (cl_counterparties c) \<and> list_all entry_ok (cl_categories c) \<and> list_all (grant_ok c) (cl_grants c)"

lemma same_keys:
  "same_entry a b \<longleftrightarrow> entry_key a = entry_key b" "same_code x y \<longleftrightarrow> code_key x = code_key y"
  "same_grant g h \<longleftrightarrow> grant_key_of g = grant_key_of h"
  by (auto simp: same_entry_def same_code_def same_grant_def entry_key_def code_key_def grant_key_of_def)

text \<open>What a save does to a key: it stays unique where the saved row brings it along.\<close>

lemma gorm_save_keys:
  assumes same: "\<And>a b. same a b \<longleftrightarrow> k a = k b" and onto: "\<And>x. x \<in> set rows \<Longrightarrow> clash r x \<Longrightarrow> k (onto r x) = k x"
  shows "map k (gorm_save same clash onto r rows)
    = (if k r \<in> set (map k rows) \<or> list_ex (clash r) rows then map k rows else map k rows @ [k r])"
proof -
  have "list_ex (same r) rows \<longleftrightarrow> k r \<in> set (map k rows)" using same by (auto simp: list_ex_iff)
  then show ?thesis using same onto by (auto simp: gorm_save_def update_rows_def)
qed

lemma gorm_save_other_key:
  assumes "\<And>x. x \<in> set rows \<Longrightarrow> same r x \<Longrightarrow> j r = j x" and "\<And>x. x \<in> set rows \<Longrightarrow> clash r x \<longleftrightarrow> j r = j x"
    and "\<And>x. x \<in> set rows \<Longrightarrow> clash r x \<Longrightarrow> j (onto r x) = j x" and "distinct (map j rows)"
  shows "distinct (map j (gorm_save same clash onto r rows))"
proof -
  have "map j (update_rows (same r) (\<lambda>_. r) rows) = map j rows"
    using assms(1) by (auto simp: update_rows_def)
  moreover have "map j (update_rows (clash r) (onto r) rows) = map j rows"
    using assms(3) by (auto simp: update_rows_def)
  moreover have "j r \<notin> j ` set rows" if "\<not> list_ex (clash r) rows"
    using that assms(2) by (auto simp: list_ex_iff)
  ultimately show ?thesis using assms(4) by (simp add: gorm_save_def)
qed

lemma gorm_save_all:
  assumes "list_all P rows" and "P r" and "\<And>x. x \<in> set rows \<Longrightarrow> P x \<Longrightarrow> clash r x \<Longrightarrow> P (onto r x)"
  shows "list_all P (gorm_save same clash onto r rows)"
  using assms by (auto simp: gorm_save_def update_rows_def list_all_iff)

lemma entry_key_update [simp]:
  "entry_key (r\<lparr>en_version := n\<rparr>) = entry_key r" "entry_key (r\<lparr>en_enabled := b\<rparr>) = entry_key r"
  "entry_key (r\<lparr>en_updated_at := t\<rparr>) = entry_key r" "entry_key (p\<lparr>pa_name := nm\<rparr>) = entry_key p"
  "entry_key (q\<lparr>lg_name := nm\<rparr>) = entry_key q" "entry_key (keep_key r s) = entry_key s"
  by (simp_all add: entry_key_def keep_key_def)

lemma save_counterparty_ok:
  assumes "save_local_counterparty e f v expected actor (c, d) = Inr (out, c', d')"
  obtains row where "cl_counterparties c' = gorm_save same_entry (\<lambda>_ _. False) keep_key row (cl_counterparties c)"
    "cl_categories c' = cl_categories c" "cl_grants c' = cl_grants c" "entry_ok row"
proof -
  let ?pick = "first_row (\<lambda>r. local_catalog_scope f r \<and> en_id r = lcp_id v) (cl_counterparties c)"
  from assms have "sf_tenant f \<noteq> []" by (auto simp: save_local_counterparty_def)
  with assms that show thesis
    by (cases ?pick)
      (auto simp: save_local_counterparty_def new_local_catalog_owner_def counterparty_of_def entry_ok_def Let_def
        res_bind_eq_ok catalog_entry.defs split: if_split_asm prod.split_asm dest!: first_row_SomeD
        simp: local_catalog_scope_def)
qed

definition ids_issued :: "env \<Rightarrow> category_row list \<Rightarrow> db \<Rightarrow> bool" where
  "ids_issued e rows d \<longleftrightarrow> inj (env_ulid e) \<and> list_all (\<lambda>r. en_id r \<in> env_ulid e ` {..<db_seq d}) rows"

definition catalog_inv :: "env \<Rightarrow> catalog \<times> db \<Rightarrow> bool" where
  "catalog_inv e s \<longleftrightarrow> catalog_ok (fst s) \<and> ids_issued e (cl_categories (fst s)) (snd s)"

lemma catalog_audit_seq: "catalog_audit e tenant actor action kind i payload d = Inr d' \<Longrightarrow> db_seq d \<le> db_seq d'"
  by (auto simp: catalog_audit_def insert_audit_def new_id_def read_clock_def res_bind_eq_ok Let_def)

lemma save_counterparty_seq:
  assumes "save_local_counterparty e f v expected actor (c, d) = Inr (out, c', d')"
  shows "db_seq d \<le> db_seq d'"
  using assms
  by (cases "first_row (\<lambda>r. local_catalog_scope f r \<and> en_id r = lcp_id v) (cl_counterparties c)")
    (auto simp: save_local_counterparty_def new_local_catalog_owner_def new_id_def read_clock_def Let_def res_bind_eq_ok
      split: if_split_asm dest!: catalog_audit_seq)

definition created_category :: "env \<Rightarrow> scope_filter \<Rightarrow> db \<Rightarrow> category_row \<Rightarrow> bool" where
  "created_category e f d row \<longleftrightarrow>
     en_id row = env_ulid e (db_seq d) \<and> en_version row = 1 \<and> en_owner_identity row = sf_identity f"

definition revised_category :: "catalog \<Rightarrow> local_category \<Rightarrow> nat \<Rightarrow> category_row \<Rightarrow> bool" where
  "revised_category c v expected row \<longleftrightarrow>
     (\<exists>r \<in> set (cl_categories c). entry_key row = entry_key r \<and> code_key row = code_key r
        \<and> en_version row = en_version r + 1 \<and> en_version r = expected \<and> en_id r = lcg_id v)"

lemma save_category_ok:
  assumes "save_local_category e f v expected actor (c, d) = Inr (out, c', d')"
  obtains row d1 where "cl_categories c' = gorm_save same_entry same_code keep_key row (cl_categories c)"
    "cl_counterparties c' = cl_counterparties c" "cl_grants c' = cl_grants c" "entry_ok row" "lg_code row = lcg_code v"
    "out = local_category_value row" "en_tenant row = sf_tenant f" "lg_name row = lcg_name v"
    "if lcg_id v = [] then created_category e f d row \<and> db_seq d < db_seq d'
      else revised_category c v expected row \<and> db_seq d \<le> db_seq d'"
proof -
  let ?pick = "first_row (\<lambda>r. local_catalog_scope f r \<and> en_id r = lcg_id v) (cl_categories c)"
  have tenant: "sf_tenant f \<noteq> []" using assms by (auto simp: save_local_category_def)
  show thesis
  proof (cases "lcg_id v = []")
    case True
    obtain o1 d1 where owner: "new_local_catalog_owner e f actor d = (o1, d1)" by fastforce
    obtain now d2 where clock: "read_clock e d1 = (now, d2)" by fastforce
    define row where "row = (category_of o1 (lcg_code v) [])\<lparr>lg_name := lcg_name v, en_enabled := lcg_enabled v, en_updated_at := now\<rparr>"
    have seq: "db_seq d2 = Suc (db_seq d)" using owner clock by (auto simp: new_local_catalog_owner_def new_id_def read_clock_def)
    have o1: "en_tenant o1 = sf_tenant f" "en_id o1 = env_ulid e (db_seq d)" "en_version o1 = 1" "en_owner_identity o1 = sf_identity f"
      using owner by (auto simp: new_local_catalog_owner_def new_id_def read_clock_def)
    from assms True owner clock have out: "out = local_category_value row"
      "c' = c\<lparr>cl_categories := gorm_save same_entry same_code keep_key row (cl_categories c)\<rparr>"
      and audit: "\<exists>a b x. catalog_audit e (sf_tenant f) a b x (en_id row) [] d2 = Inr d'"
      by (auto simp: save_local_category_def row_def Let_def res_bind_eq_ok split: if_split_asm)
    have "db_seq d < db_seq d'" using audit catalog_audit_seq seq by fastforce
    with True out o1 tenant show thesis
      by (intro that [of row]) (auto simp: row_def category_of_def entry_ok_def created_category_def catalog_entry.defs)
  next
    case False
    from assms this tenant obtain r where pick: "?pick = Some r" and r: "en_version r = expected" "lg_code r = lcg_code v"
      by (cases ?pick) (auto simp: save_local_category_def split: if_split_asm)
    obtain now d2 where clock: "read_clock e d = (now, d2)" by fastforce
    define row where "row = r\<lparr>en_version := en_version r + 1\<rparr>\<lparr>lg_name := lcg_name v, en_enabled := lcg_enabled v, en_updated_at := now\<rparr>"
    have seq: "db_seq d2 = db_seq d" using clock by (auto simp: read_clock_def)
    from assms False pick clock have out: "out = local_category_value row"
      "c' = c\<lparr>cl_categories := gorm_save same_entry same_code keep_key row (cl_categories c)\<rparr>"
      and audit: "\<exists>a b x. catalog_audit e (sf_tenant f) a b x (en_id row) [] d2 = Inr d'"
      by (auto simp: save_local_category_def row_def Let_def res_bind_eq_ok split: if_split_asm)
    have "db_seq d \<le> db_seq d'" using audit catalog_audit_seq seq by fastforce
    with first_row_SomeD [OF pick] out r tenant show thesis
      by (intro that [of row]) (auto simp: row_def local_catalog_scope_def entry_ok_def code_key_def revised_category_def False)
  qed
qed

lemma save_grant_ok:
  assumes "save_local_catalog_grant e f kind i v expected actor (c, d) = Inr (out, c', d')"
  obtains row where "cl_grants c' = gorm_save same_grant (\<lambda>_ _. False) (\<lambda>r _. r) row (cl_grants c)"
    "cl_counterparties c' = cl_counterparties c" "cl_categories c' = cl_categories c" "1 \<le> gt_version row"
    "cg_subject_type v = ''USER'' \<or> cg_subject_type v = ''ORG''" "managed_catalog_entry f kind i c = Inr ()"
    "grant_key (sf_tenant f) kind i (cg_subject_type v) (cg_subject v) row" "gt_enabled row = cg_enabled v" "db_seq d \<le> db_seq d'"
proof -
  let ?hit = "grant_key (sf_tenant f) kind i (cg_subject_type v) (cg_subject v)"
  let ?new = "\<lparr>gt_tenant = sf_tenant f, gt_kind = kind, gt_entry = i, gt_subject_type = cg_subject_type v,
    gt_subject = cg_subject v, gt_subject_name = [], gt_enabled = False, gt_version = 1, gt_updated_by = [], gt_updated_at = zero_time\<rparr>"
  obtain now d1 where clock: "read_clock e d = (now, d1)" by fastforce
  define row0 where "row0 = (case first_row ?hit (cl_grants c) of None \<Rightarrow> ?new | Some g \<Rightarrow> g\<lparr>gt_version := gt_version g + 1\<rparr>)"
  have row0: "?hit row0" "1 \<le> gt_version row0"
    unfolding row0_def by (auto simp: grant_key_def split: option.split dest!: first_row_SomeD)
  define row where "row = row0\<lparr>gt_subject_name := (if cg_enabled v then cg_subject_name v else gt_subject_name row0),
      gt_enabled := cg_enabled v, gt_updated_by := actor, gt_updated_at := now\<rparr>"
  from assms clock have c': "c' = c\<lparr>cl_grants := gorm_save same_grant (\<lambda>_ _. False) (\<lambda>r _. r) row (cl_grants c)\<rparr>"
    and ok: "managed_catalog_entry f kind i c = Inr ()" "cg_subject_type v = ''USER'' \<or> cg_subject_type v = ''ORG''"
    and audit: "\<exists>a b x y. catalog_audit e (sf_tenant f) a b x i y d1 = Inr d'"
    by (cases "first_row ?hit (cl_grants c)";
        auto simp: save_local_catalog_grant_def row_def row0_def Let_def res_bind_eq_ok split: if_split_asm)+
  have "db_seq d \<le> db_seq d'" using audit catalog_audit_seq clock by (fastforce simp: read_clock_def)
  with c' ok row0 show thesis by (intro that [of row]) (auto simp: row_def grant_key_def)
qed

lemma ids_issued_mono: "ids_issued e rows d \<Longrightarrow> db_seq d \<le> db_seq d' \<Longrightarrow> ids_issued e rows d'"
  by (fastforce simp: ids_issued_def list_all_iff)

lemma grant_ok_mono:
  assumes "grant_ok c g" "set (map entry_key (cl_counterparties c)) \<subseteq> set (map entry_key (cl_counterparties c'))"
    "set (map entry_key (cl_categories c)) \<subseteq> set (map entry_key (cl_categories c'))"
  shows "grant_ok c' g"
  using assms unfolding grant_ok_def by blast

lemma counterparty_inv:
  assumes inv: "catalog_inv e (c, d)" and run: "save_local_counterparty e f v expected actor (c, d) = Inr (out, c', d')"
  shows "catalog_inv e (c', d')"
proof -
  obtain row where rows: "cl_counterparties c' = gorm_save same_entry (\<lambda>_ _. False) keep_key row (cl_counterparties c)"
    and same: "cl_categories c' = cl_categories c" "cl_grants c' = cl_grants c" and row: "entry_ok row"
    by (rule save_counterparty_ok [OF run])
  have keys: "map entry_key (cl_counterparties c') = (if entry_key row \<in> set (map entry_key (cl_counterparties c))
      then map entry_key (cl_counterparties c) else map entry_key (cl_counterparties c) @ [entry_key row])"
    unfolding rows by (subst gorm_save_keys [OF same_keys(1)]) (auto simp: list_ex_iff)
  have "list_all entry_ok (cl_counterparties c')"
    unfolding rows by (rule gorm_save_all) (use inv row in \<open>auto simp: catalog_inv_def catalog_ok_def\<close>)
  moreover have "grant_ok c' g" if "grant_ok c g" for g
    using that by (rule grant_ok_mono) (simp_all only: keys same, auto)
  ultimately show ?thesis
    using inv keys ids_issued_mono [OF _ save_counterparty_seq [OF run]]
    by (auto simp: catalog_inv_def catalog_ok_def same list_all_iff split: if_split_asm)
qed

lemma category_inv:
  assumes inv: "catalog_inv e (c, d)" and run: "save_local_category e f v expected actor (c, d) = Inr (out, c', d')"
  shows "catalog_inv e (c', d')"
proof -
  obtain row where rows: "cl_categories c' = gorm_save same_entry same_code keep_key row (cl_categories c)"
    and same: "cl_counterparties c' = cl_counterparties c" "cl_grants c' = cl_grants c" and row: "entry_ok row"
    and how: "if lcg_id v = [] then created_category e f d row \<and> db_seq d < db_seq d'
      else revised_category c v expected row \<and> db_seq d \<le> db_seq d'"
    by (rule save_category_ok [OF run])
  let ?rows = "cl_categories c"
  have dist: "distinct (map entry_key ?rows)" "distinct (map code_key ?rows)" and ids: "ids_issued e ?rows d"
    using inv by (simp_all add: catalog_inv_def catalog_ok_def)
  have code: "code_key row = code_key x" if "x \<in> set ?rows" "same_entry row x" for x
  proof (cases "lcg_id v = []")
    case True
    with how show ?thesis using ids that
      by (auto simp: ids_issued_def list_all_iff same_entry_def inj_eq created_category_def)
  next
    case False
    with how have "revised_category c v expected row" by simp
    then obtain r where r: "r \<in> set ?rows" "entry_key row = entry_key r" "code_key row = code_key r"
      by (auto simp: revised_category_def)
    moreover have "x = r"
      using inj_onD [OF distinct_map [THEN iffD1, OF dist(1), THEN conjunct2], of x r] that r same_keys(1) [of row x] by simp
    ultimately show ?thesis by simp
  qed
  have keys: "map entry_key (cl_categories c') = (if entry_key row \<in> set (map entry_key ?rows) \<or> list_ex (same_code row) ?rows
      then map entry_key ?rows else map entry_key ?rows @ [entry_key row])"
    unfolding rows by (rule gorm_save_keys [OF same_keys(1)]) simp
  have codes: "distinct (map code_key (cl_categories c'))"
    unfolding rows
    by (rule gorm_save_other_key) (use dist(2) code same_keys(2) in \<open>auto simp: keep_key_def code_key_def\<close>)
  have "list_all entry_ok (cl_categories c')"
    unfolding rows by (rule gorm_save_all)
      (use inv row in \<open>auto simp: catalog_inv_def catalog_ok_def entry_ok_def keep_key_def list_all_iff\<close>)
  moreover have "grant_ok c' g" if "grant_ok c g" for g
    using that by (rule grant_ok_mono) (simp_all only: keys same, auto)
  moreover have "ids_issued e (cl_categories c') d'"
  proof -
    have le: "db_seq d \<le> db_seq d'" using how by (simp split: if_split_asm)
    have old: "en_id r \<in> env_ulid e ` {..<db_seq d'}" if "r \<in> set ?rows" for r
      using ids_issued_mono [OF ids le] that by (simp add: ids_issued_def list_all_iff)
    have new: "en_id row \<in> env_ulid e ` {..<db_seq d'}"
      using how old by (auto simp: entry_key_def created_category_def revised_category_def split: if_split_asm) metis
    have "list_all (\<lambda>r. en_id r \<in> env_ulid e ` {..<db_seq d'}) (cl_categories c')"
      unfolding rows by (rule gorm_save_all)
        (use new ids_issued_mono [OF ids le] in \<open>auto simp: ids_issued_def list_all_iff keep_key_def\<close>)
    with ids show ?thesis by (simp add: ids_issued_def)
  qed
  ultimately show ?thesis
    using inv keys codes by (auto simp: catalog_inv_def catalog_ok_def same list_all_iff split: if_split_asm)
qed

lemma managed_entry_known:
  "managed_catalog_entry f kind i c = Inr () \<Longrightarrow>
     (kind = ''counterparties'' \<and> (sf_tenant f, i) \<in> set (map entry_key (cl_counterparties c)))
     \<or> (kind = ''categories'' \<and> (sf_tenant f, i) \<in> set (map entry_key (cl_categories c)))"
  by (auto simp: managed_catalog_entry_def local_catalog_scope_def list_ex_iff split: if_split_asm)
    (auto simp: entry_key_def intro!: rev_image_eqI)

lemma grant_inv:
  assumes inv: "catalog_inv e (c, d)" and run: "save_local_catalog_grant e f kind i v expected actor (c, d) = Inr (out, c', d')"
  shows "catalog_inv e (c', d')"
proof -
  obtain row where rows: "cl_grants c' = gorm_save same_grant (\<lambda>_ _. False) (\<lambda>r _. r) row (cl_grants c)"
    and same: "cl_counterparties c' = cl_counterparties c" "cl_categories c' = cl_categories c" and version: "1 \<le> gt_version row"
    and subject: "cg_subject_type v = ''USER'' \<or> cg_subject_type v = ''ORG''" and entry: "managed_catalog_entry f kind i c = Inr ()"
    and key: "grant_key (sf_tenant f) kind i (cg_subject_type v) (cg_subject v) row" and le: "db_seq d \<le> db_seq d'"
    by (rule save_grant_ok [OF run])
  have ok: "grant_ok c' = grant_ok c" by (simp add: grant_ok_def same fun_eq_iff)
  have "grant_ok c row"
    using version subject managed_entry_known [OF entry] key by (auto simp: grant_ok_def grant_key_def)
  then have "list_all (grant_ok c) (cl_grants c')"
    unfolding rows by (rule gorm_save_all [rotated]) (use inv in \<open>auto simp: catalog_inv_def catalog_ok_def\<close>)
  moreover have "distinct (map grant_key_of (cl_grants c'))"
    unfolding rows by (subst gorm_save_keys [OF same_keys(3)])
      (use inv in \<open>auto simp: catalog_inv_def catalog_ok_def list_ex_iff\<close>)
  ultimately show ?thesis
    using inv ids_issued_mono [OF _ le] by (simp add: catalog_inv_def catalog_ok_def same ok)
qed

interpretation catalogue: guarded_update "catalog_run e" "catalog_inv e" for e
proof
  fix s op t
  assume "catalog_inv e s" and "catalog_run e op s = Inr t"
  then show "catalog_inv e t"
    by (cases s; cases t; cases op)
      (auto simp: res_bind_eq_ok intro: counterparty_inv category_inv grant_inv)
qed

definition empty_catalog :: catalog where
  "empty_catalog = \<lparr>cl_counterparties = [], cl_categories = [], cl_grants = []\<rparr>"

text \<open>C28: from an empty catalogue, any sequence of saves, each of them applied or rolled back, leaves a catalogue in which
  primary keys and the codes of a tenant's categories are unique, every entry has a tenant and a version from one on,
  and every grant goes to a user or an organisation and to an entry of its tenant that exists.\<close>

theorem catalogue_well_formed:
  assumes "inj (env_ulid e)"
  shows "catalog_ok (fst (commits (catalog_run e) ops (empty_catalog, d)))"
proof -
  have "catalog_inv e (empty_catalog, d)"
    using assms by (simp add: catalog_inv_def catalog_ok_def ids_issued_def empty_catalog_def)
  from catalogue.commits_inv [OF this, of ops] show ?thesis by (simp add: catalog_inv_def)
qed

section \<open>Who may refer to an entry\<close>


section \<open>Creating a category whose code is taken\<close>

lemma gorm_save_clash:
  assumes "x \<in> set rows" and "clash r x" and "\<not> list_ex (same r) rows"
  shows "onto r x \<in> set (gorm_save same clash onto r rows)"
  using assms by (auto simp: gorm_save_def update_rows_def list_ex_iff)

text \<open>creating a category does not fail when the tenant already has one with the same code. The insert that follows
  the update without effect overwrites the existing entry: under its old identifier it has the new name and owner and
  starts again at version one, whatever its version was. No entry has the identifier that the caller gets back.\<close>

theorem category_create_overwrites:
  assumes "catalog_inv e (c, d)" and "old \<in> set (cl_categories c)"
    and "en_tenant old = sf_tenant f" and "lg_code old = lcg_code v" and "lcg_id v = []"
    and "save_local_category e f v expected actor (c, d) = Inr (out, c', d')"
  shows "lcg_version out = 1 \<and> list_all (\<lambda>r. en_id r \<noteq> lcg_id out) (cl_categories c')
    \<and> (\<exists>r. r \<in> set (cl_categories c') \<and> entry_key r = entry_key old \<and> en_version r = 1
          \<and> lg_name r = lcg_name v \<and> en_owner_identity r = sf_identity f)"
proof -
  obtain row where rows: "cl_categories c' = gorm_save same_entry same_code keep_key row (cl_categories c)"
    and row: "lg_code row = lcg_code v" "out = local_category_value row" "en_tenant row = sf_tenant f" "lg_name row = lcg_name v"
    and how: "if lcg_id v = [] then created_category e f d row \<and> db_seq d < db_seq d'
      else revised_category c v expected row \<and> db_seq d \<le> db_seq d'"
    by (rule save_category_ok [OF assms(6)])
  from assms(1) have inj: "inj (env_ulid e)" and ids: "\<And>x. x \<in> set (cl_categories c) \<Longrightarrow> en_id x \<in> env_ulid e ` {..<db_seq d}"
    by (auto simp: catalog_inv_def ids_issued_def list_all_iff)
  have new: "en_id row = env_ulid e (db_seq d)" "en_version row = 1" "en_owner_identity row = sf_identity f"
    using how assms(5) by (simp_all add: created_category_def)
  have fresh: "en_id x \<noteq> en_id row" if "x \<in> set (cl_categories c)" for x
    using ids [OF that] new(1) inj by (auto simp: inj_eq)
  have "\<not> list_ex (same_entry row) (cl_categories c)" using fresh by (fastforce simp: list_ex_iff same_entry_def)
  moreover have clash: "same_code row old" using assms(3,4) row by (simp add: same_code_def)
  ultimately have "keep_key row old \<in> set (cl_categories c')" unfolding rows by (intro gorm_save_clash assms(2))
  moreover have "list_all (\<lambda>r. en_id r \<noteq> en_id row) (cl_categories c')"
    unfolding rows using \<open>\<not> list_ex (same_entry row) (cl_categories c)\<close> clash assms(2) fresh
    by (auto simp: gorm_save_def list_ex_iff list_all_iff update_rows_def keep_key_def)
  ultimately show ?thesis
    using row new by (auto simp: local_category_value_def intro!: exI [of _ "keep_key row old"]) (auto simp: keep_key_def)
qed

section \<open>Samples\<close>

definition manager_scope :: scope_filter where
  "manager_scope = \<lparr>sf_tenant = ''t1'', sf_identity = ''i9'', sf_orgs = [], sf_projects = [], sf_all = True, sf_self = False\<rparr>"

definition sample_category :: "string \<Rightarrow> local_category" where
  "sample_category name = \<lparr>lcg_id = [], lcg_tenant = [], lcg_code = ''A1'', lcg_name = name, lcg_enabled = True, lcg_version = 0,
     lcg_owner_identity = [], lcg_owner_org = [], lcg_created_by = [], lcg_updated_at = 0\<rparr>"

definition sample_catalog :: catalog where
  "sample_catalog = empty_catalog\<lparr>
     cl_counterparties := [\<lparr>en_tenant = ''t1'', en_id = ''p1'', en_enabled = True, en_version = 3, en_owner_identity = ''i9'',
       en_owner_org = [], en_owner_project = [], en_created_by = ''u9'', en_updated_at = 0, pa_name = ''party''\<rparr>],
     cl_categories := [\<lparr>en_tenant = ''t1'', en_id = sample_ulid 0, en_enabled = True, en_version = 4, en_owner_identity = ''i9'',
       en_owner_org = [], en_owner_project = [], en_created_by = ''u9'', en_updated_at = 0, lg_code = ''A1'', lg_name = ''old''\<rparr>],
     cl_grants := [\<lparr>gt_tenant = ''t1'', gt_kind = ''counterparties'', gt_entry = ''p1'', gt_subject_type = ''USER'',
       gt_subject = ''i1'', gt_subject_name = ''Ann'', gt_enabled = True, gt_version = 1, gt_updated_by = ''u9'', gt_updated_at = 0\<rparr>]\<rparr>"

definition no_directory :: contract_source_options where
  "no_directory = \<lparr>so_counterparty = ''local'', so_category = ''local'', so_catalog = True, so_targets = None,
     so_project_integration = False, so_settlement_integration = False, so_crm_link = False\<rparr>"

definition clerk :: principal where
  "clerk = seller\<lparr>pr_permissions := (\<lambda>x. x = ''contract.create'')\<rparr>"

lemma sample_env_ids_distinct: "inj (env_ulid sample_db_env)"
  using sample_ids_fresh by (simp add: queue_fresh_def)

lemma sample_catalog_inv: "catalog_inv sample_db_env (sample_catalog, (sample_db [])\<lparr>db_seq := 1\<rparr>)"
  using sample_env_ids_distinct
  by (simp add: catalog_inv_def catalog_ok_def sample_catalog_def empty_catalog_def entry_ok_def grant_ok_def entry_key_def
      ids_issued_def sample_db_env_def)

theorem catalogue_well_formed_witness:
  "catalog_ok (fst (commits (catalog_run sample_db_env)
     [SaveCategory manager_scope (sample_category ''new'') 0 ''u9''] (empty_catalog, sample_db [])))"
  by (rule catalogue_well_formed [OF sample_env_ids_distinct])


theorem category_create_overwrites_witness:
  "\<exists>out c' d'. save_local_category sample_db_env manager_scope (sample_category ''new'') 0 ''u9''
       (sample_catalog, (sample_db [])\<lparr>db_seq := 1\<rparr>) = Inr (out, c', d')
     \<and> list_all (\<lambda>r. en_id r \<noteq> lcg_id out) (cl_categories c')"
proof -
  let ?d = "(sample_db [])\<lparr>db_seq := 1\<rparr>"
  obtain out c' d' where run: "save_local_category sample_db_env manager_scope (sample_category ''new'') 0 ''u9''
       (sample_catalog, ?d) = Inr (out, c', d')"
    by (simp add: save_local_category_def sample_category_def manager_scope_def new_local_catalog_owner_def catalog_audit_def
        insert_audit_def insert_row_def new_id_def read_clock_def sample_db_def Let_def)
  have "\<exists>old. old \<in> set (cl_categories sample_catalog) \<and> en_tenant old = sf_tenant manager_scope
      \<and> lg_code old = lcg_code (sample_category ''new'')"
    by (simp add: sample_catalog_def manager_scope_def sample_category_def)
  then obtain old where "old \<in> set (cl_categories sample_catalog)" "en_tenant old = sf_tenant manager_scope"
    "lg_code old = lcg_code (sample_category ''new'')" by blast
  from category_create_overwrites [OF sample_catalog_inv this _ run] run show ?thesis
    by (auto simp: sample_category_def)
qed

end
