(* ===== verification/Templates.thy ===== *)
theory Templates
  imports Service
begin

text \<open>
  Contract templates: the use cases of \<^verbatim>\<open>application/templates.go\<close>, the table of \<^verbatim>\<open>mysql/templates.go\<close>, and the
  lifecycle of the source files at the platform's file gateway (\<^verbatim>\<open>mysql/template_file_lifecycle.go\<close> and
  \<^verbatim>\<open>application/template_file_dispatcher.go\<close>). A source generation is a row of its own; replacing or deleting a
  template retires it. The document functions of \<^verbatim>\<open>internal/docx\<close> and the gateway are parameters.
\<close>

section \<open>Rows\<close>

record template_field =
  fl_name :: string
  fl_label :: string
  fl_default :: string
  fl_locked :: bool

record template =
  tp_id :: string
  tp_tenant :: string
  tp_name :: string
  tp_filename :: string
  tp_number_format :: string
  tp_fields :: "template_field list"
  tp_content :: string
  tp_platform_file :: string
  tp_gateway_state :: string
  tp_version :: nat
  tp_created_at :: instant
  tp_created_by :: string

record template_row =
  te_id :: string
  te_tenant :: string
  te_name :: string
  te_filename :: string
  te_number_format :: string
  te_fields :: "template_field list"
  te_document :: string
  te_platform_file :: string
  te_gateway_state :: string
  te_gateway_error :: string
  te_source :: string
  te_version :: nat
  te_created_at :: instant
  te_created_by :: string

datatype file_status = FilePending | FileDelivered | FileRejected

record file_row =
  fo_id :: string
  fo_tenant :: string
  fo_template :: string
  fo_file :: string
  fo_filename :: string
  fo_resource_type :: string
  fo_resource :: string
  fo_document :: string
  fo_retired :: bool
  fo_status :: file_status
  fo_attempts :: nat
  fo_upload_attempt :: nat
  fo_failures :: "(nat \<times> string) list"
  fo_next_at :: instant
  fo_last_error :: string
  fo_created_at :: instant

record template_store =
  ts_templates :: "template_row list"
  ts_files :: "file_row list"

definition template_from_record :: "template_row \<Rightarrow> template" where
  "template_from_record r =
     \<lparr>tp_id = te_id r, tp_tenant = te_tenant r, tp_name = te_name r, tp_filename = te_filename r,
      tp_number_format = te_number_format r, tp_fields = te_fields r, tp_content = te_document r,
      tp_platform_file = te_platform_file r, tp_gateway_state = te_gateway_state r, tp_version = te_version r,
      tp_created_at = te_created_at r, tp_created_by = te_created_by r\<rparr>"

section \<open>The tables\<close>

type_synonym template_tables = "template_store \<times> db"

definition insert_template_audit :: "env \<Rightarrow> string \<Rightarrow> string \<Rightarrow> string \<Rightarrow> string \<Rightarrow> db \<Rightarrow> db result" where
  "insert_template_audit e tenant i name action =
     insert_audit e tenant
       \<lparr>ae_actor = (if ac_actor_id (env_meta e) = [] then ''SYSTEM'' else ac_actor_id (env_meta e)), ae_action = action,
        ae_resource_type = ''contract_template'', ae_resource_id = i, ae_request = ac_request_id (env_meta e),
        ae_login_ip = ac_login_ip (env_meta e), ae_client_ip = ac_client_ip (env_meta e),
        ae_ip_source = ac_ip_source (env_meta e), ae_result = [],
        ae_payload = [(''name'', AvStr name), (''template_id'', AvStr i)]\<rparr>"

definition template_at :: "string \<Rightarrow> string \<Rightarrow> template_row \<Rightarrow> bool" where
  "template_at tenant i r \<longleftrightarrow> te_tenant r = tenant \<and> te_id r = i"

definition new_file_row :: "string \<Rightarrow> template \<Rightarrow> instant \<Rightarrow> file_row" where
  "new_file_row i t now =
     \<lparr>fo_id = i, fo_tenant = tp_tenant t, fo_template = tp_id t, fo_file = [], fo_filename = tp_filename t,
      fo_resource_type = ''contract_template_source'', fo_resource = i, fo_document = tp_content t, fo_retired = False,
      fo_status = FilePending, fo_attempts = 0, fo_upload_attempt = 0, fo_failures = [], fo_next_at = now,
      fo_last_error = [], fo_created_at = now\<rparr>"

definition same_file :: "file_row \<Rightarrow> file_row \<Rightarrow> bool" where
  "same_file a b \<longleftrightarrow> fo_id a = fo_id b"

definition enqueue_template_source :: "env \<Rightarrow> template \<Rightarrow> template_tables \<Rightarrow> (string \<times> template_tables) result" where
  "enqueue_template_source e t s =
     (let (st, d) = s; (i, d1) = new_id e d; (now, d2) = read_clock e d1 in
      res_bind (insert_row same_file (new_file_row i t now) (ts_files st)) (\<lambda>files.
        ok (i, st\<lparr>ts_files := files\<rparr>, d2)))"

definition err_template :: "string \<Rightarrow> app_error" where "err_template m = ErrStorage m"

definition source_at :: "string \<Rightarrow> string \<Rightarrow> file_row \<Rightarrow> bool" where
  "source_at tenant i f \<longleftrightarrow> fo_tenant f = tenant \<and> fo_id f = i"

definition retire_template_source :: "env \<Rightarrow> template_row \<Rightarrow> template_tables \<Rightarrow> template_tables result" where
  "retire_template_source e current s =
     (let (st, d) = s in
      if te_source current \<noteq> [] then
        let (now, d1) = read_clock e d; hit = source_at (te_tenant current) (te_source current) in
        if rows_affected hit (ts_files st) \<noteq> 1 then fail (err_template ''template source lifecycle record is missing'')
        else ok (st\<lparr>ts_files := update_rows hit
               (\<lambda>f. f\<lparr>fo_retired := True, fo_status := FilePending, fo_next_at := now\<rparr>) (ts_files st)\<rparr>, d1)
      else if te_platform_file current = [] then ok s
      else
        let (now, d1) = read_clock e d; (i, d2) = new_id e d1;
            row = (new_file_row i (template_from_record current) now)\<lparr>fo_file := te_platform_file current,
                    fo_resource_type := ''contract_template'', fo_resource := te_id current, fo_retired := True\<rparr> in
        res_bind (insert_row same_file row (ts_files st)) (\<lambda>files. ok (st\<lparr>ts_files := files\<rparr>, d2)))"

definition same_template :: "template_row \<Rightarrow> template_row \<Rightarrow> bool" where
  "same_template a b \<longleftrightarrow> te_id a = te_id b"

definition create_template :: "env \<Rightarrow> template \<Rightarrow> template_tables \<Rightarrow> template_tables result" where
  "create_template e t s0 =
     (let (st0, d0) = s0; (now, d1) = read_clock e d0 in
      res_bind (if tp_gateway_state t = ''PENDING'' \<and> tp_platform_file t = [] then enqueue_template_source e t (st0, d1)
                else ok ([], st0, d1)) (\<lambda>(source, st, d2).
        let row = \<lparr>te_id = tp_id t, te_tenant = tp_tenant t, te_name = tp_name t, te_filename = tp_filename t,
                   te_number_format = tp_number_format t, te_fields = tp_fields t, te_document = tp_content t,
                   te_platform_file = tp_platform_file t, te_gateway_state = tp_gateway_state t, te_gateway_error = [],
                   te_source = source, te_version = 1, te_created_at = now, te_created_by = tp_created_by t\<rparr> in
        res_bind (insert_row same_template row (ts_templates st)) (\<lambda>rows.
        res_bind (insert_template_audit e (tp_tenant t) (tp_id t) (tp_name t) ''CONTRACT_MANAGEMENT:TEMPLATE_CREATED'' d2)
          (\<lambda>d3. ok (st\<lparr>ts_templates := rows\<rparr>, d3)))))"

definition create_template_with_file :: "env \<Rightarrow> template \<Rightarrow> template_tables \<Rightarrow> template_tables result" where
  "create_template_with_file e t = create_template e (t\<lparr>tp_platform_file := [], tp_gateway_state := ''PENDING''\<rparr>)"

definition list_templates :: "string \<Rightarrow> template_store \<Rightarrow> template list" where
  "list_templates tenant st =
     map (\<lambda>r. (template_from_record r)\<lparr>tp_content := [], tp_platform_file := [], tp_gateway_state := []\<rparr>)
       (sort_key (\<lambda>r. - te_created_at r) (filter (\<lambda>r. te_tenant r = tenant) (ts_templates st)))"

definition get_template :: "string \<Rightarrow> string \<Rightarrow> template_store \<Rightarrow> template result" where
  "get_template tenant i st =
     (case first_row (template_at tenant i) (ts_templates st) of
        None \<Rightarrow> fail ErrNotFound | Some r \<Rightarrow> ok (template_from_record r))"

definition template_version_at :: "template \<Rightarrow> template_row \<Rightarrow> bool" where
  "template_version_at t r \<longleftrightarrow> template_at (tp_tenant t) (tp_id t) r \<and> te_version r = tp_version t"

definition update_template :: "env \<Rightarrow> template \<Rightarrow> template_tables \<Rightarrow> template_tables result" where
  "update_template e t s =
     (let (st, d) = s in
      if rows_affected (template_version_at t) (ts_templates st) \<noteq> 1 then fail ErrVersionConflict
      else res_bind (insert_template_audit e (tp_tenant t) (tp_id t) (tp_name t) ''CONTRACT_MANAGEMENT:TEMPLATE_UPDATED'' d)
        (\<lambda>d1. ok (st\<lparr>ts_templates := update_rows (template_version_at t)
             (\<lambda>r. r\<lparr>te_name := tp_name t, te_number_format := tp_number_format t, te_fields := tp_fields t,
                    te_version := te_version r + 1\<rparr>) (ts_templates st)\<rparr>, d1)))"

definition update_template_source :: "env \<Rightarrow> template \<Rightarrow> template_tables \<Rightarrow> template_tables result" where
  "update_template_source e t s =
     (case first_row (template_at (tp_tenant t) (tp_id t)) (ts_templates (fst s)) of
        None \<Rightarrow> fail ErrVersionConflict
      | Some current \<Rightarrow>
          if te_version current \<noteq> tp_version t then fail ErrVersionConflict
          else res_bind (retire_template_source e current s) (\<lambda>s1.
            res_bind (if tp_gateway_state t = ''PENDING'' \<and> tp_platform_file t = [] then enqueue_template_source e t s1
                      else ok ([], s1)) (\<lambda>(source, st, d2).
              if rows_affected (template_version_at t) (ts_templates st) \<noteq> 1 then fail ErrVersionConflict
              else res_bind (insert_template_audit e (tp_tenant t) (tp_id t) (tp_name t)
                  ''CONTRACT_MANAGEMENT:TEMPLATE_SOURCE_REPLACED'' d2) (\<lambda>d3.
                ok (st\<lparr>ts_templates := update_rows (template_version_at t)
                  (\<lambda>r. r\<lparr>te_filename := tp_filename t, te_document := tp_content t, te_fields := tp_fields t,
                         te_platform_file := tp_platform_file t, te_gateway_state := tp_gateway_state t,
                         te_gateway_error := [], te_source := source, te_version := te_version r + 1\<rparr>)
                  (ts_templates st)\<rparr>, d3)))))"

definition update_template_source_with_file :: "env \<Rightarrow> template \<Rightarrow> template_tables \<Rightarrow> template_tables result" where
  "update_template_source_with_file e t = update_template_source e (t\<lparr>tp_platform_file := [], tp_gateway_state := ''PENDING''\<rparr>)"

definition delete_template :: "env \<Rightarrow> string \<Rightarrow> string \<Rightarrow> template_tables \<Rightarrow> template_tables result" where
  "delete_template e tenant i s =
     (case first_row (template_at tenant i) (ts_templates (fst s)) of
        None \<Rightarrow> fail ErrNotFound
      | Some current \<Rightarrow>
          res_bind (retire_template_source e current s) (\<lambda>(st, d1).
          res_bind (insert_template_audit e tenant i (te_name current) ''CONTRACT_MANAGEMENT:TEMPLATE_DELETED'' d1)
            (\<lambda>d2. ok (st\<lparr>ts_templates := filter (\<lambda>r. \<not> template_at tenant i r) (ts_templates st)\<rparr>, d2))))"

definition queue_template_file_backfill :: "env \<Rightarrow> string \<Rightarrow> string \<Rightarrow> template_tables \<Rightarrow> template_tables result" where
  "queue_template_file_backfill e tenant i s =
     (case first_row (template_at tenant i) (ts_templates (fst s)) of
        None \<Rightarrow> fail (err_template ''record not found'')
      | Some current \<Rightarrow>
          if te_source current \<noteq> [] then ok s
          else res_bind (enqueue_template_source e (template_from_record current) s) (\<lambda>(source, st, d1).
            let files = (if te_platform_file current = [] then ts_files st
                         else update_rows (\<lambda>f. fo_id f = source)
                           (\<lambda>f. f\<lparr>fo_file := te_platform_file current, fo_resource_type := ''contract_template'',
                                  fo_resource := te_id current\<rparr>) (ts_files st))
            in ok (st\<lparr>ts_files := files, ts_templates := update_rows (template_at tenant i)
                  (\<lambda>r. r\<lparr>te_source := source, te_gateway_state := ''PENDING''\<rparr>) (ts_templates st)\<rparr>, d1)))"

section \<open>Delivery to the file gateway\<close>

text \<open>The upload status the gateway reports is a string; the calls are recorded in the order they are made.\<close>

datatype delivery_error = UploadPending | UploadFailed | UploadRejected | DeliveryError string

datatype gateway_call =
    CallRetire string | CallResolve string | CallRelease string string string
  | CallUpload string string string | CallBind string string string string

record template_gateway =
  tw_retire :: "string \<Rightarrow> string + string"
  tw_resolve :: "string \<Rightarrow> string + (string \<times> string)"
  tw_release :: "string \<Rightarrow> string \<Rightarrow> string \<Rightarrow> string option"
  tw_upload :: "string \<Rightarrow> string \<Rightarrow> string \<Rightarrow> string + string"
  tw_bind :: "string \<Rightarrow> string \<Rightarrow> string \<Rightarrow> string \<Rightarrow> string option"

type_synonym delivery_outcome = "string \<times> delivery_error option \<times> gateway_call list"

definition template_upload_request_id :: "file_row \<Rightarrow> string" where
  "template_upload_request_id f =
     ''contract-template-source-'' @ fo_id f @ (if fo_upload_attempt f > 0 then ''-'' @ nat_str (fo_upload_attempt f) else [])"

definition call_error :: "string option \<Rightarrow> delivery_error option" where
  "call_error r = map_option DeliveryError r"

definition release_source :: "template_gateway \<Rightarrow> file_row \<Rightarrow> string \<Rightarrow> delivery_outcome" where
  "release_source gw f file =
     (file, call_error (tw_release gw file (fo_resource_type f) (fo_resource f)),
      [CallRelease file (fo_resource_type f) (fo_resource f)])"

definition retire_upload :: "template_gateway \<Rightarrow> file_row \<Rightarrow> delivery_outcome" where
  "retire_upload gw f =
     (let q = template_upload_request_id f; file = fo_file f in
      case tw_retire gw q of
        Inl m \<Rightarrow> (file, Some (DeliveryError m), [CallRetire q])
      | Inr resolved \<Rightarrow>
          if file \<noteq> [] \<and> resolved \<noteq> [] \<and> file \<noteq> resolved
          then (file, Some (DeliveryError ''retired template upload file identity changed''), [CallRetire q])
          else let file' = (if resolved \<noteq> [] then resolved else file) in
            if file' = [] then ([], None, [CallRetire q])
            else (let (i, err, calls) = release_source gw f file' in (i, err, CallRetire q # calls)))"

definition upload_and_bind :: "(nat \<Rightarrow> bool) \<Rightarrow> template_gateway \<Rightarrow> file_row \<Rightarrow> string \<Rightarrow> delivery_outcome" where
  "upload_and_bind license gw f file0 =
     (if \<not> license 0 then (file0, Some (DeliveryError ''license''), [])
      else
        let q = template_upload_request_id f;
            (up, calls) = (if file0 \<noteq> [] then (Inr file0, [])
                           else (tw_upload gw q (fo_filename f) (fo_document f), [CallUpload q (fo_filename f) (fo_document f)])) in
        case up of
          Inl m \<Rightarrow> ([], Some (DeliveryError m), calls)
        | Inr file \<Rightarrow>
            if \<not> license 1 then (file, Some (DeliveryError ''license''), calls)
            else (file, call_error (tw_bind gw file (fo_resource_type f) (fo_resource f) (fo_filename f)),
                  calls @ [CallBind file (fo_resource_type f) (fo_resource f) (fo_filename f)]))"

definition resolve_upload :: "(nat \<Rightarrow> bool) \<Rightarrow> template_gateway \<Rightarrow> file_row \<Rightarrow> delivery_outcome" where
  "resolve_upload license gw f =
     (let q = template_upload_request_id f; file = fo_file f in
      case tw_resolve gw q of
        Inl m \<Rightarrow> (file, Some (DeliveryError m), [CallResolve q])
      | Inr (resolved, status) \<Rightarrow>
          if file \<noteq> [] \<and> resolved \<noteq> [] \<and> file \<noteq> resolved
          then (file, Some (DeliveryError ''resolved template upload file identity changed''), [CallResolve q])
          else if status = ''NOT_FOUND'' \<and> file \<noteq> []
          then (file, Some (DeliveryError ''known template upload request is missing''), [CallResolve q])
          else if status = ''WRITING'' then (resolved, Some UploadPending, [CallResolve q])
          else if status = ''CANCELLED'' then (file, Some UploadRejected, [CallResolve q])
          else let file' = (if status \<noteq> ''NOT_FOUND'' then resolved else file) in
            if status = ''FAILED'' \<or> status = ''REJECTED'' then
              (let (i, err, calls) = release_source gw f file' in
               (i, (case err of Some x \<Rightarrow> Some x
                    | None \<Rightarrow> Some (if status = ''FAILED'' then UploadFailed else UploadRejected)), CallResolve q # calls))
            else (let (i, err, calls) = upload_and_bind license gw f file' in (i, err, CallResolve q # calls)))"

definition deliver_template_file :: "(nat \<Rightarrow> bool) \<Rightarrow> template_gateway \<Rightarrow> string \<Rightarrow> file_row \<Rightarrow> delivery_outcome" where
  "deliver_template_file license gw tenant f =
     (if fo_tenant f \<noteq> tenant then (fo_file f, Some (DeliveryError ''forbidden''), [])
      else if fo_resource_type f = ''contract_template_source''
      then if fo_retired f then retire_upload gw f else resolve_upload license gw f
      else if fo_retired f then release_source gw f (fo_file f)
      else upload_and_bind license gw f (fo_file f))"

definition due_file :: "string \<Rightarrow> instant \<Rightarrow> file_row \<Rightarrow> bool" where
  "due_file tenant now f \<longleftrightarrow> fo_tenant f = tenant \<and> fo_status f = FilePending \<and> fo_next_at f \<le> now"

definition next_file :: "string \<Rightarrow> instant \<Rightarrow> file_row list \<Rightarrow> file_row option" where
  "next_file tenant now files =
     (case sort_key (\<lambda>f. if fo_retired f then 0 else 1 :: nat) (sort_key fo_next_at (sort_key fo_created_at (sort_key fo_id
             (filter (due_file tenant now) files)))) of [] \<Rightarrow> None | f # _ \<Rightarrow> Some f)"

definition file_delay :: "nat \<Rightarrow> int" where
  "file_delay attempts = second_ns * 2 ^ min attempts 9"

definition settled_file :: "string \<Rightarrow> file_row \<Rightarrow> file_row" where
  "settled_file file f =
     f\<lparr>fo_file := (if file \<noteq> [] then file else fo_file f), fo_status := FileDelivered, fo_attempts := fo_attempts f + 1,
       fo_last_error := []\<rparr>"

definition failed_file :: "delivery_error \<Rightarrow> string \<Rightarrow> instant \<Rightarrow> file_row \<Rightarrow> file_row" where
  "failed_file err file now f =
     (let g = f\<lparr>fo_file := (if file \<noteq> [] then file else fo_file f), fo_status := FilePending, fo_attempts := fo_attempts f + 1,
                fo_next_at := now + file_delay (fo_attempts f), fo_last_error := ''GATEWAY_DELIVERY_FAILED''\<rparr>;
          h = (if err = UploadFailed \<and> \<not> fo_retired f
               then g\<lparr>fo_file := [], fo_upload_attempt := fo_upload_attempt f + 1,
                      fo_failures := fo_failures f @ [(fo_upload_attempt f, file)], fo_last_error := ''UPLOAD_ATTEMPT_FAILED''\<rparr>
               else g)
      in if err = UploadRejected then h\<lparr>fo_status := FileRejected, fo_last_error := ''UPLOAD_CONTENT_REJECTED''\<rparr> else h)"

definition template_file_result :: "delivery_error option \<Rightarrow> file_row \<Rightarrow> string \<Rightarrow> file_row \<Rightarrow> template_row \<Rightarrow> template_row" where
  "template_file_result err f file g t =
     t\<lparr>te_platform_file := (if err = Some UploadFailed then [] else file),
       te_gateway_state := (if err = None then ''READY'' else ''FAILED''), te_gateway_error := fo_last_error g\<rparr>"

text \<open>
  The outcome says whether a file was found, the error of the transaction or of the delivery, and the calls made. A
  delivery that failed is still committed.
\<close>

datatype process_error = StoreError app_error | GatewayError delivery_error

definition process_template_file ::
  "env \<Rightarrow> (nat \<Rightarrow> bool) \<Rightarrow> template_gateway \<Rightarrow> string \<Rightarrow> template_tables \<Rightarrow>
     (bool \<times> process_error option \<times> gateway_call list) \<times> template_tables" where
  "process_template_file e license gw tenant s =
     (if tenant = [] then ((False, Some (StoreError ErrForbidden), []), s)
      else
        let (st, d) = s; (now, d1) = read_clock e d in
        case next_file tenant now (ts_files st) of
          None \<Rightarrow> ((False, None, []), (st, d1))
        | Some f \<Rightarrow>
            let (now2, d2) = read_clock e d1;
                source = (case first_row (template_at (fo_tenant f) (fo_template f)) (ts_templates st) of
                            None \<Rightarrow> [] | Some t \<Rightarrow> te_source t) in
            if now2 < fo_next_at f then ((True, None, []), (st, d2))
            else if \<not> fo_retired f \<and> source \<noteq> fo_id f then ((True, Some (StoreError ErrVersionConflict), []), (st, d2))
            else
              let (file, err, calls) = deliver_template_file license gw tenant f;
                  (now3, d3) = (if err = None then (now2, d2) else read_clock e d2);
                  g = (case err of None \<Rightarrow> settled_file file f | Some x \<Rightarrow> failed_file x file now3 f);
                  files = update_rows (\<lambda>x. fo_id x = fo_id f) (\<lambda>_. g) (ts_files st);
                  templates = (if fo_retired f then ts_templates st
                    else update_rows (\<lambda>t. template_at (fo_tenant f) (fo_template f) t \<and> te_source t = fo_id f)
                           (template_file_result err f file g) (ts_templates st))
              in ((True, map_option GatewayError err, calls), (\<lparr>ts_templates = templates, ts_files = files\<rparr>, d3)))"

text \<open>One round of the worker: at most twenty files, until there is none left or one fails.\<close>

fun template_file_round ::
  "nat \<Rightarrow> env \<Rightarrow> (nat \<Rightarrow> bool) \<Rightarrow> template_gateway \<Rightarrow> string \<Rightarrow> template_tables \<Rightarrow> template_tables" where
  "template_file_round 0 e license gw tenant s = s"
| "template_file_round (Suc n) e license gw tenant s =
     (case process_template_file e license gw tenant s of
        ((found, err, calls), s') \<Rightarrow>
          if err \<noteq> None \<or> \<not> found then s' else template_file_round n e license gw tenant s')"

section \<open>Template values\<close>

definition system_number_pending :: string where
  "system_number_pending = map char_of [0xE3, 0x80, 0x90, 0xE7, 0xB3, 0xBB, 0xE7, 0xBB, 0x9F, 0xE5, 0x90, 0x88, 0xE5, 0x90, 0x8C, 0xE7, 0xBC, 0x96, 0xE5, 0x8F, 0xB7, 0xEF, 0xBC, 0x9A, 0xE5, 0xAE, 0xA1, 0xE6, 0x89, 0xB9, 0xE9, 0x80, 0x9A, 0xE8, 0xBF, 0x87, 0xE5, 0x90, 0x8E, 0xE7, 0x94, 0x9F, 0xE6, 0x88, 0x90, 0xE3, 0x80, 0x91 :: nat]"

definition amount_label :: string where
  "amount_label = map char_of [0xE5, 0x90, 0x88, 0xE5, 0x90, 0x8C, 0xE9, 0x87, 0x91, 0xE9, 0xA2, 0x9D :: nat]"

fun contains :: "string \<Rightarrow> string \<Rightarrow> bool" where
  "contains p [] = (p = [])"
| "contains p (c # s) \<longleftrightarrow> is_prefix p (c # s) \<or> contains p s"

definition number_field :: "string \<Rightarrow> bool" where
  "number_field name \<longleftrightarrow> name = number_label \<or> name = system_number_label"

definition field_value :: "bool \<Rightarrow> (string \<rightharpoonup> string) \<Rightarrow> template_field \<Rightarrow> string result" where
  "field_value admin values f =
     (if number_field (fl_name f) then ok system_number_pending
      else
        let supplied = values (fl_name f) in
        if contains system_number_pending (value_or_empty supplied) \<or> contains system_number_pending (fl_default f)
        then fail ErrValidation
        else if fl_locked f \<and> \<not> admin
        then if supplied \<noteq> None \<and> supplied \<noteq> Some (fl_default f) then fail ErrValidation else ok (fl_default f)
        else
          let value = (case supplied of None \<Rightarrow> fl_default f | Some v \<Rightarrow> v) in
          if contains system_number_pending value then fail ErrValidation
          else if trim_space value = [] \<and> fl_default f = [] then fail ErrValidation
          else if 2000 < rune_count value then fail ErrValidation
          else ok value)"

fun normalize_fields :: "bool \<Rightarrow> (string \<rightharpoonup> string) \<Rightarrow> template_field list \<Rightarrow> (string \<rightharpoonup> string) \<Rightarrow> (string \<rightharpoonup> string) result" where
  "normalize_fields admin values [] acc = ok acc"
| "normalize_fields admin values (f # fs) acc =
     res_bind (field_value admin values f) (\<lambda>v. normalize_fields admin values fs (acc(fl_name f \<mapsto> v)))"

definition normalize_template_values :: "template_field list \<Rightarrow> (string \<rightharpoonup> string) \<Rightarrow> bool \<Rightarrow> (string \<rightharpoonup> string) result" where
  "normalize_template_values fs0 values admin =
     res_bind (normalize_fields admin values fs0 Map.empty) (\<lambda>normalized.
       if dom values \<subseteq> set (map fl_name fs0) then ok normalized else fail ErrValidation)"

section \<open>Use cases\<close>

text \<open>
  \<open>de_fields\<close>, \<open>de_render\<close> and \<open>de_preview\<close> are \<^verbatim>\<open>docx.Fields\<close>, \<^verbatim>\<open>docx.Render\<close> and
  \<^verbatim>\<open>docx.PreviewHTML\<close>; \<open>None\<close> is their error.
\<close>

record doc_engine =
  de_fields :: "string \<Rightarrow> template_field list option"
  de_render :: "string \<Rightarrow> (string \<rightharpoonup> string) \<Rightarrow> string option"
  de_preview :: "string \<Rightarrow> string option"

text \<open>\<^verbatim>\<open>filepath.Base\<close> and \<^verbatim>\<open>filepath.Ext\<close>.\<close>

definition slash :: char where "slash = CHR 0x2F"

definition path_base :: "string \<Rightarrow> string" where
  "path_base p =
     (if p = [] then ''.''
      else let q = rev (dropWhile (\<lambda>c. c = slash) (rev p))
           in if q = [] then [slash] else rev (takeWhile (\<lambda>c. c \<noteq> slash) (rev q)))"

definition path_ext :: "string \<Rightarrow> string" where
  "path_ext p =
     (let r = takeWhile (\<lambda>c. c \<noteq> slash) (rev p)
      in if CHR ''.'' \<in> set r then CHR ''.'' # rev (takeWhile (\<lambda>c. c \<noteq> CHR ''.'') r) else [])"

definition template_gateway_missing :: "service \<Rightarrow> bool" where
  "template_gateway_missing sv \<longleftrightarrow> file_mode sv ''required'' \<and> sv_gateway sv = None"

definition template_file_wired :: "service \<Rightarrow> bool" where
  "template_file_wired sv \<longleftrightarrow> sv_gateway sv \<noteq> None \<and> \<not> file_mode sv ''legacy''"

definition manage_templates :: "service \<Rightarrow> principal \<Rightarrow> unit result" where
  "manage_templates sv p =
     res_bind (check_business_license sv 0) (\<lambda>_.
       if \<not> has_permission_or_admin p ''contract.template.manage'' then fail ErrForbidden else ok ())"

definition create_template_for ::
  "service \<Rightarrow> doc_engine \<Rightarrow> env \<Rightarrow> principal \<Rightarrow> string \<Rightarrow> string \<Rightarrow> string \<Rightarrow> template_tables \<Rightarrow> (template \<times> template_tables) result" where
  "create_template_for sv de e p name0 filename0 content s =
     res_bind (manage_templates sv p) (\<lambda>_.
       let name = trim_space name0; filename = path_base (trim_space filename0) in
       if template_gateway_missing sv then fail (err_template ''required template file gateway is not configured'')
       else if name = [] \<or> 160 < rune_count name \<or> 255 < rune_count filename then fail ErrValidation
       else if filename = ''.'' \<or> \<not> equal_fold (path_ext filename) ''.docx'' then fail ErrValidation
       else case de_fields de content of
         None \<Rightarrow> fail ErrValidation
       | Some fs0 \<Rightarrow>
           let (st, d) = s; (i, d1) = new_id e d; (now, d2) = read_clock e d1;
               t0 = \<lparr>tp_id = i, tp_tenant = pr_tenant p, tp_name = name, tp_filename = filename,
                     tp_number_format = default_number_format, tp_fields = fs0, tp_content = content,
                     tp_platform_file = [], tp_gateway_state = [], tp_version = 1, tp_created_at = now,
                     tp_created_by = pr_user p\<rparr>;
               t = (if template_file_wired sv then t0\<lparr>tp_gateway_state := ''PENDING''\<rparr> else t0) in
           res_bind (check_business_license sv 1) (\<lambda>_.
           res_bind (if template_file_wired sv then create_template_with_file e t (st, d2) else create_template e t (st, d2))
             (\<lambda>s'. ok (t, s'))))"

definition list_templates_for :: "principal \<Rightarrow> template_store \<Rightarrow> template list result" where
  "list_templates_for p st =
     (if \<not> has p ''contract.create'' \<and> \<not> has_permission_or_admin p ''contract.template.manage'' then fail ErrForbidden
      else ok (list_templates (pr_tenant p) st))"

definition last_field :: "template_field list \<Rightarrow> string \<Rightarrow> template_field option" where
  "last_field fs0 name = List.find (\<lambda>f. fl_name f = name) (rev fs0)"

definition carried_field :: "template_field list \<Rightarrow> template_field \<Rightarrow> template_field" where
  "carried_field previous f =
     (let g = (case last_field previous (fl_name f) of None \<Rightarrow> f | Some old \<Rightarrow> old)
      in if number_field (fl_name f) then g\<lparr>fl_default := [], fl_locked := False\<rparr> else g)"

definition replace_template_source_for ::
  "service \<Rightarrow> doc_engine \<Rightarrow> env \<Rightarrow> principal \<Rightarrow> string \<Rightarrow> string \<Rightarrow> string \<Rightarrow> template_tables \<Rightarrow> (template \<times> template_tables) result" where
  "replace_template_source_for sv de e p i filename0 content s =
     res_bind (manage_templates sv p) (\<lambda>_.
       let filename = path_base (trim_space filename0) in
       if template_gateway_missing sv then fail (err_template ''required template file gateway is not configured'')
       else if \<not> equal_fold (path_ext filename) ''.docx'' \<or> 255 < rune_count filename then fail ErrValidation
       else case de_fields de content of
         None \<Rightarrow> fail ErrValidation
       | Some fs0 \<Rightarrow>
           res_bind (get_template (pr_tenant p) (trim_space i) (fst s)) (\<lambda>item.
             let t0 = item\<lparr>tp_fields := map (carried_field (tp_fields item)) fs0, tp_content := content,
                           tp_filename := filename, tp_platform_file := [], tp_gateway_state := []\<rparr>;
                 t = (if template_file_wired sv then t0\<lparr>tp_gateway_state := ''PENDING''\<rparr> else t0) in
             res_bind (check_business_license sv 1) (\<lambda>_.
             res_bind (if template_file_wired sv then update_template_source_with_file e t s else update_template_source e t s)
               (\<lambda>s'. ok (t\<lparr>tp_version := tp_version t + 1\<rparr>, s')))))"

definition number_format_pairs :: "(string \<times> string) list" where
  "number_format_pairs = [(''{YYYYMMDD}'', []), (''{YYYY}'', []), (''{MM}'', []), (''{DD}'', []), (''{ID8}'', [])]"

definition normalize_number_format :: "string \<Rightarrow> string result" where
  "normalize_number_format value0 =
     (let value = trim_space value0; remaining = replace_pairs number_format_pairs value in
      if value = [] \<or> 160 < rune_count value then fail ErrValidation
      else if \<not> contains ''{ID8}'' value then fail ErrValidation
      else if list_ex (\<lambda>c. c = CHR ''{'' \<or> c = CHR ''}'') remaining then fail ErrValidation
      else if \<not> list_all affix_allowed (go_runes remaining) then fail ErrValidation
      else ok value)"

definition trim_field :: "template_field \<Rightarrow> template_field" where
  "trim_field f = f\<lparr>fl_name := trim_space (fl_name f), fl_label := trim_space (fl_label f), fl_default := trim_space (fl_default f)\<rparr>"

fun configured_fields :: "template_field list \<Rightarrow> template_field list \<Rightarrow> template_field list result" where
  "configured_fields acc [] = ok acc"
| "configured_fields acc (f0 # fs) =
     (let f = trim_field f0 in
      if fl_name f = [] \<or> fl_label f = [] then fail ErrValidation
      else if 160 < rune_count (fl_name f) \<or> 160 < rune_count (fl_label f) \<or> 1000 < rune_count (fl_default f)
      then fail ErrValidation
      else if list_ex (\<lambda>g. fl_name g = fl_name f) acc then fail ErrValidation
      else if fl_locked f \<and> fl_default f = [] then fail ErrValidation
      else configured_fields (acc @ [f]) fs)"

fun pick_fields :: "template_field list \<Rightarrow> template_field list \<Rightarrow> template_field list result" where
  "pick_fields configured [] = ok []"
| "pick_fields configured (f # fs) =
     (case last_field configured (fl_name f) of
        None \<Rightarrow> fail ErrValidation
      | Some g \<Rightarrow> res_bind (pick_fields configured fs) (\<lambda>gs. ok (g # gs)))"

definition update_template_for ::
  "service \<Rightarrow> env \<Rightarrow> principal \<Rightarrow> string \<Rightarrow> string \<Rightarrow> string \<Rightarrow> template_field list \<Rightarrow> template_tables \<Rightarrow> (template \<times> template_tables) result" where
  "update_template_for sv e p i name0 format fs0 s =
     res_bind (manage_templates sv p) (\<lambda>_.
     res_bind (get_template (pr_tenant p) (trim_space i) (fst s)) (\<lambda>item.
       let name = trim_space name0 in
       if name = [] \<or> 160 < rune_count name then fail ErrValidation
       else res_bind (normalize_number_format format) (\<lambda>fmt.
         if length fs0 \<noteq> length (tp_fields item) then fail ErrValidation
         else res_bind (configured_fields [] fs0) (\<lambda>configured.
           res_bind (pick_fields configured (tp_fields item)) (\<lambda>updated.
             let t = item\<lparr>tp_name := name, tp_number_format := fmt, tp_fields := updated\<rparr> in
             res_bind (check_business_license sv 1) (\<lambda>_.
             res_bind (update_template e t s) (\<lambda>s'. ok (t\<lparr>tp_version := tp_version t + 1\<rparr>, s'))))))))"

definition delete_template_for :: "service \<Rightarrow> env \<Rightarrow> principal \<Rightarrow> string \<Rightarrow> template_tables \<Rightarrow> template_tables result" where
  "delete_template_for sv e p i s =
     res_bind (manage_templates sv p) (\<lambda>_.
     res_bind (check_business_license sv 1) (\<lambda>_. delete_template e (pr_tenant p) (trim_space i) s))"

text \<open>\<^verbatim>\<open>%d.%02d\<close> of the amount in cents.\<close>

definition amount_text :: "int \<Rightarrow> string" where
  "amount_text amount = int_str (go_quot amount 100) @ ''.'' @ fmt_pad_int 2 (go_rem amount 100)"

definition render_template_for_permission ::
  "doc_engine \<Rightarrow> principal \<Rightarrow> string \<Rightarrow> string \<Rightarrow> (string \<rightharpoonup> string) \<Rightarrow> int option \<Rightarrow> template_store \<Rightarrow>
     (string \<times> (string \<rightharpoonup> string)) result" where
  "render_template_for_permission de p permission i values amount st =
     (if \<not> has p permission \<or> trim_space i = [] then fail ErrForbidden
      else res_bind (get_template (pr_tenant p) i st) (\<lambda>item.
        let values' = (case amount of
              Some a \<Rightarrow> if list_ex (\<lambda>f. fl_name f = amount_label) (tp_fields item) then values(amount_label \<mapsto> amount_text a) else values
            | None \<Rightarrow> values) in
        res_bind (normalize_template_values (tp_fields item) values' (has_permission_or_admin p ''contract.template.manage''))
          (\<lambda>normalized. case de_render de (tp_content item) normalized of
             None \<Rightarrow> fail ErrValidation | Some doc \<Rightarrow> ok (doc, normalized))))"

definition preview_template ::
  "doc_engine \<Rightarrow> principal \<Rightarrow> string \<Rightarrow> (string \<rightharpoonup> string) \<Rightarrow> template_store \<Rightarrow> string result" where
  "preview_template de p i values st =
     res_bind (render_template_for_permission de p ''contract.create'' i values None st) (\<lambda>(doc, _).
       case de_preview de doc of None \<Rightarrow> fail ErrValidation | Some html \<Rightarrow> ok html)"


section \<open>The lifecycle of source files\<close>

definition live_source :: "template_row \<Rightarrow> file_row \<Rightarrow> bool" where
  "live_source t f \<longleftrightarrow> \<not> fo_retired f \<and> fo_id f = te_source t \<and> fo_tenant f = te_tenant t \<and> fo_template f = te_id t
     \<and> fo_document f = te_document t \<and> fo_filename f = te_filename t
     \<and> (te_gateway_state t = ''READY'' \<longleftrightarrow> fo_status f = FileDelivered)"

definition sources_ok :: "template_row set \<Rightarrow> file_row list \<Rightarrow> bool" where
  "sources_ok T F \<longleftrightarrow> inj_on te_id T \<and> distinct (map fo_id F) \<and> (\<forall>f \<in> set F. fo_id f \<noteq> [])
     \<and> (\<forall>t \<in> T. te_source t \<noteq> [] \<longrightarrow> (\<exists>f \<in> set F. live_source t f))
     \<and> (\<forall>f \<in> set F. \<not> fo_retired f \<longrightarrow> (\<exists>t \<in> T. live_source t f))"

definition template_inv :: "env \<Rightarrow> template_tables \<Rightarrow> bool" where
  "template_inv e s \<longleftrightarrow> (\<forall>k. env_ulid e k \<noteq> []) \<and> distinct (map te_id (ts_templates (fst s)))
     \<and> sources_ok (set (ts_templates (fst s))) (ts_files (fst s))"

inductive template_step :: "env \<Rightarrow> template_tables \<Rightarrow> template_tables \<Rightarrow> bool" for e where
  step_create: "create_template e t s = Inr s' \<Longrightarrow> template_step e s s'"
| step_update: "update_template e t s = Inr s' \<Longrightarrow> template_step e s s'"
| step_replace: "update_template_source e t s = Inr s' \<Longrightarrow> template_step e s s'"
| step_delete: "delete_template e tenant i s = Inr s' \<Longrightarrow> template_step e s s'"
| step_backfill: "queue_template_file_backfill e tenant i s = Inr s' \<Longrightarrow> template_step e s s'"
| step_process: "process_template_file e license gw tenant s = (out, s') \<Longrightarrow> template_step e s s'"

definition no_templates :: "env \<Rightarrow> template_tables \<Rightarrow> bool" where
  "no_templates e s \<longleftrightarrow> (\<forall>k. env_ulid e k \<noteq> []) \<and> ts_templates (fst s) = [] \<and> ts_files (fst s) = []"

lemma sources_okI:
  assumes "inj_on te_id T" and "distinct (map fo_id F)" and "\<And>f. f \<in> set F \<Longrightarrow> fo_id f \<noteq> []"
    and "\<And>t. t \<in> T \<Longrightarrow> te_source t \<noteq> [] \<Longrightarrow> \<exists>f \<in> set F. live_source t f"
    and "\<And>f. f \<in> set F \<Longrightarrow> \<not> fo_retired f \<Longrightarrow> \<exists>t \<in> T. live_source t f"
  shows "sources_ok T F"
  using assms unfolding sources_ok_def by blast

lemma sources_okD:
  assumes "sources_ok T F"
  shows "inj_on te_id T" "distinct (map fo_id F)" "f \<in> set F \<Longrightarrow> fo_id f \<noteq> []"
    and "t \<in> T \<Longrightarrow> te_source t \<noteq> [] \<Longrightarrow> \<exists>f \<in> set F. live_source t f"
    and "f \<in> set F \<Longrightarrow> \<not> fo_retired f \<Longrightarrow> \<exists>t \<in> T. live_source t f"
  using assms unfolding sources_ok_def by fast+

lemma live_sourceD:
  assumes "live_source t f"
  shows "fo_id f = te_source t" "fo_tenant f = te_tenant t" "fo_template f = te_id t" "\<not> fo_retired f"
  using assms by (simp_all add: live_source_def)

lemma update_rows_unique:
  assumes "distinct (map k rows)" and "r \<in> set rows" and "p r" and "\<And>x. x \<in> set rows \<Longrightarrow> p x \<Longrightarrow> k x = k r"
  shows "set (update_rows p f rows) = insert (f r) (set rows - {r})"
proof -
  have inj: "inj_on k (set rows)" using assms(1) by (simp add: distinct_map)
  have only: "p x \<longleftrightarrow> x = r" if "x \<in> set rows" for x
    using inj_onD [OF inj assms(4) [OF that] that assms(2)] assms(3) by blast
  have "set (update_rows p f rows) = (\<lambda>x. if p x then f x else x) ` set rows" by (simp add: update_rows_def)
  also have "\<dots> = (\<lambda>x. if x = r then f x else x) ` set rows" by (rule image_cong) (simp_all add: only)
  also have "\<dots> = insert (f r) (set rows - {r})" using assms(2) by auto
  finally show ?thesis .
qed

text \<open>A generation belongs to one template only, and a template has one live generation.\<close>

lemma live_source_unique:
  assumes "sources_ok T F" "t \<in> T" "t' \<in> T" "live_source t f" "live_source t' f"
  shows "t = t'"
  using inj_onD [OF sources_okD(1) [OF assms(1)] _ assms(2,3)] live_sourceD [OF assms(4)] live_sourceD [OF assms(5)] by simp

lemma file_unique:
  assumes "sources_ok T F" "f \<in> set F" "f' \<in> set F" "fo_id f = fo_id f'"
  shows "f = f'"
  using sources_okD(2) [OF assms(1)] assms(2-4) by (auto simp: distinct_map dest: inj_onD)

lemma live_apart:
  assumes "sources_ok T F" "f \<in> set F" "f' \<in> set F" "f \<noteq> f'" "live_source t f" "live_source t' f'"
  shows "t \<noteq> t'"
  using assms(4) file_unique [OF assms(1-3)] live_sourceD(1) [OF assms(5)] live_sourceD(1) [OF assms(6)] by auto

lemma sources_ok_without:
  assumes "sources_ok T F" and "t \<in> T" and "te_source t = []"
  shows "sources_ok (T - {t}) F"
proof (rule sources_okI)
  fix f assume f: "f \<in> set F" "\<not> fo_retired f"
  obtain s where "s \<in> T" "live_source s f" using sources_okD(5) [OF assms(1) f] by blast
  moreover from this have "s \<noteq> t" using sources_okD(3) [OF assms(1) f(1)] live_sourceD(1) assms(3) by fastforce
  ultimately show "\<exists>t \<in> T - {t}. live_source t f" by blast
qed (use sources_okD [OF assms(1)] in \<open>auto intro: inj_on_diff\<close>)

text \<open>Replacing the live generation \<open>f\<close> of \<open>t\<close> by \<open>f'\<close> leaves every other template's alone.\<close>

lemma others_untouched:
  assumes ok: "sources_ok T F" and t: "t \<in> T" and f: "f \<in> set F" "live_source t f"
  shows "s \<in> T - {t} \<Longrightarrow> te_source s \<noteq> [] \<Longrightarrow> \<exists>x \<in> set F - {f}. live_source s x"
    and "x \<in> set F - {f} \<Longrightarrow> \<not> fo_retired x \<Longrightarrow> \<exists>s \<in> T - {t}. live_source s x"
proof -
  assume s: "s \<in> T - {t}" "te_source s \<noteq> []"
  then obtain x where x: "x \<in> set F" "live_source s x" using sources_okD(4) [OF ok, of s] by blast
  moreover have "x \<noteq> f" using live_source_unique [OF ok _ t _ f(2), of s] s x by blast
  ultimately show "\<exists>x \<in> set F - {f}. live_source s x" by blast
next
  assume x: "x \<in> set F - {f}" "\<not> fo_retired x"
  then obtain s where s: "s \<in> T" "live_source s x" using sources_okD(5) [OF ok, of x] by blast
  moreover have "s \<noteq> t" using live_apart [OF ok _ f(1) _ s(2) f(2)] x by blast
  ultimately show "\<exists>s \<in> T - {t}. live_source s x" by blast
qed

lemma sources_ok_retire:
  assumes ok: "sources_ok T F" and t: "t \<in> T" "te_source t \<noteq> []"
    and g: "\<And>f. fo_id (g f) = fo_id f" "\<And>f. fo_retired (g f)"
  shows "sources_ok (T - {t}) (update_rows (source_at (te_tenant t) (te_source t)) g F)"
proof -
  let ?hit = "source_at (te_tenant t) (te_source t)"
  obtain f0 where f0: "f0 \<in> set F" "live_source t f0" using sources_okD(4) [OF ok t] by blast
  have hit: "?hit f0" using live_sourceD [OF f0(2)] by (simp add: source_at_def)
  have set: "set (update_rows ?hit g F) = insert (g f0) (set F - {f0})"
    by (rule update_rows_unique [where p = ?hit, OF sources_okD(2) [OF ok] f0(1) hit]) (use hit in \<open>simp add: source_at_def\<close>)
  show ?thesis
  proof (rule sources_okI)
    show "distinct (map fo_id (update_rows ?hit g F))"
      using sources_okD(2) [OF ok] g(1) by (simp add: update_rows_def comp_def if_distrib cong: if_cong)
    show "\<exists>f \<in> set (update_rows ?hit g F). live_source s f" if "s \<in> T - {t}" "te_source s \<noteq> []" for s
      using others_untouched(1) [OF ok t(1) f0 that] unfolding set by blast
    show "\<exists>s \<in> T - {t}. live_source s f" if "f \<in> set (update_rows ?hit g F)" "\<not> fo_retired f" for f
      using others_untouched(2) [OF ok t(1) f0, of f] that g(2) [of f0] unfolding set by auto
    show "fo_id f \<noteq> []" if "f \<in> set (update_rows ?hit g F)" for f
      using that sources_okD(3) [OF ok] g(1) f0(1) unfolding set by auto
  qed (rule inj_on_diff [OF sources_okD(1) [OF ok]])
qed

lemma sources_ok_add:
  assumes "sources_ok T F" and "live_source t f" and "te_id t \<notin> te_id ` T" and "fo_id f \<noteq> []" and "fo_id f \<notin> fo_id ` set F"
  shows "sources_ok (insert t T) (F @ [f])"
proof (rule sources_okI)
  show "\<exists>x \<in> set (F @ [f]). live_source s x" if "s \<in> insert t T" "te_source s \<noteq> []" for s
    using sources_okD(4) [OF assms(1), of s] that assms(2) by auto
  show "\<exists>s \<in> insert t T. live_source s x" if "x \<in> set (F @ [f])" "\<not> fo_retired x" for x
    using sources_okD(5) [OF assms(1), of x] that assms(2) by auto
qed (use assms sources_okD(1-3) [OF assms(1)] in auto)

lemma sources_ok_add_plain:
  assumes "sources_ok T F" and "te_id t \<notin> te_id ` T" and "te_source t = []"
  shows "sources_ok (insert t T) F"
proof (rule sources_okI)
  show "\<exists>x \<in> set F. live_source s x" if "s \<in> insert t T" "te_source s \<noteq> []" for s
    using sources_okD(4) [OF assms(1), of s] that assms(3) by auto
  show "\<exists>s \<in> insert t T. live_source s x" if "x \<in> set F" "\<not> fo_retired x" for x
    using sources_okD(5) [OF assms(1) that] by blast
qed (use assms sources_okD(1-3) [OF assms(1)] in auto)

lemma sources_ok_append_retired:
  assumes "sources_ok T F" and "fo_retired f" and "fo_id f \<noteq> []" and "fo_id f \<notin> fo_id ` set F"
  shows "sources_ok T (F @ [f])"
proof (rule sources_okI)
  show "\<exists>x \<in> set (F @ [f]). live_source s x" if "s \<in> T" "te_source s \<noteq> []" for s
    using sources_okD(4) [OF assms(1) that] by auto
  show "\<exists>s \<in> T. live_source s x" if "x \<in> set (F @ [f])" "\<not> fo_retired x" for x
    using sources_okD(5) [OF assms(1), of x] that assms(2) by auto
qed (use assms sources_okD(1-3) [OF assms(1)] in auto)

lemma sources_ok_exchange:
  assumes ok: "sources_ok T F" and t: "t \<in> T" and f: "f \<in> set F" "live_source t f"
    and new: "live_source t' f'" "te_id t' = te_id t" "fo_id f' = fo_id f"
  shows "sources_ok (insert t' (T - {t})) (update_rows (\<lambda>x. fo_id x = fo_id f) (\<lambda>_. f') F)"
proof -
  let ?F = "update_rows (\<lambda>x. fo_id x = fo_id f) (\<lambda>_. f') F"
  have set: "set ?F = insert f' (set F - {f})"
    by (rule update_rows_unique [OF sources_okD(2) [OF ok] f(1)]) simp_all
  show ?thesis
  proof (rule sources_okI)
    have "map fo_id ?F = map fo_id F" using new(3) by (simp add: update_rows_def)
    then show "distinct (map fo_id ?F)" using sources_okD(2) [OF ok] by simp
    show "inj_on te_id (insert t' (T - {t}))" using sources_okD(1) [OF ok] t new(2) by (auto simp: inj_on_def)
    show "\<exists>x \<in> set ?F. live_source s x" if "s \<in> insert t' (T - {t})" "te_source s \<noteq> []" for s
      using others_untouched(1) [OF ok t f, of s] that new(1) unfolding set by blast
    show "\<exists>s \<in> insert t' (T - {t}). live_source s x" if "x \<in> set ?F" "\<not> fo_retired x" for x
      using others_untouched(2) [OF ok t f, of x] that new(1) unfolding set by blast
    show "fo_id x \<noteq> []" if "x \<in> set ?F" for x
      using that sources_okD(3) [OF ok] sources_okD(3) [OF ok f(1)] new(3) unfolding set by auto
  qed
qed

lemma enqueue_source_ok:
  assumes "enqueue_template_source e t (st, d) = Inr (i, st', d')" and "\<forall>k. env_ulid e k \<noteq> []"
  obtains now where "i \<noteq> []" "i \<notin> fo_id ` set (ts_files st)" "ts_templates st' = ts_templates st"
    "ts_files st' = ts_files st @ [new_file_row i t now]"
proof -
  obtain j d1 where j: "new_id e d = (j, d1)" by fastforce
  obtain now d2 where "read_clock e d1 = (now, d2)" by fastforce
  with j assms(1) have "i = j" "insert_row same_file (new_file_row i t now) (ts_files st) = Inr (ts_files st')"
    "ts_templates st' = ts_templates st"
    by (auto simp: enqueue_template_source_def res_bind_eq_ok)
  moreover have "i \<noteq> []" using \<open>i = j\<close> j assms(2) by (auto simp: new_id_def)
  ultimately show thesis
    by (intro that [of now]) (auto simp: insert_row_ok same_file_def new_file_row_def)
qed

lemma retire_source_ok:
  assumes "retire_template_source e t (st, d) = Inr (st', d')" and "\<forall>k. env_ulid e k \<noteq> []"
    and ok: "sources_ok T (ts_files st)" and t: "t \<in> T"
  shows "ts_templates st' = ts_templates st \<and> sources_ok (T - {t}) (ts_files st')"
proof (cases "te_source t = []")
  case False
  obtain now d1 where "read_clock e d = (now, d1)" by fastforce
  with assms(1) False have "st' = st\<lparr>ts_files := update_rows (source_at (te_tenant t) (te_source t))
      (\<lambda>f. f\<lparr>fo_retired := True, fo_status := FilePending, fo_next_at := now\<rparr>) (ts_files st)\<rparr>"
    by (auto simp: retire_template_source_def Let_def split: if_split_asm)
  then show ?thesis using sources_ok_retire [OF ok t False] by simp
next
  case True
  note rest = sources_ok_without [OF ok t True]
  show ?thesis
  proof (cases "te_platform_file t = []")
    case True
    with \<open>te_source t = []\<close> assms(1) rest show ?thesis by (simp add: retire_template_source_def)
  next
    case False
    obtain now d1 where clock: "read_clock e d = (now, d1)" by fastforce
    obtain i d2 where i: "new_id e d1 = (i, d2)" by fastforce
    define row where "row = (new_file_row i (template_from_record t) now)\<lparr>fo_file := te_platform_file t,
        fo_resource_type := ''contract_template'', fo_resource := te_id t, fo_retired := True\<rparr>"
    have ne: "i \<noteq> []" using i assms(2) by (auto simp: new_id_def)
    from True False assms(1) clock i obtain files where
      "insert_row same_file row (ts_files st) = Inr files" "st' = st\<lparr>ts_files := files\<rparr>"
      by (auto simp: retire_template_source_def row_def res_bind_eq_ok)
    then have "ts_files st' = ts_files st @ [row]" "ts_templates st' = ts_templates st" "fo_id row \<notin> fo_id ` set (ts_files st)"
      by (auto simp: insert_row_ok same_file_def)
    with sources_ok_append_retired [OF rest, of row] ne show ?thesis by (simp add: row_def new_file_row_def)
  qed
qed

lemma new_file_live:
  assumes "te_source t = i" "tp_tenant p = te_tenant t" "tp_id p = te_id t" "tp_content p = te_document t"
    "tp_filename p = te_filename t" "te_gateway_state t \<noteq> ''READY''"
  shows "live_source t (new_file_row i p now)"
  using assms by (simp add: live_source_def new_file_row_def)

lemma create_template_inv:
  assumes inv: "template_inv e s" and run: "create_template e t s = Inr s'"
  shows "template_inv e s'"
proof -
  obtain st0 d0 where s: "s = (st0, d0)" by (cases s)
  obtain now d1 where clock: "read_clock e d0 = (now, d1)" by fastforce
  let ?queue = "tp_gateway_state t = ''PENDING'' \<and> tp_platform_file t = []"
  define row where "row = (\<lambda>source. \<lparr>te_id = tp_id t, te_tenant = tp_tenant t, te_name = tp_name t, te_filename = tp_filename t,
      te_number_format = tp_number_format t, te_fields = tp_fields t, te_document = tp_content t,
      te_platform_file = tp_platform_file t, te_gateway_state = tp_gateway_state t, te_gateway_error = [],
      te_source = source, te_version = 1, te_created_at = now, te_created_by = tp_created_by t\<rparr>)"
  define q where "q = (if ?queue then enqueue_template_source e t (st0, d1) else ok ([], st0, d1))"
  have body: "res_bind q (\<lambda>(source, st, d2). res_bind (insert_row same_template (row source) (ts_templates st)) (\<lambda>rows.
      res_bind (insert_template_audit e (tp_tenant t) (tp_id t) (tp_name t) ''CONTRACT_MANAGEMENT:TEMPLATE_CREATED'' d2)
        (\<lambda>d3. ok (st\<lparr>ts_templates := rows\<rparr>, d3)))) = Inr s'"
    using run by (simp add: create_template_def s clock row_def q_def Let_def)
  then obtain source st d2 where queue: "q = Inr (source, st, d2)" by (cases q) auto
  with body obtain rows d3 where rows: "insert_row same_template (row source) (ts_templates st) = Inr rows"
    and s': "s' = (st\<lparr>ts_templates := rows\<rparr>, d3)" by (auto simp: res_bind_eq_ok)
  have ulid: "\<forall>k. env_ulid e k \<noteq> []" and ok: "sources_ok (set (ts_templates st0)) (ts_files st0)"
    and dist: "distinct (map te_id (ts_templates st0))" using inv by (simp_all add: template_inv_def s)
  have files: "ts_templates st = ts_templates st0 \<and> (te_id (row source) \<notin> te_id ` set (ts_templates st0) \<longrightarrow>
      sources_ok (insert (row source) (set (ts_templates st0))) (ts_files st))"
  proof (cases ?queue)
    case True
    with queue have "enqueue_template_source e t (st0, d1) = Inr (source, st, d2)" by (simp add: q_def)
    from enqueue_source_ok [OF this ulid] obtain now' where q: "source \<noteq> []" "source \<notin> fo_id ` set (ts_files st0)"
      "ts_templates st = ts_templates st0" "ts_files st = ts_files st0 @ [new_file_row source t now']" by blast
    have "live_source (row source) (new_file_row source t now')" by (rule new_file_live) (use True in \<open>simp_all add: row_def\<close>)
    with sources_ok_add [OF ok this] q show ?thesis by (simp add: new_file_row_def)
  next
    case False
    with queue sources_ok_add_plain [OF ok, of "row []"] show ?thesis by (auto simp: row_def q_def split: if_split_asm)
  qed
  with rows dist have "rows = ts_templates st0 @ [row source]" "te_id (row source) \<notin> te_id ` set (ts_templates st0)"
    by (auto simp: insert_row_ok same_template_def)
  with files dist ulid show ?thesis by (simp add: template_inv_def s')
qed

lemma exchange_same_files:
  assumes ok: "sources_ok T F" and t: "t \<in> T" and new: "te_id t' = te_id t" "te_source t' = te_source t"
    "\<And>f. live_source t f \<Longrightarrow> live_source t' f"
  shows "sources_ok (insert t' (T - {t})) F"
proof (rule sources_okI)
  show "inj_on te_id (insert t' (T - {t}))" using sources_okD(1) [OF ok] t new(1) by (auto simp: inj_on_def)
  show "\<exists>f \<in> set F. live_source s f" if "s \<in> insert t' (T - {t})" "te_source s \<noteq> []" for s
  proof (cases "s = t'")
    case True
    with that sources_okD(4) [OF ok t] new show ?thesis by metis
  next
    case False
    with that sources_okD(4) [OF ok, of s] show ?thesis by blast
  qed
  show "\<exists>s \<in> insert t' (T - {t}). live_source s f" if "f \<in> set F" "\<not> fo_retired f" for f
    using sources_okD(5) [OF ok that] new(3) by blast
qed (use sources_okD(2,3) [OF ok] in auto)

lemma template_row_unique:
  assumes "distinct (map te_id rows)" "x \<in> set rows" "y \<in> set rows" "te_id x = te_id y"
  shows "x = y"
  using assms by (auto simp: distinct_map dest: inj_onD)

lemma update_template_rows:
  assumes "distinct (map te_id rows)" and "t \<in> set rows" and "p t" and "\<And>x. p x \<Longrightarrow> te_id x = te_id t"
    and "\<And>x. te_id (f x) = te_id x"
  shows "set (update_rows p f rows) = insert (f t) (set rows - {t})" "distinct (map te_id (update_rows p f rows))"
proof -
  show "set (update_rows p f rows) = insert (f t) (set rows - {t})"
    by (rule update_rows_unique [where p = p, OF assms(1-3)]) (rule assms(4))
  have "map te_id (update_rows p f rows) = map te_id rows" by (simp add: update_rows_def assms(5))
  then show "distinct (map te_id (update_rows p f rows))" using assms(1) by simp
qed

lemma update_template_inv:
  assumes inv: "template_inv e s" and run: "update_template e t s = Inr s'"
  shows "template_inv e s'"
proof -
  obtain st d where s: "s = (st, d)" by (cases s)
  let ?f = "\<lambda>r. r\<lparr>te_name := tp_name t, te_number_format := tp_number_format t, te_fields := tp_fields t, te_version := te_version r + 1\<rparr>"
  from run obtain d1 where one: "rows_affected (template_version_at t) (ts_templates st) = 1"
    and s': "s' = (st\<lparr>ts_templates := update_rows (template_version_at t) ?f (ts_templates st)\<rparr>, d1)"
    by (auto simp: update_template_def s res_bind_eq_ok split: if_split_asm)
  from one have "filter (template_version_at t) (ts_templates st) \<noteq> []" by (auto simp: rows_affected_def)
  then obtain r where r: "r \<in> set (ts_templates st)" "template_version_at t r" by (auto simp: filter_empty_conv)
  have ok: "sources_ok (set (ts_templates st)) (ts_files st)" and dist: "distinct (map te_id (ts_templates st))"
    and ulid: "\<forall>k. env_ulid e k \<noteq> []" using inv by (simp_all add: template_inv_def s)
  have rows: "set (update_rows (template_version_at t) ?f (ts_templates st)) = insert (?f r) (set (ts_templates st) - {r})"
    "distinct (map te_id (update_rows (template_version_at t) ?f (ts_templates st)))"
    by (rule update_template_rows [where p = "template_version_at t", OF dist r]; use r(2) in \<open>simp add: template_version_at_def template_at_def\<close>)+
  have "sources_ok (insert (?f r) (set (ts_templates st) - {r})) (ts_files st)"
    by (rule exchange_same_files [OF ok r(1)]) (simp_all add: live_source_def)
  with rows ulid show ?thesis by (simp add: template_inv_def s')
qed

lemma update_source_inv:
  assumes inv: "template_inv e s" and run: "update_template_source e t s = Inr s'"
  shows "template_inv e s'"
proof -
  obtain st0 d0 where s: "s = (st0, d0)" by (cases s)
  let ?queue = "tp_gateway_state t = ''PENDING'' \<and> tp_platform_file t = []"
  define f :: "string \<Rightarrow> template_row \<Rightarrow> template_row" where "f = (\<lambda>source r. r\<lparr>te_filename := tp_filename t, te_document := tp_content t, te_fields := tp_fields t,
      te_platform_file := tp_platform_file t, te_gateway_state := tp_gateway_state t, te_gateway_error := [],
      te_source := source, te_version := te_version r + 1\<rparr>)"
  have ulid: "\<forall>k. env_ulid e k \<noteq> []" and ok: "sources_ok (set (ts_templates st0)) (ts_files st0)"
    and dist: "distinct (map te_id (ts_templates st0))" using inv by (simp_all add: template_inv_def s)
  from run obtain r where pick: "first_row (template_at (tp_tenant t) (tp_id t)) (ts_templates st0) = Some r"
    and version: "te_version r = tp_version t"
    by (auto simp: update_template_source_def s split: option.split_asm if_split_asm)
  have r: "r \<in> set (ts_templates st0)" "template_version_at t r" "te_tenant r = tp_tenant t" "te_id r = tp_id t"
    using first_row_SomeD [OF pick] version by (simp_all add: template_version_at_def template_at_def)
  from run pick version obtain st1 d1 where retire: "retire_template_source e r (st0, d0) = Inr (st1, d1)"
    by (cases "retire_template_source e r (st0, d0)") (auto simp: update_template_source_def s)
  note ret = retire_source_ok [OF retire ulid ok r(1)]
  define q where "q = (if ?queue then enqueue_template_source e t (st1, d1) else ok ([], st1, d1))"
  have body: "res_bind q (\<lambda>(source, st, d2). if rows_affected (template_version_at t) (ts_templates st) \<noteq> 1 then fail ErrVersionConflict
      else res_bind (insert_template_audit e (tp_tenant t) (tp_id t) (tp_name t) ''CONTRACT_MANAGEMENT:TEMPLATE_SOURCE_REPLACED'' d2)
        (\<lambda>d3. ok (st\<lparr>ts_templates := update_rows (template_version_at t) (f source) (ts_templates st)\<rparr>, d3))) = Inr s'"
    using run pick version retire unfolding update_template_source_def s q_def f_def by simp
  then obtain source st d2 where queue: "q = Inr (source, st, d2)" by (cases q) auto
  with body obtain d3 where s': "s' = (st\<lparr>ts_templates := update_rows (template_version_at t) (f source) (ts_templates st)\<rparr>, d3)"
    by (auto simp: res_bind_eq_ok split: if_split_asm)
  have fresh: "te_id (f source r) \<notin> te_id ` (set (ts_templates st0) - {r})"
    using template_row_unique [OF dist _ r(1)] by (auto simp: f_def)
  have files: "ts_templates st = ts_templates st0 \<and> sources_ok (insert (f source r) (set (ts_templates st0) - {r})) (ts_files st)"
  proof (cases ?queue)
    case True
    with queue have "enqueue_template_source e t (st1, d1) = Inr (source, st, d2)" by (simp add: q_def)
    from enqueue_source_ok [OF this ulid] obtain now where new: "source \<noteq> []" "source \<notin> fo_id ` set (ts_files st1)"
      "ts_templates st = ts_templates st1" "ts_files st = ts_files st1 @ [new_file_row source t now]" by blast
    have "live_source (f source r) (new_file_row source t now)"
      by (rule new_file_live) (use True r in \<open>simp_all add: f_def\<close>)
    with sources_ok_add [OF conjunct2 [OF ret] this fresh] new ret show ?thesis by (simp add: new_file_row_def)
  next
    case False
    with queue have "source = []" "st = st1" by (auto simp: q_def split: if_split_asm)
    with sources_ok_add_plain [OF conjunct2 [OF ret] fresh] ret show ?thesis by (simp add: f_def)
  qed
  have rows: "set (update_rows (template_version_at t) (f source) (ts_templates st0)) = insert (f source r) (set (ts_templates st0) - {r})"
    "distinct (map te_id (update_rows (template_version_at t) (f source) (ts_templates st0)))"
    by (rule update_template_rows [where p = "template_version_at t", OF dist r(1,2)]; use r in \<open>simp add: template_version_at_def template_at_def f_def\<close>)+
  with files ulid show ?thesis by (simp add: template_inv_def s')
qed

lemma delete_template_inv:
  assumes inv: "template_inv e s" and run: "delete_template e tenant i s = Inr s'"
  shows "template_inv e s'"
proof -
  obtain st0 d0 where s: "s = (st0, d0)" by (cases s)
  have ulid: "\<forall>k. env_ulid e k \<noteq> []" and ok: "sources_ok (set (ts_templates st0)) (ts_files st0)"
    and dist: "distinct (map te_id (ts_templates st0))" using inv by (simp_all add: template_inv_def s)
  from run obtain r where pick: "first_row (template_at tenant i) (ts_templates st0) = Some r"
    by (auto simp: delete_template_def s split: option.split_asm)
  then have r: "r \<in> set (ts_templates st0)" "template_at tenant i r" using first_row_SomeD by fastforce+
  from run pick obtain st1 d1 where retire: "retire_template_source e r (st0, d0) = Inr (st1, d1)"
    by (cases "retire_template_source e r (st0, d0)") (auto simp: delete_template_def s)
  from run pick retire obtain d2 where
    s': "s' = (st1\<lparr>ts_templates := filter (\<lambda>r. \<not> template_at tenant i r) (ts_templates st1)\<rparr>, d2)"
    by (auto simp: delete_template_def s res_bind_eq_ok)
  note ret = retire_source_ok [OF retire ulid ok r(1)]
  have "set (filter (\<lambda>r. \<not> template_at tenant i r) (ts_templates st0)) = set (ts_templates st0) - {r}"
  proof -
    have "template_at tenant i x \<longleftrightarrow> x = r" if "x \<in> set (ts_templates st0)" for x
      using template_row_unique [OF dist that r(1)] r(2) by (auto simp: template_at_def)
    then show ?thesis by auto
  qed
  moreover have "distinct (map te_id (filter (\<lambda>r. \<not> template_at tenant i r) (ts_templates st0)))"
    using dist by (rule distinct_map_filter)
  ultimately show ?thesis using ret ulid by (simp add: template_inv_def s')
qed

lemma backfill_inv:
  assumes inv: "template_inv e s" and run: "queue_template_file_backfill e tenant i s = Inr s'"
  shows "template_inv e s'"
proof -
  obtain st0 d0 where s: "s = (st0, d0)" by (cases s)
  have ulid: "\<forall>k. env_ulid e k \<noteq> []" and ok: "sources_ok (set (ts_templates st0)) (ts_files st0)"
    and dist: "distinct (map te_id (ts_templates st0))" using inv by (simp_all add: template_inv_def s)
  from run obtain r where pick: "first_row (template_at tenant i) (ts_templates st0) = Some r"
    by (auto simp: queue_template_file_backfill_def s split: option.split_asm)
  then have r: "r \<in> set (ts_templates st0)" "template_at tenant i r" using first_row_SomeD by fastforce+
  show ?thesis
  proof (cases "te_source r = []")
    case False
    with run pick have "s' = s" by (simp add: queue_template_file_backfill_def s)
    with inv show ?thesis by simp
  next
    case True
    let ?f = "\<lambda>source r. r\<lparr>te_source := source, te_gateway_state := ''PENDING''\<rparr>"
    from run pick True obtain source st d1 where queue: "enqueue_template_source e (template_from_record r) (st0, d0) = Inr (source, st, d1)"
      by (cases "enqueue_template_source e (template_from_record r) (st0, d0)") (auto simp: queue_template_file_backfill_def s)
    from enqueue_source_ok [OF queue ulid] obtain now where q: "source \<noteq> []" "source \<notin> fo_id ` set (ts_files st0)"
      "ts_templates st = ts_templates st0" "ts_files st = ts_files st0 @ [new_file_row source (template_from_record r) now]" by blast
    let ?new = "new_file_row source (template_from_record r) now"
    define g where "g = (if te_platform_file r = [] then ?new
      else ?new\<lparr>fo_file := te_platform_file r, fo_resource_type := ''contract_template'', fo_resource := te_id r\<rparr>)"
    have g: "live_source (?f source r) g" "fo_id g = source"
      by (simp_all add: g_def live_source_def new_file_row_def template_from_record_def)
    have "update_rows (\<lambda>f. fo_id f = source) h (ts_files st0) = ts_files st0" for h
      using q(2) by (auto simp: update_rows_def intro!: map_idI)
    then have upd: "update_rows (\<lambda>f. fo_id f = source) h (ts_files st0 @ [?new]) = ts_files st0 @ [h ?new]" for h
      by (simp add: update_rows_def new_file_row_def)
    have s': "s' = (st\<lparr>ts_files := ts_files st0 @ [g], ts_templates := update_rows (template_at tenant i) (?f source) (ts_templates st0)\<rparr>, d1)"
      using run pick True queue q(3,4)
      by (auto simp: queue_template_file_backfill_def s g_def upd Let_def split: if_split_asm)
    have "sources_ok (insert (?f source r) (set (ts_templates st0) - {r})) (ts_files st0 @ [g])"
      by (rule sources_ok_add [OF sources_ok_without [OF ok r(1) True] g(1)])
        (use template_row_unique [OF dist _ r(1)] q(1,2) g(2) in auto)
    moreover have "set (update_rows (template_at tenant i) (?f source) (ts_templates st0)) = insert (?f source r) (set (ts_templates st0) - {r})"
      "distinct (map te_id (update_rows (template_at tenant i) (?f source) (ts_templates st0)))"
      by (rule update_template_rows [where p = "template_at tenant i", OF dist r]; use r in \<open>simp add: template_at_def\<close>)+
    ultimately show ?thesis using ulid by (simp add: template_inv_def s')
  qed
qed

text \<open>The outcome of a delivery keeps everything of the generation but its progress.\<close>

lemma settled_same:
  assumes "g = (case err of None \<Rightarrow> settled_file fid f | Some x \<Rightarrow> failed_file x fid now f)"
  shows "fo_id g = fo_id f" "fo_tenant g = fo_tenant f" "fo_template g = fo_template f" "fo_document g = fo_document f"
    "fo_filename g = fo_filename f" "fo_retired g = fo_retired f" "fo_status g = FileDelivered \<longleftrightarrow> err = None"
  using assms by (auto simp: settled_file_def failed_file_def Let_def split: option.split)

lemma next_file_SomeD:
  assumes "next_file tenant now files = Some f"
  shows "f \<in> set files" "fo_tenant f = tenant" "fo_status f = FilePending"
proof -
  let ?order = "sort_key (\<lambda>f. if fo_retired f then 0 else 1 :: nat) (sort_key fo_next_at (sort_key fo_created_at (sort_key fo_id
      (filter (due_file tenant now) files))))"
  have "f \<in> set ?order" using assms by (cases ?order) (simp_all add: next_file_def)
  then have "f \<in> set (filter (due_file tenant now) files)" by (simp only: set_sort)
  then show "f \<in> set files" "fo_tenant f = tenant" "fo_status f = FilePending" by (auto simp: due_file_def)
qed

lemma process_cases:
  assumes "process_template_file e license gw tenant (st, d) = ((found, err, calls), st', d')"
  obtains "st' = st" "calls = []" "err = None \<or> tenant = []"
  | f where "f \<in> set (ts_files st)" "st' = st" "err = Some (StoreError ErrVersionConflict)" "\<not> fo_retired f" "calls = []"
      "(case first_row (template_at (fo_tenant f) (fo_template f)) (ts_templates st) of None \<Rightarrow> [] | Some t \<Rightarrow> te_source t) \<noteq> fo_id f"
  | f fid der now where "f \<in> set (ts_files st)" "fo_tenant f = tenant" "err = map_option GatewayError der"
      "fo_retired f \<or> (case first_row (template_at (fo_tenant f) (fo_template f)) (ts_templates st) of None \<Rightarrow> [] | Some t \<Rightarrow> te_source t) = fo_id f"
      "deliver_template_file license gw tenant f = (fid, der, calls)"
      "st' = \<lparr>ts_templates = (if fo_retired f then ts_templates st
          else update_rows (\<lambda>t. template_at (fo_tenant f) (fo_template f) t \<and> te_source t = fo_id f)
            (template_file_result der f fid (case der of None \<Rightarrow> settled_file fid f | Some x \<Rightarrow> failed_file x fid now f)) (ts_templates st)),
        ts_files = update_rows (\<lambda>x. fo_id x = fo_id f)
          (\<lambda>_. case der of None \<Rightarrow> settled_file fid f | Some x \<Rightarrow> failed_file x fid now f) (ts_files st)\<rparr>"
proof -
  obtain now d1 where c1: "read_clock e d = (now, d1)" by fastforce
  obtain now2 d2 where c2: "read_clock e d1 = (now2, d2)" by fastforce
  show thesis
  proof (cases "tenant = []")
    case True
    with assms that(1) show thesis by (auto simp: process_template_file_def)
  next
    case tenant: False
    show thesis
    proof (cases "next_file tenant now (ts_files st)")
      case None
      with assms tenant c1 that(1) show thesis by (auto simp: process_template_file_def)
    next
      case (Some f)
      let ?source = "case first_row (template_at (fo_tenant f) (fo_template f)) (ts_templates st) of None \<Rightarrow> [] | Some t \<Rightarrow> te_source t"
      obtain fid der cs where deliver: "deliver_template_file license gw tenant f = (fid, der, cs)" by (metis prod_cases3)
      obtain now3 d3 where c3: "(if der = None then (now2, d2) else read_clock e d2) = (now3, d3)" by fastforce
      note f = next_file_SomeD [OF Some]
      consider "now2 < fo_next_at f" | "\<not> now2 < fo_next_at f" "\<not> fo_retired f \<and> ?source \<noteq> fo_id f"
        | "\<not> now2 < fo_next_at f" "\<not> (\<not> fo_retired f \<and> ?source \<noteq> fo_id f)" by blast
      then show thesis
      proof cases
        case 1
        with assms tenant c1 c2 Some that(1) show thesis by (auto simp: process_template_file_def Let_def)
      next
        case 2
        with assms tenant c1 c2 Some have "st' = st" "err = Some (StoreError ErrVersionConflict)" "calls = []"
          by (auto simp: process_template_file_def Let_def)
        with 2 f that(2) show thesis by blast
      next
        case 3
        note run = assms [unfolded process_template_file_def Let_def if_not_P [OF tenant] prod.case c1 Some option.case c2
            if_not_P [OF 3(1)] if_not_P [OF 3(2)] deliver c3]
        from run have out: "calls = cs" "err = map_option GatewayError der" by auto
        show thesis by (rule that(3) [of f der fid now3]) (use run out f 3 deliver in auto)
      qed
    qed
  qed
qed

text \<open>A live generation is the current source of the template found under its key.\<close>

lemma live_template:
  assumes ok: "sources_ok (set T) F" and dist: "distinct (map te_id T)" and f: "f \<in> set F" "\<not> fo_retired f"
  obtains t where "first_row (template_at (fo_tenant f) (fo_template f)) T = Some t" "t \<in> set T" "live_source t f"
    "template_at (fo_tenant f) (fo_template f) t" "te_source t = fo_id f"
proof -
  obtain u where u: "u \<in> set T" "live_source u f" using sources_okD(5) [OF ok f] by blast
  have at: "template_at (fo_tenant f) (fo_template f) u"
    unfolding template_at_def using live_sourceD(2,3) [OF u(2)] by simp
  have "\<exists>t. first_row (template_at (fo_tenant f) (fo_template f)) T = Some t"
    using at u(1) by (cases "first_row (template_at (fo_tenant f) (fo_template f)) T") (auto simp: first_row_None)
  then obtain t where t: "first_row (template_at (fo_tenant f) (fo_template f)) T = Some t" by blast
  have row: "t \<in> set T" "template_at (fo_tenant f) (fo_template f) t" using first_row_SomeD [OF t] by simp_all
  have "te_id u = te_id t" using at row(2) unfolding template_at_def by simp
  then have "u = t" by (rule template_row_unique [OF dist u(1) row(1)])
  with t u at live_sourceD(1) [OF u(2)] show thesis by (intro that) simp_all
qed

lemma sources_ok_settle_retired:
  assumes ok: "sources_ok T F" and f: "f \<in> set F" "fo_retired f" and g: "fo_id g = fo_id f" "fo_retired g"
  shows "sources_ok T (update_rows (\<lambda>x. fo_id x = fo_id f) (\<lambda>_. g) F)" (is "sources_ok T ?F")
proof -
  have set: "set ?F = insert g (set F - {f})"
    by (rule update_rows_unique [OF sources_okD(2) [OF ok] f(1)]) simp_all
  show ?thesis
  proof (rule sources_okI)
    have "map fo_id ?F = map fo_id F" using g(1) by (simp add: update_rows_def)
    then show "distinct (map fo_id ?F)" using sources_okD(2) [OF ok] by simp
    show "fo_id x \<noteq> []" if "x \<in> set ?F" for x
      using that sources_okD(3) [OF ok] sources_okD(3) [OF ok f(1)] g(1) unfolding set by auto
    show "\<exists>x \<in> set ?F. live_source t x" if t: "t \<in> T" "te_source t \<noteq> []" for t
    proof -
      obtain x where x: "x \<in> set F" "live_source t x" using sources_okD(4) [OF ok t] by blast
      with f(2) live_sourceD(4) have "x \<noteq> f" by blast
      with x show ?thesis unfolding set by blast
    qed
    show "\<exists>t \<in> T. live_source t x" if "x \<in> set ?F" "\<not> fo_retired x" for x
    proof -
      from that g(2) have "x \<in> set F" unfolding set by blast
      then show ?thesis using sources_okD(5) [OF ok _ that(2)] by blast
    qed
  qed (rule sources_okD(1) [OF ok])
qed

lemma result_keeps [simp]: "te_id (template_file_result der f fid g t) = te_id t"
  by (simp add: template_file_result_def)

lemma result_live:
  assumes "live_source t f" and "g = (case der of None \<Rightarrow> settled_file fid f | Some x \<Rightarrow> failed_file x fid now f)"
  shows "live_source (template_file_result der f fid g t) g"
proof (cases der)
  case None
  with assms show ?thesis by (simp add: live_source_def template_file_result_def settled_file_def)
next
  case (Some x)
  with assms show ?thesis by (auto simp: live_source_def template_file_result_def failed_file_def Let_def)
qed

lemma settle_live_ok:
  assumes ok: "sources_ok (set T) F" and dist: "distinct (map te_id T)" and f: "f \<in> set F" "\<not> fo_retired f"
    and g: "g = (case der of None \<Rightarrow> settled_file fid f | Some x \<Rightarrow> failed_file x fid now f)"
    and T': "T' = update_rows (\<lambda>t. template_at (fo_tenant f) (fo_template f) t \<and> te_source t = fo_id f) (template_file_result der f fid g) T"
  shows "distinct (map te_id T') \<and> sources_ok (set T') (update_rows (\<lambda>x. fo_id x = fo_id f) (\<lambda>_. g) F)"
proof -
  let ?p = "\<lambda>t. template_at (fo_tenant f) (fo_template f) t \<and> te_source t = fo_id f"
  obtain t where t: "t \<in> set T" "live_source t f" "template_at (fo_tenant f) (fo_template f) t" "te_source t = fo_id f"
    using live_template [OF ok dist f] by blast
  have p: "?p t" using t(3,4) by (rule conjI)
  have only: "te_id x = te_id t" if "?p x" for x using that t(3) unfolding template_at_def by simp
  have "set T' = insert (template_file_result der f fid g t) (set T - {t})" and d: "distinct (map te_id T')"
    unfolding T' by (rule update_template_rows [where p = ?p, OF dist t(1) p only result_keeps]; assumption)+
  moreover have "sources_ok (insert (template_file_result der f fid g t) (set T - {t})) (update_rows (\<lambda>x. fo_id x = fo_id f) (\<lambda>_. g) F)"
    by (rule sources_ok_exchange [OF ok t(1) f(1) t(2) result_live [OF t(2) g] result_keeps settled_same(1) [OF g]])
  ultimately show ?thesis by simp
qed

lemma process_inv:
  assumes inv: "template_inv e s" and run: "process_template_file e license gw tenant s = (out, s')"
  shows "template_inv e s'"
proof -
  obtain st d where s: "s = (st, d)" by (cases s)
  obtain st' d' where s': "s' = (st', d')" by (cases s')
  obtain found err calls where out: "out = (found, err, calls)" by (cases out)
  have ulid: "\<forall>k. env_ulid e k \<noteq> []" and ok: "sources_ok (set (ts_templates st)) (ts_files st)"
    and dist: "distinct (map te_id (ts_templates st))" using inv unfolding template_inv_def s by simp_all
  from run [unfolded s s' out] show ?thesis
  proof (cases rule: process_cases)
    case (3 f fid der now)
    define g where "g = (case der of None \<Rightarrow> settled_file fid f | Some x \<Rightarrow> failed_file x fid now f)"
    note st' = 3(6) [folded g_def]
    have "distinct (map te_id (ts_templates st')) \<and> sources_ok (set (ts_templates st')) (ts_files st')"
    proof (cases "fo_retired f")
      case True
      then show ?thesis
        using dist sources_ok_settle_retired [OF ok 3(1) True settled_same(1) [OF g_def]] settled_same(6) [OF g_def]
        unfolding st' by simp
    next
      case False
      then show ?thesis using settle_live_ok [OF ok dist 3(1) False g_def refl] unfolding st' by simp
    qed
    with ulid show ?thesis unfolding template_inv_def s' by simp
  qed (use inv in \<open>simp_all add: template_inv_def s s'\<close>)
qed

interpretation template_files: invariant_system "no_templates e" "template_step e" "template_inv e" for e
proof
  show "no_templates e s \<Longrightarrow> template_inv e s" for s
    by (simp add: no_templates_def template_inv_def sources_ok_def)
  fix s s'
  assume inv: "template_inv e s" and "template_step e s s'"
  from this(2) show "template_inv e s'"
  proof cases
    case (step_create t) then show ?thesis by (rule create_template_inv [OF inv])
  next
    case (step_update t) then show ?thesis by (rule update_template_inv [OF inv])
  next
    case (step_replace t) then show ?thesis by (rule update_source_inv [OF inv])
  next
    case (step_delete tenant i) then show ?thesis by (rule delete_template_inv [OF inv])
  next
    case (step_backfill tenant i) then show ?thesis by (rule backfill_inv [OF inv])
  next
    case (step_process license gw tenant out) then show ?thesis by (rule process_inv [OF inv])
  qed
qed


section \<open>What is uploaded\<close>

definition uploads :: "gateway_call list \<Rightarrow> (string \<times> string) list" where
  "uploads calls = concat (map (\<lambda>c. case c of CallUpload q name doc \<Rightarrow> [(name, doc)] | _ \<Rightarrow> []) calls)"

lemma uploads_simps [simp]:
  "uploads [] = []" "uploads (CallUpload q n x # cs) = (n, x) # uploads cs" "uploads (CallRetire q # cs) = uploads cs"
  "uploads (CallResolve q # cs) = uploads cs" "uploads (CallRelease i t r # cs) = uploads cs"
  "uploads (CallBind i t r n # cs) = uploads cs" "uploads (cs @ ds) = uploads cs @ uploads ds"
  by (simp_all add: uploads_def)

lemma uploads_upload_and_bind:
  "upload_and_bind license gw f i = (fid, err, calls) \<Longrightarrow> u \<in> set (uploads calls) \<Longrightarrow> u = (fo_filename f, fo_document f)"
  by (auto simp: upload_and_bind_def Let_def split: if_split_asm sum.split_asm)

lemma uploads_release: "release_source gw f i = (fid, err, calls) \<Longrightarrow> uploads calls = []"
  by (auto simp: release_source_def)

lemma uploads_resolve:
  assumes "resolve_upload license gw f = (fid, err, calls)" and "u \<in> set (uploads calls)"
  shows "u = (fo_filename f, fo_document f)"
  using assms
  by (auto simp: resolve_upload_def Let_def split: if_split_asm sum.split_asm prod.split_asm
      dest: uploads_release uploads_upload_and_bind)

lemma uploads_retire: "retire_upload gw f = (fid, err, calls) \<Longrightarrow> uploads calls = []"
  by (auto simp: retire_upload_def Let_def split: if_split_asm sum.split_asm prod.split_asm dest: uploads_release)

lemma uploads_deliver:
  assumes "deliver_template_file license gw tenant f = (fid, err, calls)" and "u \<in> set (uploads calls)"
  shows "u = (fo_filename f, fo_document f)" "\<not> fo_retired f"
  using assms unfolding deliver_template_file_def
  by (auto split: if_split_asm dest!: uploads_retire uploads_release dest: uploads_resolve uploads_upload_and_bind)

section \<open>Properties\<close>

text \<open>In every store that creating, editing, replacing, deleting, back-filling and delivering templates can reach, a
  template that names a source generation has exactly that generation as a row that is not retired, of its own tenant and
  with its document and file name; the template is marked ready exactly when that generation is delivered, and every
  generation that is not retired is the current one of an existing template.
\<close>

theorem template_sources_consistent:
  assumes "reach (no_templates e) (template_step e) s"
  shows "distinct (map te_id (ts_templates (fst s)))
    \<and> (\<forall>t \<in> set (ts_templates (fst s)). te_source t \<noteq> [] \<longrightarrow>
         (\<exists>f \<in> set (ts_files (fst s)). \<not> fo_retired f \<and> fo_id f = te_source t \<and> fo_tenant f = te_tenant t \<and> fo_template f = te_id t
            \<and> fo_document f = te_document t \<and> fo_filename f = te_filename t
            \<and> (te_gateway_state t = ''READY'' \<longleftrightarrow> fo_status f = FileDelivered)))
    \<and> (\<forall>f \<in> set (ts_files (fst s)). \<not> fo_retired f \<longrightarrow>
         (\<exists>t \<in> set (ts_templates (fst s)). te_source t = fo_id f \<and> te_id t = fo_template f))"
proof -
  note inv = template_files.reach_inv [OF assms, unfolded template_inv_def]
  then have ok: "sources_ok (set (ts_templates (fst s))) (ts_files (fst s))" by blast
  have "\<exists>t \<in> set (ts_templates (fst s)). te_source t = fo_id f \<and> te_id t = fo_template f"
    if f: "f \<in> set (ts_files (fst s))" "\<not> fo_retired f" for f
    using sources_okD(5) [OF ok f] live_sourceD(1,3) by metis
  then show ?thesis using inv sources_okD(4) [OF ok, unfolded live_source_def] by blast
qed

text \<open>C29: In every reachable store a round of the file worker never ends in the version conflict of an orphaned generation, which
  it would meet again on every later round, and whatever it uploads is the current document of an existing template of
  the tenant, under its current file name; a document that was replaced or deleted is never sent.
\<close>

theorem template_delivery_current:
  assumes "reach (no_templates e) (template_step e) s" and "tenant \<noteq> []"
    and run: "process_template_file e license gw tenant s = ((found, err, calls), s')"
  shows "err \<noteq> Some (StoreError ErrVersionConflict)
    \<and> (\<forall>name doc. (name, doc) \<in> set (uploads calls) \<longrightarrow>
         (\<exists>t \<in> set (ts_templates (fst s)). te_tenant t = tenant \<and> te_document t = doc \<and> te_filename t = name))"
proof -
  obtain st d st' d' where s: "s = (st, d)" and s': "s' = (st', d')" by (metis surj_pair)
  have "template_inv e (st, d)" using template_files.reach_inv [OF assms(1)] unfolding s .
  then have ok: "sources_ok (set (ts_templates st)) (ts_files st)" and dist: "distinct (map te_id (ts_templates st))"
    unfolding template_inv_def by simp_all
  from run [unfolded s s'] show ?thesis unfolding s fst_conv
  proof (cases rule: process_cases)
    case 1
    with assms(2) show "err \<noteq> Some (StoreError ErrVersionConflict) \<and> (\<forall>name doc. (name, doc) \<in> set (uploads calls) \<longrightarrow>
      (\<exists>t \<in> set (ts_templates st). te_tenant t = tenant \<and> te_document t = doc \<and> te_filename t = name))" by simp
  next
    case (2 f)
    obtain t where "first_row (template_at (fo_tenant f) (fo_template f)) (ts_templates st) = Some t" "te_source t = fo_id f"
      using live_template [OF ok dist 2(1,4)] by blast
    with 2(6) show "err \<noteq> Some (StoreError ErrVersionConflict) \<and> (\<forall>name doc. (name, doc) \<in> set (uploads calls) \<longrightarrow>
      (\<exists>t \<in> set (ts_templates st). te_tenant t = tenant \<and> te_document t = doc \<and> te_filename t = name))" by simp
  next
    case (3 f fid der now)
    have "\<exists>t \<in> set (ts_templates st). te_tenant t = tenant \<and> te_document t = doc \<and> te_filename t = name"
      if up: "(name, doc) \<in> set (uploads calls)" for name doc
    proof -
      have f: "name = fo_filename f" "doc = fo_document f" "\<not> fo_retired f" using uploads_deliver [OF 3(5) up] by simp_all
      obtain t where t: "t \<in> set (ts_templates st)" "live_source t f" using live_template [OF ok dist 3(1) f(3)] by blast
      from t(2) 3(2) f(1,2) have "te_tenant t = tenant" "te_document t = doc" "te_filename t = name"
        unfolding live_source_def by simp_all
      with t(1) show ?thesis by blast
    qed
    with 3(3) show "err \<noteq> Some (StoreError ErrVersionConflict) \<and> (\<forall>name doc. (name, doc) \<in> set (uploads calls) \<longrightarrow>
      (\<exists>t \<in> set (ts_templates st). te_tenant t = tenant \<and> te_document t = doc \<and> te_filename t = name))"
      by (cases der) simp_all
  qed
qed

lemma contains_length: "contains p s \<Longrightarrow> length p \<le> length s"
  by (induction s) (auto simp: is_prefix_append dest!: arg_cong [where f = length])

lemma field_value_spec:
  assumes "field_value admin values f = Inr w"
  shows "if number_field (fl_name f) then w = system_number_pending
    else \<not> contains system_number_pending w \<and> (if fl_locked f \<and> \<not> admin then w = fl_default f
      else rune_count w \<le> 2000 \<and> (w = fl_default f \<or> values (fl_name f) = Some w))"
  using assms by (auto simp: field_value_def Let_def split: if_split_asm option.split_asm)

lemma normalize_fields_keeps:
  "normalize_fields admin values fs acc = Inr v \<Longrightarrow> n \<notin> fl_name ` set fs \<Longrightarrow> v n = acc n"
  by (induction fs arbitrary: acc) (auto simp: res_bind_eq_ok)

lemma normalize_fields_spec:
  "normalize_fields admin values fs acc = Inr v \<Longrightarrow> distinct (map fl_name fs) \<Longrightarrow>
   dom v = dom acc \<union> fl_name ` set fs \<and> (\<forall>f \<in> set fs. \<exists>w. v (fl_name f) = Some w \<and> field_value admin values f = Inr w)"
proof (induction fs arbitrary: acc)
  case (Cons f fs)
  then obtain w where w: "field_value admin values f = Inr w" and
    rest: "normalize_fields admin values fs (acc(fl_name f \<mapsto> w)) = Inr v" by (auto simp: res_bind_eq_ok)
  from Cons.prems(2) have "v (fl_name f) = Some w" using normalize_fields_keeps [OF rest, of "fl_name f"] by simp
  with Cons.IH [OF rest] Cons.prems(2) w show ?case by auto
qed simp

text \<open>The values a template is rendered with cover exactly its fields and nothing else may be supplied. A number field
  holds the marker of the number that is still to come and no other field contains it; a field that is locked holds its default for
  everybody but the template administrators, and any other field holds the supplied value or the default, at most
  2000 characters long.
\<close>

theorem template_values_normalised:
  assumes "distinct (map fl_name fs)" and "normalize_template_values fs values admin = Inr v"
  shows "dom v = fl_name ` set fs \<and> dom values \<subseteq> dom v
    \<and> (\<forall>f \<in> set fs. \<exists>w. v (fl_name f) = Some w
        \<and> (if number_field (fl_name f) then w = system_number_pending
           else \<not> contains system_number_pending w \<and> (if fl_locked f \<and> \<not> admin then w = fl_default f
             else rune_count w \<le> 2000 \<and> (w = fl_default f \<or> values (fl_name f) = Some w))))"
proof -
  from assms(2) have norm: "normalize_fields admin values fs Map.empty = Inr v" and names: "dom values \<subseteq> fl_name ` set fs"
    by (auto simp: normalize_template_values_def res_bind_eq_ok split: if_split_asm)
  note spec = normalize_fields_spec [OF norm assms(1)]
  have "\<exists>w. v (fl_name f) = Some w \<and> (if number_field (fl_name f) then w = system_number_pending
           else \<not> contains system_number_pending w \<and> (if fl_locked f \<and> \<not> admin then w = fl_default f
             else rune_count w \<le> 2000 \<and> (w = fl_default f \<or> values (fl_name f) = Some w)))" if "f \<in> set fs" for f
    using spec that field_value_spec by fast
  with spec names show ?thesis by simp
qed


definition sample_template :: template where
  "sample_template = \<lparr>tp_id = ''p1'', tp_tenant = ''t1'', tp_name = ''n'', tp_filename = ''a.docx'', tp_number_format = [],
     tp_fields = [], tp_content = ''doc'', tp_platform_file = [], tp_gateway_state = [], tp_version = 1, tp_created_at = 0,
     tp_created_by = ''u1''\<rparr>"

definition sample_gateway :: template_gateway where
  "sample_gateway = \<lparr>tw_retire = (\<lambda>_. Inr []), tw_resolve = (\<lambda>_. Inr ([], ''NOT_FOUND'')), tw_release = (\<lambda>_ _ _. None),
     tw_upload = (\<lambda>_ _ _. Inr ''f1''), tw_bind = (\<lambda>_ _ _ _. None)\<rparr>"

definition no_store :: template_tables where
  "no_store = (\<lparr>ts_templates = [], ts_files = []\<rparr>, sample_db [])"

lemma sample_source_created:
  obtains s where "create_template_with_file sample_db_env sample_template no_store = Inr s"
    "reach (no_templates sample_db_env) (template_step sample_db_env) s"
    "map te_source (ts_templates (fst s)) = [''i0'']" "map fo_id (ts_files (fst s)) = [''i0'']"
    "map te_gateway_state (ts_templates (fst s)) = [''PENDING'']"
    "process_template_file sample_db_env (\<lambda>_. True) sample_gateway ''t1'' s = ((True, None,
       [CallResolve ''contract-template-source-i0'', CallUpload ''contract-template-source-i0'' ''a.docx'' ''doc'',
        CallBind ''f1'' ''contract_template_source'' ''i0'' ''a.docx'']), snd (process_template_file sample_db_env (\<lambda>_. True) sample_gateway ''t1'' s))"
proof -
  have zero: "nat_str 0 = ''0''" by (subst nat_str.simps) code_simp
  define f where "f = (new_file_row ''i0'' sample_template 1)"
  obtain st d t where s: "create_template_with_file sample_db_env sample_template no_store = Inr (st, d)"
    "ts_templates st = [t]" "ts_files st = [f]"
    and t: "te_source t = ''i0''" "te_gateway_state t = ''PENDING''" "te_id t = ''p1''" "te_tenant t = ''t1''"
    and tick: "1 \<le> db_tick d"
    by (simp add: create_template_with_file_def create_template_def no_store_def sample_template_def enqueue_template_source_def
        new_id_def read_clock_def insert_row_def insert_template_audit_def insert_audit_def sample_db_def sample_db_env_def sample_ulid_def
        new_file_row_def f_def Let_def zero)
  have f: "fo_id f = ''i0''" "fo_tenant f = ''t1''" "fo_template f = ''p1''" "fo_status f = FilePending" "fo_next_at f = 1"
    "\<not> fo_retired f" "fo_file f = []" "fo_resource_type f = ''contract_template_source''" "fo_resource f = ''i0''"
    "fo_filename f = ''a.docx''" "fo_document f = ''doc''" "fo_upload_attempt f = 0"
    by (simp_all add: f_def new_file_row_def sample_template_def)
  have deliver: "deliver_template_file (\<lambda>_. True) sample_gateway ''t1'' f = (''f1'', None,
       [CallResolve ''contract-template-source-i0'', CallUpload ''contract-template-source-i0'' ''a.docx'' ''doc'',
        CallBind ''f1'' ''contract_template_source'' ''i0'' ''a.docx''])"
    by (simp add: deliver_template_file_def resolve_upload_def upload_and_bind_def sample_gateway_def template_upload_request_id_def
        call_error_def f)
  have run: "process_template_file sample_db_env (\<lambda>_. True) sample_gateway ''t1'' (st, d) = ((True, None,
       [CallResolve ''contract-template-source-i0'', CallUpload ''contract-template-source-i0'' ''a.docx'' ''doc'',
        CallBind ''f1'' ''contract_template_source'' ''i0'' ''a.docx'']),
      snd (process_template_file sample_db_env (\<lambda>_. True) sample_gateway ''t1'' (st, d)))"
    using tick by (simp add: process_template_file_def next_file_def due_file_def template_at_def read_clock_def s(2,3) t f deliver
        sample_db_env_def Let_def)
  have "no_templates sample_db_env no_store"
    by (simp add: no_templates_def no_store_def sample_db_env_def sample_ulid_def)
  then have "reach (no_templates sample_db_env) (template_step sample_db_env) no_store" by (rule reach_init)
  then have "reach (no_templates sample_db_env) (template_step sample_db_env) (st, d)"
    using step_create [OF s(1) [unfolded create_template_with_file_def]] by (rule reach_step)
  from that [OF s(1) this _ _ _ run] show thesis using s(2,3) t f(1) by simp
qed

theorem template_sources_consistent_witness:
  "\<exists>s t f. create_template_with_file sample_db_env sample_template no_store = Inr s
     \<and> ts_templates (fst s) = [t] \<and> ts_files (fst s) = [f] \<and> fo_id f = te_source t \<and> te_gateway_state t \<noteq> ''READY''"
proof -
  obtain s where s: "create_template_with_file sample_db_env sample_template no_store = Inr s"
    "reach (no_templates sample_db_env) (template_step sample_db_env) s"
    "map te_source (ts_templates (fst s)) = [''i0'']" "map fo_id (ts_files (fst s)) = [''i0'']"
    "map te_gateway_state (ts_templates (fst s)) = [''PENDING'']"
    by (rule sample_source_created)
  from s(3) obtain t where t: "ts_templates (fst s) = [t]" "te_source t = ''i0''" by auto
  from s(4) obtain f where f: "ts_files (fst s) = [f]" "fo_id f = ''i0''" by auto
  from template_sources_consistent [OF s(2)] t f have "fo_id f = te_source t" by simp
  with s(1,5) t(1) f(1) show ?thesis by auto
qed

theorem template_delivery_current_witness:
  "\<exists>s t out. create_template_with_file sample_db_env sample_template no_store = Inr s
     \<and> process_template_file sample_db_env (\<lambda>_. True) sample_gateway ''t1'' s = out
     \<and> uploads (snd (snd (fst out))) = [(''a.docx'', ''doc'')] \<and> t \<in> set (ts_templates (fst s)) \<and> te_document t = ''doc''"
proof -
  obtain s where s: "create_template_with_file sample_db_env sample_template no_store = Inr s"
    "reach (no_templates sample_db_env) (template_step sample_db_env) s"
    and run: "process_template_file sample_db_env (\<lambda>_. True) sample_gateway ''t1'' s = ((True, None,
       [CallResolve ''contract-template-source-i0'', CallUpload ''contract-template-source-i0'' ''a.docx'' ''doc'',
        CallBind ''f1'' ''contract_template_source'' ''i0'' ''a.docx'']), snd (process_template_file sample_db_env (\<lambda>_. True) sample_gateway ''t1'' s))"
    by (rule sample_source_created)
  from template_delivery_current [OF s(2) _ run]
  obtain t where "t \<in> set (ts_templates (fst s))" "te_document t = ''doc''" by auto
  with s(1) arg_cong [OF run, of "\<lambda>x. uploads (snd (snd (fst x)))"] show ?thesis by (auto intro!: exI [of _ t])
qed

theorem template_values_normalised_witness:
  "\<exists>v. normalize_template_values [\<lparr>fl_name = ''city'', fl_label = ''City'', fl_default = ''Rome'', fl_locked = True\<rparr>]
     Map.empty False = Inr v \<and> v ''city'' = Some ''Rome''"
proof -
  let ?f = "\<lparr>fl_name = ''city'', fl_label = ''City'', fl_default = ''Rome'', fl_locked = True\<rparr>"
  have "length number_label = 12" "length system_number_label = 18" "length system_number_pending = 48"
    by (simp_all add: number_label_def system_number_label_def system_number_pending_def)
  then have name: "\<not> number_field ''city''" and "\<not> contains system_number_pending []"
    "\<not> contains system_number_pending ''Rome''"
    using contains_length [of system_number_pending "''Rome''"] unfolding number_field_def by (auto simp del: contains.simps(2) dest!: arg_cong [where f = length])
  with name obtain v where run: "normalize_template_values [?f] Map.empty False = Inr v"
    by (simp add: normalize_template_values_def field_value_def Let_def)
  with template_values_normalised [OF _ run] name show ?thesis by simp
qed

end
