(* ===== verification/Contract_Service.thy ===== *)
theory Contract_Service
  imports Catalog Templates Handover
begin

text \<open>
  Creation and editing of drafts in the service: authorisation, shape, references and commercial terms of a contract before
  it is stored (\<^verbatim>\<open>application/service.go\<close>, \<^verbatim>\<open>contract_sources.go\<close>,
  \<^verbatim>\<open>contract_source.go\<close>, \<^verbatim>\<open>crm_references.go\<close>, \<^verbatim>\<open>detection_categories.go\<close> and
  \<^verbatim>\<open>draft.go\<close>). The document functions, the CRM and the project directory are parameters.
\<close>

section \<open>Parameters\<close>

record crm_customer =
  cu_id :: nat
  cu_name :: string
  cu_status :: string

record crm_opportunity =
  cop_id :: nat
  cop_name :: string
  cop_customer :: nat
  cop_status :: string

record crm_reference =
  cr_customer :: crm_customer
  cr_opportunity :: "crm_opportunity option"

datatype crm_failure = CrmActorContextRequired | CrmReferenceInvalid | CrmOtherFailure

record detection_category =
  dc_category :: string
  dc_enabled :: bool

text \<open>
  \<open>cx_validate\<close> is \<^verbatim>\<open>contractdocument.ValidateExternalSource\<close> (\<open>None\<close> its error); \<open>cx_crm\<close> and
  \<open>cx_detection\<close> are \<open>None\<close> when the directory is not configured, and \<open>Some None\<close> is a list that failed.
\<close>

record external_source =
  xs_format :: string
  xs_media_type :: string
  xs_filename :: string
  xs_sha256 :: string
  xs_text :: string

record contract_context =
  cx_docs :: doc_engine
  cx_validate :: "string \<Rightarrow> string \<Rightarrow> string \<Rightarrow> external_source option"
  cx_pdf_enabled :: bool
  cx_options :: "contract_source_options option"
  cx_crm :: "(nat \<Rightarrow> string \<Rightarrow> string \<Rightarrow> crm_failure + crm_reference) option"
  cx_detection :: "detection_category list option option"

section \<open>Authorisation and shape\<close>

definition authorize_contract_write :: "principal \<Rightarrow> contract \<Rightarrow> string \<Rightarrow> contract result" where
  "authorize_contract_write p c permission =
     (case scope p permission of
        None \<Rightarrow> fail ErrForbidden
      | Some f \<Rightarrow>
          let c1 = (if sf_self f then c\<lparr>c_owner_identity_id := pr_identity p\<rparr> else c) in
          if \<not> sf_all f \<and> \<not> sf_self f \<and> \<not> contains_string (sf_orgs f) (c_owner_org_id c1)
             \<and> \<not> contains_string (sf_projects f) (c_project_id c1) then fail ErrForbidden
          else if c_owner_org_id c1 \<noteq> [] \<and> \<not> sf_all f \<and> \<not> contains_string (sf_orgs f) (c_owner_org_id c1) then fail ErrForbidden
          else if c_project_id c1 \<noteq> [] \<and> \<not> sf_all f \<and> \<not> contains_string (sf_projects f) (c_project_id c1) then fail ErrForbidden
          else ok c1)"

definition normalize_system :: "system_info \<Rightarrow> system_info" where
  "normalize_system s = s\<lparr>sys_name := trim_space (sys_name s), sys_level := trim_space (sys_level s)\<rparr>"

definition normalize_external_item :: "service_item \<Rightarrow> service_item" where
  "normalize_external_item i =
     (let kind = trim_space (svc_service_type i); name = trim_space (svc_name i)
      in i\<lparr>svc_source_id := [], svc_service_type := kind, svc_name := (if name = [] then kind else name),
           svc_site := trim_space (svc_site i), svc_batch := trim_space (svc_batch i), svc_category := trim_space (svc_category i),
           svc_requirement := trim_space (svc_requirement i), svc_test_mode := to_upper (trim_space (svc_test_mode i)),
           svc_systems := map normalize_system (svc_systems i)\<rparr>)"

definition normalize_external_service_items :: "service_item list \<Rightarrow> service_item list" where
  "normalize_external_service_items items = map normalize_external_item items"

definition grade :: "nat list \<Rightarrow> string" where "grade bytes = map char_of (bytes @ [0xE7, 0xBA, 0xA7])"

definition system_levels :: "string list" where
  "system_levels = map grade [[0xE4, 0xB8, 0x80], [0xE4, 0xBA, 0x8C], [0xE4, 0xB8, 0x89], [0xE5, 0x9B, 0x9B]]"

definition valid_systems :: "system_info list \<Rightarrow> bool" where
  "valid_systems items \<longleftrightarrow> length items \<le> 15 \<and> list_all (\<lambda>s. sys_name s \<noteq> [] \<and> sys_level s \<in> set system_levels) items"

definition valid_external_service_items :: "service_item list \<Rightarrow> bool" where
  "valid_external_service_items items \<longleftrightarrow> items \<noteq> [] \<and> length items \<le> 20
     \<and> list_all (\<lambda>i. svc_service_type i \<noteq> [] \<and> svc_site i \<noteq> [] \<and> svc_batch i \<noteq> [] \<and> svc_category i \<noteq> []
         \<and> (svc_test_mode i = ''STANDARD'' \<or> svc_test_mode i = ''PENETRATION'') \<and> valid_systems (svc_systems i)) items"

definition valid_service_items :: "service_item list \<Rightarrow> bool" where
  "valid_service_items items \<longleftrightarrow> items \<noteq> [] \<and> length items \<le> 20
     \<and> list_all (\<lambda>i. let mode = to_upper (trim_space (svc_test_mode i)) in
         svc_service_type i \<noteq> [] \<and> valid_systems (svc_systems i) \<and> (mode = [] \<or> mode = ''STANDARD'' \<or> mode = ''PENETRATION'')) items"

definition flattened_systems :: "service_item list \<Rightarrow> system_info list" where
  "flattened_systems items = concat (map svc_systems items)"

definition within :: "nat \<Rightarrow> string \<Rightarrow> bool" where
  "within n s \<longleftrightarrow> rune_count (trim_space s) \<le> n"

definition item_lengths_ok :: "service_item \<Rightarrow> bool" where
  "item_lengths_ok i \<longleftrightarrow> within 64 (svc_service_type i) \<and> within 255 (svc_name i) \<and> within 255 (svc_site i) \<and> within 120 (svc_batch i)
     \<and> within 120 (svc_category i) \<and> within 1000 (svc_requirement i) \<and> list_all (\<lambda>s. within 255 (sys_name s)) (svc_systems i)"

definition contract_lengths_ok :: "contract \<Rightarrow> bool" where
  "contract_lengths_ok c \<longleftrightarrow> within 255 (c_title c) \<and> within 64 (c_type c) \<and> within 64 (c_opportunity_id c)
     \<and> within 255 (c_opportunity_name c) \<and> within 255 (c_customer_name c) \<and> within 500 (c_customer_address c)
     \<and> within 128 (c_customer_contact c) \<and> within 64 (c_customer_phone c) \<and> within 16 (c_credit_level c)
     \<and> within 160 (c_number_format c) \<and> within 26 (c_template_id c) \<and> within 64 (c_project_id c) \<and> within 64 (c_owner_org_id c)
     \<and> list_all item_lengths_ok (c_service_items c) \<and> ran (c_template_values c) \<subseteq> {v. rune_count v \<le> 2000}"

definition validate_contract_text_lengths :: "contract \<Rightarrow> unit result" where
  "validate_contract_text_lengths c = (if contract_lengths_ok c then ok () else fail ErrValidation)"

definition direct_type :: string where "direct_type = map char_of [0xE7, 0x9B, 0xB4, 0xE7, 0xAD, 0xBE :: nat]"

definition third_party_type :: string where "third_party_type = map char_of [0xE4, 0xB8, 0x89, 0xE6, 0x96, 0xB9 :: nat]"

definition trim_contract :: "contract \<Rightarrow> contract" where
  "trim_contract c =
     c\<lparr>c_title := trim_space (c_title c), c_type := trim_space (c_type c), c_opportunity_id := trim_space (c_opportunity_id c),
       c_opportunity_name := trim_space (c_opportunity_name c), c_customer_name := trim_space (c_customer_name c),
       c_customer_address := trim_space (c_customer_address c), c_customer_contact := trim_space (c_customer_contact c),
       c_customer_phone := trim_space (c_customer_phone c)\<rparr>"

definition normalize_contract_shape :: "contract \<Rightarrow> bool \<Rightarrow> contract result" where
  "normalize_contract_shape c0 external =
     (let c1 = trim_contract c0;
          c = (if external then c1\<lparr>c_service_items := normalize_external_service_items (c_service_items c1)\<rparr> else c1) in
      res_bind (validate_contract_text_lengths c) (\<lambda>_.
        let common_invalid = (c_title c = [] \<or> c_type c = [] \<or> c_amount_minor c < 0 \<or> c_content c = [] \<and> c_document c = []) in
        if external
        then if common_invalid \<or> c_template_id c \<noteq> [] \<or> c_type c \<noteq> direct_type \<and> c_type c \<noteq> third_party_type
                \<or> c_amount_minor c \<le> 0 \<or> \<not> valid_external_service_items (c_service_items c) then fail ErrValidation else ok c
        else if common_invalid \<or> c_template_id c = [] \<or> \<not> valid_service_items (c_service_items c)
                \<or> c_opportunity_id c \<noteq> [] \<and> c_crm_customer_id c = 0 then fail ErrValidation else ok c))"

definition upper_letter :: "char \<Rightarrow> bool" where
  "upper_letter ch \<longleftrightarrow> 65 \<le> byte_of ch \<and> byte_of ch \<le> 90"

definition later :: "instant option \<Rightarrow> instant option \<Rightarrow> bool" where
  "later a b = (case (a, b) of (Some x, Some y) \<Rightarrow> y < x | _ \<Rightarrow> False)"

definition finalize_contract_commercials :: "contract \<Rightarrow> contract result" where
  "finalize_contract_commercials c =
     (case c_service_items c of
        [] \<Rightarrow> fail ErrValidation
      | i # _ \<Rightarrow>
          let currency = to_upper (trim_space (if c_currency c = [] then ''CNY'' else c_currency c)) in
          if later (c_start_date c) (c_end_date c) then fail ErrValidation
          else if length currency \<noteq> 3 \<or> \<not> list_all upper_letter currency then fail ErrValidation
          else res_bind (validation_error (normalize_payment_terms (terms_list (c_payment_terms c)) (c_amount_minor c) currency))
            (\<lambda>terms. ok (c\<lparr>c_service_type := svc_service_type i, c_systems := flattened_systems (c_service_items c),
               c_currency := currency, c_payment_terms := Some terms,
               c_number_format := (if c_number_format c = [] then default_number_format else c_number_format c)\<rparr>)))"

section \<open>References\<close>

text \<open>\<^verbatim>\<open>strconv.ParseUint(value, 10, 64)\<close>.\<close>

definition parse_uint64 :: "string \<Rightarrow> nat option" where
  "parse_uint64 s = (if s \<noteq> [] \<and> list_all is_digit s \<and> digits_val s < 2 ^ 64 then Some (digits_val s) else None)"

definition valid_optional_crm_id :: "string \<Rightarrow> bool" where
  "valid_optional_crm_id s \<longleftrightarrow> s = [] \<or> (case parse_uint64 s of None \<Rightarrow> False | Some n \<Rightarrow> 0 < n)"

definition counterparty_local :: string where "counterparty_local = ''LOCAL''"

definition counterparty_crm :: string where "counterparty_crm = ''CRM''"

definition category_local :: string where "category_local = ''LOCAL''"

definition category_project :: string where "category_project = ''PROJECT''"

definition integration_not_applicable :: string where "integration_not_applicable = ''NOT_APPLICABLE''"

definition reference_types_ok :: "contract \<Rightarrow> bool" where
  "reference_types_ok c \<longleftrightarrow>
     (let local = (c_counterparty_source c = counterparty_local) in
      (c_counterparty_source c = [] \<or> c_counterparty_source c = counterparty_crm \<or> local)
      \<and> (c_category_source c = [] \<or> c_category_source c = category_project \<or> c_category_source c = category_local)
      \<and> \<not> (c_counterparty_source c = counterparty_crm \<and> c_crm_customer_id c = 0)
      \<and> \<not> (\<not> local \<and> (c_local_counterparty_id c \<noteq> [] \<or> c_counterparty_version c \<noteq> 0))
      \<and> \<not> (local \<and> (c_crm_customer_id c \<noteq> 0 \<or> c_opportunity_id c \<noteq> [] \<or> c_opportunity_name c \<noteq> [])))"

definition validate_contract_reference_types :: "contract \<Rightarrow> unit result" where
  "validate_contract_reference_types c = (if reference_types_ok c then ok () else fail ErrValidation)"

definition validate_local_source_options :: "contract \<Rightarrow> contract_source_options option \<Rightarrow> contract_source_options result" where
  "validate_local_source_options c so =
     (case so of
        None \<Rightarrow> fail ErrContractSourceConflict
      | Some opts \<Rightarrow>
          if (c_counterparty_source c = counterparty_local \<and> so_counterparty opts \<noteq> ''local'')
             \<or> (c_category_source c = category_local \<and> so_category opts \<noteq> ''local'') then fail ErrContractSourceConflict
          else if so_project_integration opts \<or> so_settlement_integration opts \<or> so_crm_link opts then fail ErrContractSourceConflict
          else if \<not> so_catalog opts then fail ErrLocalCatalogUnavailable else ok opts)"

definition crm_opportunity_ok :: "nat \<Rightarrow> string \<Rightarrow> crm_reference \<Rightarrow> bool" where
  "crm_opportunity_ok customer opportunity r =
     (if opportunity = [] then cr_opportunity r = None
      else case (parse_uint64 opportunity, cr_opportunity r) of
        (Some n, Some x) \<Rightarrow> n \<noteq> 0 \<and> cop_id x = n \<and> cop_customer x = customer \<and> trim_space (cop_name x) \<noteq> [] \<and> cop_status x \<noteq> ''VOID''
      | _ \<Rightarrow> False)"

definition validate_external_crm_reference ::
  "contract_context \<Rightarrow> nat \<Rightarrow> string \<Rightarrow> string \<Rightarrow> crm_reference result" where
  "validate_external_crm_reference cx customer opportunity identity =
     (case cx_crm cx of
        None \<Rightarrow> fail ErrCRMReferenceDirectoryUnavailable
      | Some resolve \<Rightarrow>
          (case resolve customer opportunity identity of
             Inl CrmActorContextRequired \<Rightarrow> fail ErrCRMActorContextRequired
           | Inl CrmReferenceInvalid \<Rightarrow> fail ErrValidation
           | Inl CrmOtherFailure \<Rightarrow> fail ErrCRMReferenceDirectoryUnavailable
           | Inr r \<Rightarrow>
               if cu_id (cr_customer r) \<noteq> customer \<or> cu_status (cr_customer r) \<noteq> ''ACTIVE''
                  \<or> trim_space (cu_name (cr_customer r)) = [] then fail ErrValidation
               else if \<not> crm_opportunity_ok customer opportunity r then fail ErrValidation
               else ok r))"

text \<open>A local source has passed \<open>validate_local_source_options\<close>, so its options are present.\<close>

definition resolve_counterparty_reference ::
  "contract_context \<Rightarrow> principal \<Rightarrow> contract \<Rightarrow> bool \<Rightarrow> scope_filter \<Rightarrow> contract_source_options option \<Rightarrow> catalog \<Rightarrow> contract result" where
  "resolve_counterparty_reference cx p c external f opts cat =
     (if c_counterparty_source c = counterparty_local then
        if c_local_counterparty_id c = [] \<or> c_counterparty_version c = 0 then fail ErrValidation
        else case opts of None \<Rightarrow> fail ErrContractSourceConflict | Some so \<Rightarrow>
          res_bind (local_counterparty_reference so p f (c_local_counterparty_id c) cat) (\<lambda>v.
          if lcp_tenant v \<noteq> pr_tenant p \<or> lcp_id v \<noteq> c_local_counterparty_id c \<or> \<not> lcp_enabled v
             \<or> lcp_version v \<noteq> c_counterparty_version c \<or> trim_space (lcp_name v) = [] then fail ErrLocalReferenceInvalid
          else ok (c\<lparr>c_customer_name := lcp_name v\<rparr>))
      else if \<not> external \<and> c_crm_customer_id c = 0 \<and> c_opportunity_id c = [] \<and> terms_list (c_payment_terms c) = [] then ok c
      else if external \<and> (c_crm_customer_id c = 0 \<or> c_customer_name c = []
              \<or> (c_opportunity_id c = []) \<noteq> (c_opportunity_name c = []) \<or> \<not> valid_optional_crm_id (c_opportunity_id c)) then fail ErrValidation
      else if c_crm_customer_id c = 0 \<or> \<not> valid_optional_crm_id (c_opportunity_id c) then fail ErrValidation
      else res_bind (validate_external_crm_reference cx (c_crm_customer_id c) (c_opportunity_id c) (pr_identity p)) (\<lambda>r.
        ok (c\<lparr>c_customer_name := trim_space (cu_name (cr_customer r)),
              c_opportunity_name := (case cr_opportunity r of None \<Rightarrow> [] | Some x \<Rightarrow> trim_space (cop_name x))\<rparr>)))"

fun local_categories ::
  "contract_source_options \<Rightarrow> principal \<Rightarrow> scope_filter \<Rightarrow> catalog \<Rightarrow> service_item list \<Rightarrow> service_item list result" where
  "local_categories opts p f cat [] = ok []"
| "local_categories opts p f cat (i # is) =
     (if svc_category_id i = [] \<or> svc_category_version i = 0 then fail ErrValidation
      else res_bind (local_category_reference opts p f (svc_category_id i) cat) (\<lambda>v.
        if lcg_tenant v \<noteq> sf_tenant f \<or> lcg_id v \<noteq> svc_category_id i \<or> \<not> lcg_enabled v \<or> lcg_version v \<noteq> svc_category_version i
        then fail ErrLocalReferenceInvalid
        else res_bind (local_categories opts p f cat is) (\<lambda>js. ok (i\<lparr>svc_category := lcg_name v\<rparr> # js))))"

fun enabled_categories :: "string list \<Rightarrow> detection_category list \<Rightarrow> detection_category list" where
  "enabled_categories seen [] = []"
| "enabled_categories seen (x # xs) =
     (let category = trim_space (dc_category x) in
      if \<not> dc_enabled x \<or> category = [] \<or> category \<in> set seen then enabled_categories seen xs
      else \<lparr>dc_category = category, dc_enabled = True\<rparr> # enabled_categories (category # seen) xs)"

definition enabled_detection_categories :: "contract_context \<Rightarrow> detection_category list result" where
  "enabled_detection_categories cx =
     (case cx_detection cx of
        Some (Some items) \<Rightarrow> ok (sort_key dc_category (enabled_categories [] items))
      | _ \<Rightarrow> fail ErrDetectionCategoryDirectoryUnavailable)"

definition list_detection_categories :: "contract_context \<Rightarrow> principal \<Rightarrow> detection_category list result" where
  "list_detection_categories cx p =
     (if scope p ''contract.create'' = None then fail ErrForbidden else enabled_detection_categories cx)"

definition validate_external_detection_categories :: "contract_context \<Rightarrow> string list \<Rightarrow> unit result" where
  "validate_external_detection_categories cx items =
     res_bind (enabled_detection_categories cx) (\<lambda>categories.
       if list_all (\<lambda>v. trim_space v \<in> set (map dc_category categories)) items then ok () else fail ErrValidation)"

definition resolve_contract_categories ::
  "contract_context \<Rightarrow> principal \<Rightarrow> contract \<Rightarrow> bool \<Rightarrow> scope_filter \<Rightarrow> contract_source_options option \<Rightarrow> catalog \<Rightarrow> contract result" where
  "resolve_contract_categories cx p c external f opts cat =
     (if c_category_source c = category_local
      then (case opts of None \<Rightarrow> fail ErrContractSourceConflict | Some so \<Rightarrow>
        res_bind (local_categories so p f cat (c_service_items c)) (\<lambda>items. ok (c\<lparr>c_service_items := items\<rparr>)))
      else if list_ex (\<lambda>i. svc_category_id i \<noteq> [] \<or> svc_category_version i \<noteq> 0) (c_service_items c) then fail ErrValidation
      else if external
      then res_bind (validate_external_detection_categories cx (map svc_category (c_service_items c))) (\<lambda>_. ok c)
      else ok c)"

definition prepare_contract_references ::
  "contract_context \<Rightarrow> principal \<Rightarrow> contract \<Rightarrow> bool \<Rightarrow> string \<Rightarrow> catalog \<Rightarrow> contract result" where
  "prepare_contract_references cx p c0 external permission cat =
     (case contract_scope p permission of
        None \<Rightarrow> fail ErrForbidden
      | Some f \<Rightarrow>
          res_bind (validate_contract_reference_types c0) (\<lambda>_.
          res_bind
            (if c_counterparty_source c0 = counterparty_local \<or> c_category_source c0 = category_local
             then res_bind (validate_local_source_options c0 (cx_options cx)) (\<lambda>opts.
               res_bind (if scope p ''contract.catalog.manage'' = None
                         then res_bind (local_catalog_visibility opts p) (\<lambda>_. ok ()) else ok ()) (\<lambda>_.
                 ok (c0\<lparr>c_integration_policy := integration_not_applicable\<rparr>)))
             else ok c0) (\<lambda>c1.
          res_bind (resolve_counterparty_reference cx p c1 external f (cx_options cx) cat) (\<lambda>c2.
            resolve_contract_categories cx p c2 external f (cx_options cx) cat))))"

section \<open>Drafts\<close>

definition prepare_contract ::
  "contract_context \<Rightarrow> env \<Rightarrow> principal \<Rightarrow> contract \<Rightarrow> bool \<Rightarrow> string \<Rightarrow> template_store \<Rightarrow> catalog \<Rightarrow> contract result" where
  "prepare_contract cx e p c0 external permission ts cat =
     res_bind (authorize_contract_write p c0 permission) (\<lambda>c1.
     res_bind
       (if \<not> external \<and> c_template_id c1 \<noteq> []
        then res_bind (render_template_for_permission (cx_docs cx) p permission (c_template_id c1) (c_template_values c1)
               (Some (c_amount_minor c1)) ts) (\<lambda>(rendered, normalized).
          res_bind (validation_error (env_doc_text e rendered)) (\<lambda>text.
          res_bind (get_template (pr_tenant p) (c_template_id c1) ts) (\<lambda>item.
            ok (c1\<lparr>c_template_values := normalized, c_document := rendered, c_content := text,
                   c_number_format := tp_number_format item\<rparr>))))
        else ok c1) (\<lambda>c2.
     res_bind (normalize_contract_shape c2 external) (\<lambda>c3.
     res_bind (prepare_contract_references cx p c3 external permission cat) finalize_contract_commercials)))"

definition source_gateway_metadata :: "contract \<Rightarrow> string \<times> string \<times> string" where
  "source_gateway_metadata c =
     (if c_document_format c = ''PDF''
      then (''CONTRACT_EXTERNAL_PDF_SOURCE'', if c_source_filename c = [] then ''external-contract.pdf'' else c_source_filename c,
            ''application/pdf'')
      else (''CONTRACT_EXTERNAL_SOURCE'', if trim_space (c_source_filename c) = [] then ''external-contract.docx'' else c_source_filename c,
            ''application/vnd.openxmlformats-officedocument.wordprocessingml.document''))"

definition content_hash :: "env \<Rightarrow> contract \<Rightarrow> string" where
  "content_hash e c = env_sha256 e (if c_document c \<noteq> [] then c_document c else c_content c)"

definition upload_source :: "service \<Rightarrow> contract \<Rightarrow> bool \<Rightarrow> contract result" where
  "upload_source sv c external =
     (case sv_gateway sv of
        Some gw \<Rightarrow>
          if external \<and> \<not> file_mode sv ''legacy''
          then let (purpose, filename, media) = source_gateway_metadata c in
            (case fg_upload gw (''contract-external-'' @ c_id c) (sv_file_app sv) purpose filename media (c_document c) of
               Inl _ \<Rightarrow> if file_mode sv ''required'' then fail err_gateway else ok (c\<lparr>c_source_file_status := ''FAILED''\<rparr>)
             | Inr fid \<Rightarrow> ok (c\<lparr>c_source_file_id := fid, c_source_file_status := ''PENDING''\<rparr>))
          else ok c
      | None \<Rightarrow> ok c)"

definition bind_source :: "service \<Rightarrow> contract \<Rightarrow> bool \<Rightarrow> db \<Rightarrow> contract \<times> db" where
  "bind_source sv c external d =
     (case sv_gateway sv of
        Some gw \<Rightarrow>
          if external \<and> c_source_file_id c \<noteq> []
          then let (_, filename, _) = source_gateway_metadata c;
                   r = fg_bind gw (sv_file_app sv) (c_source_file_id c) ''contract'' (c_id c) ''EXTERNAL_SOURCE'' filename;
                   (state, detail) = (case r of None \<Rightarrow> (''READY'', []) | Some m \<Rightarrow> (''FAILED'', m))
               in (c\<lparr>c_source_file_status := state\<rparr>,
                   mark_contract_source_result (c_tenant_id c) (c_id c) (c_source_file_id c) state detail d)
          else (c, d)
      | None \<Rightarrow> (c, d))"

definition persist_new_contract ::
  "service \<Rightarrow> env \<Rightarrow> principal \<Rightarrow> contract \<Rightarrow> bool \<Rightarrow> scope_filter \<Rightarrow> db \<Rightarrow> (contract \<times> db) result" where
  "persist_new_contract sv e p c0 external f d =
     res_bind (check_business_license sv 1) (\<lambda>_.
       let (i, d1) = new_id e d;
           c1 = c0\<lparr>c_id := i, c_tenant_id := pr_tenant p, c_owner_user_id := pr_user p, c_owner_name := pr_display_name p,
                   c_status := StatusDraft, c_created_by := pr_user p, c_number := [],
                   c_owner_identity_id := (if c_owner_identity_id c0 = [] \<and> sf_all f then pr_identity p else c_owner_identity_id c0),
                   c_content_hash := content_hash e c0\<rparr> in
       res_bind (upload_source sv c1 external) (\<lambda>c2.
       res_bind (check_business_license sv 2) (\<lambda>_.
       res_bind (create_contract e c2 (pr_user p) d1) (\<lambda>d2.
         let (c3, d3) = bind_source sv c2 external d2 in ok (c3\<lparr>c_version := 1\<rparr>, d3)))))"

definition create_contract_for ::
  "service \<Rightarrow> contract_context \<Rightarrow> env \<Rightarrow> principal \<Rightarrow> contract \<Rightarrow> bool \<Rightarrow> template_store \<Rightarrow> catalog \<Rightarrow> db \<Rightarrow> (contract \<times> db) result" where
  "create_contract_for sv cx e p c0 external ts cat d =
     res_bind (check_business_license sv 0) (\<lambda>_.
     res_bind (prepare_contract cx e p c0 external ''contract.create'' ts cat) (\<lambda>c.
     res_bind (ensure_owner_not_frozen (sv_freeze_wired sv) d (pr_tenant p) (pr_user p)) (\<lambda>_.
       case scope p ''contract.create'' of
         None \<Rightarrow> fail ErrForbidden
       | Some f \<Rightarrow> persist_new_contract sv e p c external f d)))"

definition prepare_external_source :: "contract_context \<Rightarrow> contract \<Rightarrow> contract result" where
  "prepare_external_source cx c =
     (let name = (if c_source_filename c = [] then ''external-contract.docx'' else c_source_filename c) in
      case cx_validate cx name (c_source_media_type c) (c_document c) of
        None \<Rightarrow> fail ErrValidation
      | Some x \<Rightarrow>
          if xs_format x = ''PDF'' \<and> \<not> cx_pdf_enabled cx then fail ErrValidation
          else if c_document_format c \<noteq> [] \<and> c_document_format c \<noteq> xs_format x then fail ErrValidation
          else ok (c\<lparr>c_document_format := xs_format x, c_source_media_type := xs_media_type x, c_source_filename := xs_filename x,
                     c_source_sha256 := xs_sha256 x, c_content := xs_text x\<rparr>))"

definition create_external_contract ::
  "service \<Rightarrow> contract_context \<Rightarrow> env \<Rightarrow> principal \<Rightarrow> contract \<Rightarrow> template_store \<Rightarrow> catalog \<Rightarrow> db \<Rightarrow> (contract \<times> db) result" where
  "create_external_contract sv cx e p c ts cat d =
     (if scope p ''contract.create'' = None then fail ErrForbidden
      else if c_template_id c \<noteq> [] \<or> c_template_values c \<noteq> Map.empty \<or> c_document c = [] then fail ErrValidation
      else res_bind (prepare_external_source cx c) (\<lambda>c1. create_contract_for sv cx e p c1 True ts cat d))"

fun draft_source_ids :: "string list \<Rightarrow> string list \<Rightarrow> service_item list \<Rightarrow> bool" where
  "draft_source_ids owned seen [] = True"
| "draft_source_ids owned seen (i # is) =
     (if svc_source_id i \<noteq> [] \<and> (svc_source_id i \<notin> set owned \<or> svc_source_id i \<in> set seen) then False
      else draft_source_ids owned (svc_source_id i # seen) is)"

definition owned_source_ids :: "contract \<Rightarrow> string list" where
  "owned_source_ids c = filter (\<lambda>s. s \<noteq> []) (map svc_source_id (c_service_items c))"

definition draft_counterparty_source :: "contract \<Rightarrow> contract \<Rightarrow> string result" where
  "draft_counterparty_source current input =
     (if c_counterparty_source current = counterparty_local
      then let src = (if c_counterparty_source input = [] then c_counterparty_source current else c_counterparty_source input)
           in if src \<noteq> counterparty_local then fail ErrContractSourceConflict else ok src
      else if c_counterparty_source input = counterparty_local then fail ErrContractSourceConflict
      else ok (c_counterparty_source input))"

definition draft_category_source :: "contract \<Rightarrow> contract \<Rightarrow> string result" where
  "draft_category_source current input =
     (let src = (if c_category_source current = category_local \<and> c_category_source input = [] then c_category_source current
                 else c_category_source input)
      in if c_category_source current \<noteq> src \<and> (c_category_source current = category_local \<or> src = category_local)
         then fail ErrContractSourceConflict else ok src)"

definition draft_payment_terms :: "contract \<Rightarrow> contract \<Rightarrow> payment_term list option result" where
  "draft_payment_terms current input =
     (case c_payment_terms input of
        Some terms \<Rightarrow> ok (Some terms)
      | None \<Rightarrow>
          if terms_list (c_payment_terms current) \<noteq> []
             \<and> \<not> equal_fold (trim_space (c_currency input)) (trim_space (c_currency current)) then fail ErrValidation
          else ok (c_payment_terms current))"

definition freeze_external_source :: "contract \<Rightarrow> contract \<Rightarrow> contract result" where
  "freeze_external_source current input =
     (if c_amount_minor input \<noteq> c_amount_minor current
         \<or> to_upper (trim_space (c_currency input)) \<noteq> to_upper (c_currency current) then fail ErrValidation
      else if c_content input \<noteq> [] \<and> c_content input \<noteq> c_content current then fail ErrValidation
      else if c_template_values input \<noteq> Map.empty then fail ErrValidation
      else ok (input\<lparr>c_content := c_content current, c_document := c_document current,
             c_document_format := c_document_format current, c_source_media_type := c_source_media_type current,
             c_source_filename := c_source_filename current, c_source_sha256 := c_source_sha256 current\<rparr>))"

definition keep_identity :: "contract \<Rightarrow> contract \<Rightarrow> contract" where
  "keep_identity current c =
     c\<lparr>c_id := c_id current, c_tenant_id := c_tenant_id current, c_number := c_number current,
       c_number_format := c_number_format current, c_owner_identity_id := c_owner_identity_id current,
       c_owner_org_id := c_owner_org_id current, c_project_id := c_project_id current, c_owner_user_id := c_owner_user_id current,
       c_owner_name := c_owner_name current, c_created_at := c_created_at current, c_created_by := c_created_by current,
       c_status := c_status current, c_source_file_id := c_source_file_id current, c_source_file_status := c_source_file_status current,
       c_paper_number := c_paper_number current, c_origin_kind := c_origin_kind current, c_import_mode := c_import_mode current,
       c_origin_item_id := c_origin_item_id current, c_import_policy := c_import_policy current\<rparr>"

definition draft_input :: "contract \<Rightarrow> contract \<Rightarrow> contract result" where
  "draft_input current input =
     (if c_number input \<noteq> [] \<or> c_template_id input \<noteq> c_template_id current then fail ErrValidation
      else if \<not> draft_source_ids (owned_source_ids current) [] (c_service_items input) then fail ErrValidation
      else res_bind (draft_counterparty_source current input) (\<lambda>counterparty.
        res_bind (draft_category_source current input) (\<lambda>category.
        res_bind (draft_payment_terms current input) (\<lambda>terms.
          let c = input\<lparr>c_counterparty_source := counterparty, c_category_source := category,
                        c_owner_identity_id := c_owner_identity_id current, c_owner_org_id := c_owner_org_id current,
                        c_project_id := c_project_id current, c_payment_terms := terms\<rparr>
          in if c_template_id current = [] then freeze_external_source current c else ok c))))"

definition update_contract_draft_for ::
  "service \<Rightarrow> contract_context \<Rightarrow> env \<Rightarrow> principal \<Rightarrow> string \<Rightarrow> nat \<Rightarrow> contract \<Rightarrow> template_store \<Rightarrow> catalog \<Rightarrow> db \<Rightarrow>
     (contract \<times> db) result" where
  "update_contract_draft_for sv cx e p cid expected input ts cat d =
     res_bind (check_business_license sv 0) (\<lambda>_.
       case scope p ''contract.edit'' of
         None \<Rightarrow> fail ErrForbidden
       | Some f \<Rightarrow>
           res_bind (get_contract_scoped d f cid) (\<lambda>current.
             if \<not> operational_origin current then fail ErrImportCorrectionRequired
             else if \<not> draft_actor_allowed p current then fail ErrForbidden
             else if c_status current \<noteq> StatusDraft then fail ErrStateConflict
             else if expected = 0 then fail ErrValidation
             else if expected \<noteq> c_version current then fail ErrVersionConflict
             else res_bind (draft_input current input) (\<lambda>c.
               res_bind (prepare_contract cx e p c (c_template_id current = []) ''contract.edit'' ts cat) (\<lambda>c1.
                 let c2 = keep_identity current c1;
                     c3 = c2\<lparr>c_content_hash := content_hash e c2\<rparr> in
                 res_bind (check_business_license sv 1) (\<lambda>_.
                 res_bind (update_contract_draft e c3 expected (pr_user p) d) (\<lambda>d1.
                   let (now, d2) = read_clock e d1; c4 = c3\<lparr>c_version := expected + 1, c_updated_at := now\<rparr>
                   in ok (c4\<lparr>c_can_edit_draft := can_edit_draft p c4\<rparr>, d2)))))))"


section \<open>What preparation guarantees\<close>

definition contract_ready :: "bool \<Rightarrow> contract \<Rightarrow> bool" where
  "contract_ready external c \<longleftrightarrow>
     c_title c \<noteq> [] \<and> rune_count (c_title c) \<le> 255 \<and> c_type c \<noteq> []
     \<and> (if external then c_template_id c = [] \<and> 0 < c_amount_minor c else c_template_id c \<noteq> [] \<and> 0 \<le> c_amount_minor c)
     \<and> c_service_items c \<noteq> [] \<and> length (c_service_items c) \<le> 20
     \<and> list_all (\<lambda>i. svc_service_type i \<noteq> [] \<and> valid_systems (svc_systems i)) (c_service_items c)
     \<and> c_service_type c = svc_service_type (hd (c_service_items c)) \<and> c_systems c = concat (map svc_systems (c_service_items c))
     \<and> length (c_currency c) = 3 \<and> list_all upper_letter (c_currency c) \<and> \<not> later (c_start_date c) (c_end_date c)
     \<and> (\<exists>terms. c_payment_terms c = Some terms \<and> normalize_payment_terms terms (c_amount_minor c) (c_currency c) = Inr terms)
     \<and> c_number_format c \<noteq> []
     \<and> (c_counterparty_source c = counterparty_local \<longrightarrow>
          c_crm_customer_id c = 0 \<and> c_opportunity_id c = [] \<and> c_integration_policy c = integration_not_applicable)"


text \<open>The parts of a contract that no step of the preparation touches once its shape is checked.\<close>

definition kept :: "contract \<Rightarrow> contract \<Rightarrow> bool" where
  "kept a b \<longleftrightarrow> c_title a = c_title b \<and> c_type a = c_type b \<and> c_template_id a = c_template_id b \<and> c_amount_minor a = c_amount_minor b
     \<and> c_counterparty_source a = c_counterparty_source b \<and> c_category_source a = c_category_source b
     \<and> c_content a = c_content b \<and> c_document a = c_document b \<and> c_source_sha256 a = c_source_sha256 b
     \<and> c_currency a = c_currency b \<and> c_payment_terms a = c_payment_terms b \<and> c_number_format a = c_number_format b
     \<and> c_start_date a = c_start_date b \<and> c_end_date a = c_end_date b \<and> c_crm_customer_id a = c_crm_customer_id b
     \<and> c_opportunity_id a = c_opportunity_id b"

lemma kept_refl: "kept c c" by (simp add: kept_def)

lemma kept_trans: "kept a b \<Longrightarrow> kept b c \<Longrightarrow> kept a c" by (simp add: kept_def)

lemma keptD:
  assumes "kept a b"
  shows "c_title b = c_title a" "c_type b = c_type a" "c_template_id b = c_template_id a" "c_amount_minor b = c_amount_minor a"
    "c_counterparty_source b = c_counterparty_source a" "c_category_source b = c_category_source a"
    "c_content b = c_content a" "c_document b = c_document a" "c_source_sha256 b = c_source_sha256 a"
    "c_currency b = c_currency a" "c_payment_terms b = c_payment_terms a" "c_number_format b = c_number_format a"
    "c_start_date b = c_start_date a" "c_end_date b = c_end_date a" "c_crm_customer_id b = c_crm_customer_id a"
    "c_opportunity_id b = c_opportunity_id a"
  using assms by (simp_all add: kept_def)

definition item_like :: "service_item \<Rightarrow> service_item \<Rightarrow> bool" where
  "item_like i j \<longleftrightarrow> svc_service_type j = svc_service_type i \<and> svc_systems j = svc_systems i \<and> svc_source_id j = svc_source_id i"

lemma item_like_refl: "list_all2 item_like is is"
  by (simp add: list_all2_same item_like_def)

lemma local_categories_like:
  "local_categories so p f cat is = Inr js \<Longrightarrow> list_all2 item_like is js"
  by (induction "is" arbitrary: js) (auto simp: res_bind_eq_ok item_like_def split: if_split_asm)

lemma item_like_map:
  assumes "list_all2 item_like is js"
  shows "map svc_service_type js = map svc_service_type is" "map svc_systems js = map svc_systems is"
    "map svc_source_id js = map svc_source_id is" "length js = length is"
  using assms by (induction rule: list_all2_induct) (auto simp: item_like_def)

lemma authorized_kept:
  assumes "authorize_contract_write p c permission = Inr c'"
  shows "kept c c'" "c_service_items c' = c_service_items c"
  using assms by (auto simp: authorize_contract_write_def kept_def Let_def split: option.split_asm if_split_asm)

lemma counterparty_kept:
  assumes "resolve_counterparty_reference cx p c external f opts cat = Inr c'"
  shows "kept c c'" "c_service_items c' = c_service_items c" "c_integration_policy c' = c_integration_policy c"
  using assms unfolding resolve_counterparty_reference_def
  by (auto simp: kept_def res_bind_eq_ok split: if_split_asm option.split_asm)

lemma categories_kept:
  assumes "resolve_contract_categories cx p c external f opts cat = Inr c'"
  shows "kept c c'" "list_all2 item_like (c_service_items c) (c_service_items c')" "c_integration_policy c' = c_integration_policy c"
  using assms unfolding resolve_contract_categories_def
  by (auto simp: kept_def res_bind_eq_ok item_like_refl dest: local_categories_like split: if_split_asm option.split_asm)

lemma references_kept:
  assumes "prepare_contract_references cx p c external permission cat = Inr c'"
  shows "kept c c'" "list_all2 item_like (c_service_items c) (c_service_items c')" "reference_types_ok c"
    "c_counterparty_source c = counterparty_local \<Longrightarrow> c_integration_policy c' = integration_not_applicable"
proof -
  let ?local = "c_counterparty_source c = counterparty_local \<or> c_category_source c = category_local"
  from assms obtain f where f: "contract_scope p permission = Some f"
    by (auto simp: prepare_contract_references_def split: option.split_asm)
  note run = assms [unfolded prepare_contract_references_def f option.case]
  from run show types: "reference_types_ok c" by (auto simp: validate_contract_reference_types_def res_bind_eq_ok split: if_split_asm)
  from run obtain c1 c2 where
    c1: "c1 = (if ?local then c\<lparr>c_integration_policy := integration_not_applicable\<rparr> else c)"
    and c2: "resolve_counterparty_reference cx p c1 external f (cx_options cx) cat = Inr c2"
    and c': "resolve_contract_categories cx p c2 external f (cx_options cx) cat = Inr c'"
    by (cases ?local) (auto simp: res_bind_eq_ok simp del: res_bind_simps)
  have "kept c c1" "c_service_items c1 = c_service_items c" by (simp_all add: c1 kept_def)
  then show "kept c c'" "list_all2 item_like (c_service_items c) (c_service_items c')"
    using counterparty_kept [OF c2] categories_kept [OF c'] by (auto intro: kept_trans)
  show "c_integration_policy c' = integration_not_applicable" if "c_counterparty_source c = counterparty_local"
    using that counterparty_kept(3) [OF c2] categories_kept(3) [OF c'] by (simp add: c1)
qed

lemma shape_ok:
  assumes "normalize_contract_shape c0 external = Inr c"
  shows "c_title c \<noteq> []" "rune_count (c_title c) \<le> 255" "c_type c \<noteq> []" "c_service_items c \<noteq> []" "length (c_service_items c) \<le> 20"
    "list_all (\<lambda>i. svc_service_type i \<noteq> [] \<and> valid_systems (svc_systems i)) (c_service_items c)"
    "if external then c_template_id c = [] \<and> 0 < c_amount_minor c else c_template_id c \<noteq> [] \<and> 0 \<le> c_amount_minor c"
    "c_service_items c = (if external then normalize_external_service_items (c_service_items c0) else c_service_items c0)"
proof -
  define c1 where "c1 = (if external then (trim_contract c0)\<lparr>c_service_items := normalize_external_service_items (c_service_items (trim_contract c0))\<rparr>
    else trim_contract c0)"
  have c: "c = c1" and len: "contract_lengths_ok c1"
    using assms unfolding normalize_contract_shape_def c1_def [symmetric] Let_def
    by (auto simp: validate_contract_text_lengths_def res_bind_eq_ok split: if_split_asm)
  have title: "c_title c1 = trim_space (c_title c0)" by (simp add: c1_def trim_contract_def)
  show "rune_count (c_title c) \<le> 255" using len by (simp add: c contract_lengths_ok_def within_def title)
  show "c_service_items c = (if external then normalize_external_service_items (c_service_items c0) else c_service_items c0)"
    by (simp add: c c1_def trim_contract_def)
  show "c_title c \<noteq> []" "c_type c \<noteq> []" "c_service_items c \<noteq> []" "length (c_service_items c) \<le> 20"
    "list_all (\<lambda>i. svc_service_type i \<noteq> [] \<and> valid_systems (svc_systems i)) (c_service_items c)"
    "if external then c_template_id c = [] \<and> 0 < c_amount_minor c else c_template_id c \<noteq> [] \<and> 0 \<le> c_amount_minor c"
    using assms unfolding normalize_contract_shape_def c1_def [symmetric] Let_def c
    by (auto simp: res_bind_eq_ok valid_external_service_items_def valid_service_items_def list_all_iff Let_def split: if_split_asm)
qed

lemma plan_stable:
  assumes "normalize_payment_terms terms amount currency = Inr res"
  shows "normalize_payment_terms res amount currency = Inr res"
proof (cases "terms = []")
  case True
  with assms show ?thesis by (simp add: normalize_payment_terms_def)
next
  case False
  show ?thesis using normalize_payment_terms_ok [OF assms False] by (intro normalize_payment_terms_normal) auto
qed

lemma finalized_ok:
  assumes "finalize_contract_commercials c = Inr c'"
  obtains i items terms currency where "c_service_items c = i # items" "currency = to_upper (trim_space (if c_currency c = [] then ''CNY'' else c_currency c))"
    "length currency = 3" "list_all upper_letter currency" "\<not> later (c_start_date c) (c_end_date c)"
    "normalize_payment_terms terms (c_amount_minor c) currency = Inr terms"
    "c' = c\<lparr>c_service_type := svc_service_type i, c_systems := flattened_systems (c_service_items c), c_currency := currency,
       c_payment_terms := Some terms, c_number_format := (if c_number_format c = [] then default_number_format else c_number_format c)\<rparr>"
proof -
  obtain i items where items: "c_service_items c = i # items"
    using assms by (auto simp: finalize_contract_commercials_def split: list.split_asm)
  define currency where "currency = to_upper (trim_space (if c_currency c = [] then ''CNY'' else c_currency c))"
  note run = assms [unfolded finalize_contract_commercials_def items list.case Let_def currency_def [symmetric]]
  from run have ok: "\<not> later (c_start_date c) (c_end_date c)" "length currency = 3" "list_all upper_letter currency"
    by (auto split: if_split_asm)
  from run ok obtain terms where terms: "normalize_payment_terms (terms_list (c_payment_terms c)) (c_amount_minor c) currency = Inr terms"
    "c' = c\<lparr>c_service_type := svc_service_type i, c_systems := flattened_systems (i # items), c_currency := currency,
       c_payment_terms := Some terms, c_number_format := (if c_number_format c = [] then default_number_format else c_number_format c)\<rparr>"
    by (auto simp: res_bind_eq_ok validation_error_def split: sum.split_asm)
  show thesis
    by (rule that [OF items currency_def ok(2,3,1) plan_stable [OF terms(1)]]) (simp add: terms(2) items)
qed

text \<open>The template step of the preparation fills in the document of a template contract.\<close>

lemma prepared_steps:
  assumes "prepare_contract cx e p c0 external permission ts cat = Inr c"
  obtains c1 c2 c3 c4 where "authorize_contract_write p c0 permission = Inr c1"
    "external \<or> c_template_id c1 = [] \<longrightarrow> c2 = c1"
    "c_service_items c2 = c_service_items c1" "c_template_id c2 = c_template_id c1" "c_amount_minor c2 = c_amount_minor c1"
    "c_counterparty_source c2 = c_counterparty_source c1" "c_category_source c2 = c_category_source c1"
    "c_currency c2 = c_currency c1"
    "normalize_contract_shape c2 external = Inr c3" "prepare_contract_references cx p c3 external permission cat = Inr c4"
    "finalize_contract_commercials c4 = Inr c"
proof -
  note run = assms [unfolded prepare_contract_def]
  from run obtain c1 where c1: "authorize_contract_write p c0 permission = Inr c1" by (auto simp: res_bind_eq_ok)
  show thesis
  proof (cases "\<not> external \<and> c_template_id c1 \<noteq> []")
    case False
    then have "(if \<not> external \<and> c_template_id c1 \<noteq> [] then x else ok c1) = ok c1" for x :: "contract result" by (simp only: if_False)
    from run [unfolded c1 res_bind_simps this] obtain c3 c4 where "normalize_contract_shape c1 external = Inr c3"
      "prepare_contract_references cx p c3 external permission cat = Inr c4" "finalize_contract_commercials c4 = Inr c"
      by (auto simp: res_bind_eq_ok simp del: res_bind_simps)
    then show thesis using that [OF c1, of c1 c3 c4] by simp
  next
    case True
    then have "(if \<not> external \<and> c_template_id c1 \<noteq> [] then x else ok c1) = x" for x :: "contract result" by simp
    from run [unfolded c1 res_bind_simps this] obtain rendered normalized body fmt c3 c4 where steps:
      "normalize_contract_shape (c1\<lparr>c_template_values := normalized, c_document := rendered, c_content := body,
          c_number_format := fmt\<rparr>) external = Inr c3"
      "prepare_contract_references cx p c3 external permission cat = Inr c4" "finalize_contract_commercials c4 = Inr c"
      by (auto simp: res_bind_eq_ok simp del: res_bind_simps)
    with True show thesis by (intro that [OF c1 _ _ _ _ _ _ _ steps]) simp_all
  qed
qed

lemma shape_keeps:
  assumes "normalize_contract_shape c0 external = Inr c"
  shows "c_template_id c = c_template_id c0" "c_amount_minor c = c_amount_minor c0" "c_currency c = c_currency c0"
    "c_counterparty_source c = c_counterparty_source c0" "c_category_source c = c_category_source c0"
    "c_content c = c_content c0" "c_document c = c_document c0" "c_source_sha256 c = c_source_sha256 c0"
  using assms by (auto simp: normalize_contract_shape_def trim_contract_def Let_def res_bind_eq_ok split: if_split_asm)

lemma default_format_nonempty: "default_number_format \<noteq> []"
  by (simp add: default_number_format_def)

lemma prepared_contract_ready:
  assumes "prepare_contract cx e p c0 external permission ts cat = Inr c"
  shows "contract_ready external c"
proof -
  obtain c2 c3 c4 where shape: "normalize_contract_shape c2 external = Inr c3"
    and refs: "prepare_contract_references cx p c3 external permission cat = Inr c4" and final: "finalize_contract_commercials c4 = Inr c"
    using assms by (rule prepared_steps)
  note s = shape_ok [OF shape] and r = references_kept [OF refs]
  note k = keptD [OF r(1)] and i = item_like_map [OF r(2)]
  obtain j items terms currency where items: "c_service_items c4 = j # items" and cur: "length currency = 3" "list_all upper_letter currency"
    and dates: "\<not> later (c_start_date c4) (c_end_date c4)"
    and terms: "normalize_payment_terms terms (c_amount_minor c4) currency = Inr terms"
    and c: "c = c4\<lparr>c_service_type := svc_service_type j, c_systems := flattened_systems (c_service_items c4), c_currency := currency,
       c_payment_terms := Some terms, c_number_format := (if c_number_format c4 = [] then default_number_format else c_number_format c4)\<rparr>"
    by (rule finalized_ok [OF final])
  have all: "list_all (\<lambda>i. svc_service_type i \<noteq> [] \<and> valid_systems (svc_systems i)) (c_service_items c4)"
  proof -
    have "list_all (\<lambda>x. x \<noteq> []) (map svc_service_type (c_service_items c4)) \<and> list_all valid_systems (map svc_systems (c_service_items c4))"
      using s(6) unfolding i by (simp add: list_all_iff)
    then show ?thesis by (simp add: list_all_iff)
  qed
  have local: "c_crm_customer_id c4 = 0 \<and> c_opportunity_id c4 = [] \<and> c_integration_policy c4 = integration_not_applicable"
    if "c_counterparty_source c4 = counterparty_local"
    using r(3,4) that unfolding reference_types_ok_def k by (simp add: Let_def)
  have len: "length (c_service_items c4) \<le> 20" using s(5) i(4) by simp
  show ?thesis
    unfolding contract_ready_def c
    using s(1-3,7) len all local items cur dates terms default_format_nonempty by (simp add: k flattened_systems_def)
qed

section \<open>Properties\<close>

text \<open>C12: A contract that passes the preparation is complete: its title is present and at most 255 characters long, it has one to
  twenty service items with at most fifteen graded systems each, its service type and systems are those of the items, its
  currency has three capital letters, its dates are in order, its payment plan is one that is accepted again unchanged for its
  amount, an external contract has an amount and no template and any other contract has a template, and a local counterparty
  carries no customer or opportunity of the CRM and is kept out of the integrations.\<close>

theorem prepared_contract_complete:
  assumes "prepare_contract cx e p c0 external permission ts cat = Inr c"
  shows "contract_ready external c"
  by (rule prepared_contract_ready [OF assms])

lemma external_items_no_ids: "map svc_source_id (normalize_external_service_items is) = map (\<lambda>_. []) is"
  by (induction "is") (simp_all add: normalize_external_service_items_def normalize_external_item_def Let_def)

lemma prepared_keeps:
  assumes "prepare_contract cx e p c0 external permission ts cat = Inr c"
  shows "c_template_id c = c_template_id c0" "c_amount_minor c = c_amount_minor c0"
    "c_counterparty_source c = c_counterparty_source c0" "c_category_source c = c_category_source c0"
    "external \<Longrightarrow> c_content c = c_content c0 \<and> c_document c = c_document c0 \<and> c_source_sha256 c = c_source_sha256 c0"
    "c_currency c = to_upper (trim_space (if c_currency c0 = [] then ''CNY'' else c_currency c0))"
    "map svc_source_id (c_service_items c) = (if external then map (\<lambda>_. []) (c_service_items c0) else map svc_source_id (c_service_items c0))"
proof -
  obtain c1 c2 c3 c4 where auth: "authorize_contract_write p c0 permission = Inr c1" and plain: "external \<or> c_template_id c1 = [] \<longrightarrow> c2 = c1"
    and c2: "c_service_items c2 = c_service_items c1" "c_template_id c2 = c_template_id c1" "c_amount_minor c2 = c_amount_minor c1"
      "c_counterparty_source c2 = c_counterparty_source c1" "c_category_source c2 = c_category_source c1" "c_currency c2 = c_currency c1"
    and shape: "normalize_contract_shape c2 external = Inr c3"
    and refs: "prepare_contract_references cx p c3 external permission cat = Inr c4" and final: "finalize_contract_commercials c4 = Inr c"
    using assms by (rule prepared_steps)
  note k1 = keptD [OF authorized_kept(1) [OF auth]] and k3 = shape_keeps [OF shape] and k4 = keptD [OF references_kept(1) [OF refs]]
  obtain j items terms currency where "c_service_items c4 = j # items" and cur: "currency = to_upper (trim_space (if c_currency c4 = [] then ''CNY'' else c_currency c4))"
    and c: "c = c4\<lparr>c_service_type := svc_service_type j, c_systems := flattened_systems (c_service_items c4), c_currency := currency,
       c_payment_terms := Some terms, c_number_format := (if c_number_format c4 = [] then default_number_format else c_number_format c4)\<rparr>"
    by (rule finalized_ok [OF final])
  show "c_template_id c = c_template_id c0" "c_amount_minor c = c_amount_minor c0"
    "c_counterparty_source c = c_counterparty_source c0" "c_category_source c = c_category_source c0"
    "c_currency c = to_upper (trim_space (if c_currency c0 = [] then ''CNY'' else c_currency c0))"
    by (simp_all add: c cur k1 k3 k4 c2)
  show "c_content c = c_content c0 \<and> c_document c = c_document c0 \<and> c_source_sha256 c = c_source_sha256 c0" if external
    using plain that by (simp add: c k1 k3 k4)
  have "map svc_source_id (c_service_items c) = map svc_source_id (c_service_items c3)"
    using item_like_map(3) [OF references_kept(2) [OF refs]] by (simp add: c)
  then show "map svc_source_id (c_service_items c) = (if external then map (\<lambda>_. []) (c_service_items c0) else map svc_source_id (c_service_items c0))"
    using shape_ok(8) [OF shape] by (simp add: external_items_no_ids c2 authorized_kept(2) [OF auth])
qed

lemma draft_source_ids_ok:
  "draft_source_ids owned seen is \<Longrightarrow>
     distinct (filter (\<lambda>s. s \<noteq> []) (map svc_source_id is)) \<and> set (filter (\<lambda>s. s \<noteq> []) (map svc_source_id is)) \<subseteq> set owned - set seen"
  by (induction owned seen "is" rule: draft_source_ids.induct) (auto split: if_split_asm)

lemma frozen_source:
  assumes "freeze_external_source current input = Inr c"
  shows "c_amount_minor c = c_amount_minor current" "to_upper (trim_space (c_currency c)) = to_upper (c_currency current)"
    "c_content c = c_content current" "c_document c = c_document current" "c_source_sha256 c = c_source_sha256 current"
    "c_template_id c = c_template_id input" "c_service_items c = c_service_items input"
    "c_counterparty_source c = c_counterparty_source input" "c_category_source c = c_category_source input"
  using assms by (auto simp: freeze_external_source_def split: if_split_asm)

lemma draft_input_ok:
  assumes "draft_input current input = Inr c"
  shows "c_template_id c = c_template_id current" "c_service_items c = c_service_items input"
    "c_counterparty_source c = counterparty_local \<longleftrightarrow> c_counterparty_source current = counterparty_local"
    "c_category_source c = category_local \<longleftrightarrow> c_category_source current = category_local"
    "draft_source_ids (owned_source_ids current) [] (c_service_items c)"
    "c_template_id current = [] \<Longrightarrow> c_amount_minor c = c_amount_minor current
       \<and> to_upper (trim_space (c_currency c)) = to_upper (c_currency current) \<and> c_content c = c_content current
       \<and> c_document c = c_document current \<and> c_source_sha256 c = c_source_sha256 current"
proof -
  from assms obtain party kind terms where ids: "draft_source_ids (owned_source_ids current) [] (c_service_items input)"
    and same: "c_template_id input = c_template_id current"
    and party: "draft_counterparty_source current input = Inr party" and kind: "draft_category_source current input = Inr kind"
    by (auto simp: draft_input_def res_bind_eq_ok split: if_split_asm)
  from assms ids same party kind obtain terms where
    "(let c1 = input\<lparr>c_counterparty_source := party, c_category_source := kind, c_owner_identity_id := c_owner_identity_id current,
        c_owner_org_id := c_owner_org_id current, c_project_id := c_project_id current, c_payment_terms := terms\<rparr>
      in if c_template_id current = [] then freeze_external_source current c1 else ok c1) = Inr c"
    by (auto simp: draft_input_def res_bind_eq_ok split: if_split_asm)
  then consider "c_template_id current = []" "freeze_external_source current (input\<lparr>c_counterparty_source := party, c_category_source := kind,
        c_owner_identity_id := c_owner_identity_id current, c_owner_org_id := c_owner_org_id current,
        c_project_id := c_project_id current, c_payment_terms := terms\<rparr>) = Inr c"
    | "c_template_id current \<noteq> []" "c = input\<lparr>c_counterparty_source := party, c_category_source := kind,
        c_owner_identity_id := c_owner_identity_id current, c_owner_org_id := c_owner_org_id current,
        c_project_id := c_project_id current, c_payment_terms := terms\<rparr>"
    by (auto simp: Let_def split: if_split_asm)
  then have fields: "c_template_id c = c_template_id input \<and> c_service_items c = c_service_items input
      \<and> c_counterparty_source c = party \<and> c_category_source c = kind"
    and frozen: "c_template_id current = [] \<Longrightarrow> c_amount_minor c = c_amount_minor current
       \<and> to_upper (trim_space (c_currency c)) = to_upper (c_currency current) \<and> c_content c = c_content current
       \<and> c_document c = c_document current \<and> c_source_sha256 c = c_source_sha256 current"
    by (cases; simp add: frozen_source)+
  show "c_template_id c = c_template_id current" "c_service_items c = c_service_items input"
    "draft_source_ids (owned_source_ids current) [] (c_service_items c)" using fields same ids by simp_all
  show "c_counterparty_source c = counterparty_local \<longleftrightarrow> c_counterparty_source current = counterparty_local"
    using fields party by (auto simp: draft_counterparty_source_def Let_def split: if_split_asm)
  show "c_category_source c = category_local \<longleftrightarrow> c_category_source current = category_local"
    using fields kind by (auto simp: draft_category_source_def Let_def split: if_split_asm)
  show "c_amount_minor c = c_amount_minor current
       \<and> to_upper (trim_space (c_currency c)) = to_upper (c_currency current) \<and> c_content c = c_content current
       \<and> c_document c = c_document current \<and> c_source_sha256 c = c_source_sha256 current" if "c_template_id current = []"
    by (rule frozen [OF that])
qed

lemma keep_identity_simps:
  "c_template_id (keep_identity current c) = c_template_id c" "c_amount_minor (keep_identity current c) = c_amount_minor c"
  "c_currency (keep_identity current c) = c_currency c" "c_content (keep_identity current c) = c_content c"
  "c_document (keep_identity current c) = c_document c" "c_source_sha256 (keep_identity current c) = c_source_sha256 c"
  "c_counterparty_source (keep_identity current c) = c_counterparty_source c" "c_category_source (keep_identity current c) = c_category_source c"
  "c_service_items (keep_identity current c) = c_service_items c" "c_id (keep_identity current c) = c_id current"
  "c_tenant_id (keep_identity current c) = c_tenant_id current" "c_number (keep_identity current c) = c_number current"
  "c_owner_user_id (keep_identity current c) = c_owner_user_id current" "c_created_by (keep_identity current c) = c_created_by current"
  "c_owner_identity_id (keep_identity current c) = c_owner_identity_id current" "c_status (keep_identity current c) = c_status current"
  "c_origin_kind (keep_identity current c) = c_origin_kind current"
  by (simp_all add: keep_identity_def)

lemma draft_update_steps:
  assumes "update_contract_draft_for sv cx e p cid expected input ts cat d = Inr (c, d')"
  obtains f current c0 c1 h now flag where "scope p ''contract.edit'' = Some f" "get_contract_scoped d f cid = Inr current"
    "operational_origin current" "draft_actor_allowed p current" "c_status current = StatusDraft" "c_version current = expected"
    "draft_input current input = Inr c0" "prepare_contract cx e p c0 (c_template_id current = []) ''contract.edit'' ts cat = Inr c1"
    "c = (keep_identity current c1)\<lparr>c_content_hash := h, c_version := expected + 1, c_updated_at := now, c_can_edit_draft := flag\<rparr>"
proof -
  from assms obtain f where f: "scope p ''contract.edit'' = Some f"
    by (auto simp: update_contract_draft_for_def res_bind_eq_ok split: option.split_asm)
  note run = assms [unfolded update_contract_draft_for_def f option.case]
  from run obtain current where current: "get_contract_scoped d f cid = Inr current" by (auto simp: res_bind_eq_ok)
  from run current have ok: "operational_origin current" "draft_actor_allowed p current" "c_status current = StatusDraft" "c_version current = expected"
    by (auto simp: res_bind_eq_ok split: if_split_asm)
  from run current ok obtain c0 c1 where steps: "draft_input current input = Inr c0"
    "prepare_contract cx e p c0 (c_template_id current = []) ''contract.edit'' ts cat = Inr c1"
    by (auto simp: res_bind_eq_ok split: if_split_asm)
  from run current ok steps obtain h now flag where
    "c = (keep_identity current c1)\<lparr>c_content_hash := h, c_version := expected + 1, c_updated_at := now, c_can_edit_draft := flag\<rparr>"
    by (auto simp: res_bind_eq_ok read_clock_def Let_def split: if_split_asm)
  with f current ok steps show thesis by (rule that)
qed

text \<open>C13: A draft can be edited only by somebody with the edit scope who may edit this draft, while it is an ordinary draft at the
  version he saw. The edit keeps its identity, owner, creator, template and the kind of its sources, and reuses a service id
  only once and only if the draft has it. The text, document and digest of an external draft stay those of its file, and with
  them its amount and currency.\<close>

theorem draft_edit_keeps_source:
  assumes "update_contract_draft_for sv cx e p cid expected input ts cat d = Inr (c, d')"
  shows "\<exists>f current. scope p ''contract.edit'' = Some f \<and> get_contract_scoped d f cid = Inr current
    \<and> operational_origin current \<and> draft_actor_allowed p current \<and> c_status current = StatusDraft \<and> c_version current = expected
    \<and> c_version c = expected + 1 \<and> c_status c = StatusDraft \<and> c_id c = c_id current \<and> c_tenant_id c = c_tenant_id current
    \<and> c_number c = c_number current \<and> c_owner_user_id c = c_owner_user_id current \<and> c_created_by c = c_created_by current
    \<and> c_template_id c = c_template_id current
    \<and> (c_counterparty_source c = counterparty_local \<longleftrightarrow> c_counterparty_source current = counterparty_local)
    \<and> (c_category_source c = category_local \<longleftrightarrow> c_category_source current = category_local)
    \<and> distinct (filter (\<lambda>s. s \<noteq> []) (map svc_source_id (c_service_items c)))
    \<and> set (filter (\<lambda>s. s \<noteq> []) (map svc_source_id (c_service_items c))) \<subseteq> svc_source_id ` set (c_service_items current)
    \<and> (c_template_id current = [] \<longrightarrow> c_content c = c_content current \<and> c_document c = c_document current
         \<and> c_source_sha256 c = c_source_sha256 current \<and> c_amount_minor c = c_amount_minor current
         \<and> (to_upper (c_currency current) = [] \<or> c_currency c = to_upper (c_currency current)))"
proof -
  obtain f current c0 c1 h now flag where guards: "scope p ''contract.edit'' = Some f" "get_contract_scoped d f cid = Inr current"
    "operational_origin current" "draft_actor_allowed p current" "c_status current = StatusDraft" "c_version current = expected"
    and input: "draft_input current input = Inr c0"
    and prep: "prepare_contract cx e p c0 (c_template_id current = []) ''contract.edit'' ts cat = Inr c1"
    and c: "c = (keep_identity current c1)\<lparr>c_content_hash := h, c_version := expected + 1, c_updated_at := now, c_can_edit_draft := flag\<rparr>"
    by (rule draft_update_steps [OF assms])
  note i = draft_input_ok [OF input] and k = prepared_keeps [OF prep]
  have ids: "map svc_source_id (c_service_items c) = (if c_template_id current = [] then map (\<lambda>_. []) (c_service_items c0)
      else map svc_source_id (c_service_items c0))" using k(7) by (simp add: c keep_identity_simps)
  have "distinct (filter (\<lambda>s. s \<noteq> []) (map svc_source_id (c_service_items c)))"
    "set (filter (\<lambda>s. s \<noteq> []) (map svc_source_id (c_service_items c))) \<subseteq> svc_source_id ` set (c_service_items current)"
    using draft_source_ids_ok [OF i(5)] unfolding ids by (auto simp: owned_source_ids_def)
  moreover have "c_content c = c_content current \<and> c_document c = c_document current \<and> c_source_sha256 c = c_source_sha256 current
      \<and> c_amount_minor c = c_amount_minor current \<and> (to_upper (c_currency current) = [] \<or> c_currency c = to_upper (c_currency current))"
    if "c_template_id current = []"
    using i(6) [OF that] k(2,6) k(5) [OF that] by (auto simp: c keep_identity_simps)
  ultimately show ?thesis
    using guards i(1,3,4) k(1,3,4) by (intro exI [of _ f] exI [of _ current]) (simp add: c keep_identity_simps)
qed

lemma contract_ready_simps:
  "contract_ready external (c\<lparr>c_id := a, c_tenant_id := b, c_owner_user_id := x1, c_owner_name := x2, c_status := x3,
     c_created_by := x4, c_number := x5, c_owner_identity_id := x6, c_content_hash := x7\<rparr>) = contract_ready external c"
  "contract_ready external (c\<lparr>c_source_file_status := s\<rparr>) = contract_ready external c"
  "contract_ready external (c\<lparr>c_source_file_id := t\<rparr>) = contract_ready external c"
  "contract_ready external (c\<lparr>c_version := v\<rparr>) = contract_ready external c"
  by (simp_all add: contract_ready_def)

definition own_draft :: "principal \<Rightarrow> contract \<Rightarrow> bool" where
  "own_draft p c \<longleftrightarrow> c_tenant_id c = pr_tenant p \<and> c_owner_user_id c = pr_user p \<and> c_created_by c = pr_user p
     \<and> c_status c = StatusDraft \<and> c_number c = []"

lemma upload_source_keeps:
  assumes "upload_source sv c external = Inr c'"
  shows "own_draft p c' = own_draft p c" "contract_ready external c' = contract_ready external c" "c_id c' = c_id c"
    "c_amount_minor c' = c_amount_minor c"
  using assms by (auto simp: upload_source_def own_draft_def contract_ready_simps Let_def
      split: option.split_asm if_split_asm prod.split_asm sum.split_asm)

lemma bind_source_keeps:
  assumes "bind_source sv c external d = (c', d')"
  shows "own_draft p c' = own_draft p c" "contract_ready external c' = contract_ready external c" "c_id c' = c_id c"
    "c_amount_minor c' = c_amount_minor c"
    "find_contract d t i = Some r \<Longrightarrow> \<exists>r'. find_contract d' t i = Some r' \<and> ct_status r' = ct_status r \<and> ct_number r' = ct_number r
       \<and> ct_owner r' = ct_owner r \<and> ct_amount r' = ct_amount r \<and> ct_version r' = ct_version r"
proof -
  show "own_draft p c' = own_draft p c" "contract_ready external c' = contract_ready external c" "c_id c' = c_id c"
    "c_amount_minor c' = c_amount_minor c"
    using assms by (auto simp: bind_source_def own_draft_def contract_ready_simps Let_def split: option.split_asm if_split_asm prod.split_asm)
  assume found: "find_contract d t i = Some r"
  consider "d' = d" | fid state detail where "d' = mark_contract_source_result (c_tenant_id c) (c_id c) fid state detail d"
    using assms by (auto simp: bind_source_def Let_def split: option.split_asm if_split_asm prod.split_asm)
  then show "\<exists>r'. find_contract d' t i = Some r' \<and> ct_status r' = ct_status r \<and> ct_number r' = ct_number r
       \<and> ct_owner r' = ct_owner r \<and> ct_amount r' = ct_amount r \<and> ct_version r' = ct_version r"
  proof cases
    case 1
    with found show ?thesis by simp
  next
    case 2
    have "find_contract d' t i = map_option (\<lambda>x. if contract_at (c_tenant_id c) (c_id c) x then x\<lparr>ct_source_file_id := trim_space fid,
        ct_source_file_status := trim_space state, ct_source_file_error := trim_space (take 512 detail)\<rparr> else x) (find_contract d t i)"
      unfolding find_contract_def 2 mark_contract_source_result_def
      by (simp add: find_update contract_at_def)
    with found show ?thesis by simp
  qed
qed

text \<open>A contract that is created is a complete draft without a number that belongs to the user who creates it; that user
  is not frozen for a hand-over, and the database then holds its row as version 1 with the same owner and amount.\<close>

theorem created_contract_is_own_draft:
  assumes "create_contract_for sv cx e p c0 external ts cat d = Inr (c, d')"
  shows "own_draft p c \<and> contract_ready external c \<and> c_version c = 1
    \<and> ensure_owner_not_frozen (sv_freeze_wired sv) d (pr_tenant p) (pr_user p) = Inr ()
    \<and> (\<exists>r. find_contract d' (pr_tenant p) (c_id c) = Some r \<and> ct_status r = StatusDraft \<and> ct_number r = None
         \<and> ct_owner r = pr_user p \<and> ct_amount r = c_amount_minor c \<and> ct_version r = 1)"
proof -
  from assms obtain c1 f where prep: "prepare_contract cx e p c0 external ''contract.create'' ts cat = Inr c1"
    and free: "ensure_owner_not_frozen (sv_freeze_wired sv) d (pr_tenant p) (pr_user p) = Inr ()"
    and persist: "persist_new_contract sv e p c1 external f d = Inr (c, d')"
    by (auto simp: create_contract_for_def res_bind_eq_ok split: option.split_asm)
  obtain i d1 where i: "new_id e d = (i, d1)" by fastforce
  define c2 where "c2 = c1\<lparr>c_id := i, c_tenant_id := pr_tenant p, c_owner_user_id := pr_user p, c_owner_name := pr_display_name p,
     c_status := StatusDraft, c_created_by := pr_user p, c_number := [],
     c_owner_identity_id := (if c_owner_identity_id c1 = [] \<and> sf_all f then pr_identity p else c_owner_identity_id c1),
     c_content_hash := content_hash e c1\<rparr>"
  from persist obtain c3 d2 where up: "upload_source sv c2 external = Inr c3" and create: "create_contract e c3 (pr_user p) d1 = Inr d2"
    and "(c, d') = ((fst (bind_source sv c3 external d2))\<lparr>c_version := 1\<rparr>, snd (bind_source sv c3 external d2))"
    unfolding persist_new_contract_def i Let_def prod.case case_prod_beta by (auto simp: res_bind_eq_ok c2_def)
  then obtain c4 where bound: "bind_source sv c3 external d2 = (c4, d')" and c: "c = c4\<lparr>c_version := 1\<rparr>"
    by (cases "bind_source sv c3 external d2") simp
  note ready = prepared_contract_ready [OF prep]
  have "own_draft p c2" "contract_ready external c2" using ready by (simp_all add: c2_def own_draft_def contract_ready_simps)
  then have c3: "own_draft p c3" "contract_ready external c3" using upload_source_keeps [OF up] by simp_all
  then have c4: "own_draft p c4" "contract_ready external c4" "c_id c4 = c_id c3" "c_amount_minor c4 = c_amount_minor c3"
    using bind_source_keeps(1-4) [OF bound] by simp_all
  obtain r where source: "apply_contract_source c3 (new_contract_row c3 (pr_user p) (env_clock e (db_tick d1))) = Inr r"
    and found: "find_contract d2 (c_tenant_id c3) (c_id c3) = Some r"
    using create_contract_ok [OF create] by metis
  have "ct_status r = StatusDraft \<and> ct_number r = None \<and> ct_owner r = pr_user p \<and> ct_amount r = c_amount_minor c3 \<and> ct_version r = 1"
    using source c3(1) by (auto simp: apply_contract_source_def new_contract_row_def own_draft_def string_ptr_def Let_def split: option.split_asm)
  with bind_source_keeps(5) [OF bound found] c3(1) c4 show ?thesis
    using free by (auto simp: c own_draft_def contract_ready_simps)
qed


section \<open>Samples\<close>

definition sample_external_item :: service_item where
  "sample_external_item = \<lparr>svc_category_id = [], svc_category_version = 0, svc_source_id = [], svc_name = ''audit'',
     svc_service_type = ''audit'', svc_site = ''s'', svc_batch = ''b'', svc_category = ''c'', svc_requirement = [],
     svc_test_mode = ''STANDARD'', svc_systems = []\<rparr>"

definition sample_external :: contract where
  "sample_external = (contract_from_record sample_contract)\<lparr>c_id := [], c_tenant_id := [], c_title := ''title'', c_type := direct_type,
     c_service_items := [sample_external_item], c_customer_name := ''customer'',
     c_payment_terms := Some []\<rparr>"

definition sample_context :: contract_context where
  "sample_context = \<lparr>cx_docs = \<lparr>de_fields = (\<lambda>_. None), de_render = (\<lambda>_ _. None), de_preview = (\<lambda>_. None)\<rparr>,
     cx_validate = (\<lambda>_ _ _. None), cx_pdf_enabled = False, cx_options = None,
     cx_crm = Some (\<lambda>_ _ _. Inr \<lparr>cr_customer = \<lparr>cu_id = 7, cu_name = ''customer'', cu_status = ''ACTIVE''\<rparr>, cr_opportunity = None\<rparr>),
     cx_detection = Some (Some [\<lparr>dc_category = ''c'', dc_enabled = True\<rparr>])\<rparr>"

lemma sample_external_simps:
  "c_title sample_external = ''title''" "c_type sample_external = direct_type" "c_opportunity_id sample_external = []"
  "c_opportunity_name sample_external = []" "c_customer_name sample_external = ''customer''" "c_customer_address sample_external = []"
  "c_customer_contact sample_external = []" "c_customer_phone sample_external = []" "c_service_items sample_external = [sample_external_item]"
  "c_credit_level sample_external = []" "c_number_format sample_external = []" "c_template_id sample_external = []"
  "c_project_id sample_external = []" "c_owner_org_id sample_external = []" "c_template_values sample_external = Map.empty"
  "c_content sample_external = ''text''" "c_amount_minor sample_external = 100" "c_currency sample_external = ''CNY''"
  "c_start_date sample_external = None" "c_payment_terms sample_external = Some []" "c_counterparty_source sample_external = ''CRM''"
  "c_category_source sample_external = []" "c_crm_customer_id sample_external = 7" "c_local_counterparty_id sample_external = []"
  "c_counterparty_version sample_external = 0" "c_number sample_external = []" "c_document sample_external = []"
  by (simp_all add: sample_external_def contract_from_record_def read_contract_source_def sample_contract_def json_or_def uint_value_or_zero_def)

lemma direct_type_trim: "trim_space direct_type = direct_type" "length direct_type = 6"
  by code_simp+

lemma within_short: "length s \<le> n \<Longrightarrow> within n s"
  unfolding within_def using rune_count_le [of "trim_space s"] trim_space_length [of s] by linarith

lemma capital_upper: "byte_of c < 97 \<Longrightarrow> upper_char c = c"
  by (simp add: upper_char_def)

lemma sample_item_normal: "normalize_external_item sample_external_item = sample_external_item"
  by (simp add: normalize_external_item_def sample_external_item_def trim_plain byte_of_def Let_def capital_upper)

lemma sample_trimmed: "trim_contract sample_external = sample_external"
  by (rule contract.equality) (simp_all add: trim_contract_def sample_external_simps direct_type_trim trim_plain byte_of_def)

lemma sample_shape: "normalize_contract_shape sample_external True = Inr sample_external"
proof -
  have items: "sample_external\<lparr>c_service_items := normalize_external_service_items (c_service_items sample_external)\<rparr> = sample_external"
    by (rule contract.equality) (simp_all add: normalize_external_service_items_def sample_external_simps sample_item_normal)
  have "contract_lengths_ok sample_external"
    by (simp add: contract_lengths_ok_def sample_external_simps within_short direct_type_trim item_lengths_ok_def sample_external_item_def)
  then show ?thesis
    unfolding normalize_contract_shape_def sample_trimmed Let_def items if_True
    by (simp add: validate_contract_text_lengths_def sample_external_simps valid_external_service_items_def sample_external_item_def
        valid_systems_def) (simp add: direct_type_def)
qed

lemma sample_scope:
  "scope seller permission = Some \<lparr>sf_tenant = ''t1'', sf_identity = ''i1'', sf_orgs = [''o1''], sf_projects = [], sf_all = True, sf_self = False\<rparr>"
  by (simp add: scope_def has_def seller_def)

lemma sample_references:
  "prepare_contract_references sample_context seller sample_external True permission cat = Inr sample_external"
proof -
  obtain f where f: "contract_scope seller permission = Some f"
    by (cases "contract_scope seller permission") (auto simp: contract_scope_def sample_scope split: if_split_asm)
  have crm: "validate_external_crm_reference sample_context 7 [] identity = ok \<lparr>cr_customer = \<lparr>cu_id = 7, cu_name = ''customer'',
      cu_status = ''ACTIVE''\<rparr>, cr_opportunity = None\<rparr>" for identity
    by (simp add: validate_external_crm_reference_def sample_context_def crm_opportunity_ok_def trim_plain byte_of_def)
  have same: "sample_external\<lparr>c_customer_name := ''customer'', c_opportunity_name := []\<rparr> = sample_external"
    by (rule contract.equality) (simp_all add: sample_external_simps)
  have categories: "validate_external_detection_categories sample_context [''c''] = ok ()"
    by (simp add: validate_external_detection_categories_def enabled_detection_categories_def sample_context_def trim_plain byte_of_def
        sort_key_def)
  show ?thesis
    unfolding prepare_contract_references_def f option.case
    by (simp add: validate_contract_reference_types_def reference_types_ok_def sample_external_simps counterparty_local_def
        counterparty_crm_def category_local_def category_project_def resolve_counterparty_reference_def valid_optional_crm_id_def crm
        trim_plain byte_of_def same resolve_contract_categories_def sample_external_item_def categories)
qed

definition sample_complete :: contract where
  "sample_complete = sample_external\<lparr>c_service_type := ''audit'', c_systems := [], c_currency := ''CNY'', c_payment_terms := Some [],
     c_number_format := default_number_format\<rparr>"

lemma sample_final: "finalize_contract_commercials sample_external = Inr sample_complete"
  by (simp add: finalize_contract_commercials_def sample_external_simps sample_external_item_def Let_def capital_upper trim_plain byte_of_def
      later_def upper_letter_def normalize_payment_terms_def validation_error_def flattened_systems_def sample_complete_def)

lemma sample_authorized: "authorize_contract_write seller sample_external permission = Inr sample_external"
  by (simp add: authorize_contract_write_def sample_scope)

lemma sample_prepared: "prepare_contract sample_context e seller sample_external True permission ts cat = Inr sample_complete"
  by (simp add: prepare_contract_def sample_authorized sample_shape sample_references sample_final)

theorem prepared_contract_complete_witness:
  "prepare_contract sample_context sample_db_env seller sample_external True ''contract.create''
       \<lparr>ts_templates = [], ts_files = []\<rparr> empty_catalog = Inr sample_complete
     \<and> c_service_type sample_complete = ''audit'' \<and> c_number_format sample_complete \<noteq> []"
  using prepared_contract_complete [OF sample_prepared] by (simp add: sample_prepared contract_ready_def sample_complete_def)

definition created_sample :: contract where
  "created_sample = sample_complete\<lparr>c_id := sample_ulid 0, c_tenant_id := ''t1'', c_owner_user_id := ''u1'', c_owner_name := ''Ann'',
     c_status := StatusDraft, c_created_by := ''u1'', c_number := [], c_owner_identity_id := ''i1'', c_content_hash := ''h''\<rparr>"

lemma created_sample_simps:
  "c_tenant_id created_sample = ''t1''" "c_id created_sample = sample_ulid 0" "c_payment_terms created_sample = Some []"
  "c_amount_minor created_sample = 100" "c_currency created_sample = ''CNY''" "c_owner_user_id created_sample = ''u1''"
  "c_counterparty_source created_sample = ''CRM''" "c_category_source created_sample = []"
  by (simp_all add: created_sample_def sample_complete_def sample_external_simps)

lemma created_sample_row:
  "\<exists>d'. create_contract sample_db_env created_sample ''u1'' (snd (new_id sample_db_env (sample_db []))) = Inr d'"
proof -
  have "is_ok (apply_contract_source created_sample (new_contract_row created_sample ''u1'' 0))" by code_simp
  then obtain r where r: "apply_contract_source created_sample (new_contract_row created_sample ''u1'' 0) = Inr r"
    by (auto simp: is_ok_def split: sum.splits)
  then have row: "ct_tenant r = ''t1''" "ct_id r = sample_ulid 0" "ct_owner r = ''u1''" "ct_counterparty_source r = ''CRM''"
      "ct_category_source r = []"
    by (auto simp: apply_contract_source_def new_contract_row_def created_sample_simps Let_def split: option.splits)
  show ?thesis
    unfolding create_contract_def
    by (simp add: read_clock_def r sample_db_def sample_env_simps insert_row_def created_sample_simps
        enqueue_responsibility_def find_contract_def contract_at_def row stream_of_def insert_ignore_def
        stream_seed_def stream_at_def advance_stream_def local_outbound_not_applicable_def emit_responsibility_def
        new_id_def replace_payment_terms_def validation_error_def normalize_payment_terms_def draft_event_def
        insert_audit_def Let_def cong: let_weak_cong res_bind_weak)
qed

lemma sample_creation:
  "\<exists>c d'. create_contract_for sample_service sample_context sample_db_env seller sample_external True ts cat (sample_db []) = Inr (c, d')"
proof -
  obtain d1 where id: "new_id sample_db_env (sample_db []) = (sample_ulid 0, d1)"
    by (simp add: new_id_def sample_db_def sample_env_simps)
  obtain d2 where d2: "create_contract sample_db_env created_sample ''u1'' d1 = Inr d2"
    using created_sample_row unfolding id by auto
  have free: "ensure_owner_not_frozen True (sample_db []) ''t1'' ''u1'' = ok ()"
    by (simp add: ensure_owner_not_frozen_def active_freeze_def sample_db_def)
  have c1: "sample_complete\<lparr>c_id := sample_ulid 0, c_tenant_id := ''t1'', c_owner_user_id := ''u1'', c_owner_name := ''Ann'',
      c_status := StatusDraft, c_created_by := ''u1'', c_number := [], c_owner_identity_id := ''i1'',
      c_content_hash := content_hash sample_db_env sample_complete\<rparr> = created_sample"
    by (simp add: created_sample_def content_hash_def sample_db_env_def)
  have who: "pr_tenant seller = ''t1''" "pr_user seller = ''u1''" "pr_display_name seller = ''Ann''" "pr_identity seller = ''i1''"
    by (simp_all add: seller_def)
  have owner: "c_owner_identity_id sample_complete = []"
    by (simp add: sample_complete_def sample_external_def contract_from_record_def read_contract_source_def sample_contract_def)
  have "persist_new_contract sample_service sample_db_env seller sample_complete True
      \<lparr>sf_tenant = ''t1'', sf_identity = ''i1'', sf_orgs = [''o1''], sf_projects = [], sf_all = True, sf_self = False\<rparr> (sample_db [])
    = Inr (created_sample\<lparr>c_version := 1\<rparr>, d2)"
    unfolding persist_new_contract_def id Let_def prod.case who owner
    by (simp add: c1 check_business_license_def sample_service_def upload_source_def bind_source_def d2)
  then show ?thesis
    unfolding create_contract_for_def
    by (simp add: check_business_license_def sample_prepared sample_scope who free) (simp add: sample_service_def free)
qed

theorem created_contract_is_own_draft_witness:
  "\<exists>c d' r. create_contract_for sample_service sample_context sample_db_env seller sample_external True
       \<lparr>ts_templates = [], ts_files = []\<rparr> empty_catalog (sample_db []) = Inr (c, d')
     \<and> find_contract d' ''t1'' (c_id c) = Some r \<and> ct_owner r = ''u1'' \<and> ct_status r = StatusDraft"
proof -
  obtain c d' where run: "create_contract_for sample_service sample_context sample_db_env seller sample_external True
      \<lparr>ts_templates = [], ts_files = []\<rparr> empty_catalog (sample_db []) = Inr (c, d')" using sample_creation by blast
  from created_contract_is_own_draft [OF run] run show ?thesis by (auto simp: seller_def)
qed

lemma sample_scoped: "\<exists>c. get_contract_scoped (sample_db [sample_contract])
    \<lparr>sf_tenant = ''t1'', sf_identity = ''i1'', sf_orgs = [''o1''], sf_projects = [], sf_all = True, sf_self = False\<rparr> ''c1'' = Inr c
  \<and> c = (contract_from_record sample_contract)\<lparr>c_payment_terms := Some []\<rparr>"
  by (simp add: get_contract_scoped_def sample_db_def apply_contract_scope_def sample_row_simps first_row_def attach_one [OF refl]
      list_payment_terms_def contract_terms_def)

lemma sample_current_simps:
  "c_id (contract_from_record sample_contract) = ''c1''" "c_tenant_id (contract_from_record sample_contract) = ''t1''"
  "c_number (contract_from_record sample_contract) = []" "c_origin_item_id (contract_from_record sample_contract) = []"
  "c_origin_kind (contract_from_record sample_contract) = ''NORMAL''" "c_import_mode (contract_from_record sample_contract) = []"
  "c_import_policy (contract_from_record sample_contract) = None" "c_created_by (contract_from_record sample_contract) = ''u1''"
  "c_status (contract_from_record sample_contract) = StatusDraft" "c_version (contract_from_record sample_contract) = 1"
  "c_template_id (contract_from_record sample_contract) = []" "c_counterparty_source (contract_from_record sample_contract) = ''CRM''"
  "c_category_source (contract_from_record sample_contract) = []" "c_amount_minor (contract_from_record sample_contract) = 100"
  "c_currency (contract_from_record sample_contract) = ''CNY''" "c_content (contract_from_record sample_contract) = ''text''"
  by (simp_all add: contract_from_record_def read_contract_source_def sample_contract_def json_or_def)

lemma sample_edit_input:
  "draft_input ((contract_from_record sample_contract)\<lparr>c_payment_terms := Some []\<rparr>) sample_external
   = Inr sample_external"
proof -
  have "sample_external\<lparr>c_counterparty_source := ''CRM'', c_category_source := [],
      c_owner_identity_id := c_owner_identity_id (contract_from_record sample_contract),
      c_owner_org_id := c_owner_org_id (contract_from_record sample_contract),
      c_project_id := c_project_id (contract_from_record sample_contract), c_payment_terms := Some [],
      c_content := ''text'', c_document := c_document (contract_from_record sample_contract),
      c_document_format := c_document_format (contract_from_record sample_contract),
      c_source_media_type := c_source_media_type (contract_from_record sample_contract),
      c_source_filename := c_source_filename (contract_from_record sample_contract),
      c_source_sha256 := c_source_sha256 (contract_from_record sample_contract)\<rparr> = sample_external"
    by (rule contract.equality) (simp_all add: sample_external_def sample_current_simps)
  then show ?thesis
    by (simp add: draft_input_def sample_external_simps sample_current_simps sample_external_item_def draft_counterparty_source_def
        counterparty_local_def draft_category_source_def category_local_def draft_payment_terms_def freeze_external_source_def
        capital_upper trim_plain byte_of_def Let_def)
qed

definition edited_sample :: contract where
  "edited_sample = (let c = keep_identity ((contract_from_record sample_contract)\<lparr>c_payment_terms := Some []\<rparr>) sample_complete
     in c\<lparr>c_content_hash := content_hash sample_db_env c\<rparr>)"

lemma edited_sample_simps:
  "c_tenant_id edited_sample = ''t1''" "c_id edited_sample = ''c1''" "c_payment_terms edited_sample = Some []"
  by (simp_all add: edited_sample_def Let_def keep_identity_def sample_current_simps sample_complete_def sample_row_simps)

lemma sample_edit:
  "\<exists>c d'. update_contract_draft_for sample_service sample_context sample_db_env seller ''c1'' 1 sample_external ts cat
     (sample_db [sample_contract]) = Inr (c, d')"
proof -
  have "\<exists>d'. update_contract_draft sample_db_env edited_sample 1 ''u1'' (sample_db [sample_contract]) = Inr d'"
    by (simp add: update_contract_draft_def edited_sample_simps find_contract_def contract_at_def sample_db_def
        sample_row_simps draft_terms_def list_payment_terms_def contract_terms_def normalize_payment_terms_def
        validation_error_def read_clock_def rows_affected_def editable_draft_def replace_payment_terms_def
        draft_event_def new_id_def insert_row_def insert_audit_def Let_def cong: let_weak_cong res_bind_weak)
  then obtain d' where d': "update_contract_draft sample_db_env edited_sample 1 ''u1'' (sample_db [sample_contract]) = Inr d'" by blast
  have c: "get_contract_scoped (sample_db [sample_contract])
      \<lparr>sf_tenant = ''t1'', sf_identity = ''i1'', sf_orgs = [''o1''], sf_projects = [], sf_all = True, sf_self = False\<rparr> ''c1''
    = ok ((contract_from_record sample_contract)\<lparr>c_payment_terms := Some []\<rparr>)" using sample_scoped by auto
  have allowed: "operational_origin ((contract_from_record sample_contract)\<lparr>c_payment_terms := Some []\<rparr>)"
    "draft_actor_allowed seller ((contract_from_record sample_contract)\<lparr>c_payment_terms := Some []\<rparr>)"
    by (simp_all add: operational_origin_def draft_actor_allowed_def seller_def sample_current_simps sample_row_simps)
  have user: "pr_user seller = ''u1''" by (simp add: seller_def)
  have kept: "(keep_identity ((contract_from_record sample_contract)\<lparr>c_payment_terms := Some []\<rparr>) sample_complete)
      \<lparr>c_content_hash := content_hash sample_db_env (keep_identity ((contract_from_record sample_contract)\<lparr>c_payment_terms := Some []\<rparr>)
         sample_complete)\<rparr> = edited_sample" by (simp add: edited_sample_def Let_def)
  show ?thesis
    unfolding update_contract_draft_for_def
    by (simp add: check_business_license_def sample_service_def sample_scope c allowed sample_current_simps sample_row_simps sample_edit_input sample_prepared
        kept user d' [unfolded One_nat_def] Let_def read_clock_def)
qed

theorem draft_edit_keeps_source_witness:
  "\<exists>c d'. update_contract_draft_for sample_service sample_context sample_db_env seller ''c1'' 1 sample_external
       \<lparr>ts_templates = [], ts_files = []\<rparr> empty_catalog (sample_db [sample_contract]) = Inr (c, d')
     \<and> c_version c = 2 \<and> c_status c = StatusDraft"
proof -
  obtain c d' where run: "update_contract_draft_for sample_service sample_context sample_db_env seller ''c1'' 1 sample_external
      \<lparr>ts_templates = [], ts_files = []\<rparr> empty_catalog (sample_db [sample_contract]) = Inr (c, d')" using sample_edit by blast
  from draft_edit_keeps_source [OF run] run show ?thesis by auto
qed

end
