(* ===== verification/Approval_Service.thy ===== *)
theory Approval_Service
  imports Access Service Administration Status_Change Approval_Repository
begin

text \<open>
  The approvals in the service (\<^verbatim>\<open>application/service.go\<close>): submission of a contract, status changes,
  commands, transfers for a hand-over, the detail page and the recovery of approvals whose workflow stopped, with the reads of
  the repository they use. The personnel directory and the Temporal client are parameters.
\<close>

section \<open>Parameters\<close>

datatype start_failure = AlreadyStarted | StartFailed string

text \<open>
  The client answers a start with the workflow id and the run id, a signal with the text of its error, a query with the state
  it decodes and a description with whether the workflow is running; \<open>None\<close> is an error of a query or a description.
\<close>

record approval_context =
  ax_personnel :: "(principal \<Rightarrow> string list \<Rightarrow> user_reference list option) option"
  ax_connected :: bool
  ax_start :: "string \<Rightarrow> contract_approval_input \<Rightarrow> start_failure + string \<times> string"
  ax_start_change :: "string \<Rightarrow> status_change_input \<Rightarrow> start_failure + string \<times> string"
  ax_signal :: "string \<Rightarrow> string \<Rightarrow> approval_command \<Rightarrow> string option"
  ax_query :: "string \<Rightarrow> string \<Rightarrow> approval_state option"
  ax_running :: "string \<Rightarrow> string \<Rightarrow> bool option"
  ax_node_timeout :: int
  ax_reminder :: int

record start_result =
  rs_approval :: string
  rs_workflow :: string
  rs_run :: string

definition start_error :: "start_failure \<Rightarrow> app_error" where
  "start_error f = (case f of AlreadyStarted \<Rightarrow> ErrStateConflict | StartFailed m \<Rightarrow> ErrStorage m)"

definition started :: "string \<Rightarrow> start_failure + string \<times> string \<Rightarrow> start_result result" where
  "started i r = (case r of Inl f \<Rightarrow> fail (start_error f) | Inr (w, run) \<Rightarrow> ok \<lparr>rs_approval = i, rs_workflow = w, rs_run = run\<rparr>)"

section \<open>Assignees\<close>

definition load_personnel :: "approval_context \<Rightarrow> principal \<Rightarrow> string list \<Rightarrow> user_reference list result" where
  "load_personnel ax p roles =
     (case ax_personnel ax of
        None \<Rightarrow> fail ErrPersonnelDirectoryUnavailable
      | Some directory \<Rightarrow>
          (case directory p roles of None \<Rightarrow> fail ErrPersonnelDirectoryUnavailable | Some users \<Rightarrow> ok users))"

definition approvers_for_role :: "user_reference list \<Rightarrow> string \<Rightarrow> string list" where
  "approvers_for_role directory role = unique_strings (map ur_user_id (filter (\<lambda>u. role \<in> set (ur_roles u)) directory))"

definition director_node :: "string \<Rightarrow> string \<Rightarrow> string \<Rightarrow> node" where
  "director_node i name role = \<lparr>node_id = i, node_name = name, node_role_code = role, node_assignees = [],
     node_countersign = CountersignAny, node_timeout = 0\<rparr>"

definition default_nodes :: "node list" where
  "default_nodes =
     [director_node ''sales-director''
        (map char_of [0xE9, 0x94, 0x80, 0xE5, 0x94, 0xAE, 0xE6, 0x80, 0xBB, 0xE7, 0x9B, 0x91, 0xE5, 0xAE, 0xA1, 0xE6, 0x89, 0xB9 :: nat]) ''sales_director'',
      director_node ''tech-director''
        (map char_of [0xE6, 0x8A, 0x80, 0xE6, 0x9C, 0xAF, 0xE6, 0x80, 0xBB, 0xE7, 0x9B, 0x91, 0xE5, 0xAE, 0xA1, 0xE6, 0x89, 0xB9 :: nat]) ''tech_director'',
      director_node ''finance-director''
        (map char_of [0xE8, 0xB4, 0xA2, 0xE5, 0x8A, 0xA1, 0xE6, 0x80, 0xBB, 0xE7, 0x9B, 0x91, 0xE5, 0xAE, 0xA1, 0xE6, 0x89, 0xB9 :: nat]) ''finance_director'']"

definition resolve_node :: "user_reference list \<Rightarrow> nat \<Rightarrow> node \<Rightarrow> node" where
  "resolve_node directory k n =
     n\<lparr>node_assignees := unique_strings (approvers_for_role directory (node_role_code n)), node_countersign := CountersignAny,
       node_id := (if node_id n = [] then ''node-'' @ nat_str (k + 1) else node_id n)\<rparr>"

definition resolve_nodes :: "approval_context \<Rightarrow> principal \<Rightarrow> node list \<Rightarrow> node list result" where
  "resolve_nodes ax p nodes =
     res_bind (load_personnel ax p (unique_strings (map node_role_code nodes))) (\<lambda>directory.
       let resolved = map (\<lambda>(k, n). resolve_node directory k n) (enumerate 0 nodes) in
       if list_ex (\<lambda>n. node_assignees n = []) resolved then fail ErrApprovalAssigneeUnavailable else ok resolved)"

definition role_can_process_approval :: "string \<Rightarrow> bool" where
  "role_can_process_approval role \<longleftrightarrow> role \<in> {''admin'', ''sales_director'', ''tech_director'', ''finance_director''}"

definition validate_approval_process_targets :: "user_reference list \<Rightarrow> string list \<Rightarrow> unit result" where
  "validate_approval_process_targets directory users =
     (let targets = unique_strings users;
          eligible = map ur_user_id (filter (\<lambda>u. list_ex role_can_process_approval (ur_roles u)) directory) in
      if targets = [] then fail ErrApprovalTargetForbidden
      else if \<not> list_all (\<lambda>t. t \<in> set eligible) targets then fail ErrApprovalTargetForbidden else ok ())"

section \<open>Submission\<close>

definition contract_facts :: "contract \<Rightarrow> bool \<Rightarrow> facts" where
  "contract_facts c identical = \<lparr>fact_amount_minor = c_amount_minor c, fact_service_type = c_service_type c,
     fact_customer_credit_level = c_credit_level c, fact_contract_type = c_type c, fact_terms_identical = identical\<rparr>"

definition audit_meta_from :: "env \<Rightarrow> audit_meta" where
  "audit_meta_from e = \<lparr>am_login_ip = ac_login_ip (env_meta e), am_client_ip = ac_client_ip (env_meta e),
     am_ip_source = ac_ip_source (env_meta e), am_request_id = ac_request_id (env_meta e)\<rparr>"

definition workflow_id :: "string \<Rightarrow> string \<Rightarrow> string \<Rightarrow> nat \<Rightarrow> string" where
  "workflow_id prefix tenant cid version = prefix @ '':'' @ tenant @ '':'' @ cid @ '':v'' @ nat_str version"

definition selected_nodes :: "rule option \<Rightarrow> node list \<times> string \<times> nat" where
  "selected_nodes m = (case m of None \<Rightarrow> (default_nodes, [], 0) | Some r \<Rightarrow> (rule_nodes r, rule_id r, rule_version r))"

definition approval_input ::
  "approval_context \<Rightarrow> env \<Rightarrow> principal \<Rightarrow> contract \<Rightarrow> string \<Rightarrow> string \<Rightarrow> string \<Rightarrow> nat \<Rightarrow> node list \<Rightarrow> contract_approval_input" where
  "approval_input ax e p c i cid rid rversion nodes =
     \<lparr>cai_approval_id = i, cai_audit = audit_meta_from e, cai_tenant_id = pr_tenant p, cai_contract_id = cid,
      cai_contract_version = c_version c, cai_applicant = pr_user p, cai_applicant_name = pr_display_name p,
      cai_content_hash = c_content_hash c, cai_rule_id = rid, cai_rule_version = rversion, cai_nodes = nodes,
      cai_default_timeout = ax_node_timeout ax, cai_reminder_interval = ax_reminder ax\<rparr>"

definition submittable :: "principal \<Rightarrow> contract \<Rightarrow> nat \<Rightarrow> unit result" where
  "submittable p c expected =
     (if \<not> operational_origin c then fail ErrImportUnsupported
      else if c_status c \<noteq> StatusDraft then fail ErrStateConflict
      else if expected \<noteq> 0 \<and> c_version c \<noteq> expected then fail ErrVersionConflict
      else if \<not> draft_actor_allowed p c then fail ErrForbidden else ok ())"

definition submit_contract_version ::
  "service \<Rightarrow> approval_context \<Rightarrow> env \<Rightarrow> principal \<Rightarrow> string \<Rightarrow> bool \<Rightarrow> nat \<Rightarrow> db \<Rightarrow> (start_result \<times> db) result" where
  "submit_contract_version sv ax e p cid identical expected d =
     res_bind (check_business_license sv 0) (\<lambda>_.
       case scope p ''contract.create'' of
         None \<Rightarrow> fail ErrForbidden
       | Some f \<Rightarrow>
           res_bind (get_contract_scoped d f cid) (\<lambda>c.
           res_bind (submittable p c expected) (\<lambda>_.
           res_bind (match_highest (list_rules d (pr_tenant p) True) (contract_facts c identical)) (\<lambda>matched.
             let (nodes, rid, rversion) = selected_nodes matched in
             res_bind (resolve_nodes ax p nodes) (\<lambda>resolved.
               let (i, d1) = new_id e d in
               res_bind (check_business_license sv 1) (\<lambda>_.
               res_bind (started i (ax_start ax (workflow_id ''contract-approval'' (pr_tenant p) cid (c_version c))
                   (approval_input ax e p c i cid rid rversion resolved))) (\<lambda>r. ok (r, d1))))))))"

definition submit_contract ::
  "service \<Rightarrow> approval_context \<Rightarrow> env \<Rightarrow> principal \<Rightarrow> string \<Rightarrow> bool \<Rightarrow> db \<Rightarrow> (start_result \<times> db) result" where
  "submit_contract sv ax e p cid identical d = submit_contract_version sv ax e p cid identical 0 d"

section \<open>Status changes\<close>

definition max_status_change_reason :: nat where "max_status_change_reason = 1000"

definition change_input ::
  "approval_context \<Rightarrow> env \<Rightarrow> principal \<Rightarrow> contract \<Rightarrow> string \<Rightarrow> string \<Rightarrow> nat \<Rightarrow> status \<Rightarrow> string \<Rightarrow> string list \<Rightarrow> status_change_input" where
  "change_input ax e p c i cid version target reason admins =
     \<lparr>sci_approval_id = i, sci_audit = audit_meta_from e, sci_tenant_id = pr_tenant p, sci_contract_id = cid,
      sci_contract_version = version, sci_applicant = pr_user p, sci_applicant_name = pr_display_name p,
      sci_from_status = c_status c, sci_target_status = target, sci_reason = reason, sci_admins = admins,
      sci_timeout = ax_node_timeout ax\<rparr>"

definition start_status_change ::
  "service \<Rightarrow> approval_context \<Rightarrow> env \<Rightarrow> principal \<Rightarrow> contract \<Rightarrow> string \<Rightarrow> nat \<Rightarrow> status \<Rightarrow> string \<Rightarrow> db \<Rightarrow>
     (start_result option \<times> db) result" where
  "start_status_change sv ax e p c cid version target reason d =
     res_bind (load_personnel ax p [''admin'']) (\<lambda>directory.
       let admins = approvers_for_role directory ''admin'' in
       if admins = [] then fail ErrApprovalAssigneeUnavailable
       else let (i, d1) = new_id e d in
         res_bind (check_business_license sv 1) (\<lambda>_.
         res_bind (started i (ax_start_change ax (workflow_id ''status-change'' (pr_tenant p) cid version)
             (change_input ax e p c i cid version target reason admins))) (\<lambda>r. ok (Some r, d1))))"

definition change_status ::
  "service \<Rightarrow> approval_context \<Rightarrow> env \<Rightarrow> principal \<Rightarrow> string \<Rightarrow> nat \<Rightarrow> status \<Rightarrow> string \<Rightarrow> db \<Rightarrow> (start_result option \<times> db) result" where
  "change_status sv ax e p cid version target reason d =
     res_bind (check_business_license sv 0) (\<lambda>_.
       case contract_scope p ''contract.edit'' of
         None \<Rightarrow> fail ErrForbidden
       | Some f \<Rightarrow>
           if reason = [] then fail ErrValidation
           else if rune_count reason > max_status_change_reason then fail ErrValidation
           else res_bind (get_contract_scoped d f cid) (\<lambda>c.
             if \<not> operational_origin c then fail ErrImportUnsupported
             else if c_version c \<noteq> version then fail ErrVersionConflict
             else res_bind (validate_transition (c_status c) target) (\<lambda>_.
               if \<not> requires_approval target
               then let (key, d1) = new_id e d in
                 res_bind (check_business_license sv 1) (\<lambda>_.
                 res_bind (transition_direct e (pr_tenant p) cid version target (pr_user p) reason key d1) (\<lambda>d2. ok (None, d2)))
               else start_status_change sv ax e p c cid version target reason d)))"

section \<open>Reading approvals\<close>

record approval_meta =
  mt_id :: string
  mt_tenant :: string
  mt_contract :: string
  mt_applicant :: string
  mt_applicant_name :: string
  mt_workflow :: string
  mt_run :: string
  mt_kind :: approval_kind
  mt_status :: approval_status
  mt_from :: status
  mt_target :: status
  mt_reason :: string
  mt_rule_id :: string
  mt_rule_version :: nat

record approval_task =
  ak_approval :: string
  ak_contract :: string
  ak_node :: string
  ak_node_name :: string
  ak_assignee :: string
  ak_kind :: approval_kind
  ak_status :: node_status
  ak_index :: nat
  ak_created_at :: instant

record approval_summary =
  sm_approval :: string
  sm_contract :: string
  sm_applicant :: string
  sm_applicant_name :: string
  sm_kind :: approval_kind
  sm_status :: approval_status
  sm_index :: nat
  sm_created_at :: instant
  sm_updated_at :: instant

record approval_action =
  aa_id :: string
  aa_command :: string
  aa_node :: string
  aa_action :: command_action
  aa_actor :: string
  aa_actor_name :: string
  aa_comment :: string
  aa_at :: instant

definition meta_of :: "instance_row \<Rightarrow> approval_meta" where
  "meta_of x = \<lparr>mt_id = in_id x, mt_tenant = in_tenant x, mt_contract = in_contract x, mt_applicant = in_applicant x,
     mt_applicant_name = in_applicant_name x, mt_workflow = in_workflow x, mt_run = in_run x, mt_kind = in_kind x,
     mt_status = in_status x, mt_from = in_from x, mt_target = in_target x, mt_reason = value_or_empty (in_reason x),
     mt_rule_id = value_or_empty (in_rule_id x), mt_rule_version = uint_value_or_zero (in_rule_version x)\<rparr>"

definition get_approval_meta :: "db \<Rightarrow> string \<Rightarrow> string \<Rightarrow> approval_meta result" where
  "get_approval_meta d tenant i =
     (case approval_row tenant i d of None \<Rightarrow> fail ErrNotFound | Some x \<Rightarrow> ok (meta_of x))"

definition get_approval_runtime_state :: "db \<Rightarrow> string \<Rightarrow> string \<Rightarrow> approval_state option result" where
  "get_approval_runtime_state d tenant i =
     (case approval_row tenant i d of None \<Rightarrow> fail ErrNotFound | Some x \<Rightarrow> ok (in_state x))"

definition get_approval_snapshot :: "db \<Rightarrow> string \<Rightarrow> string \<Rightarrow> contract option" where
  "get_approval_snapshot d tenant i =
     (case first_row (\<lambda>s. sn_tenant s = tenant \<and> sn_approval s = i) (db_snapshots d) of
        None \<Rightarrow> None
      | Some s \<Rightarrow> Some ((sn_json s)\<lparr>c_document := sn_document s, c_can_edit_draft := False\<rparr>))"

definition action_of :: "action_row \<Rightarrow> approval_action" where
  "action_of a = \<lparr>aa_id = at_id a, aa_command = at_command a, aa_node = value_or_empty (at_node a), aa_action = at_action a,
     aa_actor = at_actor a, aa_actor_name = at_actor_name a, aa_comment = value_or_empty (at_comment a), aa_at = at_occurred_at a\<rparr>"

definition list_approval_actions :: "db \<Rightarrow> string \<Rightarrow> string \<Rightarrow> approval_action list" where
  "list_approval_actions d tenant i =
     map action_of (sort_key at_occurred_at (sort_key at_id
       (filter (\<lambda>a. at_tenant a = tenant \<and> at_approval a = i) (db_actions d))))"

definition approval_limit :: "int \<Rightarrow> nat" where
  "approval_limit limit = (if limit \<le> 0 \<or> limit > 200 then 50 else nat limit)"

definition summary_of :: "instance_row \<Rightarrow> approval_summary" where
  "summary_of x = \<lparr>sm_approval = in_id x, sm_contract = in_contract x, sm_applicant = in_applicant x,
     sm_applicant_name = in_applicant_name x, sm_kind = in_kind x, sm_status = in_status x, sm_index = in_index x,
     sm_created_at = in_created_at x, sm_updated_at = in_updated_at x\<rparr>"

definition list_approvals :: "db \<Rightarrow> string \<Rightarrow> string \<Rightarrow> int \<Rightarrow> approval_summary list" where
  "list_approvals d tenant applicant limit =
     map summary_of (take (approval_limit limit) (sort_key (\<lambda>x. - in_created_at x)
       (filter (\<lambda>x. in_tenant x = tenant \<and> in_applicant x = applicant) (db_instances d))))"

definition assigned_task_statuses :: "node_status list" where
  "assigned_task_statuses = [NodeActive, NodePending]"

definition task_of :: "task_row \<times> instance_row \<Rightarrow> approval_task" where
  "task_of = (\<lambda>(t, x). \<lparr>ak_approval = tk_approval t, ak_contract = in_contract x, ak_node = tk_node t, ak_node_name = tk_node_name t,
     ak_assignee = tk_assignee t, ak_kind = in_kind x, ak_status = tk_status t, ak_index = tk_index t,
     ak_created_at = in_created_at x\<rparr>)"

definition joined_tasks :: "db \<Rightarrow> (task_row \<times> instance_row) list" where
  "joined_tasks d = concat (map (\<lambda>t. map (Pair t) (filter (\<lambda>x. in_id x = tk_approval t) (db_instances d))) (db_tasks d))"

definition list_tasks :: "db \<Rightarrow> string \<Rightarrow> string \<Rightarrow> int \<Rightarrow> approval_task list" where
  "list_tasks d tenant user limit =
     map task_of (take (approval_limit limit)
       (sort_key (\<lambda>(t, x). if tk_status t = NodeActive then 0 else 1 :: nat)
         (sort_key (\<lambda>(t, x). in_created_at x) (sort_key (\<lambda>(t, x). tk_index t)
           (filter (\<lambda>(t, x). in_tenant x = tenant \<and> tk_assignee t = user \<and> tk_status t \<in> set assigned_task_statuses)
             (joined_tasks d))))))"

definition list_contract_lifecycle_for :: "principal \<Rightarrow> string \<Rightarrow> db \<Rightarrow> lifecycle_event list result" where
  "list_contract_lifecycle_for p cid d =
     res_bind (get_contract_for p cid d) (\<lambda>_. ok (list_contract_lifecycle d (pr_tenant p) cid))"

definition list_my_tasks :: "principal \<Rightarrow> int \<Rightarrow> db \<Rightarrow> approval_task list result" where
  "list_my_tasks p limit d =
     (if \<not> has p ''approval.process'' then fail ErrForbidden else ok (list_tasks d (pr_tenant p) (pr_user p) limit))"

definition list_my_approvals :: "principal \<Rightarrow> int \<Rightarrow> db \<Rightarrow> approval_summary list result" where
  "list_my_approvals p limit d =
     (if pr_tenant p = [] \<or> pr_user p = [] then fail ErrForbidden else ok (list_approvals d (pr_tenant p) (pr_user p) limit))"

definition get_approval_contract :: "principal \<Rightarrow> string \<Rightarrow> db \<Rightarrow> contract result" where
  "get_approval_contract p cid d =
     (case scope p ''contract.read'' of None \<Rightarrow> fail ErrForbidden | Some f \<Rightarrow> get_contract_scoped d f cid)"

definition approval_viewer :: "principal \<Rightarrow> approval_meta \<Rightarrow> bool" where
  "approval_viewer p m \<longleftrightarrow> has p ''approval.view'' \<or> has p ''approval.process'' \<or> mt_applicant m = pr_user p"

definition query_workflow_state :: "approval_context \<Rightarrow> string \<Rightarrow> string \<Rightarrow> approval_state result" where
  "query_workflow_state ax w run =
     (case ax_query ax w run of None \<Rightarrow> fail ErrApprovalWorkflowUnavailable | Some st \<Rightarrow> ok st)"

definition authorized_meta :: "principal \<Rightarrow> string \<Rightarrow> db \<Rightarrow> approval_meta result" where
  "authorized_meta p i d =
     res_bind (get_approval_meta d (pr_tenant p) i) (\<lambda>m.
     res_bind (get_approval_contract p (mt_contract m) d) (\<lambda>_.
       if \<not> approval_viewer p m then fail ErrForbidden else ok m))"

definition query_approval_state :: "approval_context \<Rightarrow> principal \<Rightarrow> string \<Rightarrow> db \<Rightarrow> (approval_meta \<times> approval_state) result" where
  "query_approval_state ax p i d =
     res_bind (authorized_meta p i d) (\<lambda>m.
     res_bind (query_workflow_state ax (mt_workflow m) (mt_run m)) (\<lambda>st. ok (m, st)))"

record approval_detail =
  ad_meta :: approval_meta
  ad_state :: "approval_state option"
  ad_contract :: contract
  ad_actions :: "approval_action list"
  ad_snapshot_available :: bool

definition approval_detail_of ::
  "principal \<Rightarrow> string \<Rightarrow> approval_meta \<Rightarrow> approval_state option \<Rightarrow> db \<Rightarrow> approval_detail result" where
  "approval_detail_of p i m st d =
     res_bind (get_approval_contract p (mt_contract m) d) (\<lambda>current.
       let snapshot = get_approval_snapshot d (pr_tenant p) i in
       if st = None \<and> snapshot = None then fail ErrApprovalWorkflowUnavailable
       else ok \<lparr>ad_meta = m, ad_state = st, ad_contract = (case snapshot of None \<Rightarrow> current | Some c \<Rightarrow> c),
                ad_actions = list_approval_actions d (pr_tenant p) i, ad_snapshot_available = (snapshot \<noteq> None)\<rparr>)"

definition get_approval_detail :: "approval_context \<Rightarrow> principal \<Rightarrow> string \<Rightarrow> db \<Rightarrow> approval_detail result" where
  "get_approval_detail ax p i d =
     (case query_approval_state ax p i d of
        Inr (m, st) \<Rightarrow> approval_detail_of p i m (Some st) d
      | Inl err \<Rightarrow>
          if err \<noteq> ErrApprovalWorkflowUnavailable then fail err
          else res_bind (authorized_meta p i d) (\<lambda>m. approval_detail_of p i m None d))"

section \<open>Commands\<close>

definition max_approval_command_targets :: nat where "max_approval_command_targets = 20"

definition max_approval_command_target_length :: nat where "max_approval_command_target_length = 64"

text \<open>A transfer without a node id is bound to the node that is current when it is sent.\<close>

definition bind_transfer :: "approval_state \<Rightarrow> approval_command \<Rightarrow> approval_command" where
  "bind_transfer st c =
     (if cmd_action c = ActionTransfer \<and> cmd_target_node c = [] \<and> st_index st < length (st_nodes st)
      then c\<lparr>cmd_target_node := node_id (rn_node (st_nodes st ! st_index st))\<rparr> else c)"

definition command_permitted :: "principal \<Rightarrow> approval_meta \<Rightarrow> command_action \<Rightarrow> bool" where
  "command_permitted p m a =
     (case a of
        ActionWithdraw \<Rightarrow> mt_applicant m = pr_user p
      | ActionUrge \<Rightarrow> mt_applicant m = pr_user p \<or> has p ''approval.manage''
      | ActionComment \<Rightarrow> has p ''approval.view'' \<or> mt_applicant m = pr_user p
      | ActionApprove \<Rightarrow> has p ''approval.process'' \<and> mt_applicant m \<noteq> pr_user p
      | _ \<Rightarrow> has p ''approval.process'')"

definition command_bounded :: "approval_command \<Rightarrow> bool" where
  "command_bounded c \<longleftrightarrow> rune_count (cmd_comment c) \<le> 2000 \<and> length (cmd_targets c) \<le> max_approval_command_targets
     \<and> list_all (\<lambda>t. rune_count t \<le> max_approval_command_target_length) (cmd_targets c)"

text \<open>The result is the command that was signalled; the service returns its id.\<close>

definition command_for ::
  "service \<Rightarrow> approval_context \<Rightarrow> env \<Rightarrow> principal \<Rightarrow> string \<Rightarrow> approval_command \<Rightarrow> db \<Rightarrow> (approval_command \<times> db) result" where
  "command_for sv ax e p i c0 d =
     res_bind (check_business_license sv 0) (\<lambda>_.
     res_bind (query_approval_state ax p i d) (\<lambda>(m, st).
       let c = bind_transfer st c0 in
       if mt_status m \<noteq> AStatusRunning then fail ErrStateConflict
       else if \<not> command_permitted p m (cmd_action c) then fail ErrForbidden
       else if \<not> command_bounded c then fail ErrValidation
       else res_bind
         (if cmd_action c = ActionAddSign
          then res_bind (load_personnel ax p [''admin'', ''sales_director'', ''tech_director'', ''finance_director''])
                 (\<lambda>directory. validate_approval_process_targets directory (cmd_targets c))
          else ok ()) (\<lambda>_.
         let (k, d1) = new_id e d; (now, d2) = read_clock e d1;
             c1 = c\<lparr>cmd_role_or_sign := (cmd_action c = ActionApprove), cmd_id := k, cmd_actor := pr_user p,
                    cmd_actor_name := pr_display_name p, cmd_occurred_at := now\<rparr> in
         res_bind (check_business_license sv 1) (\<lambda>_.
           case ax_signal ax (mt_workflow m) (mt_run m) c1 of
             Some _ \<Rightarrow> fail ErrApprovalWorkflowUnavailable
           | None \<Rightarrow> ok (c1, d2)))))"

section \<open>Transfers for a hand-over\<close>

definition handover_command_id :: "env \<Rightarrow> string \<Rightarrow> string" where
  "handover_command_id e key = take 26 (env_sha256 e (''handover-command:'' @ key))"

definition runtime_node_by_id :: "approval_state \<Rightarrow> string \<Rightarrow> runtime_node option" where
  "runtime_node_by_id st i = first_row (\<lambda>n. node_id (rn_node n) = i) (st_nodes st)"

definition transferred :: "runtime_node \<Rightarrow> string \<Rightarrow> string \<Rightarrow> bool" where
  "transferred n from to \<longleftrightarrow> contains_string (node_assignees (rn_node n)) to \<and> \<not> contains_string (node_assignees (rn_node n)) from"

text \<open>What the loop sees until its deadline of eight seconds: answers of the query, or the end of the request.\<close>

datatype poll = PollAnswer "approval_state option" | PollCancelled

fun await_transfer :: "string \<Rightarrow> string \<Rightarrow> string \<Rightarrow> poll list \<Rightarrow> unit result" where
  "await_transfer node from to [] = fail ErrHandoverConflict"
| "await_transfer node from to (PollCancelled # ps) = fail (ErrStorage ''context canceled'')"
| "await_transfer node from to (PollAnswer None # ps) = await_transfer node from to ps"
| "await_transfer node from to (PollAnswer (Some st) # ps) =
     (if (case runtime_node_by_id st node of None \<Rightarrow> False | Some n \<Rightarrow> transferred n from to) then ok ()
      else if st_status st \<noteq> AStatusRunning then fail ErrHandoverConflict
      else await_transfer node from to ps)"

definition transfer_evidence :: "env \<Rightarrow> approval_meta \<Rightarrow> string \<Rightarrow> string" where
  "transfer_evidence e m key =
     ''approval-workflow:'' @ mt_workflow m @ ''/'' @ mt_run m @ ''#'' @ handover_command_id e key"

definition transfer_command ::
  "env \<Rightarrow> string \<Rightarrow> string \<Rightarrow> string \<Rightarrow> string \<Rightarrow> string \<Rightarrow> instant \<Rightarrow> approval_command" where
  "transfer_command e key from to node reason now =
     \<lparr>cmd_id = handover_command_id e key, cmd_action = ActionTransfer, cmd_actor = from, cmd_actor_name = [],
      cmd_role_or_sign = False, cmd_comment = reason, cmd_targets = [to], cmd_countersign = CountersignEmpty,
      cmd_target_node = node, cmd_occurred_at = now\<rparr>"

definition reassign_approval_node ::
  "service \<Rightarrow> approval_context \<Rightarrow> env \<Rightarrow> poll list \<Rightarrow> string \<Rightarrow> string \<Rightarrow> string \<Rightarrow> string \<Rightarrow> string \<Rightarrow> string \<Rightarrow> string \<Rightarrow> db \<Rightarrow>
     (string \<times> db) result" where
  "reassign_approval_node sv ax e polls tenant0 i0 node0 from0 to0 reason key0 d =
     (let tenant = trim_space tenant0; i = trim_space i0; node = trim_space node0; from = trim_space from0;
          to = trim_space to0; key = trim_space key0 in
      if tenant = [] \<or> i = [] \<or> node = [] \<or> from = [] \<or> to = [] \<or> from = to \<or> key = [] then fail ErrValidation
      else if \<not> ax_connected ax then fail ErrHandoverConflict
      else res_bind (get_approval_meta d tenant i) (\<lambda>m.
        if mt_status m \<noteq> AStatusRunning then fail ErrHandoverConflict
        else res_bind (query_workflow_state ax (mt_workflow m) (mt_run m)) (\<lambda>st.
          case runtime_node_by_id st node of
            None \<Rightarrow> fail ErrHandoverConflict
          | Some n \<Rightarrow>
              if transferred n from to then ok (transfer_evidence e m key, d)
              else if rn_status n \<noteq> NodeActive \<or> \<not> contains_string (node_assignees (rn_node n)) from then fail ErrHandoverConflict
              else res_bind (check_business_license sv 0) (\<lambda>_.
                let (now, d1) = read_clock e d in
                case ax_signal ax (mt_workflow m) (mt_run m) (transfer_command e key from to node reason now) of
                  Some msg \<Rightarrow> fail (ErrStorage msg)
                | None \<Rightarrow> res_bind (await_transfer node from to polls) (\<lambda>_. ok (transfer_evidence e m key, d1))))))"

section \<open>Recovery\<close>

text \<open>The status an approval ends with when its workflow has stopped: the one it reached, or approved when all nodes passed.\<close>

definition recovered_status :: "approval_state \<Rightarrow> approval_status result" where
  "recovered_status st =
     (if st_status st = AStatusRunning \<and> st_index st < length (st_nodes st) then fail ErrStateConflict
      else let s = (if st_status st = AStatusRunning then AStatusApproved else st_status st) in
        if s \<in> {AStatusApproved, AStatusRejected, AStatusWithdrawn, AStatusExpired} then ok s else fail ErrStateConflict)"

definition recovery_target :: "approval_meta \<Rightarrow> approval_status \<Rightarrow> status" where
  "recovery_target m s =
     (if mt_kind m = KindStatusChange then (if s = AStatusApproved then mt_target m else mt_from m)
      else if s = AStatusApproved then StatusActive else StatusDraft)"

definition recovery_input :: "approval_meta \<Rightarrow> principal \<Rightarrow> approval_status \<Rightarrow> complete_approval_input" where
  "recovery_input m p s =
     \<lparr>coi_approval_id = mt_id m, coi_tenant_id = mt_tenant m, coi_contract_id = mt_contract m, coi_actor = pr_user p,
      coi_status = s, coi_reason = ''manual recovery after workflow execution failure'', coi_workflow_id = mt_workflow m,
      coi_target_status = recovery_target m s,
      coi_audit = \<lparr>am_login_ip = [], am_client_ip = [], am_ip_source = [], am_request_id = []\<rparr>\<rparr>"

definition recover_approval :: "service \<Rightarrow> approval_context \<Rightarrow> env \<Rightarrow> principal \<Rightarrow> string \<Rightarrow> db \<Rightarrow> db result" where
  "recover_approval sv ax e p i d =
     res_bind (check_business_license sv 0) (\<lambda>_.
       if \<not> has p ''approval.manage'' \<and> \<not> has_role p ''admin'' then fail ErrForbidden
       else res_bind (get_approval_meta d (pr_tenant p) (trim_space i)) (\<lambda>m.
         if mt_status m \<noteq> AStatusRunning then fail ErrStateConflict
         else if \<not> ax_connected ax then fail ErrApprovalWorkflowUnavailable
         else case ax_running ax (mt_workflow m) (mt_run m) of
           None \<Rightarrow> fail ErrApprovalWorkflowUnavailable
         | Some True \<Rightarrow> fail ErrStateConflict
         | Some False \<Rightarrow>
             res_bind (get_approval_runtime_state d (pr_tenant p) (mt_id m)) (\<lambda>found.
               case found of
                 None \<Rightarrow> fail ErrStateConflict
               | Some st \<Rightarrow>
                   res_bind (recovered_status st) (\<lambda>s. complete_approval e (recovery_input m p s) d))))"

section \<open>Assignees are eligible\<close>

lemma approvers_eligible:
  "u \<in> set (approvers_for_role directory role) \<longleftrightarrow> u \<noteq> [] \<and> (\<exists>x\<in>set directory. ur_user_id x = u \<and> role \<in> set (ur_roles x))"
  by (auto simp: approvers_for_role_def)

definition well_staffed :: "user_reference list \<Rightarrow> node \<Rightarrow> bool" where
  "well_staffed directory n \<longleftrightarrow> node_id n \<noteq> [] \<and> node_assignees n \<noteq> [] \<and> distinct (node_assignees n) \<and> node_countersign n = CountersignAny
     \<and> (\<forall>u\<in>set (node_assignees n). u \<noteq> [] \<and> (\<exists>x\<in>set directory. ur_user_id x = u \<and> node_role_code n \<in> set (ur_roles x)))"

lemma resolve_node_staffed:
  "node_assignees (resolve_node directory k n) \<noteq> [] \<Longrightarrow> well_staffed directory (resolve_node directory k n)"
  by (simp add: well_staffed_def resolve_node_def approvers_eligible)

lemma resolved_nodes:
  assumes "resolve_nodes ax p nodes = Inr resolved"
  obtains directory where "load_personnel ax p (unique_strings (map node_role_code nodes)) = Inr directory"
    "map node_role_code resolved = map node_role_code nodes" "list_all (well_staffed directory) resolved"
proof -
  from assms obtain directory where load: "load_personnel ax p (unique_strings (map node_role_code nodes)) = Inr directory"
    by (auto simp: resolve_nodes_def res_bind_eq_ok)
  with assms have eq: "resolved = map (\<lambda>(k, n). resolve_node directory k n) (enumerate 0 nodes)"
    and full: "list_all (\<lambda>n. node_assignees n \<noteq> []) resolved"
    by (auto simp: resolve_nodes_def Let_def list_all_iff list_ex_iff split: if_split_asm)
  have "map node_role_code resolved = map node_role_code (map snd (enumerate 0 nodes))"
    unfolding eq map_map by (rule map_cong [OF refl]) (auto simp: resolve_node_def)
  then have "map node_role_code resolved = map node_role_code nodes" by simp
  moreover have "list_all (well_staffed directory) resolved"
    using full by (auto simp: eq list_all_iff intro!: resolve_node_staffed)
  ultimately show thesis using load that by blast
qed

lemma startedD: "started i r = Inr s \<Longrightarrow> r = Inr (rs_workflow s, rs_run s) \<and> rs_approval s = i"
  by (auto simp: started_def split: sum.split_asm prod.split_asm)


section \<open>Commands are authorised\<close>

lemma bind_transfer_simps [simp]:
  "cmd_action (bind_transfer st c) = cmd_action c" "cmd_comment (bind_transfer st c) = cmd_comment c"
  "cmd_targets (bind_transfer st c) = cmd_targets c"
  by (simp_all add: bind_transfer_def)

lemma process_targets_ok:
  assumes "validate_approval_process_targets directory users = Inr ()"
  shows "\<exists>u\<in>set users. u \<noteq> []"
    "\<forall>u\<in>set users. u \<noteq> [] \<longrightarrow> (\<exists>x\<in>set directory. ur_user_id x = u \<and> (\<exists>role\<in>set (ur_roles x). role_can_process_approval role))"
proof -
  have some: "unique_strings users \<noteq> []" and all: "\<forall>u\<in>set (unique_strings users).
      u \<in> ur_user_id ` {x \<in> set directory. list_ex role_can_process_approval (ur_roles x)}"
    using assms by (auto simp: validate_approval_process_targets_def Let_def list_all_iff split: if_split_asm)
  from some have "set (unique_strings users) \<noteq> {}" by (simp del: set_unique_strings)
  then show "\<exists>u\<in>set users. u \<noteq> []" by auto
  show "\<forall>u\<in>set users. u \<noteq> [] \<longrightarrow> (\<exists>x\<in>set directory. ur_user_id x = u \<and> (\<exists>role\<in>set (ur_roles x). role_can_process_approval role))"
  proof (intro ballI impI)
    fix u assume "u \<in> set users" "u \<noteq> []"
    then have "u \<in> set (unique_strings users)" by simp
    with all have "u \<in> ur_user_id ` {x \<in> set directory. list_ex role_can_process_approval (ur_roles x)}" by (rule bspec)
    then show "\<exists>x\<in>set directory. ur_user_id x = u \<and> (\<exists>role\<in>set (ur_roles x). role_can_process_approval role)"
      by (auto simp: list_ex_iff)
  qed
qed

text \<open>C15: A command reaches the workflow of an approval only while it runs, in the name of the user who sent it, within the
  length limits, and if that user sees the contract and has the permission for this action; nobody approves an approval he
  applied for, and signers are added only from the users with a role that processes approvals.\<close>

theorem signalled_command_authorised:
  assumes "command_for sv ax e p i c0 d = Inr (c, d')"
  shows "\<exists>m current. get_approval_meta d (pr_tenant p) i = Inr m \<and> mt_status m = AStatusRunning
    \<and> get_approval_contract p (mt_contract m) d = Inr current \<and> approval_viewer p m
    \<and> ax_signal ax (mt_workflow m) (mt_run m) c = None \<and> cmd_action c = cmd_action c0 \<and> cmd_actor c = pr_user p
    \<and> command_permitted p m (cmd_action c) \<and> command_bounded c \<and> (cmd_action c = ActionApprove \<longrightarrow> cmd_actor c \<noteq> mt_applicant m)
    \<and> (cmd_action c = ActionAddSign \<longrightarrow> (\<exists>roles directory. load_personnel ax p roles = Inr directory
         \<and> (\<exists>u\<in>set (cmd_targets c). u \<noteq> [])
         \<and> (\<forall>u\<in>set (cmd_targets c). u \<noteq> [] \<longrightarrow> (\<exists>x\<in>set directory. ur_user_id x = u
              \<and> (\<exists>role\<in>set (ur_roles x). role_can_process_approval role)))))"
proof -
  from assms obtain m st where q: "query_approval_state ax p i d = Inr (m, st)"
    by (auto simp: command_for_def res_bind_eq_ok)
  then obtain current where view: "get_approval_meta d (pr_tenant p) i = Inr m" "approval_viewer p m"
    "get_approval_contract p (mt_contract m) d = Inr current"
    by (auto simp: query_approval_state_def authorized_meta_def res_bind_eq_ok split: if_split_asm)
  define cc where "cc = bind_transfer st c0"
  note run = assms [unfolded command_for_def q res_bind_simps prod.case cc_def [symmetric] Let_def]
  from run have ok: "mt_status m = AStatusRunning" "command_permitted p m (cmd_action cc)" "command_bounded cc"
    by (auto simp: res_bind_eq_ok split: if_split_asm)
  from run ok have signers: "cmd_action cc = ActionAddSign \<longrightarrow> (\<exists>roles directory. load_personnel ax p roles = Inr directory
      \<and> validate_approval_process_targets directory (cmd_targets cc) = Inr ())"
    by (auto simp: res_bind_eq_ok split: if_split_asm)
  from run ok obtain k now where c: "c = cc\<lparr>cmd_role_or_sign := (cmd_action cc = ActionApprove), cmd_id := k, cmd_actor := pr_user p,
      cmd_actor_name := pr_display_name p, cmd_occurred_at := now\<rparr>" and signal: "ax_signal ax (mt_workflow m) (mt_run m) c = None"
    by (auto simp: res_bind_eq_ok case_prod_beta split: option.split_asm if_split_asm)
  have "cmd_action c = ActionAddSign \<longrightarrow> (\<exists>roles directory. load_personnel ax p roles = Inr directory
         \<and> (\<exists>u\<in>set (cmd_targets c). u \<noteq> [])
         \<and> (\<forall>u\<in>set (cmd_targets c). u \<noteq> [] \<longrightarrow> (\<exists>x\<in>set directory. ur_user_id x = u
              \<and> (\<exists>role\<in>set (ur_roles x). role_can_process_approval role))))"
  proof
    assume "cmd_action c = ActionAddSign"
    then obtain roles directory where load: "load_personnel ax p roles = Inr directory"
      and targets: "validate_approval_process_targets directory (cmd_targets c) = Inr ()" using signers by (auto simp: c)
    show "\<exists>roles directory. load_personnel ax p roles = Inr directory \<and> (\<exists>u\<in>set (cmd_targets c). u \<noteq> [])
       \<and> (\<forall>u\<in>set (cmd_targets c). u \<noteq> [] \<longrightarrow> (\<exists>x\<in>set directory. ur_user_id x = u \<and> (\<exists>role\<in>set (ur_roles x). role_can_process_approval role)))"
      using process_targets_ok [OF targets] by (intro exI [of _ roles] exI [of _ directory] conjI load)
  qed
  moreover have "cmd_action c = cmd_action c0" "cmd_actor c = pr_user p" "command_permitted p m (cmd_action c)" "command_bounded c"
    using ok(2,3) by (simp_all add: c cc_def command_bounded_def)
  moreover have "cmd_action c = ActionApprove \<longrightarrow> cmd_actor c \<noteq> mt_applicant m"
    using ok(2) by (auto simp: c command_permitted_def)
  ultimately show ?thesis
    using view ok(1) signal by (intro exI [of _ m] exI [of _ current] conjI) assumption+
qed

section \<open>Transfers\<close>

lemma await_transfer_ok:
  "await_transfer node from to ps = Inr () \<Longrightarrow>
     \<exists>st n. PollAnswer (Some st) \<in> set ps \<and> runtime_node_by_id st node = Some n \<and> transferred n from to"
  by (induction node "from" to ps rule: await_transfer.induct) (auto split: if_split_asm option.split_asm)

text \<open>Evidence of a transfer is returned only after the workflow itself was seen with the successor and without the
  predecessor among the assignees of that node, never because a signal was accepted; repeated requests give the same evidence.\<close>

theorem transfer_evidence_observed:
  assumes "reassign_approval_node sv ax e polls tenant i node from to reason key d = Inr (ev, d')"
  shows "\<exists>m st n. get_approval_meta d (trim_space tenant) (trim_space i) = Inr m \<and> mt_status m = AStatusRunning
    \<and> (ax_query ax (mt_workflow m) (mt_run m) = Some st \<or> PollAnswer (Some st) \<in> set polls)
    \<and> runtime_node_by_id st (trim_space node) = Some n
    \<and> trim_space to \<in> set (node_assignees (rn_node n)) \<and> trim_space from \<notin> set (node_assignees (rn_node n))
    \<and> ev = transfer_evidence e m (trim_space key)"
proof -
  note run = assms [unfolded reassign_approval_node_def Let_def]
  from run have named: "trim_space from \<noteq> []" by (auto split: if_split_asm)
  from run obtain m st where m: "get_approval_meta d (trim_space tenant) (trim_space i) = Inr m" "mt_status m = AStatusRunning"
    and st: "ax_query ax (mt_workflow m) (mt_run m) = Some st"
    by (auto simp: res_bind_eq_ok query_workflow_state_def split: if_split_asm option.split_asm)
  from run m st obtain n where n: "runtime_node_by_id st (trim_space node) = Some n"
    by (auto simp: query_workflow_state_def split: if_split_asm option.split_asm)
  from run m st n have ev: "ev = transfer_evidence e m (trim_space key)"
    and seen: "transferred n (trim_space from) (trim_space to) \<or> await_transfer (trim_space node) (trim_space from) (trim_space to) polls = Inr ()"
    by (auto simp: query_workflow_state_def res_bind_eq_ok case_prod_beta split: if_split_asm option.split_asm)
  from seen st n obtain st' n' where "ax_query ax (mt_workflow m) (mt_run m) = Some st' \<or> PollAnswer (Some st') \<in> set polls"
    "runtime_node_by_id st' (trim_space node) = Some n'" "transferred n' (trim_space from) (trim_space to)"
    by (blast dest: await_transfer_ok)
  with m ev named show ?thesis by (intro exI [of _ m] exI [of _ st'] exI [of _ n']) (auto simp: transferred_def contains_string_def)
qed

section \<open>Recovery\<close>

lemma recovery_steps:
  assumes "recover_approval sv ax e p i d = Inr d'"
  obtains x st s where "approval_row (pr_tenant p) (trim_space i) d = Some x" "in_status x = AStatusRunning"
    "ax_running ax (in_workflow x) (in_run x) = Some False" "in_state x = Some st" "recovered_status st = Inr s"
    "complete_approval e (recovery_input (meta_of x) p s) d = Inr d'" "has p ''approval.manage'' \<or> has_role p ''admin''"
proof -
  from assms have p: "has p ''approval.manage'' \<or> has_role p ''admin''"
    by (auto simp: recover_approval_def res_bind_eq_ok split: if_split_asm)
  with assms obtain x where x: "approval_row (pr_tenant p) (trim_space i) d = Some x" "in_status x = AStatusRunning"
    by (auto simp: recover_approval_def res_bind_eq_ok get_approval_meta_def meta_of_def split: if_split_asm option.split_asm)
  have id: "in_id x = trim_space i" using first_row_SomeD [OF x(1) [unfolded approval_row_def]] by simp
  from assms p x have stopped: "ax_running ax (in_workflow x) (in_run x) = Some False"
    by (auto simp: recover_approval_def res_bind_eq_ok get_approval_meta_def meta_of_def split: if_split_asm option.split_asm bool.split_asm)
  from assms p x stopped obtain st s where "in_state x = Some st" "recovered_status st = Inr s"
    "complete_approval e (recovery_input (meta_of x) p s) d = Inr d'"
    by (auto simp: recover_approval_def res_bind_eq_ok get_approval_meta_def get_approval_runtime_state_def meta_of_def id
        split: if_split_asm option.split_asm)
  with x stopped p show thesis using that by blast
qed

lemma recovered_statusD:
  assumes "recovered_status st = Inr s"
  shows "s \<in> {AStatusApproved, AStatusRejected, AStatusWithdrawn, AStatusExpired}"
    "st_status st = AStatusRunning \<Longrightarrow> s = AStatusApproved \<and> length (st_nodes st) \<le> st_index st"
    "st_status st \<noteq> AStatusRunning \<Longrightarrow> s = st_status st"
  using assms by (auto simp: recovered_status_def Let_def split: if_split_asm)


lemma record_command_fresh:
  assumes "record_command e r d = Inr d'" "first_row (\<lambda>a. at_command a = cmd_id (rci_command r)) (db_actions d) = None"
    "approval_row (rci_tenant_id r) (rci_approval_id r) d' = Some x"
  shows "in_status x = st_status (rci_state r) \<and> in_state x = Some (rci_state r)"
proof -
  let ?hit = "\<lambda>x. in_tenant x = rci_tenant_id r \<and> in_id x = rci_approval_id r"
  obtain now where "db_instances d' = update_rows ?hit (recorded_row r now) (db_instances d)"
  proof -
    define pr where "pr = (if cmd_occurred_at (rci_command r) = zero_time then read_clock e d else (cmd_occurred_at (rci_command r), d))"
    have same: "db_instances (snd pr) = db_instances d" by (simp add: pr_def read_clock_def)
    obtain at d1 where at: "pr = (at, d1)" by force
    with assms(1,2) same that show thesis
      by (auto simp: record_command_def pr_def [symmetric] new_id_def read_clock_def sync_tasks_def
          recorded_row_def [abs_def] res_bind_eq_ok Let_def split: if_split_asm dest!: insert_audit_same)
  qed
  then obtain z where z: "first_row ?hit (db_instances d) = Some z" "(if ?hit z then recorded_row r now z else z) = x"
    using assms(3) by (auto simp: approval_row_def first_row_update_rows)
  then show ?thesis using first_row_SomeD [OF z(1)] by (auto simp: recorded_row_def)
qed

text \<open>C17: The decision of a command is written to the approval before the contract is settled, and from then on recovery refuses it:
  when the workflow stops between recording a rejection, a withdrawal or the approval of a status change and its completion, nobody
  can recover that approval, although its recorded state holds the decision.\<close>

theorem recorded_decision_unrecoverable:
  assumes "record_command e r d = Inr d'" "first_row (\<lambda>a. at_command a = cmd_id (rci_command r)) (db_actions d) = None"
    "st_status (rci_state r) \<noteq> AStatusRunning" "pr_tenant p = rci_tenant_id r" "trim_space i = rci_approval_id r"
  shows "\<exists>err. recover_approval sv ax e' p i d' = Inl err"
proof (rule ccontr)
  assume "\<not> ?thesis"
  then obtain d2 where "recover_approval sv ax e' p i d' = Inr d2" by (cases "recover_approval sv ax e' p i d'") auto
  then obtain x where x: "approval_row (pr_tenant p) (trim_space i) d' = Some x" "in_status x = AStatusRunning"
    by (rule recovery_steps)
  then show False using record_command_fresh [OF assms(1,2), of x] assms(3-5) by simp
qed

section \<open>Status changes and views\<close>

lemma change_steps:
  assumes "change_status sv ax e p cid version target reason d = Inr (Some r, d')"
  obtains f c directory inp where "contract_scope p ''contract.edit'' = Some f" "get_contract_scoped d f cid = Inr c"
    "operational_origin c" "c_version c = version" "can_transition (c_status c) target" "requires_approval target"
    "reason \<noteq> []" "rune_count reason \<le> max_status_change_reason" "load_personnel ax p [''admin''] = Inr directory"
    "sci_admins inp = approvers_for_role directory ''admin''" "sci_admins inp \<noteq> []" "sci_applicant inp = pr_user p"
    "sci_from_status inp = c_status c" "sci_target_status inp = target" "sci_contract_version inp = version"
    "ax_start_change ax (workflow_id ''status-change'' (pr_tenant p) cid version) inp = Inr (rs_workflow r, rs_run r)"
proof -
  from assms obtain f where f: "contract_scope p ''contract.edit'' = Some f"
    by (auto simp: change_status_def res_bind_eq_ok split: option.split_asm)
  note run = assms [unfolded change_status_def f option.case]
  from run obtain c where c: "get_contract_scoped d f cid = Inr c" "operational_origin c" "c_version c = version"
    "validate_transition (c_status c) target = Inr ()" "reason \<noteq> []" "rune_count reason \<le> max_status_change_reason"
    by (auto simp: res_bind_eq_ok split: if_split_asm)
  from run c have need: "requires_approval target" and start: "start_status_change sv ax e p c cid version target reason d = Inr (Some r, d')"
    by (auto simp: res_bind_eq_ok case_prod_beta Let_def split: if_split_asm)
  from start obtain directory where dir: "load_personnel ax p [''admin''] = Inr directory" "approvers_for_role directory ''admin'' \<noteq> []"
    by (auto simp: start_status_change_def res_bind_eq_ok Let_def split: if_split_asm)
  obtain i d1 where i: "new_id e d = (i, d1)" by fastforce
  define inp where "inp = change_input ax e p c i cid version target reason (approvers_for_role directory ''admin'')"
  have "started i (ax_start_change ax (workflow_id ''status-change'' (pr_tenant p) cid version) inp) = Inr r"
    using start dir i by (auto simp: start_status_change_def res_bind_eq_ok Let_def inp_def)
  from startedD [OF this] c dir f need show thesis
    by (intro that [of f c directory inp]) (auto simp: inp_def change_input_def validate_transition_def split: if_split_asm)
qed

text \<open>C24: A status change that starts an approval is legal, concerns an ordinary contract in the scope of the user at the version
  he saw and asks every administrator; but the user himself is asked too, and if he is the only administrator the approval starts
  although no command whatever can approve it.\<close>

theorem lone_administrator_waits:
  assumes "change_status sv ax e p cid version target reason d = Inr (Some r, d')"
  shows "\<exists>f c directory inp. contract_scope p ''contract.edit'' = Some f \<and> get_contract_scoped d f cid = Inr c
    \<and> operational_origin c \<and> c_version c = version \<and> can_transition (c_status c) target \<and> requires_approval target
    \<and> load_personnel ax p [''admin''] = Inr directory
    \<and> ax_start_change ax (workflow_id ''status-change'' (pr_tenant p) cid version) inp = Inr (rs_workflow r, rs_run r)
    \<and> sci_applicant inp = pr_user p \<and> sci_admins inp \<noteq> [] \<and> set (sci_admins inp) = set (approvers_for_role directory ''admin'')
    \<and> (set (sci_admins inp) \<subseteq> {pr_user p} \<longrightarrow> (\<forall>command. sc_decide inp command \<noteq> Some AStatusApproved))"
proof -
  obtain f c directory inp where steps: "contract_scope p ''contract.edit'' = Some f" "get_contract_scoped d f cid = Inr c"
    "operational_origin c" "c_version c = version" "can_transition (c_status c) target" "requires_approval target"
    "reason \<noteq> []" "rune_count reason \<le> max_status_change_reason" "load_personnel ax p [''admin''] = Inr directory"
    "sci_admins inp = approvers_for_role directory ''admin''" "sci_admins inp \<noteq> []" "sci_applicant inp = pr_user p"
    "sci_from_status inp = c_status c" "sci_target_status inp = target" "sci_contract_version inp = version"
    "ax_start_change ax (workflow_id ''status-change'' (pr_tenant p) cid version) inp = Inr (rs_workflow r, rs_run r)"
    by (rule change_steps [OF assms])
  have "sc_decide inp command \<noteq> Some AStatusApproved" if "set (sci_admins inp) \<subseteq> {pr_user p}" for command
    using that steps(12) by (auto simp: sc_decide_def Let_def)
  with steps show ?thesis
    by (intro exI [of _ f] exI [of _ c] exI [of _ directory] exI [of _ inp]) simp
qed

definition foreign_approval :: instance_row where
  "foreign_approval = \<lparr>in_id = ''a1'', in_tenant = ''t1'', in_contract = ''c1'', in_kind = KindContract, in_status = AStatusRunning,
     in_applicant = ''u2'', in_applicant_name = ''Bob'', in_from = StatusDraft, in_target = StatusPending, in_reason = None,
     in_rule_id = None, in_rule_version = None, in_content_hash = Some ''h1'', in_nodes = [], in_state = None, in_index = 0,
     in_workflow = ''w1'', in_run = ''r1'', in_status_change_key = None, in_completed = False, in_completed_at = None,
     in_created_at = 0, in_updated_at = 0\<rparr>"

definition idle_context :: "approval_state option \<Rightarrow> bool option \<Rightarrow> approval_context" where
  "idle_context st running = \<lparr>ax_personnel = Some (\<lambda>_ _. Some [\<lparr>ur_user_id = ''u1'', ur_display_name = ''Ann'',
       ur_roles = [''admin'', ''sales_director'', ''tech_director'', ''finance_director'']\<rparr>]), ax_connected = True,
     ax_start = (\<lambda>w _. Inr (w, ''r'')), ax_start_change = (\<lambda>w _. Inr (w, ''r'')), ax_signal = (\<lambda>_ _ _. None),
     ax_query = (\<lambda>_ _. st), ax_running = (\<lambda>_ _. running), ax_node_timeout = 0, ax_reminder = 0\<rparr>"

definition foreign_db :: db where
  "foreign_db = (sample_db [owned_by ''c1'' ''i2''])\<lparr>db_instances := [foreign_approval]\<rparr>"


section \<open>Samples\<close>

lemma seller_is_sales: "sales_only (pr_roles seller)"
  by (simp add: seller_def sales_only_def senior_roles_def)

lemma seller_full_scope:
  "scope seller permission = Some \<lparr>sf_tenant = ''t1'', sf_identity = ''i1'', sf_orgs = [''o1''], sf_projects = [], sf_all = True, sf_self = False\<rparr>"
  by (simp add: scope_def has_def seller_def)

lemma seller_simps:
  "pr_tenant seller = ''t1''" "pr_user seller = ''u1''" "has seller permission"
  by (simp_all add: seller_def has_def)

definition full_scope :: scope_filter where
  "full_scope = \<lparr>sf_tenant = ''t1'', sf_identity = ''i1'', sf_orgs = [''o1''], sf_projects = [], sf_all = True, sf_self = False\<rparr>"

lemma full_read:
  assumes "db_contracts d = [r]" "ct_tenant r = ''t1''" "ct_id r = ''c1''"
  shows "get_contract_scoped d full_scope ''c1'' = Inr ((contract_from_record r)\<lparr>c_payment_terms := Some (list_payment_terms d ''t1'' ''c1'')\<rparr>)"
  using assms by (simp add: get_contract_scoped_def full_scope_def apply_contract_scope_def attach_one [OF refl])

lemma foreign_read: "get_approval_contract seller ''c1'' foreign_db
    = Inr ((contract_from_record (owned_by ''c1'' ''i2''))\<lparr>c_payment_terms := Some (list_payment_terms foreign_db ''t1'' ''c1'')\<rparr>)"
  unfolding get_approval_contract_def seller_full_scope option.case full_scope_def [symmetric]
  by (rule full_read) (simp_all add: foreign_db_def)

lemma foreign_meta: "get_approval_meta foreign_db ''t1'' ''a1'' = Inr (meta_of foreign_approval)"
  by (simp add: get_approval_meta_def approval_row_def foreign_db_def foreign_approval_def)

lemma foreign_meta_simps:
  "mt_id (meta_of foreign_approval) = ''a1''" "mt_tenant (meta_of foreign_approval) = ''t1''"
  "mt_contract (meta_of foreign_approval) = ''c1''" "mt_applicant (meta_of foreign_approval) = ''u2''"
  "mt_workflow (meta_of foreign_approval) = ''w1''" "mt_run (meta_of foreign_approval) = ''r1''"
  "mt_status (meta_of foreign_approval) = AStatusRunning" "mt_kind (meta_of foreign_approval) = KindContract"
  by (simp_all add: meta_of_def foreign_approval_def)

lemma foreign_query:
  "query_approval_state (idle_context (Some st) running) seller ''a1'' foreign_db = Inr (meta_of foreign_approval, st)"
  by (simp add: query_approval_state_def authorized_meta_def seller_simps foreign_meta foreign_meta_simps foreign_read
      approval_viewer_def query_workflow_state_def idle_context_def)

text \<open>The contract page refuses a contract of somebody else to a user who is only a salesperson, even when the platform
  grants the whole tenant; the approval page of the same contract shows it to that user.\<close>

theorem approval_page_unconfined:
  "\<exists>detail. sales_only (pr_roles seller) \<and> get_contract_for seller ''c1'' foreign_db = Inl ErrNotFound
     \<and> get_approval_detail (idle_context (Some (initial_state run_input 0)) None) seller ''a1'' foreign_db = Inr detail
     \<and> c_id (ad_contract detail) = ''c1'' \<and> c_owner_identity_id (ad_contract detail) = ''i2''"
proof -
  have "get_contract_for seller ''c1'' foreign_db = Inl ErrNotFound"
    by (simp add: get_contract_for_def seller_scopes get_contract_scoped_def foreign_db_def seller_scope_def apply_contract_scope_def
        scope_predicates_def column_in_def)
  moreover have "c_id (contract_from_record (owned_by ''c1'' ''i2'')) = ''c1''"
    "c_owner_identity_id (contract_from_record (owned_by ''c1'' ''i2'')) = ''i2''"
    by (simp_all add: contract_from_record_def read_contract_source_def)
  moreover have "get_approval_snapshot foreign_db ''t1'' ''a1'' = None"
    by (simp add: get_approval_snapshot_def foreign_db_def sample_db_def)
  ultimately show ?thesis
    by (simp add: get_approval_detail_def foreign_query approval_detail_of_def foreign_meta_simps foreign_read seller_simps
        seller_is_sales Let_def)
qed

section \<open>Witnesses\<close>

lemma sample_directory:
  "load_personnel (idle_context st running) p roles = Inr [\<lparr>ur_user_id = ''u1'', ur_display_name = ''Ann'',
     ur_roles = [''admin'', ''sales_director'', ''tech_director'', ''finance_director'']\<rparr>]"
  by (simp add: load_personnel_def idle_context_def)

lemma no_runes: "rune_count [] = 0"
  using rune_count_le [of "[]"] by simp

lemma unique_strings_one: "unique_strings [u] = (if u = [] then [] else [u])"
  by (simp add: unique_strings_def)

lemma directors_resolved:
  "\<exists>nodes. resolve_nodes (idle_context st running) p default_nodes = Inr nodes"
  by (simp add: resolve_nodes_def sample_directory default_nodes_def director_node_def resolve_node_def approvers_for_role_def
      unique_strings_one Let_def)


theorem signalled_command_authorised_witness:
  "\<exists>c d'. command_for sample_service (idle_context (Some (initial_state run_input 0)) None) sample_db_env seller ''a1''
       (approve_command [] [] 0) foreign_db = Inr (c, d') \<and> cmd_actor c = ''u1'' \<and> cmd_action c = ActionApprove"
proof -
  have "\<exists>c d'. command_for sample_service (idle_context (Some (initial_state run_input 0)) None) sample_db_env seller ''a1''
      (approve_command [] [] 0) foreign_db = Inr (c, d')"
    unfolding command_for_def foreign_query
    by (simp add: check_business_license_def sample_service_def foreign_meta_simps command_permitted_def
        approve_command_def command_bounded_def seller_simps no_runes bind_transfer_def Let_def case_prod_beta)
       (simp add: idle_context_def)
  then obtain c d' where run: "command_for sample_service (idle_context (Some (initial_state run_input 0)) None) sample_db_env seller ''a1''
      (approve_command [] [] 0) foreign_db = Inr (c, d')" by blast
  from signalled_command_authorised [OF run] run show ?thesis by (auto simp: seller_simps approve_command_def)
qed

definition held_by :: "string \<Rightarrow> approval_state" where
  "held_by u = (initial_state run_input 0)\<lparr>st_nodes := [(initialize_node (sample_node\<lparr>node_id := ''n1'', node_assignees := [u]\<rparr>))\<lparr>rn_status := NodeActive\<rparr>]\<rparr>"

theorem transfer_evidence_observed_witness:
  "\<exists>ev d'. reassign_approval_node sample_service (idle_context (Some (held_by ''u3'')) None) sample_db_env
       [PollAnswer None, PollAnswer (Some (held_by ''u4''))] ''t1'' ''a1'' ''n1'' ''u3'' ''u4'' ''leave'' ''k1'' foreign_db = Inr (ev, d')"
proof -
  have node: "runtime_node_by_id (held_by u) ''n1''
      = Some ((initialize_node (sample_node\<lparr>node_id := ''n1'', node_assignees := [u]\<rparr>))\<lparr>rn_status := NodeActive\<rparr>)" for u
    by (simp add: runtime_node_by_id_def held_by_def initialize_node_def)
  have who: "node_assignees (rn_node (initialize_node (sample_node\<lparr>node_id := ''n1'', node_assignees := [u]\<rparr>))) = [u]" for u
    by (simp add: initialize_node_def)
  have "\<exists>ev d'. reassign_approval_node sample_service (idle_context (Some (held_by ''u3'')) None) sample_db_env
      [PollAnswer None, PollAnswer (Some (held_by ''u4''))] ''t1'' ''a1'' ''n1'' ''u3'' ''u4'' ''leave'' ''k1'' foreign_db = Inr (ev, d')"
    by (simp add: reassign_approval_node_def trim_plain byte_of_def Let_def foreign_meta foreign_meta_simps query_workflow_state_def
        idle_context_def node who transferred_def contains_string_def check_business_license_def sample_service_def read_clock_def)
  then obtain ev d' where run: "reassign_approval_node sample_service (idle_context (Some (held_by ''u3'')) None) sample_db_env
      [PollAnswer None, PollAnswer (Some (held_by ''u4''))] ''t1'' ''a1'' ''n1'' ''u3'' ''u4'' ''leave'' ''k1'' foreign_db = Inr (ev, d')"
    by blast
  from transfer_evidence_observed [OF run] run show ?thesis by blast
qed

definition stopped_db :: "approval_status \<Rightarrow> db" where
  "stopped_db s = (sample_db [sample_contract])\<lparr>db_instances := [foreign_approval\<lparr>in_kind := KindStatusChange,
     in_state := Some ((initial_state run_input 0)\<lparr>st_nodes := [], st_status := s\<rparr>)\<rparr>]\<rparr>"

definition manager :: principal where
  "manager = seller\<lparr>pr_roles := [''admin'']\<rparr>"

definition stopped_row :: "approval_status \<Rightarrow> instance_row" where
  "stopped_row s = foreign_approval\<lparr>in_kind := KindStatusChange,
     in_state := Some ((initial_state run_input 0)\<lparr>st_nodes := [], st_status := s\<rparr>)\<rparr>"

lemma stopped_row_simps:
  "in_id (stopped_row s) = ''a1''" "in_tenant (stopped_row s) = ''t1''" "in_contract (stopped_row s) = ''c1''"
  "in_kind (stopped_row s) = KindStatusChange" "in_status (stopped_row s) = AStatusRunning" "\<not> in_completed (stopped_row s)"
  "in_state (stopped_row s) = Some ((initial_state run_input 0)\<lparr>st_nodes := [], st_status := s\<rparr>)"
  by (simp_all add: stopped_row_def foreign_approval_def)

lemma stopped_reads:
  "approval_row ''t1'' ''a1'' (stopped_db s) = Some (stopped_row s)"
  "find_contract (stopped_db s) ''t1'' ''c1'' = Some sample_contract" "db_instances (stopped_db s) = [stopped_row s]"
  by (simp_all add: approval_row_def stopped_db_def stopped_row_def foreign_approval_def find_contract_def contract_at_def sample_row_simps)

lemma stopped_completes:
  "\<exists>d'. complete_approval sample_db_env (recovery_input (meta_of (stopped_row s)) p AStatusExpired) (stopped_db s) = Inr d'"
  unfolding complete_approval_def recovery_input_def
  by (simp add: meta_of_def stopped_row_simps stopped_reads [unfolded approval_row_def] ordinary_contract_record_def json_empty_def sample_row_simps
      apply_decision_def finish_instance_def read_clock_def rows_affected_def Let_def)


definition rejection :: record_command_input where
  "rejection = \<lparr>rci_approval_id = ''a1'', rci_tenant_id = ''t1'', rci_contract_id = ''c1'', rci_node_id = ''n1'',
     rci_command = (approve_command ''k1'' ''u3'' 5)\<lparr>cmd_action := ActionReject, cmd_comment := ''no''\<rparr>,
     rci_state = (initial_state run_input 0)\<lparr>st_nodes := [], st_status := AStatusRejected\<rparr>\<rparr>"

theorem recorded_decision_unrecoverable_witness:
  "\<exists>d' err. record_command sample_db_env rejection (stopped_db AStatusRunning) = Inr d'
     \<and> recover_approval sample_service (idle_context None (Some False)) sample_db_env manager ''a1'' d' = Inl err"
proof -
  have fresh: "db_actions (stopped_db s) = []" "db_audit (stopped_db s) = []" "db_tasks (stopped_db s) = []" for s
    by (simp_all add: stopped_db_def sample_db_def)
  have "\<exists>d'. record_command sample_db_env rejection (stopped_db AStatusRunning) = Inr d'"
    unfolding record_command_def rejection_def
    by (simp add: fresh approve_command_def zero_time_def second_ns_def new_id_def read_clock_def insert_row_def rows_affected_def
        stopped_reads stopped_row_simps sync_tasks_def insert_audit_def Let_def cong: let_weak_cong res_bind_weak)
  then obtain d' where run: "record_command sample_db_env rejection (stopped_db AStatusRunning) = Inr d'" by blast
  have "\<exists>err. recover_approval sample_service (idle_context None (Some False)) sample_db_env manager ''a1'' d' = Inl err"
    by (rule recorded_decision_unrecoverable [OF run])
      (simp_all add: fresh rejection_def manager_def seller_def trim_plain byte_of_def)
  with run show ?thesis by blast
qed

definition active_contract :: contract_row where
  "active_contract = (owned_by ''c1'' ''i1'')\<lparr>ct_status := StatusActive\<rparr>"

theorem lone_administrator_waits_witness:
  "\<exists>r d'. change_status sample_service (idle_context None None) sample_db_env seller ''c1'' 1 StatusTerminated ''end''
     (sample_db [active_contract]) = Inr (Some r, d')"
proof -
  let ?d = "sample_db [active_contract]"
  let ?c = "(contract_from_record active_contract)\<lparr>c_payment_terms := Some (list_payment_terms ?d ''t1'' ''c1'')\<rparr>"
  have c: "get_contract_scoped ?d seller_scope ''c1'' = Inr ?c"
    by (simp add: get_contract_scoped_def seller_scope_def apply_contract_scope_def scope_predicates_def column_in_def active_contract_def
        attach_one [OF refl])
  have fields: "c_origin_item_id ?c = []" "c_origin_kind ?c = ''NORMAL''" "c_import_mode ?c = []" "c_import_policy ?c = None"
    "c_status ?c = StatusActive" "c_version ?c = 1"
    by (simp_all add: contract_from_record_def read_contract_source_def active_contract_def owned_by_def sample_contract_def json_or_def)
  have legal: "operational_origin ?c" using fields by (simp add: operational_origin_def)
  have move: "validate_transition StatusActive StatusTerminated = Inr ()"
    by (simp add: validate_transition_def valid_status_def can_transition_def)
  have short: "rune_count ''end'' \<le> max_status_change_reason"
    using rune_count_le [of "''end''"] by (simp add: max_status_change_reason_def)
  have start: "\<exists>r d'. start_status_change sample_service (idle_context None None) sample_db_env seller c cid v target reason d
      = Inr (Some r, d')" for c cid v target reason d
    by (simp add: start_status_change_def sample_directory approvers_for_role_def unique_strings_one check_business_license_def
        sample_service_def case_prod_beta Let_def) (simp add: idle_context_def started_def)
  have "\<exists>r d'. change_status sample_service (idle_context None None) sample_db_env seller ''c1'' 1 StatusTerminated ''end'' ?d = Inr (Some r, d')"
    unfolding change_status_def seller_scopes option.case c res_bind_simps
    using legal fields short start by (simp add: check_business_license_def sample_service_def move)
  then obtain r d' where run: "change_status sample_service (idle_context None None) sample_db_env seller ''c1'' 1 StatusTerminated ''end'' ?d
      = Inr (Some r, d')" by blast
  from lone_administrator_waits [OF run] run show ?thesis by blast
qed

end
