(* ===== verification/Import_Manifest.thy ===== *)
theory Import_Manifest
  imports Contract_Model
begin

text \<open>
  The manifest of a historical import: its items, their evidence and the checks of \<^verbatim>\<open>domain/contract/import.go\<close>
  and \<^verbatim>\<open>import_history.go\<close>.
\<close>

section \<open>Data\<close>

text \<open>The zero time of Go, 1 January of year 1.\<close>

definition zero_instant :: instant where "zero_instant = - 62135596800 * second_ns"

record import_fact =
  if_source :: string
  if_type :: string
  if_external_id :: string

record history_evidence =
  he_signed_date :: string
  he_status :: string
  he_customer_name :: string
  he_owner_label :: string
  he_owner_user :: string
  he_project :: string
  he_project_version :: nat
  he_relationship :: string
  he_original_ref :: string
  he_facts :: "import_fact list option"
  he_report_channels :: string

record import_metadata =
  md_title :: string
  md_contract_type :: string
  md_service_type :: string
  md_opportunity_id :: string
  md_opportunity_name :: string
  md_counterparty_source :: string
  md_local_counterparty :: string
  md_counterparty_version :: nat
  md_category_source :: string
  md_crm_customer :: nat
  md_customer_name :: string
  md_customer_address :: string
  md_customer_contact :: string
  md_customer_phone :: string
  md_systems :: "system_info list"
  md_service_items :: "service_item list"
  md_credit_level :: string
  md_amount_minor :: int
  md_currency :: string
  md_payment_terms :: "payment_term list option"
  md_content :: string
  md_start_date :: "instant option"
  md_end_date :: "instant option"
  md_paper_number :: string
  md_sales_name :: string
  md_customer_type :: string
  md_industry :: string
  md_region :: string

record import_item =
  im_key :: string
  im_record :: string
  im_mode :: string
  im_source_file :: string
  im_policy :: "import_policy option"
  im_metadata :: import_metadata
  im_evidence :: "history_evidence option"

record import_manifest =
  mf_schema :: int
  mf_source :: string
  mf_items :: "import_item list"

section \<open>Operations\<close>

text \<open>\<^verbatim>\<open>^[A-Za-z0-9_.:-]{1,128}$\<close>.\<close>

definition import_key_byte :: "nat \<Rightarrow> bool" where
  "import_key_byte b \<longleftrightarrow> 65 \<le> b \<and> b \<le> 90 \<or> 97 \<le> b \<and> b \<le> 122 \<or> 48 \<le> b \<and> b \<le> 57 \<or> b \<in> {95, 46, 58, 45}"

definition import_key :: "string \<Rightarrow> bool" where
  "import_key s \<longleftrightarrow> s \<noteq> [] \<and> length s \<le> 128 \<and> list_all (\<lambda>c. import_key_byte (byte_of c)) s"

definition provision_customer_profile :: "import_metadata \<Rightarrow> string \<times> string \<times> string" where
  "provision_customer_profile m = (trim_space (md_customer_type m), trim_space (md_industry m), trim_space (md_region m))"

text \<open>The fields a client may declare; everything else is the zero value of Go.\<close>

definition empty_contract :: contract where
  "empty_contract = \<lparr>c_id = [], c_tenant_id = [], c_number = [], c_number_format = [], c_title = [], c_type = [],
     c_service_type = [], c_opportunity_id = [], c_opportunity_name = [], c_crm_customer_id = 0, c_counterparty_source = [],
     c_local_counterparty_id = [], c_counterparty_version = 0, c_category_source = [], c_integration_policy = [],
     c_customer_name = [], c_customer_address = [], c_customer_contact = [], c_customer_phone = [], c_owner_identity_id = [],
     c_owner_org_id = [], c_project_id = [], c_systems = [], c_service_items = [], c_credit_level = [], c_owner_user_id = [],
     c_owner_name = [], c_amount_minor = 0, c_currency = [], c_payment_terms = None, c_content = [], c_template_id = [],
     c_template_values = Map.empty, c_document = [], c_document_format = [], c_source_media_type = [], c_source_filename = [],
     c_source_sha256 = [], c_paper_number = [], c_origin_kind = [], c_import_mode = [], c_origin_item_id = [],
     c_historical_status = [], c_historical_customer = [], c_historical_owner = [], c_import_policy = None,
     c_source_file_id = [], c_source_file_status = [], c_status = StatusOther [], c_version = 0, c_start_date = None,
     c_end_date = None, c_content_hash = [], c_created_at = zero_instant, c_created_by = [], c_can_edit_draft = False,
     c_updated_at = zero_instant\<rparr>"

definition contract_of_metadata :: "import_metadata \<Rightarrow> contract" where
  "contract_of_metadata m = empty_contract\<lparr>c_title := md_title m, c_type := md_contract_type m,
     c_service_type := md_service_type m, c_opportunity_id := md_opportunity_id m, c_opportunity_name := md_opportunity_name m,
     c_counterparty_source := md_counterparty_source m, c_local_counterparty_id := md_local_counterparty m,
     c_counterparty_version := md_counterparty_version m, c_category_source := md_category_source m,
     c_crm_customer_id := md_crm_customer m, c_customer_name := md_customer_name m, c_customer_address := md_customer_address m,
     c_customer_contact := md_customer_contact m, c_customer_phone := md_customer_phone m, c_systems := md_systems m,
     c_service_items := md_service_items m, c_credit_level := md_credit_level m, c_amount_minor := md_amount_minor m,
     c_currency := md_currency m, c_payment_terms := md_payment_terms m, c_start_date := md_start_date m,
     c_end_date := md_end_date m, c_paper_number := md_paper_number m\<rparr>"

definition item_well_formed :: "string list \<Rightarrow> string list \<Rightarrow> import_item \<Rightarrow> bool" where
  "item_well_formed keys ids i \<longleftrightarrow> import_key (im_key i) \<and> import_key (im_record i) \<and> im_source_file i \<noteq> [] \<and> im_key i \<notin> set keys
     \<and> im_record i \<notin> set ids \<and> validate_import_policy (im_mode i) (im_policy i) = ok () \<and> im_mode i \<noteq> []"

fun validate_items :: "bool \<Rightarrow> string list \<Rightarrow> string list \<Rightarrow> import_item list \<Rightarrow> unit result" where
  "validate_items normal keys ids [] = ok ()"
| "validate_items normal keys ids (i # is) =
     (if (im_mode i = import_normal) \<noteq> normal then fail ErrImportMixedLifecycle
      else if \<not> item_well_formed keys ids i then fail ErrImportManifest
      else validate_items normal (im_key i # keys) (im_record i # ids) is)"

definition validate_manifest :: "nat \<Rightarrow> import_manifest \<Rightarrow> unit result" where
  "validate_manifest maximum m =
     (case mf_items m of
        [] \<Rightarrow> fail ErrImportManifest
      | i # is \<Rightarrow>
          if mf_schema m \<noteq> 1 \<or> length (mf_source m) > 64 \<or> \<not> import_key (mf_source m) \<or> length (mf_items m) > maximum
          then fail ErrImportManifest
          else validate_items (im_mode i = import_normal) [] [] (i # is))"

section \<open>Evidence\<close>

definition mode_status_ok :: "string \<Rightarrow> string \<Rightarrow> bool" where
  "mode_status_ok mode status =
     (if mode = import_archive_only then status = ''archived''
      else if mode = import_continue_live then status \<in> {''active'', ''in_progress'', ''pending_pay''}
      else if mode = import_historical_closed then status \<in> {''completed'', ''terminated'', ''archived''}
      else False)"

definition project_evidence_ok :: "import_policy \<Rightarrow> history_evidence \<Rightarrow> bool" where
  "project_evidence_ok p h \<longleftrightarrow>
     (if ip_project_mode p = ''LINK_EXISTING''
      then he_project h \<noteq> [] \<and> he_project_version h \<noteq> 0 \<and> he_original_ref h \<noteq> []
           \<and> (he_relationship h = ''PRIMARY'' \<or> he_relationship h = ''SUPPLEMENT'')
      else he_project h = [] \<and> he_project_version h = 0 \<and> he_original_ref h = [])
     \<and> (ip_project_mode p = ''CREATE_NEW'' \<longrightarrow> he_relationship h = ''PRIMARY'')"

definition slash_byte :: char where "slash_byte = CHR 0x2F"

definition fact_key :: "import_fact \<Rightarrow> string" where
  "fact_key f = if_source f @ slash_byte # if_type f @ slash_byte # if_external_id f"

definition fact_ok :: "import_fact \<Rightarrow> bool" where
  "fact_ok f \<longleftrightarrow> length (if_source f) \<le> 64 \<and> import_key (if_source f) \<and> import_key (if_external_id f)
     \<and> (if_type f = ''RECEIPT'' \<or> if_type f = ''ALLOCATION'')"

fun facts_ok :: "string list \<Rightarrow> import_fact list \<Rightarrow> bool" where
  "facts_ok seen [] = True"
| "facts_ok seen (f # fs) = (fact_ok f \<and> fact_key f \<notin> set seen \<and> facts_ok (fact_key f # seen) fs)"

definition evidence_ok :: "import_item \<Rightarrow> import_policy \<Rightarrow> history_evidence \<Rightarrow> bool" where
  "evidence_ok i p h \<longleftrightarrow>
     he_owner_user h \<noteq> [] \<and> length (he_owner_user h) \<le> 64 \<and> rune_count (he_customer_name h) \<le> 255 \<and> rune_count (he_owner_label h) \<le> 128
     \<and> (he_signed_date h \<noteq> [] \<longrightarrow> parse_date (he_signed_date h) \<noteq> None)
     \<and> (he_report_channels h = ''API_ONLY'' \<or> he_report_channels h = ''API_AND_SOURCE_FACTS'')
     \<and> mode_status_ok (im_mode i) (he_status h)
     \<and> length (he_project h) \<le> 64 \<and> length (he_original_ref h) \<le> 128
     \<and> (ip_project_mode p \<noteq> ''NONE'' \<longrightarrow> md_start_date (im_metadata i) \<noteq> None)
     \<and> project_evidence_ok p h
     \<and> (ip_finance_mode p = ''FULL_REPLAY'' \<longrightarrow> he_facts h \<noteq> None \<and> terms_list (md_payment_terms (im_metadata i)) \<noteq> [])
     \<and> (case he_facts h of None \<Rightarrow> True | Some fs \<Rightarrow> length fs \<le> 1000 \<and> facts_ok [] fs)"

definition validate_history_evidence :: "import_item \<Rightarrow> unit result" where
  "validate_history_evidence i =
     (if im_mode i = import_normal then (if im_evidence i \<noteq> None then fail ErrImportManifest else ok ())
      else case (im_evidence i, im_policy i) of
        (Some h, Some p) \<Rightarrow>
          if validate_import_policy (im_mode i) (Some p) = ok () \<and> evidence_ok i p h then ok () else fail ErrImportManifest
      | _ \<Rightarrow> fail ErrImportManifest)"

section \<open>What is accepted\<close>

definition items_distinct :: "string list \<Rightarrow> string list \<Rightarrow> import_item list \<Rightarrow> bool" where
  "items_distinct keys ids is \<longleftrightarrow> distinct (map im_key is) \<and> distinct (map im_record is)
     \<and> set (map im_key is) \<inter> set keys = {} \<and> set (map im_record is) \<inter> set ids = {}"

definition item_sound :: "import_item \<Rightarrow> bool" where
  "item_sound i \<longleftrightarrow> import_key (im_key i) \<and> import_key (im_record i) \<and> im_source_file i \<noteq> [] \<and> im_mode i \<noteq> []
     \<and> validate_import_policy (im_mode i) (im_policy i) = Inr ()"

lemma validate_items_iff:
  "validate_items normal keys ids is = Inr () \<longleftrightarrow>
     list_all (\<lambda>i. (im_mode i = import_normal) = normal \<and> item_sound i) is \<and> items_distinct keys ids is"
  by (induction normal keys ids "is" rule: validate_items.induct)
     (auto simp: item_well_formed_def item_sound_def items_distinct_def)

text \<open>A manifest is accepted exactly if it has the known schema, a source name that fits, between one and the permitted number
  of items, every item sound, no item key and no external record twice, and ordinary contracts never together with history.\<close>

theorem manifest_accepted_iff:
  "validate_manifest maximum m = Inr () \<longleftrightarrow>
     mf_schema m = 1 \<and> length (mf_source m) \<le> 64 \<and> import_key (mf_source m) \<and> mf_items m \<noteq> [] \<and> length (mf_items m) \<le> maximum
     \<and> list_all item_sound (mf_items m) \<and> distinct (map im_key (mf_items m)) \<and> distinct (map im_record (mf_items m))
     \<and> (list_all (\<lambda>i. im_mode i = import_normal) (mf_items m) \<or> list_all (\<lambda>i. im_mode i \<noteq> import_normal) (mf_items m))"
proof (cases "mf_items m")
  case Nil
  then show ?thesis by (simp add: validate_manifest_def)
next
  case (Cons i "is")
  then show ?thesis
    by (auto simp: validate_manifest_def validate_items_iff items_distinct_def list_all_iff simp del: validate_items.simps)
qed

lemma slash_not_in_key: "import_key s \<Longrightarrow> slash_byte \<notin> set s"
  by (auto simp: import_key_def list_all_iff import_key_byte_def slash_byte_def byte_of_def)

lemma append_sep_inject:
  "d \<notin> set a \<Longrightarrow> d \<notin> set b \<Longrightarrow> a @ d # s = b @ d # t \<longleftrightarrow> a = b \<and> s = t"
proof (induction a arbitrary: b)
  case Nil
  then show ?case by (cases b) auto
next
  case (Cons x a)
  then show ?case by (cases b) auto
qed

lemma fact_key_inject:
  assumes "fact_ok f" "fact_ok g"
  shows "fact_key f = fact_key g \<longleftrightarrow> f = g"
proof -
  have type: "slash_byte \<notin> set (if_type f)" "slash_byte \<notin> set (if_type g)"
    using assms by (auto simp: fact_ok_def slash_byte_def)
  have source: "slash_byte \<notin> set (if_source f)" "slash_byte \<notin> set (if_source g)"
    using assms slash_not_in_key by (auto simp: fact_ok_def)
  show ?thesis
    unfolding fact_key_def append_sep_inject [OF source] append_sep_inject [OF type] by (auto intro: import_fact.equality)
qed

lemma facts_ok_iff:
  assumes "\<forall>k\<in>set seen. \<exists>g. fact_ok g \<and> fact_key g = k"
  shows "facts_ok seen fs \<longleftrightarrow> list_all fact_ok fs \<and> distinct fs \<and> fact_key ` set fs \<inter> set seen = {}"
  using assms
proof (induction seen fs rule: facts_ok.induct)
  case (1 seen)
  then show ?case by simp
next
  case (2 seen f fs)
  show ?case
  proof (cases "fact_ok f")
    case False
    then show ?thesis by simp
  next
    case True
    with 2(2) have "\<forall>k\<in>set (fact_key f # seen). \<exists>g. fact_ok g \<and> fact_key g = k" by auto
    moreover have "fact_key f \<notin> fact_key ` set fs \<longleftrightarrow> f \<notin> set fs" if "list_all fact_ok fs"
      using that True by (auto simp: list_all_iff fact_key_inject)
    ultimately show ?thesis using 2(1) True by auto
  qed
qed

text \<open>The evidence of a historical item is accepted exactly if its policy is valid, it names the new owner, its status fits
  the mode, an existing project is described completely or not at all, a full replay has payment terms and expected facts, and
  the expected facts are well formed and pairwise different: joining source, type and number by slashes never confuses two facts.\<close>

theorem history_evidence_iff:
  assumes "im_mode i \<noteq> import_normal" "im_evidence i = Some h" "im_policy i = Some p"
  shows "validate_history_evidence i = Inr () \<longleftrightarrow>
    validate_import_policy (im_mode i) (Some p) = Inr () \<and> mode_status_ok (im_mode i) (he_status h) \<and> project_evidence_ok p h
    \<and> he_owner_user h \<noteq> [] \<and> length (he_owner_user h) \<le> 64 \<and> rune_count (he_customer_name h) \<le> 255
    \<and> rune_count (he_owner_label h) \<le> 128 \<and> length (he_project h) \<le> 64 \<and> length (he_original_ref h) \<le> 128
    \<and> (he_signed_date h = [] \<or> parse_date (he_signed_date h) \<noteq> None)
    \<and> (he_report_channels h = ''API_ONLY'' \<or> he_report_channels h = ''API_AND_SOURCE_FACTS'')
    \<and> (ip_project_mode p = ''NONE'' \<or> md_start_date (im_metadata i) \<noteq> None)
    \<and> (ip_finance_mode p = ''FULL_REPLAY'' \<longrightarrow> he_facts h \<noteq> None \<and> terms_list (md_payment_terms (im_metadata i)) \<noteq> [])
    \<and> (case he_facts h of None \<Rightarrow> True | Some fs \<Rightarrow> length fs \<le> 1000 \<and> list_all fact_ok fs \<and> distinct fs)"
proof -
  have facts: "facts_ok [] fs \<longleftrightarrow> list_all fact_ok fs \<and> distinct fs" for fs using facts_ok_iff [of "[]" fs] by simp
  show ?thesis
    unfolding validate_history_evidence_def using assms
    by (cases "he_facts h") (simp_all add: evidence_ok_def facts, blast+)
qed

section \<open>Samples\<close>

definition sample_evidence :: history_evidence where
  "sample_evidence = \<lparr>he_signed_date = ''2024-02-29'', he_status = ''completed'', he_customer_name = ''c'', he_owner_label = [],
     he_owner_user = ''u1'', he_project = [], he_project_version = 0, he_relationship = [], he_original_ref = [],
     he_facts = Some [\<lparr>if_source = ''s'', if_type = ''RECEIPT'', if_external_id = ''1''\<rparr>,
       \<lparr>if_source = ''s'', if_type = ''ALLOCATION'', if_external_id = ''1''\<rparr>], he_report_channels = ''API_ONLY''\<rparr>"

definition closed_policy :: import_policy where
  "closed_policy = \<lparr>ip_version = 1, ip_project_mode = ''NONE'', ip_finance_mode = ''EVIDENCE_ONLY'',
     ip_report_mode = ''HISTORICAL_SEPARATE'', ip_responsibility_mode = ''INACTIVE'', ip_signing_mode = ''DECLARED_ONLY''\<rparr>"

definition sample_metadata :: import_metadata where
  "sample_metadata = \<lparr>md_title = ''t'', md_contract_type = [], md_service_type = [], md_opportunity_id = [], md_opportunity_name = [],
     md_counterparty_source = [], md_local_counterparty = [], md_counterparty_version = 0, md_category_source = [],
     md_crm_customer = 0, md_customer_name = ''customer'', md_customer_address = [], md_customer_contact = [], md_customer_phone = [],
     md_systems = [], md_service_items = [], md_credit_level = [], md_amount_minor = 100, md_currency = ''CNY'',
     md_payment_terms = None, md_content = [], md_start_date = None, md_end_date = None, md_paper_number = [],
     md_sales_name = ''Ann'', md_customer_type = [], md_industry = [], md_region = []\<rparr>"

definition sample_history_item :: import_item where
  "sample_history_item = \<lparr>im_key = ''k1'', im_record = ''r1'', im_mode = import_historical_closed, im_source_file = ''f'',
     im_policy = Some closed_policy, im_metadata = sample_metadata, im_evidence = Some sample_evidence\<rparr>"

theorem history_evidence_iff_witness:
  "validate_history_evidence sample_history_item = Inr ()"
proof -
  have date: "parse_date ''2024-02-29'' \<noteq> None" by code_simp
  have short: "rune_count ''c'' \<le> 255" "rune_count [] \<le> 128" using rune_count_le [of "''c''"] rune_count_le [of "[]"] by simp_all
  have valid: "validate_import_policy import_historical_closed (Some closed_policy) = Inr ()"
    by (simp add: validate_import_policy_def closed_policy_def valid_import_presentation_def import_mode_valid_def import_mode_defs)
  have key: "import_key ''s''" "import_key ''1''" by (simp_all add: import_key_def import_key_byte_def byte_of_def)
  have "im_mode sample_history_item \<noteq> import_normal" "im_evidence sample_history_item = Some sample_evidence"
    "im_policy sample_history_item = Some closed_policy" by (simp_all add: sample_history_item_def import_mode_defs)
  from history_evidence_iff [OF this] show ?thesis
    using date short valid key
    by (simp add: sample_history_item_def sample_evidence_def mode_status_ok_def import_mode_defs project_evidence_ok_def closed_policy_def fact_ok_def)
qed

end
