(* ===== verification/Import_Provision.thy ===== *)
theory Import_Provision
  imports Import_Manifest Handover
begin

text \<open>
  Customers and opportunities that a historical import opens in the CRM: the state machine of
  \<^verbatim>\<open>domain/contract/import_crm_provision.go\<close>, its ledger in
  \<^verbatim>\<open>mysql/import_crm_provision.go\<close> and the steps of
  \<^verbatim>\<open>application/contract_import_provision.go\<close> around an imported contract. The CRM and the directory of owners
  are parameters; the hints for the user are left out of the failures.
\<close>

section \<open>The state machine\<close>

datatype provision_state =
    PvPending | PvCustomerReady | PvContractReady | PvOpportunityReady | PvCompleted | PvBlocked | PvOther string

definition err_provision_key :: app_error where "err_provision_key = ErrStorage ''invalid import CRM provision key''"

definition err_provision_state :: app_error where
  "err_provision_state = ErrStorage ''invalid import CRM provision state transition''"

definition err_provision_attempt :: app_error where
  "err_provision_attempt = ErrStorage ''import CRM provision attempt mismatch''"

definition err_provision_record :: app_error where
  "err_provision_record = ErrStorage ''invalid import CRM provision error record''"

definition max_error_code :: nat where "max_error_code = 64"

definition max_error_message :: nat where "max_error_message = 512"

fun provision_next :: "provision_state \<Rightarrow> provision_state option" where
  "provision_next PvPending = Some PvCustomerReady"
| "provision_next PvCustomerReady = Some PvContractReady"
| "provision_next PvContractReady = Some PvOpportunityReady"
| "provision_next PvOpportunityReady = Some PvCompleted"
| "provision_next _ = None"

definition known_provision_state :: "provision_state \<Rightarrow> bool" where
  "known_provision_state s \<longleftrightarrow> (if provision_next s \<noteq> None then True else s = PvCompleted \<or> s = PvBlocked)"

definition terminal_provision_state :: "provision_state \<Rightarrow> bool" where
  "terminal_provision_state s \<longleftrightarrow> s = PvCompleted \<or> s = PvBlocked"

definition provision_transition_allowed :: "provision_state \<Rightarrow> provision_state \<Rightarrow> bool" where
  "provision_transition_allowed from to =
     (if \<not> known_provision_state from \<or> \<not> known_provision_state to then False
      else if terminal_provision_state from then False
      else if to = PvBlocked then True
      else provision_next from = Some to)"

definition provision_retry_allowed :: "provision_state \<Rightarrow> provision_state \<Rightarrow> bool" where
  "provision_retry_allowed from to \<longleftrightarrow> from = PvBlocked \<and> to = PvPending"

record provision_key =
  ky_tenant :: string
  ky_source :: string
  ky_record :: string

definition validate_provision_key :: "provision_key \<Rightarrow> unit result" where
  "validate_provision_key k =
     (if length (ky_tenant k) \<noteq> 26 then fail err_provision_key
      else if length (ky_source k) = 0 \<or> length (ky_source k) > 64 \<or> \<not> import_key (ky_source k) then fail err_provision_key
      else if length (ky_record k) = 0 \<or> length (ky_record k) > 128 \<or> \<not> import_key (ky_record k) then fail err_provision_key
      else ok ())"

record provision =
  pv_key :: provision_key
  pv_batch :: string
  pv_customer :: nat
  pv_customer_created :: bool
  pv_opportunity :: nat
  pv_opportunity_created :: bool
  pv_state :: provision_state
  pv_attempt :: int
  pv_error_code :: string
  pv_error_message :: string
  pv_created_at :: instant
  pv_updated_at :: instant

definition validate_provision :: "provision \<Rightarrow> unit result" where
  "validate_provision v =
     res_bind (validate_provision_key (pv_key v)) (\<lambda>_.
       if \<not> known_provision_state (pv_state v) \<or> pv_attempt v < 0 then fail err_provision_state
       else if length (pv_error_code v) > max_error_code \<or> length (pv_error_message v) > max_error_message then fail err_provision_record
       else ok ())"

record provision_advance =
  av_from :: provision_state
  av_to :: provision_state
  av_attempt :: int
  av_customer :: nat
  av_customer_created :: bool
  av_opportunity :: nat
  av_opportunity_created :: bool

definition validate_advance :: "provision_advance \<Rightarrow> unit result" where
  "validate_advance a =
     (if av_attempt a < 0 then fail err_provision_state
      else if \<not> provision_transition_allowed (av_from a) (av_to a) then fail err_provision_state
      else if av_to a = PvCustomerReady \<and> av_customer a = 0 then fail err_provision_state
      else if av_to a = PvOpportunityReady \<and> av_opportunity a = 0 then fail err_provision_state
      else ok ())"

definition advance_provision :: "provision \<Rightarrow> provision_advance \<Rightarrow> provision result" where
  "advance_provision v a =
     res_bind (validate_advance a) (\<lambda>_.
       if pv_state v \<noteq> av_from a then fail err_provision_state
       else if pv_attempt v \<noteq> av_attempt a then fail err_provision_attempt
       else
         let v1 = v\<lparr>pv_state := av_to a, pv_attempt := pv_attempt v + 1\<rparr>;
             v2 = (if av_customer a \<noteq> 0
                   then v1\<lparr>pv_customer := av_customer a, pv_customer_created := av_customer_created a\<rparr> else v1);
             v3 = (if av_opportunity a \<noteq> 0
                   then v2\<lparr>pv_opportunity := av_opportunity a, pv_opportunity_created := av_opportunity_created a\<rparr> else v2)
         in ok (v3\<lparr>pv_error_code := [], pv_error_message := []\<rparr>))"

definition validate_error_code :: "string \<Rightarrow> unit result" where
  "validate_error_code code = (if code = [] \<or> length code > max_error_code then fail err_provision_record else ok ())"

text \<open>The start of the last rune that starts at or before \<open>limit\<close>.\<close>

function last_start :: "nat \<Rightarrow> nat \<Rightarrow> nat \<Rightarrow> nat list \<Rightarrow> nat" where
  "last_start limit i k [] = k"
| "last_start limit i k (b # bs) =
     (if i > limit then k
      else last_start limit (i + snd (decode_rune (b # bs))) i (drop (snd (decode_rune (b # bs))) (b # bs)))"
  by pat_completeness auto
termination
proof (relation "measure (\<lambda>(_, _, _, bs). length bs)", goal_cases)
  case 1 show ?case by simp
next
  case (2 limit i k b bs)
  have "1 \<le> snd (decode_rune (b # bs))"
    using decode_rune_width [of "b # bs"] by blast
  then have "length (drop (snd (decode_rune (b # bs))) (b # bs)) < length (b # bs)"
    unfolding length_drop by (metis diff_less length_greater_0_conv less_eq_Suc_le list.distinct(1) One_nat_def)
  then show ?case by (simp only: in_measure prod.case)
qed

declare last_start.simps(2) [simp del]

definition truncate_message :: "string \<Rightarrow> string" where
  "truncate_message m =
     (if length m \<le> max_error_message then m else take (last_start max_error_message 0 0 (map byte_of m)) m)"

section \<open>The ledger\<close>

record provision_row =
  vr_key :: provision_key
  vr_batch :: "string option"
  vr_customer :: "nat option"
  vr_customer_created :: bool
  vr_opportunity :: "nat option"
  vr_opportunity_created :: bool
  vr_state :: provision_state
  vr_attempt :: int
  vr_error_code :: "string option"
  vr_error_message :: "string option"
  vr_created_at :: instant
  vr_updated_at :: instant

type_synonym provision_ledger = "provision_row list"

definition provision_value :: "provision_row \<Rightarrow> provision" where
  "provision_value r = \<lparr>pv_key = vr_key r, pv_batch = value_or_empty (vr_batch r), pv_customer = uint_value_or_zero (vr_customer r),
     pv_customer_created = vr_customer_created r, pv_opportunity = uint_value_or_zero (vr_opportunity r),
     pv_opportunity_created = vr_opportunity_created r, pv_state = vr_state r, pv_attempt = vr_attempt r,
     pv_error_code = value_or_empty (vr_error_code r), pv_error_message = value_or_empty (vr_error_message r),
     pv_created_at = vr_created_at r, pv_updated_at = vr_updated_at r\<rparr>"

definition provision_at :: "provision_key \<Rightarrow> provision_row \<Rightarrow> bool" where
  "provision_at k r \<longleftrightarrow> vr_key r = k"

definition read_provision :: "provision_key \<Rightarrow> provision_ledger \<Rightarrow> provision result" where
  "read_provision k l = (case first_row (provision_at k) l of None \<Rightarrow> fail ErrNotFound | Some r \<Rightarrow> ok (provision_value r))"

definition get_import_crm_provision :: "provision_key \<Rightarrow> provision_ledger \<Rightarrow> provision result" where
  "get_import_crm_provision k l = res_bind (validate_provision_key k) (\<lambda>_. read_provision k l)"

definition started_row :: "provision_key \<Rightarrow> string \<Rightarrow> instant \<Rightarrow> provision_row" where
  "started_row k batch now = \<lparr>vr_key = k, vr_batch = optional_string batch, vr_customer = None, vr_customer_created = False,
     vr_opportunity = None, vr_opportunity_created = False, vr_state = PvPending, vr_attempt = 0, vr_error_code = None,
     vr_error_message = None, vr_created_at = now, vr_updated_at = now\<rparr>"

definition restarted_row :: "string \<Rightarrow> instant \<Rightarrow> provision_row \<Rightarrow> provision_row" where
  "restarted_row batch now r = r\<lparr>vr_batch := (case optional_string batch of None \<Rightarrow> vr_batch r | Some b \<Rightarrow> Some b),
     vr_attempt := vr_attempt r + 1, vr_error_code := None, vr_error_message := None, vr_updated_at := now\<rparr>"

definition upsert_start_provision ::
  "env \<Rightarrow> provision_key \<Rightarrow> string \<Rightarrow> provision_ledger \<Rightarrow> db \<Rightarrow> (provision \<times> provision_ledger \<times> db) result" where
  "upsert_start_provision e k batch l d =
     res_bind (validate_provision_key k) (\<lambda>_.
       if length batch > 26 then fail err_provision_key
       else
         let (now, d1) = read_clock e d;
             l1 = (if first_row (provision_at k) l = None then l @ [started_row k batch now]
                   else update_rows (provision_at k) (restarted_row batch now) l)
         in res_bind (read_provision k l1) (\<lambda>v. ok (v, l1, d1)))"

definition cas_hit :: "provision_key \<Rightarrow> provision_state \<Rightarrow> int \<Rightarrow> provision_row \<Rightarrow> bool" where
  "cas_hit k from attempt r \<longleftrightarrow> provision_at k r \<and> vr_state r = from \<and> vr_attempt r = attempt"

definition cas_update ::
  "provision_key \<Rightarrow> provision_state \<Rightarrow> int \<Rightarrow> (provision_row \<Rightarrow> provision_row) \<Rightarrow> provision_ledger \<Rightarrow> db \<Rightarrow> (provision \<times> provision_ledger \<times> db) result" where
  "cas_update k from attempt f l d =
     (if rows_affected (cas_hit k from attempt) l = 0 then fail ErrStateConflict
      else let l1 = update_rows (cas_hit k from attempt) f l in
        res_bind (get_import_crm_provision k l1) (\<lambda>v. ok (v, l1, d)))"

definition advanced_row :: "provision_advance \<Rightarrow> instant \<Rightarrow> provision_row \<Rightarrow> provision_row" where
  "advanced_row a now r =
     (let r1 = r\<lparr>vr_state := av_to a, vr_attempt := av_attempt a + 1, vr_updated_at := now, vr_error_code := None,
                vr_error_message := None\<rparr>;
          r2 = (if av_customer a \<noteq> 0
                then r1\<lparr>vr_customer := Some (av_customer a), vr_customer_created := av_customer_created a\<rparr> else r1)
      in if av_opportunity a \<noteq> 0
         then r2\<lparr>vr_opportunity := Some (av_opportunity a), vr_opportunity_created := av_opportunity_created a\<rparr> else r2)"

definition advance_import_crm_provision ::
  "env \<Rightarrow> provision_key \<Rightarrow> provision_advance \<Rightarrow> provision_ledger \<Rightarrow> db \<Rightarrow> (provision \<times> provision_ledger \<times> db) result" where
  "advance_import_crm_provision e k a l d =
     res_bind (validate_provision_key k) (\<lambda>_.
     res_bind (validate_advance a) (\<lambda>_.
       let (now, d1) = read_clock e d in cas_update k (av_from a) (av_attempt a) (advanced_row a now) l d1))"

definition reset_import_crm_provision ::
  "env \<Rightarrow> provision_key \<Rightarrow> int \<Rightarrow> provision_ledger \<Rightarrow> db \<Rightarrow> (provision \<times> provision_ledger \<times> db) result" where
  "reset_import_crm_provision e k attempt l d =
     res_bind (validate_provision_key k) (\<lambda>_.
       if attempt < 0 then fail err_provision_state
       else let (now, d1) = read_clock e d in
         cas_update k PvBlocked attempt (\<lambda>r. r\<lparr>vr_state := PvPending, vr_attempt := attempt + 1, vr_error_code := None,
           vr_error_message := None, vr_updated_at := now\<rparr>) l d1)"

definition record_import_crm_provision_error ::
  "env \<Rightarrow> provision_key \<Rightarrow> provision_state \<Rightarrow> int \<Rightarrow> string \<Rightarrow> string \<Rightarrow> provision_ledger \<Rightarrow> db \<Rightarrow> (provision \<times> provision_ledger \<times> db) result" where
  "record_import_crm_provision_error e k from attempt code message l d =
     res_bind (validate_provision_key k) (\<lambda>_.
     res_bind (validate_error_code code) (\<lambda>_.
       if attempt < 0 then fail err_provision_state
       else let (now, d1) = read_clock e d in
         cas_update k from attempt (\<lambda>r. r\<lparr>vr_state := PvBlocked, vr_error_code := Some code,
           vr_error_message := Some (truncate_message message), vr_updated_at := now\<rparr>) l d1))"

definition writable_import :: "string \<Rightarrow> string \<Rightarrow> contract_row \<Rightarrow> bool" where
  "writable_import tenant cid r \<longleftrightarrow> ct_tenant r = tenant \<and> ct_id r = cid \<and> ct_version r = 1 \<and> ct_status r = StatusDraft
     \<and> ct_origin_kind r = ''IMPORTED''"

definition update_import_contract_opportunity ::
  "env \<Rightarrow> string \<Rightarrow> string \<Rightarrow> nat \<Rightarrow> string \<Rightarrow> string \<Rightarrow> db \<Rightarrow> db result" where
  "update_import_contract_opportunity e tenant cid opportunity name actor d =
     (if tenant = [] \<or> cid = [] \<or> opportunity = 0 then fail ErrStateConflict
      else let (now, d1) = read_clock e d in
        if rows_affected (writable_import tenant cid) (db_contracts d1) \<noteq> 1 then fail ErrStateConflict
        else ok (d1\<lparr>db_contracts := update_rows (writable_import tenant cid)
               (\<lambda>r. r\<lparr>ct_opportunity_id := string_ptr (nat_str opportunity), ct_opportunity_name := string_ptr name,
                      ct_updated_at := now, ct_updated_by := actor\<rparr>) (db_contracts d1)\<rparr>))"

section \<open>What the ledger guarantees\<close>

definition unique_provisions :: "provision_ledger \<Rightarrow> bool" where
  "unique_provisions l \<longleftrightarrow> distinct (map vr_key l)"

lemma key_of_row [simp]:
  "vr_key (advanced_row a now r) = vr_key r" "vr_key (restarted_row batch now r) = vr_key r" "vr_key (started_row k batch now) = k"
  by (simp_all add: advanced_row_def restarted_row_def started_row_def Let_def)

lemma read_provision_update:
  assumes "\<And>r. p r \<Longrightarrow> vr_key (f r) = vr_key r"
  shows "first_row (provision_at k) (update_rows p f l) = map_option (\<lambda>r. if p r then f r else r) (first_row (provision_at k) l)"
  using assms by (intro first_row_update_rows) (simp add: provision_at_def)

lemma cas_hit_row:
  assumes "unique_provisions l" "first_row (provision_at k) l = Some r"
  shows "first_row (cas_hit k s n) l = (if vr_state r = s \<and> vr_attempt r = n then Some r else None)"
  using assms
proof (induction l)
  case Nil
  then show ?case by simp
next
  case (Cons x l)
  show ?case
  proof (cases "provision_at k x")
    case True
    then have none: "first_row (cas_hit k s n) l = None"
      using Cons.prems by (auto simp: first_row_None unique_provisions_def provision_at_def cas_hit_def image_iff)
    moreover have "cas_hit k s n x \<longleftrightarrow> vr_state x = s \<and> vr_attempt x = n" using True by (simp add: cas_hit_def)
    ultimately show ?thesis using True Cons.prems by auto
  next
    case False
    with Cons show ?thesis by (auto simp: cas_hit_def unique_provisions_def)
  qed
qed

lemma cas_update_iff:
  assumes "unique_provisions l" "first_row (provision_at k) l = Some r" "validate_provision_key k = Inr ()" "\<And>r. vr_key (f r) = vr_key r"
  shows "cas_update k s n f l d =
    (if vr_state r = s \<and> vr_attempt r = n then Inr (provision_value (f r), update_rows (cas_hit k s n) f l, d) else Inl ErrStateConflict)"
proof (cases "vr_state r = s \<and> vr_attempt r = n")
  case True
  then have hit: "cas_hit k s n r" using first_row_SomeD(2) [OF assms(2)] by (simp add: cas_hit_def)
  have "first_row (provision_at k) (update_rows (cas_hit k s n) f l) = Some (f r)"
    using assms(2,4) hit by (simp add: read_provision_update)
  with True cas_hit_row [OF assms(1,2), of s n] assms(3) show ?thesis
    by (simp add: cas_update_def rows_affected_0 get_import_crm_provision_def read_provision_def Let_def)
next
  case False
  with cas_hit_row [OF assms(1,2), of s n] show ?thesis by (simp add: cas_update_def rows_affected_0)
qed

lemma cas_update_ok:
  assumes "cas_update k s n f l d = Inr (v, l', d')" "\<And>r. vr_key (f r) = vr_key r"
  shows "l' = update_rows (cas_hit k s n) f l" "d' = d"
  using assms(1) by (auto simp: cas_update_def Let_def result_simps split: if_splits)

lemma provision_value_advanced:
  assumes "vr_state r = av_from a" "vr_attempt r = av_attempt a" "validate_advance a = Inr ()"
  shows "advance_provision (provision_value r) a = Inr (provision_value (advanced_row a now r)\<lparr>pv_updated_at := vr_updated_at r\<rparr>)"
  using assms by (simp add: advance_provision_def provision_value_def advanced_row_def Let_def uint_value_or_zero_def)

text \<open>C19: Advancing a row of the ledger is the pure step of the domain applied to what the row stands for: both succeed or both
  fail, the stored row reads back as the result, apart from its time stamp, and no other key is touched.\<close>

theorem ledger_advance_refines:
  assumes "unique_provisions l" "validate_provision_key k = Inr ()" "read_provision k l = Inr v"
  shows "case advance_import_crm_provision e k a l d of
      Inl x \<Rightarrow> \<exists>y. advance_provision v a = Inl y
    | Inr (w, l', d') \<Rightarrow> advance_provision v a = Inr (w\<lparr>pv_updated_at := pv_updated_at v\<rparr>) \<and> read_provision k l' = Inr w
        \<and> unique_provisions l' \<and> (\<forall>k'. k' = k \<or> read_provision k' l' = read_provision k' l)"
proof -
  from assms(3) obtain r where r: "first_row (provision_at k) l = Some r" "v = provision_value r"
    by (auto simp: read_provision_def split: option.splits)
  let ?now = "fst (read_clock e d)" and ?d = "snd (read_clock e d)"
  show ?thesis
  proof (cases "validate_advance a")
    case (Inl y)
    then show ?thesis using assms(2) by (simp add: advance_import_crm_provision_def advance_provision_def)
  next
    case (Inr u)
    have run: "advance_import_crm_provision e k a l d = cas_update k (av_from a) (av_attempt a) (advanced_row a ?now) l ?d"
      using assms(2) Inr by (simp add: advance_import_crm_provision_def Let_def split_beta)
    show ?thesis
    proof (cases "vr_state r = av_from a \<and> vr_attempt r = av_attempt a")
      case False
      then have "\<exists>y. advance_provision v a = Inl y"
        using Inr r(2) by (auto simp: advance_provision_def provision_value_def)
      moreover have "advance_import_crm_provision e k a l d = Inl ErrStateConflict"
        using False cas_update_iff [OF assms(1) r(1) assms(2)] by (simp add: run)
      ultimately show ?thesis by simp
    next
      case True
      let ?l = "update_rows (cas_hit k (av_from a) (av_attempt a)) (advanced_row a ?now) l"
      have hit: "cas_hit k (av_from a) (av_attempt a) r" using True first_row_SomeD(2) [OF r(1)] by (simp add: cas_hit_def)
      have "advance_provision v a = Inr (provision_value (advanced_row a ?now r)\<lparr>pv_updated_at := pv_updated_at v\<rparr>)"
        using provision_value_advanced [of r a ?now] True Inr r(2) by (simp add: provision_value_def)
      moreover have "read_provision k ?l = Inr (provision_value (advanced_row a ?now r))"
        using r(1) hit by (simp add: read_provision_def read_provision_update)
      moreover have "unique_provisions ?l"
        using assms(1) by (simp add: unique_provisions_def map_update_rows)
      moreover have "read_provision k' ?l = read_provision k' l" if "k' \<noteq> k" for k'
      proof (cases "first_row (provision_at k') l")
        case (Some x)
        then have "\<not> cas_hit k (av_from a) (av_attempt a) x"
          using that first_row_SomeD(2) [OF Some] by (auto simp: cas_hit_def provision_at_def)
        with Some show ?thesis by (simp add: read_provision_def read_provision_update)
      qed (simp add: read_provision_def read_provision_update)
      ultimately show ?thesis by (auto simp: run cas_update_iff [OF assms(1) r(1) assms(2)] True)
    qed
  qed
qed

section \<open>Truncation\<close>

lemma decode_rune_take:
  assumes "snd (decode_rune bs) \<le> n" "bs \<noteq> []" "0 < n"
  shows "decode_rune (take n bs) = decode_rune bs"
proof -
  obtain b0 cs where bs: "bs = b0 # cs" using assms(2) by (cases bs) auto
  obtain n' where n: "n = Suc n'" using assms(3) by (cases n) auto
  consider "n = 1" | "n = 2" | "n = 3" | m where "n = Suc (Suc (Suc (Suc m)))"
    by (metis One_nat_def assms(3) less_numeral_extra(3) not0_implies_Suc numeral_2_eq_2 numeral_3_eq_3)
  then show ?thesis
    using assms(1) unfolding bs by cases (auto simp: take_Cons' split: list.splits if_splits)
qed

lemma runes_of_step:
  "bs \<noteq> [] \<Longrightarrow> runes_of bs = fst (decode_rune bs) # runes_of (drop (snd (decode_rune bs)) bs)"
  by (cases bs) (simp_all add: runes_of.simps)

lemma runes_of_take:
  assumes "bs \<noteq> []" "snd (decode_rune bs) \<le> n"
  shows "runes_of (take n bs) = fst (decode_rune bs) # runes_of (take (n - snd (decode_rune bs)) (drop (snd (decode_rune bs)) bs))"
proof -
  have n: "0 < n" using decode_rune_width [OF assms(1)] assms(2) by linarith
  then have "take n bs \<noteq> []" using assms(1) by (simp only: take_eq_Nil) simp
  from runes_of_step [OF this] show ?thesis unfolding decode_rune_take [OF assms(2,1) n] drop_take .
qed

lemma last_start_step:
  "bs \<noteq> [] \<Longrightarrow> last_start limit i k bs =
     (if i > limit then k else last_start limit (i + snd (decode_rune bs)) i (drop (snd (decode_rune bs)) bs))"
  by (cases bs) (simp_all add: last_start.simps(2))

text \<open>The cut lies at a rune start: the runes of the kept bytes are the first runes of the whole.\<close>

lemma last_start_cut:
  "bs \<noteq> [] \<Longrightarrow> i \<le> limit \<Longrightarrow>
     i \<le> last_start limit i k bs \<and> last_start limit i k bs \<le> limit
     \<and> (\<exists>rest. runes_of bs = runes_of (take (last_start limit i k bs - i) bs) @ rest)"
proof (induction limit i k bs rule: last_start.induct)
  case (1 limit i k)
  then show ?case by simp
next
  case (2 limit i k b bs)
  let ?bs = "b # bs"
  let ?w = "snd (decode_rune ?bs)"
  let ?r = "last_start limit (i + ?w) i (drop ?w ?bs)"
  have w: "0 < ?w" using decode_rune_width [OF list.distinct(2) [of b bs]] by linarith
  have r: "last_start limit i k ?bs = ?r" using 2(3) by (simp add: last_start_step)
  show ?case
  proof (cases "drop ?w ?bs = [] \<or> limit < i + ?w")
    case True
    then have "?r = i"
    proof
      assume "drop ?w ?bs = []" then show ?thesis by (simp only: last_start.simps(1))
    next
      assume "limit < i + ?w"
      then show ?thesis by (cases "drop ?w ?bs") (simp_all only: last_start.simps if_True)
    qed
    then show ?thesis using 2(3) r by simp
  next
    case False
    with 2(1) 2(3) obtain rest where IH: "i + ?w \<le> ?r" "?r \<le> limit"
      "runes_of (drop ?w ?bs) = runes_of (take (?r - (i + ?w)) (drop ?w ?bs)) @ rest"
      by (metis leD leI)
    let ?n = "?r - i"
    have n: "?w \<le> ?n" "0 < ?n" using IH(1) w by linarith+
    have "?n - ?w = ?r - (i + ?w)" by simp
    then have "runes_of (take ?n ?bs) = fst (decode_rune ?bs) # runes_of (take (?r - (i + ?w)) (drop ?w ?bs))"
      using runes_of_take [OF list.distinct(2) n(1)] by (simp only:)
    then have "runes_of ?bs = runes_of (take ?n ?bs) @ rest"
      using IH(3) runes_of_step [OF list.distinct(2) [of b bs]] by (simp only: append_Cons)
    then show ?thesis using IH(1,2) unfolding r by (metis add_leD1)
  qed
qed

text \<open>A recorded message is at most 512 bytes, the start of the reason that was given, and never ends inside a character: its
  runes are the first runes of the reason.\<close>

theorem truncated_message_whole:
  "length (truncate_message m) \<le> max_error_message \<and> truncate_message m = take (length (truncate_message m)) m
     \<and> (\<exists>rest. go_runes m = go_runes (truncate_message m) @ rest)"
proof (cases "length m \<le> max_error_message")
  case True
  then show ?thesis by (simp add: truncate_message_def)
next
  case False
  then have "map byte_of m \<noteq> []" by auto
  from last_start_cut [OF this, of 0 max_error_message 0] False show ?thesis
    by (auto simp: truncate_message_def go_runes_def take_map)
qed


section \<open>Every reachable ledger\<close>

definition has_id :: "nat option \<Rightarrow> bool" where
  "has_id v \<longleftrightarrow> uint_value_or_zero v \<noteq> 0"

definition provision_row_sound :: "provision_row \<Rightarrow> bool" where
  "provision_row_sound r \<longleftrightarrow> validate_provision (provision_value r) = Inr ()
     \<and> (vr_state r \<in> {PvCustomerReady, PvContractReady, PvOpportunityReady, PvCompleted} \<longrightarrow> has_id (vr_customer r))
     \<and> (vr_state r \<in> {PvOpportunityReady, PvCompleted} \<longrightarrow> has_id (vr_opportunity r))
     \<and> (vr_error_code r \<noteq> None \<longrightarrow> vr_state r = PvBlocked)"

definition provisions_sound :: "provision_ledger \<Rightarrow> bool" where
  "provisions_sound l \<longleftrightarrow> unique_provisions l \<and> list_all provision_row_sound l"

inductive provision_step :: "env \<Rightarrow> provision_ledger \<times> db \<Rightarrow> provision_ledger \<times> db \<Rightarrow> bool" for e where
  step_start: "upsert_start_provision e k batch l d = Inr (v, l', d') \<Longrightarrow> provision_step e (l, d) (l', d')"
| step_advance: "advance_import_crm_provision e k a l d = Inr (v, l', d') \<Longrightarrow> provision_step e (l, d) (l', d')"
| step_reset: "reset_import_crm_provision e k n l d = Inr (v, l', d') \<Longrightarrow> provision_step e (l, d) (l', d')"
| step_error: "record_import_crm_provision_error e k s n code m l d = Inr (v, l', d') \<Longrightarrow> provision_step e (l, d) (l', d')"

inductive_cases provision_stepE: "provision_step e s t"

definition no_provisions :: "provision_ledger \<times> db \<Rightarrow> bool" where
  "no_provisions s \<longleftrightarrow> fst s = []"

lemma provisions_sound_update:
  assumes "provisions_sound l" "\<And>r. p r \<Longrightarrow> vr_key (f r) = vr_key r" "\<And>r. p r \<Longrightarrow> provision_row_sound r \<Longrightarrow> provision_row_sound (f r)"
  shows "provisions_sound (update_rows p f l)"
  using assms by (auto simp: provisions_sound_def unique_provisions_def map_update_rows list_all_iff set_update_rows)

lemma validate_provision_iff:
  "validate_provision v = Inr () \<longleftrightarrow> validate_provision_key (pv_key v) = Inr () \<and> known_provision_state (pv_state v) \<and> 0 \<le> pv_attempt v
     \<and> length (pv_error_code v) \<le> max_error_code \<and> length (pv_error_message v) \<le> max_error_message"
  by (auto simp: validate_provision_def result_simps)

lemma provision_row_sound_iff:
  "provision_row_sound r \<longleftrightarrow> validate_provision_key (vr_key r) = Inr () \<and> known_provision_state (vr_state r) \<and> 0 \<le> vr_attempt r
     \<and> length (value_or_empty (vr_error_code r)) \<le> max_error_code \<and> length (value_or_empty (vr_error_message r)) \<le> max_error_message
     \<and> (vr_state r \<in> {PvCustomerReady, PvContractReady, PvOpportunityReady, PvCompleted} \<longrightarrow> has_id (vr_customer r))
     \<and> (vr_state r \<in> {PvOpportunityReady, PvCompleted} \<longrightarrow> has_id (vr_opportunity r))
     \<and> (vr_error_code r \<noteq> None \<longrightarrow> vr_state r = PvBlocked)"
  by (auto simp: provision_row_sound_def validate_provision_iff provision_value_def)

lemma transition_states:
  assumes "validate_advance a = Inr ()"
  shows "known_provision_state (av_from a)" "known_provision_state (av_to a)" "0 \<le> av_attempt a"
    "av_to a = PvBlocked \<or> provision_next (av_from a) = Some (av_to a)"
    "av_to a = PvCustomerReady \<longrightarrow> av_customer a \<noteq> 0" "av_to a = PvOpportunityReady \<longrightarrow> av_opportunity a \<noteq> 0"
  using assms by (auto simp: validate_advance_def provision_transition_allowed_def split: if_splits)

lemma advanced_row_sound:
  assumes ok: "validate_advance a = Inr ()" and hit: "cas_hit k (av_from a) (av_attempt a) r" and r: "provision_row_sound r"
  shows "provision_row_sound (advanced_row a now r)"
proof -
  note t = transition_states [OF ok]
  have ids: "vr_customer (advanced_row a now r) = (if av_customer a \<noteq> 0 then Some (av_customer a) else vr_customer r)"
    "vr_opportunity (advanced_row a now r) = (if av_opportunity a \<noteq> 0 then Some (av_opportunity a) else vr_opportunity r)"
    "vr_state (advanced_row a now r) = av_to a" "vr_attempt (advanced_row a now r) = av_attempt a + 1"
    "vr_error_code (advanced_row a now r) = None" "vr_error_message (advanced_row a now r) = None"
    by (simp_all add: advanced_row_def Let_def)
  have origin: "vr_state r = av_from a" using hit by (simp add: cas_hit_def)
  have next_cases: "av_to a = PvBlocked \<or> av_from a = PvPending \<and> av_to a = PvCustomerReady \<or> av_from a = PvCustomerReady \<and> av_to a = PvContractReady
    \<or> av_from a = PvContractReady \<and> av_to a = PvOpportunityReady \<or> av_from a = PvOpportunityReady \<and> av_to a = PvCompleted"
    using t(4) by (cases "av_from a") auto
  have id: "has_id (if n \<noteq> 0 then Some n else w) \<longleftrightarrow> n \<noteq> 0 \<or> has_id w" for n w by (simp add: has_id_def uint_value_or_zero_def)
  have base: "validate_provision_key (vr_key r) = Inr ()" "0 \<le> av_attempt a + 1"
    using r t(3) by (simp_all add: provision_row_sound_iff)
  have ids_needed: "vr_state r \<in> {PvCustomerReady, PvContractReady, PvOpportunityReady, PvCompleted} \<longrightarrow> has_id (vr_customer r)"
    "vr_state r \<in> {PvOpportunityReady, PvCompleted} \<longrightarrow> has_id (vr_opportunity r)"
    using r unfolding provision_row_sound_iff by blast+
  have customer: "av_to a \<in> {PvCustomerReady, PvContractReady, PvOpportunityReady, PvCompleted} \<longrightarrow> av_customer a \<noteq> 0 \<or> has_id (vr_customer r)"
    using next_cases t(5) ids_needed(1) origin by (elim disjE conjE) simp_all
  have opportunity: "av_to a \<in> {PvOpportunityReady, PvCompleted} \<longrightarrow> av_opportunity a \<noteq> 0 \<or> has_id (vr_opportunity r)"
    using next_cases t(6) ids_needed(2) origin by (elim disjE conjE) simp_all
  show ?thesis
    unfolding provision_row_sound_iff ids id key_of_row using base t(2) customer opportunity by simp
qed

lemma known_simps [simp]: "known_provision_state PvPending" "known_provision_state PvBlocked"
  by (simp_all add: known_provision_state_def)

lemma started_sound:
  "validate_provision_key k = Inr () \<Longrightarrow> provision_row_sound (started_row k batch now)"
  by (simp add: provision_row_sound_iff started_row_def)

lemma restarted_sound: "provision_row_sound r \<Longrightarrow> provision_row_sound (restarted_row batch now r)"
  by (auto simp: provision_row_sound_iff restarted_row_def)

lemma upsert_start_sound:
  assumes "upsert_start_provision e k batch l d = Inr (v, l', d')" "provisions_sound l"
  shows "provisions_sound l'"
proof (cases "first_row (provision_at k) l")
  case None
  then have new: "k \<notin> vr_key ` set l" by (auto simp: first_row_None provision_at_def)
  from assms(1) None have k: "validate_provision_key k = Inr ()" and l: "\<exists>now. l' = l @ [started_row k batch now]"
    by (auto simp: upsert_start_provision_def read_clock_def Let_def result_simps split: if_splits)
  from l obtain now where "l' = l @ [started_row k batch now]" by blast
  with assms(2) new started_sound [OF k] show ?thesis by (auto simp: provisions_sound_def unique_provisions_def)
next
  case (Some r)
  with assms(1) have "l' = update_rows (provision_at k) (restarted_row batch (env_clock e (db_tick d))) l"
    by (auto simp: upsert_start_provision_def read_clock_def Let_def result_simps split: if_splits)
  with assms(2) show ?thesis by (auto intro: provisions_sound_update restarted_sound)
qed

lemma advance_sound:
  assumes "advance_import_crm_provision e k a l d = Inr (v, l', d')" "provisions_sound l"
  shows "provisions_sound l'"
proof -
  from assms(1) have ok: "validate_advance a = Inr ()"
    and "\<exists>now. l' = update_rows (cas_hit k (av_from a) (av_attempt a)) (advanced_row a now) l"
    by (auto simp: advance_import_crm_provision_def read_clock_def Let_def result_simps dest: cas_update_ok(1) [OF _ key_of_row(1)])
  then show ?thesis using assms(2) by (auto intro: provisions_sound_update advanced_row_sound)
qed

lemma reset_sound:
  assumes "reset_import_crm_provision e k n l d = Inr (v, l', d')" "provisions_sound l"
  shows "provisions_sound l'"
proof -
  from assms(1) have n: "0 \<le> n" and run: "cas_update k PvBlocked n (\<lambda>r. r\<lparr>vr_state := PvPending, vr_attempt := n + 1, vr_error_code := None,
      vr_error_message := None, vr_updated_at := env_clock e (db_tick d)\<rparr>) l (d\<lparr>db_tick := db_tick d + 1\<rparr>) = Inr (v, l', d')"
    by (auto simp: reset_import_crm_provision_def read_clock_def Let_def result_simps split: if_splits)
  show ?thesis unfolding cas_update_ok(1) [OF run, simplified]
    using n by (intro provisions_sound_update [OF assms(2)]) (auto simp: provision_row_sound_iff)
qed

lemma error_sound:
  assumes "record_import_crm_provision_error e k s n code m l d = Inr (v, l', d')" "provisions_sound l"
  shows "provisions_sound l'"
proof -
  have m: "length (truncate_message m) \<le> max_error_message"
    using last_start_cut [of "map byte_of m" 0 max_error_message 0] by (cases "m = []") (auto simp: truncate_message_def)
  from assms(1) have code: "length code \<le> max_error_code" and run: "cas_update k s n (\<lambda>r. r\<lparr>vr_state := PvBlocked, vr_error_code := Some code,
      vr_error_message := Some (truncate_message m), vr_updated_at := env_clock e (db_tick d)\<rparr>) l (d\<lparr>db_tick := db_tick d + 1\<rparr>) = Inr (v, l', d')"
    by (auto simp: record_import_crm_provision_error_def validate_error_code_def read_clock_def Let_def result_simps split: if_splits)
  show ?thesis unfolding cas_update_ok(1) [OF run, simplified]
    using code m by (intro provisions_sound_update [OF assms(2)]) (auto simp: provision_row_sound_iff)
qed

interpretation provision_machine: invariant_system no_provisions "provision_step e" "\<lambda>s. provisions_sound (fst s)" for e
proof
  show "no_provisions s \<Longrightarrow> provisions_sound (fst s)" for s
    by (simp add: no_provisions_def provisions_sound_def unique_provisions_def)
  show "provisions_sound (fst s) \<Longrightarrow> provision_step e s t \<Longrightarrow> provisions_sound (fst t)" for s t
    by (auto elim!: provision_stepE dest: upsert_start_sound advance_sound reset_sound error_sound)
qed

text \<open>C18: Whatever starts, advances, resets and failures reach the ledger in whatever order, it holds one row per key, every row
  is valid for the domain, a row past its customer or opportunity step carries that id, and an error code stands only in a blocked row.\<close>

theorem reachable_provisions_sound:
  assumes "reach no_provisions (provision_step e) s"
  shows "provisions_sound (fst s)"
  using provision_machine.reach_inv [OF assms] .

definition sample_provision_key :: provision_key where
  "sample_provision_key = \<lparr>ky_tenant = replicate 26 CHR ''t'', ky_source = ''s'', ky_record = ''r''\<rparr>"

lemma sample_key_valid: "validate_provision_key sample_provision_key = Inr ()"
  by (simp add: sample_provision_key_def validate_provision_key_def import_key_def import_key_byte_def byte_of_def)

theorem reachable_provisions_sound_witness:
  "provisions_sound [started_row sample_provision_key ''b'' 0]"
proof -
  let ?k = sample_provision_key
  have "upsert_start_provision sample_db_env ?k ''b'' [] (sample_db []) =
      Inr (provision_value (started_row ?k ''b'' 0), [started_row ?k ''b'' 0], (sample_db [])\<lparr>db_tick := 1\<rparr>)"
    by (simp add: upsert_start_provision_def sample_key_valid read_clock_def read_provision_def provision_at_def sample_db_env_def sample_db_def)
  from step_start [OF this]
  have "reach no_provisions (provision_step sample_db_env) ([started_row ?k ''b'' 0], (sample_db [])\<lparr>db_tick := 1\<rparr>)"
    by (rule reach_step [rotated]) (rule reach_init, simp add: no_provisions_def)
  from reachable_provisions_sound [OF this] show ?thesis by simp
qed

definition found_customer :: provision_advance where
  "found_customer = \<lparr>av_from = PvPending, av_to = PvCustomerReady, av_attempt = 0, av_customer = 7, av_customer_created = False,
     av_opportunity = 0, av_opportunity_created = False\<rparr>"

theorem ledger_advance_refines_witness:
  "\<exists>u l' d'. advance_import_crm_provision sample_db_env sample_provision_key found_customer [started_row sample_provision_key ''b'' 0] (sample_db [])
      = Inr (u, l', d') \<and> read_provision sample_provision_key l' = Inr u \<and> pv_customer u = 7 \<and> pv_state u = PvCustomerReady"
proof -
  let ?r = "started_row sample_provision_key ''b'' 0"
  let ?run = "advance_import_crm_provision sample_db_env sample_provision_key found_customer [?r] (sample_db [])"
  have l: "unique_provisions [?r]" "read_provision sample_provision_key [?r] = Inr (provision_value ?r)"
    by (simp_all add: unique_provisions_def read_provision_def provision_at_def)
  have domain: "\<exists>u. advance_provision (provision_value ?r) found_customer = Inr u \<and> pv_customer u = 7 \<and> pv_state u = PvCustomerReady"
    by (simp add: advance_provision_def validate_advance_def provision_transition_allowed_def known_provision_state_def terminal_provision_state_def
        found_customer_def provision_value_def started_row_def Let_def)
  from ledger_advance_refines [OF l(1) sample_key_valid l(2), where e = sample_db_env and a = found_customer and d = "sample_db []"] domain show ?thesis
    by (cases ?run) auto
qed

end
