(* ===== verification/Import_Crm.thy ===== *)
theory Import_Crm
  imports Import_Provision Contract_Service
begin

text \<open>
  The customer and the opportunity a historical import opens in the CRM (\<^verbatim>\<open>application/contract_import_provision.go\<close> with
  the types of \<^verbatim>\<open>application/crm_provision.go\<close>): the plan of the preview and the steps of the execution around the
  contract, on the ledger of \<^verbatim>\<open>Import_Provision\<close>. The commit of the contract itself belongs to the batch and is left out,
  and so are the hints for the user in a failure.
\<close>

section \<open>Parameters\<close>

record crm_candidate =
  cd_id :: nat
  cd_name :: string
  cd_status :: string

record crm_customer_input =
  ki_name :: string
  ki_type :: string
  ki_industry :: string
  ki_region :: string
  ki_owner :: string

record crm_opportunity_input =
  oi_customer :: nat
  oi_owner :: string
  oi_name :: string
  oi_amount :: string
  oi_sign_date :: string

record provision_failure =
  pf_field :: string
  pf_code :: string
  pf_retryable :: bool
  pf_reason :: string

text \<open>What the code asks of an error of a client: whether it wraps a failure of its own, the code it carries, whether it is the
  error of an unavailable CRM, and its text.\<close>

record crm_error =
  xe_failure :: "provision_failure option"
  xe_code :: "string option"
  xe_unavailable :: bool
  xe_text :: string

datatype owner_error = OwnerAmbiguous | OwnerNotFound | OwnerUnavailable

text \<open>A call carries the identity of the actor and its idempotency key. The answer of a client may depend on the calls before.\<close>

datatype crm_call =
    CallLookup string string string
  | CallCreateCustomer string string crm_customer_input
  | CallCreateOpportunity string string crm_opportunity_input
  | CallSign string string nat string

type_synonym crm_log = "crm_call list"

record crm_clients =
  cl_lookup :: "crm_log \<Rightarrow> string \<Rightarrow> string \<Rightarrow> string \<Rightarrow> crm_error + crm_candidate list"
  cl_create_customer :: "crm_log \<Rightarrow> string \<Rightarrow> string \<Rightarrow> crm_customer_input \<Rightarrow> crm_error + nat \<times> string"
  cl_create_opportunity :: "crm_log \<Rightarrow> string \<Rightarrow> string \<Rightarrow> crm_opportunity_input \<Rightarrow> crm_error + nat"
  cl_sign :: "crm_log \<Rightarrow> string \<Rightarrow> string \<Rightarrow> nat \<Rightarrow> string \<Rightarrow> crm_error + nat"
  cl_owner :: "string \<Rightarrow> owner_error + string"

section \<open>Values sent to the CRM\<close>

definition code_disabled :: string where "code_disabled = ''IMPORT_CRM_PROVISION_DISABLED''"
definition code_owner_unresolved :: string where "code_owner_unresolved = ''IMPORT_PROVISION_OWNER_UNRESOLVED''"
definition code_customer_ambiguous :: string where "code_customer_ambiguous = ''IMPORT_PROVISION_CUSTOMER_AMBIGUOUS''"
definition code_crm_rejected :: string where "code_crm_rejected = ''IMPORT_PROVISION_CRM_REJECTED''"
definition code_contract_not_verified :: string where "code_contract_not_verified = ''IMPORT_PROVISION_CONTRACT_NOT_VERIFIED''"
definition code_validation_failed :: string where "code_validation_failed = ''IMPORT_VALIDATION_FAILED''"
definition code_too_long :: string where "code_too_long = ''TOO_LONG''"
definition crm_not_verified :: string where "crm_not_verified = ''CRM_IMPORT_PROVISION_CONTRACT_NOT_VERIFIED''"

definition provision_mode_applies :: "string \<Rightarrow> bool" where
  "provision_mode_applies mode \<longleftrightarrow> mode = import_archive_only \<or> mode = import_historical_closed"

definition provision_item_applies :: "bool \<Rightarrow> import_item \<Rightarrow> bool" where
  "provision_item_applies enabled i \<longleftrightarrow> enabled \<and> provision_mode_applies (im_mode i) \<and> md_crm_customer (im_metadata i) = 0
     \<and> md_opportunity_id (im_metadata i) = [] \<and> md_opportunity_name (im_metadata i) = []
     \<and> md_counterparty_source (im_metadata i) \<noteq> counterparty_local"

definition provision_amount :: "int \<Rightarrow> string" where
  "provision_amount minor = int_str (go_quot minor 100) @ CHR ''.'' # fmt_pad_int 2 \<bar>go_rem minor 100\<bar>"

definition provision_sign_date :: "instant option \<Rightarrow> string" where
  "provision_sign_date start = (case start of None \<Rightarrow> [] | Some t \<Rightarrow> format_date (local_civil utc t))"

definition max_profile_length :: nat where "max_profile_length = 64"

definition overlong_profile_column :: "import_metadata \<Rightarrow> string" where
  "overlong_profile_column m =
     (let (kind, industry, region) = provision_customer_profile m in
      if rune_count kind > max_profile_length then ''metadata.customer_type''
      else if rune_count industry > max_profile_length then ''metadata.industry''
      else if rune_count region > max_profile_length then ''metadata.region''
      else [])"

definition profile_failure :: "import_metadata \<Rightarrow> provision_failure option" where
  "profile_failure m =
     (if overlong_profile_column m = [] then None
      else Some \<lparr>pf_field = overlong_profile_column m, pf_code = code_too_long, pf_retryable = False,
                 pf_reason = overlong_profile_column m @ '' exceeds 64 characters''\<rparr>)"

definition nul :: char where "nul = CHR 0x00"

definition idempotency_seed :: "provision_key \<Rightarrow> string" where
  "idempotency_seed k = ky_tenant k @ nul # ky_source k @ nul # ky_record k"

definition provision_idempotency_key :: "env \<Rightarrow> string \<Rightarrow> provision_key \<Rightarrow> string" where
  "provision_idempotency_key e step k = ''import-provision:'' @ step @ '':'' @ env_sha256 e (idempotency_seed k)"

section \<open>Failures\<close>

definition classify_crm_error :: "crm_error \<Rightarrow> provision_failure" where
  "classify_crm_error x =
     (case xe_failure x of
        Some f \<Rightarrow> f
      | None \<Rightarrow>
          if map_option trim_space (xe_code x) = Some crm_not_verified
          then \<lparr>pf_field = ''metadata.opportunity_id'', pf_code = code_contract_not_verified, pf_retryable = False,
                pf_reason = ''CRM sign rejected by contract verification: '' @ xe_text x\<rparr>
          else \<lparr>pf_field = ''metadata'', pf_code = code_crm_rejected, pf_retryable = xe_unavailable x, pf_reason = xe_text x\<rparr>)"

definition owner_failure :: "bool \<Rightarrow> string \<Rightarrow> provision_failure" where
  "owner_failure retryable reason =
     \<lparr>pf_field = ''metadata.sales_name'', pf_code = code_owner_unresolved, pf_retryable = retryable, pf_reason = reason\<rparr>"

definition resolve_provision_sales :: "crm_clients \<Rightarrow> string \<Rightarrow> string \<times> (provision_failure + string)" where
  "resolve_provision_sales cl sales =
     (let name = trim_space sales in
      if name = [] then (''UNRESOLVED'', Inl (owner_failure False ''sales name is empty''))
      else if rune_count name > 128 then (''UNRESOLVED'', Inl (owner_failure False ''sales name exceeds 128 characters''))
      else case cl_owner cl name of
        Inr identity \<Rightarrow>
          if trim_space identity \<noteq> [] then (''RESOLVED'', Inr (trim_space identity))
          else (''UNRESOLVED'', Inl (owner_failure True ''owner directory returned an empty identity''))
      | Inl OwnerAmbiguous \<Rightarrow> (''AMBIGUOUS'', Inl (owner_failure False ''owner directory matched multiple owners''))
      | Inl OwnerNotFound \<Rightarrow> (''UNRESOLVED'', Inl (owner_failure False ''owner directory has no matching owner''))
      | Inl OwnerUnavailable \<Rightarrow> (''UNRESOLVED'', Inl (owner_failure True ''owner directory is unavailable'')))"

definition customer_failure :: "string \<Rightarrow> bool \<Rightarrow> string \<Rightarrow> provision_failure" where
  "customer_failure code retryable reason =
     \<lparr>pf_field = ''metadata.customer_name'', pf_code = code, pf_retryable = retryable, pf_reason = reason\<rparr>"

section \<open>The preview\<close>

record provision_plan =
  pp_customer_name :: string
  pp_customer_state :: string
  pp_sales_name :: string
  pp_sales_state :: string
  pp_amount :: string
  pp_sign_date :: string

definition active_candidate :: "crm_candidate \<Rightarrow> bool" where
  "active_candidate c \<longleftrightarrow> equal_fold (trim_space (cd_status c)) ''ACTIVE''"

definition plan_provision_customer ::
  "crm_clients \<Rightarrow> env \<Rightarrow> principal \<Rightarrow> provision_key \<Rightarrow> string \<Rightarrow> crm_log \<Rightarrow> string \<times> provision_failure option \<times> crm_log" where
  "plan_provision_customer cl e p k name log =
     (let key = provision_idempotency_key e ''lookup'' k; log1 = log @ [CallLookup (pr_identity p) key name] in
      case cl_lookup cl log (pr_identity p) key name of
        Inl x \<Rightarrow> (''TO_CREATE'', Some (classify_crm_error x), log1)
      | Inr [] \<Rightarrow> (''TO_CREATE'', None, log1)
      | Inr [c] \<Rightarrow>
          if \<not> active_candidate c
          then (''AMBIGUOUS'', Some (customer_failure code_customer_ambiguous False ''preview: CRM customer is not ACTIVE''), log1)
          else (''EXISTS'', None, log1)
      | Inr _ \<Rightarrow>
          (''AMBIGUOUS'', Some (customer_failure code_customer_ambiguous False ''preview: multiple CRM customers matched''), log1))"

definition plan_provision ::
  "crm_clients \<Rightarrow> env \<Rightarrow> principal \<Rightarrow> provision_key \<Rightarrow> import_item \<Rightarrow> crm_log \<Rightarrow> provision_plan \<times> provision_failure option \<times> crm_log" where
  "plan_provision cl e p k i log =
     (let m = im_metadata i; name = trim_space (md_customer_name m); sales = trim_space (md_sales_name m);
          (sales_state, resolved) = resolve_provision_sales cl sales;
          (customer_state, blocked, log1) = plan_provision_customer cl e p k name log
      in (\<lparr>pp_customer_name = name, pp_customer_state = customer_state, pp_sales_name = sales, pp_sales_state = sales_state,
           pp_amount = provision_amount (md_amount_minor m), pp_sign_date = provision_sign_date (md_start_date m)\<rparr>,
          (case resolved of Inl f \<Rightarrow> Some f | Inr _ \<Rightarrow> blocked), log1))"

section \<open>The calls of the execution\<close>

type_synonym 'a opened = "crm_log \<times> (provision_failure + 'a)"

definition create_provision_customer ::
  "crm_clients \<Rightarrow> env \<Rightarrow> principal \<Rightarrow> provision_key \<Rightarrow> import_metadata \<Rightarrow> string \<Rightarrow> crm_log \<Rightarrow> (nat \<times> string \<times> bool) opened" where
  "create_provision_customer cl e p k m owner log =
     (let name = trim_space (md_customer_name m);
          (kind, industry, region) = provision_customer_profile m;
          key = provision_idempotency_key e ''customer'' k;
          input = \<lparr>ki_name = name, ki_type = kind, ki_industry = industry, ki_region = region, ki_owner = owner\<rparr>;
          log1 = log @ [CallCreateCustomer (pr_identity p) key input] in
      case cl_create_customer cl log (pr_identity p) key input of
        Inl x \<Rightarrow> (log1, Inl (classify_crm_error x))
      | Inr (customer, stored) \<Rightarrow>
          if customer = 0 then (log1, Inl (customer_failure code_crm_rejected True ''CRM returned a customer without id''))
          else (log1, Inr (customer, if trim_space stored = [] then name else stored, True)))"

definition lookup_or_create_customer ::
  "crm_clients \<Rightarrow> env \<Rightarrow> principal \<Rightarrow> provision_key \<Rightarrow> import_metadata \<Rightarrow> string \<Rightarrow> crm_log \<Rightarrow> (nat \<times> string \<times> bool) opened" where
  "lookup_or_create_customer cl e p k m owner log =
     (let name = trim_space (md_customer_name m) in
      if name = [] then (log, Inl (customer_failure code_validation_failed False ''customer name is empty''))
      else if rune_count name > 255 then (log, Inl (customer_failure code_validation_failed False ''customer name exceeds 255 characters''))
      else case profile_failure m of
        Some f \<Rightarrow> (log, Inl f)
      | None \<Rightarrow>
          let key = provision_idempotency_key e ''lookup'' k; log1 = log @ [CallLookup (pr_identity p) key name] in
          case cl_lookup cl log (pr_identity p) key name of
            Inl x \<Rightarrow> (log1, Inl (classify_crm_error x))
          | Inr [] \<Rightarrow> create_provision_customer cl e p k m owner log1
          | Inr [c] \<Rightarrow>
              if \<not> active_candidate c
              then (log1, Inl (customer_failure code_customer_ambiguous False ''CRM customer is not ACTIVE''))
              else if cd_id c = 0
              then (log1, Inl (customer_failure code_crm_rejected True ''CRM returned a customer candidate without id''))
              else (log1, Inr (cd_id c, cd_name c, False))
          | Inr _ \<Rightarrow> (log1, Inl (customer_failure code_customer_ambiguous False ''multiple CRM customers matched'')))"

definition provision_customer_name ::
  "crm_clients \<Rightarrow> env \<Rightarrow> principal \<Rightarrow> provision_key \<Rightarrow> import_metadata \<Rightarrow> nat \<Rightarrow> crm_log \<Rightarrow> string opened" where
  "provision_customer_name cl e p k m customer log =
     (let name = trim_space (md_customer_name m); key = provision_idempotency_key e ''lookup'' k;
          log1 = log @ [CallLookup (pr_identity p) key name] in
      case cl_lookup cl log (pr_identity p) key name of
        Inl x \<Rightarrow> (log1, Inl (classify_crm_error x))
      | Inr cs \<Rightarrow>
          (case List.find (\<lambda>c. cd_id c = customer) cs of
             Some c \<Rightarrow> (log1, Inr (if trim_space (cd_name c) = [] then name else trim_space (cd_name c)))
           | None \<Rightarrow>
               if customer \<noteq> 0 \<and> name \<noteq> [] then (log1, Inr name)
               else (log1, Inl (customer_failure code_customer_ambiguous False ''ledger customer is not visible in CRM lookup''))))"

definition create_provision_opportunity ::
  "crm_clients \<Rightarrow> env \<Rightarrow> principal \<Rightarrow> provision_key \<Rightarrow> contract \<Rightarrow> string \<Rightarrow> crm_log \<Rightarrow> nat opened" where
  "create_provision_opportunity cl e p k c owner log =
     (let key = provision_idempotency_key e ''opportunity'' k;
          input = \<lparr>oi_customer = c_crm_customer_id c, oi_owner = owner, oi_name = trim_space (c_title c),
                   oi_amount = provision_amount (c_amount_minor c), oi_sign_date = provision_sign_date (c_start_date c)\<rparr>;
          log1 = log @ [CallCreateOpportunity (pr_identity p) key input] in
      case cl_create_opportunity cl log (pr_identity p) key input of
        Inl x \<Rightarrow> (log1, Inl (classify_crm_error x))
      | Inr opportunity \<Rightarrow>
          if opportunity = 0
          then (log1, Inl \<lparr>pf_field = ''metadata.opportunity_id'', pf_code = code_crm_rejected, pf_retryable = True,
                           pf_reason = ''CRM returned an opportunity without id''\<rparr>)
          else (log1, Inr opportunity))"

definition sign_provision_opportunity ::
  "crm_clients \<Rightarrow> env \<Rightarrow> principal \<Rightarrow> provision_key \<Rightarrow> nat \<Rightarrow> string \<Rightarrow> crm_log \<Rightarrow> nat opened" where
  "sign_provision_opportunity cl e p k opportunity reference log =
     (let key = provision_idempotency_key e ''sign'' k; log1 = log @ [CallSign (pr_identity p) key opportunity reference] in
      case cl_sign cl log (pr_identity p) key opportunity reference of
        Inl x \<Rightarrow> (log1, Inl (classify_crm_error x))
      | Inr signed \<Rightarrow> (log1, Inr signed))"

section \<open>The execution\<close>

record provision_world =
  pw_ledger :: provision_ledger
  pw_db :: db
  pw_log :: crm_log

datatype provision_error = PeStore app_error | PeFailure provision_failure

type_synonym 'a provision_run = "provision_world \<times> (provision_error + 'a)"

definition run_bind :: "'a provision_run \<Rightarrow> ('a \<Rightarrow> provision_world \<Rightarrow> 'b provision_run) \<Rightarrow> 'b provision_run" where
  "run_bind r f = (case r of (w, Inl x) \<Rightarrow> (w, Inl x) | (w, Inr v) \<Rightarrow> f v w)"

definition store_step ::
  "(provision_ledger \<Rightarrow> db \<Rightarrow> ('a \<times> provision_ledger \<times> db) result) \<Rightarrow> provision_world \<Rightarrow> 'a provision_run" where
  "store_step f w =
     (case f (pw_ledger w) (pw_db w) of
        Inl x \<Rightarrow> (w, Inl (PeStore x))
      | Inr (v, l, d) \<Rightarrow> (w\<lparr>pw_ledger := l, pw_db := d\<rparr>, Inr v))"

definition fail_import_provision ::
  "env \<Rightarrow> provision_key \<Rightarrow> provision \<Rightarrow> provision_failure \<Rightarrow> provision_world \<Rightarrow> 'a provision_run" where
  "fail_import_provision e k v f w =
     (if pf_code f = code_disabled then (w, Inl (PeFailure f))
      else (fst (store_step (record_import_crm_provision_error e k (pv_state v) (pv_attempt v) (pf_code f) (pf_reason f)) w),
            Inl (PeFailure f)))"

definition crm_step ::
  "env \<Rightarrow> provision_key \<Rightarrow> provision \<Rightarrow> (crm_log \<Rightarrow> 'a opened) \<Rightarrow> provision_world \<Rightarrow> 'a provision_run" where
  "crm_step e k v call w =
     (case call (pw_log w) of
        (log, Inl f) \<Rightarrow> fail_import_provision e k v f (w\<lparr>pw_log := log\<rparr>)
      | (log, Inr x) \<Rightarrow> (w\<lparr>pw_log := log\<rparr>, Inr x))"

text \<open>The start of an execution: the row of the ledger, put back to its first state when the last attempt was blocked.\<close>

definition reopen_provision :: "env \<Rightarrow> provision_key \<Rightarrow> provision \<Rightarrow> provision_world \<Rightarrow> provision provision_run" where
  "reopen_provision e k v w =
     (if pv_state v \<noteq> PvBlocked then (w, Inr v)
      else if \<not> provision_retry_allowed (pv_state v) PvPending then (w, Inl (PeStore ErrImportUnsupported))
      else store_step (reset_import_crm_provision e k (pv_attempt v)) w)"

definition open_provision :: "env \<Rightarrow> provision_key \<Rightarrow> string \<Rightarrow> provision_world \<Rightarrow> provision provision_run" where
  "open_provision e k batch w =
     (case validate_provision_key k of
        Inl _ \<Rightarrow> (w, Inl (PeStore ErrValidation))
      | Inr _ \<Rightarrow> run_bind (store_step (upsert_start_provision e k batch) w) (reopen_provision e k))"

definition resolve_owner :: "crm_clients \<Rightarrow> import_metadata \<Rightarrow> crm_log \<Rightarrow> string opened" where
  "resolve_owner cl m log = (log, snd (resolve_provision_sales cl (md_sales_name m)))"

definition customer_step ::
  "env \<Rightarrow> crm_clients \<Rightarrow> principal \<Rightarrow> provision_key \<Rightarrow> import_metadata \<Rightarrow> provision \<Rightarrow> provision_world \<Rightarrow> provision provision_run" where
  "customer_step e cl p k m v w =
     (if pv_state v \<noteq> PvPending then (w, Inr v)
      else run_bind
        (if pv_customer v \<noteq> 0 then (w, Inr (pv_customer v, pv_customer_created v))
         else run_bind (crm_step e k v (resolve_owner cl m) w) (\<lambda>identity w.
                run_bind (crm_step e k v (lookup_or_create_customer cl e p k m identity) w) (\<lambda>(customer, _, created) w.
                  (w, Inr (customer, created)))))
        (\<lambda>(customer, created). store_step (advance_import_crm_provision e k
           \<lparr>av_from = PvPending, av_to = PvCustomerReady, av_attempt = pv_attempt v, av_customer = customer,
            av_customer_created = created, av_opportunity = 0, av_opportunity_created = False\<rparr>)))"

definition plain_advance :: "provision \<Rightarrow> provision_state \<Rightarrow> provision_advance" where
  "plain_advance v to = \<lparr>av_from = pv_state v, av_to = to, av_attempt = pv_attempt v, av_customer = 0, av_customer_created = False,
     av_opportunity = 0, av_opportunity_created = False\<rparr>"

text \<open>What follows once the batch holds the contract.\<close>

definition contract_step :: "env \<Rightarrow> provision_key \<Rightarrow> provision \<Rightarrow> provision_world \<Rightarrow> provision provision_run" where
  "contract_step e k v w =
     (if pv_state v \<noteq> PvCustomerReady then (w, Inr v)
      else store_step (advance_import_crm_provision e k (plain_advance v PvContractReady)) w)"

definition write_back_failure :: provision_failure where
  "write_back_failure = \<lparr>pf_field = ''metadata.opportunity_id'', pf_code = code_crm_rejected, pf_retryable = False,
     pf_reason = ''write back opportunity to contract: state conflict''\<rparr>"

definition write_back_opportunity ::
  "env \<Rightarrow> provision_key \<Rightarrow> contract \<Rightarrow> nat \<Rightarrow> provision \<Rightarrow> provision_world \<Rightarrow> provision provision_run" where
  "write_back_opportunity e k c opportunity v w =
     (case update_import_contract_opportunity e (c_tenant_id c) (c_id c) opportunity (trim_space (c_title c)) (c_created_by c) (pw_db w) of
        Inl _ \<Rightarrow> fail_import_provision e k v write_back_failure w
      | Inr d \<Rightarrow> store_step (advance_import_crm_provision e k (plain_advance v PvCompleted)) (w\<lparr>pw_db := d\<rparr>))"

definition complete_provision_opportunity ::
  "env \<Rightarrow> crm_clients \<Rightarrow> principal \<Rightarrow> provision_key \<Rightarrow> import_metadata \<Rightarrow> contract \<Rightarrow> provision \<Rightarrow> provision_world
    \<Rightarrow> provision provision_run" where
  "complete_provision_opportunity e cl p k m c v w =
     (if pv_state v = PvOpportunityReady then write_back_opportunity e k c (pv_opportunity v) v w
      else run_bind
        (if pv_opportunity v \<noteq> 0 then (w, Inr (pv_opportunity v, False))
         else run_bind (crm_step e k v (resolve_owner cl m) w) (\<lambda>identity w.
                run_bind (crm_step e k v (create_provision_opportunity cl e p k c identity) w) (\<lambda>opportunity w.
                  (w, Inr (opportunity, True)))))
        (\<lambda>(opportunity, created) w.
           run_bind (crm_step e k v (sign_provision_opportunity cl e p k opportunity (c_id c)) w) (\<lambda>_ w.
           run_bind (store_step (advance_import_crm_provision e k ((plain_advance v PvOpportunityReady)
               \<lparr>av_opportunity := opportunity, av_opportunity_created := created\<rparr>)) w)
             (write_back_opportunity e k c opportunity))))"

section \<open>Idempotency\<close>

lemma import_key_no_nul: "import_key s \<Longrightarrow> nul \<notin> set s"
  by (auto simp: import_key_def list_all_iff import_key_byte_def nul_def byte_of_def)

text \<open>The text behind the idempotency keys tells any two rows of the ledger apart: two valid keys share it only if they are
  the same key, so a retry repeats the keys of its row and never those of another.\<close>

theorem idempotency_seed_inject:
  assumes "validate_provision_key k = Inr ()" "validate_provision_key k' = Inr ()"
  shows "idempotency_seed k = idempotency_seed k' \<longleftrightarrow> k = k'"
proof -
  have len: "length (ky_tenant k) = 26" "length (ky_tenant k') = 26"
    and src: "nul \<notin> set (ky_source k)" "nul \<notin> set (ky_source k')"
    using assms by (auto simp: validate_provision_key_def split: if_splits intro!: import_key_no_nul)
  show ?thesis
    unfolding idempotency_seed_def using len append_sep_inject [OF src] by (auto intro: provision_key.equality)
qed

theorem idempotency_seed_inject_witness:
  "idempotency_seed \<lparr>ky_tenant = replicate 26 CHR ''t'', ky_source = ''a'', ky_record = ''bc''\<rparr>
     \<noteq> idempotency_seed \<lparr>ky_tenant = replicate 26 CHR ''t'', ky_source = ''ab'', ky_record = ''c''\<rparr>"
proof -
  have "validate_provision_key \<lparr>ky_tenant = replicate 26 CHR ''t'', ky_source = ''a'', ky_record = ''bc''\<rparr> = Inr ()"
    "validate_provision_key \<lparr>ky_tenant = replicate 26 CHR ''t'', ky_source = ''ab'', ky_record = ''c''\<rparr> = Inr ()"
    by (simp_all add: validate_provision_key_def import_key_def import_key_byte_def byte_of_def)
  from idempotency_seed_inject [OF this] show ?thesis by simp
qed

section \<open>The steps on the ledger\<close>

lemma run_bind_simps [simp]:
  "run_bind (w, Inl x) f = (w, Inl x)" "run_bind (w, Inr v) f = f v w"
  by (simp_all add: run_bind_def)

lemma run_bind_Inr: "run_bind r f = (w', Inr v) \<longleftrightarrow> (\<exists>w x. r = (w, Inr x) \<and> f x w = (w', Inr v))"
  by (auto simp: run_bind_def split: prod.splits sum.splits)

lemma store_step_Inr:
  "store_step f w = (w', Inr v) \<longleftrightarrow> (\<exists>l d. f (pw_ledger w) (pw_db w) = Inr (v, l, d) \<and> w' = w\<lparr>pw_ledger := l, pw_db := d\<rparr>)"
  by (auto simp: store_step_def split: sum.splits)

lemma fail_not_Inr [simp]: "fail_import_provision e k v f w \<noteq> (w', Inr x)" "snd (fail_import_provision e k v f w) = Inl (PeFailure f)"
  by (simp_all add: fail_import_provision_def)

lemma crm_step_Inr:
  "crm_step e k v call w = (w', Inr x) \<longleftrightarrow> (\<exists>log. call (pw_log w) = (log, Inr x) \<and> w' = w\<lparr>pw_log := log\<rparr>)"
  by (auto simp: crm_step_def split: prod.splits sum.splits)

lemma advance_ok:
  assumes "advance_import_crm_provision e k a l d = Inr (v, l', d')" "unique_provisions l"
  shows "\<exists>r now. first_row (provision_at k) l = Some r \<and> vr_state r = av_from a \<and> vr_attempt r = av_attempt a
    \<and> validate_advance a = Inr () \<and> v = provision_value (advanced_row a now r) \<and> d' = d\<lparr>db_tick := db_tick d + 1\<rparr>
    \<and> unique_provisions l' \<and> first_row (provision_at k) l' = Some (advanced_row a now r)"
proof -
  let ?f = "advanced_row a (env_clock e (db_tick d))" and ?p = "cas_hit k (av_from a) (av_attempt a)"
  from assms(1) have key: "validate_provision_key k = Inr ()" and ok: "validate_advance a = Inr ()"
    and run: "cas_update k (av_from a) (av_attempt a) ?f l (d\<lparr>db_tick := db_tick d + 1\<rparr>) = Inr (v, l', d')"
    by (auto simp: advance_import_crm_provision_def read_clock_def Let_def result_simps)
  from run have hit: "first_row ?p l \<noteq> None" by (auto simp: cas_update_def rows_affected_0 split: if_splits)
  then obtain x where "x \<in> set l" "provision_at k x" by (auto simp: first_row_None cas_hit_def)
  then obtain r where r: "first_row (provision_at k) l = Some r" by (cases "first_row (provision_at k) l") (auto simp: first_row_None)
  from hit cas_hit_row [OF assms(2) r] have m: "vr_state r = av_from a \<and> vr_attempt r = av_attempt a" by (auto split: if_splits)
  from run have out: "v = provision_value (?f r)" "l' = update_rows ?p ?f l" "d' = d\<lparr>db_tick := db_tick d + 1\<rparr>"
    by (simp_all add: cas_update_iff [OF assms(2) r key] m)
  have "?p r" using m first_row_SomeD(2) [OF r] by (simp add: cas_hit_def)
  then have "first_row (provision_at k) l' = Some (?f r)" using r by (simp add: out(2) read_provision_update)
  moreover have "unique_provisions l'" using assms(2) by (simp add: out(2) unique_provisions_def map_update_rows)
  ultimately show ?thesis using r m ok out(1,3) by blast
qed

lemma advance_run:
  assumes "unique_provisions l" "validate_provision_key k = Inr ()" "first_row (provision_at k) l = Some r"
    "validate_advance a = Inr ()" "vr_state r = av_from a" "vr_attempt r = av_attempt a"
  shows "\<exists>now l'. advance_import_crm_provision e k a l d = Inr (provision_value (advanced_row a now r), l', d\<lparr>db_tick := db_tick d + 1\<rparr>)
    \<and> unique_provisions l' \<and> first_row (provision_at k) l' = Some (advanced_row a now r)"
proof -
  have "advance_import_crm_provision e k a l d = Inr (provision_value (advanced_row a (env_clock e (db_tick d)) r),
      update_rows (cas_hit k (av_from a) (av_attempt a)) (advanced_row a (env_clock e (db_tick d))) l, d\<lparr>db_tick := db_tick d + 1\<rparr>)"
    using assms(2,4-6) cas_update_iff [OF assms(1,3,2)]
    by (simp add: advance_import_crm_provision_def read_clock_def Let_def)
  with advance_ok [OF this assms(1)] assms(3) show ?thesis by auto
qed

section \<open>Retries\<close>

lemma upsert_run:
  assumes "unique_provisions l" "validate_provision_key k = Inr ()" "first_row (provision_at k) l = Some r" "length batch \<le> 26"
  shows "\<exists>now l'. upsert_start_provision e k batch l d = Inr (provision_value (restarted_row batch now r), l', d\<lparr>db_tick := db_tick d + 1\<rparr>)
    \<and> unique_provisions l' \<and> first_row (provision_at k) l' = Some (restarted_row batch now r)"
proof -
  let ?f = "restarted_row batch (env_clock e (db_tick d))"
  let ?l = "update_rows (provision_at k) ?f l"
  have row: "first_row (provision_at k) ?l = Some (?f r)"
    using assms(3) first_row_SomeD(2) [OF assms(3)] by (simp add: read_provision_update)
  then have "upsert_start_provision e k batch l d = Inr (provision_value (?f r), ?l, d\<lparr>db_tick := db_tick d + 1\<rparr>)"
    using assms(2-4) by (simp add: upsert_start_provision_def read_clock_def read_provision_def Let_def)
  moreover have "unique_provisions ?l" using assms(1) by (simp add: unique_provisions_def map_update_rows)
  ultimately show ?thesis using row by blast
qed

lemma reset_run:
  assumes "unique_provisions l" "validate_provision_key k = Inr ()" "first_row (provision_at k) l = Some r" "vr_state r = PvBlocked"
    "0 \<le> vr_attempt r"
  shows "\<exists>now l' r'. reset_import_crm_provision e k (vr_attempt r) l d = Inr (provision_value r', l', d\<lparr>db_tick := db_tick d + 1\<rparr>)
    \<and> r' = r\<lparr>vr_state := PvPending, vr_attempt := vr_attempt r + 1, vr_error_code := None, vr_error_message := None, vr_updated_at := now\<rparr>
    \<and> unique_provisions l' \<and> first_row (provision_at k) l' = Some r'"
proof -
  let ?now = "env_clock e (db_tick d)"
  let ?f = "\<lambda>x. x\<lparr>vr_state := PvPending, vr_attempt := vr_attempt r + 1, vr_error_code := None, vr_error_message := None, vr_updated_at := ?now\<rparr>"
  let ?l = "update_rows (cas_hit k PvBlocked (vr_attempt r)) ?f l"
  have hit: "cas_hit k PvBlocked (vr_attempt r) r" using assms(4) first_row_SomeD(2) [OF assms(3)] by (simp add: cas_hit_def)
  have "reset_import_crm_provision e k (vr_attempt r) l d = Inr (provision_value (?f r), ?l, d\<lparr>db_tick := db_tick d + 1\<rparr>)"
    using assms(2,4,5) by (simp add: reset_import_crm_provision_def read_clock_def Let_def cas_update_iff [OF assms(1,3,2)])
  moreover have "first_row (provision_at k) ?l = Some (?f r)" using assms(3) hit by (simp add: read_provision_update)
  moreover have "unique_provisions ?l" using assms(1) by (simp add: unique_provisions_def map_update_rows)
  ultimately show ?thesis by blast
qed

text \<open>What a retry finds: the row of a blocked attempt, opened again with everything that was obtained.\<close>

lemma open_blocked:
  assumes "unique_provisions (pw_ledger w)" "validate_provision_key k = Inr ()" "length batch \<le> 26"
    "first_row (provision_at k) (pw_ledger w) = Some r" "vr_state r = PvBlocked" "0 \<le> vr_attempt r"
  shows "\<exists>w' r'. open_provision e k batch w = (w', Inr (provision_value r')) \<and> pw_log w' = pw_log w
    \<and> unique_provisions (pw_ledger w') \<and> first_row (provision_at k) (pw_ledger w') = Some r'
    \<and> vr_state r' = PvPending \<and> vr_attempt r' = vr_attempt r + 2 \<and> vr_customer r' = vr_customer r
    \<and> vr_customer_created r' = vr_customer_created r \<and> vr_opportunity r' = vr_opportunity r
    \<and> vr_opportunity_created r' = vr_opportunity_created r \<and> vr_error_code r' = None"
proof -
  from upsert_run [OF assms(1,2,4,3), of e "pw_db w"] obtain now l where
    up: "upsert_start_provision e k batch (pw_ledger w) (pw_db w)
      = Inr (provision_value (restarted_row batch now r), l, (pw_db w)\<lparr>db_tick := db_tick (pw_db w) + 1\<rparr>)"
    and l: "unique_provisions l" "first_row (provision_at k) l = Some (restarted_row batch now r)" by blast
  let ?r = "restarted_row batch now r"
  have r: "vr_state ?r = PvBlocked" "0 \<le> vr_attempt ?r" "vr_attempt ?r = vr_attempt r + 1"
    "vr_customer ?r = vr_customer r" "vr_customer_created ?r = vr_customer_created r" "vr_opportunity ?r = vr_opportunity r"
    "vr_opportunity_created ?r = vr_opportunity_created r"
    using assms(5,6) by (simp_all add: restarted_row_def)
  have val: "pv_state (provision_value ?r) = PvBlocked" "pv_attempt (provision_value ?r) = vr_attempt ?r"
    using r(1) by (simp_all add: provision_value_def)
  from reset_run [OF l(1) assms(2) l(2) r(1,2), of e "(pw_db w)\<lparr>db_tick := db_tick (pw_db w) + 1\<rparr>"] obtain now' l' r' where
    reset: "reset_import_crm_provision e k (vr_attempt ?r) l ((pw_db w)\<lparr>db_tick := db_tick (pw_db w) + 1\<rparr>)
      = Inr (provision_value r', l', (pw_db w)\<lparr>db_tick := db_tick (pw_db w) + 1\<rparr>\<lparr>db_tick := db_tick ((pw_db w)\<lparr>db_tick := db_tick (pw_db w) + 1\<rparr>) + 1\<rparr>)"
    and r': "r' = ?r\<lparr>vr_state := PvPending, vr_attempt := vr_attempt ?r + 1, vr_error_code := None, vr_error_message := None, vr_updated_at := now'\<rparr>"
    and l': "unique_provisions l'" "first_row (provision_at k) l' = Some r'" by blast
  let ?d = "(pw_db w)\<lparr>db_tick := db_tick (pw_db w) + 1\<rparr>"
  have "open_provision e k batch w = (w\<lparr>pw_ledger := l', pw_db := ?d\<lparr>db_tick := db_tick ?d + 1\<rparr>\<rparr>, Inr (provision_value r'))"
    using assms(2) by (simp add: open_provision_def reopen_provision_def store_step_def up val provision_retry_allowed_def reset del: One_nat_def)
  with l' show ?thesis using r by (auto simp: r')
qed


lemma step_logs [simp]:
  "pw_log (fst (store_step f w)) = pw_log w" "pw_log (fst (fail_import_provision e k v f' w)) = pw_log w"
  by (auto simp: store_step_def fail_import_provision_def split: sum.splits)

lemma store_step_log [simp]: "store_step f w = (w', r) \<Longrightarrow> pw_log w' = pw_log w"
  using step_logs(1) [of f w] by simp

lemma run_bind_fail [simp]: "run_bind (fail_import_provision e k v f w) g = fail_import_provision e k v f w"
  by (simp add: fail_import_provision_def)

lemma lookup_creates:
  assumes "CallCreateCustomer actor key input \<in> set (drop (length log) (fst (lookup_or_create_customer cl e p k m owner log)))"
  shows "cl_lookup cl log (pr_identity p) (provision_idempotency_key e ''lookup'' k) (trim_space (md_customer_name m)) = Inr []
    \<and> ki_owner input = owner \<and> ki_name input = trim_space (md_customer_name m) \<and> actor = pr_identity p
    \<and> key = provision_idempotency_key e ''customer'' k"
  using assms
  by (auto simp: lookup_or_create_customer_def create_provision_customer_def Let_def split: if_splits option.splits sum.splits list.splits prod.splits)

text \<open>C21: A customer is created in the CRM only for a row without a customer, after a lookup of its name that found nobody, and for
  an owner that the directory resolved.\<close>

theorem customer_created_only_if_unknown:
  assumes "customer_step e cl p k m v w = (w', res)"
    and "CallCreateCustomer actor key input \<in> set (drop (length (pw_log w)) (pw_log w'))"
  shows "pv_state v = PvPending \<and> pv_customer v = 0
    \<and> cl_lookup cl (pw_log w) (pr_identity p) (provision_idempotency_key e ''lookup'' k) (trim_space (md_customer_name m)) = Inr []
    \<and> snd (resolve_provision_sales cl (md_sales_name m)) = Inr (ki_owner input) \<and> ki_name input = trim_space (md_customer_name m)
    \<and> actor = pr_identity p \<and> key = provision_idempotency_key e ''customer'' k"
proof -
  let ?look = "lookup_or_create_customer cl e p k m" and ?w = "customer_step e cl p k m v w"
  have end_log: "pw_log w' = pw_log (fst ?w)" using assms(1) by simp
  have grown: "pw_log w' \<noteq> pw_log w" using assms(2) by auto
  have pending: "pv_state v = PvPending" "pv_customer v = 0"
    using grown unfolding end_log by (auto simp: customer_step_def split: if_splits)
  obtain owner where owner: "snd (resolve_provision_sales cl (md_sales_name m)) = Inr owner"
    using grown unfolding end_log
    by (cases "snd (resolve_provision_sales cl (md_sales_name m))") (simp_all add: customer_step_def pending crm_step_def resolve_owner_def)
  have "pw_log (fst ?w) = fst (?look owner (pw_log w))"
    by (auto simp: customer_step_def pending crm_step_def resolve_owner_def owner split: prod.splits sum.splits)
  then have made: "CallCreateCustomer actor key input \<in> set (drop (length (pw_log w)) (fst (?look owner (pw_log w))))"
    using assms(2) end_log by simp
  from lookup_creates [OF made] show ?thesis using pending owner by simp
qed

section \<open>Failures\<close>

lemma record_error_run:
  assumes "unique_provisions l" "validate_provision_key k = Inr ()" "first_row (provision_at k) l = Some r" "validate_error_code code = Inr ()"
    "0 \<le> vr_attempt r"
  shows "\<exists>now l' r'. record_import_crm_provision_error e k (vr_state r) (vr_attempt r) code message l d
      = Inr (provision_value r', l', d\<lparr>db_tick := db_tick d + 1\<rparr>)
    \<and> r' = r\<lparr>vr_state := PvBlocked, vr_error_code := Some code, vr_error_message := Some (truncate_message message), vr_updated_at := now\<rparr>
    \<and> unique_provisions l' \<and> first_row (provision_at k) l' = Some r'"
proof -
  let ?now = "env_clock e (db_tick d)"
  let ?f = "\<lambda>x. x\<lparr>vr_state := PvBlocked, vr_error_code := Some code, vr_error_message := Some (truncate_message message), vr_updated_at := ?now\<rparr>"
  let ?p = "cas_hit k (vr_state r) (vr_attempt r)"
  have "?p r" using first_row_SomeD(2) [OF assms(3)] by (simp add: cas_hit_def)
  then have "first_row (provision_at k) (update_rows ?p ?f l) = Some (?f r)" using assms(3) by (simp add: read_provision_update)
  moreover have "unique_provisions (update_rows ?p ?f l)" using assms(1) by (simp add: unique_provisions_def map_update_rows)
  moreover have "record_import_crm_provision_error e k (vr_state r) (vr_attempt r) code message l d
      = Inr (provision_value (?f r), update_rows ?p ?f l, d\<lparr>db_tick := db_tick d + 1\<rparr>)"
    using assms(2,4,5) by (simp add: record_import_crm_provision_error_def read_clock_def Let_def cas_update_iff [OF assms(1,3,2)])
  ultimately show ?thesis by blast
qed

definition blocked_by :: "provision_failure \<Rightarrow> provision \<Rightarrow> provision \<Rightarrow> bool" where
  "blocked_by f v u \<longleftrightarrow> pv_state u = PvBlocked \<and> pv_error_code u = pf_code f \<and> pv_error_message u = truncate_message (pf_reason f)
     \<and> pv_attempt u = pv_attempt v \<and> pv_customer u = pv_customer v \<and> pv_customer_created u = pv_customer_created v
     \<and> pv_opportunity u = pv_opportunity v \<and> pv_opportunity_created u = pv_opportunity_created v"

lemma fail_blocks:
  assumes "unique_provisions (pw_ledger w)" "validate_provision_key k = Inr ()" "read_provision k (pw_ledger w) = Inr v"
    "pf_code f \<noteq> code_disabled" "validate_error_code (pf_code f) = Inr ()" "0 \<le> pv_attempt v"
  shows "\<exists>u. read_provision k (pw_ledger (fst (fail_import_provision e k v f w))) = Inr u \<and> blocked_by f v u
    \<and> db_contracts (pw_db (fst (fail_import_provision e k v f w))) = db_contracts (pw_db w)"
proof -
  from assms(3) obtain r where r: "first_row (provision_at k) (pw_ledger w) = Some r" "v = provision_value r"
    by (auto simp: read_provision_def split: option.splits)
  have v: "pv_state v = vr_state r" "pv_attempt v = vr_attempt r" by (simp_all add: r(2) provision_value_def)
  from record_error_run [OF assms(1,2) r(1) assms(5), of e "pf_reason f" "pw_db w"] assms(6) obtain now l' r' where
    run: "record_import_crm_provision_error e k (vr_state r) (vr_attempt r) (pf_code f) (pf_reason f) (pw_ledger w) (pw_db w)
      = Inr (provision_value r', l', (pw_db w)\<lparr>db_tick := db_tick (pw_db w) + 1\<rparr>)"
    and r': "r' = r\<lparr>vr_state := PvBlocked, vr_error_code := Some (pf_code f), vr_error_message := Some (truncate_message (pf_reason f)),
      vr_updated_at := now\<rparr>" and l': "first_row (provision_at k) l' = Some r'" unfolding v by blast
  have world: "fst (fail_import_provision e k v f w) = w\<lparr>pw_ledger := l', pw_db := (pw_db w)\<lparr>db_tick := db_tick (pw_db w) + 1\<rparr>\<rparr>"
    using assms(4) run by (simp add: fail_import_provision_def store_step_def v)
  have "read_provision k l' = Inr (provision_value r') \<and> blocked_by f v (provision_value r')"
    using l' by (simp add: read_provision_def blocked_by_def provision_value_def r' r(2))
  then show ?thesis unfolding world by simp
qed

lemma run_bind_Inl:
  "run_bind r f = (w', Inl x) \<longleftrightarrow> r = (w', Inl x) \<or> (\<exists>w v. r = (w, Inr v) \<and> f v w = (w', Inl x))"
  by (auto simp: run_bind_def split: prod.splits sum.splits)

lemma crm_step_failed:
  assumes "crm_step e k v call w = (w', Inl x)"
  shows "\<exists>log f. x = PeFailure f \<and> w' = fst (fail_import_provision e k v f (w\<lparr>pw_log := log\<rparr>))"
proof (cases "call (pw_log w)")
  case (Pair log r)
  with assms show ?thesis
    by (cases r) (auto simp: crm_step_def fail_import_provision_def split: if_splits intro!: exI [of _ log])
qed

lemma store_step_failure: "store_step f w \<noteq> (w', Inl (PeFailure x))"
  by (auto simp: store_step_def split: sum.splits)

lemma failed_step_world:
  assumes "customer_step e cl p k m v w = (w', Inl (PeFailure f))"
  shows "\<exists>log. w' = fst (fail_import_provision e k v f (w\<lparr>pw_log := log\<rparr>))"
proof -
  from assms consider "crm_step e k v (resolve_owner cl m) w = (w', Inl (PeFailure f))"
    | w1 identity where "crm_step e k v (resolve_owner cl m) w = (w1, Inr identity)"
      "crm_step e k v (lookup_or_create_customer cl e p k m identity) w1 = (w', Inl (PeFailure f))"
    by (auto simp: customer_step_def run_bind_Inl store_step_failure split: if_splits prod.splits)
  then show ?thesis
  proof cases
    case 1 from crm_step_failed [OF this] show ?thesis by auto
  next
    case 2
    from 2(1) obtain log1 where "w1 = w\<lparr>pw_log := log1\<rparr>" by (auto simp: crm_step_Inr)
    with crm_step_failed [OF 2(2)] show ?thesis by auto
  qed
qed

text \<open>A step that fails in the CRM or at the directory of owners leaves the row blocked with the code and the reason of the
  failure; the ids obtained so far and the attempt stay, and no contract changes.\<close>

theorem failed_step_blocks:
  assumes "unique_provisions (pw_ledger w)" "validate_provision_key k = Inr ()" "read_provision k (pw_ledger w) = Inr v"
    "customer_step e cl p k m v w = (w', Inl (PeFailure f))" "pf_code f \<noteq> code_disabled" "validate_error_code (pf_code f) = Inr ()"
    "0 \<le> pv_attempt v"
  shows "\<exists>u. read_provision k (pw_ledger w') = Inr u \<and> blocked_by f v u \<and> db_contracts (pw_db w') = db_contracts (pw_db w)"
proof -
  from failed_step_world [OF assms(4)] obtain log where w': "w' = fst (fail_import_provision e k v f (w\<lparr>pw_log := log\<rparr>))" by blast
  show ?thesis using fail_blocks [of "w\<lparr>pw_log := log\<rparr>" k v f e] assms unfolding w' by simp
qed

section \<open>Completion\<close>

definition linked_contract :: "contract \<Rightarrow> nat \<Rightarrow> contract_row \<Rightarrow> bool" where
  "linked_contract c opportunity r \<longleftrightarrow> ct_tenant r = c_tenant_id c \<and> ct_id r = c_id c \<and> ct_opportunity_id r = Some (nat_str opportunity)
     \<and> ct_opportunity_name r = string_ptr (trim_space (c_title c)) \<and> ct_version r = 1 \<and> ct_status r = StatusDraft
     \<and> ct_origin_kind r = ''IMPORTED''"

lemma linked_by_update:
  assumes "update_import_contract_opportunity e (c_tenant_id c) (c_id c) opportunity (trim_space (c_title c)) actor d = Inr d'"
  shows "opportunity \<noteq> 0" "\<exists>r \<in> set (db_contracts d'). linked_contract c opportunity r"
proof -
  let ?p = "writable_import (c_tenant_id c) (c_id c)"
  let ?f = "\<lambda>r. r\<lparr>ct_opportunity_id := string_ptr (nat_str opportunity), ct_opportunity_name := string_ptr (trim_space (c_title c)),
    ct_updated_at := env_clock e (db_tick d), ct_updated_by := actor\<rparr>"
  from assms show "opportunity \<noteq> 0" by (auto simp: update_import_contract_opportunity_def split: if_splits)
  from assms have "rows_affected ?p (db_contracts d) = 1" and d': "db_contracts d' = update_rows ?p ?f (db_contracts d)"
    by (auto simp: update_import_contract_opportunity_def read_clock_def Let_def split: if_splits)
  then have "first_row ?p (db_contracts d) \<noteq> None" by (metis rows_affected_0 zero_neq_one)
  then obtain r where r: "r \<in> set (db_contracts d)" "?p r" by (auto simp: first_row_None)
  then have "linked_contract c opportunity (?f r)" by (auto simp: linked_contract_def writable_import_def string_ptr_def)
  moreover have "?f r \<in> set (db_contracts d')" using r unfolding d' set_update_rows by blast
  ultimately show "\<exists>r \<in> set (db_contracts d'). linked_contract c opportunity r" by blast
qed

lemma write_back_ok:
  assumes "write_back_opportunity e k c opportunity v w = (w', Inr u)" "unique_provisions (pw_ledger w)" "read_provision k (pw_ledger w) = Inr v"
  shows "pv_state u = PvCompleted \<and> read_provision k (pw_ledger w') = Inr u \<and> pv_opportunity u = pv_opportunity v
    \<and> pv_opportunity_created u = pv_opportunity_created v \<and> pv_customer u = pv_customer v \<and> pw_log w' = pw_log w \<and> opportunity \<noteq> 0
    \<and> (\<exists>r \<in> set (db_contracts (pw_db w')). linked_contract c opportunity r)"
proof -
  from assms(1) obtain d l d' where
    up: "update_import_contract_opportunity e (c_tenant_id c) (c_id c) opportunity (trim_space (c_title c)) (c_created_by c) (pw_db w) = Inr d"
    and adv: "advance_import_crm_provision e k (plain_advance v PvCompleted) (pw_ledger w) d = Inr (u, l, d')"
    and w': "w' = w\<lparr>pw_db := d, pw_ledger := l, pw_db := d'\<rparr>"
    by (auto simp: write_back_opportunity_def store_step_Inr split: sum.splits)
  from advance_ok [OF adv assms(2)] obtain r now where
    r: "first_row (provision_at k) (pw_ledger w) = Some r" "u = provision_value (advanced_row (plain_advance v PvCompleted) now r)"
      "d' = d\<lparr>db_tick := db_tick d + 1\<rparr>" "first_row (provision_at k) l = Some (advanced_row (plain_advance v PvCompleted) now r)" by blast
  have v: "v = provision_value r" using assms(3) r(1) by (simp add: read_provision_def)
  show ?thesis
    using linked_by_update [OF up] r(3,4) unfolding w'
    by (simp add: r(2) v read_provision_def provision_value_def advanced_row_def plain_advance_def Let_def)
qed

text \<open>The step that records the opportunity.\<close>

lemma opportunity_recorded:
  assumes "advance_import_crm_provision e k ((plain_advance v PvOpportunityReady)\<lparr>av_opportunity := n, av_opportunity_created := b\<rparr>) l d
      = Inr (u, l', d')" "unique_provisions l" "n \<noteq> 0"
  shows "pv_opportunity u = n \<and> pv_opportunity_created u = b \<and> read_provision k l' = Inr u \<and> unique_provisions l'"
proof -
  from advance_ok [OF assms(1,2)] obtain r now where
    u: "u = provision_value (advanced_row ((plain_advance v PvOpportunityReady)\<lparr>av_opportunity := n, av_opportunity_created := b\<rparr>) now r)"
    and l': "unique_provisions l'"
      "first_row (provision_at k) l' = Some (advanced_row ((plain_advance v PvOpportunityReady)\<lparr>av_opportunity := n, av_opportunity_created := b\<rparr>) now r)"
    by blast
  show ?thesis using l' assms(3) by (simp add: u read_provision_def provision_value_def advanced_row_def Let_def uint_value_or_zero_def)
qed

lemma sign_log:
  "fst (sign_provision_opportunity cl e p k n reference log) = log @ [CallSign (pr_identity p) (provision_idempotency_key e ''sign'' k) n reference]"
  by (auto simp: sign_provision_opportunity_def Let_def split: sum.splits)

lemma created_opportunity_nonzero:
  "create_provision_opportunity cl e p k c owner log = (log', Inr n) \<Longrightarrow> n \<noteq> 0"
  by (auto simp: create_provision_opportunity_def Let_def split: sum.splits if_splits)

lemma complete_ok:
  assumes "complete_provision_opportunity e cl p k m c v w = (w', Inr u)" "unique_provisions (pw_ledger w)" "pv_state v \<noteq> PvOpportunityReady"
  shows "\<exists>n b log w1 u1. n \<noteq> 0 \<and> (pv_opportunity v \<noteq> 0 \<longrightarrow> n = pv_opportunity v \<and> \<not> b \<and> log = pw_log w)
    \<and> unique_provisions (pw_ledger w1) \<and> read_provision k (pw_ledger w1) = Inr u1 \<and> pv_opportunity u1 = n \<and> pv_opportunity_created u1 = b
    \<and> pw_log w1 = log @ [CallSign (pr_identity p) (provision_idempotency_key e ''sign'' k) n (c_id c)]
    \<and> write_back_opportunity e k c n u1 w1 = (w', Inr u)"
proof -
  let ?got = "if pv_opportunity v \<noteq> 0 then (w, Inr (pv_opportunity v, False))
    else run_bind (crm_step e k v (resolve_owner cl m) w) (\<lambda>identity w.
           run_bind (crm_step e k v (create_provision_opportunity cl e p k c identity) w) (\<lambda>opportunity w. (w, Inr (opportunity, True))))"
  let ?a = "\<lambda>n b. (plain_advance v PvOpportunityReady)\<lparr>av_opportunity := n, av_opportunity_created := b\<rparr>"
  from assms(1,3) obtain w0 n b w2 s w1 u1 where got: "?got = (w0, Inr (n, b))"
    and sign: "crm_step e k v (sign_provision_opportunity cl e p k n (c_id c)) w0 = (w2, Inr s)"
    and adv: "store_step (advance_import_crm_provision e k (?a n b)) w2 = (w1, Inr u1)"
    and wrote: "write_back_opportunity e k c n u1 w1 = (w', Inr u)"
    unfolding complete_provision_opportunity_def by (auto simp: run_bind_Inr split: prod.splits)
  have n: "n \<noteq> 0" "pv_opportunity v \<noteq> 0 \<longrightarrow> n = pv_opportunity v \<and> \<not> b \<and> pw_log w0 = pw_log w" "pw_ledger w0 = pw_ledger w"
    using got by (auto simp: run_bind_Inr crm_step_Inr dest: created_opportunity_nonzero split: if_splits)
  have w2: "w2 = w0\<lparr>pw_log := pw_log w0 @ [CallSign (pr_identity p) (provision_idempotency_key e ''sign'' k) n (c_id c)]\<rparr>"
    using sign sign_log [of cl e p k n "c_id c" "pw_log w0"] by (auto simp: crm_step_Inr)
  from adv obtain l d where run: "advance_import_crm_provision e k (?a n b) (pw_ledger w) (pw_db w2) = Inr (u1, l, d)"
    and w1: "w1 = w2\<lparr>pw_ledger := l, pw_db := d\<rparr>" by (auto simp: store_step_Inr w2 n(3))
  from opportunity_recorded [OF run assms(2) n(1)] show ?thesis
    using n(1,2) wrote by (intro exI [of _ n] exI [of _ b] exI [of _ "pw_log w0"] exI [of _ w1] exI [of _ u1]) (simp add: w1 w2)
qed

text \<open>C22: A completed provision is linked on both sides: the ledger stands at its last state with the opportunity, and the imported
  contract carries that opportunity while it keeps version 1 and its draft status, which the confirmation of the history needs.\<close>

theorem completed_provision_linked:
  assumes "complete_provision_opportunity e cl p k m c v w = (w', Inr u)" "unique_provisions (pw_ledger w)"
    "read_provision k (pw_ledger w) = Inr v"
  shows "pv_state u = PvCompleted \<and> read_provision k (pw_ledger w') = Inr u \<and> pv_opportunity u \<noteq> 0
    \<and> (\<exists>r \<in> set (db_contracts (pw_db w')). linked_contract c (pv_opportunity u) r)"
proof (cases "pv_state v = PvOpportunityReady")
  case True
  then have "write_back_opportunity e k c (pv_opportunity v) v w = (w', Inr u)"
    using assms(1) by (simp add: complete_provision_opportunity_def)
  from write_back_ok [OF this assms(2,3)] show ?thesis by simp
next
  case False
  from complete_ok [OF assms(1,2) False] obtain n w1 u1 where "unique_provisions (pw_ledger w1)" "read_provision k (pw_ledger w1) = Inr u1"
    "pv_opportunity u1 = n" "write_back_opportunity e k c n u1 w1 = (w', Inr u)" by blast
  from write_back_ok [OF this(4,1,2)] this(3) show ?thesis by simp
qed

text \<open>C23: When a row comes back to the opportunity step with the opportunity it already opened, nothing is opened again, only the
  signature is repeated, but the ledger now says the opportunity was found rather than created, whatever it said before.\<close>

theorem retried_opportunity_forgets_creation:
  assumes "complete_provision_opportunity e cl p k m c v w = (w', Inr u)" "unique_provisions (pw_ledger w)"
    "pv_state v \<noteq> PvOpportunityReady" "pv_opportunity v \<noteq> 0"
  shows "pv_opportunity u = pv_opportunity v \<and> \<not> pv_opportunity_created u
    \<and> pw_log w' = pw_log w @ [CallSign (pr_identity p) (provision_idempotency_key e ''sign'' k) (pv_opportunity v) (c_id c)]"
proof -
  from complete_ok [OF assms(1-3)] assms(4) obtain n w1 u1 where n: "n = pv_opportunity v"
    and u1: "unique_provisions (pw_ledger w1)" "read_provision k (pw_ledger w1) = Inr u1" "pv_opportunity u1 = n" "\<not> pv_opportunity_created u1"
    and log: "pw_log w1 = pw_log w @ [CallSign (pr_identity p) (provision_idempotency_key e ''sign'' k) n (c_id c)]"
    and wrote: "write_back_opportunity e k c n u1 w1 = (w', Inr u)" by blast
  from write_back_ok [OF wrote u1(1,2)] u1(3,4) log show ?thesis by (simp add: n)
qed

section \<open>Samples\<close>

definition sample_provision_row :: provision_row where
  "sample_provision_row = \<lparr>vr_key = sample_provision_key, vr_batch = Some ''b'', vr_customer = Some 7, vr_customer_created = True,
     vr_opportunity = Some 9, vr_opportunity_created = True, vr_state = PvBlocked, vr_attempt = 4, vr_error_code = Some code_crm_rejected,
     vr_error_message = Some ''x'', vr_created_at = 0, vr_updated_at = 0\<rparr>"

definition sample_imported :: contract where
  "sample_imported = empty_contract\<lparr>c_id := ''c1'', c_tenant_id := ''t1'', c_title := ''t'', c_created_by := ''u1''\<rparr>"

definition sample_provision_world :: "provision_row \<Rightarrow> provision_world" where
  "sample_provision_world r = \<lparr>pw_ledger = [r], pw_db = sample_db [sample_contract\<lparr>ct_origin_kind := ''IMPORTED''\<rparr>], pw_log = []\<rparr>"

text \<open>A CRM that knows nobody and numbers what it opens.\<close>

definition sample_crm :: crm_clients where
  "sample_crm = \<lparr>cl_lookup = (\<lambda>_ _ _ _. Inr []), cl_create_customer = (\<lambda>_ _ _ _. Inr (7, [])), cl_create_opportunity = (\<lambda>_ _ _ _. Inr 9),
     cl_sign = (\<lambda>_ _ _ n _. Inr n), cl_owner = (\<lambda>_. Inr ''o1'')\<rparr>"

lemma sample_crm_simps:
  "cl_lookup sample_crm log actor key name = Inr []" "cl_create_customer sample_crm log actor key input = Inr (7, [])"
  "cl_create_opportunity sample_crm log actor key offer = Inr 9" "cl_sign sample_crm log actor key n reference = Inr n"
  "cl_owner sample_crm name = Inr ''o1''"
  by (simp_all add: sample_crm_def)


definition fresh_provision_row :: provision_row where
  "fresh_provision_row = sample_provision_row\<lparr>vr_customer := None, vr_customer_created := False, vr_opportunity := None,
     vr_opportunity_created := False, vr_state := PvPending, vr_attempt := 0, vr_error_code := None, vr_error_message := None\<rparr>"

lemma trim_samples: "trim_space ''customer'' = ''customer''" "trim_space ''Ann'' = ''Ann''" "trim_space ''o1'' = ''o1''" "trim_space ''t'' = ''t''"
  "trim_space [] = []"
  by code_simp+

lemma rune_count_samples: "rune_count ''customer'' \<le> 255" "rune_count ''Ann'' \<le> 128" "rune_count [] \<le> 64"
  using rune_count_le [of "''customer''"] rune_count_le [of "''Ann''"] rune_count_le [of "[]"] by simp_all

lemma sample_profile: "profile_failure sample_metadata = None"
  using rune_count_samples(3)
  by (simp add: profile_failure_def overlong_profile_column_def provision_customer_profile_def sample_metadata_def trim_samples max_profile_length_def)

lemma sample_sales: "snd (resolve_provision_sales sample_crm (md_sales_name sample_metadata)) = Inr ''o1''"
  using rune_count_samples(2)
  by (simp add: resolve_provision_sales_def sample_metadata_def trim_samples sample_crm_simps Let_def)

theorem customer_created_only_if_unknown_witness:
  "pv_customer (provision_value fresh_provision_row) = 0
    \<and> (\<exists>input w' res. customer_step sample_db_env sample_crm seller sample_provision_key sample_metadata (provision_value fresh_provision_row)
         (sample_provision_world fresh_provision_row) = (w', res)
       \<and> CallCreateCustomer (pr_identity seller) (provision_idempotency_key sample_db_env ''customer'' sample_provision_key) input \<in> set (pw_log w')
       \<and> ki_owner input = ''o1'')"
proof -
  let ?w = "sample_provision_world fresh_provision_row" and ?v = "provision_value fresh_provision_row"
  let ?s = "customer_step sample_db_env sample_crm seller sample_provision_key sample_metadata ?v ?w"
  let ?input = "\<lparr>ki_name = ''customer'', ki_type = [], ki_industry = [], ki_region = [], ki_owner = ''o1''\<rparr>"
  let ?call = "CallCreateCustomer (pr_identity seller) (provision_idempotency_key sample_db_env ''customer'' sample_provision_key) ?input"
  have v: "pv_state ?v = PvPending" "pv_customer ?v = 0"
    by (simp_all add: provision_value_def fresh_provision_row_def uint_value_or_zero_def)
  have name: "trim_space (md_customer_name sample_metadata) = ''customer''" "provision_customer_profile sample_metadata = ([], [], [])"
    by (simp_all add: sample_metadata_def provision_customer_profile_def trim_samples)
  have "?call \<in> set (pw_log (fst ?s))"
    using rune_count_samples(1)
    by (auto simp: customer_step_def v crm_step_def resolve_owner_def sample_sales lookup_or_create_customer_def create_provision_customer_def name
        sample_profile Let_def trim_samples sample_crm_simps split: prod.splits sum.splits)
  moreover obtain w' res where run: "?s = (w', res)" by (cases ?s)
  moreover have "pw_log ?w = []" by (simp add: sample_provision_world_def)
  ultimately have made: "?call \<in> set (drop (length (pw_log ?w)) (pw_log w'))" by simp
  from customer_created_only_if_unknown [OF run made] have "pv_customer ?v = 0" by blast
  with run in_set_dropD [OF made] show ?thesis by fastforce
qed

definition rejecting_crm :: crm_clients where
  "rejecting_crm = sample_crm\<lparr>cl_lookup := (\<lambda>_ _ _ _. Inl \<lparr>xe_failure = None, xe_code = None, xe_unavailable = True, xe_text = ''down''\<rparr>)\<rparr>"

theorem failed_step_blocks_witness:
  "\<exists>w' f u. customer_step sample_db_env rejecting_crm seller sample_provision_key sample_metadata (provision_value fresh_provision_row)
       (sample_provision_world fresh_provision_row) = (w', Inl (PeFailure f))
     \<and> read_provision sample_provision_key (pw_ledger w') = Inr u \<and> pv_state u = PvBlocked \<and> pv_error_code u = code_crm_rejected \<and> pf_retryable f"
proof -
  let ?w = "sample_provision_world fresh_provision_row" and ?v = "provision_value fresh_provision_row"
  let ?f = "\<lparr>pf_field = ''metadata'', pf_code = code_crm_rejected, pf_retryable = True, pf_reason = ''down''\<rparr>"
  let ?s = "customer_step sample_db_env rejecting_crm seller sample_provision_key sample_metadata ?v ?w"
  have v: "pv_state ?v = PvPending" "pv_customer ?v = 0" "0 \<le> pv_attempt ?v"
    by (simp_all add: provision_value_def fresh_provision_row_def uint_value_or_zero_def)
  have down: "cl_lookup rejecting_crm log actor key label
    = Inl \<lparr>xe_failure = None, xe_code = None, xe_unavailable = True, xe_text = ''down''\<rparr>" for log actor key label
    by (simp add: rejecting_crm_def)
  have owner: "cl_owner rejecting_crm = cl_owner sample_crm" by (simp add: rejecting_crm_def)
  have sales: "snd (resolve_provision_sales rejecting_crm (md_sales_name sample_metadata)) = Inr ''o1''"
    using sample_sales unfolding resolve_provision_sales_def by (simp only: owner)
  have name: "trim_space (md_customer_name sample_metadata) = ''customer''" by (simp add: sample_metadata_def trim_samples)
  have "snd ?s = Inl (PeFailure ?f)"
    using rune_count_samples(1)
    by (simp add: customer_step_def v crm_step_def resolve_owner_def sales lookup_or_create_customer_def name sample_profile Let_def
        down classify_crm_error_def)
  then obtain w' where run: "?s = (w', Inl (PeFailure ?f))" by (metis surjective_pairing)
  have "unique_provisions (pw_ledger ?w)" "read_provision sample_provision_key (pw_ledger ?w) = Inr ?v"
    by (simp_all add: sample_provision_world_def unique_provisions_def read_provision_def provision_at_def fresh_provision_row_def sample_provision_row_def)
  from failed_step_blocks [OF this(1) sample_key_valid this(2) run _ _ v(3)] run show ?thesis
    by (auto simp: code_crm_rejected_def code_disabled_def validate_error_code_def max_error_code_def blocked_by_def)
qed

definition opened_provision_row :: provision_row where
  "opened_provision_row = sample_provision_row\<lparr>vr_state := PvContractReady, vr_error_code := None, vr_error_message := None\<rparr>"

lemma sample_completion:
  "\<exists>w' u. complete_provision_opportunity sample_db_env sample_crm seller sample_provision_key sample_metadata sample_imported
     (provision_value opened_provision_row) (sample_provision_world opened_provision_row) = (w', Inr u)"
proof -
  let ?w = "sample_provision_world opened_provision_row" and ?v = "provision_value opened_provision_row"
  let ?a = "(plain_advance ?v PvOpportunityReady)\<lparr>av_opportunity := 9, av_opportunity_created := False\<rparr>"
  have v: "pv_state ?v = PvContractReady" "pv_opportunity ?v = 9" "pv_attempt ?v = 4"
    by (simp_all add: provision_value_def opened_provision_row_def sample_provision_row_def uint_value_or_zero_def)
  note states = validate_advance_def provision_transition_allowed_def known_provision_state_def terminal_provision_state_def
  have l: "unique_provisions (pw_ledger ?w)" "first_row (provision_at sample_provision_key) (pw_ledger ?w) = Some opened_provision_row"
    by (simp_all add: sample_provision_world_def unique_provisions_def provision_at_def opened_provision_row_def sample_provision_row_def)
  have a: "validate_advance ?a = Inr ()" "vr_state opened_provision_row = av_from ?a" "vr_attempt opened_provision_row = av_attempt ?a"
    by (simp_all add: states plain_advance_def v) (simp_all add: opened_provision_row_def sample_provision_row_def)
  from advance_run [OF l(1) sample_key_valid l(2) a, of sample_db_env "pw_db ?w"] obtain now l1 where
    one: "advance_import_crm_provision sample_db_env sample_provision_key ?a (pw_ledger ?w) (pw_db ?w)
      = Inr (provision_value (advanced_row ?a now opened_provision_row), l1, (pw_db ?w)\<lparr>db_tick := db_tick (pw_db ?w) + 1\<rparr>)"
    and l1: "unique_provisions l1" "first_row (provision_at sample_provision_key) l1 = Some (advanced_row ?a now opened_provision_row)" by blast
  let ?r = "advanced_row ?a now opened_provision_row" and ?d = "(pw_db ?w)\<lparr>db_tick := db_tick (pw_db ?w) + 1\<rparr>"
  have r: "vr_state ?r = PvOpportunityReady" "vr_attempt ?r = 5" by (simp_all add: advanced_row_def plain_advance_def Let_def v)
  let ?b = "plain_advance (provision_value ?r) PvCompleted"
  have b: "validate_advance ?b = Inr ()" "vr_state ?r = av_from ?b" "vr_attempt ?r = av_attempt ?b"
    using r by (simp_all add: states plain_advance_def provision_value_def)
  have "\<exists>d. update_import_contract_opportunity sample_db_env (c_tenant_id sample_imported) (c_id sample_imported) 9
      (trim_space (c_title sample_imported)) (c_created_by sample_imported) ?d = Inr d"
    by (simp add: update_import_contract_opportunity_def read_clock_def sample_imported_def sample_provision_world_def sample_db_def rows_affected_def
        writable_import_def sample_contract_def)
  then obtain d where up: "update_import_contract_opportunity sample_db_env (c_tenant_id sample_imported) (c_id sample_imported) 9
      (trim_space (c_title sample_imported)) (c_created_by sample_imported) ?d = Inr d" by blast
  from advance_run [OF l1(1) sample_key_valid l1(2) b, of sample_db_env d] obtain now2 l2 where
    two: "advance_import_crm_provision sample_db_env sample_provision_key ?b l1 d
      = Inr (provision_value (advanced_row ?b now2 ?r), l2, d\<lparr>db_tick := db_tick d + 1\<rparr>)" by blast
  show ?thesis
    by (simp add: complete_provision_opportunity_def v crm_step_def sign_provision_opportunity_def sample_crm_simps Let_def store_step_def one
        write_back_opportunity_def up two del: One_nat_def)
qed

lemma opened_sample:
  "unique_provisions (pw_ledger (sample_provision_world opened_provision_row))"
  "read_provision sample_provision_key (pw_ledger (sample_provision_world opened_provision_row)) = Inr (provision_value opened_provision_row)"
  "pv_state (provision_value opened_provision_row) = PvContractReady" "pv_opportunity (provision_value opened_provision_row) = 9"
  "pv_opportunity_created (provision_value opened_provision_row)"
  by (simp_all add: sample_provision_world_def unique_provisions_def read_provision_def provision_at_def provision_value_def opened_provision_row_def
      sample_provision_row_def uint_value_or_zero_def)

theorem completed_provision_linked_witness:
  "\<exists>w' u. complete_provision_opportunity sample_db_env sample_crm seller sample_provision_key sample_metadata sample_imported
      (provision_value opened_provision_row) (sample_provision_world opened_provision_row) = (w', Inr u)
    \<and> pv_state u = PvCompleted \<and> (\<exists>r \<in> set (db_contracts (pw_db w')). linked_contract sample_imported (pv_opportunity u) r)"
proof -
  from sample_completion obtain w' u where run: "complete_provision_opportunity sample_db_env sample_crm seller sample_provision_key sample_metadata
      sample_imported (provision_value opened_provision_row) (sample_provision_world opened_provision_row) = (w', Inr u)" by blast
  from completed_provision_linked [OF run opened_sample(1,2)] run show ?thesis by blast
qed

theorem retried_opportunity_forgets_creation_witness:
  "pv_opportunity_created (provision_value opened_provision_row)
    \<and> (\<exists>w' u. complete_provision_opportunity sample_db_env sample_crm seller sample_provision_key sample_metadata sample_imported
        (provision_value opened_provision_row) (sample_provision_world opened_provision_row) = (w', Inr u)
      \<and> pv_opportunity u = 9 \<and> \<not> pv_opportunity_created u)"
proof -
  from sample_completion obtain w' u where run: "complete_provision_opportunity sample_db_env sample_crm seller sample_provision_key sample_metadata
      sample_imported (provision_value opened_provision_row) (sample_provision_world opened_provision_row) = (w', Inr u)" by blast
  from retried_opportunity_forgets_creation [OF run opened_sample(1)] run show ?thesis by (simp add: opened_sample)
qed

end
