(* ===== verification/Spec2Isabelle.thy ===== *)
theory Spec2Isabelle
  imports Contract_Status Approval_Rule Number_Rule Business_Clock Payment_Term Workflow_Run Status_Change Contract_Model Responsibility Number_Allocation Project_Delivery Contract_Store Financial Approval_Repository Contract_Operations Signing Opportunity Administration Handover Access Ledger Reports Service Catalog Templates Contract_Service Approval_Service Import_Manifest Import_Provision Import_Crm
begin

text \<open>
  The contract management service: contracts, their approval, numbering, signing and hand-over, with the queues that tell
  other systems about them.

  \<^bold>\<open>The program.\<close> A Go service over MySQL. \<^verbatim>\<open>internal/domain\<close> holds the pure rules (life cycle,
  approval rules, number rule, payment plans, import policy). \<^verbatim>\<open>internal/infrastructure/mysql\<close> is the
  repository: every write is one transaction that locks the contract row, checks versions and states, changes the tables and
  inserts the audit event and the outbox rows that belong to the change. \<^verbatim>\<open>internal/workflows\<close> has the two
  approval workflows that run on Temporal and call the repository through activities. \<^verbatim>\<open>internal/application\<close>
  is the service: licence, permission and scope checks and the validation of input before the repository is called.
  \<^verbatim>\<open>internal/auditoutbox\<close> and \<^verbatim>\<open>internal/integration\<close> deliver the queues.

  \<^bold>\<open>How the parts meet.\<close> A contract is created and edited as a draft (\<open>Contract_Service\<close>,
  \<open>Contract_Operations\<close>). Submitting it fixes the approval nodes by the highest matching rule (\<open>Approval_Rule\<close>, \<open>Approval_Service\<close>) and starts the workflow of \<open>Workflow_Run\<close>, which drives
  \<open>Approval_Repository\<close> through the interface \<open>approval_backend\<close>. The completed approval allocates the
  number (\<open>Number_Allocation\<close>), changes the status (\<open>Contract_Store\<close>) and enqueues the project, finance,
  responsibility and notification rows (\<open>Project_Delivery\<close>, \<open>Financial\<close>, \<open>Responsibility\<close>),
  which dispatchers deliver (\<open>Outbox\<close>, \<open>Outbox_Delivery\<close>, \<open>Audit_Outbox\<close>). Later status changes go
  through \<open>Status_Change\<close> or directly (\<open>Contract_Operations\<close>); financial terms change through
  \<open>Financial\<close>; the paper copies are followed by \<open>Signing\<close>; opportunities of the CRM are linked by
  \<open>Opportunity\<close>; the responsibilities of a leaver are moved by \<open>Handover\<close>.

  \<^bold>\<open>Theories and sources\<close> (paths under \<^verbatim>\<open>src/internal\<close>).
  \<^item> \<open>Prelude\<close>, \<open>Go_Strings\<close>: errors as a datatype, \<open>'a result\<close> for Go's value and error, table
    scans, the locales \<open>guarded_update\<close> and \<open>invariant_system\<close>; UTF-8 runes, trimming, decimal printing.
  \<^item> \<open>Contract_Status\<close>, \<open>Approval_Rule\<close>, \<open>Number_Rule\<close>, \<open>Payment_Term\<close>,
    \<open>Contract_Model\<close>: \<^verbatim>\<open>domain/contract\<close>, \<^verbatim>\<open>domain/approval\<close>;
    \<open>Business_Clock\<close>: \<^verbatim>\<open>businessclock\<close>.
  \<^item> \<open>Approval_Workflow\<close> (commands), \<open>Workflow_Run\<close>, \<open>Status_Change\<close>: \<^verbatim>\<open>workflows\<close>,
    as machines over an event list; a run is a list of signals, timer firings and activity outcomes.
  \<^item> \<open>Database\<close>: the rows of \<^verbatim>\<open>mysql/models.go\<close>, one record \<open>db\<close> with a list per
    table, a counter for the clock readings and one for the generated identifiers; \<open>insert_row\<close> is an insert with its
    unique keys, \<open>update_rows\<close> an update with its condition.
  \<^item> \<open>Responsibility\<close>, \<open>Number_Allocation\<close>, \<open>Project_Delivery\<close>, \<open>Contract_Store\<close>,
    \<open>Financial\<close>, \<open>Approval_Backend\<close>, \<open>Approval_Repository\<close>, \<open>Contract_Operations\<close>,
    \<open>Signing\<close>, \<open>Opportunity\<close>, \<open>Administration\<close>, \<open>Handover\<close>: the transactions of
    \<^verbatim>\<open>infrastructure/mysql\<close>, one definition per operation.
  \<^item> \<open>Access\<close>, \<open>Ledger\<close>, \<open>Reports\<close>: scopes, lists, pages and statistics of the repository and the service.
  \<^item> \<open>Service\<close>: the guarded operations of \<^verbatim>\<open>application/service.go\<close>,
    \<^verbatim>\<open>contract_number.go\<close>, \<^verbatim>\<open>contract_financial_change.go\<close>, \<^verbatim>\<open>opportunity_intakes.go\<close>
    and \<^verbatim>\<open>integration_outbox.go\<close>.
  \<^item> \<open>Catalog\<close>: \<^verbatim>\<open>local_catalog.go\<close> and \<^verbatim>\<open>local_catalog_grants.go\<close> of both layers;
    \<open>Templates\<close>: \<^verbatim>\<open>templates.go\<close>, \<^verbatim>\<open>template_file_lifecycle.go\<close>,
    \<^verbatim>\<open>template_file_dispatcher.go\<close>.
  \<^item> \<open>Contract_Service\<close>: the preparation of contracts, creation and draft editing (\<^verbatim>\<open>service.go\<close>,
    \<^verbatim>\<open>contract_sources.go\<close>, \<^verbatim>\<open>crm_references.go\<close>, \<^verbatim>\<open>draft.go\<close>).
  \<^item> \<open>Approval_Service\<close>: submission, status changes, commands, transfers, the approval page and recovery
    (\<^verbatim>\<open>service.go\<close> and the reads of \<^verbatim>\<open>repository.go\<close>).
  \<^item> \<open>Import_Manifest\<close>: \<^verbatim>\<open>domain/contract/import.go\<close> and \<^verbatim>\<open>import_history.go\<close>;
    \<open>Import_Provision\<close>: the state machine and the table of \<^verbatim>\<open>import_crm_provision.go\<close> (domain and
    mysql); \<open>Import_Crm\<close>: the steps of \<^verbatim>\<open>application/contract_import_provision.go\<close>, over a log of CRM calls.

  \<^bold>\<open>What is shown.\<close>
  \<^item> Approval: the two workflows reach a final status only through legal commands, an approved contract was approved on
    every node by somebody other than the applicant, each accepted command is recorded once and the completion carries the
    final status; over the repository a run settles the contract as the specification says (a refinement through
    \<open>approval_backend\<close>), and a started approval can always be brought to an end. A submission staffs every node with
    holders of its role, commands are authorised, a recovery follows the record; the theorems also pin three defects of this
    part: a recorded decision cannot be recovered, a lone administrator waits for himself, and the approval page is not confined.
  \<^item> Rules and numbers: selection by priority, admission of rules, sequences within their width, numbers issued once, the
    first free number among the next 50.
  \<^item> Money: payment plans balance, printing and parsing amounts are inverse, a financial change takes effect as a whole.
  \<^item> Queues: responsibility events refine a versioned register, the reconciliation loop returns, audit events are kept
    until they are sent; the dispatcher lemmas are proved in the locale \<open>delivery_store\<close> and interpreted on the outbox table.
  \<^item> Life cycle: creation reads back, the daily archive run is exact, direct transitions are guarded, a completed signing
    pins the newest document, phones are sealed and masked.
  \<^item> Drafts: what the preparation lets through is complete and stable, a created contract is the creator's draft, an edit keeps
    the identity and the source.
  \<^item> Access and lists: the SQL scope equals the object check, sales users are confined, keywords are literal, pages
    partition the ledger, the dashboard adds up.
  \<^item> Import: the manifest and the evidence are accepted exactly under their rules; every reachable ledger is sound and its guarded
    update refines the pure state machine; a retry reuses the customer without a call, a customer is created only when the lookup
    found nobody, a completed provision is linked on both sides, and a retried opportunity loses its created flag.
  \<^item> Catalogue and templates: well-formed tables in every reachable state, references only to authorised entries, source
    files of templates consistent with their delivery.

  \<^bold>\<open>Interfaces.\<close> \<open>invariant_system\<close> is interpreted on the life cycle, both workflows, the signing tables, the
  template store and the provision ledger; \<open>guarded_update\<close> on the catalogue; \<open>approval_backend\<close> on the repository; \<open>delivery_store\<close>
  on the outbox tables.

  \<^bold>\<open>Bounds and loops.\<close> Loops over slices are structural recursion. The bounded loops carry the bound of the code: 50
  number attempts, 20 purge rounds, 1000 archive candidates, pages of at most 200 rows, 20 template files per round. The
  reconciliation of responsibilities and the count of a leaver's responsibilities have no bound in the code; they are
  \<^theory_text>\<open>partial_function (option)\<close>, and that they return is proved. Amounts are 64-bit integers with the range
  checks of the code; row versions grow by one and are natural numbers.

  \<^bold>\<open>Assumptions.\<close> Code outside the repository is a parameter: the clock and the identifier generator (\<open>env\<close>),
  SHA-256, the collation of the database, the phone cipher, the DOCX functions, the licence, the file gateway, the personnel and
  grant directories. Identifier columns are compared byte for byte. A transaction is atomic and isolated, which the row locks
  of the code provide; apart from key clashes the storage does not fail. Empty and nil slices are the same value. The tables of
  the number rule exist together or not at all. GORM's \<^verbatim>\<open>Save\<close> is an update by primary key that becomes an upsert
  when no row has the key.

  \<^bold>\<open>Not modelled.\<close> The HTTP transport (\<^verbatim>\<open>transport/httpapi\<close>, decoding and status codes), configuration and
  start-up (\<^verbatim>\<open>config\<close>, \<^verbatim>\<open>cmd\<close>), OIDC and the platform clients, which only carry data to and from
  external systems; DOCX and PDF processing (\<^verbatim>\<open>docx\<close>, \<^verbatim>\<open>contractdocument\<close>), whose file formats
  are outside the logic of contracts; the batches of the import of historical contracts (the other
  \<^verbatim>\<open>contract_import\<close> files: previews, commits, confirmations and targets over stored JSON snapshots), a second system
  of its own; the branches of the service for repositories other than MySQL, which only tests use;
  log lines and tickers.
\<close>

end
